(* ===== verification/Prelude.thy ===== *)
theory Prelude
  imports Main "HOL-Library.Char_ord" "HOL-Library.List_Lexorder"
begin

text \<open>
  Shared ground of the development: the collections of facts the component proofs use, the
  result type of commands that may raise after they have written to disk, a weakest
  precondition calculus for them, and the fragment of Python's \<open>str\<close> the sources use
  (on ASCII text).
\<close>

section \<open>Collections of facts\<close>

named_theorems wp_simps \<open>weakest preconditions of the command combinators\<close>
named_theorems wp_intro \<open>introduction rules for weakest preconditions, one per combinator\<close>
named_theorems run_simps \<open>inversion of successful runs of the command combinators\<close>

section \<open>Commands: state passing with exceptions\<close>

text \<open>
  A service function of the program reads and writes files and may raise. What it wrote
  before it raised stays on disk, so a command returns its final state in both cases:
  \<open>Inl e\<close> is a raised error, \<open>Inr x\<close> a returned value.
\<close>

type_synonym ('s, 'e, 'a) cmd = "'s \<Rightarrow> ('e + 'a) \<times> 's"

definition returnE :: "'a \<Rightarrow> ('s, 'e, 'a) cmd" where
  "returnE x = (\<lambda>s. (Inr x, s))"

definition raiseE :: "'e \<Rightarrow> ('s, 'e, 'a) cmd" where
  "raiseE e = (\<lambda>s. (Inl e, s))"

definition bindE :: "('s, 'e, 'a) cmd \<Rightarrow> ('a \<Rightarrow> ('s, 'e, 'b) cmd) \<Rightarrow> ('s, 'e, 'b) cmd" where
  "bindE m f = (\<lambda>s. case m s of
      (Inl e, s') \<Rightarrow> (Inl e, s')
    | (Inr x, s') \<Rightarrow> f x s')"

definition thenE :: "('s, 'e, 'a) cmd \<Rightarrow> ('s, 'e, 'b) cmd \<Rightarrow> ('s, 'e, 'b) cmd" where
  "thenE m k = bindE m (\<lambda>_. k)"

text \<open>Reads: total (\<open>getsE\<close>) or raising (\<open>readE\<close>). Writes: \<open>modifyE\<close>.\<close>

definition getsE :: "('s \<Rightarrow> 'a) \<Rightarrow> ('s, 'e, 'a) cmd" where
  "getsE f = (\<lambda>s. (Inr (f s), s))"

definition readE :: "('s \<Rightarrow> 'e + 'a) \<Rightarrow> ('s, 'e, 'a) cmd" where
  "readE f = (\<lambda>s. (f s, s))"

definition modifyE :: "('s \<Rightarrow> 's) \<Rightarrow> ('s, 'e, unit) cmd" where
  "modifyE f = (\<lambda>s. (Inr (), f s))"

text \<open>\<open>guardE b e\<close> is \<open>if not b: raise e\<close>.\<close>

definition guardE :: "bool \<Rightarrow> 'e \<Rightarrow> ('s, 'e, unit) cmd" where
  "guardE b e = (if b then returnE () else raiseE e)"

definition whenE :: "bool \<Rightarrow> ('s, 'e, unit) cmd \<Rightarrow> ('s, 'e, unit) cmd" where
  "whenE b m = (if b then m else returnE ())"

definition liftE :: "'e + 'a \<Rightarrow> ('s, 'e, 'a) cmd" where
  "liftE r = readE (\<lambda>_. r)"

text \<open>\<open>try: m except: h\<close>\<close>

definition catchE :: "('s, 'e, 'a) cmd \<Rightarrow> ('e \<Rightarrow> ('s, 'e, 'a) cmd) \<Rightarrow> ('s, 'e, 'a) cmd" where
  "catchE m h = (\<lambda>s. case m s of (Inl e, s') \<Rightarrow> h e s' | (Inr x, s') \<Rightarrow> (Inr x, s'))"

text \<open>Pure code that may raise: the same combinators without a state.\<close>

definition bindR :: "'e + 'a \<Rightarrow> ('a \<Rightarrow> 'e + 'b) \<Rightarrow> 'e + 'b" where
  "bindR m f = (case m of Inl e \<Rightarrow> Inl e | Inr x \<Rightarrow> f x)"

fun mapR :: "('a \<Rightarrow> 'e + 'b) \<Rightarrow> 'a list \<Rightarrow> 'e + 'b list" where
  "mapR f [] = Inr []"
| "mapR f (x # xs) = bindR (f x) (\<lambda>y. bindR (mapR f xs) (\<lambda>ys. Inr (y # ys)))"

lemma mapR_InrD: "mapR f xs = Inr ys \<Longrightarrow> list_all2 (\<lambda>x y. f x = Inr y) xs ys"
  by (induction xs arbitrary: ys) (auto simp: bindR_def split: sum.splits)

text \<open>A \<open>for\<close> loop whose body is a command.\<close>

fun forE :: "'a list \<Rightarrow> ('a \<Rightarrow> ('s, 'e, unit) cmd) \<Rightarrow> ('s, 'e, unit) cmd" where
  "forE [] f = returnE ()"
| "forE (x # xs) f = thenE (f x) (forE xs f)"

subsection \<open>Weakest preconditions\<close>

text \<open>\<open>wp m Q X s\<close>: run from \<open>s\<close>, \<open>m\<close> returns with \<open>Q\<close> or raises with \<open>X\<close>.\<close>

definition wp ::
  "('s, 'e, 'a) cmd \<Rightarrow> ('a \<Rightarrow> 's \<Rightarrow> bool) \<Rightarrow> ('e \<Rightarrow> 's \<Rightarrow> bool) \<Rightarrow> 's \<Rightarrow> bool" where
  "wp m Q X s \<longleftrightarrow> (case m s of (Inl e, s') \<Rightarrow> X e s' | (Inr x, s') \<Rightarrow> Q x s')"

lemma wp_returnE [wp_simps]: "wp (returnE x) Q X s = Q x s"
  by (simp add: wp_def returnE_def)

lemma wp_raiseE [wp_simps]: "wp (raiseE e) Q X s = X e s"
  by (simp add: wp_def raiseE_def)

lemma wp_bindE [wp_simps]: "wp (bindE m f) Q X s = wp m (\<lambda>x. wp (f x) Q X) X s"
  by (simp add: wp_def bindE_def split: prod.splits sum.splits)

lemma wp_thenE [wp_simps]: "wp (thenE m k) Q X s = wp m (\<lambda>_. wp k Q X) X s"
  by (simp add: thenE_def wp_bindE)

lemma wp_getsE [wp_simps]: "wp (getsE f) Q X s = Q (f s) s"
  by (simp add: wp_def getsE_def)

lemma wp_readE [wp_simps]:
  "wp (readE f) Q X s = (case f s of Inl e \<Rightarrow> X e s | Inr x \<Rightarrow> Q x s)"
  by (simp add: wp_def readE_def)

lemma wp_liftE [wp_simps]:
  "wp (liftE r) Q X s = (case r of Inl e \<Rightarrow> X e s | Inr x \<Rightarrow> Q x s)"
  by (simp add: liftE_def wp_readE)

lemma wp_modifyE [wp_simps]: "wp (modifyE f) Q X s = Q () (f s)"
  by (simp add: wp_def modifyE_def)

lemma wp_guardE [wp_simps]: "wp (guardE b e) Q X s = (if b then Q () s else X e s)"
  by (simp add: guardE_def wp_returnE wp_raiseE)

lemma wp_whenE [wp_simps]: "wp (whenE b m) Q X s = (if b then wp m Q X s else Q () s)"
  by (simp add: whenE_def wp_returnE)

lemma wp_if [wp_simps]:
  "wp (if b then m else m') Q X s = (if b then wp m Q X s else wp m' Q X s)"
  by simp

lemma wp_mono:
  "wp m Q X s \<Longrightarrow> (\<And>x s'. Q x s' \<Longrightarrow> Q' x s') \<Longrightarrow> (\<And>e s'. X e s' \<Longrightarrow> X' e s')
    \<Longrightarrow> wp m Q' X' s"
  by (auto simp: wp_def split: prod.splits sum.splits)

lemma wp_run: "m s = (r, s') \<Longrightarrow> wp m Q X s = (case r of Inl e \<Rightarrow> X e s' | Inr x \<Rightarrow> Q x s')"
  by (simp add: wp_def)

lemma wp_result: "wp m (\<lambda>x s'. P (Inr x) s') (\<lambda>e s'. P (Inl e) s') s
    \<Longrightarrow> m s = (r, s') \<Longrightarrow> P r s'"
  by (auto simp: wp_def split: sum.splits)

lemma wp_forE:
  assumes "I s"
    and "\<And>x s. x \<in> set xs \<Longrightarrow> I s \<Longrightarrow> wp (f x) (\<lambda>_. I) X s"
  shows "wp (forE xs f) (\<lambda>_. I) X s"
  using assms
proof (induction xs arbitrary: s)
  case Nil
  then show ?case by (simp add: wp_returnE)
next
  case (Cons x xs)
  have step: "wp (f x) (\<lambda>_. I) X s"
    using Cons.prems by simp
  have rest: "wp (forE xs f) (\<lambda>_. I) X t" if "I t" for t
    using that Cons.prems(2) by (intro Cons.IH) auto
  have "wp (f x) (\<lambda>_. wp (forE xs f) (\<lambda>_. I) X) X s"
    by (rule wp_mono [OF step]) (auto intro: rest)
  then show ?case by (simp add: wp_thenE)
qed

lemma wp_catchE [wp_simps]: "wp (catchE m h) Q X s = wp m Q (\<lambda>e. wp (h e) Q X) s"
  by (simp add: wp_def catchE_def split: prod.splits sum.splits)

text \<open>
  The same rules as introductions, so that \<open>intro wp_intro\<close> walks through a command: one goal
  per guard that raises, and one for the end.
\<close>

lemma wpI_return [wp_intro]: "P v s \<Longrightarrow> wp (returnE v) P X s"
  and wpI_raise [wp_intro]: "X e s \<Longrightarrow> wp (raiseE e) Q X s"
  and wpI_bind [wp_intro]: "wp m (\<lambda>x. wp (f x) Q X) X s \<Longrightarrow> wp (bindE m f) Q X s"
  and wpI_then [wp_intro]: "wp m (\<lambda>_. wp k Q X) X s \<Longrightarrow> wp (thenE m k) Q X s"
  and wpI_gets [wp_intro]: "(\<And>y. y = h s \<Longrightarrow> R y s) \<Longrightarrow> wp (getsE h) R X s"
  and wpI_modify [wp_intro]: "S () (g s) \<Longrightarrow> wp (modifyE g) S X s"
  by (simp_all add: wp_simps)

lemma wpI_read [wp_intro]:
  "(\<And>x. f s = Inr x \<Longrightarrow> Q x s) \<Longrightarrow> (\<And>e. f s = Inl e \<Longrightarrow> X e s) \<Longrightarrow> wp (readE f) Q X s"
  by (simp add: wp_simps split: sum.splits)

lemma wpI_lift [wp_intro]:
  "(\<And>x. r = Inr x \<Longrightarrow> Q x s) \<Longrightarrow> (\<And>e. r = Inl e \<Longrightarrow> X e s) \<Longrightarrow> wp (liftE r) Q X s"
  by (simp add: wp_simps split: sum.splits)

lemma wpI_guard [wp_intro]:
  "(b \<Longrightarrow> Q () s) \<Longrightarrow> (\<not> b \<Longrightarrow> X e s) \<Longrightarrow> wp (guardE b e) Q X s"
  by (simp add: wp_simps)

lemma wpI_when [wp_intro]:
  "(b \<Longrightarrow> wp m Q X s) \<Longrightarrow> (\<not> b \<Longrightarrow> Q () s) \<Longrightarrow> wp (whenE b m) Q X s"
  by (simp add: wp_simps)

lemma wpI_if [wp_intro]:
  "(b \<Longrightarrow> wp m Q X s) \<Longrightarrow> (\<not> b \<Longrightarrow> wp m' Q X s) \<Longrightarrow> wp (if b then m else m') Q X s"
  by simp

lemma wpI_option [wp_intro]:
  "(x = None \<Longrightarrow> wp m Q X s) \<Longrightarrow> (\<And>y. x = Some y \<Longrightarrow> wp (f y) Q X s)
    \<Longrightarrow> wp (case x of None \<Rightarrow> m | Some y \<Rightarrow> f y) Q X s"
  by (cases x) simp_all

lemma wpI_prod [wp_intro]:
  "(\<And>a b. p = (a, b) \<Longrightarrow> wp (f a b) Q X s) \<Longrightarrow> wp (case p of (a, b) \<Rightarrow> f a b) Q X s"
  by (cases p) simp

lemma wpI_catch [wp_intro]: "wp m Q (\<lambda>e. wp (h e) Q X) s \<Longrightarrow> wp (catchE m h) Q X s"
  by (simp add: wp_simps)

lemma wp_top: "(\<And>x s. Q x s) \<Longrightarrow> (\<And>e s. X e s) \<Longrightarrow> wp m Q X s"
  by (simp add: wp_def split: prod.splits sum.splits)

lemma wp_conj: "wp m Q X s \<Longrightarrow> wp m Q' X' s \<Longrightarrow> wp m (\<lambda>x s. Q x s \<and> Q' x s) (\<lambda>e s. X e s \<and> X' e s) s"
  by (auto simp: wp_def split: prod.splits sum.splits)

subsection \<open>Successful runs, inverted\<close>

lemma run_returnE [run_simps]: "returnE x s = (Inr y, s') \<longleftrightarrow> y = x \<and> s' = s"
  by (auto simp: returnE_def)

lemma run_raiseE [run_simps]: "raiseE e s = (Inr y, s') \<longleftrightarrow> False"
  by (simp add: raiseE_def)

lemma run_bindE [run_simps]:
  "bindE m f s = (Inr y, s') \<longleftrightarrow> (\<exists>x s1. m s = (Inr x, s1) \<and> f x s1 = (Inr y, s'))"
  by (auto simp: bindE_def split: prod.splits sum.splits)

lemma run_thenE [run_simps]:
  "thenE m k s = (Inr y, s') \<longleftrightarrow> (\<exists>x s1. m s = (Inr x, s1) \<and> k s1 = (Inr y, s'))"
  by (simp add: thenE_def run_bindE)

lemma run_getsE [run_simps]: "getsE f s = (Inr y, s') \<longleftrightarrow> y = f s \<and> s' = s"
  by (auto simp: getsE_def)

lemma run_readE [run_simps]: "readE f s = (Inr y, s') \<longleftrightarrow> f s = Inr y \<and> s' = s"
  by (auto simp: readE_def)

lemma run_liftE [run_simps]: "liftE r s = (Inr y, s') \<longleftrightarrow> r = Inr y \<and> s' = s"
  by (auto simp: liftE_def readE_def)

lemma run_modifyE [run_simps]: "modifyE f s = (Inr y, s') \<longleftrightarrow> s' = f s"
  by (auto simp: modifyE_def)

lemma run_guardE [run_simps]: "guardE b e s = (Inr y, s') \<longleftrightarrow> b \<and> s' = s"
  by (auto simp: guardE_def returnE_def raiseE_def)

lemma run_whenE [run_simps]:
  "whenE b m s = (Inr y, s') \<longleftrightarrow> (if b then m s = (Inr (), s') else s' = s)"
  by (auto simp: whenE_def returnE_def)

lemma bindR_Inr [simp]: "bindR m f = Inr y \<longleftrightarrow> (\<exists>x. m = Inr x \<and> f x = Inr y)"
  by (auto simp: bindR_def split: sum.splits)

lemma bindR_simps [simp]: "bindR (Inr x) f = f x" "bindR (Inl e) f = Inl e"
  by (simp_all add: bindR_def)

lemma mapR_Inr_map: "(\<And>x. x \<in> set xs \<Longrightarrow> f x = Inr (g x)) \<Longrightarrow> mapR f xs = Inr (map g xs)"
  by (induction xs) auto

section \<open>Python strings\<close>

text \<open>
  ASCII text. \<open>strip\<close>, \<open>rstrip\<close>, \<open>lower\<close>, \<open>isdigit\<close>, \<open>startswith\<close>, \<open>split\<close>,
  \<open>int\<close> and the format \<open>:04d\<close> as the sources use them.
\<close>

definition py_isspace :: "char \<Rightarrow> bool" where
  "py_isspace c \<longleftrightarrow> (let n = (of_char c :: nat) in
     9 \<le> n \<and> n \<le> 13 \<or> 28 \<le> n \<and> n \<le> 32)"

definition lstrip :: "string \<Rightarrow> string" where
  "lstrip s = dropWhile py_isspace s"

definition rstrip :: "string \<Rightarrow> string" where
  "rstrip s = rev (dropWhile py_isspace (rev s))"

definition strip :: "string \<Rightarrow> string" where
  "strip s = rstrip (lstrip s)"

definition char_lower :: "char \<Rightarrow> char" where
  "char_lower c = (let n = (of_char c :: nat) in
     if 65 \<le> n \<and> n \<le> 90 then char_of (n + 32) else c)"

definition lower :: "string \<Rightarrow> string" where
  "lower s = map char_lower s"

definition is_digit_char :: "char \<Rightarrow> bool" where
  "is_digit_char c \<longleftrightarrow> (let n = (of_char c :: nat) in 48 \<le> n \<and> n \<le> 57)"

definition isdigit :: "string \<Rightarrow> bool" where
  "isdigit s \<longleftrightarrow> s \<noteq> [] \<and> list_all is_digit_char s"

fun startswith :: "string \<Rightarrow> string \<Rightarrow> bool" where
  "startswith s [] = True"
| "startswith [] (p # ps) = False"
| "startswith (c # s) (p # ps) = (c = p \<and> startswith s ps)"

definition removeprefix :: "string \<Rightarrow> string \<Rightarrow> string" where
  "removeprefix s p = (if startswith s p then drop (length p) s else s)"

definition digit_char :: "nat \<Rightarrow> char" where
  "digit_char d = char_of (48 + d)"

fun nat_str :: "nat \<Rightarrow> string" where
  "nat_str n = (if n < 10 then [digit_char n] else nat_str (n div 10) @ [digit_char (n mod 10)])"

declare nat_str.simps [simp del]

definition int_str :: "int \<Rightarrow> string" where
  "int_str i = (if i < 0 then ''-'' @ nat_str (nat (- i)) else nat_str (nat i))"

definition digit_val :: "char \<Rightarrow> nat" where
  "digit_val c = of_char c - 48"

definition digits_nat :: "string \<Rightarrow> nat" where
  "digits_nat s = foldl (\<lambda>a c. 10 * a + digit_val c) 0 s"

text \<open>\<open>f"{n:04d}"\<close>\<close>

definition zpad :: "nat \<Rightarrow> string \<Rightarrow> string" where
  "zpad w s = replicate (w - length s) (digit_char 0) @ s"

text \<open>\<open>s.split(sep)\<close> for a one-character separator.\<close>

fun join :: "string \<Rightarrow> string list \<Rightarrow> string" where
  "join sep [] = []"
| "join sep [s] = s"
| "join sep (s # t # ss) = s @ sep @ join sep (t # ss)"

fun split_char :: "char \<Rightarrow> string \<Rightarrow> string list" where
  "split_char c [] = [[]]"
| "split_char c (x # xs) =
     (if x = c then [] # split_char c xs
      else (case split_char c xs of [] \<Rightarrow> [[x]] | w # ws \<Rightarrow> (x # w) # ws))"

subsection \<open>Facts about strings\<close>

lemma startswith_append [simp]: "startswith (p @ s) p"
  by (induction p) auto

lemma startswith_iff: "startswith s p \<longleftrightarrow> (\<exists>t. s = p @ t)"
  by (induction s p rule: startswith.induct) auto

lemma removeprefix_append [simp]: "removeprefix (p @ s) p = s"
  by (simp add: removeprefix_def)

lemma digit_char_props:
  assumes "d < 10"
  shows "is_digit_char (digit_char d)" "digit_val (digit_char d) = d"
    "\<not> py_isspace (digit_char d)"
proof -
  have "d \<in> {0, 1, 2, 3, 4, 5, 6, 7, 8, 9}"
    using assms by auto
  then show "is_digit_char (digit_char d)" "digit_val (digit_char d) = d"
    "\<not> py_isspace (digit_char d)"
    by (auto simp: is_digit_char_def digit_char_def digit_val_def py_isspace_def)
qed

lemma digits_nat_append: "digits_nat (s @ [c]) = 10 * digits_nat s + digit_val c"
  by (simp add: digits_nat_def)

lemma nat_str_nonempty [simp]: "nat_str n \<noteq> []"
  by (subst nat_str.simps) simp

lemma nat_str_digits: "list_all is_digit_char (nat_str n)"
proof (induction n rule: nat_str.induct)
  case (1 n)
  then show ?case
    by (cases "n < 10")
      (simp_all add: nat_str.simps [of n] digit_char_props)
qed

lemma isdigit_nat_str [simp]: "isdigit (nat_str n)"
  by (simp add: isdigit_def nat_str_digits)

lemma digits_nat_str [simp]: "digits_nat (nat_str n) = n"
proof (induction n rule: nat_str.induct)
  case (1 n)
  show ?case
  proof (cases "n < 10")
    case True
    then show ?thesis
      by (simp add: nat_str.simps [of n] digits_nat_def digit_char_props)
  next
    case False
    then show ?thesis
      using 1 by (simp add: nat_str.simps [of n] digits_nat_append digit_char_props)
  qed
qed

lemma digits_nat_zpad [simp]: "digits_nat (zpad w s) = digits_nat s"
proof -
  have z: "foldl (\<lambda>a c. 10 * a + digit_val c) 0 (replicate k (digit_char 0)) = 0" for k
    by (induction k) (simp_all add: digit_char_props)
  show ?thesis by (simp add: zpad_def digits_nat_def z)
qed

lemma dropWhile_idem: "dropWhile P (dropWhile P xs) = dropWhile P xs"
  by (induction xs) auto

lemma rstrip_idem [simp]: "rstrip (rstrip s) = rstrip s"
  by (simp add: rstrip_def dropWhile_idem)

section \<open>Lists with one element\<close>

lemma distinct_one:
  assumes "distinct xs" "\<And>x y. x \<in> set xs \<Longrightarrow> y \<in> set xs \<Longrightarrow> x = y"
  shows "length xs \<le> 1"
proof -
  have "set xs \<subseteq> {hd xs}" using assms(2) [of _ "hd xs"] by (cases xs) auto
  then have "card (set xs) \<le> 1" using card_mono [of "{hd xs}" "set xs"] by simp
  then show ?thesis using distinct_card [OF assms(1)] by simp
qed

lemma filter_one:
  assumes "distinct xs" "x \<in> set xs" "P x" "\<And>y. y \<in> set xs \<Longrightarrow> P y \<Longrightarrow> y = x"
  shows "filter P xs = [x]"
proof -
  obtain ys zs where xs: "xs = ys @ x # zs" "x \<notin> set ys" "x \<notin> set zs"
    using assms(1,2) by (metis distinct_append distinct.simps(2) disjoint_iff list.set_intros(1)
        split_list)
  have no: "\<not> P y" if "y \<in> set (ys @ zs)" for y
    using assms(4) [of y] that xs by auto
  have "filter P ys = []" "filter P zs = []"
    using no by (auto simp: filter_empty_conv)
  then show ?thesis using xs(1) assms(3) by simp
qed

end
