(* ===== verification/States.thy ===== *)
theory States
  imports Prelude
begin

text \<open>
  \<open>taskledger/errors.py\<close> and \<open>taskledger/domain/states.py\<close>: the exceptions with their exit
  codes, the enumerations of the domain, their normalisation from text and the table of stage
  transitions. The text of an error message is replaced by a short tag that names the raise
  site; class, code and exit code are the program's.
\<close>

section \<open>Errors\<close>

datatype error_class =
    C_TaskledgerError
  | C_LaunchError
  | C_NoActiveTask
  | C_LockConflict
  | C_StorageCorruption
  | C_ActiveTaskNotFound
  | C_ValueError
  | C_TypeError
  | C_KeyError

datatype error_code =
    E_TASKLEDGER_ERROR
  | E_LAUNCH_ERROR
  | E_NO_ACTIVE_TASK
  | E_LOCK_CONFLICT
  | E_STORAGE_CORRUPTION
  | E_ACTIVE_TASK_NOT_FOUND
  | E_RUNNING_RUN_CONFLICT
  | E_APPROVAL_REQUIRED
  | E_VALIDATION_INCOMPLETE
  | E_IMPLEMENTATION_TODOS_INCOMPLETE
  | E_INVALID_TRANSITION
  | E_PYTHON

record error =
  err_class :: error_class
  err_tag :: string
  err_code :: error_code
  err_exit :: int

text \<open>The class attributes \<open>code\<close> and \<open>exit_code\<close> of the exception classes.\<close>

fun class_code :: "error_class \<Rightarrow> error_code" where
  "class_code C_TaskledgerError = E_TASKLEDGER_ERROR"
| "class_code C_LaunchError = E_LAUNCH_ERROR"
| "class_code C_NoActiveTask = E_NO_ACTIVE_TASK"
| "class_code C_LockConflict = E_LOCK_CONFLICT"
| "class_code C_StorageCorruption = E_STORAGE_CORRUPTION"
| "class_code C_ActiveTaskNotFound = E_ACTIVE_TASK_NOT_FOUND"
| "class_code C_ValueError = E_PYTHON"
| "class_code C_TypeError = E_PYTHON"
| "class_code C_KeyError = E_PYTHON"

fun class_exit :: "error_class \<Rightarrow> int" where
  "class_exit C_TaskledgerError = 1"
| "class_exit C_LaunchError = 1"
| "class_exit C_NoActiveTask = 5"
| "class_exit C_LockConflict = 4"
| "class_exit C_StorageCorruption = 6"
| "class_exit C_ActiveTaskNotFound = 6"
| "class_exit C_ValueError = 1"
| "class_exit C_TypeError = 1"
| "class_exit C_KeyError = 1"

definition mk_error :: "error_class \<Rightarrow> string \<Rightarrow> error" where
  "mk_error c tag = \<lparr>err_class = c, err_tag = tag, err_code = class_code c,
     err_exit = class_exit c\<rparr>"

definition launch_error :: "string \<Rightarrow> error" where
  "launch_error tag = mk_error C_LaunchError tag"

definition is_launch_error :: "error \<Rightarrow> bool" where
  "is_launch_error e \<longleftrightarrow>
     err_class e \<in> {C_LaunchError, C_NoActiveTask, C_LockConflict, C_StorageCorruption,
       C_ActiveTaskNotFound}"

section \<open>Exit codes\<close>

definition EXIT_CODE_BAD_INPUT :: int where "EXIT_CODE_BAD_INPUT = 2"
definition EXIT_CODE_WORKFLOW_REJECTION :: int where "EXIT_CODE_WORKFLOW_REJECTION = 3"
definition EXIT_CODE_LOCK_CONFLICT :: int where "EXIT_CODE_LOCK_CONFLICT = 4"
definition EXIT_CODE_MISSING :: int where "EXIT_CODE_MISSING = 5"
definition EXIT_CODE_VALIDATION_FAILED :: int where "EXIT_CODE_VALIDATION_FAILED = 7"
definition EXIT_CODE_INVALID_TRANSITION :: int where
  "EXIT_CODE_INVALID_TRANSITION = EXIT_CODE_WORKFLOW_REJECTION"
definition EXIT_CODE_APPROVAL_REQUIRED :: int where
  "EXIT_CODE_APPROVAL_REQUIRED = EXIT_CODE_WORKFLOW_REJECTION"
definition EXIT_CODE_DEPENDENCY_BLOCKED :: int where
  "EXIT_CODE_DEPENDENCY_BLOCKED = EXIT_CODE_WORKFLOW_REJECTION"
definition EXIT_CODE_STALE_LOCK_REQUIRES_BREAK :: int where
  "EXIT_CODE_STALE_LOCK_REQUIRES_BREAK = EXIT_CODE_LOCK_CONFLICT"

lemmas exit_code_defs =
  EXIT_CODE_BAD_INPUT_def EXIT_CODE_WORKFLOW_REJECTION_def EXIT_CODE_LOCK_CONFLICT_def
  EXIT_CODE_MISSING_def EXIT_CODE_VALIDATION_FAILED_def EXIT_CODE_INVALID_TRANSITION_def
  EXIT_CODE_APPROVAL_REQUIRED_def EXIT_CODE_DEPENDENCY_BLOCKED_def
  EXIT_CODE_STALE_LOCK_REQUIRES_BREAK_def

section \<open>Enumerations\<close>

datatype TaskStatusStage =
    S_draft | S_planning | S_plan_review | S_approved | S_implementing | S_implemented
  | S_validating | S_done | S_failed_validation | S_cancelled

datatype RunType = RT_planning | RT_implementation | RT_validation

datatype PlanStatus = PS_draft | PS_proposed | PS_accepted | PS_superseded | PS_rejected

datatype QuestionStatus = QS_open | QS_answered | QS_dismissed

datatype RunStatus =
    RS_running | RS_paused | RS_finished | RS_passed | RS_failed | RS_blocked | RS_aborted

datatype ValidationResult = VR_passed | VR_failed | VR_blocked

datatype ValidationCheckStatus = CS_pass | CS_fail | CS_warn | CS_not_run

datatype FileLinkKind =
    FK_code | FK_test | FK_doc | FK_config | FK_dir | FK_other | FK_artifact

datatype TodoStatus = TS_open | TS_active | TS_done | TS_blocked | TS_skipped

datatype TaskType = TT_managed | TT_recorded

datatype ActorType = AT_agent | AT_user | AT_system

datatype ActorRole = AR_planner | AR_implementer | AR_validator | AR_reviewer | AR_operator

datatype HarnessKind = HK_agent_harness | HK_manual | HK_ci | HK_unknown

datatype HandoffMode = HM_planning | HM_implementation | HM_validation | HM_review | HM_full

datatype ContextFor =
    CF_planner | CF_implementer | CF_validator | CF_reviewer | CF_spec_reviewer
  | CF_code_reviewer | CF_full

datatype ContextScope = SC_task | SC_todo | SC_run

datatype ContextFormat = FM_markdown | FM_json | FM_text

datatype HandoffStatus = HS_open | HS_claimed | HS_closed | HS_cancelled

datatype LockPolicy = LP_none | LP_retain | LP_release | LP_transfer

text \<open>
  Each enumeration has its table of names: the literal strings of the source. Printing looks
  up the value, normalisation looks up the text and raises \<open>LaunchError\<close> when it is absent.
\<close>

definition stage_names :: "(TaskStatusStage \<times> string) list" where
  "stage_names =
    [(S_draft, ''draft''), (S_planning, ''planning''), (S_plan_review, ''plan_review''),
     (S_approved, ''approved''), (S_implementing, ''implementing''),
     (S_implemented, ''implemented''), (S_validating, ''validating''), (S_done, ''done''),
     (S_failed_validation, ''failed_validation''), (S_cancelled, ''cancelled'')]"

definition run_type_names :: "(RunType \<times> string) list" where
  "run_type_names =
    [(RT_planning, ''planning''), (RT_implementation, ''implementation''),
     (RT_validation, ''validation'')]"

definition plan_status_names :: "(PlanStatus \<times> string) list" where
  "plan_status_names =
    [(PS_draft, ''draft''), (PS_proposed, ''proposed''), (PS_accepted, ''accepted''),
     (PS_superseded, ''superseded''), (PS_rejected, ''rejected'')]"

definition question_status_names :: "(QuestionStatus \<times> string) list" where
  "question_status_names =
    [(QS_open, ''open''), (QS_answered, ''answered''), (QS_dismissed, ''dismissed'')]"

definition run_status_names :: "(RunStatus \<times> string) list" where
  "run_status_names =
    [(RS_running, ''running''), (RS_paused, ''paused''), (RS_finished, ''finished''),
     (RS_passed, ''passed''), (RS_failed, ''failed''), (RS_blocked, ''blocked''),
     (RS_aborted, ''aborted'')]"

definition validation_result_names :: "(ValidationResult \<times> string) list" where
  "validation_result_names =
    [(VR_passed, ''passed''), (VR_failed, ''failed''), (VR_blocked, ''blocked'')]"

definition check_status_names :: "(ValidationCheckStatus \<times> string) list" where
  "check_status_names =
    [(CS_pass, ''pass''), (CS_fail, ''fail''), (CS_warn, ''warn''), (CS_not_run, ''not_run'')]"

definition file_link_kind_names :: "(FileLinkKind \<times> string) list" where
  "file_link_kind_names =
    [(FK_code, ''code''), (FK_test, ''test''), (FK_doc, ''doc''), (FK_config, ''config''),
     (FK_dir, ''dir''), (FK_other, ''other''), (FK_artifact, ''artifact'')]"

definition todo_status_names :: "(TodoStatus \<times> string) list" where
  "todo_status_names =
    [(TS_open, ''open''), (TS_active, ''active''), (TS_done, ''done''),
     (TS_blocked, ''blocked''), (TS_skipped, ''skipped'')]"

definition task_type_names :: "(TaskType \<times> string) list" where
  "task_type_names = [(TT_managed, ''managed''), (TT_recorded, ''recorded'')]"

definition actor_type_names :: "(ActorType \<times> string) list" where
  "actor_type_names = [(AT_agent, ''agent''), (AT_user, ''user''), (AT_system, ''system'')]"

definition actor_role_names :: "(ActorRole \<times> string) list" where
  "actor_role_names =
    [(AR_planner, ''planner''), (AR_implementer, ''implementer''),
     (AR_validator, ''validator''), (AR_reviewer, ''reviewer''), (AR_operator, ''operator'')]"

definition harness_kind_names :: "(HarnessKind \<times> string) list" where
  "harness_kind_names =
    [(HK_agent_harness, ''agent_harness''), (HK_manual, ''manual''), (HK_ci, ''ci''),
     (HK_unknown, ''unknown'')]"

definition handoff_mode_names :: "(HandoffMode \<times> string) list" where
  "handoff_mode_names =
    [(HM_planning, ''planning''), (HM_implementation, ''implementation''),
     (HM_validation, ''validation''), (HM_review, ''review''), (HM_full, ''full'')]"

definition context_for_names :: "(ContextFor \<times> string) list" where
  "context_for_names =
    [(CF_planner, ''planner''), (CF_implementer, ''implementer''),
     (CF_validator, ''validator''), (CF_reviewer, ''reviewer''),
     (CF_spec_reviewer, ''spec-reviewer''), (CF_code_reviewer, ''code-reviewer''),
     (CF_full, ''full'')]"

definition context_scope_names :: "(ContextScope \<times> string) list" where
  "context_scope_names = [(SC_task, ''task''), (SC_todo, ''todo''), (SC_run, ''run'')]"

definition context_format_names :: "(ContextFormat \<times> string) list" where
  "context_format_names =
    [(FM_markdown, ''markdown''), (FM_json, ''json''), (FM_text, ''text'')]"

definition handoff_status_names :: "(HandoffStatus \<times> string) list" where
  "handoff_status_names =
    [(HS_open, ''open''), (HS_claimed, ''claimed''), (HS_closed, ''closed''),
     (HS_cancelled, ''cancelled'')]"

definition lock_policy_names :: "(LockPolicy \<times> string) list" where
  "lock_policy_names =
    [(LP_none, ''none''), (LP_retain, ''retain''), (LP_release, ''release''),
     (LP_transfer, ''transfer'')]"

fun enum_value :: "('a \<times> string) list \<Rightarrow> string \<Rightarrow> 'a option" where
  "enum_value [] s = None"
| "enum_value ((x, n) # tab) s = (if s = n then Some x else enum_value tab s)"

definition enum_name :: "('a \<times> string) list \<Rightarrow> 'a \<Rightarrow> string" where
  "enum_name tab x = (case map_of tab x of Some n \<Rightarrow> n | None \<Rightarrow> [])"

definition normalize_enum :: "('a \<times> string) list \<Rightarrow> string \<Rightarrow> string \<Rightarrow> error + 'a" where
  "normalize_enum tab tag v =
     (case enum_value tab v of None \<Rightarrow> Inl (launch_error tag) | Some x \<Rightarrow> Inr x)"

definition stage_str :: "TaskStatusStage \<Rightarrow> string" where
  "stage_str = enum_name stage_names"

definition normalize_task_status_stage :: "string \<Rightarrow> error + TaskStatusStage" where
  "normalize_task_status_stage v = normalize_enum stage_names ''task stage'' v"

definition normalize_run_type :: "string \<Rightarrow> error + RunType" where
  "normalize_run_type v = normalize_enum run_type_names ''run type'' v"

definition normalize_plan_status :: "string \<Rightarrow> error + PlanStatus" where
  "normalize_plan_status v = normalize_enum plan_status_names ''plan status'' v"

definition normalize_question_status :: "string \<Rightarrow> error + QuestionStatus" where
  "normalize_question_status v = normalize_enum question_status_names ''question status'' v"

definition normalize_run_status :: "string \<Rightarrow> error + RunStatus" where
  "normalize_run_status v = normalize_enum run_status_names ''run status'' v"

definition normalize_validation_result :: "string \<Rightarrow> error + ValidationResult" where
  "normalize_validation_result v =
     normalize_enum validation_result_names ''validation result'' v"

definition normalize_validation_check_status :: "string \<Rightarrow> error + ValidationCheckStatus" where
  "normalize_validation_check_status v =
     (let normalized = (if v = ''skip'' then ''not_run'' else v)
      in normalize_enum check_status_names ''check status'' normalized)"

definition normalize_file_link_kind :: "string \<Rightarrow> error + FileLinkKind" where
  "normalize_file_link_kind v =
     (let normalized = (if v = ''directory'' then ''dir'' else v)
      in normalize_enum file_link_kind_names ''file link kind'' normalized)"

definition normalize_todo_status :: "string \<Rightarrow> error + TodoStatus" where
  "normalize_todo_status v = normalize_enum todo_status_names ''todo status'' v"

definition normalize_task_type :: "string \<Rightarrow> error + TaskType" where
  "normalize_task_type v = normalize_enum task_type_names ''task type'' v"

definition normalize_actor_type :: "string \<Rightarrow> error + ActorType" where
  "normalize_actor_type v = normalize_enum actor_type_names ''actor type'' v"

definition normalize_actor_role :: "string \<Rightarrow> error + ActorRole" where
  "normalize_actor_role v = normalize_enum actor_role_names ''actor role'' v"

definition normalize_harness_kind :: "string \<Rightarrow> error + HarnessKind" where
  "normalize_harness_kind v = normalize_enum harness_kind_names ''harness kind'' v"

definition normalize_handoff_mode :: "string \<Rightarrow> error + HandoffMode" where
  "normalize_handoff_mode v = normalize_enum handoff_mode_names ''handoff mode'' v"

definition context_for_aliases :: "(string \<times> string) list" where
  "context_for_aliases =
    [(''planning'', ''planner''), (''implementation'', ''implementer''),
     (''validation'', ''validator''), (''review'', ''reviewer''),
     (''spec'', ''spec-reviewer''), (''code'', ''code-reviewer'')]"

definition normalize_context_for :: "string \<Rightarrow> error + ContextFor" where
  "normalize_context_for v =
     (let normalized = (case map_of context_for_aliases v of Some w \<Rightarrow> w | None \<Rightarrow> v)
      in normalize_enum context_for_names ''context role'' normalized)"

definition normalize_context_scope :: "string \<Rightarrow> error + ContextScope" where
  "normalize_context_scope v = normalize_enum context_scope_names ''context scope'' v"

definition normalize_context_format :: "string \<Rightarrow> error + ContextFormat" where
  "normalize_context_format v = normalize_enum context_format_names ''context format'' v"

definition normalize_handoff_status :: "string \<Rightarrow> error + HandoffStatus" where
  "normalize_handoff_status v = normalize_enum handoff_status_names ''handoff status'' v"

definition normalize_lock_policy :: "string \<Rightarrow> error + LockPolicy" where
  "normalize_lock_policy v = normalize_enum lock_policy_names ''lock policy'' v"

section \<open>Stages and transitions\<close>

definition ACTIVE_TASK_STAGES :: "TaskStatusStage list" where
  "ACTIVE_TASK_STAGES = [S_planning, S_implementing, S_validating]"

definition IMPLEMENTABLE_TASK_STAGES :: "TaskStatusStage list" where
  "IMPLEMENTABLE_TASK_STAGES = [S_approved, S_failed_validation]"

definition CANCELLABLE_TASK_STAGES :: "TaskStatusStage list" where
  "CANCELLABLE_TASK_STAGES = ACTIVE_TASK_STAGES @
     [S_draft, S_plan_review, S_approved, S_implemented, S_failed_validation]"

fun ALLOWED_STAGE_TRANSITIONS :: "TaskStatusStage \<Rightarrow> TaskStatusStage list" where
  "ALLOWED_STAGE_TRANSITIONS S_draft = [S_plan_review, S_cancelled]"
| "ALLOWED_STAGE_TRANSITIONS S_planning = [S_plan_review, S_cancelled]"
| "ALLOWED_STAGE_TRANSITIONS S_plan_review = [S_draft, S_approved, S_cancelled]"
| "ALLOWED_STAGE_TRANSITIONS S_approved = [S_implemented, S_cancelled]"
| "ALLOWED_STAGE_TRANSITIONS S_implementing = [S_implemented, S_cancelled]"
| "ALLOWED_STAGE_TRANSITIONS S_implemented = [S_done, S_failed_validation, S_cancelled]"
| "ALLOWED_STAGE_TRANSITIONS S_validating = [S_done, S_failed_validation, S_cancelled]"
| "ALLOWED_STAGE_TRANSITIONS S_failed_validation =
     [S_implementing, S_approved, S_plan_review, S_cancelled]"
| "ALLOWED_STAGE_TRANSITIONS S_done = []"
| "ALLOWED_STAGE_TRANSITIONS S_cancelled = []"

definition is_active_stage :: "TaskStatusStage \<Rightarrow> bool" where
  "is_active_stage s \<longleftrightarrow> s \<in> set ACTIVE_TASK_STAGES"

definition can_transition :: "TaskStatusStage \<Rightarrow> TaskStatusStage \<Rightarrow> bool" where
  "can_transition current target \<longleftrightarrow> target \<in> set (ALLOWED_STAGE_TRANSITIONS current)"

definition require_transition :: "TaskStatusStage \<Rightarrow> TaskStatusStage \<Rightarrow> error + unit" where
  "require_transition current target =
     (if can_transition current target then Inr ()
      else Inl (launch_error ''stage transition''))"

section \<open>Normalisation inverts printing\<close>

lemma enum_value_name:
  "distinct (map snd tab) \<Longrightarrow> map_of tab x = Some n \<Longrightarrow> enum_value tab n = Some x"
proof (induction tab)
  case (Cons p tab)
  then show ?case
    by (cases p) (force split: if_splits dest: map_of_SomeD)
qed simp

lemma normalize_enum_name:
  "distinct (map snd tab) \<Longrightarrow> x \<in> fst ` set tab \<Longrightarrow>
     normalize_enum tab tag (enum_name tab x) = Inr x"
  by (auto simp: normalize_enum_def enum_name_def enum_value_name
      dest!: weak_map_of_SomeI split: option.splits)

lemmas enum_tables =
  stage_names_def run_type_names_def plan_status_names_def question_status_names_def
  run_status_names_def validation_result_names_def check_status_names_def
  file_link_kind_names_def todo_status_names_def task_type_names_def actor_type_names_def
  actor_role_names_def harness_kind_names_def handoff_mode_names_def context_for_names_def
  context_scope_names_def context_format_names_def handoff_status_names_def
  lock_policy_names_def

text \<open>An interface every enumeration of the domain satisfies.\<close>

locale enumeration =
  fixes tab :: "('a \<times> string) list" and normalize :: "string \<Rightarrow> error + 'a"
  assumes names_distinct: "distinct (map snd tab)"
    and total: "x \<in> fst ` set tab"
    and normalize_names: "n \<in> snd ` set tab \<Longrightarrow> normalize n = normalize_enum tab t n"
begin

lemma name_in_table: "enum_name tab x \<in> snd ` set tab"
proof -
  obtain n where "map_of tab x = Some n"
    using total [of x] weak_map_of_SomeI by fastforce
  then show ?thesis
    by (auto simp: enum_name_def dest: map_of_SomeD intro: image_eqI [rotated])
qed

lemma normalize_name: "normalize (enum_name tab x) = Inr x"
  using normalize_names [OF name_in_table, of x] normalize_enum_name [OF names_distinct total]
  by metis

lemma name_inject: "enum_name tab x = enum_name tab y \<longleftrightarrow> x = y"
  by (metis normalize_name sum.inject(2))

lemma name_nonempty: "[] \<notin> snd ` set tab \<Longrightarrow> enum_name tab x \<noteq> []"
  using name_in_table [of x] by metis

end

lemmas enum_normalize_defs = normalize_enum_def
  normalize_task_status_stage_def
  normalize_run_type_def
  normalize_plan_status_def
  normalize_question_status_def
  normalize_run_status_def
  normalize_validation_result_def
  normalize_validation_check_status_def
  normalize_file_link_kind_def
  normalize_todo_status_def
  normalize_task_type_def
  normalize_actor_type_def
  normalize_actor_role_def
  normalize_harness_kind_def
  normalize_handoff_mode_def
  normalize_context_for_def
  normalize_context_scope_def
  normalize_context_format_def
  normalize_handoff_status_def
  normalize_lock_policy_def
  context_for_aliases_def

interpretation task_stage: enumeration stage_names normalize_task_status_stage
  by unfold_locales (use TaskStatusStage.nchotomy in \<open>auto simp: enum_tables enum_normalize_defs\<close>)

interpretation run_type: enumeration run_type_names normalize_run_type
  by unfold_locales (use RunType.nchotomy in \<open>auto simp: enum_tables enum_normalize_defs\<close>)

interpretation plan_status: enumeration plan_status_names normalize_plan_status
  by unfold_locales (use PlanStatus.nchotomy in \<open>auto simp: enum_tables enum_normalize_defs\<close>)

interpretation question_status: enumeration question_status_names normalize_question_status
  by unfold_locales (use QuestionStatus.nchotomy in \<open>auto simp: enum_tables enum_normalize_defs\<close>)

interpretation run_status: enumeration run_status_names normalize_run_status
  by unfold_locales (use RunStatus.nchotomy in \<open>auto simp: enum_tables enum_normalize_defs\<close>)

interpretation validation_result: enumeration validation_result_names normalize_validation_result
  by unfold_locales (use ValidationResult.nchotomy in \<open>auto simp: enum_tables enum_normalize_defs\<close>)

interpretation check_status: enumeration check_status_names normalize_validation_check_status
  by unfold_locales (use ValidationCheckStatus.nchotomy in \<open>auto simp: enum_tables enum_normalize_defs\<close>)

interpretation file_link_kind: enumeration file_link_kind_names normalize_file_link_kind
  by unfold_locales (use FileLinkKind.nchotomy in \<open>auto simp: enum_tables enum_normalize_defs\<close>)

interpretation todo_status: enumeration todo_status_names normalize_todo_status
  by unfold_locales (use TodoStatus.nchotomy in \<open>auto simp: enum_tables enum_normalize_defs\<close>)

interpretation task_type: enumeration task_type_names normalize_task_type
  by unfold_locales (use TaskType.nchotomy in \<open>auto simp: enum_tables enum_normalize_defs\<close>)

interpretation actor_type: enumeration actor_type_names normalize_actor_type
  by unfold_locales (use ActorType.nchotomy in \<open>auto simp: enum_tables enum_normalize_defs\<close>)

interpretation actor_role: enumeration actor_role_names normalize_actor_role
  by unfold_locales (use ActorRole.nchotomy in \<open>auto simp: enum_tables enum_normalize_defs\<close>)

interpretation harness_kind: enumeration harness_kind_names normalize_harness_kind
  by unfold_locales (use HarnessKind.nchotomy in \<open>auto simp: enum_tables enum_normalize_defs\<close>)

interpretation handoff_mode: enumeration handoff_mode_names normalize_handoff_mode
  by unfold_locales (use HandoffMode.nchotomy in \<open>auto simp: enum_tables enum_normalize_defs\<close>)

interpretation context_for: enumeration context_for_names normalize_context_for
  by unfold_locales (use ContextFor.nchotomy in \<open>auto simp: enum_tables enum_normalize_defs\<close>)

interpretation context_scope: enumeration context_scope_names normalize_context_scope
  by unfold_locales (use ContextScope.nchotomy in \<open>auto simp: enum_tables enum_normalize_defs\<close>)

interpretation context_format: enumeration context_format_names normalize_context_format
  by unfold_locales (use ContextFormat.nchotomy in \<open>auto simp: enum_tables enum_normalize_defs\<close>)

interpretation handoff_status: enumeration handoff_status_names normalize_handoff_status
  by unfold_locales (use HandoffStatus.nchotomy in \<open>auto simp: enum_tables enum_normalize_defs\<close>)

interpretation lock_policy: enumeration lock_policy_names normalize_lock_policy
  by unfold_locales (use LockPolicy.nchotomy in \<open>auto simp: enum_tables enum_normalize_defs\<close>)

lemmas enum_round_trips [simp] =
  task_stage.normalize_name
  run_type.normalize_name
  plan_status.normalize_name
  question_status.normalize_name
  run_status.normalize_name
  validation_result.normalize_name
  check_status.normalize_name
  file_link_kind.normalize_name
  todo_status.normalize_name
  task_type.normalize_name
  actor_type.normalize_name
  actor_role.normalize_name
  harness_kind.normalize_name
  handoff_mode.normalize_name
  context_for.normalize_name
  context_scope.normalize_name
  context_format.normalize_name
  handoff_status.normalize_name
  lock_policy.normalize_name

end
