(* ===== verification/PyValue.thy ===== *)
theory PyValue
  imports States
begin

text \<open>
  Python values as they appear in record dictionaries, and \<open>taskledger/domain/_model_utils.py\<close>:
  the readers that turn a dictionary entry into a field. A \<open>dict\<close> with string keys is an
  association list. PyYAML's \<open>safe_dump\<close> writes a tuple as a sequence, which \<open>safe_load\<close>
  reads back as a list; \<open>untuple\<close> is that change.
\<close>

datatype pyval =
    PNone
  | PBool bool
  | PInt int
  | PStr string
  | PList "pyval list"
  | PTuple "pyval list"
  | PDict "(string \<times> pyval) list"

type_synonym pydict = "(string \<times> pyval) list"

fun untuple :: "pyval \<Rightarrow> pyval" where
  "untuple PNone = PNone"
| "untuple (PBool b) = PBool b"
| "untuple (PInt i) = PInt i"
| "untuple (PStr s) = PStr s"
| "untuple (PList vs) = PList (map untuple vs)"
| "untuple (PTuple vs) = PList (map untuple vs)"
| "untuple (PDict kvs) = PDict (map (\<lambda>(k, v). (k, untuple v)) kvs)"

definition untuple_dict :: "pydict \<Rightarrow> pydict" where
  "untuple_dict d = map (\<lambda>(k, v). (k, untuple v)) d"

text \<open>\<open>data.get(key)\<close> and \<open>data.get(key, default)\<close>; \<open>key in data\<close>.\<close>

fun dget :: "pydict \<Rightarrow> string \<Rightarrow> pyval" where
  "dget [] k = PNone"
| "dget ((k', v) # d) k = (if k' = k then v else dget d k)"

fun has_key :: "pydict \<Rightarrow> string \<Rightarrow> bool" where
  "has_key [] k = False"
| "has_key ((k', v) # d) k = (k' = k \<or> has_key d k)"

definition dget_default :: "pydict \<Rightarrow> string \<Rightarrow> pyval \<Rightarrow> pyval" where
  "dget_default d k v = (if has_key d k then dget d k else v)"

text \<open>\<open>bool(value)\<close>\<close>

fun truthy :: "pyval \<Rightarrow> bool" where
  "truthy PNone = False"
| "truthy (PBool b) = b"
| "truthy (PInt i) = (i \<noteq> 0)"
| "truthy (PStr s) = (s \<noteq> [])"
| "truthy (PList vs) = (vs \<noteq> [])"
| "truthy (PTuple vs) = (vs \<noteq> [])"
| "truthy (PDict kvs) = (kvs \<noteq> [])"

text \<open>
  The operator \<open>or\<close> on \<open>str | None\<close>, on \<open>int | None\<close> and on tuples: the left value unless it
  is falsy.
\<close>

definition str_or :: "string option \<Rightarrow> string \<Rightarrow> string" where
  "str_or x y = (case x of Some s \<Rightarrow> if s = [] then y else s | None \<Rightarrow> y)"

definition opt_str_or :: "string option \<Rightarrow> string option \<Rightarrow> string option" where
  "opt_str_or x y = (case x of Some s \<Rightarrow> if s = [] then y else x | None \<Rightarrow> y)"

definition opt_int_or :: "int option \<Rightarrow> int option \<Rightarrow> int option" where
  "opt_int_or x y = (case x of Some i \<Rightarrow> if i = 0 then y else x | None \<Rightarrow> y)"

definition list_or :: "'a list \<Rightarrow> 'a list \<Rightarrow> 'a list" where
  "list_or x y = (if x = [] then y else x)"

section \<open>Writers: fields as dictionary entries\<close>

definition opt_str :: "string option \<Rightarrow> pyval" where
  "opt_str x = (case x of None \<Rightarrow> PNone | Some s \<Rightarrow> PStr s)"

definition opt_int :: "int option \<Rightarrow> pyval" where
  "opt_int x = (case x of None \<Rightarrow> PNone | Some i \<Rightarrow> PInt i)"

definition opt_bool :: "bool option \<Rightarrow> pyval" where
  "opt_bool x = (case x of None \<Rightarrow> PNone | Some b \<Rightarrow> PBool b)"

definition opt_rec :: "('a \<Rightarrow> pyval) \<Rightarrow> 'a option \<Rightarrow> pyval" where
  "opt_rec f x = (case x of None \<Rightarrow> PNone | Some r \<Rightarrow> f r)"

definition str_list :: "string list \<Rightarrow> pyval" where
  "str_list xs = PList (map PStr xs)"

definition str_tuple :: "string list \<Rightarrow> pyval" where
  "str_tuple xs = PTuple (map PStr xs)"

definition opt_enum :: "('a \<times> string) list \<Rightarrow> 'a option \<Rightarrow> pyval" where
  "opt_enum tab x = (case x of None \<Rightarrow> PNone | Some y \<Rightarrow> PStr (enum_name tab y))"

text \<open>An entry that is written only when the field is not \<open>None\<close>.\<close>

definition opt_entry :: "string \<Rightarrow> pyval \<Rightarrow> pydict" where
  "opt_entry k v = (if v = PNone then [] else [(k, v)])"

section \<open>Readers\<close>

fun as_dict :: "pyval \<Rightarrow> pydict option" where
  "as_dict (PDict d) = Some d"
| "as_dict _ = None"

fun dict_list :: "pyval \<Rightarrow> pydict list" where
  "dict_list (PList vs) = List.map_filter as_dict vs"
| "dict_list _ = []"

fun optional_int :: "pyval \<Rightarrow> int option" where
  "optional_int (PInt i) = Some i"
| "optional_int (PBool b) = Some (if b then 1 else 0)"
| "optional_int _ = None"

fun optional_string :: "pyval \<Rightarrow> string option" where
  "optional_string (PStr s) = Some s"
| "optional_string _ = None"

definition optional_parent_relation :: "pyval \<Rightarrow> error + string option" where
  "optional_parent_relation v =
     (case optional_string v of
        None \<Rightarrow> Inr None
      | Some relation \<Rightarrow>
          if relation \<noteq> ''follow_up'' then Inl (launch_error ''parent_relation'')
          else Inr (Some relation))"

fun string_tuple :: "pyval \<Rightarrow> string list" where
  "string_tuple (PList vs) = List.map_filter optional_string vs"
| "string_tuple _ = []"

definition optional_list_string :: "pyval \<Rightarrow> string list option" where
  "optional_list_string v =
     (case v of
        PList vs \<Rightarrow> (let xs = List.map_filter optional_string vs in if xs = [] then None else Some xs)
      | _ \<Rightarrow> None)"

definition string_value :: "pydict \<Rightarrow> string \<Rightarrow> error + string" where
  "string_value d k =
     (case dget d k of
        PStr s \<Rightarrow> if s = [] then Inl (launch_error ''missing value'') else Inr s
      | _ \<Rightarrow> Inl (launch_error ''missing value''))"

definition int_value :: "pydict \<Rightarrow> string \<Rightarrow> error + int" where
  "int_value d k =
     (case optional_int (dget d k) of
        None \<Rightarrow> Inl (launch_error ''missing value'')
      | Some i \<Rightarrow> Inr i)"

definition first_string :: "pyval \<Rightarrow> string option" where
  "first_string v =
     (case v of
        PList vs \<Rightarrow> (case List.map_filter optional_string vs of [] \<Rightarrow> None | s # _ \<Rightarrow> Some s)
      | _ \<Rightarrow> None)"

definition plan_id :: "int \<Rightarrow> string" where
  "plan_id version = ''plan-v'' @ int_str version"

definition plan_version_from_id :: "string option \<Rightarrow> int option" where
  "plan_version_from_id x =
     (case x of
        None \<Rightarrow> None
      | Some value \<Rightarrow>
          if \<not> startswith value ''plan-v'' then None
          else (let suffix = removeprefix value ''plan-v''
                in if isdigit suffix then Some (int (digits_nat suffix)) else None))"

definition plan_version_value :: "pyval \<Rightarrow> int option" where
  "plan_version_value v =
     (case optional_int v of
        Some i \<Rightarrow> Some i
      | None \<Rightarrow> (case v of PStr s \<Rightarrow> plan_version_from_id (Some s) | _ \<Rightarrow> None))"

fun stage_of_run_type_name :: "string \<Rightarrow> string option" where
  "stage_of_run_type_name n =
     (if n = ''planning'' then Some ''planning''
      else if n = ''implementation'' then Some ''implementing''
      else if n = ''validation'' then Some ''validating''
      else None)"

definition lock_stage_from_data :: "pydict \<Rightarrow> error + TaskStatusStage" where
  "lock_stage_from_data d =
     (let stage = (case optional_string (dget d ''stage'') of
                     Some s \<Rightarrow> Some s
                   | None \<Rightarrow>
                       stage_of_run_type_name
                         (str_or (optional_string (dget d ''run_type'')) []))
      in case stage of
           None \<Rightarrow> Inl (launch_error ''missing stage'')
         | Some s \<Rightarrow> normalize_task_status_stage s)"

definition TASKLEDGER_SCHEMA_VERSION :: int where "TASKLEDGER_SCHEMA_VERSION = 1"
definition TASKLEDGER_V2_FILE_VERSION :: string where "TASKLEDGER_V2_FILE_VERSION = ''v2''"

definition require_v2_file_version :: "pydict \<Rightarrow> error + unit" where
  "require_v2_file_version d =
     (if optional_string (dget d ''file_version'') \<noteq> Some TASKLEDGER_V2_FILE_VERSION
      then Inl (launch_error ''file version'') else Inr ())"

definition require_contract :: "pydict \<Rightarrow> string \<Rightarrow> error + unit" where
  "require_contract d expected_object_type =
     (case optional_int (dget d ''schema_version'') of
        None \<Rightarrow> Inl (launch_error ''schema version'')
      | Some version \<Rightarrow>
          if version > TASKLEDGER_SCHEMA_VERSION then Inl (launch_error ''schema version'')
          else if optional_string (dget d ''object_type'') \<noteq> Some expected_object_type
          then Inl (launch_error ''object type'')
          else if has_key d ''file_version'' then require_v2_file_version d
          else Inr ())"

definition int_or_default :: "pyval \<Rightarrow> int \<Rightarrow> int" where
  "int_or_default v i = (case optional_int v of Some j \<Rightarrow> j | None \<Rightarrow> i)"

definition require_sidecar_contract :: "pydict \<Rightarrow> string \<Rightarrow> error + unit" where
  "require_sidecar_contract d expected_object_type =
     (if (case optional_int (dget d ''schema_version'') of
            Some version \<Rightarrow> version > TASKLEDGER_SCHEMA_VERSION | None \<Rightarrow> False)
      then Inl (launch_error ''schema version'')
      else if (case optional_string (dget d ''object_type'') of
            Some t \<Rightarrow> t \<noteq> expected_object_type | None \<Rightarrow> False)
      then Inl (launch_error ''object type'')
      else if (case optional_string (dget d ''file_version'') of
            Some f \<Rightarrow> f \<noteq> TASKLEDGER_V2_FILE_VERSION | None \<Rightarrow> False)
      then Inl (launch_error ''file version'')
      else Inr ())"

section \<open>Readers invert writers\<close>

named_theorems py_simps \<open>reading back what was written\<close>

lemma untuple_opt_str [simp]: "untuple (opt_str x) = opt_str x"
  by (simp add: opt_str_def split: option.splits)

lemma untuple_opt_int [simp]: "untuple (opt_int x) = opt_int x"
  by (simp add: opt_int_def split: option.splits)

lemma untuple_opt_bool [simp]: "untuple (opt_bool x) = opt_bool x"
  by (simp add: opt_bool_def split: option.splits)

lemma untuple_opt_enum [simp]: "untuple (opt_enum tab x) = opt_enum tab x"
  by (simp add: opt_enum_def split: option.splits)

lemma untuple_str_list [simp]: "untuple (str_list xs) = str_list xs"
  by (simp add: str_list_def)

lemma untuple_str_tuple [simp]: "untuple (str_tuple xs) = str_list xs"
  by (simp add: str_list_def str_tuple_def)

lemma untuple_opt_rec [simp]: "untuple (opt_rec f x) = opt_rec (untuple \<circ> f) x"
  by (simp add: opt_rec_def split: option.splits)

lemma optional_string_opt_str [simp]: "optional_string (opt_str x) = x"
  by (simp add: opt_str_def split: option.splits)

lemma optional_int_opt_int [simp]: "optional_int (opt_int x) = x"
  by (simp add: opt_int_def split: option.splits)

lemma optional_string_opt_enum [simp]:
  "optional_string (opt_enum tab x) = map_option (enum_name tab) x"
  by (simp add: opt_enum_def split: option.splits)

lemma opt_PNone_iff [simp]:
  "opt_str x = PNone \<longleftrightarrow> x = None" "opt_int i = PNone \<longleftrightarrow> i = None"
  "opt_bool b = PNone \<longleftrightarrow> b = None"
  by (simp_all add: opt_str_def opt_int_def opt_bool_def split: option.splits)

lemma map_filter_PStr [simp]: "List.map_filter optional_string (map PStr xs) = xs"
  by (induction xs) (simp_all add: List.map_filter_simps)

lemma string_tuple_str_list [simp]: "string_tuple (str_list xs) = xs"
  by (simp add: str_list_def)

lemma optional_list_string_str_list [simp]:
  "optional_list_string (str_list xs) = (if xs = [] then None else Some xs)"
  by (simp add: optional_list_string_def str_list_def Let_def)

lemma map_filter_PDict [simp]: "List.map_filter as_dict (map PDict ds) = ds"
  by (induction ds) (simp_all add: List.map_filter_simps)

lemma dict_list_PDict [simp]: "dict_list (PList (map PDict ds)) = ds"
  by simp

lemma str_or_Some [simp]: "str_or (Some s) y = (if s = [] then y else s)"
  and str_or_None [simp]: "str_or None y = y"
  by (simp_all add: str_or_def)

lemma plan_version_from_plan_id: "0 \<le> v \<Longrightarrow> plan_version_from_id (Some (plan_id v)) = Some v"
  by (simp add: plan_version_from_id_def plan_id_def int_str_def removeprefix_def Let_def)

lemma opt_int_or_plan [simp]:
  "opt_int_or v (plan_version_value (opt_str (map_option plan_id v))) = v"
  by (cases v)
    (auto simp: opt_int_or_def plan_version_value_def opt_str_def plan_version_from_plan_id)

end
