(* ===== verification/PyText.thy ===== *)
theory PyText
  imports PyValue
begin

text \<open>
  More of Python's text functions: \<open>splitlines\<close>, \<open>in\<close>, \<open>repr\<close> and \<open>str\<close> of the values of
  \<open>PyValue\<close>, \<open>int\<close> and \<open>title\<close>, on ASCII text.
\<close>

definition is_line_break :: "char \<Rightarrow> bool" where
  "is_line_break c \<longleftrightarrow> (let n = (of_char c :: nat) in 10 \<le> n \<and> n \<le> 13 \<or> 28 \<le> n \<and> n \<le> 30)"

fun splitlines_aux :: "string \<Rightarrow> string \<Rightarrow> string list" where
  "splitlines_aux acc [] = (if acc = [] then [] else [acc])"
| "splitlines_aux acc [c] = (if is_line_break c then [acc] else [acc @ [c]])"
| "splitlines_aux acc (c # d # s) =
     (if c = CHR 0x0D \<and> d = CHR 0x0A then acc # splitlines_aux [] s
      else if is_line_break c then acc # splitlines_aux [] (d # s)
      else splitlines_aux (acc @ [c]) (d # s))"

definition splitlines :: "string \<Rightarrow> string list" where
  "splitlines s = splitlines_aux [] s"

definition hex_digit :: "nat \<Rightarrow> char" where
  "hex_digit n = (if n < 10 then digit_char n else char_of (87 + n))"

definition repr_char :: "char \<Rightarrow> char \<Rightarrow> string" where
  "repr_char q c =
     (let n = (of_char c :: nat)
      in if c = CHR 0x5C then [CHR 0x5C, CHR 0x5C]
         else if c = q then [CHR 0x5C, c]
         else if n = 10 then [CHR 0x5C, CHR ''n'']
         else if n = 13 then [CHR 0x5C, CHR ''r'']
         else if n = 9 then [CHR 0x5C, CHR ''t'']
         else if n < 32 \<or> n = 127 then [CHR 0x5C, CHR ''x'', hex_digit (n div 16), hex_digit (n mod 16)]
         else [c])"

definition repr_str :: "string \<Rightarrow> string" where
  "repr_str s =
     (let q = (if CHR 0x27 \<in> set s \<and> CHR 0x22 \<notin> set s then CHR 0x22 else CHR 0x27)
      in [q] @ concat (map (repr_char q) s) @ [q])"

fun py_repr :: "pyval \<Rightarrow> string" where
  "py_repr PNone = ''None''"
| "py_repr (PBool b) = (if b then ''True'' else ''False'')"
| "py_repr (PInt i) = int_str i"
| "py_repr (PStr s) = repr_str s"
| "py_repr (PList vs) = ''['' @ join '', '' (map py_repr vs) @ '']''"
| "py_repr (PTuple vs) =
     (if length vs = 1 then ''('' @ concat (map py_repr vs) @ '',)''
      else ''('' @ join '', '' (map py_repr vs) @ '')'')"
| "py_repr (PDict kvs) = ''{'' @ join '', '' (map (\<lambda>(k, v). repr_str k @ '': '' @ py_repr v) kvs) @ ''}''"

definition py_str :: "pyval \<Rightarrow> string" where
  "py_str v = (case v of PStr s \<Rightarrow> s | _ \<Rightarrow> py_repr v)"

text \<open>\<open>str(v or default)\<close>\<close>

definition str_of_or :: "pyval \<Rightarrow> string \<Rightarrow> string" where
  "str_of_or v dflt = (if truthy v then py_str v else dflt)"

text \<open>\<open>substring in text\<close>\<close>

definition contains :: "string \<Rightarrow> string \<Rightarrow> bool" where
  "contains sub text \<longleftrightarrow> list_ex (\<lambda>i. startswith (drop i text) sub) [0..<Suc (length text)]"

text \<open>\<open>int(text)\<close>: surrounding white space, a sign, digits with single underscores between.\<close>

fun py_digits :: "string \<Rightarrow> string option" where
  "py_digits [] = None"
| "py_digits [c] = (if is_digit_char c then Some [c] else None)"
| "py_digits (c # d # s) =
     (if \<not> is_digit_char c then None
      else if d = CHR ''_'' then map_option (Cons c) (py_digits s)
      else map_option (Cons c) (py_digits (d # s)))"

definition py_int :: "string \<Rightarrow> int option" where
  "py_int text =
     (case strip text of
        [] \<Rightarrow> None
      | c # s \<Rightarrow>
          if c = CHR ''-'' then map_option (\<lambda>d. - int (digits_nat d)) (py_digits s)
          else if c = CHR ''+'' then map_option (\<lambda>d. int (digits_nat d)) (py_digits s)
          else map_option (\<lambda>d. int (digits_nat d)) (py_digits (c # s)))"

text \<open>\<open>text.title()\<close>: the first letter of every group of letters in upper case.\<close>

text \<open>\<open>text.replace(old, new)\<close> for a non-empty \<open>old\<close>.\<close>

function py_replace :: "string \<Rightarrow> string \<Rightarrow> string \<Rightarrow> string" where
  "py_replace old new [] = []"
| "py_replace old new (c # s) =
     (if old \<noteq> [] \<and> startswith (c # s) old
      then new @ py_replace old new (drop (length old - 1) s)
      else c # py_replace old new s)"
  by pat_completeness auto
termination
  by (relation "measure (\<lambda>(_, _, s). length s)") auto

definition is_alpha :: "char \<Rightarrow> bool" where
  "is_alpha c \<longleftrightarrow> (let n = (of_char c :: nat) in 65 \<le> n \<and> n \<le> 90 \<or> 97 \<le> n \<and> n \<le> 122)"

definition char_upper :: "char \<Rightarrow> char" where
  "char_upper c = (let n = (of_char c :: nat) in if 97 \<le> n \<and> n \<le> 122 then char_of (n - 32) else c)"

fun title_aux :: "bool \<Rightarrow> string \<Rightarrow> string" where
  "title_aux inside [] = []"
| "title_aux inside (c # s) =
     (if inside then char_lower c else char_upper c) # title_aux (is_alpha c) s"

definition py_title :: "string \<Rightarrow> string" where
  "py_title s = title_aux False s"

end
