(* ===== verification/Records.thy ===== *)
theory Records
  imports PyText
begin

text \<open>
  The records of \<open>taskledger/domain\<close>: one Isabelle record per frozen dataclass, the fields in
  the dataclass's order under a two-letter prefix (\<open>tk_\<close> for \<open>TaskRecord\<close>, \<open>rn_\<close> for
  \<open>TaskRunRecord\<close>, \<open>lk_\<close> for \<open>TaskLock\<close> and so on). A field of \<open>Literal\<close> type holds
  the enumeration value of \<open>States\<close>.
\<close>

datatype PidScope = SP_owner | SP_command | SP_unverifiable_harness

definition pid_scope_names :: "(PidScope \<times> string) list" where
  "pid_scope_names = [(SP_owner, ''owner''), (SP_command, ''command''),
     (SP_unverifiable_harness, ''unverifiable_harness'')]"

datatype ActiveTaskStatusStage = LS_planning | LS_implementing | LS_validating

definition lock_stage_names :: "(ActiveTaskStatusStage \<times> string) list" where
  "lock_stage_names = [(LS_planning, ''planning''), (LS_implementing, ''implementing''),
     (LS_validating, ''validating'')]"

section \<open>The dataclasses\<close>

record ActorRef =
  ar_actor_type :: ActorType
  ar_actor_name :: string
  ar_tool :: "string option"
  ar_session_id :: "string option"
  ar_host :: "string option"
  ar_pid :: "int option"
  ar_actor_id :: "string option"
  ar_role :: "ActorRole option"
  ar_harness_id :: "string option"
  ar_command_pid :: "int option"
  ar_pid_scope :: "PidScope option"

record HarnessRef =
  hr_harness_id :: string
  hr_name :: string
  hr_kind :: HarnessKind
  hr_session_id :: "string option"
  hr_working_directory :: "string option"
  hr_command :: "string option"
  hr_version :: "string option"
  hr_capabilities :: "string list"
  hr_created_at :: string
  hr_schema_version :: int
  hr_object_type :: string

record CriterionWaiver =
  cw_actor :: ActorRef
  cw_reason :: string
  cw_created_at :: string

record DependencyWaiver =
  dw_actor :: ActorRef
  dw_reason :: string
  dw_created_at :: string

record FileLink =
  fl_path :: string
  fl_kind :: FileLinkKind
  fl_label :: "string option"
  fl_required_for_validation :: bool
  fl_id :: "string option"
  fl_task_id :: "string option"
  fl_target_type :: "string option"
  fl_baseline_hash :: "string option"
  fl_baseline_size :: "int option"
  fl_baseline_mtime :: "string option"
  fl_baseline_exists :: "bool option"
  fl_file_version :: string
  fl_schema_version :: int
  fl_object_type :: string
  fl_created_at :: string
  fl_updated_at :: string

record TaskTodo =
  td_id :: string
  td_text :: string
  td_done :: bool
  td_created_at :: string
  td_updated_at :: string
  td_source :: "string option"
  td_mandatory :: bool
  td_status :: TodoStatus
  td_active_at :: "string option"
  td_blocked_reason :: "string option"
  td_done_at :: "string option"
  td_skipped_at :: "string option"
  td_completed_by :: "ActorRef option"
  td_completed_in_harness :: "HarnessRef option"
  td_skipped_by :: "ActorRef option"
  td_evidence :: "string list"
  td_artifact_refs :: "string list"
  td_change_refs :: "string list"
  td_command_refs :: "string list"
  td_source_plan_id :: "string option"
  td_source_question_ids :: "string list"
  td_validation_hint :: "string option"
  td_worker_step_id :: "string option"

record AcceptanceCriterion =
  ac_id :: string
  ac_text :: string
  ac_mandatory :: bool

record DependencyRequirement =
  dr_task_id :: string
  dr_required_status :: string
  dr_waiver :: "DependencyWaiver option"
  dr_id :: "string option"
  dr_required_task_id :: "string option"
  dr_parent_task_id :: "string option"
  dr_file_version :: string
  dr_schema_version :: int
  dr_object_type :: string
  dr_created_at :: string
  dr_updated_at :: string

record ValidationCheck =
  vc_name :: string
  vc_id :: "string option"
  vc_criterion_id :: "string option"
  vc_status :: ValidationCheckStatus
  vc_details :: "string option"
  vc_evidence :: "string list"
  vc_waiver :: "CriterionWaiver option"

record TaskLock =
  lk_lock_id :: string
  lk_task_id :: string
  lk_stage :: ActiveTaskStatusStage
  lk_run_id :: string
  lk_created_at :: string
  lk_expires_at :: "string option"
  lk_reason :: string
  lk_holder :: ActorRef
  lk_lease_seconds :: int
  lk_last_heartbeat_at :: "string option"
  lk_broken_at :: "string option"
  lk_broken_by :: "ActorRef option"
  lk_broken_reason :: "string option"
  lk_actor :: "ActorRef option"
  lk_harness :: "HarnessRef option"
  lk_transfer_history :: "(pyval \<times> pyval \<times> pyval) list"
  lk_transfer_date :: "string option"
  lk_file_version :: string
  lk_schema_version :: int
  lk_object_type :: string

record TaskRunRecord =
  rn_run_id :: string
  rn_task_id :: string
  rn_run_type :: RunType
  rn_status :: RunStatus
  rn_started_at :: string
  rn_finished_at :: "string option"
  rn_actor :: ActorRef
  rn_harness :: "HarnessRef option"
  rn_based_on_plan_version :: "int option"
  rn_based_on_implementation_run :: "string option"
  rn_resumes_run_id :: "string option"
  rn_summary :: "string option"
  rn_worklog :: "string list"
  rn_deviations_from_plan :: "string list"
  rn_change_refs :: "string list"
  rn_check_refs :: "string list"
  rn_todo_updates :: "string list"
  rn_artifact_refs :: "string list"
  rn_checks :: "ValidationCheck list"
  rn_evidence :: "string list"
  rn_recommendation :: "string option"
  rn_result :: "ValidationResult option"
  rn_handoff_refs :: "string list"
  rn_actor_history :: "ActorRef list"
  rn_file_version :: string
  rn_based_on_plan :: "string option"
  rn_schema_version :: int
  rn_object_type :: string
  rn_workspace_git_commit :: "string option"
  rn_workspace_dirty :: "bool option"
  rn_workspace_diff_hash :: "string option"
  rn_workspace_status_hash :: "string option"
  rn_workspace_snapshot_at :: "string option"

record PlanRecord =
  pl_task_id :: string
  pl_plan_version :: int
  pl_body :: string
  pl_status :: PlanStatus
  pl_created_at :: string
  pl_created_by :: ActorRef
  pl_supersedes :: "int option"
  pl_question_refs :: "string list"
  pl_file_version :: string
  pl_criteria :: "AcceptanceCriterion list"
  pl_todos :: "TaskTodo list"
  pl_generation_reason :: "string option"
  pl_based_on_question_ids :: "string list"
  pl_based_on_answer_hash :: "string option"
  pl_approved_at :: "string option"
  pl_approved_by :: "ActorRef option"
  pl_approval_note :: "string option"
  pl_approval_source :: "string option"
  pl_approved_plan_hash :: "string option"
  pl_goal :: "string option"
  pl_files :: "string list"
  pl_test_commands :: "string list"
  pl_expected_outputs :: "string list"
  pl_todos_waived_reason :: "string option"
  pl_schema_version :: int
  pl_object_type :: string

record TaskRecord =
  tk_id :: string
  tk_slug :: string
  tk_title :: string
  tk_body :: string
  tk_status_stage :: TaskStatusStage
  tk_created_at :: string
  tk_updated_at :: string
  tk_description_summary :: "string option"
  tk_priority :: "string option"
  tk_labels :: "string list"
  tk_owner :: "string option"
  tk_introduction_ref :: "string option"
  tk_requirements :: "string list"
  tk_file_links :: "FileLink list"
  tk_todos :: "TaskTodo list"
  tk_latest_plan_version :: "int option"
  tk_accepted_plan_version :: "int option"
  tk_latest_planning_run :: "string option"
  tk_latest_implementation_run :: "string option"
  tk_latest_validation_run :: "string option"
  tk_code_change_log_refs :: "string list"
  tk_notes :: "string list"
  tk_parent_task_id :: "string option"
  tk_parent_relation :: "string option"
  tk_closed_at :: "string option"
  tk_closed_by :: "ActorRef option"
  tk_closure_note :: "string option"
  tk_archived_at :: "string option"
  tk_archived_by :: "ActorRef option"
  tk_archive_reason :: "string option"
  tk_file_version :: string
  tk_schema_version :: int
  tk_object_type :: string
  tk_task_type :: TaskType
  tk_recorded_at :: "string option"
  tk_recorded_by :: "ActorRef option"

record QuestionRecord =
  qn_id :: string
  qn_task_id :: string
  qn_question :: string
  qn_plan_version :: "int option"
  qn_status :: QuestionStatus
  qn_created_at :: string
  qn_answered_at :: "string option"
  qn_answered_by :: "string option"
  qn_answered_by_actor :: "ActorRef option"
  qn_asked_by_actor :: "ActorRef option"
  qn_asked_in_harness :: "HarnessRef option"
  qn_required_for_plan :: bool
  qn_answer_source :: "string option"
  qn_answer :: "string option"
  qn_file_version :: string
  qn_schema_version :: int
  qn_object_type :: string

record TaskHandoffRecord =
  ho_handoff_id :: string
  ho_task_id :: string
  ho_mode :: HandoffMode
  ho_context_for :: "ContextFor option"
  ho_worker_step_id :: "string option"
  ho_scope :: ContextScope
  ho_todo_id :: "string option"
  ho_focus_run_id :: "string option"
  ho_context_format :: ContextFormat
  ho_context_hash :: "string option"
  ho_generated_at :: "string option"
  ho_status :: HandoffStatus
  ho_lock_policy :: LockPolicy
  ho_context_body :: string
  ho_file_version :: string
  ho_schema_version :: int
  ho_object_type :: string
  ho_created_from_harness :: "HarnessRef option"
  ho_intended_actor_type :: "ActorType option"
  ho_intended_actor_name :: "string option"
  ho_intended_harness :: "string option"
  ho_source_run_id :: "string option"
  ho_resumes_run_id :: "string option"
  ho_claim_run_id :: "string option"
  ho_released_lock_id :: "string option"
  ho_claimed_at :: "string option"
  ho_claimed_by :: "ActorRef option"
  ho_claimed_in_harness :: "HarnessRef option"
  ho_summary :: "string option"
  ho_next_action :: "string option"
  ho_created_at :: string
  ho_created_by :: ActorRef

record CodeChangeRecord =
  ch_change_id :: string
  ch_task_id :: string
  ch_implementation_run :: string
  ch_timestamp :: string
  ch_kind :: string
  ch_path :: string
  ch_summary :: string
  ch_git_commit :: "string option"
  ch_git_diff_stat :: "string option"
  ch_command :: "string option"
  ch_before_hash :: "string option"
  ch_after_hash :: "string option"
  ch_exit_code :: "int option"
  ch_file_version :: string
  ch_schema_version :: int
  ch_object_type :: string

record ActiveTaskState =
  as_task_id :: string
  as_activated_at :: string
  as_activated_by :: ActorRef
  as_reason :: "string option"
  as_previous_task_id :: "string option"
  as_schema_version :: int
  as_object_type :: string
  as_file_version :: string

section \<open>Defaults and derived properties\<close>

definition ActorRef_default :: ActorRef where
  "ActorRef_default = \<lparr>ar_actor_type = AT_agent, ar_actor_name = ''taskledger'',
     ar_tool = None, ar_session_id = None, ar_host = None, ar_pid = None, ar_actor_id = None,
     ar_role = None, ar_harness_id = None, ar_command_pid = None, ar_pid_scope = None\<rparr>"

fun run_type_of_stage :: "ActiveTaskStatusStage \<Rightarrow> RunType" where
  "run_type_of_stage LS_planning = RT_planning"
| "run_type_of_stage LS_implementing = RT_implementation"
| "run_type_of_stage LS_validating = RT_validation"

fun stage_of_run_type :: "RunType \<Rightarrow> ActiveTaskStatusStage" where
  "stage_of_run_type RT_planning = LS_planning"
| "stage_of_run_type RT_implementation = LS_implementing"
| "stage_of_run_type RT_validation = LS_validating"

definition TaskLock_run_type :: "TaskLock \<Rightarrow> RunType" where
  "TaskLock_run_type r = run_type_of_stage (lk_stage r)"

definition TaskRunRecord_plan_ref :: "TaskRunRecord \<Rightarrow> string option" where
  "TaskRunRecord_plan_ref r = map_option plan_id (rn_based_on_plan_version r)"

definition TaskRecord_intro_refs :: "TaskRecord \<Rightarrow> string list" where
  "TaskRecord_intro_refs r =
     (case tk_introduction_ref r of None \<Rightarrow> [] | Some s \<Rightarrow> if s = [] then [] else [s])"

definition PlanRecord_plan_id :: "PlanRecord \<Rightarrow> string" where
  "PlanRecord_plan_id r = plan_id (pl_plan_version r)"

definition is_archived_task :: "TaskRecord \<Rightarrow> bool" where
  "is_archived_task t \<longleftrightarrow> tk_archived_at t \<noteq> None"

lemma run_type_stage_inverse [simp]: "run_type_of_stage (stage_of_run_type t) = t"
  by (cases t) simp_all

lemma stage_run_type_inverse [simp]: "stage_of_run_type (run_type_of_stage s) = s"
  by (cases s) simp_all

lemma run_type_of_stage_eq: "run_type_of_stage s = t \<longleftrightarrow> s = stage_of_run_type t"
  by (cases s; cases t) simp_all

end
