(* ===== verification/Policies.thy ===== *)
theory Policies
  imports Records
begin

text \<open>
  \<open>taskledger/domain/policies.py\<close>: which operation is allowed in which stage under which
  lock. Every decision is an interpretation of \<open>decision_contract\<close> (allowed, exit code and
  result code agree); the decisions of the three kinds of run are characterised exactly.
\<close>

record Decision =
  d_allowed :: bool
  d_code :: string
  d_message :: string
  d_blocking_refs :: "string list"
  d_details :: pydict
  d_exit_code :: int

record PolicyContext =
  pc_task :: TaskRecord
  pc_lock :: "TaskLock option"
  pc_run :: "TaskRunRecord option"
  pc_active_stage :: "RunType option"

text \<open>The attributes \<open>can_*\<close> read off their untyped \<open>ledger\<close> argument with \<open>getattr\<close>.\<close>

record policy_ledger =
  pg_lock :: "TaskLock option"
  pg_accepted_plan :: "PlanRecord option"

section \<open>The context of a decision\<close>

definition run_matches_lock :: "TaskLock \<Rightarrow> TaskRunRecord \<Rightarrow> bool" where
  "run_matches_lock lock run \<longleftrightarrow>
     rn_run_id run = lk_run_id lock \<and> rn_run_type run = TaskLock_run_type lock
     \<and> rn_status run = RS_running"

definition derive_active_stage ::
  "TaskLock option \<Rightarrow> TaskRunRecord list \<Rightarrow> RunType option" where
  "derive_active_stage lock runs =
     (case lock of
        None \<Rightarrow> None
      | Some l \<Rightarrow> map_option rn_run_type (find (run_matches_lock l) runs))"

definition build_policy_context ::
  "TaskRecord \<Rightarrow> TaskLock option \<Rightarrow> TaskRunRecord option \<Rightarrow> PolicyContext" where
  "build_policy_context task lock run =
     \<lparr>pc_task = task, pc_lock = lock, pc_run = run,
      pc_active_stage =
        (case lock of
           None \<Rightarrow> None
         | Some l \<Rightarrow>
             (case run of
                Some r \<Rightarrow> derive_active_stage lock [r]
              | None \<Rightarrow> Some (TaskLock_run_type l)))\<rparr>"

definition policy_decision :: "bool \<Rightarrow> string \<Rightarrow> int \<Rightarrow> Decision" where
  "policy_decision ok reason exit_code =
     \<lparr>d_allowed = ok, d_code = (if ok then ''OK'' else ''POLICY_DENIED''), d_message = reason,
      d_blocking_refs = [], d_details = [], d_exit_code = exit_code\<rparr>"

definition with_denial_code :: "Decision \<Rightarrow> string \<Rightarrow> Decision" where
  "with_denial_code decision code =
     (if d_allowed decision then decision else decision\<lparr>d_code := code\<rparr>)"

definition active_stage_lock_decision ::
  "PolicyContext \<Rightarrow> ActiveTaskStatusStage \<Rightarrow> string \<Rightarrow> string option \<Rightarrow> Decision" where
  "active_stage_lock_decision ctx expected_stage action expected_run_id =
     (let stage = enum_name lock_stage_names expected_stage;
          prefix = ''Task '' @ tk_id (pc_task ctx)
      in case pc_lock ctx of
        None \<Rightarrow>
          policy_decision False
            (prefix @ '' needs an active '' @ stage @ '' lock to '' @ action @ ''.'')
            EXIT_CODE_LOCK_CONFLICT
      | Some lock \<Rightarrow>
          if TaskLock_run_type lock \<noteq> run_type_of_stage expected_stage then
            policy_decision False
              (prefix @ '' is locked for '' @ enum_name lock_stage_names (lk_stage lock)
                @ '', not '' @ stage @ ''.'')
              EXIT_CODE_LOCK_CONFLICT
          else if expected_run_id \<noteq> None \<and> Some (lk_run_id lock) \<noteq> expected_run_id then
            policy_decision False
              (prefix @ '' has a '' @ stage @ '' lock for '' @ lk_run_id lock @ '', not ''
                @ the expected_run_id @ ''.'')
              EXIT_CODE_LOCK_CONFLICT
          else policy_decision True (''Task can '' @ action @ ''.'') 0)"

section \<open>Starting a run\<close>

definition can_start_planning :: "TaskRecord \<Rightarrow> policy_ledger \<Rightarrow> Decision" where
  "can_start_planning task ledger =
     (let allowed = (tk_status_stage task \<in> {S_draft, S_plan_review} \<and> pg_lock ledger = None)
      in \<lparr>d_allowed = allowed, d_code = (if allowed then ''OK'' else ''TASK_NOT_PLANNABLE''),
          d_message = (if allowed then ''Planning can start.''
            else ''Planning requires draft or plan_review state without an active lock.''),
          d_blocking_refs = [], d_details = [],
          d_exit_code = (if allowed then 0 else EXIT_CODE_INVALID_TRANSITION)\<rparr>)"

definition can_start_implementation :: "TaskRecord \<Rightarrow> policy_ledger \<Rightarrow> Decision" where
  "can_start_implementation task ledger =
     (let allowed = (tk_status_stage task \<in> {S_approved, S_failed_validation}
            \<and> pg_accepted_plan ledger \<noteq> None \<and> pg_lock ledger = None)
      in \<lparr>d_allowed = allowed, d_code = (if allowed then ''OK'' else ''TASK_NOT_APPROVED''),
          d_message = (if allowed then ''Implementation can start.''
            else ''Implementation requires approved state, an accepted plan, ''
              @ ''and no active lock.''),
          d_blocking_refs = [], d_details = [],
          d_exit_code = (if allowed then 0 else EXIT_CODE_APPROVAL_REQUIRED)\<rparr>)"

definition can_start_validation :: "TaskRecord \<Rightarrow> policy_ledger \<Rightarrow> Decision" where
  "can_start_validation task ledger =
     (let allowed = (tk_status_stage task = S_implemented \<and> pg_lock ledger = None)
      in \<lparr>d_allowed = allowed, d_code = (if allowed then ''OK'' else ''TASK_NOT_IMPLEMENTED''),
          d_message = (if allowed then ''Validation can start.''
            else ''Validation requires implemented state and no active lock.''),
          d_blocking_refs = [], d_details = [],
          d_exit_code = (if allowed then 0 else EXIT_CODE_INVALID_TRANSITION)\<rparr>)"

section \<open>Operations on the task, its todos and its questions\<close>

definition metadata_edit_decision :: "TaskRecord \<Rightarrow> TaskLock option \<Rightarrow> Decision" where
  "metadata_edit_decision task lock =
     (let ctx = build_policy_context task lock None in
      if tk_status_stage (pc_task ctx) \<notin> {S_draft, S_plan_review, S_approved} then
        policy_decision False
          ''Task metadata can only be edited in draft, plan_review, or approved.''
          EXIT_CODE_INVALID_TRANSITION
      else case pc_active_stage ctx of
        Some stage \<Rightarrow>
          policy_decision False
            (''Task '' @ tk_id (pc_task ctx) @ '' is locked for '' @ enum_name run_type_names stage
              @ ''. Break the lock explicitly before editing metadata.'')
            EXIT_CODE_LOCK_CONFLICT
      | None \<Rightarrow> policy_decision True ''Task metadata can be edited.'' 0)"

definition todo_add_decision ::
  "TaskRecord \<Rightarrow> TaskLock option \<Rightarrow> string \<Rightarrow> Decision" where
  "todo_add_decision task lock actor_role =
     (let ctx = build_policy_context task lock None in
      if pc_active_stage ctx = Some RT_planning then
        active_stage_lock_decision ctx LS_planning ''add todos during planning'' None
      else if pc_active_stage ctx = Some RT_implementation
          \<and> tk_status_stage (pc_task ctx) \<in> {S_approved, S_implementing, S_failed_validation} then
        active_stage_lock_decision ctx LS_implementing ''add todos during implementation'' None
      else if pc_active_stage ctx \<noteq> None
          \<or> tk_status_stage (pc_task ctx) \<notin> {S_draft, S_plan_review, S_approved} then
        policy_decision False ''Todos can only be added before implementation starts.''
          EXIT_CODE_INVALID_TRANSITION
      else policy_decision True (actor_role @ '' can add a todo.'') 0)"

definition todo_toggle_decision ::
  "TaskRecord \<Rightarrow> TaskLock option \<Rightarrow> string \<Rightarrow> Decision" where
  "todo_toggle_decision task lock actor_role =
     (let ctx = build_policy_context task lock None in
      if pc_active_stage ctx = Some RT_implementation then
        active_stage_lock_decision ctx LS_implementing ''toggle todos during implementation'' None
      else if pc_active_stage ctx = Some RT_validation
          \<or> tk_status_stage (pc_task ctx) \<in> {S_cancelled, S_done} then
        policy_decision False
          (''Todos cannot be toggled while the task is ''
            @ stage_str (tk_status_stage (pc_task ctx)) @ ''.'')
          EXIT_CODE_INVALID_TRANSITION
      else if actor_role \<noteq> ''user'' then
        policy_decision False ''Only the user may toggle todos outside implementation.''
          EXIT_CODE_INVALID_TRANSITION
      else policy_decision True (actor_role @ '' can toggle todos.'') 0)"

definition question_add_decision ::
  "TaskRecord \<Rightarrow> TaskLock option \<Rightarrow> string \<Rightarrow> Decision" where
  "question_add_decision task lock actor_role =
     (let ctx = build_policy_context task lock None in
      if pc_active_stage ctx \<notin> {None, Some RT_planning}
          \<or> tk_status_stage (pc_task ctx) \<notin> {S_draft, S_plan_review} then
        policy_decision False ''Questions can only be added during planning or plan review.''
          EXIT_CODE_INVALID_TRANSITION
      else if pc_active_stage ctx = Some RT_planning \<and> actor_role \<noteq> ''user'' then
        active_stage_lock_decision ctx LS_planning ''add questions during planning'' None
      else policy_decision True (actor_role @ '' can add a question.'') 0)"

definition question_mutation_decision ::
  "TaskRecord \<Rightarrow> TaskLock option \<Rightarrow> string \<Rightarrow> Decision" where
  "question_mutation_decision task lock actor_role =
     (let ctx = build_policy_context task lock None in
      if pc_active_stage ctx \<notin> {None, Some RT_planning}
          \<or> tk_status_stage (pc_task ctx) \<notin> {S_draft, S_plan_review} then
        policy_decision False ''Questions can only be updated during planning or plan review.''
          EXIT_CODE_INVALID_TRANSITION
      else if pc_active_stage ctx = Some RT_planning \<and> actor_role \<noteq> ''user'' then
        active_stage_lock_decision ctx LS_planning ''update questions during planning'' None
      else policy_decision True (actor_role @ '' can update the question.'') 0)"

section \<open>Plans\<close>

definition nl :: string where "nl = [CHR 0x0A]"

definition revise_commands :: "string list" where
  "revise_commands =
    [''taskledger plan revise'',
     ''taskledger plan export --version latest --file ./plan.md'',
     ''taskledger plan upsert --file ./plan.md'']"

definition revise_message :: string where
  "revise_message =
     ''Plan proposals require active planning.'' @ nl @ nl
     @ ''This task is in plan_review and has no active planning run.'' @ nl
     @ ''To revise the proposed plan:'' @ nl
     @ ''  taskledger plan revise'' @ nl
     @ ''  taskledger plan export --version latest --file ./plan.md'' @ nl
     @ ''  # edit ./plan.md'' @ nl
     @ ''  taskledger plan upsert --file ./plan.md'' @ nl @ nl
     @ ''Do not edit files under .taskledger/ directly.''"

definition revise_remediation :: string where
  "revise_remediation =
     ''Run `taskledger plan revise`, export/edit a workspace plan ''
     @ ''file, then run `taskledger plan upsert --file ./plan.md`.''"

definition no_live_run :: "PolicyContext \<Rightarrow> RunType \<Rightarrow> bool" where
  "no_live_run ctx kind \<longleftrightarrow>
     (case pc_run ctx of
        None \<Rightarrow> True
      | Some r \<Rightarrow> rn_run_type r \<noteq> kind \<or> rn_status r \<noteq> RS_running)"

definition plan_propose_decision ::
  "TaskRecord \<Rightarrow> TaskLock option \<Rightarrow> TaskRunRecord option \<Rightarrow> Decision" where
  "plan_propose_decision task lock run =
     (let ctx = build_policy_context task lock run in
      if tk_status_stage (pc_task ctx) \<notin> {S_draft, S_plan_review}
          \<or> pc_active_stage ctx \<noteq> Some RT_planning then
        (if tk_status_stage (pc_task ctx) = S_plan_review \<and> pc_active_stage ctx = None then
           \<lparr>d_allowed = False, d_code = ''POLICY_DENIED'', d_message = revise_message,
            d_blocking_refs = [],
            d_details = [(''remediation'', PStr revise_remediation),
                         (''next_commands'', str_list revise_commands)],
            d_exit_code = EXIT_CODE_INVALID_TRANSITION\<rparr>
         else policy_decision False ''Plan proposals require active planning.''
           EXIT_CODE_INVALID_TRANSITION)
      else if no_live_run ctx RT_planning then
        policy_decision False ''Plan proposals require an active planning run.''
          EXIT_CODE_INVALID_TRANSITION
      else active_stage_lock_decision ctx LS_planning ''propose a plan''
        (map_option rn_run_id (pc_run ctx)))"

definition plan_command_decision ::
  "TaskRecord \<Rightarrow> TaskLock option \<Rightarrow> TaskRunRecord option \<Rightarrow> Decision" where
  "plan_command_decision task lock run =
     (let ctx = build_policy_context task lock run in
      if tk_status_stage (pc_task ctx) \<notin> {S_draft, S_plan_review}
          \<or> pc_active_stage ctx \<noteq> Some RT_planning then
        policy_decision False ''Plan commands require active planning.''
          EXIT_CODE_INVALID_TRANSITION
      else if no_live_run ctx RT_planning then
        policy_decision False ''Plan commands require an active planning run.''
          EXIT_CODE_INVALID_TRANSITION
      else active_stage_lock_decision ctx LS_planning ''run a planning command''
        (map_option rn_run_id (pc_run ctx)))"

definition plan_approve_decision :: "TaskRecord \<Rightarrow> TaskLock option \<Rightarrow> Decision" where
  "plan_approve_decision task lock =
     (let ctx = build_policy_context task lock None in
      if tk_status_stage (pc_task ctx) \<noteq> S_plan_review then
        policy_decision False ''Plan approval requires plan_review state.''
          EXIT_CODE_APPROVAL_REQUIRED
      else case pc_active_stage ctx of
        Some stage \<Rightarrow>
          policy_decision False
            (''Task '' @ tk_id (pc_task ctx) @ '' still has a '' @ enum_name run_type_names stage
              @ '' lock. Break it before plan review actions.'')
            EXIT_CODE_LOCK_CONFLICT
      | None \<Rightarrow> policy_decision True ''Plan can be approved.'' 0)"

definition plan_revise_decision :: "TaskRecord \<Rightarrow> TaskLock option \<Rightarrow> Decision" where
  "plan_revise_decision task lock =
     (let ctx = build_policy_context task lock None in
      if tk_status_stage (pc_task ctx) \<noteq> S_plan_review then
        policy_decision False ''Plan revision requires plan_review state.''
          EXIT_CODE_INVALID_TRANSITION
      else case pc_active_stage ctx of
        Some stage \<Rightarrow>
          policy_decision False
            (''Task '' @ tk_id (pc_task ctx) @ '' still has a '' @ enum_name run_type_names stage
              @ '' lock. Break it before revising the plan.'')
            EXIT_CODE_LOCK_CONFLICT
      | None \<Rightarrow> policy_decision True ''Plan can be revised.'' 0)"

section \<open>Implementation and validation\<close>

definition implementation_mutation_decision ::
  "TaskRecord \<Rightarrow> TaskLock option \<Rightarrow> TaskRunRecord option \<Rightarrow> string \<Rightarrow> Decision" where
  "implementation_mutation_decision task lock run action =
     (let ctx = build_policy_context task lock run in
      if tk_status_stage (pc_task ctx) \<notin> {S_approved, S_failed_validation, S_implementing}
          \<or> pc_active_stage ctx \<noteq> Some RT_implementation then
        policy_decision False (action @ '' requires active implementation.'')
          EXIT_CODE_INVALID_TRANSITION
      else if no_live_run ctx RT_implementation then
        policy_decision False (action @ '' requires an active implementation run.'')
          EXIT_CODE_INVALID_TRANSITION
      else active_stage_lock_decision ctx LS_implementing action
        (map_option rn_run_id (pc_run ctx)))"

definition validation_check_decision ::
  "TaskRecord \<Rightarrow> TaskLock option \<Rightarrow> TaskRunRecord option \<Rightarrow> Decision" where
  "validation_check_decision task lock run =
     (let ctx = build_policy_context task lock run in
      if tk_status_stage (pc_task ctx) \<noteq> S_implemented
          \<or> pc_active_stage ctx \<noteq> Some RT_validation then
        policy_decision False ''Validation checks require active validation.''
          EXIT_CODE_INVALID_TRANSITION
      else if no_live_run ctx RT_validation then
        policy_decision False ''Validation checks require an active validation run.''
          EXIT_CODE_INVALID_TRANSITION
      else active_stage_lock_decision ctx LS_validating ''record validation checks''
        (map_option rn_run_id (pc_run ctx)))"

section \<open>The public wrappers\<close>

definition can_propose_plan :: "TaskRecord \<Rightarrow> TaskRunRecord \<Rightarrow> policy_ledger \<Rightarrow> Decision" where
  "can_propose_plan task run ledger =
     with_denial_code (plan_propose_decision task (pg_lock ledger) (Some run))
       ''RUN_LOCK_MISMATCH''"

definition can_approve_plan :: "TaskRecord \<Rightarrow> PlanRecord \<Rightarrow> policy_ledger \<Rightarrow> Decision" where
  "can_approve_plan task plan ledger =
     with_denial_code (plan_approve_decision task (pg_lock ledger)) ''TASK_NOT_IN_REVIEW''"

definition can_finish_implementation ::
  "TaskRecord \<Rightarrow> TaskRunRecord \<Rightarrow> policy_ledger \<Rightarrow> Decision" where
  "can_finish_implementation task run ledger =
     with_denial_code
       (implementation_mutation_decision task (pg_lock ledger) (Some run)
         ''finish implementation'')
       ''RUN_LOCK_MISMATCH''"

definition can_finish_validation ::
  "TaskRecord \<Rightarrow> TaskRunRecord \<Rightarrow> policy_ledger \<Rightarrow> Decision" where
  "can_finish_validation task run ledger =
     with_denial_code (validation_check_decision task (pg_lock ledger) (Some run))
       ''RUN_LOCK_MISMATCH''"

definition can_mark_todo_done ::
  "TaskRecord \<Rightarrow> TaskTodo \<Rightarrow> ActorRef \<Rightarrow> policy_ledger \<Rightarrow> Decision" where
  "can_mark_todo_done task todo actor ledger =
     with_denial_code
       (todo_toggle_decision task (pg_lock ledger)
         (if ar_actor_type actor = AT_user then ''user'' else ''implementer''))
       ''TODO_NOT_MUTABLE''"

definition require_known_actor_role :: "string \<Rightarrow> error + string" where
  "require_known_actor_role actor_role =
     (if actor_role \<notin> {''planner'', ''implementer'', ''user''}
      then Inl (mk_error C_ValueError ''actor role'') else Inr actor_role)"

section \<open>The contract of a decision\<close>

lemmas policy_defs =
  policy_decision_def active_stage_lock_decision_def with_denial_code_def
  build_policy_context_def Let_def exit_code_defs

lemmas decision_defs =
  can_start_planning_def can_start_implementation_def can_start_validation_def
  metadata_edit_decision_def todo_add_decision_def todo_toggle_decision_def
  question_add_decision_def question_mutation_decision_def plan_propose_decision_def
  plan_command_decision_def plan_approve_decision_def plan_revise_decision_def
  implementation_mutation_decision_def validation_check_decision_def

definition decision_ok :: "Decision \<Rightarrow> bool" where
  "decision_ok d \<longleftrightarrow>
     (if d_allowed d then d_code d = ''OK'' \<and> d_exit_code d = 0
      else d_code d \<noteq> ''OK''
        \<and> d_exit_code d \<in> {EXIT_CODE_WORKFLOW_REJECTION, EXIT_CODE_LOCK_CONFLICT})"

text \<open>
  The interface of every decision: the result code and the exit code tell the same story as
  the flag, and a denial is either a rejection by the workflow or a lock conflict.
\<close>

locale decision_contract =
  fixes decide :: "'c \<Rightarrow> Decision"
  assumes ok: "decision_ok (decide c)"
begin

lemma allowed_iff_exit: "d_allowed (decide c) \<longleftrightarrow> d_exit_code (decide c) = 0"
  using ok [of c] by (auto simp: decision_ok_def exit_code_defs split: if_splits)

lemma allowed_iff_code: "d_allowed (decide c) \<longleftrightarrow> d_code (decide c) = ''OK''"
  using ok [of c] by (auto simp: decision_ok_def split: if_splits)

lemma denial_exit:
  "\<not> d_allowed (decide c) \<Longrightarrow>
    d_exit_code (decide c) = EXIT_CODE_WORKFLOW_REJECTION
    \<or> d_exit_code (decide c) = EXIT_CODE_LOCK_CONFLICT"
  using ok [of c] by (simp add: decision_ok_def)

lemma denial_recoded: "code \<noteq> ''OK'' \<Longrightarrow> decision_ok (with_denial_code (decide c) code)"
  using ok [of c] by (auto simp: decision_ok_def with_denial_code_def split: if_splits)

end

lemma policy_decision_ok [simp]:
  "decision_ok (policy_decision True m 0)"
  "e = EXIT_CODE_WORKFLOW_REJECTION \<or> e = EXIT_CODE_LOCK_CONFLICT
    \<Longrightarrow> decision_ok (policy_decision False m e)"
  by (auto simp: decision_ok_def policy_decision_def)

lemma policy_decision_sel [simp]:
  "d_allowed (policy_decision b m e) = b" "d_exit_code (policy_decision b m e) = e"
  by (simp_all add: policy_decision_def)

lemma workflow_exit_codes [simp]:
  "EXIT_CODE_INVALID_TRANSITION = EXIT_CODE_WORKFLOW_REJECTION"
  "EXIT_CODE_APPROVAL_REQUIRED = EXIT_CODE_WORKFLOW_REJECTION"
  by (simp_all add: exit_code_defs)

lemma active_stage_lock_decision_ok [simp]:
  "decision_ok (active_stage_lock_decision ctx s a r)"
  by (simp add: active_stage_lock_decision_def Let_def split: option.splits)

lemma active_stage_lock_allowed:
  "d_allowed (active_stage_lock_decision ctx s a r) \<longleftrightarrow>
     (\<exists>lock. pc_lock ctx = Some lock \<and> lk_stage lock = s
        \<and> (r = None \<or> r = Some (lk_run_id lock)))"
  by (auto simp: active_stage_lock_decision_def TaskLock_run_type_def run_type_of_stage_eq Let_def
      split: option.splits)

interpretation start_planning: decision_contract "\<lambda>(t, g). can_start_planning t g"
  by unfold_locales (auto simp: can_start_planning_def decision_ok_def Let_def)

interpretation start_implementation: decision_contract "\<lambda>(t, g). can_start_implementation t g"
  by unfold_locales (auto simp: can_start_implementation_def decision_ok_def Let_def)

interpretation start_validation: decision_contract "\<lambda>(t, g). can_start_validation t g"
  by unfold_locales (auto simp: can_start_validation_def decision_ok_def Let_def)

interpretation metadata_edit: decision_contract "\<lambda>(t, l). metadata_edit_decision t l"
  by unfold_locales (auto simp: metadata_edit_decision_def Let_def split: option.splits)

interpretation todo_add: decision_contract "\<lambda>(t, l, a). todo_add_decision t l a"
  by unfold_locales (auto simp: todo_add_decision_def Let_def)

interpretation todo_toggle: decision_contract "\<lambda>(t, l, a). todo_toggle_decision t l a"
  by unfold_locales (auto simp: todo_toggle_decision_def Let_def)

interpretation question_add: decision_contract "\<lambda>(t, l, a). question_add_decision t l a"
  by unfold_locales (auto simp: question_add_decision_def Let_def)

interpretation question_mutation: decision_contract "\<lambda>(t, l, a). question_mutation_decision t l a"
  by unfold_locales (auto simp: question_mutation_decision_def Let_def)

lemma plan_propose_ok: "decision_ok (plan_propose_decision t l r)"
  by (auto simp: plan_propose_decision_def Let_def)
    (simp_all add: decision_ok_def)

interpretation plan_propose: decision_contract "\<lambda>(t, l, r). plan_propose_decision t l r"
  by unfold_locales (auto simp: plan_propose_ok)

interpretation plan_command: decision_contract "\<lambda>(t, l, r). plan_command_decision t l r"
  by unfold_locales (auto simp: plan_command_decision_def Let_def)

interpretation plan_approve: decision_contract "\<lambda>(t, l). plan_approve_decision t l"
  by unfold_locales (auto simp: plan_approve_decision_def Let_def split: option.splits)

interpretation plan_revise: decision_contract "\<lambda>(t, l). plan_revise_decision t l"
  by unfold_locales (auto simp: plan_revise_decision_def Let_def split: option.splits)

interpretation implementation_mutation:
  decision_contract "\<lambda>(t, l, r, a). implementation_mutation_decision t l r a"
  by unfold_locales (auto simp: implementation_mutation_decision_def Let_def)

interpretation validation_check: decision_contract "\<lambda>(t, l, r). validation_check_decision t l r"
  by unfold_locales (auto simp: validation_check_decision_def Let_def)

section \<open>When a run may be changed\<close>

text \<open>
  The lock and the run agree: the lock's stage is the run's, it names the run, and the run is
  still running. This is the condition under which the sources let a run be changed.
\<close>

definition holds_run :: "RunType \<Rightarrow> TaskLock option \<Rightarrow> TaskRunRecord option \<Rightarrow> bool" where
  "holds_run kind lock run \<longleftrightarrow>
     (case (lock, run) of
        (Some l, Some r) \<Rightarrow>
          lk_stage l = stage_of_run_type kind \<and> rn_run_type r = kind
          \<and> lk_run_id l = rn_run_id r \<and> rn_status r = RS_running
      | _ \<Rightarrow> False)"

lemma active_stage_of_run:
  "pc_active_stage (build_policy_context t lock (Some r)) = Some k \<longleftrightarrow>
     holds_run k lock (Some r)"
  by (auto simp: build_policy_context_def derive_active_stage_def run_matches_lock_def
      holds_run_def TaskLock_run_type_def split: option.splits)

lemma active_stage_no_run:
  "pc_active_stage (build_policy_context t lock None) = map_option TaskLock_run_type lock"
  by (simp add: build_policy_context_def split: option.splits)

lemma context_simps [simp]:
  "pc_task (build_policy_context t lock run) = t"
  "pc_lock (build_policy_context t lock run) = lock"
  "pc_run (build_policy_context t lock run) = run"
  by (simp_all add: build_policy_context_def)

lemma run_decision_allowed:
  assumes "k = run_type_of_stage s"
  shows "pc_active_stage (build_policy_context t lock run) = Some k
     \<and> \<not> no_live_run (build_policy_context t lock run) k
     \<and> d_allowed (active_stage_lock_decision (build_policy_context t lock run) s a
           (map_option rn_run_id run))
     \<longleftrightarrow> holds_run k lock run"
proof (cases run)
  case None
  then show ?thesis by (simp add: no_live_run_def holds_run_def split: option.splits)
next
  case (Some r)
  then show ?thesis
    using assms
    by (auto simp: active_stage_of_run active_stage_lock_allowed no_live_run_def holds_run_def
        split: option.splits)
qed

lemma implementation_mutation_allowed:
  "d_allowed (implementation_mutation_decision task lock run action) \<longleftrightarrow>
     tk_status_stage task \<in> {S_approved, S_failed_validation, S_implementing}
     \<and> holds_run RT_implementation lock run"
  using run_decision_allowed [of RT_implementation LS_implementing task lock run action]
  by (auto simp: implementation_mutation_decision_def Let_def)

lemma validation_check_allowed:
  "d_allowed (validation_check_decision task lock run) \<longleftrightarrow>
     tk_status_stage task = S_implemented \<and> holds_run RT_validation lock run"
  using run_decision_allowed [of RT_validation LS_validating task lock run]
  by (auto simp: validation_check_decision_def Let_def)

lemma plan_propose_allowed:
  "d_allowed (plan_propose_decision task lock run) \<longleftrightarrow>
     tk_status_stage task \<in> {S_draft, S_plan_review} \<and> holds_run RT_planning lock run"
  using run_decision_allowed [of RT_planning LS_planning task lock run]
  by (auto simp: plan_propose_decision_def Let_def)

lemma plan_command_allowed:
  "d_allowed (plan_command_decision task lock run) \<longleftrightarrow>
     tk_status_stage task \<in> {S_draft, S_plan_review} \<and> holds_run RT_planning lock run"
  using run_decision_allowed [of RT_planning LS_planning task lock run]
  by (auto simp: plan_command_decision_def Let_def)

lemma plan_approve_allowed:
  "d_allowed (plan_approve_decision task lock) \<longleftrightarrow>
     tk_status_stage task = S_plan_review \<and> lock = None"
  by (auto simp: plan_approve_decision_def active_stage_no_run Let_def split: option.splits)

lemma plan_revise_allowed:
  "d_allowed (plan_revise_decision task lock) \<longleftrightarrow>
     tk_status_stage task = S_plan_review \<and> lock = None"
  by (auto simp: plan_revise_decision_def active_stage_no_run Let_def split: option.splits)

lemma metadata_edit_allowed:
  "d_allowed (metadata_edit_decision task lock) \<longleftrightarrow>
     tk_status_stage task \<in> {S_draft, S_plan_review, S_approved} \<and> lock = None"
  by (auto simp: metadata_edit_decision_def active_stage_no_run Let_def split: option.splits)

lemma todo_add_allowed:
  "d_allowed (todo_add_decision task lock actor_role) \<longleftrightarrow>
     (case lock of
        None \<Rightarrow> tk_status_stage task \<in> {S_draft, S_plan_review, S_approved}
      | Some l \<Rightarrow> lk_stage l = LS_planning \<or> lk_stage l = LS_implementing
          \<and> tk_status_stage task \<in> {S_approved, S_implementing, S_failed_validation})"
  by (auto simp: todo_add_decision_def active_stage_no_run active_stage_lock_allowed
      TaskLock_run_type_def run_type_of_stage_eq Let_def split: option.splits)

lemma todo_toggle_allowed:
  "d_allowed (todo_toggle_decision task lock actor_role) \<longleftrightarrow>
     (map_option lk_stage lock = Some LS_implementing
      \<or> map_option lk_stage lock \<noteq> Some LS_validating
        \<and> tk_status_stage task \<notin> {S_cancelled, S_done} \<and> actor_role = ''user'')"
  by (cases lock) (auto simp: todo_toggle_decision_def active_stage_no_run
      active_stage_lock_allowed TaskLock_run_type_def run_type_of_stage_eq Let_def)

lemma question_mutation_allowed:
  "d_allowed (question_mutation_decision task lock actor_role) \<longleftrightarrow>
     tk_status_stage task \<in> {S_draft, S_plan_review}
     \<and> (\<forall>l. lock = Some l \<longrightarrow> lk_stage l = LS_planning)"
  by (cases lock; cases "lk_stage (the lock)") (auto simp: question_mutation_decision_def
      active_stage_no_run active_stage_lock_allowed TaskLock_run_type_def Let_def)

lemma question_add_allowed:
  "d_allowed (question_add_decision task lock actor_role) \<longleftrightarrow>
     tk_status_stage task \<in> {S_draft, S_plan_review}
     \<and> (\<forall>l. lock = Some l \<longrightarrow> lk_stage l = LS_planning)"
  by (cases lock; cases "lk_stage (the lock)") (auto simp: question_add_decision_def
      active_stage_no_run active_stage_lock_allowed TaskLock_run_type_def Let_def)

lemma with_denial_allowed [simp]:
  "d_allowed (with_denial_code d c) = d_allowed d"
  by (simp add: with_denial_code_def)

interpretation propose_plan: decision_contract "\<lambda>(t, r, g). can_propose_plan t r g"
  by unfold_locales (use plan_propose.denial_recoded in \<open>auto simp: can_propose_plan_def\<close>)

interpretation approve_plan: decision_contract "\<lambda>(t, p, g). can_approve_plan t p g"
  by unfold_locales (use plan_approve.denial_recoded in \<open>auto simp: can_approve_plan_def\<close>)

interpretation finish_implementation: decision_contract "\<lambda>(t, r, g). can_finish_implementation t r g"
  by unfold_locales
    (use implementation_mutation.denial_recoded in \<open>auto simp: can_finish_implementation_def\<close>)

interpretation finish_validation: decision_contract "\<lambda>(t, r, g). can_finish_validation t r g"
  by unfold_locales
    (use validation_check.denial_recoded in \<open>auto simp: can_finish_validation_def\<close>)

interpretation mark_todo_done: decision_contract "\<lambda>(t, d, a, g). can_mark_todo_done t d a g"
  by unfold_locales (use todo_toggle.denial_recoded in \<open>auto simp: can_mark_todo_done_def\<close>)

end
