(* ===== verification/Codec.thy ===== *)
theory Codec
  imports Records
begin

text \<open>
  \<open>to_dict\<close> and \<open>from_dict\<close> of the embedded records (\<open>taskledger/domain/actor.py\<close>,
  \<open>taskledger/domain/sidecars.py\<close>), and the interface \<open>record_codec\<close> every record of the
  store satisfies: reading back what was written through YAML gives the record again. The
  well-formedness predicate of a record lists exactly what the reader needs for that.
\<close>

section \<open>Shared readers\<close>

text \<open>\<open>X.from_dict(v) if <present> else None\<close>\<close>

definition opt_read :: "bool \<Rightarrow> error + 'a \<Rightarrow> error + 'a option" where
  "opt_read b r = (if b then bindR r (\<lambda>x. Inr (Some x)) else Inr None)"

text \<open>\<open>normalize(v) if v else None\<close> on an optional string\<close>

definition opt_normalize :: "(string \<Rightarrow> error + 'a) \<Rightarrow> string option \<Rightarrow> error + 'a option" where
  "opt_normalize f x =
     (case x of None \<Rightarrow> Inr None
      | Some s \<Rightarrow> if s = [] then Inr None else bindR (f s) (\<lambda>y. Inr (Some y)))"

text \<open>\<open>normalize(v) if v is not None else None\<close>\<close>

definition map_opt_R :: "(string \<Rightarrow> error + 'a) \<Rightarrow> string option \<Rightarrow> error + 'a option" where
  "map_opt_R f x = (case x of None \<Rightarrow> Inr None | Some s \<Rightarrow> bindR (f s) (\<lambda>y. Inr (Some y)))"

text \<open>\<open>bool(v) if v is not None else None\<close>\<close>

definition optional_bool :: "pyval \<Rightarrow> bool option" where
  "optional_bool v = (if v = PNone then None else Some (truthy v))"

text \<open>The criterion a stored check refers to (\<open>ValidationCheck.from_dict\<close>).\<close>

definition check_criterion_id ::
  "ValidationCheckStatus \<Rightarrow> string option \<Rightarrow> string option \<Rightarrow> error + string option" where
  "check_criterion_id status criterion identifier =
     (let c = opt_str_or criterion (if status \<noteq> CS_not_run then identifier else None)
      in if status \<noteq> CS_not_run \<and> c = None then Inl (launch_error ''check criterion'')
         else Inr c)"

section \<open>The codec interface\<close>

named_theorems codec_simps \<open>reading back written fields\<close>

declare string_value_def [codec_simps] int_value_def [codec_simps]
  require_contract_def [codec_simps]
  require_sidecar_contract_def [codec_simps] require_v2_file_version_def [codec_simps]
  TASKLEDGER_V2_FILE_VERSION_def [codec_simps] TASKLEDGER_SCHEMA_VERSION_def [codec_simps]
  dget_default_def [codec_simps] int_or_default_def [codec_simps]

declare untuple.simps(7) [simp del]

lemma untuple_PDict [codec_simps]: "untuple (PDict d) = PDict (untuple_dict d)"
  by (simp add: untuple_dict_def untuple.simps(7))

lemma untuple_dict_simps [codec_simps]:
  "untuple_dict [] = []" "untuple_dict ((k, v) # d) = (k, untuple v) # untuple_dict d"
  "untuple_dict (d @ d') = untuple_dict d @ untuple_dict d'"
  by (simp_all add: untuple_dict_def)

lemma untuple_dict_nonempty [codec_simps]: "untuple_dict d = [] \<longleftrightarrow> d = []"
  by (simp add: untuple_dict_def)

lemma untuple_PNone_iff [codec_simps]: "untuple v = PNone \<longleftrightarrow> v = PNone"
  by (cases v) (simp_all add: untuple.simps(7))

lemma untuple_opt_entry [codec_simps]: "untuple_dict (opt_entry k v) = opt_entry k (untuple v)"
  by (simp add: opt_entry_def untuple_dict_def untuple_PNone_iff)

lemma dget_opt_entry [codec_simps]:
  "dget d k = PNone \<Longrightarrow> dget (opt_entry k v @ d) k = v"
  "k \<noteq> k' \<Longrightarrow> dget (opt_entry k v @ d) k' = dget d k'"
  "dget (opt_entry k v) k = v"
  "k \<noteq> k' \<Longrightarrow> dget (opt_entry k v) k' = PNone"
  by (auto simp: opt_entry_def)

lemma opt_bool_read [codec_simps]: "optional_bool (opt_bool x) = x"
  by (simp add: optional_bool_def opt_bool_def split: option.splits)

lemma list_or_Nil [codec_simps]: "list_or xs [] = xs"
  by (simp add: list_or_def)

lemma check_criterion_id_read [codec_simps]:
  "criterion \<noteq> Some [] \<Longrightarrow> (status \<noteq> CS_not_run \<longrightarrow> criterion \<noteq> None)
    \<Longrightarrow> check_criterion_id status criterion identifier = Inr criterion"
  by (auto simp: check_criterion_id_def opt_str_or_def split: option.splits)

lemma opt_str_or_read [codec_simps]:
  "x \<noteq> Some [] \<Longrightarrow> (x = None \<longrightarrow> y = None) \<Longrightarrow> opt_str_or x y = x"
  by (auto simp: opt_str_or_def split: option.splits)

lemma dict_list_records [codec_simps]:
  "List.map_filter as_dict (map (untuple \<circ> (\<lambda>x. PDict (f x))) xs) = map (untuple_dict \<circ> f) xs"
  by (induction xs) (simp_all add: List.map_filter_simps untuple_PDict)

text \<open>
  An enumeration written by name and read back through its normaliser, possibly absent.
\<close>

context enumeration
begin

lemma opt_normalize_name:
  "[] \<notin> snd ` set tab \<Longrightarrow> opt_normalize normalize (map_option (enum_name tab) x) = Inr x"
  by (cases x) (simp_all add: opt_normalize_def normalize_name name_nonempty)

lemma map_opt_name: "map_opt_R normalize (map_option (enum_name tab) x) = Inr x"
  by (cases x) (simp_all add: map_opt_R_def normalize_name)

lemma str_or_name: "[] \<notin> snd ` set tab \<Longrightarrow> str_or (Some (enum_name tab x)) y = enum_name tab x"
  by (simp add: name_nonempty)

lemma bind_value_name: "Option.bind (map_option (enum_name tab) x) (enum_value tab) = x"
proof (cases x)
  case (Some y)
  then show ?thesis
    using normalize_enum_name [OF names_distinct total, of "''name''" y]
    by (simp add: normalize_enum_def split: option.splits)
qed simp

end

interpretation pid_scope: enumeration pid_scope_names "normalize_enum pid_scope_names t"
  by unfold_locales
    (use PidScope.nchotomy in \<open>auto simp: pid_scope_names_def normalize_enum_def\<close>)

interpretation lock_stage: enumeration lock_stage_names "normalize_enum lock_stage_names t"
  by unfold_locales
    (use ActiveTaskStatusStage.nchotomy in \<open>auto simp: lock_stage_names_def normalize_enum_def\<close>)

lemmas enum_fields [codec_simps] =
  actor_role.opt_normalize_name actor_type.opt_normalize_name context_for.opt_normalize_name
  validation_result.map_opt_name pid_scope.bind_value_name

lemma enum_name_nonempty [codec_simps]:
  "enum_name actor_type_names a \<noteq> []"
  "enum_name harness_kind_names c \<noteq> []" "enum_name file_link_kind_names d \<noteq> []"
  "enum_name todo_status_names e \<noteq> []" "enum_name check_status_names f \<noteq> []"
  "enum_name stage_names g \<noteq> []" "enum_name run_type_names h \<noteq> []"
  "enum_name run_status_names i \<noteq> []"
  "enum_name plan_status_names k \<noteq> []" "enum_name task_type_names l \<noteq> []"
  "enum_name question_status_names m \<noteq> []" "enum_name handoff_mode_names n \<noteq> []"
  "enum_name context_scope_names p \<noteq> []"
  "enum_name context_format_names q \<noteq> []" "enum_name handoff_status_names r \<noteq> []"
  "enum_name lock_policy_names s \<noteq> []"
  by (intro actor_type.name_nonempty harness_kind.name_nonempty
      file_link_kind.name_nonempty todo_status.name_nonempty check_status.name_nonempty
      task_stage.name_nonempty run_type.name_nonempty run_status.name_nonempty
      plan_status.name_nonempty task_type.name_nonempty
      question_status.name_nonempty handoff_mode.name_nonempty
      context_scope.name_nonempty context_format.name_nonempty handoff_status.name_nonempty
      lock_policy.name_nonempty; simp add: enum_tables)+

lemma names_proper [codec_simps]:
  "[] \<notin> snd ` set actor_type_names" "[] \<notin> snd ` set actor_role_names"
  "[] \<notin> snd ` set context_for_names"
  by (simp_all add: enum_tables)

text \<open>
  A record that is written with \<open>to_dict\<close>, sent through YAML and read with \<open>from_dict\<close> is
  the same record; a record embedded in another one is read from the value of its entry.
\<close>

locale record_codec =
  fixes wf :: "'r \<Rightarrow> bool"
    and to_dict :: "'r \<Rightarrow> pydict"
    and from_dict :: "string \<Rightarrow> pydict \<Rightarrow> error + 'r"
  assumes round_trip: "wf r \<Longrightarrow> from_dict now (untuple_dict (to_dict r)) = Inr r"
begin

lemma to_dict_inject: "wf r \<Longrightarrow> wf r' \<Longrightarrow> to_dict r = to_dict r' \<longleftrightarrow> r = r'"
  by (metis round_trip sum.inject(2))

lemma list_round_trip:
  "list_all wf rs \<Longrightarrow> mapR (from_dict now) (map (untuple_dict \<circ> to_dict) rs) = Inr rs"
  by (induction rs) (simp_all add: round_trip)

end

locale value_codec =
  record_codec wf to_dict "\<lambda>now d. from_value now (PDict d)"
  for wf :: "'r \<Rightarrow> bool" and to_dict :: "'r \<Rightarrow> pydict"
    and from_value :: "string \<Rightarrow> pyval \<Rightarrow> error + 'r" +
  assumes to_dict_nonempty: "to_dict r \<noteq> []"
begin

lemma option_round_trip:
  "pred_option wf x \<Longrightarrow>
    opt_read (opt_rec (untuple \<circ> (\<lambda>y. PDict (to_dict y))) x \<noteq> PNone)
      (from_value now (opt_rec (untuple \<circ> (\<lambda>y. PDict (to_dict y))) x)) = Inr x"
  by (cases x) (simp_all add: opt_read_def opt_rec_def untuple_PDict round_trip)

lemma truthy_round_trip:
  "pred_option wf x \<Longrightarrow>
    opt_read (truthy (opt_rec (untuple \<circ> (\<lambda>y. PDict (to_dict y))) x))
      (from_value now (opt_rec (untuple \<circ> (\<lambda>y. PDict (to_dict y))) x)) = Inr x"
  using to_dict_nonempty
  by (cases x) (simp_all add: opt_read_def opt_rec_def untuple_PDict round_trip untuple_dict_nonempty)

end

section \<open>Actors and harnesses\<close>

definition ActorRef_to_dict :: "ActorRef \<Rightarrow> pydict" where
  "ActorRef_to_dict r =
    [
      (''actor_type'', PStr (enum_name actor_type_names (ar_actor_type r))),
      (''actor_name'', PStr (ar_actor_name r)),
      (''tool'', opt_str (ar_tool r)),
      (''session_id'', opt_str (ar_session_id r)),
      (''host'', opt_str (ar_host r)),
      (''pid'', opt_int (ar_pid r)),
      (''actor_id'', opt_str (ar_actor_id r)),
      (''role'', opt_enum actor_role_names (ar_role r)),
      (''harness_id'', opt_str (ar_harness_id r)),
      (''command_pid'', opt_int (ar_command_pid r)),
      (''pid_scope'', opt_enum pid_scope_names (ar_pid_scope r))]"

definition ActorRef_from_dict :: "string \<Rightarrow> pyval \<Rightarrow> error + ActorRef" where
  "ActorRef_from_dict now v =
   (case as_dict v of None \<Rightarrow> Inr ActorRef_default | Some d \<Rightarrow>
    bindR (normalize_actor_type (str_or (optional_string (dget d ''actor_type'')) ''agent'')) (\<lambda>v_actor_type.
    bindR (opt_normalize normalize_actor_role (optional_string (dget d ''role''))) (\<lambda>v_role.
    Inr \<lparr>ar_actor_type = v_actor_type,
      ar_actor_name = str_or (optional_string (dget d ''actor_name'')) ''taskledger'',
      ar_tool = optional_string (dget d ''tool''),
      ar_session_id = optional_string (dget d ''session_id''),
      ar_host = optional_string (dget d ''host''),
      ar_pid = optional_int (dget d ''pid''),
      ar_actor_id = optional_string (dget d ''actor_id''),
      ar_role = v_role,
      ar_harness_id = optional_string (dget d ''harness_id''),
      ar_command_pid = optional_int (dget d ''command_pid''),
      ar_pid_scope = Option.bind (optional_string (dget d ''pid_scope'')) (enum_value pid_scope_names)\<rparr>)))"

definition wf_ActorRef :: "ActorRef \<Rightarrow> bool" where
  "wf_ActorRef r \<longleftrightarrow>
     ar_actor_name r \<noteq> []"

interpretation ar_codec: value_codec wf_ActorRef ActorRef_to_dict ActorRef_from_dict
proof
  fix r now
  assume "wf_ActorRef r"
  then show "ActorRef_from_dict now (PDict (untuple_dict (ActorRef_to_dict r))) = Inr r"
    by (cases r) (simp add: ActorRef_to_dict_def ActorRef_from_dict_def wf_ActorRef_def codec_simps)
qed (simp add: ActorRef_to_dict_def)

lemmas ar_codec_facts [codec_simps] =
  ar_codec.round_trip ar_codec.list_round_trip
  ar_codec.option_round_trip ar_codec.truthy_round_trip

definition HarnessRef_to_dict :: "HarnessRef \<Rightarrow> pydict" where
  "HarnessRef_to_dict r =
    [
      (''harness_id'', PStr (hr_harness_id r)),
      (''name'', PStr (hr_name r)),
      (''kind'', PStr (enum_name harness_kind_names (hr_kind r))),
      (''session_id'', opt_str (hr_session_id r)),
      (''working_directory'', opt_str (hr_working_directory r)),
      (''command'', opt_str (hr_command r)),
      (''version'', opt_str (hr_version r)),
      (''capabilities'', str_tuple (hr_capabilities r)),
      (''created_at'', PStr (hr_created_at r)),
      (''schema_version'', PInt (hr_schema_version r)),
      (''object_type'', PStr (hr_object_type r))]"

definition HarnessRef_from_dict :: "string \<Rightarrow> pyval \<Rightarrow> error + HarnessRef" where
  "HarnessRef_from_dict now v =
   (case as_dict v of None \<Rightarrow> Inl (launch_error ''expected mapping'') | Some d \<Rightarrow>
    bindR (require_contract d ''harness'') (\<lambda>_.
    bindR (string_value d ''harness_id'') (\<lambda>v_harness_id.
    bindR (string_value d ''name'') (\<lambda>v_name.
    bindR (normalize_harness_kind (str_or (optional_string (dget d ''kind'')) ''unknown'')) (\<lambda>v_kind.
    bindR (int_value d ''schema_version'') (\<lambda>v_schema_version.
    Inr \<lparr>hr_harness_id = v_harness_id,
      hr_name = v_name,
      hr_kind = v_kind,
      hr_session_id = optional_string (dget d ''session_id''),
      hr_working_directory = optional_string (dget d ''working_directory''),
      hr_command = optional_string (dget d ''command''),
      hr_version = optional_string (dget d ''version''),
      hr_capabilities = (case optional_list_string (dget d ''capabilities'') of Some xs \<Rightarrow> xs | None \<Rightarrow> []),
      hr_created_at = str_or (optional_string (dget d ''created_at'')) now,
      hr_schema_version = v_schema_version,
      hr_object_type = ''harness''\<rparr>))))))"

definition wf_HarnessRef :: "HarnessRef \<Rightarrow> bool" where
  "wf_HarnessRef r \<longleftrightarrow>
     hr_harness_id r \<noteq> [] \<and>
     hr_name r \<noteq> [] \<and>
     hr_created_at r \<noteq> [] \<and>
     hr_schema_version r \<le> TASKLEDGER_SCHEMA_VERSION \<and>
     hr_object_type r = ''harness''"

interpretation hr_codec: value_codec wf_HarnessRef HarnessRef_to_dict HarnessRef_from_dict
proof
  fix r now
  assume "wf_HarnessRef r"
  then show "HarnessRef_from_dict now (PDict (untuple_dict (HarnessRef_to_dict r))) = Inr r"
    by (cases r) (simp add: HarnessRef_to_dict_def HarnessRef_from_dict_def wf_HarnessRef_def codec_simps)
qed (simp add: HarnessRef_to_dict_def)

lemmas hr_codec_facts [codec_simps] =
  hr_codec.round_trip hr_codec.list_round_trip
  hr_codec.option_round_trip hr_codec.truthy_round_trip

section \<open>Waivers\<close>

definition waiver_to_dict :: "ActorRef \<Rightarrow> string \<Rightarrow> string \<Rightarrow> pydict" where
  "waiver_to_dict actor reason created_at =
     [(''actor'', PDict (ActorRef_to_dict actor)), (''reason'', PStr reason),
      (''created_at'', PStr created_at)]"

definition waiver_from_dict ::
  "string \<Rightarrow> pyval \<Rightarrow> error + (ActorRef \<times> string \<times> string) option" where
  "waiver_from_dict now v =
     (if v = PNone then Inr None
      else case as_dict v of
        None \<Rightarrow> Inl (launch_error ''invalid waiver'')
      | Some d \<Rightarrow>
          bindR (ActorRef_from_dict now (dget d ''actor'')) (\<lambda>actor.
          bindR (string_value d ''reason'') (\<lambda>reason.
          Inr (Some (actor, reason, str_or (optional_string (dget d ''created_at'')) now)))))"

lemma waiver_round_trip [codec_simps]:
  assumes "wf_ActorRef a" "reason \<noteq> []" "created \<noteq> []"
  shows "waiver_from_dict now (PDict (untuple_dict (waiver_to_dict a reason created)))
    = Inr (Some (a, reason, created))"
  using assms by (simp add: waiver_from_dict_def waiver_to_dict_def codec_simps)

definition CriterionWaiver_to_dict :: "CriterionWaiver \<Rightarrow> pydict" where
  "CriterionWaiver_to_dict r = waiver_to_dict (cw_actor r) (cw_reason r) (cw_created_at r)"

definition CriterionWaiver_from_dict :: "string \<Rightarrow> pyval \<Rightarrow> error + CriterionWaiver option" where
  "CriterionWaiver_from_dict now v =
     bindR (waiver_from_dict now v) (\<lambda>parsed.
       Inr (map_option (\<lambda>(actor, reason, created_at).
         \<lparr>cw_actor = actor, cw_reason = reason, cw_created_at = created_at\<rparr>) parsed))"

definition wf_CriterionWaiver :: "CriterionWaiver \<Rightarrow> bool" where
  "wf_CriterionWaiver r \<longleftrightarrow>
     wf_ActorRef (cw_actor r) \<and> cw_reason r \<noteq> [] \<and> cw_created_at r \<noteq> []"

lemma CriterionWaiver_round_trip [codec_simps]:
  "pred_option wf_CriterionWaiver x \<Longrightarrow>
    CriterionWaiver_from_dict now (opt_rec (untuple \<circ> (\<lambda>y. PDict (CriterionWaiver_to_dict y))) x) = Inr x"
  by (cases x)
    (simp_all add: CriterionWaiver_from_dict_def CriterionWaiver_to_dict_def wf_CriterionWaiver_def opt_rec_def
      codec_simps waiver_from_dict_def [of _ PNone])

definition DependencyWaiver_to_dict :: "DependencyWaiver \<Rightarrow> pydict" where
  "DependencyWaiver_to_dict r = waiver_to_dict (dw_actor r) (dw_reason r) (dw_created_at r)"

definition DependencyWaiver_from_dict :: "string \<Rightarrow> pyval \<Rightarrow> error + DependencyWaiver option" where
  "DependencyWaiver_from_dict now v =
     bindR (waiver_from_dict now v) (\<lambda>parsed.
       Inr (map_option (\<lambda>(actor, reason, created_at).
         \<lparr>dw_actor = actor, dw_reason = reason, dw_created_at = created_at\<rparr>) parsed))"

definition wf_DependencyWaiver :: "DependencyWaiver \<Rightarrow> bool" where
  "wf_DependencyWaiver r \<longleftrightarrow>
     wf_ActorRef (dw_actor r) \<and> dw_reason r \<noteq> [] \<and> dw_created_at r \<noteq> []"

lemma DependencyWaiver_round_trip [codec_simps]:
  "pred_option wf_DependencyWaiver x \<Longrightarrow>
    DependencyWaiver_from_dict now (opt_rec (untuple \<circ> (\<lambda>y. PDict (DependencyWaiver_to_dict y))) x) = Inr x"
  by (cases x)
    (simp_all add: DependencyWaiver_from_dict_def DependencyWaiver_to_dict_def wf_DependencyWaiver_def opt_rec_def
      codec_simps waiver_from_dict_def [of _ PNone])

section \<open>Sidecar records\<close>

definition FileLink_to_dict :: "FileLink \<Rightarrow> pydict" where
  "FileLink_to_dict r =
    [
      (''id'', opt_str (fl_id r)),
      (''task_id'', opt_str (fl_task_id r)),
      (''path'', PStr (fl_path r)),
      (''kind'', PStr (enum_name file_link_kind_names (fl_kind r))),
      (''label'', opt_str (fl_label r)),
      (''required_for_validation'', PBool (fl_required_for_validation r)),
      (''target_type'', opt_str (fl_target_type r)),
      (''baseline_hash'', opt_str (fl_baseline_hash r)),
      (''baseline_size'', opt_int (fl_baseline_size r)),
      (''baseline_mtime'', opt_str (fl_baseline_mtime r)),
      (''baseline_exists'', opt_bool (fl_baseline_exists r)),
      (''file_version'', PStr (fl_file_version r)),
      (''schema_version'', PInt (fl_schema_version r)),
      (''object_type'', PStr (fl_object_type r)),
      (''created_at'', PStr (fl_created_at r)),
      (''updated_at'', PStr (fl_updated_at r))]"

definition FileLink_from_dict :: "string \<Rightarrow> pyval \<Rightarrow> error + FileLink" where
  "FileLink_from_dict now v =
   (case as_dict v of None \<Rightarrow> Inl (launch_error ''expected mapping'') | Some d \<Rightarrow>
    bindR (require_sidecar_contract d ''link'') (\<lambda>_.
    bindR (string_value d ''path'') (\<lambda>v_path.
    bindR (normalize_file_link_kind (str_or (optional_string (dget d ''kind'')) ''code'')) (\<lambda>v_kind.
    Inr \<lparr>fl_path = v_path,
      fl_kind = v_kind,
      fl_label = optional_string (dget d ''label''),
      fl_required_for_validation = truthy (dget d ''required_for_validation''),
      fl_id = optional_string (dget d ''id''),
      fl_task_id = optional_string (dget d ''task_id''),
      fl_target_type = optional_string (dget d ''target_type''),
      fl_baseline_hash = optional_string (dget d ''baseline_hash''),
      fl_baseline_size = optional_int (dget d ''baseline_size''),
      fl_baseline_mtime = optional_string (dget d ''baseline_mtime''),
      fl_baseline_exists = optional_bool (dget d ''baseline_exists''),
      fl_file_version = str_or (optional_string (dget d ''file_version'')) TASKLEDGER_V2_FILE_VERSION,
      fl_schema_version = int_or_default (dget d ''schema_version'') TASKLEDGER_SCHEMA_VERSION,
      fl_object_type = str_or (optional_string (dget d ''object_type'')) ''link'',
      fl_created_at = str_or (optional_string (dget d ''created_at'')) now,
      fl_updated_at = str_or (optional_string (dget d ''updated_at'')) now\<rparr>))))"

definition wf_FileLink :: "FileLink \<Rightarrow> bool" where
  "wf_FileLink r \<longleftrightarrow>
     fl_path r \<noteq> [] \<and>
     fl_file_version r = TASKLEDGER_V2_FILE_VERSION \<and>
     fl_schema_version r \<le> TASKLEDGER_SCHEMA_VERSION \<and>
     fl_object_type r = ''link'' \<and>
     fl_created_at r \<noteq> [] \<and>
     fl_updated_at r \<noteq> []"

interpretation fl_codec: value_codec wf_FileLink FileLink_to_dict FileLink_from_dict
proof
  fix r now
  assume "wf_FileLink r"
  then show "FileLink_from_dict now (PDict (untuple_dict (FileLink_to_dict r))) = Inr r"
    by (cases r) (simp add: FileLink_to_dict_def FileLink_from_dict_def wf_FileLink_def codec_simps)
qed (simp add: FileLink_to_dict_def)

lemmas fl_codec_facts [codec_simps] =
  fl_codec.round_trip fl_codec.list_round_trip
  fl_codec.option_round_trip fl_codec.truthy_round_trip


definition TaskTodo_to_dict :: "TaskTodo \<Rightarrow> pydict" where
  "TaskTodo_to_dict r =
    [
      (''id'', PStr (td_id r)),
      (''text'', PStr (td_text r)),
      (''done'', PBool (td_done r)),
      (''created_at'', PStr (td_created_at r)),
      (''updated_at'', PStr (td_updated_at r)),
      (''source'', opt_str (td_source r)),
      (''mandatory'', PBool (td_mandatory r)),
      (''status'', PStr (enum_name todo_status_names (td_status r))),
      (''active_at'', opt_str (td_active_at r)),
      (''blocked_reason'', opt_str (td_blocked_reason r)),
      (''done_at'', opt_str (td_done_at r)),
      (''skipped_at'', opt_str (td_skipped_at r)),
      (''completed_by'', opt_rec (\<lambda>x. PDict (ActorRef_to_dict x)) (td_completed_by r)),
      (''completed_in_harness'', opt_rec (\<lambda>x. PDict (HarnessRef_to_dict x)) (td_completed_in_harness r)),
      (''skipped_by'', opt_rec (\<lambda>x. PDict (ActorRef_to_dict x)) (td_skipped_by r)),
      (''evidence'', str_list (td_evidence r)),
      (''artifact_refs'', str_list (td_artifact_refs r)),
      (''change_refs'', str_tuple (td_change_refs r)),
      (''command_refs'', str_tuple (td_command_refs r)),
      (''source_plan_id'', opt_str (td_source_plan_id r)),
      (''source_question_ids'', str_list (td_source_question_ids r)),
      (''validation_hint'', opt_str (td_validation_hint r))]
    @ opt_entry ''worker_step_id'' (opt_str (td_worker_step_id r))"

definition TaskTodo_from_dict :: "string \<Rightarrow> pyval \<Rightarrow> error + TaskTodo" where
  "TaskTodo_from_dict now v =
   (case as_dict v of None \<Rightarrow> Inl (launch_error ''expected mapping'') | Some d \<Rightarrow>
    bindR (require_sidecar_contract d ''todo'') (\<lambda>_.
    bindR (case optional_string (dget d ''status'') of None \<Rightarrow> Inr (if truthy (dget d ''done'') then TS_done else TS_open) | Some s \<Rightarrow> normalize_todo_status s) (\<lambda>v_status.
    bindR (opt_read (truthy (dget d ''completed_by'')) (ActorRef_from_dict now (dget d ''completed_by''))) (\<lambda>v_completed_by.
    bindR (opt_read (truthy (dget d ''completed_in_harness'')) (HarnessRef_from_dict now (dget d ''completed_in_harness''))) (\<lambda>v_completed_in_harness.
    bindR (opt_read (truthy (dget d ''skipped_by'')) (ActorRef_from_dict now (dget d ''skipped_by''))) (\<lambda>v_skipped_by.
    bindR (string_value d ''id'') (\<lambda>v_id.
    bindR (string_value d ''text'') (\<lambda>v_text.
    Inr \<lparr>td_id = v_id,
      td_text = v_text,
      td_done = truthy (dget d ''done''),
      td_created_at = str_or (optional_string (dget d ''created_at'')) now,
      td_updated_at = str_or (optional_string (dget d ''updated_at'')) now,
      td_source = optional_string (dget d ''source''),
      td_mandatory = truthy (dget d ''mandatory''),
      td_status = v_status,
      td_active_at = optional_string (dget d ''active_at''),
      td_blocked_reason = optional_string (dget d ''blocked_reason''),
      td_done_at = optional_string (dget d ''done_at''),
      td_skipped_at = optional_string (dget d ''skipped_at''),
      td_completed_by = v_completed_by,
      td_completed_in_harness = v_completed_in_harness,
      td_skipped_by = v_skipped_by,
      td_evidence = string_tuple (dget d ''evidence''),
      td_artifact_refs = list_or (string_tuple (dget d ''artifact_refs'')) (string_tuple (dget d ''artifacts'')),
      td_change_refs = list_or (string_tuple (dget d ''change_refs'')) (string_tuple (dget d ''changes'')),
      td_command_refs = string_tuple (dget d ''command_refs''),
      td_source_plan_id = optional_string (dget d ''source_plan_id''),
      td_source_question_ids = string_tuple (dget d ''source_question_ids''),
      td_validation_hint = optional_string (dget d ''validation_hint''),
      td_worker_step_id = optional_string (dget d ''worker_step_id'')\<rparr>))))))))"

definition wf_TaskTodo :: "TaskTodo \<Rightarrow> bool" where
  "wf_TaskTodo r \<longleftrightarrow>
     td_id r \<noteq> [] \<and>
     td_text r \<noteq> [] \<and>
     td_created_at r \<noteq> [] \<and>
     td_updated_at r \<noteq> [] \<and>
     pred_option wf_ActorRef (td_completed_by r) \<and>
     pred_option wf_HarnessRef (td_completed_in_harness r) \<and>
     pred_option wf_ActorRef (td_skipped_by r)"

interpretation td_codec: value_codec wf_TaskTodo TaskTodo_to_dict TaskTodo_from_dict
proof
  fix r now
  assume "wf_TaskTodo r"
  then show "TaskTodo_from_dict now (PDict (untuple_dict (TaskTodo_to_dict r))) = Inr r"
    by (cases r) (simp add: TaskTodo_to_dict_def TaskTodo_from_dict_def wf_TaskTodo_def codec_simps)
qed (simp add: TaskTodo_to_dict_def)

lemmas td_codec_facts [codec_simps] =
  td_codec.round_trip td_codec.list_round_trip
  td_codec.option_round_trip td_codec.truthy_round_trip


definition AcceptanceCriterion_to_dict :: "AcceptanceCriterion \<Rightarrow> pydict" where
  "AcceptanceCriterion_to_dict r =
    [
      (''id'', PStr (ac_id r)),
      (''text'', PStr (ac_text r)),
      (''mandatory'', PBool (ac_mandatory r))]"

definition AcceptanceCriterion_from_dict :: "string \<Rightarrow> pyval \<Rightarrow> error + AcceptanceCriterion" where
  "AcceptanceCriterion_from_dict now v =
   (case as_dict v of None \<Rightarrow> Inl (launch_error ''expected mapping'') | Some d \<Rightarrow>
    bindR (string_value d ''id'') (\<lambda>v_id.
    bindR (string_value d ''text'') (\<lambda>v_text.
    Inr \<lparr>ac_id = v_id,
      ac_text = v_text,
      ac_mandatory = truthy (dget_default d ''mandatory'' (PBool True))\<rparr>)))"

definition wf_AcceptanceCriterion :: "AcceptanceCriterion \<Rightarrow> bool" where
  "wf_AcceptanceCriterion r \<longleftrightarrow>
     ac_id r \<noteq> [] \<and>
     ac_text r \<noteq> []"

interpretation ac_codec: value_codec wf_AcceptanceCriterion AcceptanceCriterion_to_dict AcceptanceCriterion_from_dict
proof
  fix r now
  assume "wf_AcceptanceCriterion r"
  then show "AcceptanceCriterion_from_dict now (PDict (untuple_dict (AcceptanceCriterion_to_dict r))) = Inr r"
    by (cases r) (simp add: AcceptanceCriterion_to_dict_def AcceptanceCriterion_from_dict_def wf_AcceptanceCriterion_def codec_simps)
qed (simp add: AcceptanceCriterion_to_dict_def)

lemmas ac_codec_facts [codec_simps] =
  ac_codec.round_trip ac_codec.list_round_trip
  ac_codec.option_round_trip ac_codec.truthy_round_trip


definition DependencyRequirement_to_dict :: "DependencyRequirement \<Rightarrow> pydict" where
  "DependencyRequirement_to_dict r =
    [
      (''id'', opt_str (dr_id r)),
      (''task_id'', PStr (str_or (dr_required_task_id r) (dr_task_id r))),
      (''required_task_id'', PStr (str_or (dr_required_task_id r) (dr_task_id r))),
      (''parent_task_id'', opt_str (dr_parent_task_id r)),
      (''required_status'', PStr (dr_required_status r)),
      (''waiver'', opt_rec (\<lambda>x. PDict (DependencyWaiver_to_dict x)) (dr_waiver r)),
      (''file_version'', PStr (dr_file_version r)),
      (''schema_version'', PInt (dr_schema_version r)),
      (''object_type'', PStr (dr_object_type r)),
      (''created_at'', PStr (dr_created_at r)),
      (''updated_at'', PStr (dr_updated_at r))]"

definition DependencyRequirement_from_dict :: "string \<Rightarrow> pyval \<Rightarrow> error + DependencyRequirement" where
  "DependencyRequirement_from_dict now v =
   (case as_dict v of None \<Rightarrow> Inl (launch_error ''expected mapping'') | Some d \<Rightarrow>
    bindR (require_sidecar_contract d ''requirement'') (\<lambda>_.
    bindR (case optional_string (dget d ''required_task_id'') of Some s \<Rightarrow> if s = [] then string_value d ''task_id'' else Inr s | None \<Rightarrow> string_value d ''task_id'') (\<lambda>v_task_id.
    bindR (DependencyWaiver_from_dict now (dget d ''waiver'')) (\<lambda>v_waiver.
    Inr \<lparr>dr_task_id = v_task_id,
      dr_required_status = str_or (optional_string (dget d ''required_status'')) ''done'',
      dr_waiver = v_waiver,
      dr_id = optional_string (dget d ''id''),
      dr_required_task_id = Some (str_or (optional_string (dget d ''required_task_id'')) v_task_id),
      dr_parent_task_id = optional_string (dget d ''parent_task_id''),
      dr_file_version = str_or (optional_string (dget d ''file_version'')) TASKLEDGER_V2_FILE_VERSION,
      dr_schema_version = int_or_default (dget d ''schema_version'') TASKLEDGER_SCHEMA_VERSION,
      dr_object_type = str_or (optional_string (dget d ''object_type'')) ''requirement'',
      dr_created_at = str_or (optional_string (dget d ''created_at'')) now,
      dr_updated_at = str_or (optional_string (dget d ''updated_at'')) now\<rparr>))))"

definition wf_DependencyRequirement :: "DependencyRequirement \<Rightarrow> bool" where
  "wf_DependencyRequirement r \<longleftrightarrow>
     dr_task_id r \<noteq> [] \<and>
     dr_required_status r \<noteq> [] \<and>
     pred_option wf_DependencyWaiver (dr_waiver r) \<and>
     dr_file_version r = TASKLEDGER_V2_FILE_VERSION \<and>
     dr_schema_version r \<le> TASKLEDGER_SCHEMA_VERSION \<and>
     dr_object_type r = ''requirement'' \<and>
     dr_created_at r \<noteq> [] \<and>
     dr_updated_at r \<noteq> [] \<and>
     dr_required_task_id r = Some (dr_task_id r)"

interpretation dr_codec: value_codec wf_DependencyRequirement DependencyRequirement_to_dict DependencyRequirement_from_dict
proof
  fix r now
  assume "wf_DependencyRequirement r"
  then show "DependencyRequirement_from_dict now (PDict (untuple_dict (DependencyRequirement_to_dict r))) = Inr r"
    by (cases r) (simp add: DependencyRequirement_to_dict_def DependencyRequirement_from_dict_def wf_DependencyRequirement_def codec_simps)
qed (simp add: DependencyRequirement_to_dict_def)

lemmas dr_codec_facts [codec_simps] =
  dr_codec.round_trip dr_codec.list_round_trip
  dr_codec.option_round_trip dr_codec.truthy_round_trip


definition ValidationCheck_to_dict :: "ValidationCheck \<Rightarrow> pydict" where
  "ValidationCheck_to_dict r =
    [
      (''id'', opt_str (vc_id r)),
      (''criterion_id'', opt_str (vc_criterion_id r)),
      (''name'', PStr (vc_name r)),
      (''status'', PStr (enum_name check_status_names (vc_status r))),
      (''details'', opt_str (vc_details r)),
      (''evidence'', str_list (vc_evidence r)),
      (''waiver'', opt_rec (\<lambda>x. PDict (CriterionWaiver_to_dict x)) (vc_waiver r))]"

definition ValidationCheck_from_dict :: "string \<Rightarrow> pyval \<Rightarrow> error + ValidationCheck" where
  "ValidationCheck_from_dict now v =
   (case as_dict v of None \<Rightarrow> Inl (launch_error ''expected mapping'') | Some d \<Rightarrow>
    bindR (bindR (string_value d ''status'') normalize_validation_check_status) (\<lambda>v_status.
    bindR (check_criterion_id v_status (optional_string (dget d ''criterion_id'')) (opt_str_or (optional_string (dget d ''id'')) (optional_string (dget d ''criterion_id'')))) (\<lambda>v_criterion_id.
    bindR (string_value d ''name'') (\<lambda>v_name.
    bindR (CriterionWaiver_from_dict now (dget d ''waiver'')) (\<lambda>v_waiver.
    Inr \<lparr>vc_name = v_name,
      vc_id = opt_str_or (optional_string (dget d ''id'')) (optional_string (dget d ''criterion_id'')),
      vc_criterion_id = v_criterion_id,
      vc_status = v_status,
      vc_details = optional_string (dget d ''details''),
      vc_evidence = string_tuple (dget d ''evidence''),
      vc_waiver = v_waiver\<rparr>)))))"

definition wf_ValidationCheck :: "ValidationCheck \<Rightarrow> bool" where
  "wf_ValidationCheck r \<longleftrightarrow>
     vc_name r \<noteq> [] \<and>
     pred_option wf_CriterionWaiver (vc_waiver r) \<and>
     vc_id r \<noteq> Some [] \<and>
     vc_criterion_id r \<noteq> Some [] \<and>
     (vc_id r = None \<longrightarrow> vc_criterion_id r = None) \<and>
     (vc_status r \<noteq> CS_not_run \<longrightarrow> vc_criterion_id r \<noteq> None)"

interpretation vc_codec: value_codec wf_ValidationCheck ValidationCheck_to_dict ValidationCheck_from_dict
proof
  fix r now
  assume "wf_ValidationCheck r"
  then show "ValidationCheck_from_dict now (PDict (untuple_dict (ValidationCheck_to_dict r))) = Inr r"
    by (cases r) (simp add: ValidationCheck_to_dict_def ValidationCheck_from_dict_def wf_ValidationCheck_def codec_simps)
qed (simp add: ValidationCheck_to_dict_def)

lemmas vc_codec_facts [codec_simps] =
  vc_codec.round_trip vc_codec.list_round_trip
  vc_codec.option_round_trip vc_codec.truthy_round_trip

end
