(* ===== verification/CodecRecords.thy ===== *)
theory CodecRecords
  imports Codec
begin

text \<open>
  \<open>to_dict\<close> and \<open>from_dict\<close> of the records that have a file of their own (\<open>lock.py\<close>,
  \<open>run.py\<close>, \<open>plan.py\<close>, \<open>task.py\<close>, \<open>question.py\<close>, \<open>handoff.py\<close>, \<open>change.py\<close>,
  \<open>active_state.py\<close> of \<open>taskledger/domain\<close>), each an interpretation of \<open>record_codec\<close>.
\<close>

section \<open>Locks\<close>

definition history_entry :: "pyval \<times> pyval \<times> pyval \<Rightarrow> pyval" where
  "history_entry e = (case e of (a, b, c) \<Rightarrow> PList [a, b, c])"

fun history_triple :: "pyval \<Rightarrow> (pyval \<times> pyval \<times> pyval) option" where
  "history_triple (PList [a, b, c]) = Some (a, b, c)"
| "history_triple (PTuple [a, b, c]) = Some (a, b, c)"
| "history_triple _ = None"

definition transfer_history_from :: "pyval \<Rightarrow> (pyval \<times> pyval \<times> pyval) list" where
  "transfer_history_from v =
     (case v of PList vs \<Rightarrow> List.map_filter history_triple vs | _ \<Rightarrow> [])"

definition is_str_entry :: "pyval \<times> pyval \<times> pyval \<Rightarrow> bool" where
  "is_str_entry e \<longleftrightarrow>
     (case e of (PStr a, PStr b, PStr c) \<Rightarrow> True | _ \<Rightarrow> False)"

fun active_stage_of :: "TaskStatusStage \<Rightarrow> error + ActiveTaskStatusStage" where
  "active_stage_of S_planning = Inr LS_planning"
| "active_stage_of S_implementing = Inr LS_implementing"
| "active_stage_of S_validating = Inr LS_validating"
| "active_stage_of _ = Inl (launch_error ''lock stage'')"

lemma history_entry_read:
  "is_str_entry e \<Longrightarrow> history_triple (untuple (history_entry e)) = Some e"
  by (cases e) (auto simp: is_str_entry_def history_entry_def split: pyval.splits)

lemma transfer_history_read [codec_simps]:
  "list_all is_str_entry h \<Longrightarrow>
    transfer_history_from (PList (map (untuple \<circ> history_entry) h)) = h"
  by (induction h)
    (simp_all add: transfer_history_from_def List.map_filter_simps history_entry_read)

lemma lock_stage_read [codec_simps]:
  "normalize_task_status_stage (enum_name lock_stage_names s)
    = Inr (case s of LS_planning \<Rightarrow> S_planning | LS_implementing \<Rightarrow> S_implementing
           | LS_validating \<Rightarrow> S_validating)"
  by (cases s)
    (simp_all add: lock_stage_names_def enum_name_def normalize_task_status_stage_def
      normalize_enum_def stage_names_def)

lemma active_stage_read [codec_simps]:
  "active_stage_of (case s of LS_planning \<Rightarrow> S_planning | LS_implementing \<Rightarrow> S_implementing
     | LS_validating \<Rightarrow> S_validating) = Inr s"
  by (cases s) simp_all

declare lock_stage_from_data_def [codec_simps] Let_def [codec_simps]

section \<open>Plan references\<close>

text \<open>
  A run refers to its plan twice, by version and by plan id. Version 0 is falsy in Python, so
  only a positive version survives the \<open>or\<close> in the reader.
\<close>

definition plan_link_ok :: "int option \<Rightarrow> string option \<Rightarrow> bool" where
  "plan_link_ok version plan \<longleftrightarrow>
     (case version of None \<Rightarrow> plan = None | Some v \<Rightarrow> v \<noteq> 0 \<and> plan \<noteq> None \<and> plan \<noteq> Some [])"

lemma plan_link_read [codec_simps]:
  "plan_link_ok version plan \<Longrightarrow> opt_str_or plan (map_option plan_id version) = plan"
  "plan_link_ok version plan \<Longrightarrow> opt_int_or version (plan_version_value (opt_str plan)) = version"
  by (auto simp: plan_link_ok_def opt_str_or_def opt_int_or_def plan_version_value_def
      opt_str_def
      split: option.splits)

lemma plan_version_read [codec_simps]:
  "opt_int_or (Some v) (opt_int_or (Some v) (plan_version_from_id (Some (plan_id v)))) = Some v"
  by (auto simp: opt_int_or_def plan_version_from_plan_id)

lemma lease_read [codec_simps]: "i \<noteq> 0 \<Longrightarrow> opt_int_or (Some i) None = Some i"
  by (simp add: opt_int_or_def)

lemma list_or_read [codec_simps]: "(xs = [] \<longrightarrow> ys = []) \<Longrightarrow> list_or xs ys = xs"
  by (auto simp: list_or_def)

lemma intro_refs_read [codec_simps]:
  "x \<noteq> Some [] \<Longrightarrow> first_string (str_list (case x of None \<Rightarrow> [] | Some s \<Rightarrow> if s = [] then [] else [s])) = x"
  by (auto simp: first_string_def str_list_def List.map_filter_simps split: option.splits)

lemma parent_relation_read [codec_simps]:
  "x = None \<or> x = Some ''follow_up'' \<Longrightarrow> optional_parent_relation (opt_str x) = Inr x"
  by (auto simp: optional_parent_relation_def)

declare TaskRunRecord_plan_ref_def [codec_simps] TaskRecord_intro_refs_def [codec_simps]

definition TaskLock_to_dict :: "TaskLock \<Rightarrow> pydict" where
  "TaskLock_to_dict r =
    [
      (''schema_version'', PInt (lk_schema_version r)),
      (''object_type'', PStr (lk_object_type r)),
      (''file_version'', PStr (lk_file_version r)),
      (''lock_id'', PStr (lk_lock_id r)),
      (''task_id'', PStr (lk_task_id r)),
      (''stage'', PStr (enum_name lock_stage_names (lk_stage r))),
      (''run_type'', PStr (enum_name run_type_names (TaskLock_run_type r))),
      (''run_id'', PStr (lk_run_id r)),
      (''created_at'', PStr (lk_created_at r)),
      (''expires_at'', opt_str (lk_expires_at r)),
      (''lease_seconds'', PInt (lk_lease_seconds r)),
      (''last_heartbeat_at'', opt_str (lk_last_heartbeat_at r)),
      (''reason'', PStr (lk_reason r)),
      (''holder'', PDict (ActorRef_to_dict (lk_holder r))),
      (''broken_at'', opt_str (lk_broken_at r)),
      (''broken_by'', opt_rec (\<lambda>x. PDict (ActorRef_to_dict x)) (lk_broken_by r)),
      (''broken_reason'', opt_str (lk_broken_reason r)),
      (''actor'', opt_rec (\<lambda>x. PDict (ActorRef_to_dict x)) (lk_actor r)),
      (''harness'', opt_rec (\<lambda>x. PDict (HarnessRef_to_dict x)) (lk_harness r)),
      (''transfer_history'', PList (map history_entry (lk_transfer_history r))),
      (''transfer_date'', opt_str (lk_transfer_date r))]"

definition TaskLock_from_dict :: "string \<Rightarrow> pydict \<Rightarrow> error + TaskLock" where
  "TaskLock_from_dict now d =
    bindR (require_contract d ''lock'') (\<lambda>_.
    bindR (bindR (lock_stage_from_data d) active_stage_of) (\<lambda>v_stage.
    bindR (string_value d ''lock_id'') (\<lambda>v_lock_id.
    bindR (string_value d ''task_id'') (\<lambda>v_task_id.
    bindR (string_value d ''run_id'') (\<lambda>v_run_id.
    bindR (string_value d ''created_at'') (\<lambda>v_created_at.
    bindR (string_value d ''reason'') (\<lambda>v_reason.
    bindR (ActorRef_from_dict now (dget d ''holder'')) (\<lambda>v_holder.
    bindR (opt_read (dget d ''broken_by'' \<noteq> PNone) (ActorRef_from_dict now (dget d ''broken_by''))) (\<lambda>v_broken_by.
    bindR (opt_read (dget d ''actor'' \<noteq> PNone) (ActorRef_from_dict now (dget d ''actor''))) (\<lambda>v_actor.
    bindR (opt_read (dget d ''harness'' \<noteq> PNone) (HarnessRef_from_dict now (dget d ''harness''))) (\<lambda>v_harness.
    bindR (int_value d ''schema_version'') (\<lambda>v_schema_version.
    bindR (string_value d ''object_type'') (\<lambda>v_object_type.
    Inr \<lparr>lk_lock_id = v_lock_id,
      lk_task_id = v_task_id,
      lk_stage = v_stage,
      lk_run_id = v_run_id,
      lk_created_at = v_created_at,
      lk_expires_at = optional_string (dget d ''expires_at''),
      lk_reason = v_reason,
      lk_holder = v_holder,
      lk_lease_seconds = (case opt_int_or (optional_int (dget d ''lease_seconds'')) None of Some i \<Rightarrow> i | None \<Rightarrow> 7200),
      lk_last_heartbeat_at = optional_string (dget d ''last_heartbeat_at''),
      lk_broken_at = optional_string (dget d ''broken_at''),
      lk_broken_by = v_broken_by,
      lk_broken_reason = optional_string (dget d ''broken_reason''),
      lk_actor = v_actor,
      lk_harness = v_harness,
      lk_transfer_history = transfer_history_from (dget d ''transfer_history''),
      lk_transfer_date = optional_string (dget d ''transfer_date''),
      lk_file_version = str_or (optional_string (dget d ''file_version'')) TASKLEDGER_V2_FILE_VERSION,
      lk_schema_version = v_schema_version,
      lk_object_type = v_object_type\<rparr>)))))))))))))"

definition wf_TaskLock :: "TaskLock \<Rightarrow> bool" where
  "wf_TaskLock r \<longleftrightarrow>
     lk_lock_id r \<noteq> [] \<and>
     lk_task_id r \<noteq> [] \<and>
     lk_run_id r \<noteq> [] \<and>
     lk_created_at r \<noteq> [] \<and>
     lk_reason r \<noteq> [] \<and>
     wf_ActorRef (lk_holder r) \<and>
     pred_option wf_ActorRef (lk_broken_by r) \<and>
     pred_option wf_ActorRef (lk_actor r) \<and>
     pred_option wf_HarnessRef (lk_harness r) \<and>
     lk_file_version r = TASKLEDGER_V2_FILE_VERSION \<and>
     lk_schema_version r \<le> TASKLEDGER_SCHEMA_VERSION \<and>
     lk_object_type r = ''lock'' \<and>
     lk_lease_seconds r \<noteq> 0 \<and>
     list_all is_str_entry (lk_transfer_history r)"

interpretation lk_codec: record_codec wf_TaskLock TaskLock_to_dict TaskLock_from_dict
proof
  fix r now
  assume "wf_TaskLock r"
  then show "TaskLock_from_dict now (untuple_dict (TaskLock_to_dict r)) = Inr r"
    by (cases r) (simp add: TaskLock_to_dict_def TaskLock_from_dict_def wf_TaskLock_def codec_simps)
qed

lemmas lk_codec_facts [codec_simps] =
  lk_codec.round_trip lk_codec.list_round_trip

section \<open>Runs\<close>

definition TaskRunRecord_to_dict :: "TaskRunRecord \<Rightarrow> pydict" where
  "TaskRunRecord_to_dict r =
    [
      (''schema_version'', PInt (rn_schema_version r)),
      (''object_type'', PStr (rn_object_type r)),
      (''file_version'', PStr (rn_file_version r)),
      (''run_id'', PStr (rn_run_id r)),
      (''task_id'', PStr (rn_task_id r)),
      (''run_type'', PStr (enum_name run_type_names (rn_run_type r))),
      (''status'', PStr (enum_name run_status_names (rn_status r))),
      (''started_at'', PStr (rn_started_at r)),
      (''finished_at'', opt_str (rn_finished_at r)),
      (''actor'', PDict (ActorRef_to_dict (rn_actor r))),
      (''harness'', opt_rec (\<lambda>x. PDict (HarnessRef_to_dict x)) (rn_harness r)),
      (''based_on_plan'', opt_str (opt_str_or (rn_based_on_plan r) (TaskRunRecord_plan_ref r))),
      (''based_on_plan_version'', opt_int (rn_based_on_plan_version r)),
      (''based_on_implementation_run'', opt_str (rn_based_on_implementation_run r)),
      (''resumes_run_id'', opt_str (rn_resumes_run_id r)),
      (''summary'', opt_str (rn_summary r)),
      (''worklog'', str_list (rn_worklog r)),
      (''deviations_from_plan'', str_list (rn_deviations_from_plan r)),
      (''change_refs'', str_list (rn_change_refs r)),
      (''check_refs'', str_list (rn_check_refs r)),
      (''todo_updates'', str_list (rn_todo_updates r)),
      (''artifact_refs'', str_list (rn_artifact_refs r)),
      (''checks'', PList (map (\<lambda>x. PDict (ValidationCheck_to_dict x)) (rn_checks r))),
      (''evidence'', str_list (rn_evidence r)),
      (''recommendation'', opt_str (rn_recommendation r)),
      (''result'', opt_enum validation_result_names (rn_result r)),
      (''handoff_refs'', str_list (rn_handoff_refs r)),
      (''actor_history'', PList (map (\<lambda>x. PDict (ActorRef_to_dict x)) (rn_actor_history r))),
      (''workspace_git_commit'', opt_str (rn_workspace_git_commit r)),
      (''workspace_dirty'', opt_bool (rn_workspace_dirty r)),
      (''workspace_diff_hash'', opt_str (rn_workspace_diff_hash r)),
      (''workspace_status_hash'', opt_str (rn_workspace_status_hash r)),
      (''workspace_snapshot_at'', opt_str (rn_workspace_snapshot_at r))]"

definition TaskRunRecord_from_dict :: "string \<Rightarrow> pydict \<Rightarrow> error + TaskRunRecord" where
  "TaskRunRecord_from_dict now d =
    bindR (require_contract d ''run'') (\<lambda>_.
    bindR (string_value d ''run_id'') (\<lambda>v_run_id.
    bindR (string_value d ''task_id'') (\<lambda>v_task_id.
    bindR (bindR (string_value d ''run_type'') normalize_run_type) (\<lambda>v_run_type.
    bindR (bindR (string_value d ''status'') normalize_run_status) (\<lambda>v_status.
    bindR (ActorRef_from_dict now (dget d ''actor'')) (\<lambda>v_actor.
    bindR (opt_read (dget d ''harness'' \<noteq> PNone) (HarnessRef_from_dict now (dget d ''harness''))) (\<lambda>v_harness.
    bindR (mapR (\<lambda>x. ValidationCheck_from_dict now (PDict x)) (dict_list (dget d ''checks''))) (\<lambda>v_checks.
    bindR (map_opt_R normalize_validation_result (optional_string (dget d ''result''))) (\<lambda>v_result.
    bindR (mapR (\<lambda>x. ActorRef_from_dict now (PDict x)) (dict_list (dget d ''actor_history''))) (\<lambda>v_actor_history.
    bindR (int_value d ''schema_version'') (\<lambda>v_schema_version.
    bindR (string_value d ''object_type'') (\<lambda>v_object_type.
    Inr \<lparr>rn_run_id = v_run_id,
      rn_task_id = v_task_id,
      rn_run_type = v_run_type,
      rn_status = v_status,
      rn_started_at = str_or (optional_string (dget d ''started_at'')) now,
      rn_finished_at = optional_string (dget d ''finished_at''),
      rn_actor = v_actor,
      rn_harness = v_harness,
      rn_based_on_plan_version = opt_int_or (optional_int (dget d ''based_on_plan_version'')) (plan_version_value (dget d ''based_on_plan'')),
      rn_based_on_implementation_run = optional_string (dget d ''based_on_implementation_run''),
      rn_resumes_run_id = optional_string (dget d ''resumes_run_id''),
      rn_summary = optional_string (dget d ''summary''),
      rn_worklog = string_tuple (dget d ''worklog''),
      rn_deviations_from_plan = string_tuple (dget d ''deviations_from_plan''),
      rn_change_refs = string_tuple (dget d ''change_refs''),
      rn_check_refs = string_tuple (dget d ''check_refs''),
      rn_todo_updates = string_tuple (dget d ''todo_updates''),
      rn_artifact_refs = string_tuple (dget d ''artifact_refs''),
      rn_checks = v_checks,
      rn_evidence = string_tuple (dget d ''evidence''),
      rn_recommendation = optional_string (dget d ''recommendation''),
      rn_result = v_result,
      rn_handoff_refs = string_tuple (dget d ''handoff_refs''),
      rn_actor_history = v_actor_history,
      rn_file_version = str_or (optional_string (dget d ''file_version'')) TASKLEDGER_V2_FILE_VERSION,
      rn_based_on_plan = optional_string (dget d ''based_on_plan''),
      rn_schema_version = v_schema_version,
      rn_object_type = v_object_type,
      rn_workspace_git_commit = optional_string (dget d ''workspace_git_commit''),
      rn_workspace_dirty = optional_bool (dget d ''workspace_dirty''),
      rn_workspace_diff_hash = optional_string (dget d ''workspace_diff_hash''),
      rn_workspace_status_hash = optional_string (dget d ''workspace_status_hash''),
      rn_workspace_snapshot_at = optional_string (dget d ''workspace_snapshot_at'')\<rparr>))))))))))))"

definition wf_TaskRunRecord :: "TaskRunRecord \<Rightarrow> bool" where
  "wf_TaskRunRecord r \<longleftrightarrow>
     rn_run_id r \<noteq> [] \<and>
     rn_task_id r \<noteq> [] \<and>
     rn_started_at r \<noteq> [] \<and>
     wf_ActorRef (rn_actor r) \<and>
     pred_option wf_HarnessRef (rn_harness r) \<and>
     list_all wf_ValidationCheck (rn_checks r) \<and>
     list_all wf_ActorRef (rn_actor_history r) \<and>
     rn_file_version r = TASKLEDGER_V2_FILE_VERSION \<and>
     rn_schema_version r \<le> TASKLEDGER_SCHEMA_VERSION \<and>
     rn_object_type r = ''run'' \<and>
     plan_link_ok (rn_based_on_plan_version r) (rn_based_on_plan r)"

interpretation rn_codec: record_codec wf_TaskRunRecord TaskRunRecord_to_dict TaskRunRecord_from_dict
proof
  fix r now
  assume "wf_TaskRunRecord r"
  then show "TaskRunRecord_from_dict now (untuple_dict (TaskRunRecord_to_dict r)) = Inr r"
    by (cases r) (simp add: TaskRunRecord_to_dict_def TaskRunRecord_from_dict_def wf_TaskRunRecord_def codec_simps)
qed

lemmas rn_codec_facts [codec_simps] =
  rn_codec.round_trip rn_codec.list_round_trip

section \<open>Plans\<close>

definition PlanRecord_to_dict :: "PlanRecord \<Rightarrow> pydict" where
  "PlanRecord_to_dict r =
    [
      (''schema_version'', PInt (pl_schema_version r)),
      (''object_type'', PStr (pl_object_type r)),
      (''file_version'', PStr (pl_file_version r)),
      (''task_id'', PStr (pl_task_id r)),
      (''plan_id'', PStr (plan_id (pl_plan_version r))),
      (''version'', PInt (pl_plan_version r)),
      (''plan_version'', PInt (pl_plan_version r)),
      (''status'', PStr (enum_name plan_status_names (pl_status r))),
      (''created_at'', PStr (pl_created_at r)),
      (''created_by'', PDict (ActorRef_to_dict (pl_created_by r))),
      (''supersedes'', opt_int (pl_supersedes r)),
      (''question_refs'', str_list (pl_question_refs r)),
      (''criteria'', PList (map (\<lambda>x. PDict (AcceptanceCriterion_to_dict x)) (pl_criteria r))),
      (''todos'', PList (map (\<lambda>x. PDict (TaskTodo_to_dict x)) (pl_todos r))),
      (''generation_reason'', opt_str (pl_generation_reason r)),
      (''based_on_question_ids'', str_list (pl_based_on_question_ids r)),
      (''based_on_answer_hash'', opt_str (pl_based_on_answer_hash r)),
      (''supersedes_plan_id'', opt_str (map_option plan_id (pl_supersedes r))),
      (''approved_at'', opt_str (pl_approved_at r)),
      (''approved_by'', opt_rec (\<lambda>x. PDict (ActorRef_to_dict x)) (pl_approved_by r)),
      (''approval_note'', opt_str (pl_approval_note r)),
      (''approval_source'', opt_str (pl_approval_source r)),
      (''approved_plan_hash'', opt_str (pl_approved_plan_hash r)),
      (''body'', PStr (pl_body r)),
      (''goal'', opt_str (pl_goal r)),
      (''files'', str_list (pl_files r)),
      (''test_commands'', str_list (pl_test_commands r)),
      (''expected_outputs'', str_list (pl_expected_outputs r)),
      (''todos_waived_reason'', opt_str (pl_todos_waived_reason r))]"

definition PlanRecord_from_dict :: "string \<Rightarrow> pydict \<Rightarrow> error + PlanRecord" where
  "PlanRecord_from_dict now d =
    bindR (require_contract d ''plan'') (\<lambda>_.
    bindR (case opt_int_or (optional_int (dget d ''plan_version'')) (opt_int_or (optional_int (dget d ''version'')) (plan_version_from_id (optional_string (dget d ''plan_id'')))) of None \<Rightarrow> Inl (launch_error ''plan version'') | Some i \<Rightarrow> Inr i) (\<lambda>v_plan_version.
    bindR (string_value d ''task_id'') (\<lambda>v_task_id.
    bindR (bindR (string_value d ''status'') normalize_plan_status) (\<lambda>v_status.
    bindR (ActorRef_from_dict now (dget d ''created_by'')) (\<lambda>v_created_by.
    bindR (mapR (\<lambda>x. AcceptanceCriterion_from_dict now (PDict x)) (dict_list (dget d ''criteria''))) (\<lambda>v_criteria.
    bindR (mapR (\<lambda>x. TaskTodo_from_dict now (PDict x)) (dict_list (dget d ''todos''))) (\<lambda>v_todos.
    bindR (opt_read (dget d ''approved_by'' \<noteq> PNone) (ActorRef_from_dict now (dget d ''approved_by''))) (\<lambda>v_approved_by.
    bindR (int_value d ''schema_version'') (\<lambda>v_schema_version.
    bindR (string_value d ''object_type'') (\<lambda>v_object_type.
    Inr \<lparr>pl_task_id = v_task_id,
      pl_plan_version = v_plan_version,
      pl_body = str_or (optional_string (dget d ''body'')) [],
      pl_status = v_status,
      pl_created_at = str_or (optional_string (dget d ''created_at'')) now,
      pl_created_by = v_created_by,
      pl_supersedes = optional_int (dget d ''supersedes''),
      pl_question_refs = string_tuple (dget d ''question_refs''),
      pl_file_version = str_or (optional_string (dget d ''file_version'')) TASKLEDGER_V2_FILE_VERSION,
      pl_criteria = v_criteria,
      pl_todos = v_todos,
      pl_generation_reason = optional_string (dget d ''generation_reason''),
      pl_based_on_question_ids = list_or (string_tuple (dget d ''based_on_question_ids'')) (string_tuple (dget d ''question_refs'')),
      pl_based_on_answer_hash = optional_string (dget d ''based_on_answer_hash''),
      pl_approved_at = optional_string (dget d ''approved_at''),
      pl_approved_by = v_approved_by,
      pl_approval_note = optional_string (dget d ''approval_note''),
      pl_approval_source = optional_string (dget d ''approval_source''),
      pl_approved_plan_hash = optional_string (dget d ''approved_plan_hash''),
      pl_goal = optional_string (dget d ''goal''),
      pl_files = string_tuple (dget d ''files''),
      pl_test_commands = string_tuple (dget d ''test_commands''),
      pl_expected_outputs = string_tuple (dget d ''expected_outputs''),
      pl_todos_waived_reason = optional_string (dget d ''todos_waived_reason''),
      pl_schema_version = v_schema_version,
      pl_object_type = v_object_type\<rparr>))))))))))"

definition wf_PlanRecord :: "PlanRecord \<Rightarrow> bool" where
  "wf_PlanRecord r \<longleftrightarrow>
     pl_task_id r \<noteq> [] \<and>
     pl_created_at r \<noteq> [] \<and>
     wf_ActorRef (pl_created_by r) \<and>
     pl_file_version r = TASKLEDGER_V2_FILE_VERSION \<and>
     list_all wf_AcceptanceCriterion (pl_criteria r) \<and>
     list_all wf_TaskTodo (pl_todos r) \<and>
     pred_option wf_ActorRef (pl_approved_by r) \<and>
     pl_schema_version r \<le> TASKLEDGER_SCHEMA_VERSION \<and>
     pl_object_type r = ''plan'' \<and>
     (pl_based_on_question_ids r = [] \<longrightarrow> pl_question_refs r = [])"

interpretation pl_codec: record_codec wf_PlanRecord PlanRecord_to_dict PlanRecord_from_dict
proof
  fix r now
  assume "wf_PlanRecord r"
  then show "PlanRecord_from_dict now (untuple_dict (PlanRecord_to_dict r)) = Inr r"
    by (cases r) (simp add: PlanRecord_to_dict_def PlanRecord_from_dict_def wf_PlanRecord_def codec_simps)
qed

lemmas pl_codec_facts [codec_simps] =
  pl_codec.round_trip pl_codec.list_round_trip

section \<open>Tasks\<close>

definition TaskRecord_to_dict :: "TaskRecord \<Rightarrow> pydict" where
  "TaskRecord_to_dict r =
    [
      (''schema_version'', PInt (tk_schema_version r)),
      (''object_type'', PStr (tk_object_type r)),
      (''file_version'', PStr (tk_file_version r)),
      (''id'', PStr (tk_id r)),
      (''slug'', PStr (tk_slug r)),
      (''title'', PStr (tk_title r)),
      (''status'', PStr (enum_name stage_names (tk_status_stage r))),
      (''status_stage'', PStr (enum_name stage_names (tk_status_stage r))),
      (''created_at'', PStr (tk_created_at r)),
      (''updated_at'', PStr (tk_updated_at r)),
      (''description_summary'', opt_str (tk_description_summary r)),
      (''priority'', opt_str (tk_priority r)),
      (''labels'', str_list (tk_labels r)),
      (''owner'', opt_str (tk_owner r)),
      (''intro_refs'', str_list (TaskRecord_intro_refs r)),
      (''introduction_ref'', opt_str (tk_introduction_ref r)),
      (''requirements'', str_list (tk_requirements r)),
      (''file_links'', PList (map (\<lambda>x. PDict (FileLink_to_dict x)) (tk_file_links r))),
      (''todos'', PList (map (\<lambda>x. PDict (TaskTodo_to_dict x)) (tk_todos r))),
      (''latest_plan'', opt_str (map_option plan_id (tk_latest_plan_version r))),
      (''latest_plan_version'', opt_int (tk_latest_plan_version r)),
      (''accepted_plan'', opt_str (map_option plan_id (tk_accepted_plan_version r))),
      (''accepted_plan_version'', opt_int (tk_accepted_plan_version r)),
      (''latest_planning_run'', opt_str (tk_latest_planning_run r)),
      (''latest_implementation_run'', opt_str (tk_latest_implementation_run r)),
      (''latest_validation_run'', opt_str (tk_latest_validation_run r)),
      (''code_change_log_refs'', str_list (tk_code_change_log_refs r)),
      (''notes'', str_list (tk_notes r)),
      (''body'', PStr (tk_body r)),
      (''task_type'', PStr (enum_name task_type_names (tk_task_type r)))]
    @ opt_entry ''parent_task_id'' (opt_str (tk_parent_task_id r))
    @ opt_entry ''parent_relation'' (opt_str (tk_parent_relation r))
    @ opt_entry ''closed_at'' (opt_str (tk_closed_at r))
    @ opt_entry ''closed_by'' (opt_rec (\<lambda>x. PDict (ActorRef_to_dict x)) (tk_closed_by r))
    @ opt_entry ''closure_note'' (opt_str (tk_closure_note r))
    @ opt_entry ''archived_at'' (opt_str (tk_archived_at r))
    @ opt_entry ''archived_by'' (opt_rec (\<lambda>x. PDict (ActorRef_to_dict x)) (tk_archived_by r))
    @ opt_entry ''archive_reason'' (opt_str (tk_archive_reason r))
    @ opt_entry ''recorded_at'' (opt_str (tk_recorded_at r))
    @ opt_entry ''recorded_by'' (opt_rec (\<lambda>x. PDict (ActorRef_to_dict x)) (tk_recorded_by r))"

definition TaskRecord_from_dict :: "string \<Rightarrow> pydict \<Rightarrow> error + TaskRecord" where
  "TaskRecord_from_dict now d =
    bindR (require_contract d ''task'') (\<lambda>_.
    bindR (string_value d ''id'') (\<lambda>v_id.
    bindR (string_value d ''slug'') (\<lambda>v_slug.
    bindR (string_value d ''title'') (\<lambda>v_title.
    bindR (bindR (case optional_string (dget d ''status'') of Some s \<Rightarrow> if s = [] then string_value d ''status_stage'' else Inr s | None \<Rightarrow> string_value d ''status_stage'') normalize_task_status_stage) (\<lambda>v_status_stage.
    bindR (mapR (\<lambda>x. FileLink_from_dict now (PDict x)) (dict_list (dget d ''file_links''))) (\<lambda>v_file_links.
    bindR (mapR (\<lambda>x. TaskTodo_from_dict now (PDict x)) (dict_list (dget d ''todos''))) (\<lambda>v_todos.
    bindR (optional_parent_relation (dget d ''parent_relation'')) (\<lambda>v_parent_relation.
    bindR (opt_read (dget d ''closed_by'' \<noteq> PNone) (ActorRef_from_dict now (dget d ''closed_by''))) (\<lambda>v_closed_by.
    bindR (opt_read (dget d ''archived_by'' \<noteq> PNone) (ActorRef_from_dict now (dget d ''archived_by''))) (\<lambda>v_archived_by.
    bindR (int_value d ''schema_version'') (\<lambda>v_schema_version.
    bindR (string_value d ''object_type'') (\<lambda>v_object_type.
    bindR (normalize_task_type (str_or (optional_string (dget d ''task_type'')) ''managed'')) (\<lambda>v_task_type.
    bindR (opt_read (dget d ''recorded_by'' \<noteq> PNone) (ActorRef_from_dict now (dget d ''recorded_by''))) (\<lambda>v_recorded_by.
    Inr \<lparr>tk_id = v_id,
      tk_slug = v_slug,
      tk_title = v_title,
      tk_body = str_or (optional_string (dget d ''body'')) [],
      tk_status_stage = v_status_stage,
      tk_created_at = str_or (optional_string (dget d ''created_at'')) now,
      tk_updated_at = str_or (optional_string (dget d ''updated_at'')) now,
      tk_description_summary = optional_string (dget d ''description_summary''),
      tk_priority = optional_string (dget d ''priority''),
      tk_labels = string_tuple (dget d ''labels''),
      tk_owner = optional_string (dget d ''owner''),
      tk_introduction_ref = opt_str_or (optional_string (dget d ''introduction_ref'')) (first_string (dget d ''intro_refs'')),
      tk_requirements = string_tuple (dget d ''requirements''),
      tk_file_links = v_file_links,
      tk_todos = v_todos,
      tk_latest_plan_version = opt_int_or (optional_int (dget d ''latest_plan_version'')) (plan_version_value (dget d ''latest_plan'')),
      tk_accepted_plan_version = opt_int_or (optional_int (dget d ''accepted_plan_version'')) (plan_version_value (dget d ''accepted_plan'')),
      tk_latest_planning_run = optional_string (dget d ''latest_planning_run''),
      tk_latest_implementation_run = optional_string (dget d ''latest_implementation_run''),
      tk_latest_validation_run = optional_string (dget d ''latest_validation_run''),
      tk_code_change_log_refs = string_tuple (dget d ''code_change_log_refs''),
      tk_notes = string_tuple (dget d ''notes''),
      tk_parent_task_id = optional_string (dget d ''parent_task_id''),
      tk_parent_relation = v_parent_relation,
      tk_closed_at = optional_string (dget d ''closed_at''),
      tk_closed_by = v_closed_by,
      tk_closure_note = optional_string (dget d ''closure_note''),
      tk_archived_at = optional_string (dget d ''archived_at''),
      tk_archived_by = v_archived_by,
      tk_archive_reason = optional_string (dget d ''archive_reason''),
      tk_file_version = str_or (optional_string (dget d ''file_version'')) TASKLEDGER_V2_FILE_VERSION,
      tk_schema_version = v_schema_version,
      tk_object_type = v_object_type,
      tk_task_type = v_task_type,
      tk_recorded_at = optional_string (dget d ''recorded_at''),
      tk_recorded_by = v_recorded_by\<rparr>))))))))))))))"

definition wf_TaskRecord :: "TaskRecord \<Rightarrow> bool" where
  "wf_TaskRecord r \<longleftrightarrow>
     tk_id r \<noteq> [] \<and>
     tk_slug r \<noteq> [] \<and>
     tk_title r \<noteq> [] \<and>
     tk_created_at r \<noteq> [] \<and>
     tk_updated_at r \<noteq> [] \<and>
     list_all wf_FileLink (tk_file_links r) \<and>
     list_all wf_TaskTodo (tk_todos r) \<and>
     pred_option wf_ActorRef (tk_closed_by r) \<and>
     pred_option wf_ActorRef (tk_archived_by r) \<and>
     tk_file_version r = TASKLEDGER_V2_FILE_VERSION \<and>
     tk_schema_version r \<le> TASKLEDGER_SCHEMA_VERSION \<and>
     tk_object_type r = ''task'' \<and>
     pred_option wf_ActorRef (tk_recorded_by r) \<and>
     tk_introduction_ref r \<noteq> Some [] \<and>
     (tk_parent_relation r = None \<or> tk_parent_relation r = Some ''follow_up'')"

interpretation tk_codec: record_codec wf_TaskRecord TaskRecord_to_dict TaskRecord_from_dict
proof
  fix r now
  assume "wf_TaskRecord r"
  then show "TaskRecord_from_dict now (untuple_dict (TaskRecord_to_dict r)) = Inr r"
    by (cases r) (simp add: TaskRecord_to_dict_def TaskRecord_from_dict_def wf_TaskRecord_def codec_simps)
qed

lemmas tk_codec_facts [codec_simps] =
  tk_codec.round_trip tk_codec.list_round_trip

section \<open>Questions\<close>

definition QuestionRecord_to_dict :: "QuestionRecord \<Rightarrow> pydict" where
  "QuestionRecord_to_dict r =
    [
      (''schema_version'', PInt (qn_schema_version r)),
      (''object_type'', PStr (qn_object_type r)),
      (''file_version'', PStr (qn_file_version r)),
      (''id'', PStr (qn_id r)),
      (''task_id'', PStr (qn_task_id r)),
      (''plan_version'', opt_int (qn_plan_version r)),
      (''status'', PStr (enum_name question_status_names (qn_status r))),
      (''created_at'', PStr (qn_created_at r)),
      (''answered_at'', opt_str (qn_answered_at r)),
      (''answered_by'', opt_str (qn_answered_by r)),
      (''answered_by_actor'', opt_rec (\<lambda>x. PDict (ActorRef_to_dict x)) (qn_answered_by_actor r)),
      (''asked_by_actor'', opt_rec (\<lambda>x. PDict (ActorRef_to_dict x)) (qn_asked_by_actor r)),
      (''asked_in_harness'', opt_rec (\<lambda>x. PDict (HarnessRef_to_dict x)) (qn_asked_in_harness r)),
      (''required_for_plan'', PBool (qn_required_for_plan r)),
      (''answer_source'', opt_str (qn_answer_source r)),
      (''question'', PStr (qn_question r)),
      (''answer'', opt_str (qn_answer r))]"

definition QuestionRecord_from_dict :: "string \<Rightarrow> pydict \<Rightarrow> error + QuestionRecord" where
  "QuestionRecord_from_dict now d =
    bindR (require_contract d ''question'') (\<lambda>_.
    bindR (string_value d ''id'') (\<lambda>v_id.
    bindR (string_value d ''task_id'') (\<lambda>v_task_id.
    bindR (string_value d ''question'') (\<lambda>v_question.
    bindR (bindR (string_value d ''status'') normalize_question_status) (\<lambda>v_status.
    bindR (opt_read (dget d ''answered_by_actor'' \<noteq> PNone) (ActorRef_from_dict now (dget d ''answered_by_actor''))) (\<lambda>v_answered_by_actor.
    bindR (opt_read (dget d ''asked_by_actor'' \<noteq> PNone) (ActorRef_from_dict now (dget d ''asked_by_actor''))) (\<lambda>v_asked_by_actor.
    bindR (opt_read (dget d ''asked_in_harness'' \<noteq> PNone) (HarnessRef_from_dict now (dget d ''asked_in_harness''))) (\<lambda>v_asked_in_harness.
    bindR (int_value d ''schema_version'') (\<lambda>v_schema_version.
    bindR (string_value d ''object_type'') (\<lambda>v_object_type.
    Inr \<lparr>qn_id = v_id,
      qn_task_id = v_task_id,
      qn_question = v_question,
      qn_plan_version = optional_int (dget d ''plan_version''),
      qn_status = v_status,
      qn_created_at = str_or (optional_string (dget d ''created_at'')) now,
      qn_answered_at = optional_string (dget d ''answered_at''),
      qn_answered_by = optional_string (dget d ''answered_by''),
      qn_answered_by_actor = v_answered_by_actor,
      qn_asked_by_actor = v_asked_by_actor,
      qn_asked_in_harness = v_asked_in_harness,
      qn_required_for_plan = truthy (dget d ''required_for_plan''),
      qn_answer_source = optional_string (dget d ''answer_source''),
      qn_answer = optional_string (dget d ''answer''),
      qn_file_version = str_or (optional_string (dget d ''file_version'')) TASKLEDGER_V2_FILE_VERSION,
      qn_schema_version = v_schema_version,
      qn_object_type = v_object_type\<rparr>))))))))))"

definition wf_QuestionRecord :: "QuestionRecord \<Rightarrow> bool" where
  "wf_QuestionRecord r \<longleftrightarrow>
     qn_id r \<noteq> [] \<and>
     qn_task_id r \<noteq> [] \<and>
     qn_question r \<noteq> [] \<and>
     qn_created_at r \<noteq> [] \<and>
     pred_option wf_ActorRef (qn_answered_by_actor r) \<and>
     pred_option wf_ActorRef (qn_asked_by_actor r) \<and>
     pred_option wf_HarnessRef (qn_asked_in_harness r) \<and>
     qn_file_version r = TASKLEDGER_V2_FILE_VERSION \<and>
     qn_schema_version r \<le> TASKLEDGER_SCHEMA_VERSION \<and>
     qn_object_type r = ''question''"

interpretation qn_codec: record_codec wf_QuestionRecord QuestionRecord_to_dict QuestionRecord_from_dict
proof
  fix r now
  assume "wf_QuestionRecord r"
  then show "QuestionRecord_from_dict now (untuple_dict (QuestionRecord_to_dict r)) = Inr r"
    by (cases r) (simp add: QuestionRecord_to_dict_def QuestionRecord_from_dict_def wf_QuestionRecord_def codec_simps)
qed

lemmas qn_codec_facts [codec_simps] =
  qn_codec.round_trip qn_codec.list_round_trip

section \<open>Handoffs\<close>

definition TaskHandoffRecord_to_dict :: "TaskHandoffRecord \<Rightarrow> pydict" where
  "TaskHandoffRecord_to_dict r =
    [
      (''handoff_id'', PStr (ho_handoff_id r)),
      (''task_id'', PStr (ho_task_id r)),
      (''mode'', PStr (enum_name handoff_mode_names (ho_mode r))),
      (''context_for'', opt_enum context_for_names (ho_context_for r)),
      (''scope'', PStr (enum_name context_scope_names (ho_scope r))),
      (''todo_id'', opt_str (ho_todo_id r)),
      (''focus_run_id'', opt_str (ho_focus_run_id r)),
      (''context_format'', PStr (enum_name context_format_names (ho_context_format r))),
      (''context_hash'', opt_str (ho_context_hash r)),
      (''generated_at'', opt_str (ho_generated_at r)),
      (''status'', PStr (enum_name handoff_status_names (ho_status r))),
      (''created_at'', PStr (ho_created_at r)),
      (''created_by'', PDict (ActorRef_to_dict (ho_created_by r))),
      (''created_from_harness'', opt_rec (\<lambda>x. PDict (HarnessRef_to_dict x)) (ho_created_from_harness r)),
      (''intended_actor_type'', opt_enum actor_type_names (ho_intended_actor_type r)),
      (''intended_actor_name'', opt_str (ho_intended_actor_name r)),
      (''intended_harness'', opt_str (ho_intended_harness r)),
      (''source_run_id'', opt_str (ho_source_run_id r)),
      (''resumes_run_id'', opt_str (ho_resumes_run_id r)),
      (''claim_run_id'', opt_str (ho_claim_run_id r)),
      (''lock_policy'', PStr (enum_name lock_policy_names (ho_lock_policy r))),
      (''released_lock_id'', opt_str (ho_released_lock_id r)),
      (''claimed_at'', opt_str (ho_claimed_at r)),
      (''claimed_by'', opt_rec (\<lambda>x. PDict (ActorRef_to_dict x)) (ho_claimed_by r)),
      (''claimed_in_harness'', opt_rec (\<lambda>x. PDict (HarnessRef_to_dict x)) (ho_claimed_in_harness r)),
      (''summary'', opt_str (ho_summary r)),
      (''next_action'', opt_str (ho_next_action r)),
      (''context_body'', PStr (ho_context_body r)),
      (''file_version'', PStr (ho_file_version r)),
      (''schema_version'', PInt (ho_schema_version r)),
      (''object_type'', PStr (ho_object_type r))]
    @ opt_entry ''worker_step_id'' (opt_str (ho_worker_step_id r))"

definition TaskHandoffRecord_from_dict :: "string \<Rightarrow> pyval \<Rightarrow> error + TaskHandoffRecord" where
  "TaskHandoffRecord_from_dict now v =
   (case as_dict v of None \<Rightarrow> Inl (launch_error ''expected mapping'') | Some d \<Rightarrow>
    bindR (require_contract d ''handoff'') (\<lambda>_.
    bindR (string_value d ''handoff_id'') (\<lambda>v_handoff_id.
    bindR (string_value d ''task_id'') (\<lambda>v_task_id.
    bindR (bindR (string_value d ''mode'') normalize_handoff_mode) (\<lambda>v_mode.
    bindR (opt_normalize normalize_context_for (optional_string (dget d ''context_for''))) (\<lambda>v_context_for.
    bindR (normalize_context_scope (str_or (optional_string (dget d ''scope'')) ''task'')) (\<lambda>v_scope.
    bindR (normalize_context_format (str_or (optional_string (dget d ''context_format'')) ''markdown'')) (\<lambda>v_context_format.
    bindR (normalize_handoff_status (str_or (optional_string (dget d ''status'')) ''open'')) (\<lambda>v_status.
    bindR (ActorRef_from_dict now (dget d ''created_by'')) (\<lambda>v_created_by.
    bindR (opt_read (truthy (dget d ''created_from_harness'')) (HarnessRef_from_dict now (dget d ''created_from_harness''))) (\<lambda>v_created_from_harness.
    bindR (opt_normalize normalize_actor_type (optional_string (dget d ''intended_actor_type''))) (\<lambda>v_intended_actor_type.
    bindR (normalize_lock_policy (str_or (optional_string (dget d ''lock_policy'')) ''none'')) (\<lambda>v_lock_policy.
    bindR (opt_read (truthy (dget d ''claimed_by'')) (ActorRef_from_dict now (dget d ''claimed_by''))) (\<lambda>v_claimed_by.
    bindR (opt_read (truthy (dget d ''claimed_in_harness'')) (HarnessRef_from_dict now (dget d ''claimed_in_harness''))) (\<lambda>v_claimed_in_harness.
    bindR (int_value d ''schema_version'') (\<lambda>v_schema_version.
    Inr \<lparr>ho_handoff_id = v_handoff_id,
      ho_task_id = v_task_id,
      ho_mode = v_mode,
      ho_context_for = v_context_for,
      ho_worker_step_id = optional_string (dget d ''worker_step_id''),
      ho_scope = v_scope,
      ho_todo_id = optional_string (dget d ''todo_id''),
      ho_focus_run_id = optional_string (dget d ''focus_run_id''),
      ho_context_format = v_context_format,
      ho_context_hash = optional_string (dget d ''context_hash''),
      ho_generated_at = optional_string (dget d ''generated_at''),
      ho_status = v_status,
      ho_lock_policy = v_lock_policy,
      ho_context_body = str_or (optional_string (dget d ''context_body'')) [],
      ho_file_version = str_or (optional_string (dget d ''file_version'')) TASKLEDGER_V2_FILE_VERSION,
      ho_schema_version = v_schema_version,
      ho_object_type = ''handoff'',
      ho_created_from_harness = v_created_from_harness,
      ho_intended_actor_type = v_intended_actor_type,
      ho_intended_actor_name = optional_string (dget d ''intended_actor_name''),
      ho_intended_harness = optional_string (dget d ''intended_harness''),
      ho_source_run_id = optional_string (dget d ''source_run_id''),
      ho_resumes_run_id = optional_string (dget d ''resumes_run_id''),
      ho_claim_run_id = optional_string (dget d ''claim_run_id''),
      ho_released_lock_id = optional_string (dget d ''released_lock_id''),
      ho_claimed_at = optional_string (dget d ''claimed_at''),
      ho_claimed_by = v_claimed_by,
      ho_claimed_in_harness = v_claimed_in_harness,
      ho_summary = optional_string (dget d ''summary''),
      ho_next_action = optional_string (dget d ''next_action''),
      ho_created_at = str_or (optional_string (dget d ''created_at'')) now,
      ho_created_by = v_created_by\<rparr>))))))))))))))))"

definition wf_TaskHandoffRecord :: "TaskHandoffRecord \<Rightarrow> bool" where
  "wf_TaskHandoffRecord r \<longleftrightarrow>
     ho_handoff_id r \<noteq> [] \<and>
     ho_task_id r \<noteq> [] \<and>
     ho_file_version r = TASKLEDGER_V2_FILE_VERSION \<and>
     ho_schema_version r \<le> TASKLEDGER_SCHEMA_VERSION \<and>
     ho_object_type r = ''handoff'' \<and>
     pred_option wf_HarnessRef (ho_created_from_harness r) \<and>
     pred_option wf_ActorRef (ho_claimed_by r) \<and>
     pred_option wf_HarnessRef (ho_claimed_in_harness r) \<and>
     ho_created_at r \<noteq> [] \<and>
     wf_ActorRef (ho_created_by r)"

interpretation ho_codec: value_codec wf_TaskHandoffRecord TaskHandoffRecord_to_dict TaskHandoffRecord_from_dict
proof
  fix r now
  assume "wf_TaskHandoffRecord r"
  then show "TaskHandoffRecord_from_dict now (PDict (untuple_dict (TaskHandoffRecord_to_dict r))) = Inr r"
    by (cases r) (simp add: TaskHandoffRecord_to_dict_def TaskHandoffRecord_from_dict_def wf_TaskHandoffRecord_def codec_simps)
qed (simp add: TaskHandoffRecord_to_dict_def)

lemmas ho_codec_facts [codec_simps] =
  ho_codec.round_trip ho_codec.list_round_trip
  ho_codec.option_round_trip ho_codec.truthy_round_trip

section \<open>Code changes\<close>

definition CodeChangeRecord_to_dict :: "CodeChangeRecord \<Rightarrow> pydict" where
  "CodeChangeRecord_to_dict r =
    [
      (''schema_version'', PInt (ch_schema_version r)),
      (''object_type'', PStr (ch_object_type r)),
      (''file_version'', PStr (ch_file_version r)),
      (''change_id'', PStr (ch_change_id r)),
      (''task_id'', PStr (ch_task_id r)),
      (''implementation_run'', PStr (ch_implementation_run r)),
      (''timestamp'', PStr (ch_timestamp r)),
      (''kind'', PStr (ch_kind r)),
      (''path'', PStr (ch_path r)),
      (''summary'', PStr (ch_summary r)),
      (''git_commit'', opt_str (ch_git_commit r)),
      (''git_diff_stat'', opt_str (ch_git_diff_stat r)),
      (''command'', opt_str (ch_command r)),
      (''before_hash'', opt_str (ch_before_hash r)),
      (''after_hash'', opt_str (ch_after_hash r)),
      (''exit_code'', opt_int (ch_exit_code r))]"

definition CodeChangeRecord_from_dict :: "string \<Rightarrow> pydict \<Rightarrow> error + CodeChangeRecord" where
  "CodeChangeRecord_from_dict now d =
    bindR (require_contract d ''change'') (\<lambda>_.
    bindR (string_value d ''change_id'') (\<lambda>v_change_id.
    bindR (string_value d ''task_id'') (\<lambda>v_task_id.
    bindR (string_value d ''implementation_run'') (\<lambda>v_implementation_run.
    bindR (string_value d ''kind'') (\<lambda>v_kind.
    bindR (string_value d ''path'') (\<lambda>v_path.
    bindR (string_value d ''summary'') (\<lambda>v_summary.
    bindR (int_value d ''schema_version'') (\<lambda>v_schema_version.
    bindR (string_value d ''object_type'') (\<lambda>v_object_type.
    Inr \<lparr>ch_change_id = v_change_id,
      ch_task_id = v_task_id,
      ch_implementation_run = v_implementation_run,
      ch_timestamp = str_or (optional_string (dget d ''timestamp'')) now,
      ch_kind = v_kind,
      ch_path = v_path,
      ch_summary = v_summary,
      ch_git_commit = optional_string (dget d ''git_commit''),
      ch_git_diff_stat = optional_string (dget d ''git_diff_stat''),
      ch_command = optional_string (dget d ''command''),
      ch_before_hash = optional_string (dget d ''before_hash''),
      ch_after_hash = optional_string (dget d ''after_hash''),
      ch_exit_code = optional_int (dget d ''exit_code''),
      ch_file_version = str_or (optional_string (dget d ''file_version'')) TASKLEDGER_V2_FILE_VERSION,
      ch_schema_version = v_schema_version,
      ch_object_type = v_object_type\<rparr>)))))))))"

definition wf_CodeChangeRecord :: "CodeChangeRecord \<Rightarrow> bool" where
  "wf_CodeChangeRecord r \<longleftrightarrow>
     ch_change_id r \<noteq> [] \<and>
     ch_task_id r \<noteq> [] \<and>
     ch_implementation_run r \<noteq> [] \<and>
     ch_timestamp r \<noteq> [] \<and>
     ch_kind r \<noteq> [] \<and>
     ch_path r \<noteq> [] \<and>
     ch_summary r \<noteq> [] \<and>
     ch_file_version r = TASKLEDGER_V2_FILE_VERSION \<and>
     ch_schema_version r \<le> TASKLEDGER_SCHEMA_VERSION \<and>
     ch_object_type r = ''change''"

interpretation ch_codec: record_codec wf_CodeChangeRecord CodeChangeRecord_to_dict CodeChangeRecord_from_dict
proof
  fix r now
  assume "wf_CodeChangeRecord r"
  then show "CodeChangeRecord_from_dict now (untuple_dict (CodeChangeRecord_to_dict r)) = Inr r"
    by (cases r) (simp add: CodeChangeRecord_to_dict_def CodeChangeRecord_from_dict_def wf_CodeChangeRecord_def codec_simps)
qed

lemmas ch_codec_facts [codec_simps] =
  ch_codec.round_trip ch_codec.list_round_trip

section \<open>The active task\<close>

definition ActiveTaskState_to_dict :: "ActiveTaskState \<Rightarrow> pydict" where
  "ActiveTaskState_to_dict r =
    [
      (''schema_version'', PInt (as_schema_version r)),
      (''object_type'', PStr (as_object_type r)),
      (''file_version'', PStr (as_file_version r)),
      (''task_id'', PStr (as_task_id r)),
      (''activated_at'', PStr (as_activated_at r)),
      (''activated_by'', PDict (ActorRef_to_dict (as_activated_by r))),
      (''reason'', opt_str (as_reason r)),
      (''previous_task_id'', opt_str (as_previous_task_id r))]"

definition ActiveTaskState_from_dict :: "string \<Rightarrow> pyval \<Rightarrow> error + ActiveTaskState" where
  "ActiveTaskState_from_dict now v =
   (case as_dict v of None \<Rightarrow> Inl (launch_error ''expected mapping'') | Some d \<Rightarrow>
    bindR (require_contract d ''active_task'') (\<lambda>_.
    bindR (string_value d ''task_id'') (\<lambda>v_task_id.
    bindR (ActorRef_from_dict now (dget d ''activated_by'')) (\<lambda>v_activated_by.
    bindR (int_value d ''schema_version'') (\<lambda>v_schema_version.
    bindR (string_value d ''object_type'') (\<lambda>v_object_type.
    Inr \<lparr>as_task_id = v_task_id,
      as_activated_at = str_or (optional_string (dget d ''activated_at'')) now,
      as_activated_by = v_activated_by,
      as_reason = optional_string (dget d ''reason''),
      as_previous_task_id = optional_string (dget d ''previous_task_id''),
      as_schema_version = v_schema_version,
      as_object_type = v_object_type,
      as_file_version = str_or (optional_string (dget d ''file_version'')) TASKLEDGER_V2_FILE_VERSION\<rparr>))))))"

definition wf_ActiveTaskState :: "ActiveTaskState \<Rightarrow> bool" where
  "wf_ActiveTaskState r \<longleftrightarrow>
     as_task_id r \<noteq> [] \<and>
     as_activated_at r \<noteq> [] \<and>
     wf_ActorRef (as_activated_by r) \<and>
     as_schema_version r \<le> TASKLEDGER_SCHEMA_VERSION \<and>
     as_object_type r = ''active_task'' \<and>
     as_file_version r = TASKLEDGER_V2_FILE_VERSION"

interpretation as_codec: value_codec wf_ActiveTaskState ActiveTaskState_to_dict ActiveTaskState_from_dict
proof
  fix r now
  assume "wf_ActiveTaskState r"
  then show "ActiveTaskState_from_dict now (PDict (untuple_dict (ActiveTaskState_to_dict r))) = Inr r"
    by (cases r) (simp add: ActiveTaskState_to_dict_def ActiveTaskState_from_dict_def wf_ActiveTaskState_def codec_simps)
qed (simp add: ActiveTaskState_to_dict_def)

lemmas as_codec_facts [codec_simps] =
  as_codec.round_trip as_codec.list_round_trip
  as_codec.option_round_trip as_codec.truthy_round_trip

end
