(* ===== verification/SideRecords.thy ===== *)
theory SideRecords
  imports CodecRecords
begin

text \<open>
  The remaining records of \<open>taskledger/domain\<close>: implementation checks (\<open>check.py\<close>), code reviews
  (\<open>review.py\<close>), releases (\<open>release.py\<close>), introductions (\<open>task.py\<close>), events (\<open>event.py\<close>), the
  stored actor and harness (\<open>active_state.py\<close>) and the agent command log (\<open>change.py\<close>), with their
  \<open>to_dict\<close> and \<open>from_dict\<close>, each an interpretation of \<open>record_codec\<close> or \<open>value_codec\<close>.
\<close>

section \<open>Enumerations\<close>

datatype ReviewResult = RR_pass | RR_fail | RR_blocked

definition review_result_names :: "(ReviewResult \<times> string) list" where
  "review_result_names = [(RR_pass, ''pass''), (RR_fail, ''fail''), (RR_blocked, ''blocked'')]"

datatype ReviewSource = RV_working_tree | RV_commit | RV_manual

definition review_source_names :: "(ReviewSource \<times> string) list" where
  "review_source_names = [(RV_working_tree, ''working_tree''), (RV_commit, ''commit''), (RV_manual, ''manual'')]"

datatype ImplementationCheckStatus = IC_passed | IC_failed | IC_unknown

definition impl_check_status_names :: "(ImplementationCheckStatus \<times> string) list" where
  "impl_check_status_names = [(IC_passed, ''passed''), (IC_failed, ''failed''), (IC_unknown, ''unknown'')]"

datatype CheckCategory = CC_test | CC_lint | CC_format | CC_typecheck | CC_build | CC_security | CC_other

definition check_category_names :: "(CheckCategory \<times> string) list" where
  "check_category_names = [(CC_test, ''test''), (CC_lint, ''lint''), (CC_format, ''format''), (CC_typecheck, ''typecheck''), (CC_build, ''build''), (CC_security, ''security''), (CC_other, ''other'')]"

datatype CommandKind = CK_taskledger_cli | CK_managed_shell

definition command_kind_names :: "(CommandKind \<times> string) list" where
  "command_kind_names = [(CK_taskledger_cli, ''taskledger_cli''), (CK_managed_shell, ''managed_shell'')]"

datatype CommandStatus = CM_succeeded | CM_failed | CM_unknown

definition command_status_names :: "(CommandStatus \<times> string) list" where
  "command_status_names = [(CM_succeeded, ''succeeded''), (CM_failed, ''failed''), (CM_unknown, ''unknown'')]"

lemmas side_tables = review_result_names_def review_source_names_def impl_check_status_names_def check_category_names_def command_kind_names_def command_status_names_def

interpretation review_result: enumeration review_result_names "normalize_enum review_result_names tag"
  by unfold_locales (use ReviewResult.nchotomy in \<open>auto simp: side_tables normalize_enum_def\<close>)

interpretation review_source: enumeration review_source_names "normalize_enum review_source_names tag"
  by unfold_locales (use ReviewSource.nchotomy in \<open>auto simp: side_tables normalize_enum_def\<close>)

interpretation impl_check_status: enumeration impl_check_status_names "normalize_enum impl_check_status_names tag"
  by unfold_locales (use ImplementationCheckStatus.nchotomy in \<open>auto simp: side_tables normalize_enum_def\<close>)

interpretation check_category: enumeration check_category_names "normalize_enum check_category_names tag"
  by unfold_locales (use CheckCategory.nchotomy in \<open>auto simp: side_tables normalize_enum_def\<close>)

interpretation command_kind: enumeration command_kind_names "normalize_enum command_kind_names tag"
  by unfold_locales (use CommandKind.nchotomy in \<open>auto simp: side_tables normalize_enum_def\<close>)

interpretation command_status: enumeration command_status_names "normalize_enum command_status_names tag"
  by unfold_locales (use CommandStatus.nchotomy in \<open>auto simp: side_tables normalize_enum_def\<close>)

lemmas side_names [codec_simps] =
  review_result.normalize_name review_source.normalize_name impl_check_status.normalize_name check_category.normalize_name command_kind.normalize_name command_status.normalize_name

lemma side_name_nonempty [codec_simps]:
  "enum_name review_result_names x0 \<noteq> []"
  "enum_name review_source_names x1 \<noteq> []"
  "enum_name impl_check_status_names x2 \<noteq> []"
  "enum_name check_category_names x3 \<noteq> []"
  "enum_name command_kind_names x4 \<noteq> []"
  "enum_name command_status_names x5 \<noteq> []"
  by (intro review_result.name_nonempty review_source.name_nonempty impl_check_status.name_nonempty check_category.name_nonempty command_kind.name_nonempty command_status.name_nonempty;
      simp add: side_tables)+

section \<open>The dataclasses\<close>

record ImplementationCheckRecord =
  ic_check_id :: string
  ic_task_id :: string
  ic_implementation_run :: string
  ic_timestamp :: string
  ic_command :: string
  ic_argv :: "string list"
  ic_exit_code :: "int option"
  ic_status :: ImplementationCheckStatus
  ic_category :: CheckCategory
  ic_summary :: "string option"
  ic_stdout_ref :: "string option"
  ic_stderr_ref :: "string option"
  ic_combined_ref :: "string option"
  ic_file_version :: string
  ic_schema_version :: int
  ic_object_type :: string

record CodeReviewRecord =
  cv_review_id :: string
  cv_task_id :: string
  cv_implementation_run :: "string option"
  cv_reviewed_at :: string
  cv_result :: ReviewResult
  cv_source :: ReviewSource
  cv_body :: string
  cv_summary :: "string option"
  cv_reviewer :: ActorRef
  cv_harness :: "HarnessRef option"
  cv_worker_step_id :: "string option"
  cv_handoff_id :: "string option"
  cv_git_branch :: "string option"
  cv_git_commit :: "string option"
  cv_git_status_short :: "string option"
  cv_git_diff_stat :: "string option"
  cv_git_staged_diff_stat :: "string option"
  cv_git_changed_paths :: "string list"
  cv_git_diff_hash :: "string option"
  cv_artifact_refs :: "string list"
  cv_file_version :: string
  cv_schema_version :: int
  cv_object_type :: string

record ReleaseRecord =
  rl_version :: string
  rl_boundary_task_id :: string
  rl_created_at :: string
  rl_created_by :: ActorRef
  rl_note :: "string option"
  rl_task_count :: "int option"
  rl_previous_version :: "string option"
  rl_file_version :: string
  rl_schema_version :: int
  rl_object_type :: string

record IntroductionRecord =
  in_id :: string
  in_slug :: string
  in_title :: string
  in_body :: string
  in_created_at :: string
  in_updated_at :: string
  in_labels :: "string list"
  in_file_version :: string
  in_schema_version :: int
  in_object_type :: string

record TaskEvent =
  ev_ts :: string
  ev_event :: string
  ev_task_id :: string
  ev_actor :: ActorRef
  ev_harness :: "HarnessRef option"
  ev_event_id :: string
  ev_data :: pydict
  ev_file_version :: string
  ev_schema_version :: int
  ev_object_type :: string

record ActiveActorState =
  xa_actor_type :: ActorType
  xa_actor_name :: string
  xa_role :: "ActorRole option"
  xa_tool :: "string option"
  xa_session_id :: "string option"
  xa_schema_version :: int
  xa_object_type :: string
  xa_file_version :: string

record ActiveHarnessState =
  xh_name :: string
  xh_kind :: HarnessKind
  xh_session_id :: "string option"
  xh_schema_version :: int
  xh_object_type :: string
  xh_file_version :: string

record AgentCommandLogRecord =
  al_log_id :: string
  al_ledger_ref :: string
  al_started_at :: string
  al_finished_at :: string
  al_duration_ms :: int
  al_command_kind :: CommandKind
  al_argv :: "string list"
  al_command_line :: string
  al_cwd :: string
  al_exit_code :: "int option"
  al_status :: CommandStatus
  al_task_id :: "string option"
  al_run_id :: "string option"
  al_run_type :: "string option"
  al_active_stage :: "string option"
  al_actor :: "ActorRef option"
  al_harness :: "HarnessRef option"
  al_json_output :: bool
  al_operation_name :: "string option"
  al_visible_stdout_ref :: "string option"
  al_visible_stderr_ref :: "string option"
  al_visible_combined_ref :: "string option"
  al_visible_stdout_excerpt :: "string option"
  al_visible_stderr_excerpt :: "string option"
  al_visible_combined_excerpt :: "string option"
  al_managed_stdout_ref :: "string option"
  al_managed_stderr_ref :: "string option"
  al_managed_combined_ref :: "string option"
  al_managed_command_exit_code :: "int option"
  al_payload_ref :: "string option"
  al_payload_kind :: "string option"
  al_error_code :: "string option"
  al_error_summary :: "string option"
  al_redactions_applied :: "string list"
  al_file_version :: string
  al_schema_version :: int
  al_object_type :: string

text \<open>The command line of a log entry: the stored one or the joined arguments, not blank.\<close>

definition command_line_value :: "pydict \<Rightarrow> error + string" where
  "command_line_value d =
     (let line = strip (str_or (optional_string (dget d ''command_line''))
            (join '' '' (string_tuple (dget d ''argv''))))
      in if line = [] then Inl (launch_error ''command line'') else Inr line)"

lemma command_line_read [codec_simps]:
  "dget d ''command_line'' = PStr s \<Longrightarrow> s \<noteq> [] \<Longrightarrow> strip s = s \<Longrightarrow> command_line_value d = Inr s"
  by (simp add: command_line_value_def)

section \<open>Implementation checks\<close>

definition ImplementationCheckRecord_to_dict :: "ImplementationCheckRecord \<Rightarrow> pydict" where
  "ImplementationCheckRecord_to_dict r =
    [
      (''schema_version'', PInt (ic_schema_version r)),
      (''object_type'', PStr (ic_object_type r)),
      (''file_version'', PStr (ic_file_version r)),
      (''check_id'', PStr (ic_check_id r)),
      (''task_id'', PStr (ic_task_id r)),
      (''implementation_run'', PStr (ic_implementation_run r)),
      (''timestamp'', PStr (ic_timestamp r)),
      (''command'', PStr (ic_command r)),
      (''argv'', str_list (ic_argv r)),
      (''exit_code'', opt_int (ic_exit_code r)),
      (''status'', PStr (enum_name impl_check_status_names (ic_status r))),
      (''category'', PStr (enum_name check_category_names (ic_category r))),
      (''summary'', opt_str (ic_summary r)),
      (''stdout_ref'', opt_str (ic_stdout_ref r)),
      (''stderr_ref'', opt_str (ic_stderr_ref r)),
      (''combined_ref'', opt_str (ic_combined_ref r))]"

definition ImplementationCheckRecord_from_dict :: "string \<Rightarrow> pydict \<Rightarrow> error + ImplementationCheckRecord" where
  "ImplementationCheckRecord_from_dict now d =
    bindR (require_contract d ''implementation_check'') (\<lambda>_.
    bindR ((normalize_enum impl_check_status_names ''check status'') (str_or (optional_string (dget d ''status'')) ''unknown'')) (\<lambda>v_status.
    bindR ((normalize_enum check_category_names ''check category'') (str_or (optional_string (dget d ''category'')) ''other'')) (\<lambda>v_category.
    bindR (string_value d ''check_id'') (\<lambda>v_check_id.
    bindR (string_value d ''task_id'') (\<lambda>v_task_id.
    bindR (string_value d ''implementation_run'') (\<lambda>v_implementation_run.
    bindR (string_value d ''command'') (\<lambda>v_command.
    bindR (int_value d ''schema_version'') (\<lambda>v_schema_version.
    bindR (string_value d ''object_type'') (\<lambda>v_object_type.
    Inr \<lparr>ic_check_id = v_check_id,
      ic_task_id = v_task_id,
      ic_implementation_run = v_implementation_run,
      ic_timestamp = str_or (optional_string (dget d ''timestamp'')) now,
      ic_command = v_command,
      ic_argv = string_tuple (dget d ''argv''),
      ic_exit_code = optional_int (dget d ''exit_code''),
      ic_status = v_status,
      ic_category = v_category,
      ic_summary = optional_string (dget d ''summary''),
      ic_stdout_ref = optional_string (dget d ''stdout_ref''),
      ic_stderr_ref = optional_string (dget d ''stderr_ref''),
      ic_combined_ref = optional_string (dget d ''combined_ref''),
      ic_file_version = str_or (optional_string (dget d ''file_version'')) TASKLEDGER_V2_FILE_VERSION,
      ic_schema_version = v_schema_version,
      ic_object_type = v_object_type\<rparr>)))))))))"

definition wf_ImplementationCheckRecord :: "ImplementationCheckRecord \<Rightarrow> bool" where
  "wf_ImplementationCheckRecord r \<longleftrightarrow>
     ic_check_id r \<noteq> [] \<and>
     ic_task_id r \<noteq> [] \<and>
     ic_implementation_run r \<noteq> [] \<and>
     ic_timestamp r \<noteq> [] \<and>
     ic_command r \<noteq> [] \<and>
     ic_file_version r = TASKLEDGER_V2_FILE_VERSION \<and>
     ic_schema_version r \<le> TASKLEDGER_SCHEMA_VERSION \<and>
     ic_object_type r = ''implementation_check''"

interpretation ic_codec: record_codec wf_ImplementationCheckRecord ImplementationCheckRecord_to_dict ImplementationCheckRecord_from_dict
proof
  fix r now
  assume "wf_ImplementationCheckRecord r"
  then show "ImplementationCheckRecord_from_dict now (untuple_dict (ImplementationCheckRecord_to_dict r)) = Inr r"
    by (cases r) (simp add: ImplementationCheckRecord_to_dict_def ImplementationCheckRecord_from_dict_def wf_ImplementationCheckRecord_def codec_simps)
qed

lemmas ic_codec_facts [codec_simps] =
  ic_codec.round_trip ic_codec.list_round_trip

section \<open>Code reviews\<close>

definition CodeReviewRecord_to_dict :: "CodeReviewRecord \<Rightarrow> pydict" where
  "CodeReviewRecord_to_dict r =
    [
      (''schema_version'', PInt (cv_schema_version r)),
      (''object_type'', PStr (cv_object_type r)),
      (''file_version'', PStr (cv_file_version r)),
      (''review_id'', PStr (cv_review_id r)),
      (''task_id'', PStr (cv_task_id r)),
      (''implementation_run'', opt_str (cv_implementation_run r)),
      (''reviewed_at'', PStr (cv_reviewed_at r)),
      (''result'', PStr (enum_name review_result_names (cv_result r))),
      (''source'', PStr (enum_name review_source_names (cv_source r))),
      (''summary'', opt_str (cv_summary r)),
      (''body'', PStr (cv_body r)),
      (''reviewer'', PDict (ActorRef_to_dict (cv_reviewer r))),
      (''harness'', opt_rec (\<lambda>x. PDict (HarnessRef_to_dict x)) (cv_harness r)),
      (''worker_step_id'', opt_str (cv_worker_step_id r)),
      (''handoff_id'', opt_str (cv_handoff_id r)),
      (''git_branch'', opt_str (cv_git_branch r)),
      (''git_commit'', opt_str (cv_git_commit r)),
      (''git_status_short'', opt_str (cv_git_status_short r)),
      (''git_diff_stat'', opt_str (cv_git_diff_stat r)),
      (''git_staged_diff_stat'', opt_str (cv_git_staged_diff_stat r)),
      (''git_changed_paths'', str_list (cv_git_changed_paths r)),
      (''git_diff_hash'', opt_str (cv_git_diff_hash r)),
      (''artifact_refs'', str_list (cv_artifact_refs r))]"

definition CodeReviewRecord_from_dict :: "string \<Rightarrow> pydict \<Rightarrow> error + CodeReviewRecord" where
  "CodeReviewRecord_from_dict now d =
    bindR (require_contract d ''code_review'') (\<lambda>_.
    bindR ((normalize_enum review_result_names ''review result'') (str_or (optional_string (dget d ''result'')) ''blocked'')) (\<lambda>v_result.
    bindR ((normalize_enum review_source_names ''review source'') (str_or (optional_string (dget d ''source'')) ''manual'')) (\<lambda>v_source.
    bindR (string_value d ''review_id'') (\<lambda>v_review_id.
    bindR (string_value d ''task_id'') (\<lambda>v_task_id.
    bindR (ActorRef_from_dict now (dget d ''reviewer'')) (\<lambda>v_reviewer.
    bindR (opt_read (dget d ''harness'' \<noteq> PNone) (HarnessRef_from_dict now (dget d ''harness''))) (\<lambda>v_harness.
    bindR (int_value d ''schema_version'') (\<lambda>v_schema_version.
    bindR (string_value d ''object_type'') (\<lambda>v_object_type.
    Inr \<lparr>cv_review_id = v_review_id,
      cv_task_id = v_task_id,
      cv_implementation_run = optional_string (dget d ''implementation_run''),
      cv_reviewed_at = str_or (optional_string (dget d ''reviewed_at'')) now,
      cv_result = v_result,
      cv_source = v_source,
      cv_body = str_or (optional_string (dget d ''body'')) [],
      cv_summary = optional_string (dget d ''summary''),
      cv_reviewer = v_reviewer,
      cv_harness = v_harness,
      cv_worker_step_id = optional_string (dget d ''worker_step_id''),
      cv_handoff_id = optional_string (dget d ''handoff_id''),
      cv_git_branch = optional_string (dget d ''git_branch''),
      cv_git_commit = optional_string (dget d ''git_commit''),
      cv_git_status_short = optional_string (dget d ''git_status_short''),
      cv_git_diff_stat = optional_string (dget d ''git_diff_stat''),
      cv_git_staged_diff_stat = optional_string (dget d ''git_staged_diff_stat''),
      cv_git_changed_paths = string_tuple (dget d ''git_changed_paths''),
      cv_git_diff_hash = optional_string (dget d ''git_diff_hash''),
      cv_artifact_refs = string_tuple (dget d ''artifact_refs''),
      cv_file_version = str_or (optional_string (dget d ''file_version'')) TASKLEDGER_V2_FILE_VERSION,
      cv_schema_version = v_schema_version,
      cv_object_type = v_object_type\<rparr>)))))))))"

definition wf_CodeReviewRecord :: "CodeReviewRecord \<Rightarrow> bool" where
  "wf_CodeReviewRecord r \<longleftrightarrow>
     cv_review_id r \<noteq> [] \<and>
     cv_task_id r \<noteq> [] \<and>
     cv_reviewed_at r \<noteq> [] \<and>
     wf_ActorRef (cv_reviewer r) \<and>
     pred_option wf_HarnessRef (cv_harness r) \<and>
     cv_file_version r = TASKLEDGER_V2_FILE_VERSION \<and>
     cv_schema_version r \<le> TASKLEDGER_SCHEMA_VERSION \<and>
     cv_object_type r = ''code_review''"

interpretation cv_codec: record_codec wf_CodeReviewRecord CodeReviewRecord_to_dict CodeReviewRecord_from_dict
proof
  fix r now
  assume "wf_CodeReviewRecord r"
  then show "CodeReviewRecord_from_dict now (untuple_dict (CodeReviewRecord_to_dict r)) = Inr r"
    by (cases r) (simp add: CodeReviewRecord_to_dict_def CodeReviewRecord_from_dict_def wf_CodeReviewRecord_def codec_simps)
qed

lemmas cv_codec_facts [codec_simps] =
  cv_codec.round_trip cv_codec.list_round_trip

section \<open>Releases\<close>

definition ReleaseRecord_to_dict :: "ReleaseRecord \<Rightarrow> pydict" where
  "ReleaseRecord_to_dict r =
    [
      (''schema_version'', PInt (rl_schema_version r)),
      (''object_type'', PStr (rl_object_type r)),
      (''file_version'', PStr (rl_file_version r)),
      (''version'', PStr (rl_version r)),
      (''boundary_task_id'', PStr (rl_boundary_task_id r)),
      (''created_at'', PStr (rl_created_at r)),
      (''created_by'', PDict (ActorRef_to_dict (rl_created_by r))),
      (''note'', opt_str (rl_note r)),
      (''task_count'', opt_int (rl_task_count r)),
      (''previous_version'', opt_str (rl_previous_version r))]"

definition ReleaseRecord_from_dict :: "string \<Rightarrow> pydict \<Rightarrow> error + ReleaseRecord" where
  "ReleaseRecord_from_dict now d =
    bindR (require_contract d ''release'') (\<lambda>_.
    bindR (string_value d ''version'') (\<lambda>v_version.
    bindR (string_value d ''boundary_task_id'') (\<lambda>v_boundary_task_id.
    bindR (ActorRef_from_dict now (dget d ''created_by'')) (\<lambda>v_created_by.
    bindR (int_value d ''schema_version'') (\<lambda>v_schema_version.
    bindR (string_value d ''object_type'') (\<lambda>v_object_type.
    Inr \<lparr>rl_version = v_version,
      rl_boundary_task_id = v_boundary_task_id,
      rl_created_at = str_or (optional_string (dget d ''created_at'')) now,
      rl_created_by = v_created_by,
      rl_note = optional_string (dget d ''note''),
      rl_task_count = optional_int (dget d ''task_count''),
      rl_previous_version = optional_string (dget d ''previous_version''),
      rl_file_version = str_or (optional_string (dget d ''file_version'')) TASKLEDGER_V2_FILE_VERSION,
      rl_schema_version = v_schema_version,
      rl_object_type = v_object_type\<rparr>))))))"

definition wf_ReleaseRecord :: "ReleaseRecord \<Rightarrow> bool" where
  "wf_ReleaseRecord r \<longleftrightarrow>
     rl_version r \<noteq> [] \<and>
     rl_boundary_task_id r \<noteq> [] \<and>
     rl_created_at r \<noteq> [] \<and>
     wf_ActorRef (rl_created_by r) \<and>
     rl_file_version r = TASKLEDGER_V2_FILE_VERSION \<and>
     rl_schema_version r \<le> TASKLEDGER_SCHEMA_VERSION \<and>
     rl_object_type r = ''release''"

interpretation rl_codec: record_codec wf_ReleaseRecord ReleaseRecord_to_dict ReleaseRecord_from_dict
proof
  fix r now
  assume "wf_ReleaseRecord r"
  then show "ReleaseRecord_from_dict now (untuple_dict (ReleaseRecord_to_dict r)) = Inr r"
    by (cases r) (simp add: ReleaseRecord_to_dict_def ReleaseRecord_from_dict_def wf_ReleaseRecord_def codec_simps)
qed

lemmas rl_codec_facts [codec_simps] =
  rl_codec.round_trip rl_codec.list_round_trip

section \<open>Introductions\<close>

definition IntroductionRecord_to_dict :: "IntroductionRecord \<Rightarrow> pydict" where
  "IntroductionRecord_to_dict r =
    [
      (''schema_version'', PInt (in_schema_version r)),
      (''object_type'', PStr (in_object_type r)),
      (''file_version'', PStr (in_file_version r)),
      (''id'', PStr (in_id r)),
      (''slug'', PStr (in_slug r)),
      (''title'', PStr (in_title r)),
      (''created_at'', PStr (in_created_at r)),
      (''updated_at'', PStr (in_updated_at r)),
      (''labels'', str_list (in_labels r)),
      (''body'', PStr (in_body r))]"

definition IntroductionRecord_from_dict :: "string \<Rightarrow> pydict \<Rightarrow> error + IntroductionRecord" where
  "IntroductionRecord_from_dict now d =
    bindR (require_contract d ''intro'') (\<lambda>_.
    bindR (string_value d ''id'') (\<lambda>v_id.
    bindR (string_value d ''slug'') (\<lambda>v_slug.
    bindR (string_value d ''title'') (\<lambda>v_title.
    bindR (int_value d ''schema_version'') (\<lambda>v_schema_version.
    bindR (string_value d ''object_type'') (\<lambda>v_object_type.
    Inr \<lparr>in_id = v_id,
      in_slug = v_slug,
      in_title = v_title,
      in_body = str_or (optional_string (dget d ''body'')) [],
      in_created_at = str_or (optional_string (dget d ''created_at'')) now,
      in_updated_at = str_or (optional_string (dget d ''updated_at'')) now,
      in_labels = string_tuple (dget d ''labels''),
      in_file_version = str_or (optional_string (dget d ''file_version'')) TASKLEDGER_V2_FILE_VERSION,
      in_schema_version = v_schema_version,
      in_object_type = v_object_type\<rparr>))))))"

definition wf_IntroductionRecord :: "IntroductionRecord \<Rightarrow> bool" where
  "wf_IntroductionRecord r \<longleftrightarrow>
     in_id r \<noteq> [] \<and>
     in_slug r \<noteq> [] \<and>
     in_title r \<noteq> [] \<and>
     in_created_at r \<noteq> [] \<and>
     in_updated_at r \<noteq> [] \<and>
     in_file_version r = TASKLEDGER_V2_FILE_VERSION \<and>
     in_schema_version r \<le> TASKLEDGER_SCHEMA_VERSION \<and>
     in_object_type r = ''intro''"

interpretation in_codec: record_codec wf_IntroductionRecord IntroductionRecord_to_dict IntroductionRecord_from_dict
proof
  fix r now
  assume "wf_IntroductionRecord r"
  then show "IntroductionRecord_from_dict now (untuple_dict (IntroductionRecord_to_dict r)) = Inr r"
    by (cases r) (simp add: IntroductionRecord_to_dict_def IntroductionRecord_from_dict_def wf_IntroductionRecord_def codec_simps)
qed

lemmas in_codec_facts [codec_simps] =
  in_codec.round_trip in_codec.list_round_trip

section \<open>Events\<close>

definition TaskEvent_to_dict :: "TaskEvent \<Rightarrow> pydict" where
  "TaskEvent_to_dict r =
    [
      (''schema_version'', PInt (ev_schema_version r)),
      (''object_type'', PStr (ev_object_type r)),
      (''file_version'', PStr (ev_file_version r)),
      (''event_id'', PStr (ev_event_id r)),
      (''ts'', PStr (ev_ts r)),
      (''event'', PStr (ev_event r)),
      (''task_id'', PStr (ev_task_id r)),
      (''actor'', PDict (ActorRef_to_dict (ev_actor r))),
      (''harness'', opt_rec (\<lambda>x. PDict (HarnessRef_to_dict x)) (ev_harness r)),
      (''data'', PDict (ev_data r))]"

definition TaskEvent_from_dict :: "string \<Rightarrow> pydict \<Rightarrow> error + TaskEvent" where
  "TaskEvent_from_dict now d =
    bindR (require_contract d ''event'') (\<lambda>_.
    bindR (string_value d ''event_id'') (\<lambda>v_event_id.
    bindR (string_value d ''ts'') (\<lambda>v_ts.
    bindR (string_value d ''event'') (\<lambda>v_event.
    bindR (string_value d ''task_id'') (\<lambda>v_task_id.
    bindR (ActorRef_from_dict now (dget d ''actor'')) (\<lambda>v_actor.
    bindR (opt_read (dget d ''harness'' \<noteq> PNone) (HarnessRef_from_dict now (dget d ''harness''))) (\<lambda>v_harness.
    bindR (int_value d ''schema_version'') (\<lambda>v_schema_version.
    bindR (string_value d ''object_type'') (\<lambda>v_object_type.
    Inr \<lparr>ev_ts = v_ts,
      ev_event = v_event,
      ev_task_id = v_task_id,
      ev_actor = v_actor,
      ev_harness = v_harness,
      ev_event_id = v_event_id,
      ev_data = (case as_dict (dget d ''data'') of Some p \<Rightarrow> p | None \<Rightarrow> []),
      ev_file_version = str_or (optional_string (dget d ''file_version'')) TASKLEDGER_V2_FILE_VERSION,
      ev_schema_version = v_schema_version,
      ev_object_type = v_object_type\<rparr>)))))))))"

definition wf_TaskEvent :: "TaskEvent \<Rightarrow> bool" where
  "wf_TaskEvent r \<longleftrightarrow>
     ev_ts r \<noteq> [] \<and>
     ev_event r \<noteq> [] \<and>
     ev_task_id r \<noteq> [] \<and>
     wf_ActorRef (ev_actor r) \<and>
     pred_option wf_HarnessRef (ev_harness r) \<and>
     ev_event_id r \<noteq> [] \<and>
     ev_file_version r = TASKLEDGER_V2_FILE_VERSION \<and>
     ev_schema_version r \<le> TASKLEDGER_SCHEMA_VERSION \<and>
     ev_object_type r = ''event'' \<and>
     untuple_dict (ev_data r) = ev_data r"

interpretation ev_codec: record_codec wf_TaskEvent TaskEvent_to_dict TaskEvent_from_dict
proof
  fix r now
  assume "wf_TaskEvent r"
  then show "TaskEvent_from_dict now (untuple_dict (TaskEvent_to_dict r)) = Inr r"
    by (cases r) (simp add: TaskEvent_to_dict_def TaskEvent_from_dict_def wf_TaskEvent_def codec_simps)
qed

lemmas ev_codec_facts [codec_simps] =
  ev_codec.round_trip ev_codec.list_round_trip

section \<open>The stored actor and harness\<close>

definition ActiveActorState_to_dict :: "ActiveActorState \<Rightarrow> pydict" where
  "ActiveActorState_to_dict r =
    [
      (''schema_version'', PInt (xa_schema_version r)),
      (''object_type'', PStr (xa_object_type r)),
      (''file_version'', PStr (xa_file_version r)),
      (''actor_type'', PStr (enum_name actor_type_names (xa_actor_type r))),
      (''actor_name'', PStr (xa_actor_name r)),
      (''role'', opt_enum actor_role_names (xa_role r)),
      (''tool'', opt_str (xa_tool r)),
      (''session_id'', opt_str (xa_session_id r))]"

definition ActiveActorState_from_dict :: "string \<Rightarrow> pyval \<Rightarrow> error + ActiveActorState" where
  "ActiveActorState_from_dict now v =
   (case as_dict v of None \<Rightarrow> Inl (launch_error ''expected mapping'') | Some d \<Rightarrow>
    bindR (require_contract d ''active_actor'') (\<lambda>_.
    bindR (normalize_actor_type (str_or (optional_string (dget d ''actor_type'')) ''agent'')) (\<lambda>v_actor_type.
    bindR (opt_normalize normalize_actor_role (optional_string (dget d ''role''))) (\<lambda>v_role.
    bindR (int_value d ''schema_version'') (\<lambda>v_schema_version.
    bindR (string_value d ''object_type'') (\<lambda>v_object_type.
    Inr \<lparr>xa_actor_type = v_actor_type,
      xa_actor_name = str_or (optional_string (dget d ''actor_name'')) ''taskledger'',
      xa_role = v_role,
      xa_tool = optional_string (dget d ''tool''),
      xa_session_id = optional_string (dget d ''session_id''),
      xa_schema_version = v_schema_version,
      xa_object_type = v_object_type,
      xa_file_version = str_or (optional_string (dget d ''file_version'')) TASKLEDGER_V2_FILE_VERSION\<rparr>))))))"

definition wf_ActiveActorState :: "ActiveActorState \<Rightarrow> bool" where
  "wf_ActiveActorState r \<longleftrightarrow>
     xa_actor_name r \<noteq> [] \<and>
     xa_schema_version r \<le> TASKLEDGER_SCHEMA_VERSION \<and>
     xa_object_type r = ''active_actor'' \<and>
     xa_file_version r = TASKLEDGER_V2_FILE_VERSION"

interpretation xa_codec: value_codec wf_ActiveActorState ActiveActorState_to_dict ActiveActorState_from_dict
proof
  fix r now
  assume "wf_ActiveActorState r"
  then show "ActiveActorState_from_dict now (PDict (untuple_dict (ActiveActorState_to_dict r))) = Inr r"
    by (cases r) (simp add: ActiveActorState_to_dict_def ActiveActorState_from_dict_def wf_ActiveActorState_def codec_simps)
qed (simp add: ActiveActorState_to_dict_def)

lemmas xa_codec_facts [codec_simps] =
  xa_codec.round_trip xa_codec.list_round_trip
  xa_codec.option_round_trip xa_codec.truthy_round_trip

definition ActiveHarnessState_to_dict :: "ActiveHarnessState \<Rightarrow> pydict" where
  "ActiveHarnessState_to_dict r =
    [
      (''schema_version'', PInt (xh_schema_version r)),
      (''object_type'', PStr (xh_object_type r)),
      (''file_version'', PStr (xh_file_version r)),
      (''name'', PStr (xh_name r)),
      (''kind'', PStr (enum_name harness_kind_names (xh_kind r))),
      (''session_id'', opt_str (xh_session_id r))]"

definition ActiveHarnessState_from_dict :: "string \<Rightarrow> pyval \<Rightarrow> error + ActiveHarnessState" where
  "ActiveHarnessState_from_dict now v =
   (case as_dict v of None \<Rightarrow> Inl (launch_error ''expected mapping'') | Some d \<Rightarrow>
    bindR (require_contract d ''active_harness'') (\<lambda>_.
    bindR (normalize_harness_kind (str_or (optional_string (dget d ''kind'')) ''unknown'')) (\<lambda>v_kind.
    bindR (int_value d ''schema_version'') (\<lambda>v_schema_version.
    bindR (string_value d ''object_type'') (\<lambda>v_object_type.
    Inr \<lparr>xh_name = str_or (optional_string (dget d ''name'')) ''unknown'',
      xh_kind = v_kind,
      xh_session_id = optional_string (dget d ''session_id''),
      xh_schema_version = v_schema_version,
      xh_object_type = v_object_type,
      xh_file_version = str_or (optional_string (dget d ''file_version'')) TASKLEDGER_V2_FILE_VERSION\<rparr>)))))"

definition wf_ActiveHarnessState :: "ActiveHarnessState \<Rightarrow> bool" where
  "wf_ActiveHarnessState r \<longleftrightarrow>
     xh_name r \<noteq> [] \<and>
     xh_schema_version r \<le> TASKLEDGER_SCHEMA_VERSION \<and>
     xh_object_type r = ''active_harness'' \<and>
     xh_file_version r = TASKLEDGER_V2_FILE_VERSION"

interpretation xh_codec: value_codec wf_ActiveHarnessState ActiveHarnessState_to_dict ActiveHarnessState_from_dict
proof
  fix r now
  assume "wf_ActiveHarnessState r"
  then show "ActiveHarnessState_from_dict now (PDict (untuple_dict (ActiveHarnessState_to_dict r))) = Inr r"
    by (cases r) (simp add: ActiveHarnessState_to_dict_def ActiveHarnessState_from_dict_def wf_ActiveHarnessState_def codec_simps)
qed (simp add: ActiveHarnessState_to_dict_def)

lemmas xh_codec_facts [codec_simps] =
  xh_codec.round_trip xh_codec.list_round_trip
  xh_codec.option_round_trip xh_codec.truthy_round_trip

section \<open>The agent command log\<close>

definition AgentCommandLogRecord_to_dict :: "AgentCommandLogRecord \<Rightarrow> pydict" where
  "AgentCommandLogRecord_to_dict r =
    [
      (''schema_version'', PInt (al_schema_version r)),
      (''object_type'', PStr (al_object_type r)),
      (''file_version'', PStr (al_file_version r)),
      (''log_id'', PStr (al_log_id r)),
      (''ledger_ref'', PStr (al_ledger_ref r)),
      (''started_at'', PStr (al_started_at r)),
      (''finished_at'', PStr (al_finished_at r)),
      (''duration_ms'', PInt (al_duration_ms r)),
      (''command_kind'', PStr (enum_name command_kind_names (al_command_kind r))),
      (''argv'', str_list (al_argv r)),
      (''command_line'', PStr (al_command_line r)),
      (''cwd'', PStr (al_cwd r)),
      (''exit_code'', opt_int (al_exit_code r)),
      (''status'', PStr (enum_name command_status_names (al_status r))),
      (''task_id'', opt_str (al_task_id r)),
      (''run_id'', opt_str (al_run_id r)),
      (''run_type'', opt_str (al_run_type r)),
      (''active_stage'', opt_str (al_active_stage r)),
      (''actor'', opt_rec (\<lambda>x. PDict (ActorRef_to_dict x)) (al_actor r)),
      (''harness'', opt_rec (\<lambda>x. PDict (HarnessRef_to_dict x)) (al_harness r)),
      (''json_output'', PBool (al_json_output r)),
      (''operation_name'', opt_str (al_operation_name r)),
      (''visible_stdout_ref'', opt_str (al_visible_stdout_ref r)),
      (''visible_stderr_ref'', opt_str (al_visible_stderr_ref r)),
      (''visible_combined_ref'', opt_str (al_visible_combined_ref r)),
      (''visible_stdout_excerpt'', opt_str (al_visible_stdout_excerpt r)),
      (''visible_stderr_excerpt'', opt_str (al_visible_stderr_excerpt r)),
      (''visible_combined_excerpt'', opt_str (al_visible_combined_excerpt r)),
      (''managed_stdout_ref'', opt_str (al_managed_stdout_ref r)),
      (''managed_stderr_ref'', opt_str (al_managed_stderr_ref r)),
      (''managed_combined_ref'', opt_str (al_managed_combined_ref r)),
      (''managed_command_exit_code'', opt_int (al_managed_command_exit_code r)),
      (''payload_ref'', opt_str (al_payload_ref r)),
      (''payload_kind'', opt_str (al_payload_kind r)),
      (''error_code'', opt_str (al_error_code r)),
      (''error_summary'', opt_str (al_error_summary r)),
      (''redactions_applied'', str_list (al_redactions_applied r))]"

definition AgentCommandLogRecord_from_dict :: "string \<Rightarrow> pydict \<Rightarrow> error + AgentCommandLogRecord" where
  "AgentCommandLogRecord_from_dict now d =
    bindR (require_contract d ''agent_command_log'') (\<lambda>_.
    bindR (bindR (string_value d ''command_kind'') (normalize_enum command_kind_names ''command kind'')) (\<lambda>v_command_kind.
    bindR ((normalize_enum command_status_names ''command status'') (str_or (optional_string (dget d ''status'')) ''unknown'')) (\<lambda>v_status.
    bindR (command_line_value d) (\<lambda>v_command_line.
    bindR (string_value d ''log_id'') (\<lambda>v_log_id.
    bindR (string_value d ''ledger_ref'') (\<lambda>v_ledger_ref.
    bindR (string_value d ''started_at'') (\<lambda>v_started_at.
    bindR (string_value d ''finished_at'') (\<lambda>v_finished_at.
    bindR (int_value d ''duration_ms'') (\<lambda>v_duration_ms.
    bindR (string_value d ''cwd'') (\<lambda>v_cwd.
    bindR (opt_read (dget d ''actor'' \<noteq> PNone) (ActorRef_from_dict now (dget d ''actor''))) (\<lambda>v_actor.
    bindR (opt_read (dget d ''harness'' \<noteq> PNone) (HarnessRef_from_dict now (dget d ''harness''))) (\<lambda>v_harness.
    bindR (int_value d ''schema_version'') (\<lambda>v_schema_version.
    bindR (string_value d ''object_type'') (\<lambda>v_object_type.
    Inr \<lparr>al_log_id = v_log_id,
      al_ledger_ref = v_ledger_ref,
      al_started_at = v_started_at,
      al_finished_at = v_finished_at,
      al_duration_ms = v_duration_ms,
      al_command_kind = v_command_kind,
      al_argv = string_tuple (dget d ''argv''),
      al_command_line = v_command_line,
      al_cwd = v_cwd,
      al_exit_code = optional_int (dget d ''exit_code''),
      al_status = v_status,
      al_task_id = optional_string (dget d ''task_id''),
      al_run_id = optional_string (dget d ''run_id''),
      al_run_type = optional_string (dget d ''run_type''),
      al_active_stage = optional_string (dget d ''active_stage''),
      al_actor = v_actor,
      al_harness = v_harness,
      al_json_output = truthy (dget d ''json_output''),
      al_operation_name = optional_string (dget d ''operation_name''),
      al_visible_stdout_ref = optional_string (dget d ''visible_stdout_ref''),
      al_visible_stderr_ref = optional_string (dget d ''visible_stderr_ref''),
      al_visible_combined_ref = optional_string (dget d ''visible_combined_ref''),
      al_visible_stdout_excerpt = optional_string (dget d ''visible_stdout_excerpt''),
      al_visible_stderr_excerpt = optional_string (dget d ''visible_stderr_excerpt''),
      al_visible_combined_excerpt = optional_string (dget d ''visible_combined_excerpt''),
      al_managed_stdout_ref = optional_string (dget d ''managed_stdout_ref''),
      al_managed_stderr_ref = optional_string (dget d ''managed_stderr_ref''),
      al_managed_combined_ref = optional_string (dget d ''managed_combined_ref''),
      al_managed_command_exit_code = optional_int (dget d ''managed_command_exit_code''),
      al_payload_ref = optional_string (dget d ''payload_ref''),
      al_payload_kind = optional_string (dget d ''payload_kind''),
      al_error_code = optional_string (dget d ''error_code''),
      al_error_summary = optional_string (dget d ''error_summary''),
      al_redactions_applied = string_tuple (dget d ''redactions_applied''),
      al_file_version = str_or (optional_string (dget d ''file_version'')) TASKLEDGER_V2_FILE_VERSION,
      al_schema_version = v_schema_version,
      al_object_type = v_object_type\<rparr>))))))))))))))"

definition wf_AgentCommandLogRecord :: "AgentCommandLogRecord \<Rightarrow> bool" where
  "wf_AgentCommandLogRecord r \<longleftrightarrow>
     al_log_id r \<noteq> [] \<and>
     al_ledger_ref r \<noteq> [] \<and>
     al_started_at r \<noteq> [] \<and>
     al_finished_at r \<noteq> [] \<and>
     al_cwd r \<noteq> [] \<and>
     pred_option wf_ActorRef (al_actor r) \<and>
     pred_option wf_HarnessRef (al_harness r) \<and>
     al_file_version r = TASKLEDGER_V2_FILE_VERSION \<and>
     al_schema_version r \<le> TASKLEDGER_SCHEMA_VERSION \<and>
     al_object_type r = ''agent_command_log'' \<and>
     al_command_line r \<noteq> [] \<and>
     strip (al_command_line r) = al_command_line r"

interpretation al_codec: record_codec wf_AgentCommandLogRecord AgentCommandLogRecord_to_dict AgentCommandLogRecord_from_dict
proof
  fix r now
  assume "wf_AgentCommandLogRecord r"
  then show "AgentCommandLogRecord_from_dict now (untuple_dict (AgentCommandLogRecord_to_dict r)) = Inr r"
    by (cases r) (simp add: AgentCommandLogRecord_to_dict_def AgentCommandLogRecord_from_dict_def wf_AgentCommandLogRecord_def codec_simps)
qed

lemmas al_codec_facts [codec_simps] =
  al_codec.round_trip al_codec.list_round_trip

end
