(* ===== verification/PipelineConfig.thy ===== *)
theory PipelineConfig
  imports Records
begin

text \<open>
  The worker pipeline of the project configuration (\<open>storage/worker_pipeline_config.py\<close>): the
  checks on the raw table that the TOML reader produced, and its translation into
  \<open>WorkerPipelineConfig\<close>. A table that passes the checks is translated without a raise.
\<close>

section \<open>Constants and data\<close>

definition WORKER_PIPELINE_CONFIG_KEYS :: "string list" where
  "WORKER_PIPELINE_CONFIG_KEYS = [''enabled'', ''name'', ''mode'', ''steps'']"

definition WORKER_STEP_CONFIG_KEYS :: "string list" where
  "WORKER_STEP_CONFIG_KEYS =
     [''id'', ''label'', ''lifecycle_stage'', ''base_context'', ''actor_role'', ''kind'',
      ''description'', ''required_output'', ''must_not'', ''todo_tag'', ''test_command_policy'']"

definition VALID_WORKER_PIPELINE_MODES :: "string list" where
  "VALID_WORKER_PIPELINE_MODES = [''available'', ''template'', ''guided'']"

definition VALID_WORKER_STEP_KINDS :: "string list" where
  "VALID_WORKER_STEP_KINDS = [''plan'', ''todo'', ''check'', ''review'', ''validate'', ''custom'']"

definition VALID_WORKER_TEST_COMMAND_POLICIES :: "string list" where
  "VALID_WORKER_TEST_COMMAND_POLICIES = [''none'', ''may_fail'', ''must_pass'']"

definition VALID_WORKER_BASE_CONTEXTS :: "string list" where
  "VALID_WORKER_BASE_CONTEXTS =
     [''planner'', ''implementer'', ''validator'', ''reviewer'', ''spec-reviewer'',
      ''code-reviewer'', ''full'']"

definition VALID_WORKER_LIFECYCLE_STAGES :: "string list" where
  "VALID_WORKER_LIFECYCLE_STAGES =
     [''planning'', ''implementation'', ''validation'', ''review'', ''full'']"

definition VALID_WORKER_ACTOR_ROLES :: "string list" where
  "VALID_WORKER_ACTOR_ROLES =
     [''planner'', ''implementer'', ''validator'', ''reviewer'', ''operator'']"

record WorkerStepConfig =
  ws_id :: string
  ws_label :: string
  ws_lifecycle_stage :: string
  ws_base_context :: string
  ws_actor_role :: "string option"
  ws_kind :: string
  ws_description :: "string option"
  ws_required_output :: "string list"
  ws_must_not :: "string list"
  ws_todo_tag :: "string option"
  ws_test_command_policy :: string

record WorkerPipelineConfig =
  pc_enabled :: bool
  pc_name :: string
  pc_mode :: string
  pc_steps :: "WorkerStepConfig list"

definition step_ids :: "WorkerPipelineConfig \<Rightarrow> string list" where
  "step_ids p = map ws_id (pc_steps p)"

definition resolve_step :: "WorkerPipelineConfig \<Rightarrow> string \<Rightarrow> error + WorkerStepConfig" where
  "resolve_step p step_id =
     (case find (\<lambda>s. ws_id s = step_id) (pc_steps p) of
        Some s \<Rightarrow> Inr s
      | None \<Rightarrow> Inl (launch_error ''unknown worker step''))"

definition WorkerStepConfig_to_dict :: "WorkerStepConfig \<Rightarrow> pydict" where
  "WorkerStepConfig_to_dict s =
     [(''id'', PStr (ws_id s)), (''label'', PStr (ws_label s)),
      (''lifecycle_stage'', PStr (ws_lifecycle_stage s)),
      (''base_context'', PStr (ws_base_context s)), (''kind'', PStr (ws_kind s)),
      (''required_output'', str_list (ws_required_output s)),
      (''must_not'', str_list (ws_must_not s)),
      (''test_command_policy'', PStr (ws_test_command_policy s))]
     @ opt_entry ''actor_role'' (opt_str (ws_actor_role s))
     @ opt_entry ''description'' (opt_str (ws_description s))
     @ opt_entry ''todo_tag'' (opt_str (ws_todo_tag s))"

definition WorkerPipelineConfig_to_dict :: "WorkerPipelineConfig \<Rightarrow> pydict" where
  "WorkerPipelineConfig_to_dict p =
     [(''enabled'', PBool (pc_enabled p)), (''name'', PStr (pc_name p)),
      (''mode'', PStr (pc_mode p)),
      (''steps'', PList (map (\<lambda>s. PDict (WorkerStepConfig_to_dict s)) (pc_steps p)))]"

section \<open>Checks\<close>

definition check_that :: "bool \<Rightarrow> string \<Rightarrow> error + unit" where
  "check_that b tag = (if b then Inr () else Inl (launch_error tag))"

definition validate_worker_step_unknown_keys :: "pydict \<Rightarrow> error + unit" where
  "validate_worker_step_unknown_keys data =
     check_that (set (map fst data) \<subseteq> set WORKER_STEP_CONFIG_KEYS) ''unknown step keys''"

text \<open>\<open>^[a-z][a-z0-9_-]{0,63}$\<close>\<close>

definition is_lower_char :: "char \<Rightarrow> bool" where
  "is_lower_char c \<longleftrightarrow> (let n = (of_char c :: nat) in 97 \<le> n \<and> n \<le> 122)"

definition WORKER_STEP_ID_RE :: "string \<Rightarrow> bool" where
  "WORKER_STEP_ID_RE s \<longleftrightarrow>
     (case s of
        [] \<Rightarrow> False
      | c # t \<Rightarrow> is_lower_char c \<and> length t \<le> 63 \<and>
          list_all (\<lambda>d. is_lower_char d \<or> is_digit_char d \<or> d = CHR ''_'' \<or> d = CHR ''-'') t)"

definition validate_worker_step_id :: "pydict \<Rightarrow> error + string" where
  "validate_worker_step_id data =
     (case dget data ''id'' of
        PStr s \<Rightarrow>
          if strip s = [] then Inl (launch_error ''step id required'')
          else if \<not> WORKER_STEP_ID_RE s then Inl (launch_error ''step id pattern'')
          else Inr s
      | _ \<Rightarrow> Inl (launch_error ''step id required''))"

definition optional_text_ok :: "pyval \<Rightarrow> bool" where
  "optional_text_ok v \<longleftrightarrow> (case v of PNone \<Rightarrow> True | PStr s \<Rightarrow> strip s \<noteq> [] | _ \<Rightarrow> False)"

definition validate_worker_step_optional_text_fields :: "pydict \<Rightarrow> error + unit" where
  "validate_worker_step_optional_text_fields data =
     check_that (list_all (\<lambda>f. optional_text_ok (dget data f)) [''label'', ''description'', ''todo_tag''])
       ''step text''"

definition validate_worker_step_required_choice ::
  "pydict \<Rightarrow> string \<Rightarrow> string list \<Rightarrow> error + unit" where
  "validate_worker_step_required_choice data field_name valid_values =
     (case dget data field_name of
        PStr s \<Rightarrow> check_that (s \<in> set valid_values) ''step choice''
      | _ \<Rightarrow> Inl (launch_error ''step field required''))"

definition validate_worker_step_optional_choice ::
  "pydict \<Rightarrow> string \<Rightarrow> string list \<Rightarrow> error + unit" where
  "validate_worker_step_optional_choice data field_name valid_values =
     (case dget data field_name of
        PNone \<Rightarrow> Inr ()
      | PStr s \<Rightarrow> check_that (s \<in> set valid_values) ''step choice''
      | _ \<Rightarrow> Inl (launch_error ''step field string''))"

definition validate_worker_step_string_list :: "pydict \<Rightarrow> string \<Rightarrow> error + unit" where
  "validate_worker_step_string_list data field_name =
     (case dget data field_name of
        PNone \<Rightarrow> Inr ()
      | PList vs \<Rightarrow>
          check_that (list_all (\<lambda>v. case v of PStr s \<Rightarrow> strip s \<noteq> [] | _ \<Rightarrow> False) vs) ''step list''
      | _ \<Rightarrow> Inl (launch_error ''step list''))"

definition validate_worker_step :: "pydict \<Rightarrow> error + string" where
  "validate_worker_step data =
     bindR (validate_worker_step_unknown_keys data) (\<lambda>_.
     bindR (validate_worker_step_id data) (\<lambda>step_id.
     bindR (validate_worker_step_optional_text_fields data) (\<lambda>_.
     bindR (validate_worker_step_required_choice data ''lifecycle_stage''
        VALID_WORKER_LIFECYCLE_STAGES) (\<lambda>_.
     bindR (validate_worker_step_required_choice data ''base_context''
        VALID_WORKER_BASE_CONTEXTS) (\<lambda>_.
     bindR (validate_worker_step_optional_choice data ''actor_role''
        VALID_WORKER_ACTOR_ROLES) (\<lambda>_.
     bindR (validate_worker_step_optional_choice data ''kind'' VALID_WORKER_STEP_KINDS) (\<lambda>_.
     bindR (validate_worker_step_optional_choice data ''test_command_policy''
        VALID_WORKER_TEST_COMMAND_POLICIES) (\<lambda>_.
     bindR (validate_worker_step_string_list data ''required_output'') (\<lambda>_.
     bindR (validate_worker_step_string_list data ''must_not'') (\<lambda>_.
     Inr step_id))))))))))"

fun validate_steps :: "string set \<Rightarrow> pydict list \<Rightarrow> error + unit" where
  "validate_steps seen_ids [] = Inr ()"
| "validate_steps seen_ids (step # steps) =
     bindR (validate_worker_step step) (\<lambda>step_id.
     if step_id \<in> seen_ids then Inl (launch_error ''duplicate step'')
     else validate_steps (insert step_id seen_ids) steps)"

definition raw_steps :: "pyval \<Rightarrow> error + pydict list" where
  "raw_steps v =
     (case v of
        PNone \<Rightarrow> Inr []
      | PList vs \<Rightarrow> mapR (\<lambda>x. case x of PDict d \<Rightarrow> Inr d | _ \<Rightarrow> Inl (launch_error ''steps'')) vs
      | _ \<Rightarrow> Inl (launch_error ''steps''))"

definition validate_worker_pipeline :: "pyval \<Rightarrow> error + unit" where
  "validate_worker_pipeline raw =
     (case raw of
        PNone \<Rightarrow> Inr ()
      | PDict d \<Rightarrow>
          bindR (check_that (set (map fst d) \<subseteq> set WORKER_PIPELINE_CONFIG_KEYS) ''unknown keys'') (\<lambda>_.
          bindR (check_that (case dget d ''enabled'' of PNone \<Rightarrow> True | PBool b \<Rightarrow> True | _ \<Rightarrow> False)
            ''enabled'') (\<lambda>_.
          bindR (check_that (optional_text_ok (dget d ''name'')) ''name'') (\<lambda>_.
          bindR (check_that (case dget d ''mode'' of PNone \<Rightarrow> True
              | PStr s \<Rightarrow> s \<in> set VALID_WORKER_PIPELINE_MODES | _ \<Rightarrow> False) ''mode'') (\<lambda>_.
          bindR (raw_steps (dget d ''steps'')) (\<lambda>steps.
          bindR (validate_steps {} steps) (\<lambda>_.
          check_that (truthy (dget d ''enabled'') \<longrightarrow> steps \<noteq> []) ''no steps''))))))
      | _ \<Rightarrow> Inl (launch_error ''table''))"

section \<open>Translation\<close>

definition default_worker_actor_role :: "string \<Rightarrow> string" where
  "default_worker_actor_role base_context =
     (if base_context = ''planner'' then ''planner''
      else if base_context = ''validator'' then ''validator''
      else if base_context = ''full'' then ''operator''
      else if base_context \<in> {''reviewer'', ''spec-reviewer'', ''code-reviewer''} then ''reviewer''
      else ''implementer'')"

definition default_worker_step_label :: "string \<Rightarrow> string" where
  "default_worker_step_label step_id =
     py_title (py_replace ''_'' '' '' (py_replace ''-'' '' '' step_id))"

definition worker_string_tuple :: "pyval \<Rightarrow> string list" where
  "worker_string_tuple raw =
     (case raw of
        PList vs \<Rightarrow> List.map_filter (\<lambda>v. case v of PStr s \<Rightarrow> Some s | _ \<Rightarrow> None) vs
      | _ \<Rightarrow> [])"

definition str_field :: "pydict \<Rightarrow> string \<Rightarrow> string option" where
  "str_field d k = (case dget d k of PStr s \<Rightarrow> Some s | _ \<Rightarrow> None)"

text \<open>\<open>str(raw[key])\<close>\<close>

definition required_item :: "pydict \<Rightarrow> string \<Rightarrow> error + string" where
  "required_item d k =
     (if has_key d k then Inr (py_str (dget d k)) else Inl (mk_error C_KeyError k))"

definition parse_worker_step :: "pydict \<Rightarrow> error + WorkerStepConfig" where
  "parse_worker_step raw =
     bindR (required_item raw ''id'') (\<lambda>step_id.
     bindR (required_item raw ''base_context'') (\<lambda>base_context.
     bindR (required_item raw ''lifecycle_stage'') (\<lambda>lifecycle_stage.
     Inr \<lparr>ws_id = step_id,
       ws_label = (case str_field raw ''label'' of Some s \<Rightarrow> s
         | None \<Rightarrow> default_worker_step_label step_id),
       ws_lifecycle_stage = lifecycle_stage, ws_base_context = base_context,
       ws_actor_role = Some (case str_field raw ''actor_role'' of Some s \<Rightarrow> s
         | None \<Rightarrow> default_worker_actor_role base_context),
       ws_kind = py_str (dget_default raw ''kind'' (PStr ''custom'')),
       ws_description = str_field raw ''description'',
       ws_required_output = worker_string_tuple (dget raw ''required_output''),
       ws_must_not = worker_string_tuple (dget raw ''must_not''),
       ws_todo_tag = str_field raw ''todo_tag'',
       ws_test_command_policy = py_str (dget_default raw ''test_command_policy'' (PStr ''none''))\<rparr>)))"

definition parse_worker_pipeline ::
  "pyval \<Rightarrow> WorkerPipelineConfig option \<Rightarrow> error + WorkerPipelineConfig option" where
  "parse_worker_pipeline raw base =
     (case raw of
        PDict d \<Rightarrow>
          bindR (mapR parse_worker_step
              (case dget d ''steps'' of
                 PList vs \<Rightarrow> List.map_filter (\<lambda>x. case x of PDict s \<Rightarrow> Some s | _ \<Rightarrow> None) vs
               | _ \<Rightarrow> [])) (\<lambda>steps.
          Inr (Some \<lparr>pc_enabled = truthy (dget_default d ''enabled'' (PBool False)),
            pc_name = py_str (dget_default d ''name'' (PStr ''worker-pipeline'')),
            pc_mode = py_str (dget_default d ''mode'' (PStr ''available'')),
            pc_steps = steps\<rparr>))
      | _ \<Rightarrow> Inr base)"

section \<open>A checked table is translated\<close>

text \<open>What a TOML reader produces: no null, lists and tables of such values.\<close>

fun toml :: "pyval \<Rightarrow> bool" where
  "toml (PList vs) = list_all toml vs"
| "toml (PDict d) = list_all (\<lambda>(k, v). toml v) d"
| "toml (PBool b) = True"
| "toml (PInt i) = True"
| "toml (PStr s) = True"
| "toml PNone = False"
| "toml (PTuple vs) = False"

text \<open>A step whose fields are all valid choices.\<close>

definition step_valid :: "WorkerStepConfig \<Rightarrow> bool" where
  "step_valid s \<longleftrightarrow>
     WORKER_STEP_ID_RE (ws_id s) \<and> ws_lifecycle_stage s \<in> set VALID_WORKER_LIFECYCLE_STAGES
     \<and> ws_base_context s \<in> set VALID_WORKER_BASE_CONTEXTS
     \<and> ws_actor_role s \<in> Some ` set VALID_WORKER_ACTOR_ROLES
     \<and> ws_kind s \<in> set VALID_WORKER_STEP_KINDS
     \<and> ws_test_command_policy s \<in> set VALID_WORKER_TEST_COMMAND_POLICIES"

definition pipeline_valid :: "WorkerPipelineConfig \<Rightarrow> bool" where
  "pipeline_valid p \<longleftrightarrow>
     distinct (step_ids p) \<and> list_all step_valid (pc_steps p)
     \<and> pc_mode p \<in> set VALID_WORKER_PIPELINE_MODES \<and> (pc_enabled p \<longrightarrow> pc_steps p \<noteq> [])"

lemma check_that_ok [simp]: "check_that b tag = Inr u \<longleftrightarrow> b"
  by (simp add: check_that_def)

lemma bindR_ok: "bindR m f = Inr y \<longleftrightarrow> (\<exists>x. m = Inr x \<and> f x = Inr y)"
  by (cases m) (simp_all add: bindR_def)

lemma dget_key: "dget d k \<noteq> PNone \<Longrightarrow> has_key d k"
  by (induction d k rule: dget.induct) (auto split: if_splits)

lemma toml_entry: "toml (PDict d) \<Longrightarrow> has_key d k \<Longrightarrow> toml (dget d k)"
  by (induction d k rule: dget.induct) auto

lemma toml_default:
  "toml (PDict d) \<Longrightarrow> dget_default d k v = (if dget d k = PNone then v else dget d k)"
  using toml_entry [of d k] dget_key [of d k] by (auto simp: dget_default_def)

lemma default_role_valid: "default_worker_actor_role c \<in> set VALID_WORKER_ACTOR_ROLES"
  by (simp add: default_worker_actor_role_def VALID_WORKER_ACTOR_ROLES_def)

lemma required_choiceD:
  "validate_worker_step_required_choice d k vs = Inr u \<Longrightarrow> \<exists>s. dget d k = PStr s \<and> s \<in> set vs"
  by (auto simp: validate_worker_step_required_choice_def split: pyval.splits)

lemma optional_choiceD:
  "validate_worker_step_optional_choice d k vs = Inr u
    \<Longrightarrow> dget d k = PNone \<or> (\<exists>s. dget d k = PStr s \<and> s \<in> set vs)"
  by (auto simp: validate_worker_step_optional_choice_def split: pyval.splits)

lemma step_idD:
  "validate_worker_step_id d = Inr i \<Longrightarrow> dget d ''id'' = PStr i \<and> WORKER_STEP_ID_RE i"
  by (auto simp: validate_worker_step_id_def split: pyval.splits if_splits)

lemma required_item_str: "dget d k = PStr s \<Longrightarrow> required_item d k = Inr s"
  using dget_key [of d k] by (simp add: required_item_def py_str_def)

lemma optional_choice_default:
  assumes "toml (PDict d)" "validate_worker_step_optional_choice d k vs = Inr u" "v \<in> set vs"
  shows "py_str (dget_default d k (PStr v)) \<in> set vs"
  using optional_choiceD [OF assms(2)] assms(1,3) by (auto simp: toml_default py_str_def)

lemma validated_step:
  assumes "toml (PDict d)" "validate_worker_step d = Inr i"
  shows "\<exists>s. parse_worker_step d = Inr s \<and> ws_id s = i \<and> step_valid s"
proof -
  have step: "dget d ''id'' = PStr i" "WORKER_STEP_ID_RE i"
    using assms(2) step_idD [of d i] by (auto simp: validate_worker_step_def bindR_ok)
  obtain ls bc where ls: "dget d ''lifecycle_stage'' = PStr ls" "ls \<in> set VALID_WORKER_LIFECYCLE_STAGES"
    and bc: "dget d ''base_context'' = PStr bc" "bc \<in> set VALID_WORKER_BASE_CONTEXTS"
    using assms(2) by (auto simp: validate_worker_step_def bindR_ok dest!: required_choiceD)
  have opt: "validate_worker_step_optional_choice d ''actor_role'' VALID_WORKER_ACTOR_ROLES = Inr ()"
    "validate_worker_step_optional_choice d ''kind'' VALID_WORKER_STEP_KINDS = Inr ()"
    "validate_worker_step_optional_choice d ''test_command_policy''
       VALID_WORKER_TEST_COMMAND_POLICIES = Inr ()"
    using assms(2) by (simp_all add: validate_worker_step_def bindR_ok)
  have kind: "py_str (dget_default d ''kind'' (PStr ''custom'')) \<in> set VALID_WORKER_STEP_KINDS"
    "py_str (dget_default d ''test_command_policy'' (PStr ''none''))
       \<in> set VALID_WORKER_TEST_COMMAND_POLICIES"
    by (rule optional_choice_default [OF assms(1)]; use opt in \<open>simp add: VALID_WORKER_STEP_KINDS_def
      VALID_WORKER_TEST_COMMAND_POLICIES_def\<close>)+
  show ?thesis
    using step ls bc kind optional_choiceD [OF opt(1)] default_role_valid [of bc]
    by (auto simp: parse_worker_step_def required_item_str bindR_def step_valid_def str_field_def)
qed

lemma validated_steps:
  "list_all (\<lambda>d. toml (PDict d)) ds \<Longrightarrow> validate_steps seen ds = Inr u \<Longrightarrow>
    \<exists>ss. mapR parse_worker_step ds = Inr ss \<and> length ss = length ds \<and> distinct (map ws_id ss)
      \<and> list_all step_valid ss \<and> (\<forall>s \<in> set ss. ws_id s \<notin> seen)"
proof (induction ds arbitrary: seen)
  case (Cons d ds)
  then obtain i where i: "validate_worker_step d = Inr i" "i \<notin> seen"
    and rest: "validate_steps (insert i seen) ds = Inr u"
    by (auto simp: bindR_ok split: if_splits)
  obtain s where s: "parse_worker_step d = Inr s" "ws_id s = i" "step_valid s"
    using validated_step [OF _ i(1)] Cons.prems(1) by auto
  obtain ss where "mapR parse_worker_step ds = Inr ss" "length ss = length ds"
    "distinct (map ws_id ss)" "list_all step_valid ss" "\<forall>x \<in> set ss. ws_id x \<notin> insert i seen"
    using Cons.IH [OF _ rest] Cons.prems(1) by auto
  then show ?case using s i(2) by (intro exI [of _ "s # ss"]) (auto simp: bindR_def)
qed simp

lemma raw_stepsD:
  assumes "raw_steps v = Inr ds" "v = PNone \<or> toml v"
  shows "list_all (\<lambda>d. toml (PDict d)) ds
    \<and> (case v of PList vs \<Rightarrow> List.map_filter (\<lambda>x. case x of PDict s \<Rightarrow> Some s | _ \<Rightarrow> None) vs
         | _ \<Rightarrow> []) = ds"
proof (cases v)
  case (PList vs)
  have "mapR (\<lambda>x. case x of PDict d \<Rightarrow> Inr d | _ \<Rightarrow> Inl (launch_error ''steps'')) vs = Inr ds
      \<Longrightarrow> list_all toml vs \<Longrightarrow> list_all (\<lambda>d. toml (PDict d)) ds
      \<and> List.map_filter (\<lambda>x. case x of PDict s \<Rightarrow> Some s | _ \<Rightarrow> None) vs = ds"
    by (induction vs arbitrary: ds)
      (auto simp: bindR_ok List.map_filter_simps split: pyval.splits)
  then show ?thesis using assms PList by (simp add: raw_steps_def)
qed (use assms in \<open>auto simp: raw_steps_def\<close>)

lemma validated_pipeline:
  assumes "toml (PDict d)" "validate_worker_pipeline (PDict d) = Inr u"
  shows "\<exists>p. parse_worker_pipeline (PDict d) base = Inr (Some p) \<and> pipeline_valid p"
proof -
  obtain ds where raw: "raw_steps (dget d ''steps'') = Inr ds" and ok: "validate_steps {} ds = Inr ()"
    and enabled: "truthy (dget d ''enabled'') \<longrightarrow> ds \<noteq> []"
    and mode: "case dget d ''mode'' of PNone \<Rightarrow> True | PStr s \<Rightarrow> s \<in> set VALID_WORKER_PIPELINE_MODES | _ \<Rightarrow> False"
    using assms(2) by (auto simp: validate_worker_pipeline_def bindR_ok)
  have "dget d ''steps'' = PNone \<or> toml (dget d ''steps'')"
    using toml_entry [OF assms(1)] dget_key by blast
  note steps = raw_stepsD [OF raw this]
  obtain ss where ss: "mapR parse_worker_step ds = Inr ss" "length ss = length ds"
    "distinct (map ws_id ss)" "list_all step_valid ss"
    using validated_steps [OF conjunct1 [OF steps] ok] by blast
  have "py_str (dget_default d ''mode'' (PStr ''available'')) \<in> set VALID_WORKER_PIPELINE_MODES"
    using mode by (auto simp: toml_default [OF assms(1)] py_str_def VALID_WORKER_PIPELINE_MODES_def
        split: pyval.splits)
  then show ?thesis
    using ss enabled conjunct2 [OF steps]
    by (auto simp: parse_worker_pipeline_def bindR_def pipeline_valid_def step_ids_def
        toml_default [OF assms(1)])
qed

end
