(* ===== verification/Datetime.thy ===== *)
theory Datetime
  imports Prelude
begin

text \<open>
  The fragment of Python's \<open>datetime\<close> the lock code uses: UTC instants, \<open>isoformat\<close>,
  \<open>fromisoformat\<close> on the extended format, addition of two hours and the comparison of aware
  instants. A calendar date is compared through its ordinal, as the Python library does it.
\<close>

record datetime =
  dt_year :: nat
  dt_month :: nat
  dt_day :: nat
  dt_hour :: nat
  dt_minute :: nat
  dt_second :: nat
  dt_micro :: nat
  dt_offset :: "int option"

text \<open>The UTC offset is in minutes; \<open>None\<close> is a naive datetime.\<close>

section \<open>Calendar\<close>

definition leap_year :: "nat \<Rightarrow> bool" where
  "leap_year y \<longleftrightarrow> 4 dvd y \<and> (\<not> 100 dvd y \<or> 400 dvd y)"

definition days_in_month :: "nat \<Rightarrow> nat \<Rightarrow> nat" where
  "days_in_month y m =
     (if m = 2 then (if leap_year y then 29 else 28)
      else if m \<in> {4, 6, 9, 11} then 30 else 31)"

definition days_before_year :: "nat \<Rightarrow> nat" where
  "days_before_year y =
     (let p = y - 1 in p * 365 + p div 4 - p div 100 + p div 400)"

fun days_before_month :: "nat \<Rightarrow> nat \<Rightarrow> nat" where
  "days_before_month y 0 = 0"
| "days_before_month y (Suc 0) = 0"
| "days_before_month y (Suc (Suc m)) = days_before_month y (Suc m) + days_in_month y (Suc m)"

definition ordinal :: "datetime \<Rightarrow> nat" where
  "ordinal d = days_before_year (dt_year d) + days_before_month (dt_year d) (dt_month d) + dt_day d"

definition valid_datetime :: "datetime \<Rightarrow> bool" where
  "valid_datetime d \<longleftrightarrow>
     1 \<le> dt_year d \<and> dt_year d \<le> 9999 \<and> 1 \<le> dt_month d \<and> dt_month d \<le> 12
     \<and> 1 \<le> dt_day d \<and> dt_day d \<le> days_in_month (dt_year d) (dt_month d)
     \<and> dt_hour d < 24 \<and> dt_minute d < 60 \<and> dt_second d < 60 \<and> dt_micro d < 1000000"

text \<open>Microseconds since the epoch of the ordinals, in UTC.\<close>

definition instant :: "datetime \<Rightarrow> int" where
  "instant d =
     ((int (ordinal d) * 86400 + int (dt_hour d) * 3600 + int (dt_minute d) * 60
       + int (dt_second d)) - (case dt_offset d of Some o1 \<Rightarrow> o1 * 60 | None \<Rightarrow> 0)) * 1000000
     + int (dt_micro d)"

section \<open>Adding hours\<close>

definition next_day :: "datetime \<Rightarrow> datetime" where
  "next_day d =
     (if dt_day d < days_in_month (dt_year d) (dt_month d) then d\<lparr>dt_day := dt_day d + 1\<rparr>
      else if dt_month d < 12 then d\<lparr>dt_month := dt_month d + 1, dt_day := 1\<rparr>
      else d\<lparr>dt_year := dt_year d + 1, dt_month := 1, dt_day := 1\<rparr>)"

text \<open>\<open>d + timedelta(hours=h)\<close> for \<open>h < 24\<close>.\<close>

definition add_hours :: "nat \<Rightarrow> datetime \<Rightarrow> datetime" where
  "add_hours h d =
     (let total = dt_hour d + h
      in if total < 24 then d\<lparr>dt_hour := total\<rparr>
         else (next_day d)\<lparr>dt_hour := total - 24\<rparr>)"

section \<open>ISO format\<close>

definition pad :: "nat \<Rightarrow> nat \<Rightarrow> string" where
  "pad w n = zpad w (nat_str n)"

definition iso_offset :: "int option \<Rightarrow> string" where
  "iso_offset z =
     (case z of
        None \<Rightarrow> []
      | Some m \<Rightarrow>
          (if m < 0 then ''-'' else ''+'') @ pad 2 (nat \<bar>m\<bar> div 60) @ '':'' @ pad 2 (nat \<bar>m\<bar> mod 60))"

definition isoformat :: "datetime \<Rightarrow> string" where
  "isoformat d =
     pad 4 (dt_year d) @ ''-'' @ pad 2 (dt_month d) @ ''-'' @ pad 2 (dt_day d) @ ''T''
     @ pad 2 (dt_hour d) @ '':'' @ pad 2 (dt_minute d) @ '':'' @ pad 2 (dt_second d)
     @ (if dt_micro d = 0 then [] else ''.'' @ pad 6 (dt_micro d))
     @ iso_offset (dt_offset d)"

text \<open>Readers of a fixed number of digits and of a fixed character.\<close>

definition take_num :: "nat \<Rightarrow> string \<Rightarrow> (nat \<times> string) option" where
  "take_num w s =
     (let ds = take w s
      in if length ds = w \<and> isdigit ds then Some (digits_nat ds, drop w s) else None)"

definition take_char :: "(char \<Rightarrow> bool) \<Rightarrow> string \<Rightarrow> string option" where
  "take_char p s = (case s of [] \<Rightarrow> None | c # cs \<Rightarrow> if p c then Some cs else None)"

definition take_fraction :: "string \<Rightarrow> (nat \<times> string) option" where
  "take_fraction s =
     (case take_char (\<lambda>c. c = CHR ''.'') s of
        None \<Rightarrow> Some (0, s)
      | Some r \<Rightarrow>
          (case take_num 6 r of
             Some x \<Rightarrow> Some x
           | None \<Rightarrow> map_option (\<lambda>(n, r'). (n * 1000, r')) (take_num 3 r)))"

definition take_zone :: "string \<Rightarrow> int option option" where
  "take_zone s =
     (if s = [] then Some None
      else if s = ''Z'' then Some (Some 0)
      else case s of
        [] \<Rightarrow> None
      | c # r \<Rightarrow>
          if c \<noteq> CHR ''+'' \<and> c \<noteq> CHR ''-'' then None
          else Option.bind (take_num 2 r) (\<lambda>(h, r1).
               Option.bind (take_char (\<lambda>x. x = CHR '':'') r1) (\<lambda>r2.
               Option.bind (take_num 2 r2) (\<lambda>(m, r3).
               if r3 = [] \<and> h < 24 \<and> m < 60
               then Some (Some ((if c = CHR ''-'' then -1 else 1) * int (h * 60 + m)))
               else None))))"

definition fromisoformat :: "string \<Rightarrow> datetime option" where
  "fromisoformat s =
     Option.bind (take_num 4 s) (\<lambda>(y, s1).
     Option.bind (take_char (\<lambda>c. c = CHR ''-'') s1) (\<lambda>s2.
     Option.bind (take_num 2 s2) (\<lambda>(mo, s3).
     Option.bind (take_char (\<lambda>c. c = CHR ''-'') s3) (\<lambda>s4.
     Option.bind (take_num 2 s4) (\<lambda>(dy, s5).
     Option.bind (take_char (\<lambda>c. True) s5) (\<lambda>s6.
     Option.bind (take_num 2 s6) (\<lambda>(h, s7).
     Option.bind (take_char (\<lambda>c. c = CHR '':'') s7) (\<lambda>s8.
     Option.bind (take_num 2 s8) (\<lambda>(mi, s9).
     Option.bind (take_char (\<lambda>c. c = CHR '':'') s9) (\<lambda>s10.
     Option.bind (take_num 2 s10) (\<lambda>(sec, s11).
     Option.bind (take_fraction s11) (\<lambda>(us, s12).
     Option.bind (take_zone s12) (\<lambda>z.
     let d = \<lparr>dt_year = y, dt_month = mo, dt_day = dy, dt_hour = h, dt_minute = mi,
              dt_second = sec, dt_micro = us, dt_offset = z\<rparr>
     in if valid_datetime d then Some d else None)))))))))))))"

section \<open>Facts about the format\<close>

lemma length_nat_str: "n < 10 ^ w \<Longrightarrow> 0 < w \<Longrightarrow> length (nat_str n) \<le> w"
proof (induction w arbitrary: n)
  case (Suc w)
  show ?case
  proof (cases "n < 10")
    case True
    then show ?thesis by (simp add: nat_str.simps [of n])
  next
    case False
    then have "n div 10 < 10 ^ w" "0 < w"
      using Suc.prems by (auto simp: less_mult_imp_div_less intro: gr0I)
    then show ?thesis
      using Suc.IH [of "n div 10"] False by (simp add: nat_str.simps [of n])
  qed
qed simp

lemma length_pad: "n < 10 ^ w \<Longrightarrow> 0 < w \<Longrightarrow> length (pad w n) = w"
  using length_nat_str [of n w] by (simp add: pad_def zpad_def)

lemma isdigit_pad: "isdigit (pad w n)"
  using nat_str_digits [of n]
  by (auto simp: pad_def zpad_def isdigit_def list_all_iff digit_char_props)

lemma take_num_pad: "n < 10 ^ w \<Longrightarrow> 0 < w \<Longrightarrow> take_num w (pad w n @ s) = Some (n, s)"
  by (simp add: take_num_def length_pad isdigit_pad Let_def) (simp add: pad_def)

lemma take_char_Cons [simp]: "take_char p (c # s) = (if p c then Some s else None)"
  by (simp add: take_char_def)

lemma take_fraction_none: "take_fraction (c # s) = Some (0, c # s)" if "c \<noteq> CHR ''.''"
  using that by (simp add: take_fraction_def)

lemma take_fraction_micro: "n < 1000000 \<Longrightarrow> take_fraction (CHR ''.'' # pad 6 n @ s) = Some (n, s)"
  using take_num_pad [of n 6 s] by (simp add: take_fraction_def)

lemma take_zone_utc: "take_zone (iso_offset (Some 0)) = Some (Some 0)"
  by (simp add: iso_offset_def pad_def zpad_def nat_str.simps digit_char_def take_zone_def
      take_num_def isdigit_def is_digit_char_def digits_nat_def digit_val_def Let_def)

lemma iso_offset_utc_head: "\<exists>s. iso_offset (Some 0) = CHR ''+'' # s"
  by (simp add: iso_offset_def)

lemma fraction_utc:
  assumes "us < 1000000"
  shows "take_fraction ((if us = 0 then [] else ''.'' @ pad 6 us) @ iso_offset (Some 0))
    = Some (us, iso_offset (Some 0))"
  using assms take_fraction_micro [of us] iso_offset_utc_head
  by (auto simp: take_fraction_none)

theorem fromisoformat_isoformat:
  assumes v: "valid_datetime d" and z: "dt_offset d = Some 0"
  shows "fromisoformat (isoformat d) = Some d"
proof -
  have dm: "days_in_month y m \<le> 31" for y m
    by (simp add: days_in_month_def)
  have b: "dt_year d < 10 ^ 4" "dt_month d < 10 ^ 2" "dt_day d < 10 ^ 2" "dt_hour d < 10 ^ 2"
    "dt_minute d < 10 ^ 2" "dt_second d < 10 ^ 2" "dt_micro d < 1000000"
    using v dm [of "dt_year d" "dt_month d"] by (auto simp: valid_datetime_def)
  show ?thesis
    using v z b fraction_utc [of "dt_micro d"]
    by (simp add: isoformat_def fromisoformat_def take_num_pad take_zone_utc Let_def)
      (simp add: valid_datetime_def)
qed

section \<open>Facts about time\<close>

lemma leap_arith:
  fixes a c d m x y z :: nat
  assumes "c \<le> m + a" "y \<le> x"
  shows "365 + m + (a + x) - (c + y) + (d + z) = m + a - c + d + (365 + (x - y) + z)"
  using assms by linarith

lemma days_before_year_Suc:
  assumes "1 \<le> y"
  shows "days_before_year (Suc y) = days_before_year y + (if leap_year y then 366 else 365)"
proof -
  have step: "Suc p div k = p div k + (if k dvd Suc p then 1 else 0)" if "0 < k" for p k :: nat
    using that by (auto simp: div_Suc dvd_eq_mod_eq_0)
  obtain p where p: "y = Suc p"
    using assms by (cases y) auto
  have le: "p div 100 \<le> p * 365 + p div 4"
    using div_le_dividend [of p 100] by linarith
  have sub: "400 dvd Suc p \<Longrightarrow> 100 dvd Suc p" "100 dvd Suc p \<Longrightarrow> 4 dvd Suc p"
    using dvd_trans [of 100 400 "Suc p"] dvd_trans [of 4 100 "Suc p"] by simp_all
  have eqs: "days_before_year (Suc y) = 365 + p * 365 + Suc p div 4 - Suc p div 100 + Suc p div 400"
    "days_before_year y = p * 365 + p div 4 - p div 100 + p div 400"
    by (simp_all only: p days_before_year_def Let_def diff_Suc_1 mult_Suc)
  define b4 b100 b400 where b: "b4 = (4 dvd Suc p)" "b100 = (100 dvd Suc p)" "b400 = (400 dvd Suc p)"
  have steps: "Suc p div 4 = p div 4 + of_bool b4" "Suc p div 100 = p div 100 + of_bool b100"
    "Suc p div 400 = p div 400 + of_bool b400"
    by (simp_all only: step [of 4 p] step [of 100 p] step [of 400 p] b of_bool_def zero_less_numeral)
  have ly: "leap_year y = (b4 \<and> (\<not> b100 \<or> b400))"
    by (simp only: leap_year_def p b)
  have "b400 \<longrightarrow> b100" "b100 \<longrightarrow> b4"
    using sub b by blast+
  then have "of_bool b100 \<le> (of_bool b4 :: nat)"
    "(if leap_year y then 366 else 365) = 365 + (of_bool b4 - of_bool b100) + (of_bool b400 :: nat)"
    unfolding ly by (cases b4; cases b100; cases b400; simp)+
  then show ?thesis
    unfolding eqs steps using le leap_arith [of "p div 100" "p * 365" "p div 4"] by simp
qed

lemma days_before_month_13:
  "days_before_month y 12 + days_in_month y 12 = (if leap_year y then 366 else 365)"
  by (simp add: numeral_eq_Suc days_in_month_def)

lemma ordinal_next_day:
  assumes "valid_datetime d"
  shows "ordinal (next_day d) = Suc (ordinal d)"
proof -
  consider "dt_day d < days_in_month (dt_year d) (dt_month d)"
    | "dt_day d = days_in_month (dt_year d) (dt_month d)" "dt_month d < 12"
    | "dt_day d = days_in_month (dt_year d) (dt_month d)" "dt_month d = 12"
    using assms by (force simp: valid_datetime_def)
  then show ?thesis
  proof cases
    case 1
    then show ?thesis by (simp add: next_day_def ordinal_def)
  next
    case 2
    obtain m where m: "dt_month d = Suc m"
      using assms by (cases "dt_month d") (auto simp: valid_datetime_def)
    show ?thesis
      using 2 by (simp add: next_day_def ordinal_def m)
  next
    case 3
    then show ?thesis
      using days_before_year_Suc [of "dt_year d"] days_before_month_13 [of "dt_year d"] assms
      by (simp add: next_day_def ordinal_def valid_datetime_def)
  qed
qed

lemma next_day_frame [simp]:
  "dt_hour (next_day d) = dt_hour d" "dt_minute (next_day d) = dt_minute d"
  "dt_second (next_day d) = dt_second d" "dt_micro (next_day d) = dt_micro d"
  "dt_offset (next_day d) = dt_offset d"
  by (simp_all add: next_day_def)

lemma ordinal_hour [simp]: "ordinal (d\<lparr>dt_hour := h\<rparr>) = ordinal d"
  by (simp add: ordinal_def)

lemma instant_add_hours:
  assumes "valid_datetime d" "h < 24"
  shows "instant (add_hours h d) = instant d + int h * 3600 * 1000000"
  using assms ordinal_next_day [of d]
  by (auto simp: add_hours_def instant_def valid_datetime_def Let_def algebra_simps
      split: option.splits)

lemma dt_offset_add_hours [simp]: "dt_offset (add_hours h d) = dt_offset d"
  by (simp add: add_hours_def Let_def)

lemma next_day_valid:
  assumes "valid_datetime d" "dt_year d < 9999"
  shows "valid_datetime (next_day d)"
  using assms by (auto simp: valid_datetime_def next_day_def days_in_month_def)

lemma add_hours_valid:
  assumes "valid_datetime d" "dt_year d < 9999" "h < 24"
  shows "valid_datetime (add_hours h d)"
  using assms next_day_valid [of d]
  by (auto simp: add_hours_def valid_datetime_def Let_def)

end
