(* ===== verification/Store.thy ===== *)
theory Store
  imports SideRecords PipelineConfig Datetime "HOL-Library.Multiset" "HOL-Library.Product_Lexorder"
begin

text \<open>
  The ledger on disk (\<open>taskledger/storage/task_store.py\<close>) and the environment a command runs in.
  A directory of record files is an association list from file stem to record. The files are
  modelled after parsing: what \<open>save_\<close> writes is what a later \<open>_load_record\<close> returns (the round
  trips of \<open>Codec\<close> and \<open>CodecRecords\<close> are the reason). Derived index files are not part of the
  state.
\<close>

section \<open>The environment\<close>

text \<open>
  Everything a command takes from outside the repository: clock, user, host, configuration
  values, the id and reference functions of the package \<open>ledgercore\<close>, the YAML and JSON
  libraries, and git. A command reads the clock once.
\<close>

record WorkspaceSnapshot =
  ss_git_commit :: "string option"
  ss_dirty :: "bool option"
  ss_diff_hash :: "string option"
  ss_status_hash :: "string option"
  ss_captured_at :: "string option"

text \<open>What probing a process id tells (\<open>services/lock_diagnostics.py\<close>).\<close>

datatype PidStatus = PK_alive | PK_alive_unowned | PK_dead | PK_na | PK_unknown

record env =
  e_now :: string
  e_clock :: datetime
  e_user :: string
  e_host :: string
  e_pid :: int
  e_cwd :: string
  e_root :: string
  e_getenv :: "string \<Rightarrow> string option"
  e_isatty :: bool
  e_fqdn :: string
  e_node :: string
  e_pid_check :: "int \<Rightarrow> PidStatus"
  e_event_logging :: bool
  e_uuid :: "nat \<Rightarrow> string"
  e_next_id :: "string \<Rightarrow> string list \<Rightarrow> string"
  e_parse_id :: "string \<Rightarrow> string \<Rightarrow> nat option"
  e_format_id :: "string \<Rightarrow> nat \<Rightarrow> string"
  e_local_id :: "string \<Rightarrow> string \<Rightarrow> string option"
  e_slugify :: "string \<Rightarrow> string \<Rightarrow> string"
  e_content_hash :: "string \<Rightarrow> string"
  e_json_hash :: "pyval \<Rightarrow> string"
  e_yaml_load :: "string \<Rightarrow> pyval option"
  e_yaml_dump :: "pyval \<Rightarrow> string"
  e_tasks_dir :: string
  e_pipeline :: "WorkerPipelineConfig option"
  e_planning_profile :: bool
  e_snapshot :: WorkspaceSnapshot
  e_git_workspace :: bool

text \<open>
  \<open>next_project_id\<close>, \<open>normalize_numeric_ref\<close> (\<open>ids.py\<close>) and the defaults of
  \<open>services/task_events.py\<close>.
\<close>

definition next_project_id :: "env \<Rightarrow> string \<Rightarrow> string list \<Rightarrow> string" where
  "next_project_id E prefix existing_ids = e_next_id E prefix existing_ids"

definition normalize_numeric_ref :: "env \<Rightarrow> string \<Rightarrow> string \<Rightarrow> string" where
  "normalize_numeric_ref E ref prefix =
     (case e_parse_id E prefix ref of None \<Rightarrow> ref | Some n \<Rightarrow> e_format_id E prefix n)"

definition default_actor :: "env \<Rightarrow> ActorRef" where
  "default_actor E = ActorRef_default
     \<lparr>ar_actor_name := (if e_user E = [] then ''taskledger'' else e_user E),
      ar_host := Some (e_host E), ar_pid := Some (e_pid E)\<rparr>"

definition default_harness :: "env \<Rightarrow> HarnessRef" where
  "default_harness E =
     \<lparr>hr_harness_id = ''harness-unknown'',
      hr_name = str_or (e_getenv E ''TASKLEDGER_HARNESS'') ''unknown'',
      hr_kind = HK_unknown, hr_session_id = e_getenv E ''TASKLEDGER_SESSION_ID'',
      hr_working_directory = Some (e_cwd E), hr_command = None, hr_version = None,
      hr_capabilities = [], hr_created_at = e_now E,
      hr_schema_version = TASKLEDGER_SCHEMA_VERSION, hr_object_type = ''harness''\<rparr>"

definition actor_or :: "env \<Rightarrow> ActorRef option \<Rightarrow> ActorRef" where
  "actor_or E actor = (case actor of Some a \<Rightarrow> a | None \<Rightarrow> default_actor E)"

section \<open>Directories\<close>

type_synonym 'r dir = "(string \<times> 'r) list"

definition dir_get :: "'r dir \<Rightarrow> string \<Rightarrow> 'r option" where
  "dir_get d k = map_of d k"

fun dir_put :: "string \<Rightarrow> 'r \<Rightarrow> 'r dir \<Rightarrow> 'r dir" where
  "dir_put k r [] = [(k, r)]"
| "dir_put k r ((k', r') # d) = (if k' = k then (k, r) # d else (k', r') # dir_put k r d)"

definition dir_remove :: "string \<Rightarrow> 'r dir \<Rightarrow> 'r dir" where
  "dir_remove k d = filter (\<lambda>(k', _). k' \<noteq> k) d"

text \<open>\<open>directory.glob("prefix*.md")\<close>\<close>

definition dir_glob :: "string \<Rightarrow> 'r dir \<Rightarrow> 'r list" where
  "dir_glob prefix d = map snd (filter (\<lambda>(k, _). startswith k prefix) d)"

section \<open>The ledger\<close>

record ledger =
  l_tasks :: "TaskRecord dir"
  l_locks :: "TaskLock dir"
  l_runs :: "string \<Rightarrow> TaskRunRecord dir"
  l_plans :: "string \<Rightarrow> PlanRecord dir"
  l_questions :: "string \<Rightarrow> QuestionRecord dir"
  l_todos :: "string \<Rightarrow> TaskTodo dir"
  l_links :: "string \<Rightarrow> FileLink dir"
  l_requirements :: "string \<Rightarrow> DependencyRequirement dir"
  l_handoffs :: "string \<Rightarrow> TaskHandoffRecord dir"
  l_changes :: "string \<Rightarrow> CodeChangeRecord dir"
  l_checks :: "string \<Rightarrow> ImplementationCheckRecord dir"
  l_reviews :: "string \<Rightarrow> CodeReviewRecord dir"
  l_artifacts :: "string \<Rightarrow> string dir"
  l_intros :: "IntroductionRecord dir"
  l_releases :: "ReleaseRecord dir"
  l_actor :: "ActiveActorState option"
  l_harness :: "ActiveHarnessState option"
  l_audit :: "((string \<times> string) \<times> TaskLock) list"
  l_active :: "ActiveTaskState option"
  l_next_task_number :: nat
  l_events :: "TaskEvent list"

type_synonym 'a command = "(ledger, error, 'a) cmd"

definition empty_ledger :: ledger where
  "empty_ledger =
     \<lparr>l_tasks = [], l_locks = [], l_runs = (\<lambda>_. []), l_plans = (\<lambda>_. []),
      l_questions = (\<lambda>_. []), l_todos = (\<lambda>_. []), l_links = (\<lambda>_. []),
      l_requirements = (\<lambda>_. []), l_handoffs = (\<lambda>_. []), l_changes = (\<lambda>_. []),
      l_checks = (\<lambda>_. []), l_reviews = (\<lambda>_. []), l_artifacts = (\<lambda>_. []),
      l_intros = [], l_releases = [],
      l_actor = None, l_harness = None, l_audit = [], l_active = None, l_next_task_number = 1, l_events = []\<rparr>"

text \<open>The compact form of a timestamp in event ids and in the names of audit files.\<close>

definition compact_timestamp :: "string \<Rightarrow> string" where
  "compact_timestamp ts =
     py_replace ''+00:00'' ''Z'' (py_replace ''-'' [] (py_replace '':'' [] ts))"

definition next_event_id :: "env \<Rightarrow> nat \<Rightarrow> string" where
  "next_event_id E n =
     ''evt-'' @ py_replace ''.'' [] (compact_timestamp (e_now E)) @ ''-'' @ take 12 (e_uuid E n)"

definition append_event_as ::
  "env \<Rightarrow> ActorRef \<Rightarrow> HarnessRef \<Rightarrow> string \<Rightarrow> string \<Rightarrow> pydict \<Rightarrow> ledger \<Rightarrow> ledger" where
  "append_event_as E actor harness task_id event_name data l =
     (if \<not> e_event_logging E then l
      else l\<lparr>l_events := l_events l @
        [\<lparr>ev_ts = e_now E, ev_event = event_name, ev_task_id = task_id,
          ev_actor = actor, ev_harness = Some harness,
          ev_event_id = next_event_id E (length (l_events l)), ev_data = data,
          ev_file_version = TASKLEDGER_V2_FILE_VERSION,
          ev_schema_version = TASKLEDGER_SCHEMA_VERSION, ev_object_type = ''event''\<rparr>]\<rparr>)"

definition append_event :: "env \<Rightarrow> string \<Rightarrow> string \<Rightarrow> pydict \<Rightarrow> ledger \<Rightarrow> ledger" where
  "append_event E = append_event_as E (default_actor E) (default_harness E)"

section \<open>References\<close>

definition is_sep :: "char \<Rightarrow> bool" where
  "is_sep c \<longleftrightarrow> c = CHR ''-'' \<or> c = CHR ''_''"

text \<open>\<open>re.fullmatch(r"[a-zA-Z][a-zA-Z0-9]{0,2}[-_][a-zA-Z]+[-_]\<backslash>d+", value)\<close>\<close>

definition matches_file_ref :: "string \<Rightarrow> bool" where
  "matches_file_ref s =
     (let p = takeWhile (\<lambda>c. is_alpha c \<or> is_digit_char c) s;
          r1 = dropWhile (\<lambda>c. is_alpha c \<or> is_digit_char c) s;
          w = takeWhile is_alpha (drop 1 r1);
          r2 = dropWhile is_alpha (drop 1 r1)
      in p \<noteq> [] \<and> length p \<le> 3 \<and> is_alpha (hd p) \<and> r1 \<noteq> [] \<and> is_sep (hd r1)
         \<and> w \<noteq> [] \<and> r2 \<noteq> [] \<and> is_sep (hd r2) \<and> isdigit (drop 1 r2))"

definition looks_like_global_ref :: "string \<Rightarrow> bool" where
  "looks_like_global_ref value \<longleftrightarrow>
     CHR '':'' \<in> set value \<or> startswith (lower value) ''tl-'' \<or> matches_file_ref value"

definition normalize_resource_ref :: "env \<Rightarrow> string \<Rightarrow> string \<Rightarrow> error + string" where
  "normalize_resource_ref E ref kind =
     (let normalized = lower (strip ref)
      in case e_local_id E kind normalized of
           Some local \<Rightarrow> Inr local
         | None \<Rightarrow>
             if looks_like_global_ref normalized then Inl (launch_error ''invalid ref'')
             else Inr (normalize_numeric_ref E normalized kind))"

section \<open>Tasks\<close>

definition list_tasks :: "ledger \<Rightarrow> TaskRecord list" where
  "list_tasks l = sort_key tk_id (dir_glob ''task-'' (l_tasks l))"

datatype TaskVisibility = V_visible | V_archived | V_all

definition list_tasks_by_visibility :: "TaskVisibility \<Rightarrow> ledger \<Rightarrow> TaskRecord list" where
  "list_tasks_by_visibility visibility l =
     (case visibility of
        V_all \<Rightarrow> list_tasks l
      | V_archived \<Rightarrow> filter is_archived_task (list_tasks l)
      | V_visible \<Rightarrow> filter (\<lambda>t. \<not> is_archived_task t) (list_tasks l))"

definition resolve_slug ::
  "bool \<Rightarrow> string \<Rightarrow> TaskRecord list \<Rightarrow> error + TaskRecord" where
  "resolve_slug include_archived normalized_ref tasks =
     (case filter (\<lambda>t. \<not> is_archived_task t \<and> tk_slug t = normalized_ref) tasks of
        [t] \<Rightarrow> Inr t
      | _ # _ # _ \<Rightarrow> Inl (launch_error ''duplicate slug'')
      | [] \<Rightarrow>
          if \<not> include_archived then Inl (launch_error ''task not found'')
          else (case filter (\<lambda>t. is_archived_task t \<and> tk_slug t = normalized_ref) tasks of
                  [t] \<Rightarrow> Inr t
                | _ # _ # _ \<Rightarrow> Inl (launch_error ''ambiguous slug'')
                | [] \<Rightarrow> Inl (launch_error ''task not found'')))"

definition resolve_task :: "env \<Rightarrow> bool \<Rightarrow> string \<Rightarrow> ledger \<Rightarrow> error + TaskRecord" where
  "resolve_task E include_archived ref l =
     (let normalized_ref = lower (strip ref)
      in bindR (normalize_resource_ref E normalized_ref ''task'') (\<lambda>normalized_id.
         let direct = (if startswith normalized_id ''task-''
                       then dir_get (l_tasks l) normalized_id else None)
         in case direct of
              Some task \<Rightarrow>
                if include_archived \<or> \<not> is_archived_task task then Inr task
                else (case find (\<lambda>t. tk_id t = ref \<or> tk_id t = normalized_id) (list_tasks l) of
                        Some t \<Rightarrow> Inr t
                      | None \<Rightarrow> resolve_slug include_archived normalized_ref (list_tasks l))
            | None \<Rightarrow>
                if looks_like_global_ref normalized_ref \<and> \<not> startswith normalized_id ''task-''
                then Inl (launch_error ''task not found'')
                else (case find (\<lambda>t. tk_id t = ref \<or> tk_id t = normalized_id) (list_tasks l) of
                        Some t \<Rightarrow> Inr t
                      | None \<Rightarrow> resolve_slug include_archived normalized_ref (list_tasks l))))"

text \<open>\<open>save_task\<close> leaves the sidecar collections out of the task file.\<close>

definition persist_task :: "TaskRecord \<Rightarrow> TaskRecord" where
  "persist_task t = t\<lparr>tk_requirements := [], tk_file_links := [], tk_todos := [],
     tk_body := rstrip (tk_body t)\<rparr>"

definition save_task :: "TaskRecord \<Rightarrow> ledger \<Rightarrow> ledger" where
  "save_task t l = l\<lparr>l_tasks := dir_put (tk_id t) (persist_task t) (l_tasks l)\<rparr>"

section \<open>The active task\<close>

definition save_active_task_state :: "ActiveTaskState \<Rightarrow> ledger \<Rightarrow> ledger" where
  "save_active_task_state state l = l\<lparr>l_active := Some state\<rparr>"

definition clear_active_task_state :: "ledger \<Rightarrow> ledger" where
  "clear_active_task_state l = l\<lparr>l_active := None\<rparr>"

definition resolve_active_task :: "env \<Rightarrow> ledger \<Rightarrow> error + TaskRecord" where
  "resolve_active_task E l =
     (case l_active l of
        None \<Rightarrow> Inl (mk_error C_NoActiveTask ''no active task'')
      | Some state \<Rightarrow>
          (case resolve_task E False (as_task_id state) l of
             Inr t \<Rightarrow> Inr t
           | Inl e \<Rightarrow> if is_launch_error e
                      then Inl (mk_error C_ActiveTaskNotFound ''active task missing'') else Inl e))"

definition resolve_task_or_active ::
  "env \<Rightarrow> bool \<Rightarrow> string option \<Rightarrow> ledger \<Rightarrow> error + TaskRecord" where
  "resolve_task_or_active E include_archived ref l =
     (case ref of
        Some r \<Rightarrow> if strip r \<noteq> [] then resolve_task E include_archived r l
                  else resolve_active_task E l
      | None \<Rightarrow> resolve_active_task E l)"

section \<open>Plans\<close>

definition list_plans :: "string \<Rightarrow> ledger \<Rightarrow> PlanRecord list" where
  "list_plans task_id l = sort_key pl_plan_version (dir_glob ''plan-v'' (l_plans l task_id))"

definition persist_plan :: "PlanRecord \<Rightarrow> PlanRecord" where
  "persist_plan p = p\<lparr>pl_body := rstrip (pl_body p),
     pl_based_on_question_ids := list_or (pl_based_on_question_ids p) (pl_question_refs p)\<rparr>"

definition overwrite_plan :: "PlanRecord \<Rightarrow> ledger \<Rightarrow> ledger" where
  "overwrite_plan p l =
     l\<lparr>l_plans := (l_plans l)(pl_task_id p :=
        dir_put (plan_id (pl_plan_version p)) (persist_plan p) (l_plans l (pl_task_id p)))\<rparr>"

definition save_plan :: "PlanRecord \<Rightarrow> unit command" where
  "save_plan p =
     bindE (getsE (\<lambda>l. dir_get (l_plans l (pl_task_id p)) (plan_id (pl_plan_version p)))) (\<lambda>existing.
     thenE (guardE (existing = None) (launch_error ''plan version exists''))
       (modifyE (overwrite_plan p)))"

definition resolve_plan :: "string \<Rightarrow> int option \<Rightarrow> ledger \<Rightarrow> error + PlanRecord" where
  "resolve_plan task_id version l =
     (let plans = list_plans task_id l
      in if plans = [] then Inl (launch_error ''no plans'')
         else case version of
           None \<Rightarrow> Inr (last plans)
         | Some v \<Rightarrow>
             (case find (\<lambda>p. pl_plan_version p = v) plans of
                Some p \<Rightarrow> Inr p
              | None \<Rightarrow> Inl (launch_error ''plan version not found'')))"

section \<open>Questions\<close>

definition list_questions :: "string \<Rightarrow> ledger \<Rightarrow> QuestionRecord list" where
  "list_questions task_id l = sort_key qn_id (dir_glob ''q-'' (l_questions l task_id))"

definition resolve_question :: "env \<Rightarrow> string \<Rightarrow> string \<Rightarrow> ledger \<Rightarrow> error + QuestionRecord" where
  "resolve_question E task_id question_id l =
     bindR (normalize_resource_ref E question_id ''q'') (\<lambda>normalized_id.
     case find (\<lambda>q. qn_id q = question_id \<or> qn_id q = normalized_id) (list_questions task_id l) of
       Some q \<Rightarrow> Inr q
     | None \<Rightarrow> Inl (launch_error ''question not found''))"

definition save_question :: "QuestionRecord \<Rightarrow> ledger \<Rightarrow> ledger" where
  "save_question q l =
     l\<lparr>l_questions := (l_questions l)(qn_task_id q :=
        dir_put (qn_id q) q (l_questions l (qn_task_id q)))\<rparr>"

section \<open>Runs\<close>

definition list_runs :: "string \<Rightarrow> ledger \<Rightarrow> TaskRunRecord list" where
  "list_runs task_id l = sort_key rn_run_id (dir_glob [] (l_runs l task_id))"

definition resolve_run :: "env \<Rightarrow> string \<Rightarrow> string \<Rightarrow> ledger \<Rightarrow> error + TaskRunRecord" where
  "resolve_run E task_id run_id l =
     bindR (normalize_resource_ref E run_id ''run'') (\<lambda>normalized_id.
     case find (\<lambda>r. rn_run_id r = run_id \<or> rn_run_id r = normalized_id) (list_runs task_id l) of
       Some r \<Rightarrow> Inr r
     | None \<Rightarrow> Inl (launch_error ''run not found''))"

definition persist_run :: "TaskRunRecord \<Rightarrow> TaskRunRecord" where
  "persist_run r = r\<lparr>rn_based_on_plan :=
     opt_str_or (rn_based_on_plan r) (TaskRunRecord_plan_ref r)\<rparr>"

definition save_run :: "TaskRunRecord \<Rightarrow> ledger \<Rightarrow> ledger" where
  "save_run r l =
     l\<lparr>l_runs := (l_runs l)(rn_task_id r :=
        dir_put (rn_run_id r) (persist_run r) (l_runs l (rn_task_id r)))\<rparr>"

section \<open>Code changes\<close>

definition list_changes :: "string \<Rightarrow> ledger \<Rightarrow> CodeChangeRecord list" where
  "list_changes task_id l = sort_key ch_change_id (dir_glob ''change-'' (l_changes l task_id))"

definition save_change :: "CodeChangeRecord \<Rightarrow> ledger \<Rightarrow> ledger" where
  "save_change c l =
     l\<lparr>l_changes := (l_changes l)(ch_task_id c :=
        dir_put (ch_change_id c) c (l_changes l (ch_task_id c)))\<rparr>"

definition resolve_change :: "env \<Rightarrow> string \<Rightarrow> string \<Rightarrow> ledger \<Rightarrow> error + CodeChangeRecord" where
  "resolve_change E task_id change_id l =
     bindR (normalize_resource_ref E change_id ''change'') (\<lambda>normalized_id.
     case find (\<lambda>c. ch_change_id c = change_id \<or> ch_change_id c = normalized_id)
            (list_changes task_id l) of
       Some c \<Rightarrow> Inr c
     | None \<Rightarrow> Inl (launch_error ''change not found''))"

section \<open>Implementation checks and code reviews\<close>

definition list_checks :: "string \<Rightarrow> ledger \<Rightarrow> ImplementationCheckRecord list" where
  "list_checks task_id l = sort_key ic_check_id (dir_glob ''check-'' (l_checks l task_id))"

definition save_check :: "ImplementationCheckRecord \<Rightarrow> ledger \<Rightarrow> ledger" where
  "save_check c l =
     l\<lparr>l_checks := (l_checks l)(ic_task_id c :=
        dir_put (ic_check_id c) c (l_checks l (ic_task_id c)))\<rparr>"

definition resolve_check ::
  "env \<Rightarrow> string \<Rightarrow> string \<Rightarrow> ledger \<Rightarrow> error + ImplementationCheckRecord" where
  "resolve_check E task_id check_id l =
     bindR (normalize_resource_ref E check_id ''check'') (\<lambda>normalized_id.
     case find (\<lambda>c. ic_check_id c = check_id \<or> ic_check_id c = normalized_id) (list_checks task_id l) of
       Some c \<Rightarrow> Inr c
     | None \<Rightarrow> Inl (launch_error ''check not found''))"

definition list_code_reviews :: "string \<Rightarrow> ledger \<Rightarrow> CodeReviewRecord list" where
  "list_code_reviews task_id l = sort_key cv_review_id (dir_glob ''review-'' (l_reviews l task_id))"

definition persist_review :: "CodeReviewRecord \<Rightarrow> CodeReviewRecord" where
  "persist_review r = r\<lparr>cv_body := rstrip (cv_body r)\<rparr>"

definition save_code_review :: "CodeReviewRecord \<Rightarrow> ledger \<Rightarrow> ledger" where
  "save_code_review r l =
     l\<lparr>l_reviews := (l_reviews l)(cv_task_id r :=
        dir_put (cv_review_id r) (persist_review r) (l_reviews l (cv_task_id r)))\<rparr>"

definition resolve_code_review ::
  "env \<Rightarrow> string \<Rightarrow> string \<Rightarrow> ledger \<Rightarrow> error + CodeReviewRecord" where
  "resolve_code_review E task_id review_ref l =
     bindR (normalize_resource_ref E review_ref ''review'') (\<lambda>normalized_id.
     case find (\<lambda>r. cv_review_id r = review_ref \<or> cv_review_id r = normalized_id)
            (list_code_reviews task_id l) of
       Some r \<Rightarrow> Inr r
     | None \<Rightarrow> Inl (launch_error ''code review not found''))"

section \<open>Artifacts\<close>

definition save_artifact :: "string \<Rightarrow> string \<Rightarrow> string \<Rightarrow> ledger \<Rightarrow> ledger" where
  "save_artifact task_id name content l =
     l\<lparr>l_artifacts := (l_artifacts l)(task_id := dir_put name content (l_artifacts l task_id))\<rparr>"

section \<open>Introductions and releases\<close>

definition list_introductions :: "ledger \<Rightarrow> IntroductionRecord list" where
  "list_introductions l = sort_key in_id (dir_glob ''intro-'' (l_intros l))"

definition resolve_introduction :: "string \<Rightarrow> ledger \<Rightarrow> error + IntroductionRecord" where
  "resolve_introduction ref l =
     (case find (\<lambda>i. in_id i = ref \<or> in_slug i = lower (strip ref)) (list_introductions l) of
        Some i \<Rightarrow> Inr i
      | None \<Rightarrow> Inl (launch_error ''introduction not found''))"

definition save_introduction :: "IntroductionRecord \<Rightarrow> ledger \<Rightarrow> ledger" where
  "save_introduction i l =
     l\<lparr>l_intros := dir_put (in_id i) (i\<lparr>in_body := rstrip (in_body i)\<rparr>) (l_intros l)\<rparr>"

text \<open>
  \<open>numeric_id_sort_key\<close> (\<open>ids.py\<close>): ids that do not parse come last.
\<close>

definition numeric_id_sort_key :: "env \<Rightarrow> string \<Rightarrow> string \<Rightarrow> nat \<times> string" where
  "numeric_id_sort_key E value prefix =
     ((case e_parse_id E prefix value of Some n \<Rightarrow> n | None \<Rightarrow> 10 ^ 9), value)"

definition list_releases :: "env \<Rightarrow> ledger \<Rightarrow> ReleaseRecord list" where
  "list_releases E l =
     sort_key (\<lambda>r. (numeric_id_sort_key E (rl_boundary_task_id r) ''task'', rl_version r))
       (dir_glob [] (l_releases l))"

text \<open>
  \<open>release_filename\<close>: a version is a file name. The checks before the pattern
  \<open>[A-Za-z0-9][A-Za-z0-9._+-]*\<close> raise the same error class as the pattern itself.
\<close>

definition release_filename :: "string \<Rightarrow> error + string" where
  "release_filename version =
     (let name_char = (\<lambda>c. is_alpha c \<or> is_digit_char c \<or> c = CHR ''.'' \<or> c = CHR ''_''
          \<or> c = CHR ''+'' \<or> c = CHR ''-'')
      in if strip version = [] then Inl (launch_error ''empty version'')
         else if strip version \<noteq> version \<or> list_ex py_isspace version
         then Inl (launch_error ''version whitespace'')
         else if CHR ''/'' \<in> set version \<or> CHR 0x5C \<in> set version
         then Inl (launch_error ''version separators'')
         else if list_ex (\<lambda>c. (of_char c :: nat) < 32) version
         then Inl (launch_error ''version control characters'')
         else if (is_alpha (hd version) \<or> is_digit_char (hd version)) \<and> list_all name_char version
         then Inr version
         else Inl (launch_error ''version pattern''))"

definition resolve_release :: "string \<Rightarrow> ledger \<Rightarrow> error + ReleaseRecord" where
  "resolve_release version l =
     bindR (release_filename version) (\<lambda>stem.
     case dir_get (l_releases l) stem of
       Some r \<Rightarrow> Inr r
     | None \<Rightarrow> Inl (launch_error ''release not found''))"

definition put_release :: "string \<Rightarrow> ReleaseRecord \<Rightarrow> ledger \<Rightarrow> ledger" where
  "put_release stem r l = l\<lparr>l_releases := dir_put stem r (l_releases l)\<rparr>"

definition save_release :: "ReleaseRecord \<Rightarrow> unit command" where
  "save_release r =
     bindE (liftE (release_filename (rl_version r))) (\<lambda>stem.
     bindE (getsE (\<lambda>l. dir_get (l_releases l) stem)) (\<lambda>existing.
     thenE (guardE (existing = None) (launch_error ''release exists''))
       (modifyE (put_release stem r))))"

section \<open>The stored actor and harness\<close>

definition save_actor_state :: "ActiveActorState option \<Rightarrow> ledger \<Rightarrow> ledger" where
  "save_actor_state state l = l\<lparr>l_actor := state\<rparr>"

definition save_harness_state :: "ActiveHarnessState option \<Rightarrow> ledger \<Rightarrow> ledger" where
  "save_harness_state state l = l\<lparr>l_harness := state\<rparr>"

section \<open>Sidecar collections\<close>

text \<open>
  Todos, links and requirements: one file per entry, and a save removes the files of entries
  that are no longer in the collection.
\<close>

definition save_collection :: "string \<Rightarrow> (string \<times> 'r) list \<Rightarrow> 'r dir \<Rightarrow> 'r dir" where
  "save_collection prefix entries d =
     filter (\<lambda>(k, _). startswith k prefix \<longrightarrow> k \<in> fst ` set entries)
       (foldl (\<lambda>d (k, r). dir_put k r d) d entries)"

definition load_todos :: "string \<Rightarrow> ledger \<Rightarrow> TaskTodo list" where
  "load_todos task_id l = sort_key td_id (dir_glob ''todo-'' (l_todos l task_id))"

definition save_todos :: "string \<Rightarrow> TaskTodo list \<Rightarrow> ledger \<Rightarrow> ledger" where
  "save_todos task_id todos l =
     l\<lparr>l_todos := (l_todos l)(task_id :=
        save_collection ''todo-'' (map (\<lambda>t. (td_id t, t)) todos) (l_todos l task_id))\<rparr>"

definition link_id_from_path :: "env \<Rightarrow> string \<Rightarrow> string" where
  "link_id_from_path E path = ''link-'' @ take 8 (e_content_hash E path)"

definition load_links :: "string \<Rightarrow> ledger \<Rightarrow> FileLink list" where
  "load_links task_id l =
     sort_key (\<lambda>k. str_or (fl_id k) []) (dir_glob ''link-'' (l_links l task_id))"

definition persist_link :: "env \<Rightarrow> string \<Rightarrow> FileLink \<Rightarrow> FileLink" where
  "persist_link E task_id k =
     k\<lparr>fl_id := Some (str_or (fl_id k) (link_id_from_path E (fl_path k))),
       fl_task_id := Some task_id, fl_file_version := TASKLEDGER_V2_FILE_VERSION,
       fl_schema_version := TASKLEDGER_SCHEMA_VERSION, fl_object_type := ''link''\<rparr>"

definition save_links :: "env \<Rightarrow> string \<Rightarrow> FileLink list \<Rightarrow> ledger \<Rightarrow> ledger" where
  "save_links E task_id links l =
     l\<lparr>l_links := (l_links l)(task_id :=
        save_collection ''link-''
          (map (\<lambda>k. (str_or (fl_id k) (link_id_from_path E (fl_path k)), persist_link E task_id k))
            links)
          (l_links l task_id))\<rparr>"

text \<open>\<open>re.match(r"task-(\<backslash>d+)", task_id)\<close>\<close>

definition requirement_id_from_task :: "string \<Rightarrow> string" where
  "requirement_id_from_task task_id =
     (let digits = takeWhile is_digit_char (removeprefix task_id ''task-'')
      in if startswith task_id ''task-'' \<and> digits \<noteq> [] then ''req-'' @ digits
         else ''req-'' @ task_id)"

definition load_requirements :: "string \<Rightarrow> ledger \<Rightarrow> DependencyRequirement list" where
  "load_requirements task_id l =
     sort_key (\<lambda>r. str_or (dr_id r) []) (dir_glob ''req-'' (l_requirements l task_id))"

definition persist_requirement :: "DependencyRequirement \<Rightarrow> DependencyRequirement" where
  "persist_requirement r =
     (let required = str_or (dr_required_task_id r) (dr_task_id r)
      in r\<lparr>dr_id := Some (str_or (dr_id r) (requirement_id_from_task (dr_task_id r))),
           dr_task_id := required, dr_required_task_id := Some required,
           dr_file_version := TASKLEDGER_V2_FILE_VERSION,
           dr_schema_version := TASKLEDGER_SCHEMA_VERSION, dr_object_type := ''requirement''\<rparr>)"

definition save_requirements :: "string \<Rightarrow> DependencyRequirement list \<Rightarrow> ledger \<Rightarrow> ledger" where
  "save_requirements task_id reqs l =
     l\<lparr>l_requirements := (l_requirements l)(task_id :=
        save_collection ''req-''
          (map (\<lambda>r. (str_or (dr_id r) (requirement_id_from_task (dr_task_id r)),
                    persist_requirement r)) reqs)
          (l_requirements l task_id))\<rparr>"

definition task_requirements :: "TaskRecord \<Rightarrow> ledger \<Rightarrow> string list" where
  "task_requirements task l = map dr_task_id (load_requirements (tk_id task) l)"

definition task_with_sidecars :: "TaskRecord \<Rightarrow> ledger \<Rightarrow> TaskRecord" where
  "task_with_sidecars task l =
     task\<lparr>tk_requirements := task_requirements task l, tk_file_links := load_links (tk_id task) l,
       tk_todos := load_todos (tk_id task) l\<rparr>"

section \<open>Handoffs\<close>

definition persist_handoff :: "TaskHandoffRecord \<Rightarrow> TaskHandoffRecord" where
  "persist_handoff h = h\<lparr>ho_context_body := rstrip (ho_context_body h) @ [CHR 0x0A]\<rparr>"

definition resolve_handoff ::
  "env \<Rightarrow> string \<Rightarrow> string \<Rightarrow> ledger \<Rightarrow> error + TaskHandoffRecord" where
  "resolve_handoff E task_id handoff_ref l =
     bindR (normalize_resource_ref E handoff_ref ''handoff'') (\<lambda>normalized_id.
     case dir_get (l_handoffs l task_id) normalized_id of
       Some h \<Rightarrow> Inr h
     | None \<Rightarrow> Inl (launch_error ''handoff not found''))"

definition save_handoff :: "TaskHandoffRecord \<Rightarrow> ledger \<Rightarrow> ledger" where
  "save_handoff h l =
     l\<lparr>l_handoffs := (l_handoffs l)(ho_task_id h :=
        dir_put (ho_handoff_id h) (persist_handoff h) (l_handoffs l (ho_task_id h)))\<rparr>"

section \<open>Lock files\<close>

definition read_lock :: "string \<Rightarrow> ledger \<Rightarrow> TaskLock option" where
  "read_lock task_id l = dir_get (l_locks l) task_id"

definition update_lock :: "string \<Rightarrow> TaskLock \<Rightarrow> ledger \<Rightarrow> ledger" where
  "update_lock task_id lock l = l\<lparr>l_locks := dir_put task_id lock (l_locks l)\<rparr>"

text \<open>\<open>write_lock\<close> creates the file exclusively and raises when it exists.\<close>

definition write_lock :: "string \<Rightarrow> TaskLock \<Rightarrow> unit command" where
  "write_lock task_id lock =
     bindE (getsE (read_lock task_id)) (\<lambda>existing.
     thenE (guardE (existing = None) (launch_error ''lock file exists''))
       (modifyE (update_lock task_id lock)))"

definition remove_lock :: "string \<Rightarrow> ledger \<Rightarrow> ledger" where
  "remove_lock task_id l = l\<lparr>l_locks := dir_remove task_id (l_locks l)\<rparr>"

definition save_lock :: "string \<Rightarrow> TaskLock \<Rightarrow> unit command" where
  "save_lock task_id lock =
     bindE (getsE (read_lock task_id)) (\<lambda>existing.
     case existing of
       Some _ \<Rightarrow> modifyE (update_lock task_id lock)
     | None \<Rightarrow> write_lock task_id lock)"

definition load_active_locks :: "ledger \<Rightarrow> TaskLock list" where
  "load_active_locks l =
     map snd (sort_key fst (filter (\<lambda>(k, _). startswith k ''task-'') (l_locks l)))"

section \<open>Laws of directories\<close>

locale directory =
  fixes get :: "'d \<Rightarrow> string \<Rightarrow> 'r option"
    and put :: "string \<Rightarrow> 'r \<Rightarrow> 'd \<Rightarrow> 'd"
    and remove :: "string \<Rightarrow> 'd \<Rightarrow> 'd"
  assumes get_put: "get (put k r d) k' = (if k' = k then Some r else get d k')"
    and get_remove: "get (remove k d) k' = (if k' = k then None else get d k')"
begin

lemma get_put_same: "get (put k r d) k = Some r"
  by (simp add: get_put)

lemma get_put_other: "k' \<noteq> k \<Longrightarrow> get (put k r d) k' = get d k'"
  by (simp add: get_put)

lemma put_put: "get (put k r (put k r' d)) = get (put k r d)"
  by (rule ext) (simp add: get_put)

lemma remove_put: "get d k = None \<Longrightarrow> get (remove k (put k r d)) = get d"
  by (rule ext) (simp add: get_put get_remove)

end

lemma dir_get_put: "dir_get (dir_put k r d) k' = (if k' = k then Some r else dir_get d k')"
  by (induction d) (auto simp: dir_get_def)

lemma dir_get_remove: "dir_get (dir_remove k d) k' = (if k' = k then None else dir_get d k')"
  by (induction d) (auto simp: dir_get_def dir_remove_def)

interpretation dir: directory dir_get dir_put dir_remove
  by unfold_locales (simp_all add: dir_get_put dir_get_remove)

text \<open>
  A directory is well-formed when no file name occurs twice and every file holds the record
  its name says.
\<close>

definition dir_ok :: "('r \<Rightarrow> string) \<Rightarrow> 'r dir \<Rightarrow> bool" where
  "dir_ok key d \<longleftrightarrow> distinct (map fst d) \<and> (\<forall>(k, r) \<in> set d. key r = k)"

lemma dir_get_mem: "dir_get d k = Some r \<Longrightarrow> (k, r) \<in> set d"
  by (simp add: dir_get_def map_of_SomeD)

lemma dir_mem_get: "dir_ok key d \<Longrightarrow> (k, r) \<in> set d \<Longrightarrow> dir_get d k = Some r"
  by (simp add: dir_ok_def dir_get_def)

lemma dir_put_keys: "fst ` set (dir_put k r d) = insert k (fst ` set d)"
  by (induction k r d rule: dir_put.induct) (simp_all add: insert_commute)

lemma dir_put_distinct: "distinct (map fst d) \<Longrightarrow> distinct (map fst (dir_put k r d))"
proof (induction d)
  case (Cons x d)
  then show ?case
    using dir_put_keys [of k r d] by (cases x) auto
qed simp

lemma dir_put_set:
  "distinct (map fst d) \<Longrightarrow> set (dir_put k r d) = insert (k, r) {x \<in> set d. fst x \<noteq> k}"
  by (induction d) force+

lemma dir_ok_Nil [simp]: "dir_ok key []"
  by (simp add: dir_ok_def)

lemma dir_ok_put [intro]: "dir_ok key d \<Longrightarrow> key r = k \<Longrightarrow> dir_ok key (dir_put k r d)"
  by (auto simp: dir_ok_def dir_put_distinct dir_put_set)

lemma dir_ok_remove [intro]: "dir_ok key d \<Longrightarrow> dir_ok key (dir_remove k d)"
  by (auto simp: dir_ok_def dir_remove_def distinct_map_filter)

lemma dir_ok_key: "dir_ok key d \<Longrightarrow> dir_get d k = Some r \<Longrightarrow> key r = k"
  by (auto simp: dir_ok_def dest: dir_get_mem)

lemma dir_glob_all [simp]: "dir_glob [] d = map snd d"
  by (induction d) (auto simp: dir_glob_def)

lemma dir_glob_mem: "r \<in> set (dir_glob p d) \<longleftrightarrow> (\<exists>k. (k, r) \<in> set d \<and> startswith k p)"
  by (force simp: dir_glob_def)

text \<open>
  In a well-formed directory the listing holds a record exactly when its own file holds it.
\<close>

lemma dir_ok_records:
  "dir_ok key d \<Longrightarrow> r \<in> snd ` set d \<longleftrightarrow> dir_get d (key r) = Some r"
  by (force simp: dir_ok_def dir_get_def intro: map_of_is_SomeI dest: map_of_SomeD)

lemma list_runs_mem: "r \<in> set (list_runs t l) \<longleftrightarrow> r \<in> snd ` set (l_runs l t)"
  by (simp add: list_runs_def)

lemma dir_put_records:
  assumes "dir_ok key d" "key r = k"
  shows "snd ` set (dir_put k r d) = insert r {x \<in> snd ` set d. key x \<noteq> k}"
  using assms by (force simp: dir_put_set dir_ok_def)

section \<open>What a resolved reference names\<close>

lemma find_SomeD: "find P xs = Some x \<Longrightarrow> x \<in> set xs \<and> P x"
  by (auto simp: find_Some_iff)

lemma list_tasks_mem:
  "t \<in> set (list_tasks l) \<Longrightarrow> dir_ok tk_id (l_tasks l) \<Longrightarrow> dir_get (l_tasks l) (tk_id t) = Some t"
  by (auto simp: list_tasks_def dir_glob_mem dir_ok_def dir_get_def)

lemma resolve_slug_mem: "resolve_slug b s ts = Inr t \<Longrightarrow> t \<in> set ts"
  by (auto simp: resolve_slug_def split: list.splits if_splits
      dest!: arg_cong [where f = set] Cons_eq_filterD)

text \<open>A resolved task is one that is stored, in the file that carries its id.\<close>

lemma resolve_task_stored:
  assumes "resolve_task E b ref l = Inr t" "dir_ok tk_id (l_tasks l)"
  shows "dir_get (l_tasks l) (tk_id t) = Some t"
  using assms
  by (auto simp: resolve_task_def Let_def list_tasks_mem dir_ok_key
      split: option.splits if_splits dest!: find_SomeD resolve_slug_mem dest: dir_ok_key)

lemma resolve_task_frame:
  "l_tasks l' = l_tasks l \<Longrightarrow> resolve_task E b ref l' = resolve_task E b ref l"
  unfolding resolve_task_def list_tasks_def Let_def by (simp only:)

lemma resolve_run_mem: "resolve_run E t ref l = Inr r \<Longrightarrow> r \<in> set (list_runs t l)"
  unfolding resolve_run_def bindR_def
  by (auto split: sum.splits option.splits dest: find_SomeD)

lemma resolve_plan_mem: "resolve_plan t v l = Inr p \<Longrightarrow> p \<in> set (list_plans t l)"
  by (auto simp: resolve_plan_def Let_def split: option.splits if_splits dest!: find_SomeD)

lemma resolve_plan_version: "resolve_plan t (Some v) l = Inr p \<Longrightarrow> pl_plan_version p = v"
  by (auto simp: resolve_plan_def Let_def split: option.splits if_splits dest!: find_SomeD)

lemma resolve_question_mem: "resolve_question E t ref l = Inr q \<Longrightarrow> q \<in> set (list_questions t l)"
  unfolding resolve_question_def bindR_def
  by (auto split: sum.splits option.splits dest: find_SomeD)

section \<open>Replacing text\<close>

lemma py_replace_char: "py_replace [c] [] s = filter (\<lambda>x. x \<noteq> c) s"
  by (induction s) auto

lemma py_replace_absent: "c \<in> set old \<Longrightarrow> c \<notin> set s \<Longrightarrow> py_replace old new s = s"
proof (induction s)
  case (Cons x s)
  then show ?case
    by (auto simp: startswith_iff Cons_eq_append_conv)
qed simp

text \<open>
  The colons are gone before the offset is looked for, so \<open>compact_timestamp\<close> never writes
  \<open>Z\<close> in place of an offset.
\<close>

lemma compact_timestamp_filter:
  "compact_timestamp ts = filter (\<lambda>c. c \<noteq> CHR '':'' \<and> c \<noteq> CHR ''-'') ts"
proof -
  have "CHR '':'' \<notin> set (py_replace ''-'' [] (py_replace '':'' [] ts))"
    by (simp add: py_replace_char)
  then have "compact_timestamp ts = py_replace ''-'' [] (py_replace '':'' [] ts)"
    unfolding compact_timestamp_def by (rule py_replace_absent [rotated]) simp
  then show ?thesis
    by (simp add: py_replace_char conj_commute)
qed

lemma dir_get_fold_put:
  assumes "\<And>p q. p \<in> set ps \<Longrightarrow> q \<in> set ps \<Longrightarrow> key p = key q \<Longrightarrow> p = q"
  shows "p \<in> set ps \<Longrightarrow> dir_get (fold (\<lambda>p. dir_put (key p) (f p)) ps d) (key p) = Some (f p)"
    and "k \<notin> key ` set ps \<Longrightarrow> dir_get (fold (\<lambda>p. dir_put (key p) (f p)) ps d) k = dir_get d k"
  using assms
proof (induction ps rule: rev_induct)
  case (snoc q ps)
  {
    case 1
    then show ?case
      using snoc.IH(1) by (cases "p \<in> set ps") (auto simp: dir_get_put)
  next
    case 2
    then show ?case using snoc.IH(2) by (auto simp: dir_get_put)
  }
qed simp_all

lemma dir_ok_fold_put:
  "dir_ok key d \<Longrightarrow> (\<And>p. p \<in> set ps \<Longrightarrow> key (f p) = key' p)
    \<Longrightarrow> dir_ok key (fold (\<lambda>p. dir_put (key' p) (f p)) ps d)"
  by (induction ps arbitrary: d) (auto intro!: dir_ok_put)

text \<open>Rewriting every record of a directory with a function that keeps its name.\<close>

lemma dir_rewrite:
  assumes ok: "dir_ok key d" and ps: "set ps = snd ` set d" and f: "\<And>p. key (f p) = key p"
  defines "d' \<equiv> fold (\<lambda>p. dir_put (key p) (f p)) ps d"
  shows "dir_ok key d'" "snd ` set d' = f ` set ps"
proof -
  have old: "p \<in> set ps \<longleftrightarrow> dir_get d (key p) = Some p" for p
    unfolding ps by (rule dir_ok_records [OF ok])
  have inj: "p = q" if "p \<in> set ps" "q \<in> set ps" "key p = key q" for p q
    using that(1,2) unfolding old that(3) by simp
  have get: "dir_get d' (key p) = Some (f p)" if "p \<in> set ps" for p
    unfolding d'_def by (rule dir_get_fold_put(1) [OF inj that])
  show ok': "dir_ok key d'"
    unfolding d'_def by (rule dir_ok_fold_put [OF ok]) (rule f)
  have new: "r \<in> snd ` set d' \<longleftrightarrow> dir_get d' (key r) = Some r" for r
    by (rule dir_ok_records [OF ok'])
  have "r \<in> f ` set ps" if r: "dir_get d' (key r) = Some r" for r
  proof (cases "key r \<in> key ` set ps")
    case True
    then obtain p where p: "p \<in> set ps" "key r = key p" by blast
    then have "r = f p" using r unfolding p(2) get [OF p(1)] by simp
    then show ?thesis using p(1) by blast
  next
    case False
    have "dir_get d' (key r) = dir_get d (key r)"
      unfolding d'_def by (rule dir_get_fold_put(2) [OF inj False])
    then have "dir_get d (key r) = Some r" using r by (rule trans [OF sym])
    then show ?thesis using False old by blast
  qed
  moreover have "dir_get d' (key (f p)) = Some (f p)" if "p \<in> set ps" for p
    unfolding f by (rule get [OF that])
  ultimately show "snd ` set d' = f ` set ps"
    unfolding set_eq_iff new by blast
qed

section \<open>What a directory holds\<close>

lemma distinct_records: "dir_ok key d \<Longrightarrow> distinct (map snd d)"
proof -
  assume ok: "dir_ok key d"
  then have "map fst d = map key (map snd d)" by (auto simp: dir_ok_def)
  then show ?thesis using ok unfolding dir_ok_def by (metis distinct_map)
qed

lemma set_puts:
  assumes "distinct (map fst d)" "distinct (map fst entries)"
  shows "set (foldl (\<lambda>d (k, r). dir_put k r d) d entries)
      = set entries \<union> {x \<in> set d. fst x \<notin> fst ` set entries}
    \<and> distinct (map fst (foldl (\<lambda>d (k, r). dir_put k r d) d entries))"
  using assms
proof (induction entries arbitrary: d)
  case (Cons e es)
  obtain k r where e: "e = (k, r)" by fastforce
  show ?case
    using Cons.IH [of "dir_put k r d"] Cons.prems
    by (auto simp: e dir_put_set dir_put_distinct image_iff)
qed simp

lemma collection_records:
  assumes "distinct (map fst d)" "distinct (map fst entries)"
    "list_all (\<lambda>e. startswith (fst e) prefix) entries"
  shows "mset (dir_glob prefix (save_collection prefix entries d)) = mset (map snd entries)"
proof -
  let ?c = "save_collection prefix entries d"
  let ?g = "filter (\<lambda>(k, _). startswith k prefix) ?c"
  have d: "distinct (map fst ?g)"
    using set_puts [OF assms(1,2)] by (auto simp: save_collection_def distinct_map_filter)
  have "set ?g = set entries"
    using set_puts [OF assms(1,2)] assms(3)
    by (auto simp: save_collection_def list_all_iff rev_image_eqI)
  moreover have "distinct ?g" "distinct entries"
    using d assms(2) by (simp_all add: distinct_map)
  ultimately have "mset ?g = mset entries" using set_eq_iff_mset_eq_distinct by blast
  then show ?thesis unfolding dir_glob_def mset_map by (rule arg_cong)
qed

end
