(* ===== verification/Locks.thy ===== *)
theory Locks
  imports Policies CodecRecords Store
begin

text \<open>
  Locks and runs: \<open>taskledger/storage/locks.py\<close>, the shared helpers of
  \<open>taskledger/services/tasks.py\<close> (\<open>_start_run\<close>, \<open>_acquire_lock\<close>, \<open>_release_lock\<close> and so
  on), \<open>services/run_store.py\<close>, \<open>services/task_queries.py\<close> and
  \<open>services/phase5_lock_transfer.py\<close>. The invariant \<open>run_inv\<close> says that a task has at most
  one running run and that every lock names the running run of its kind.
\<close>

section \<open>Errors of the services\<close>

definition cli_error :: "string \<Rightarrow> int \<Rightarrow> error" where
  "cli_error tag exit_code = (launch_error tag)\<lparr>err_exit := exit_code\<rparr>"

definition coded_error :: "string \<Rightarrow> error_code \<Rightarrow> int \<Rightarrow> error" where
  "coded_error tag code exit_code = (cli_error tag exit_code)\<lparr>err_code := code\<rparr>"

definition stale_lock_error :: error where
  "stale_lock_error = cli_error ''stale lock'' EXIT_CODE_STALE_LOCK_REQUIRES_BREAK"

definition running_run_conflict_error :: error where
  "running_run_conflict_error =
     coded_error ''running run'' E_RUNNING_RUN_CONFLICT EXIT_CODE_LOCK_CONFLICT"

definition enforce_decision :: "Decision \<Rightarrow> unit command" where
  "enforce_decision d = guardE (d_allowed d) (cli_error (d_message d) (d_exit_code d))"

definition ensure_not_archived :: "TaskRecord \<Rightarrow> unit command" where
  "ensure_not_archived task =
     guardE (\<not> is_archived_task task) (cli_error ''archived task'' EXIT_CODE_INVALID_TRANSITION)"

section \<open>Expiry\<close>

definition lock_is_expired :: "env \<Rightarrow> TaskLock \<Rightarrow> error + bool" where
  "lock_is_expired E lock =
     (case lk_expires_at lock of
        None \<Rightarrow> Inr False
      | Some text \<Rightarrow>
          (case fromisoformat text of
             None \<Rightarrow> Inl (launch_error ''lock expiration'')
           | Some expires_at \<Rightarrow>
               if dt_offset expires_at = None then Inl (mk_error C_TypeError ''naive datetime'')
               else Inr (instant expires_at < instant (e_clock E))))"

section \<open>Reading runs, plans and locks\<close>

definition current_lock :: "string \<Rightarrow> ledger \<Rightarrow> TaskLock option" where
  "current_lock task_id l = read_lock task_id l"

definition lock_for_mutation :: "env \<Rightarrow> string \<Rightarrow> TaskLock option command" where
  "lock_for_mutation E task_id =
     bindE (getsE (current_lock task_id)) (\<lambda>lock.
     case lock of
       None \<Rightarrow> returnE None
     | Some l \<Rightarrow>
         bindE (liftE (lock_is_expired E l)) (\<lambda>expired.
         thenE (guardE (\<not> expired) stale_lock_error) (returnE lock)))"

definition require_lock :: "env \<Rightarrow> string \<Rightarrow> TaskLock command" where
  "require_lock E task_id =
     bindE (getsE (current_lock task_id)) (\<lambda>lock.
     case lock of
       None \<Rightarrow> raiseE (cli_error ''no active lock'' EXIT_CODE_LOCK_CONFLICT)
     | Some l \<Rightarrow>
         bindE (liftE (lock_is_expired E l)) (\<lambda>expired.
         thenE (guardE (\<not> expired) stale_lock_error) (returnE l)))"

definition running_runs :: "TaskRecord \<Rightarrow> ledger \<Rightarrow> TaskRunRecord list" where
  "running_runs task l = filter (\<lambda>r. rn_status r = RS_running) (list_runs (tk_id task) l)"

definition lock_matches_run ::
  "env \<Rightarrow> TaskLock option \<Rightarrow> TaskRunRecord \<Rightarrow> error + bool" where
  "lock_matches_run E lock run =
     (case lock of
        None \<Rightarrow> Inr False
      | Some l \<Rightarrow>
          bindR (lock_is_expired E l) (\<lambda>expired.
          Inr (\<not> expired \<and> lk_run_id l = rn_run_id run
               \<and> lk_stage l = stage_of_run_type (rn_run_type run))))"

definition optional_run :: "env \<Rightarrow> TaskRecord \<Rightarrow> string option \<Rightarrow> ledger \<Rightarrow> TaskRunRecord option" where
  "optional_run E task run_id l =
     (case run_id of
        None \<Rightarrow> None
      | Some i \<Rightarrow> (case resolve_run E (tk_id task) i l of Inr r \<Rightarrow> Some r | Inl _ \<Rightarrow> None))"

definition require_run :: "env \<Rightarrow> TaskRecord \<Rightarrow> string option \<Rightarrow> ledger \<Rightarrow> error + TaskRunRecord" where
  "require_run E task run_id l =
     (case run_id of
        None \<Rightarrow> Inl (cli_error ''no run recorded'' EXIT_CODE_MISSING)
      | Some i \<Rightarrow> resolve_run E (tk_id task) i l)"

definition require_running_run ::
  "env \<Rightarrow> TaskRecord \<Rightarrow> string option \<Rightarrow> RunType \<Rightarrow> ledger \<Rightarrow> error + TaskRunRecord" where
  "require_running_run E task run_id expected_type l =
     bindR (require_run E task run_id l) (\<lambda>run.
     if rn_run_type run \<noteq> expected_type \<or> rn_status run \<noteq> RS_running
     then Inl (cli_error ''no running run'' EXIT_CODE_INVALID_TRANSITION)
     else Inr run)"

definition accepted_plan_record_or_none :: "TaskRecord \<Rightarrow> ledger \<Rightarrow> PlanRecord option" where
  "accepted_plan_record_or_none task l =
     (case tk_accepted_plan_version task of
        None \<Rightarrow> None
      | Some v \<Rightarrow>
          (case resolve_plan (tk_id task) (Some v) l of
             Inl _ \<Rightarrow> None
           | Inr p \<Rightarrow> if pl_status p = PS_accepted then Some p else None))"

definition require_accepted_plan_record :: "TaskRecord \<Rightarrow> ledger \<Rightarrow> error + PlanRecord" where
  "require_accepted_plan_record task l =
     (case tk_accepted_plan_version task of
        None \<Rightarrow> Inl (cli_error ''no accepted plan version'' EXIT_CODE_APPROVAL_REQUIRED)
      | Some v \<Rightarrow>
          (case accepted_plan_record_or_none task l of
             Some p \<Rightarrow> Inr p
           | None \<Rightarrow>
               (case resolve_plan (tk_id task) (Some v) l of
                  Inl _ \<Rightarrow> Inl (cli_error ''no stored plan'' EXIT_CODE_APPROVAL_REQUIRED)
                | Inr p \<Rightarrow>
                    if pl_status p \<noteq> PS_accepted
                    then Inl (cli_error ''plan not accepted'' EXIT_CODE_APPROVAL_REQUIRED)
                    else Inr p)))"

definition latest_plan_or_none :: "string \<Rightarrow> ledger \<Rightarrow> PlanRecord option" where
  "latest_plan_or_none task_id l =
     (let plans = list_plans task_id l in if plans = [] then None else Some (last plans))"

definition resumable_implementation_run ::
  "env \<Rightarrow> TaskRecord \<Rightarrow> TaskLock option \<Rightarrow> ledger \<Rightarrow> TaskRunRecord option" where
  "resumable_implementation_run E task lock l =
     (if lock \<noteq> None then None
      else case optional_run E task (tk_latest_implementation_run task) l of
        None \<Rightarrow> None
      | Some run \<Rightarrow>
          if rn_run_type run = RT_implementation \<and> rn_status run = RS_running
             \<and> accepted_plan_record_or_none task l \<noteq> None
          then Some run else None)"

section \<open>Dependencies\<close>

definition has_user_waiver :: "DependencyWaiver option \<Rightarrow> bool" where
  "has_user_waiver waiver \<longleftrightarrow>
     (case waiver of None \<Rightarrow> False | Some w \<Rightarrow> ar_actor_type (dw_actor w) = AT_user)"

text \<open>The required tasks that are neither waived nor done; a missing task raises.\<close>

fun incomplete_requirements ::
  "env \<Rightarrow> DependencyRequirement list \<Rightarrow> ledger \<Rightarrow> error + TaskRecord list" where
  "incomplete_requirements E [] l = Inr []"
| "incomplete_requirements E (r # rs) l =
     (if has_user_waiver (dr_waiver r) then incomplete_requirements E rs l
      else bindR (resolve_task E False (dr_task_id r) l) (\<lambda>required.
           bindR (incomplete_requirements E rs l) (\<lambda>rest.
           Inr (if tk_status_stage required \<noteq> S_done then required # rest else rest))))"

definition dependency_blockers :: "env \<Rightarrow> TaskRecord \<Rightarrow> ledger \<Rightarrow> error + TaskRecord list" where
  "dependency_blockers E task l =
     incomplete_requirements E (load_requirements (tk_id task) l) l"

definition ensure_dependencies_done :: "env \<Rightarrow> TaskRecord \<Rightarrow> unit command" where
  "ensure_dependencies_done E task =
     bindE (readE (dependency_blockers E task)) (\<lambda>blocked.
     guardE (blocked = []) (cli_error ''dependencies'' EXIT_CODE_DEPENDENCY_BLOCKED))"

section \<open>Acquiring and releasing\<close>

definition lock_prefix :: "datetime \<Rightarrow> string" where
  "lock_prefix d =
     ''lock-'' @ pad 4 (dt_year d) @ pad 2 (dt_month d) @ pad 2 (dt_day d) @ ''T''
     @ pad 2 (dt_hour d) @ pad 2 (dt_minute d) @ pad 2 (dt_second d) @ ''Z''"

definition next_lock_id :: "env \<Rightarrow> ledger \<Rightarrow> string" where
  "next_lock_id E l =
     (let prefix = lock_prefix (e_clock E);
          broken = filter (\<lambda>((t, stem), _). startswith t ''task-'' \<and> startswith stem ''broken-lock-'')
                     (l_audit l);
          existing = map lk_lock_id (load_active_locks l)
            @ map (\<lambda>((_, stem), _). removeprefix stem ''broken-'') broken;
          sequence = length (filter (\<lambda>i. startswith i prefix) existing) + 1
      in prefix @ ''-'' @ zpad 4 (nat_str sequence))"

definition new_lock ::
  "env \<Rightarrow> TaskRecord \<Rightarrow> ActiveTaskStatusStage \<Rightarrow> TaskRunRecord \<Rightarrow> string \<Rightarrow> ActorRef option
    \<Rightarrow> HarnessRef option \<Rightarrow> ledger \<Rightarrow> TaskLock" where
  "new_lock E task stage run reason actor harness l =
     \<lparr>lk_lock_id = next_lock_id E l, lk_task_id = tk_id task, lk_stage = stage,
      lk_run_id = rn_run_id run, lk_created_at = isoformat (e_clock E),
      lk_expires_at = Some (isoformat (add_hours 2 (e_clock E))), lk_reason = reason,
      lk_holder = actor_or E actor, lk_lease_seconds = 7200,
      lk_last_heartbeat_at = Some (isoformat (e_clock E)), lk_broken_at = None,
      lk_broken_by = None, lk_broken_reason = None, lk_actor = Some (actor_or E actor),
      lk_harness = harness, lk_transfer_history = [], lk_transfer_date = None,
      lk_file_version = TASKLEDGER_V2_FILE_VERSION,
      lk_schema_version = TASKLEDGER_SCHEMA_VERSION, lk_object_type = ''lock''\<rparr>"

definition lock_ref_data :: "TaskLock \<Rightarrow> pydict" where
  "lock_ref_data lock =
     [(''lock_id'', PStr (lk_lock_id lock)),
      (''stage'', PStr (enum_name lock_stage_names (lk_stage lock)))]"

definition stage_data :: "ActiveTaskStatusStage \<Rightarrow> string \<Rightarrow> pydict" where
  "stage_data stage run_id =
     [(''stage'', PStr (enum_name lock_stage_names stage)), (''run_id'', PStr run_id)]"

definition acquire_lock ::
  "env \<Rightarrow> TaskRecord \<Rightarrow> ActiveTaskStatusStage \<Rightarrow> TaskRunRecord \<Rightarrow> string \<Rightarrow> ActorRef option
    \<Rightarrow> HarnessRef option \<Rightarrow> TaskLock command" where
  "acquire_lock E task stage run reason actor harness =
     bindE (getsE (read_lock (tk_id task))) (\<lambda>existing.
     case existing of
       Some lock \<Rightarrow>
         bindE (liftE (lock_is_expired E lock)) (\<lambda>expired.
         thenE (guardE (\<not> expired) stale_lock_error)
         (thenE (guardE (lk_run_id lock = rn_run_id run)
                  (cli_error ''lock conflict'' EXIT_CODE_LOCK_CONFLICT))
           (returnE lock)))
     | None \<Rightarrow>
         bindE (getsE (new_lock E task stage run reason actor harness)) (\<lambda>lock.
         thenE (catchE (write_lock (tk_id task) lock)
                  (\<lambda>e. raiseE (if is_launch_error e
                         then cli_error ''lock conflict'' EXIT_CODE_LOCK_CONFLICT else e)))
         (thenE (modifyE (append_event E (tk_id task) ''lock.acquired'' (TaskLock_to_dict lock)))
         (thenE (modifyE (append_event E (tk_id task) ''stage.entered''
                  (stage_data stage (rn_run_id run))))
           (returnE lock)))))"

definition release_lock ::
  "env \<Rightarrow> TaskRecord \<Rightarrow> ActiveTaskStatusStage \<Rightarrow> string \<Rightarrow> TaskStatusStage \<Rightarrow> string
    \<Rightarrow> pydict \<Rightarrow> bool \<Rightarrow> unit command" where
  "release_lock E task expected_stage run_id target_stage event_name extra_data delete_only =
     bindE (getsE (read_lock (tk_id task))) (\<lambda>existing.
     case existing of
       None \<Rightarrow> raiseE (cli_error ''no lock to release'' EXIT_CODE_LOCK_CONFLICT)
     | Some lock \<Rightarrow>
         thenE (guardE (lk_stage lock = expected_stage \<and> lk_run_id lock = run_id)
                 (cli_error ''lock mismatch'' EXIT_CODE_LOCK_CONFLICT))
         (thenE (modifyE (append_event E (tk_id task) event_name
                  (stage_data expected_stage run_id @ extra_data)))
         (thenE (modifyE (remove_lock (tk_id task)))
         (thenE (modifyE (append_event E (tk_id task) ''lock.released'' (lock_ref_data lock)))
           (whenE (\<not> delete_only)
             (modifyE (save_task (task\<lparr>tk_status_stage := target_stage,
                tk_updated_at := e_now E\<rparr>))))))))"

definition write_broken_lock_audit :: "env \<Rightarrow> string \<Rightarrow> TaskLock \<Rightarrow> ledger \<Rightarrow> ledger" where
  "write_broken_lock_audit E task_id lock l =
     (let stem = ''broken-lock-'' @ compact_timestamp (str_or (lk_broken_at lock) (e_now E))
      in l\<lparr>l_audit := filter (\<lambda>(k, _). k \<noteq> (task_id, stem)) (l_audit l) @ [((task_id, stem), lock)]\<rparr>)"

definition release_expired_lock :: "env \<Rightarrow> string \<Rightarrow> TaskLock \<Rightarrow> string \<Rightarrow> unit command" where
  "release_expired_lock E task_id lock reason =
     thenE (modifyE (write_broken_lock_audit E task_id
       (lock\<lparr>lk_broken_at := Some (e_now E), lk_broken_reason := Some reason\<rparr>)))
     (thenE (modifyE (remove_lock task_id))
       (modifyE (append_event E task_id ''lock.expired_released''
         (lock_ref_data lock @ [(''run_id'', PStr (lk_run_id lock)), (''reason'', PStr reason)]))))"

definition break_lock :: "env \<Rightarrow> string \<Rightarrow> string \<Rightarrow> TaskLock command" where
  "break_lock E task_ref reason =
     bindE (readE (resolve_task E False task_ref)) (\<lambda>task.
     bindE (getsE (read_lock (tk_id task))) (\<lambda>existing.
     case existing of
       None \<Rightarrow> raiseE (cli_error ''no lock to break'' EXIT_CODE_MISSING)
     | Some lock \<Rightarrow>
         (let broken = lock\<lparr>lk_broken_at := Some (e_now E), lk_broken_by := Some (default_actor E),
                lk_broken_reason := Some (strip reason)\<rparr>;
              data = [(''lock_id'', PStr (lk_lock_id lock)), (''reason'', PStr reason)]
          in thenE (modifyE (write_broken_lock_audit E (tk_id task) broken))
             (thenE (modifyE (append_event E (tk_id task) ''lock.broken'' data))
             (thenE (modifyE (append_event E (tk_id task) ''repair.lock_broken'' data))
             (thenE (modifyE (remove_lock (tk_id task)))
               (returnE broken)))))))"

section \<open>Transfer\<close>

definition actor_label :: "ActorRef \<Rightarrow> string" where
  "actor_label a = enum_name actor_type_names (ar_actor_type a) @ '':'' @ ar_actor_name a"

definition transferred_lock :: "env \<Rightarrow> TaskLock \<Rightarrow> ActorRef \<Rightarrow> HarnessRef \<Rightarrow> TaskLock" where
  "transferred_lock E lock to_actor to_harness =
     lock\<lparr>lk_holder := to_actor, lk_actor := Some to_actor, lk_harness := Some to_harness,
       lk_transfer_history := lk_transfer_history lock @
         [(PStr (lk_lock_id lock), PStr (actor_label (lk_holder lock)), PStr (actor_label to_actor))],
       lk_transfer_date := Some (e_now E), lk_file_version := TASKLEDGER_V2_FILE_VERSION,
       lk_schema_version := TASKLEDGER_SCHEMA_VERSION, lk_object_type := ''lock''\<rparr>"

definition transfer_lock ::
  "env \<Rightarrow> string \<Rightarrow> string \<Rightarrow> ActorRef \<Rightarrow> HarnessRef \<Rightarrow> TaskLock command" where
  "transfer_lock E task_id lock_id to_actor to_harness =
     bindE (getsE (read_lock task_id)) (\<lambda>existing.
     case existing of
       None \<Rightarrow> raiseE (launch_error ''lock not found'')
     | Some lock \<Rightarrow>
         thenE (guardE (lk_lock_id lock = lock_id) (launch_error ''lock id mismatch''))
         (let updated = transferred_lock E lock to_actor to_harness
          in thenE (save_lock task_id updated) (returnE updated)))"

definition handoff_release_lock :: "env \<Rightarrow> string \<Rightarrow> string \<Rightarrow> TaskLock command" where
  "handoff_release_lock E task_id lock_id =
     bindE (getsE (read_lock task_id)) (\<lambda>existing.
     case existing of
       None \<Rightarrow> raiseE (launch_error ''lock not found'')
     | Some lock \<Rightarrow>
         thenE (guardE (lk_lock_id lock = lock_id) (launch_error ''lock id mismatch''))
         (let updated = lock\<lparr>lk_transfer_date := Some (e_now E),
                lk_file_version := TASKLEDGER_V2_FILE_VERSION,
                lk_schema_version := TASKLEDGER_SCHEMA_VERSION, lk_object_type := ''lock''\<rparr>
          in thenE (save_lock task_id updated) (returnE updated)))"

section \<open>Starting a run\<close>

fun lock_reason :: "RunType \<Rightarrow> string" where
  "lock_reason RT_planning = ''plan task''"
| "lock_reason RT_implementation = ''implement approved plan''"
| "lock_reason RT_validation = ''validate implementation''"

definition new_run ::
  "env \<Rightarrow> TaskRecord \<Rightarrow> RunType \<Rightarrow> ActorRef option \<Rightarrow> HarnessRef option \<Rightarrow> ledger
    \<Rightarrow> TaskRunRecord" where
  "new_run E task run_type actor harness l =
     \<lparr>rn_run_id = next_project_id E ''run'' (map rn_run_id (list_runs (tk_id task) l)),
      rn_task_id = tk_id task, rn_run_type = run_type, rn_status = RS_running,
      rn_started_at = e_now E, rn_finished_at = None, rn_actor = actor_or E actor,
      rn_harness = harness,
      rn_based_on_plan_version =
        opt_int_or (tk_accepted_plan_version task) (tk_latest_plan_version task),
      rn_based_on_implementation_run = None, rn_resumes_run_id = None, rn_summary = None,
      rn_worklog = [], rn_deviations_from_plan = [], rn_change_refs = [], rn_check_refs = [],
      rn_todo_updates = [], rn_artifact_refs = [], rn_checks = [], rn_evidence = [],
      rn_recommendation = None, rn_result = None, rn_handoff_refs = [], rn_actor_history = [],
      rn_file_version = TASKLEDGER_V2_FILE_VERSION, rn_based_on_plan = None,
      rn_schema_version = TASKLEDGER_SCHEMA_VERSION, rn_object_type = ''run'',
      rn_workspace_git_commit = None, rn_workspace_dirty = None, rn_workspace_diff_hash = None,
      rn_workspace_status_hash = None, rn_workspace_snapshot_at = None\<rparr>"

definition start_run ::
  "env \<Rightarrow> TaskRecord \<Rightarrow> RunType \<Rightarrow> ActiveTaskStatusStage \<Rightarrow> ActorRef option
    \<Rightarrow> HarnessRef option \<Rightarrow> TaskRunRecord command" where
  "start_run E task run_type stage actor harness =
     bindE (getsE (current_lock (tk_id task))) (\<lambda>existing.
     thenE
       (case existing of
          None \<Rightarrow> returnE ()
        | Some lock \<Rightarrow>
            bindE (liftE (lock_is_expired E lock)) (\<lambda>expired.
            if expired then raiseE stale_lock_error
            else raiseE (cli_error ''lock conflict'' EXIT_CODE_LOCK_CONFLICT)))
     (bindE (getsE (running_runs task)) (\<lambda>running.
      thenE (guardE (running = []) running_run_conflict_error)
     (bindE (getsE (new_run E task run_type actor harness)) (\<lambda>run.
      thenE (modifyE (save_run run))
     (thenE (acquire_lock E task stage run (lock_reason run_type) (Some (rn_actor run)) harness)
       (returnE run)))))))"

section \<open>What a lifecycle command returns\<close>

record payload =
  p_command :: string
  p_task_id :: string
  p_status :: TaskStatusStage
  p_active_stage :: "RunType option"
  p_changed :: bool
  p_warnings :: "string list"
  p_lock :: "TaskLock option"
  p_plan_version :: "int option"
  p_run :: "TaskRunRecord option"
  p_result :: "string option"

definition lifecycle_payload ::
  "string \<Rightarrow> TaskRecord \<Rightarrow> string list \<Rightarrow> bool \<Rightarrow> int option \<Rightarrow> TaskRunRecord option
    \<Rightarrow> TaskLock option \<Rightarrow> string option \<Rightarrow> payload" where
  "lifecycle_payload command task warnings changed plan_version run lock result =
     \<lparr>p_command = command, p_task_id = tk_id task, p_status = tk_status_stage task,
      p_active_stage = (case (lock, run) of
          (Some _, Some r) \<Rightarrow> derive_active_stage lock [r] | _ \<Rightarrow> None),
      p_changed = changed, p_warnings = warnings, p_lock = lock, p_plan_version = plan_version,
      p_run = run, p_result = result\<rparr>"

text \<open>\<open>" ".join(text.split())\<close>, and the one-line summary cut at 120 characters.\<close>

fun words_aux :: "string \<Rightarrow> string \<Rightarrow> string list" where
  "words_aux acc [] = (if acc = [] then [] else [acc])"
| "words_aux acc (c # s) =
     (if py_isspace c then (if acc = [] then words_aux [] s else acc # words_aux [] s)
      else words_aux (acc @ [c]) s)"

definition words :: "string \<Rightarrow> string list" where
  "words s = words_aux [] s"

definition summary_line :: "string option \<Rightarrow> string option" where
  "summary_line text =
     map_option (\<lambda>t. let stripped = join '' '' (words t)
       in if length stripped > 120 then take 117 stripped @ ''...'' else stripped) text"

section \<open>One running run, and locks that name it\<close>

definition runs_of :: "ledger \<Rightarrow> string \<Rightarrow> TaskRunRecord set" where
  "runs_of l t = snd ` set (l_runs l t)"

definition lock_backed :: "ledger \<Rightarrow> string \<Rightarrow> bool" where
  "lock_backed l t \<longleftrightarrow>
     (\<forall>k. read_lock t l = Some k \<longrightarrow>
        lk_task_id k = t \<and> (\<exists>r \<in> runs_of l t. run_matches_lock k r))"

definition run_inv :: "ledger \<Rightarrow> bool" where
  "run_inv l \<longleftrightarrow>
     dir_ok tk_id (l_tasks l)
     \<and> (\<forall>t. dir_ok rn_run_id (l_runs l t))
     \<and> (\<forall>t. \<forall>r \<in> runs_of l t. rn_task_id r = t)
     \<and> (\<forall>t. \<forall>r \<in> runs_of l t. \<forall>r' \<in> runs_of l t.
          rn_status r = RS_running \<and> rn_status r' = RS_running \<longrightarrow> r = r')
     \<and> (\<forall>t. lock_backed l t)"

lemma run_inv_empty: "run_inv empty_ledger"
  by (simp add: run_inv_def empty_ledger_def runs_of_def lock_backed_def read_lock_def dir_get_def)

lemma run_invD:
  assumes "run_inv l"
  shows run_inv_tasks: "dir_ok tk_id (l_tasks l)"
    and run_inv_dir: "dir_ok rn_run_id (l_runs l t)"
    and run_inv_task: "r \<in> runs_of l t \<Longrightarrow> rn_task_id r = t"
    and run_inv_unique: "r \<in> runs_of l t \<Longrightarrow> r' \<in> runs_of l t \<Longrightarrow> rn_status r = RS_running
      \<Longrightarrow> rn_status r' = RS_running \<Longrightarrow> r = r'"
    and run_inv_lock: "lock_backed l t"
  using assms by (auto simp: run_inv_def)

text \<open>Only the task files, the run files and the locks matter.\<close>

lemma run_inv_frame:
  "l_tasks l' = l_tasks l \<Longrightarrow> l_runs l' = l_runs l \<Longrightarrow> l_locks l' = l_locks l
    \<Longrightarrow> run_inv l' = run_inv l"
  unfolding run_inv_def lock_backed_def read_lock_def runs_of_def by simp

lemma run_inv_save_task [intro]: "run_inv l \<Longrightarrow> run_inv (save_task t l)"
  by (auto simp: run_inv_def runs_of_def lock_backed_def read_lock_def save_task_def persist_task_def)

lemma append_event_frame [simp]:
  "l_tasks (append_event E t n d l) = l_tasks l" "l_runs (append_event E t n d l) = l_runs l"
  "l_locks (append_event E t n d l) = l_locks l" "l_plans (append_event E t n d l) = l_plans l"
  "l_questions (append_event E t n d l) = l_questions l"
  "l_todos (append_event E t n d l) = l_todos l"
  "l_requirements (append_event E t n d l) = l_requirements l"
  "l_handoffs (append_event E t n d l) = l_handoffs l"
  "l_active (append_event E t n d l) = l_active l"
  "read_lock k (append_event E t n d l) = read_lock k l"
  "runs_of (append_event E t n d l) k = runs_of l k"
  by (simp_all add: append_event_def append_event_as_def read_lock_def runs_of_def)

lemma run_inv_frames [simp]:
  "run_inv (append_event E t n d l) = run_inv l"
  "run_inv (overwrite_plan p l) = run_inv l"
  "run_inv (save_question q l) = run_inv l"
  "run_inv (save_todos k ts l) = run_inv l"
  "run_inv (save_links E k fs l) = run_inv l"
  "run_inv (save_requirements k rs l) = run_inv l"
  "run_inv (save_change c l) = run_inv l"
  "run_inv (save_handoff h l) = run_inv l"
  "run_inv (save_active_task_state st l) = run_inv l"
  "run_inv (clear_active_task_state l) = run_inv l"
  "run_inv (write_broken_lock_audit E k lk l) = run_inv l"
  by (rule run_inv_frame; simp add: overwrite_plan_def save_question_def save_todos_def
      save_links_def save_requirements_def save_change_def save_handoff_def
      save_active_task_state_def clear_active_task_state_def write_broken_lock_audit_def Let_def)+

text \<open>The records beside the workflow: none of these writes touches tasks, runs or locks.\<close>

lemma side_write_frames [simp]:
  "l_tasks (save_check c l) = l_tasks l" "l_runs (save_check c l) = l_runs l"
  "l_locks (save_check c l) = l_locks l"
  "l_tasks (save_code_review v l) = l_tasks l" "l_runs (save_code_review v l) = l_runs l"
  "l_locks (save_code_review v l) = l_locks l"
  "l_tasks (save_artifact k n x l) = l_tasks l" "l_runs (save_artifact k n x l) = l_runs l"
  "l_locks (save_artifact k n x l) = l_locks l"
  "l_tasks (save_introduction i l) = l_tasks l" "l_runs (save_introduction i l) = l_runs l"
  "l_locks (save_introduction i l) = l_locks l"
  "l_tasks (put_release k rl l) = l_tasks l" "l_runs (put_release k rl l) = l_runs l"
  "l_locks (put_release k rl l) = l_locks l"
  "l_tasks (save_actor_state st l) = l_tasks l" "l_runs (save_actor_state st l) = l_runs l"
  "l_locks (save_actor_state st l) = l_locks l"
  "l_tasks (save_harness_state sh l) = l_tasks l" "l_runs (save_harness_state sh l) = l_runs l"
  "l_locks (save_harness_state sh l) = l_locks l"
  "l_tasks (append_event_as E ac h k n d l) = l_tasks l" "l_runs (append_event_as E ac h k n d l) = l_runs l"
  "l_locks (append_event_as E ac h k n d l) = l_locks l"
  by (simp_all add: save_check_def save_code_review_def save_artifact_def save_introduction_def
      put_release_def save_actor_state_def save_harness_state_def append_event_as_def)

lemma side_write_runs [simp]:
  "runs_of (save_check c l) t = runs_of l t" "read_lock t (save_check c l) = read_lock t l"
  "runs_of (save_code_review v l) t = runs_of l t" "read_lock t (save_code_review v l) = read_lock t l"
  "runs_of (save_artifact k n x l) t = runs_of l t" "read_lock t (save_artifact k n x l) = read_lock t l"
  "runs_of (save_introduction i l) t = runs_of l t" "read_lock t (save_introduction i l) = read_lock t l"
  "runs_of (put_release k rl l) t = runs_of l t" "read_lock t (put_release k rl l) = read_lock t l"
  "runs_of (save_actor_state st l) t = runs_of l t" "read_lock t (save_actor_state st l) = read_lock t l"
  "runs_of (save_harness_state sh l) t = runs_of l t" "read_lock t (save_harness_state sh l) = read_lock t l"
  "runs_of (append_event_as E ac h k n d l) t = runs_of l t" "read_lock t (append_event_as E ac h k n d l) = read_lock t l"
  by (simp_all add: runs_of_def read_lock_def)

lemma side_write_inv [simp]:
  "run_inv (save_check c l) = run_inv l" "run_inv (save_code_review v l) = run_inv l"
  "run_inv (save_artifact k n x l) = run_inv l" "run_inv (save_introduction i l) = run_inv l"
  "run_inv (put_release k rl l) = run_inv l" "run_inv (save_actor_state st l) = run_inv l"
  "run_inv (save_harness_state sh l) = run_inv l" "run_inv (append_event_as E ac h k n d l) = run_inv l"
  by (rule run_inv_frame; simp)+

lemma list_runs_of: "set (list_runs t l) = runs_of l t"
  by (simp add: list_runs_def runs_of_def)

lemma runs_of_save_run:
  assumes "run_inv l"
  shows "runs_of (save_run r l) t =
    (if t = rn_task_id r then insert (persist_run r) {x \<in> runs_of l t. rn_run_id x \<noteq> rn_run_id r}
     else runs_of l t)"
  using dir_put_records [OF run_inv_dir [OF assms], of "persist_run r" "rn_run_id r"]
  by (simp add: runs_of_def save_run_def persist_run_def)

lemma persist_run_sel [simp]:
  "rn_run_id (persist_run r) = rn_run_id r" "rn_task_id (persist_run r) = rn_task_id r"
  "rn_status (persist_run r) = rn_status r" "rn_run_type (persist_run r) = rn_run_type r"
  by (simp_all add: persist_run_def)

lemma save_frames [simp]:
  "l_tasks (save_run r l) = l_tasks l" "l_locks (save_run r l) = l_locks l"
  "l_runs (save_task u l) = l_runs l" "l_locks (save_task u l) = l_locks l"
  "l_plans (save_run r l) = l_plans l" "l_plans (save_task u l) = l_plans l"
  "read_lock t (save_run r l) = read_lock t l" "read_lock t (save_task u l) = read_lock t l"
  "runs_of (save_task u l) t = runs_of l t"
  by (simp_all add: read_lock_def save_run_def save_task_def runs_of_def)

lemma dir_ok_save_run:
  "run_inv l \<Longrightarrow> dir_ok rn_run_id (l_runs (save_run r l) t)"
  using run_inv_dir [of l] by (auto simp: save_run_def persist_run_def)

text \<open>Saving a run that changes neither identity, kind nor status.\<close>

lemma run_inv_update_run:
  assumes inv: "run_inv l" and r: "r \<in> runs_of l t"
    and same: "rn_run_id r' = rn_run_id r" "rn_task_id r' = t" "rn_run_type r' = rn_run_type r"
      "rn_status r' = rn_status r"
  shows "run_inv (save_run r' l)"
proof -
  have other: "x = r" if "x \<in> runs_of l t" "rn_run_id x = rn_run_id r" for x
    using that r run_inv_dir [OF inv, of t] dir_ok_records [of rn_run_id "l_runs l t"]
    by (metis option.inject runs_of_def)
  have uniq: "rn_run_id x = rn_run_id r"
    if "x \<in> runs_of l t" "rn_status x = RS_running" "rn_status r = RS_running" for x
    using run_inv_unique [OF inv that(1) r] that by simp
  have "lock_backed (save_run r' l) t'" for t'
    using run_inv_lock [OF inv, of t'] other same
    by (auto simp: lock_backed_def runs_of_save_run [OF inv] run_matches_lock_def)
  moreover have "x = y" if "x \<in> runs_of (save_run r' l) t'" "y \<in> runs_of (save_run r' l) t'"
    "rn_status x = RS_running" "rn_status y = RS_running" for x y t'
    using that same uniq [of x] uniq [of y] run_inv_unique [OF inv, of x t' y]
    by (auto simp: runs_of_save_run [OF inv] split: if_splits)
  ultimately show ?thesis
    using inv same dir_ok_save_run [OF inv]
    by (auto simp: run_inv_def runs_of_save_run [OF inv] split: if_splits)
qed

text \<open>A lock of the task of a running run is the lock of that run.\<close>

lemma lock_of_running_run:
  assumes "run_inv l" "r \<in> runs_of l t" "rn_status r = RS_running" "read_lock t l = Some k"
  shows "lk_run_id k = rn_run_id r" "lk_stage k = stage_of_run_type (rn_run_type r)"
proof -
  obtain r' where "r' \<in> runs_of l t" "run_matches_lock k r'"
    using run_inv_lock [OF assms(1), of t] assms(4) by (auto simp: lock_backed_def)
  then have "run_matches_lock k r"
    using run_inv_unique [OF assms(1) _ assms(2)] assms(3) by (auto simp: run_matches_lock_def)
  then show "lk_run_id k = rn_run_id r" "lk_stage k = stage_of_run_type (rn_run_type r)"
    by (auto simp: run_matches_lock_def TaskLock_run_type_def)
qed

text \<open>Ending a run: its record is saved with another status and its lock is gone.\<close>

lemma run_inv_end_run:
  assumes inv: "run_inv l" and ids: "rn_task_id r' = t" "rn_status r' \<noteq> RS_running"
    and l': "l_runs l' = l_runs (save_run r' l)" "dir_ok tk_id (l_tasks l')"
      "\<And>t'. read_lock t' l' = (if t' = t then None else read_lock t' l)"
  shows "run_inv l'"
proof -
  have runs: "runs_of l' t' = runs_of (save_run r' l) t'" for t'
    using l' by (simp add: runs_of_def)
  have "lock_backed l' t'" for t'
    using run_inv_lock [OF inv, of t'] ids
    by (auto simp: lock_backed_def runs l'(3) runs_of_save_run [OF inv] split: option.splits)
  moreover have "x = y" if "x \<in> runs_of l' t'" "y \<in> runs_of l' t'"
    "rn_status x = RS_running" "rn_status y = RS_running" for x y t'
    using that ids run_inv_unique [OF inv, of _ t']
    by (auto simp: runs runs_of_save_run [OF inv] split: if_splits)
  ultimately show ?thesis
    using inv ids l' dir_ok_save_run [OF inv]
    by (auto simp: run_inv_def runs runs_of_save_run [OF inv] split: if_splits)
qed

lemma read_lock_remove [simp]:
  "read_lock t (remove_lock k l) = (if t = k then None else read_lock t l)"
  by (simp add: read_lock_def remove_lock_def dir.get_remove)

lemma run_inv_remove_lock [intro]: "run_inv l \<Longrightarrow> run_inv (remove_lock k l)"
  unfolding run_inv_def lock_backed_def runs_of_def
  by (auto simp: remove_lock_def read_lock_def dir.get_remove split: option.splits)

lemma run_inv_put_lock:
  assumes "run_inv l" "lk_task_id k = t" "r \<in> runs_of l t" "run_matches_lock k r"
  shows "run_inv (update_lock t k l)"
  using assms unfolding run_inv_def lock_backed_def runs_of_def
  by (auto simp: update_lock_def read_lock_def dir.get_put split: option.splits)

section \<open>Rules for the shared steps\<close>

lemma wp_enforce_decision [wp_intro]:
  "(d_allowed d \<Longrightarrow> Q () l) \<Longrightarrow> (\<And>e. \<not> d_allowed d \<Longrightarrow> X e l) \<Longrightarrow> wp (enforce_decision d) Q X l"
  unfolding enforce_decision_def by (intro wp_intro) auto

lemma wp_ensure_not_archived [wp_intro]:
  "(\<not> is_archived_task t \<Longrightarrow> Q () l) \<Longrightarrow> (\<And>e. is_archived_task t \<Longrightarrow> X e l)
    \<Longrightarrow> wp (ensure_not_archived t) Q X l"
  unfolding ensure_not_archived_def by (intro wp_intro) auto

lemma wp_lock_for_mutation [wp_intro]:
  assumes "\<And>k. k = read_lock t l \<Longrightarrow> (\<And>lock. k = Some lock \<Longrightarrow> lock_is_expired E lock = Inr False)
      \<Longrightarrow> Q k l"
    and "\<And>e. X e l"
  shows "wp (lock_for_mutation E t) Q X l"
  unfolding lock_for_mutation_def by (intro wp_intro) (auto intro: assms simp: current_lock_def)

lemma wp_require_lock [wp_intro]:
  assumes "\<And>k. read_lock t l = Some k \<Longrightarrow> Q k l" and "\<And>e. X e l"
  shows "wp (require_lock E t) Q X l"
  unfolding require_lock_def by (intro wp_intro) (auto intro: assms simp: current_lock_def)

lemma wp_ensure_dependencies_done [wp_intro]:
  assumes "dependency_blockers E t l = Inr [] \<Longrightarrow> Q () l" and "\<And>e. X e l"
  shows "wp (ensure_dependencies_done E t) Q X l"
  unfolding ensure_dependencies_done_def by (intro wp_intro) (auto intro: assms)

lemma wp_save_plan [wp_intro]:
  assumes "dir_get (l_plans l (pl_task_id p)) (plan_id (pl_plan_version p)) = None
      \<Longrightarrow> Q () (overwrite_plan p l)"
    and "\<And>e. X e l"
  shows "wp (save_plan p) Q X l"
  unfolding save_plan_def by (intro wp_intro) (auto intro: assms)

text \<open>
  \<open>_acquire_lock\<close> on a task without a lock writes the new lock; nothing else but the event
  log changes.
\<close>

definition locked_ledger ::
  "env \<Rightarrow> TaskRecord \<Rightarrow> ActiveTaskStatusStage \<Rightarrow> TaskRunRecord \<Rightarrow> TaskLock \<Rightarrow> ledger \<Rightarrow> ledger" where
  "locked_ledger E task stage run lock l =
     append_event E (tk_id task) ''stage.entered'' (stage_data stage (rn_run_id run))
       (append_event E (tk_id task) ''lock.acquired'' (TaskLock_to_dict lock)
         (update_lock (tk_id task) lock l))"

lemma acquire_lock_free:
  assumes "read_lock (tk_id task) l = None"
  shows "acquire_lock E task stage run reason actor harness l =
    (let lock = new_lock E task stage run reason actor harness l
     in (Inr lock, locked_ledger E task stage run lock l))"
  using assms
  by (simp add: acquire_lock_def locked_ledger_def write_lock_def bindE_def thenE_def getsE_def
      catchE_def guardE_def returnE_def modifyE_def Let_def)

lemma wp_acquire_lock_free [wp_intro]:
  assumes "read_lock (tk_id task) l = None"
    and "\<And>lock. lock = new_lock E task stage run reason actor harness l
      \<Longrightarrow> Q lock (locked_ledger E task stage run lock l)"
  shows "wp (acquire_lock E task stage run reason actor harness) Q X l"
  using assms(2) by (simp add: wp_def acquire_lock_free [OF assms(1)] Let_def)

lemma locked_ledger_frame [simp]:
  "l_tasks (locked_ledger E t s r k l) = l_tasks l"
  "l_runs (locked_ledger E t s r k l) = l_runs l"
  "l_plans (locked_ledger E t s r k l) = l_plans l"
  "runs_of (locked_ledger E t s r k l) x = runs_of l x"
  "read_lock x (locked_ledger E t s r k l) = (if x = tk_id t then Some k else read_lock x l)"
  by (simp_all add: locked_ledger_def update_lock_def runs_of_def read_lock_def dir.get_put)

lemma new_lock_sel [simp]:
  "lk_task_id (new_lock E task stage run reason actor harness l) = tk_id task"
  "lk_stage (new_lock E task stage run reason actor harness l) = stage"
  "lk_run_id (new_lock E task stage run reason actor harness l) = rn_run_id run"
  "lk_expires_at (new_lock E task stage run reason actor harness l)
    = Some (isoformat (add_hours 2 (e_clock E)))"
  by (simp_all add: new_lock_def)

lemma run_inv_locked:
  assumes "run_inv l" "r \<in> runs_of l (tk_id task)" "rn_run_id r = rn_run_id run"
    "rn_run_type r = run_type_of_stage stage" "rn_status r = RS_running"
    "lock = new_lock E task stage run reason actor harness l0"
  shows "run_inv (locked_ledger E task stage run lock l)"
proof -
  have "run_matches_lock lock r"
    using assms by (simp add: run_matches_lock_def TaskLock_run_type_def)
  then show ?thesis
    using run_inv_put_lock [OF assms(1) _ assms(2)] assms(6) by (simp add: locked_ledger_def)
qed

text \<open>\<open>_start_run\<close>: refused under a lock or beside a running run, otherwise run and lock.\<close>

definition started_ledger ::
  "env \<Rightarrow> TaskRecord \<Rightarrow> RunType \<Rightarrow> TaskRunRecord \<Rightarrow> HarnessRef option \<Rightarrow> ledger \<Rightarrow> ledger" where
  "started_ledger E task kind run harness l =
     (let l1 = save_run run l;
          lock = new_lock E task (stage_of_run_type kind) run (lock_reason kind)
            (Some (rn_actor run)) harness l1
      in locked_ledger E task (stage_of_run_type kind) run lock l1)"

lemma wp_start_run [wp_intro]:
  assumes "stage = stage_of_run_type kind"
    and "\<And>run. run = new_run E task kind actor harness l \<Longrightarrow> read_lock (tk_id task) l = None
      \<Longrightarrow> running_runs task l = [] \<Longrightarrow> Q run (started_ledger E task kind run harness l)"
    and "\<And>e. X e l"
  shows "wp (start_run E task kind stage actor harness) Q X l"
  unfolding start_run_def
  by (intro wp_intro)
    (use assms in \<open>auto simp: current_lock_def started_ledger_def Let_def split: option.splits\<close>)

text \<open>
  The same steps when nothing stands in the way: no case in which they raise is left.
\<close>

lemma wp_ensure_dependencies_ok:
  "dependency_blockers E t l = Inr [] \<Longrightarrow> Q () l \<Longrightarrow> wp (ensure_dependencies_done E t) Q X l"
  unfolding ensure_dependencies_done_def by (intro wp_intro) auto

lemma wp_start_run_free:
  assumes "stage = stage_of_run_type kind" "read_lock (tk_id task) l = None" "running_runs task l = []"
    and "\<And>run. run = new_run E task kind actor harness l \<Longrightarrow> Q run (started_ledger E task kind run harness l)"
  shows "wp (start_run E task kind stage actor harness) Q X l"
  unfolding start_run_def
  by (intro wp_intro) (use assms in \<open>auto simp: current_lock_def started_ledger_def Let_def\<close>)

lemma new_lock_live:
  assumes "valid_datetime (e_clock E)" "dt_year (e_clock E) < 9999" "dt_offset (e_clock E) = Some 0"
  shows "lock_is_expired E (new_lock E task stage run reason actor harness l) = Inr False"
  using assms add_hours_valid [of "e_clock E" 2] instant_add_hours [of "e_clock E" 2]
  by (simp add: lock_is_expired_def fromisoformat_isoformat)

lemma wp_require_live_lock:
  assumes "read_lock i l \<noteq> None" "\<And>k. read_lock i l = Some k \<Longrightarrow> lock_is_expired E k = Inr False"
    "\<And>k. read_lock i l = Some k \<Longrightarrow> Q k l"
  shows "wp (require_lock E i) Q X l"
  unfolding require_lock_def
  by (intro wp_intro) (use assms in \<open>auto simp: current_lock_def split: option.splits\<close>)

lemma locked_resolve_frames [simp]:
  "resolve_task E b ref (locked_ledger E' t s r k l) = resolve_task E b ref l"
  "resolve_task E b ref (save_run q l) = resolve_task E b ref l"
  by (rule resolve_task_frame; simp)+

lemma new_run_sel [simp]:
  "rn_task_id (new_run E task kind actor harness l) = tk_id task"
  "rn_run_type (new_run E task kind actor harness l) = kind"
  "rn_status (new_run E task kind actor harness l) = RS_running"
  by (simp_all add: new_run_def)

lemma no_running_runs:
  "running_runs task l = [] \<longleftrightarrow> (\<forall>r \<in> runs_of l (tk_id task). rn_status r \<noteq> RS_running)"
  by (auto simp: running_runs_def filter_empty_conv list_runs_of)

lemma started_ledger_inv:
  assumes inv: "run_inv l" and free: "read_lock (tk_id task) l = None" "running_runs task l = []"
    and run: "rn_task_id run = tk_id task" "rn_run_type run = kind" "rn_status run = RS_running"
  shows "run_inv (started_ledger E task kind run harness l)"
    and "persist_run run \<in> runs_of (started_ledger E task kind run harness l) (tk_id task)"
proof -
  have "lock_backed (save_run run l) t" for t
    using run_inv_lock [OF inv, of t] free run
    by (auto simp: lock_backed_def runs_of_save_run [OF inv] split: option.splits)
  moreover have "x = y" if "x \<in> runs_of (save_run run l) t" "y \<in> runs_of (save_run run l) t"
    "rn_status x = RS_running" "rn_status y = RS_running" for x y t
    using that run free run_inv_unique [OF inv, of _ t]
    by (auto simp: runs_of_save_run [OF inv] no_running_runs split: if_splits)
  ultimately have inv1: "run_inv (save_run run l)"
    using inv run dir_ok_save_run [OF inv]
    by (auto simp: run_inv_def runs_of_save_run [OF inv] split: if_splits)
  have mem: "persist_run run \<in> runs_of (save_run run l) (tk_id task)"
    using run by (simp add: runs_of_save_run [OF inv])
  then show "run_inv (started_ledger E task kind run harness l)"
    "persist_run run \<in> runs_of (started_ledger E task kind run harness l) (tk_id task)"
    using run_inv_locked [OF inv1 mem] run by (simp_all add: started_ledger_def Let_def)
qed

text \<open>
  Ending a run: record saved with a final status, task saved, lock released. The lock can only
  be missing, never belong to another run.
\<close>

lemma wp_release_lock_end [wp_intro]:
  assumes inv: "run_inv l" and r: "r \<in> runs_of l (tk_id u)" "rn_status r = RS_running"
    and r': "rn_task_id r' = tk_id u" "rn_status r' \<noteq> RS_running"
    and args: "stage = stage_of_run_type (rn_run_type r)" "run_id = rn_run_id r"
    and Q: "\<And>l'. run_inv l' \<Longrightarrow> Q () l'" and X: "\<And>e l'. run_inv l' \<Longrightarrow> X e l'"
  shows "wp (release_lock E u stage run_id target name data del) Q X (save_task u' (save_run r' l))"
proof -
  let ?l = "save_task u' (save_run r' l)"
  have tasks: "dir_ok tk_id (l_tasks (save_task u' l))"
    using run_inv_save_task [OF inv] by (rule run_inv_tasks)
  have fin: "run_inv l'" if "l_runs l' = l_runs (save_run r' l)" "l_tasks l' = l_tasks ?l"
    "\<And>t. read_lock t l' = (if t = tk_id u then None else read_lock t l)" for l'
    using run_inv_end_run [OF inv r' that(1) _ that(3)] tasks that(2)
    by (simp add: save_task_def)
  have none: "run_inv ?l" if "read_lock (tk_id u) l = None"
    using that by (intro fin) auto
  have removed: "run_inv (remove_lock (tk_id u) (append_event E k n d ?l))" for k n d
    by (rule fin) (simp_all, simp_all add: remove_lock_def)
  show ?thesis
    unfolding release_lock_def
    using lock_of_running_run [OF inv r] args removed none
    by (intro wp_intro) (auto intro!: Q X run_inv_save_task simp del: read_lock_remove)
qed

section \<open>Commands that keep an invariant\<close>

definition keeps :: "(ledger \<Rightarrow> bool) \<Rightarrow> 'a command \<Rightarrow> bool" where
  "keeps I m \<longleftrightarrow> (\<forall>l. I l \<longrightarrow> wp m (\<lambda>_. I) (\<lambda>_. I) l)"

lemma keepsI: "(\<And>l. I l \<Longrightarrow> wp m (\<lambda>_. I) (\<lambda>_. I) l) \<Longrightarrow> keeps I m"
  by (simp add: keeps_def)

lemma wp_keeps:
  "keeps I m \<Longrightarrow> I l \<Longrightarrow> (\<And>x l'. I l' \<Longrightarrow> Q x l') \<Longrightarrow> (\<And>e l'. I l' \<Longrightarrow> X e l') \<Longrightarrow> wp m Q X l"
  unfolding keeps_def by (blast intro: wp_mono)

lemma overwrite_plan_frame [simp]:
  "l_tasks (overwrite_plan p l) = l_tasks l" "l_runs (overwrite_plan p l) = l_runs l"
  "l_locks (overwrite_plan p l) = l_locks l" "runs_of (overwrite_plan p l) t = runs_of l t"
  "read_lock t (overwrite_plan p l) = read_lock t l"
  by (simp_all add: overwrite_plan_def runs_of_def read_lock_def)

lemma require_run_of:
  "require_run E task i l = Inr r \<Longrightarrow> r \<in> runs_of l (tk_id task)"
  by (auto simp: require_run_def list_runs_of [symmetric] split: option.splits dest: resolve_run_mem)

lemma optional_run_of:
  "optional_run E task i l = Some r \<Longrightarrow> r \<in> runs_of l (tk_id task)"
  by (auto simp: optional_run_def list_runs_of [symmetric] split: option.splits sum.splits
      dest: resolve_run_mem)

lemma run_inv_edit_run:
  assumes "run_inv l" "\<exists>r \<in> runs_of l t. rn_run_id r' = rn_run_id r \<and> rn_task_id r' = rn_task_id r
    \<and> rn_run_type r' = rn_run_type r \<and> rn_status r' = rn_status r"
  shows "run_inv (save_run r' l)"
  using assms run_inv_update_run run_inv_task by metis

lemma holds_runD:
  "holds_run kind lock (Some r) \<Longrightarrow> rn_run_type r = kind"
  "holds_run kind lock (Some r) \<Longrightarrow> rn_status r = RS_running"
  by (auto simp: holds_run_def split: option.splits)

lemma runs_same_id:
  assumes ok: "dir_ok rn_run_id (l_runs l t)" and r: "r \<in> runs_of l t" "r' \<in> runs_of l t"
    and id: "rn_run_id r = rn_run_id r'"
  shows "r = r'"
  using r unfolding runs_of_def dir_ok_records [OF ok] id by simp

lemma running_runs_mem:
  "r \<in> set (running_runs task l) \<longleftrightarrow> r \<in> runs_of l (tk_id task) \<and> rn_status r = RS_running"
  by (auto simp: running_runs_def list_runs_of)

lemma run_inv_end_orphan:
  assumes "run_inv l" "rn_task_id r' = t" "rn_status r' \<noteq> RS_running" "read_lock t l = None"
  shows "run_inv (save_run r' l)"
  using assms run_inv_tasks by (intro run_inv_end_run [OF assms(1-3)]) auto

end
