(* ===== verification/PlanInput.thy ===== *)
theory PlanInput
  imports Locks
begin

text \<open>
  Reading a proposed plan (\<open>_parse_plan_front_matter\<close>, \<open>_criteria_from_plan_input\<close>,
  \<open>_todos_from_plan_input\<close> and their helpers in \<open>taskledger/services/tasks.py\<close>) and the facts
  about planning questions the plan commands use (\<open>services/next_action_payload.py\<close>).
\<close>

section \<open>Front matter\<close>

definition bad_input :: "string \<Rightarrow> error" where
  "bad_input tag = cli_error tag EXIT_CODE_BAD_INPUT"

fun find_terminator :: "nat \<Rightarrow> string list \<Rightarrow> nat option" where
  "find_terminator i [] = None"
| "find_terminator i (s # ss) =
     (if strip s = ''---'' then Some i else find_terminator (Suc i) ss)"

definition parse_plan_front_matter :: "env \<Rightarrow> string \<Rightarrow> error + (pydict \<times> string)" where
  "parse_plan_front_matter E body =
     (let lines = splitlines body
      in if lines = [] \<or> strip (hd lines) \<noteq> ''---'' then Inr ([], body)
         else case find_terminator 1 (tl lines) of
           None \<Rightarrow> Inl (bad_input ''unterminated front matter'')
         | Some i \<Rightarrow>
             (case e_yaml_load E (join [CHR 0x0A] (take (i - 1) (tl lines))) of
                None \<Rightarrow> Inl (mk_error C_ValueError ''yaml'')
              | Some v \<Rightarrow>
                  (case (if truthy v then v else PDict []) of
                     PDict d \<Rightarrow> Inr (d, join [CHR 0x0A] (drop (i + 1) lines))
                   | _ \<Rightarrow> Inl (bad_input ''front matter mapping''))))"

definition optional_string_value :: "pyval \<Rightarrow> string option" where
  "optional_string_value v =
     (case v of PStr s \<Rightarrow> if strip s \<noteq> [] then Some s else None | _ \<Rightarrow> None)"

definition optional_front_matter_string :: "pydict \<Rightarrow> string \<Rightarrow> string option" where
  "optional_front_matter_string front_matter key = optional_string_value (dget front_matter key)"

definition string_item :: "pyval \<Rightarrow> error + string" where
  "string_item v =
     (case v of
        PStr s \<Rightarrow> if strip s = [] then Inl (bad_input ''front matter strings'') else Inr (strip s)
      | _ \<Rightarrow> Inl (bad_input ''front matter strings''))"

definition string_tuple_from_front_matter :: "pydict \<Rightarrow> string \<Rightarrow> error + string list" where
  "string_tuple_from_front_matter front_matter key =
     (case dget front_matter key of
        PNone \<Rightarrow> Inr []
      | PList vs \<Rightarrow> mapR string_item vs
      | _ \<Rightarrow> Inl (bad_input ''front matter list''))"

section \<open>Acceptance criteria\<close>

definition criterion_id :: "nat \<Rightarrow> string" where
  "criterion_id index = ''ac-'' @ zpad 4 (nat_str index)"

definition mk_criterion :: "string \<Rightarrow> string \<Rightarrow> bool \<Rightarrow> AcceptanceCriterion" where
  "mk_criterion i text mandatory = \<lparr>ac_id = i, ac_text = text, ac_mandatory = mandatory\<rparr>"

text \<open>One entry of the front matter: nothing, or a criterion.\<close>

definition criterion_item :: "nat \<Rightarrow> pyval \<Rightarrow> error + AcceptanceCriterion option" where
  "criterion_item index item =
     (case item of
        PStr s \<Rightarrow>
          Inr (if strip s = [] then None else Some (mk_criterion (criterion_id index) (strip s) True))
      | PDict d \<Rightarrow>
          (let text = strip (str_of_or (dget d ''text'') [])
           in if text = [] then
                (case d of
                   [(key, value)] \<Rightarrow>
                     (if strip (py_str value) = [] then Inl (bad_input ''criterion text'')
                      else Inr (Some (mk_criterion (strip key) (strip (py_str value)) True)))
                 | _ \<Rightarrow> Inl (bad_input ''criterion text''))
              else Inr (Some (mk_criterion (strip (str_of_or (dget d ''id'') (criterion_id index)))
                     text (truthy (dget_default d ''mandatory'' (PBool True))))))
      | _ \<Rightarrow> Inl (bad_input ''criterion type''))"

fun criteria_items :: "nat \<Rightarrow> pyval list \<Rightarrow> error + AcceptanceCriterion list" where
  "criteria_items index [] = Inr []"
| "criteria_items index (v # vs) =
     bindR (criterion_item index v) (\<lambda>c.
     bindR (criteria_items (Suc index) vs) (\<lambda>cs.
     Inr (case c of None \<Rightarrow> cs | Some x \<Rightarrow> x # cs)))"

fun criteria_texts :: "nat \<Rightarrow> string list \<Rightarrow> AcceptanceCriterion list" where
  "criteria_texts index [] = []"
| "criteria_texts index (s # ss) =
     (let rest = criteria_texts (Suc index) ss
      in if strip s = [] then rest else mk_criterion (criterion_id index) (strip s) True # rest)"

definition criteria_from_plan_input ::
  "pydict \<Rightarrow> string list \<Rightarrow> error + AcceptanceCriterion list" where
  "criteria_from_plan_input front_matter criteria =
     bindR (case dget_default front_matter ''acceptance_criteria'' (dget front_matter ''criteria'') of
              PNone \<Rightarrow> Inr (criteria_texts 1 criteria)
            | PList vs \<Rightarrow> criteria_items 1 vs
            | _ \<Rightarrow> Inl (bad_input ''criteria list''))
       (\<lambda>items.
     if distinct (map ac_id items) then Inr items else Inl (bad_input ''criteria ids''))"

section \<open>Todos\<close>

definition plan_todo_worker_step_id ::
  "WorkerPipelineConfig option \<Rightarrow> pydict \<Rightarrow> error + string option" where
  "plan_todo_worker_step_id pipeline item =
     (case dget item ''worker_step'' of
        PNone \<Rightarrow> Inr None
      | PStr s \<Rightarrow>
          if strip s = [] then Inl (bad_input ''worker step'')
          else (case pipeline of
                  None \<Rightarrow> Inl (bad_input ''worker pipeline'')
                | Some p \<Rightarrow>
                    if \<not> pc_enabled p then Inl (bad_input ''worker pipeline'')
                    else if strip s \<notin> set (step_ids p) then Inl (bad_input ''worker step unknown'')
                    else Inr (Some (strip s)))
      | _ \<Rightarrow> Inl (bad_input ''worker step''))"

definition plan_todo :: "env \<Rightarrow> string \<Rightarrow> string \<Rightarrow> TaskTodo" where
  "plan_todo E i text =
     \<lparr>td_id = i, td_text = text, td_done = False, td_created_at = e_now E, td_updated_at = e_now E,
      td_source = Some ''plan'', td_mandatory = True, td_status = TS_open, td_active_at = None,
      td_blocked_reason = None, td_done_at = None, td_skipped_at = None, td_completed_by = None,
      td_completed_in_harness = None, td_skipped_by = None, td_evidence = [],
      td_artifact_refs = [], td_change_refs = [], td_command_refs = [], td_source_plan_id = None,
      td_source_question_ids = [], td_validation_hint = None, td_worker_step_id = None\<rparr>"

definition plan_todo_id :: "nat \<Rightarrow> string" where
  "plan_todo_id index = ''plan-todo-'' @ zpad 4 (nat_str index)"

definition todo_item :: "env \<Rightarrow> nat \<Rightarrow> pyval \<Rightarrow> error + TaskTodo option" where
  "todo_item E index item =
     (case item of
        PStr s \<Rightarrow> Inr (if strip s = [] then None else Some (plan_todo E (plan_todo_id index) (strip s)))
      | PDict d \<Rightarrow>
          (let text = strip (str_of_or (dget d ''text'') [])
           in if text = [] then Inl (bad_input ''todo text'')
              else bindR (plan_todo_worker_step_id (e_pipeline E) d) (\<lambda>step.
                Inr (Some ((plan_todo E
                    (str_of_or (dget d ''id'') (str_of_or (dget d ''id_hint'') (plan_todo_id index))) text)
                  \<lparr>td_mandatory := truthy (dget_default d ''mandatory'' (PBool True)),
                   td_validation_hint := optional_string_value (dget d ''validation_hint''),
                   td_worker_step_id := step\<rparr>))))
      | _ \<Rightarrow> Inl (bad_input ''todo type''))"

fun todo_items :: "env \<Rightarrow> nat \<Rightarrow> pyval list \<Rightarrow> error + TaskTodo list" where
  "todo_items E index [] = Inr []"
| "todo_items E index (v # vs) =
     bindR (todo_item E index v) (\<lambda>t.
     bindR (todo_items E (Suc index) vs) (\<lambda>ts.
     Inr (case t of None \<Rightarrow> ts | Some x \<Rightarrow> x # ts)))"

definition todos_from_plan_input :: "env \<Rightarrow> pydict \<Rightarrow> error + TaskTodo list" where
  "todos_from_plan_input E front_matter =
     (case dget front_matter ''todos'' of
        PNone \<Rightarrow> Inr []
      | PList vs \<Rightarrow> todo_items E 1 vs
      | _ \<Rightarrow> Inl (bad_input ''todos list''))"

section \<open>Planning questions\<close>

definition answer_snapshot_hash :: "env \<Rightarrow> QuestionRecord list \<Rightarrow> string option" where
  "answer_snapshot_hash E questions =
     (let answered = map (\<lambda>q. qn_id q @ [CHR 0x00] @ str_or (qn_answer q) [])
            (filter (\<lambda>q. qn_status q = QS_answered) questions)
      in if answered = [] then None
         else Some (''sha256:'' @ e_content_hash E (join [CHR 0x0A] (sort answered))))"

definition required_open_question_ids :: "QuestionRecord list \<Rightarrow> string list" where
  "required_open_question_ids questions =
     map qn_id (filter (\<lambda>q. qn_status q = QS_open \<and> qn_required_for_plan q) questions)"

definition stale_answer_question_ids ::
  "env \<Rightarrow> QuestionRecord list \<Rightarrow> PlanRecord \<Rightarrow> string list" where
  "stale_answer_question_ids E questions plan =
     (let answered = filter (\<lambda>q. qn_status q = QS_answered \<and> qn_required_for_plan q) questions
      in if answered = [] then []
         else if pl_generation_reason plan = Some ''after_questions''
           \<and> pl_based_on_answer_hash plan = answer_snapshot_hash E questions then []
         else map qn_id answered)"

section \<open>The plan record\<close>

text \<open>
  The \<open>PlanRecord(...)\<close> expression of \<open>propose_plan\<close> and \<open>regenerate_plan_from_answers\<close>; the
  fields in which the two differ are arguments.
\<close>

definition plan_from_input ::
  "env \<Rightarrow> TaskRecord \<Rightarrow> PlanRecord list \<Rightarrow> QuestionRecord list \<Rightarrow> pydict \<Rightarrow> string \<Rightarrow> string list
    \<Rightarrow> string list \<Rightarrow> string \<Rightarrow> string list \<Rightarrow> error + PlanRecord" where
  "plan_from_input E task plans questions front_matter plan_body criteria question_refs reason
     based_on =
     bindR (criteria_from_plan_input front_matter criteria) (\<lambda>cs.
     bindR (todos_from_plan_input E front_matter) (\<lambda>ts.
     bindR (string_tuple_from_front_matter front_matter ''files'') (\<lambda>files.
     bindR (string_tuple_from_front_matter front_matter ''test_commands'') (\<lambda>test_commands.
     bindR (string_tuple_from_front_matter front_matter ''expected_outputs'') (\<lambda>outputs.
     Inr \<lparr>pl_task_id = tk_id task,
       pl_plan_version = (if plans = [] then 1 else pl_plan_version (last plans) + 1),
       pl_body = strip plan_body, pl_status = PS_proposed, pl_created_at = e_now E,
       pl_created_by = default_actor E,
       pl_supersedes = (if plans = [] then None else Some (pl_plan_version (last plans))),
       pl_question_refs = question_refs, pl_file_version = TASKLEDGER_V2_FILE_VERSION,
       pl_criteria = cs, pl_todos = ts, pl_generation_reason = Some reason,
       pl_based_on_question_ids = based_on,
       pl_based_on_answer_hash = answer_snapshot_hash E questions,
       pl_approved_at = None, pl_approved_by = None, pl_approval_note = None,
       pl_approval_source = None, pl_approved_plan_hash = None,
       pl_goal = optional_front_matter_string front_matter ''goal'', pl_files = files,
       pl_test_commands = test_commands, pl_expected_outputs = outputs,
       pl_todos_waived_reason =
         opt_str_or (optional_front_matter_string front_matter ''todos_waived_reason'')
           (opt_str_or (optional_front_matter_string front_matter ''todo_waiver_reason'')
             (optional_front_matter_string front_matter ''no_todos_reason'')),
       pl_schema_version = TASKLEDGER_SCHEMA_VERSION, pl_object_type = ''plan''\<rparr>)))))"

section \<open>Facts\<close>

lemma criteria_distinct:
  "criteria_from_plan_input fm cs = Inr items \<Longrightarrow> distinct (map ac_id items)"
  by (auto simp: criteria_from_plan_input_def split: if_splits)

lemma plan_from_input_sel:
  assumes "plan_from_input E task plans qs fm body cs refs reason based = Inr p"
  shows "pl_task_id p = tk_id task" "pl_status p = PS_proposed"
    "pl_plan_version p = (if plans = [] then 1 else pl_plan_version (last plans) + 1)"
    "distinct (map ac_id (pl_criteria p))"
  using assms by (auto simp: plan_from_input_def dest: criteria_distinct)

end
