(* ===== verification/PlanLint.thy ===== *)
theory PlanLint
  imports PlanInput
begin

text \<open>
  \<open>taskledger/services/plan_lint.py\<close>. The regular expressions are written with a few matcher
  combinators: a matcher takes a position (the character before it and the text after it) and
  returns the positions where a match may end. The texts of messages and hints are left out of
  an issue.
\<close>

section \<open>Regular expressions\<close>

type_synonym pos = "char option \<times> string"
type_synonym matcher = "pos \<Rightarrow> pos list"

definition is_word :: "char \<Rightarrow> bool" where
  "is_word c \<longleftrightarrow> is_alpha c \<or> is_digit_char c \<or> c = CHR ''_''"

definition m_class :: "(char \<Rightarrow> bool) \<Rightarrow> matcher" where
  "m_class P p = (case p of (_, []) \<Rightarrow> [] | (_, c # s) \<Rightarrow> if P c then [(Some c, s)] else [])"

definition m_seq :: "matcher \<Rightarrow> matcher \<Rightarrow> matcher" where
  "m_seq m n p = concat (map n (m p))"

fun m_all :: "matcher list \<Rightarrow> matcher" where
  "m_all [] p = [p]"
| "m_all (m # ms) p = m_seq m (m_all ms) p"

definition m_opt :: "matcher \<Rightarrow> matcher" where
  "m_opt m p = m p @ [p]"

fun m_many :: "(char \<Rightarrow> bool) \<Rightarrow> string \<Rightarrow> pos list" where
  "m_many P [] = []"
| "m_many P (c # s) = (if P c then (Some c, s) # m_many P s else [])"

definition m_plus :: "(char \<Rightarrow> bool) \<Rightarrow> matcher" where
  "m_plus P p = m_many P (snd p)"

definition m_lit :: "string \<Rightarrow> matcher" where
  "m_lit w = m_all (map (\<lambda>c. m_class (\<lambda>x. x = c)) w)"

definition m_lit_ci :: "string \<Rightarrow> matcher" where
  "m_lit_ci w = m_all (map (\<lambda>c. m_class (\<lambda>x. char_lower x = char_lower c)) w)"

text \<open>The word boundary \<open>\<backslash>b\<close>.\<close>

definition m_bound :: matcher where
  "m_bound p =
     (let before = (case fst p of None \<Rightarrow> False | Some c \<Rightarrow> is_word c);
          after = (case snd p of [] \<Rightarrow> False | c # _ \<Rightarrow> is_word c)
      in if before \<noteq> after then [p] else [])"

fun re_search_from :: "matcher \<Rightarrow> char option \<Rightarrow> string \<Rightarrow> bool" where
  "re_search_from m prev [] = (m (prev, []) \<noteq> [])"
| "re_search_from m prev (c # s) = (m (prev, c # s) \<noteq> [] \<or> re_search_from m (Some c) s)"

definition re_search :: "matcher \<Rightarrow> string \<Rightarrow> bool" where
  "re_search m s = re_search_from m None s"

section \<open>The patterns\<close>

definition PLACEHOLDER_PATTERNS :: "matcher list" where
  "PLACEHOLDER_PATTERNS =
    [m_all [m_bound, m_lit_ci ''TBD'', m_bound],
     m_all [m_bound, m_lit ''TODO'', m_bound],
     m_all [m_bound, m_lit_ci ''later'', m_bound],
     m_all [m_bound, m_lit_ci ''appropriate'', m_bound],
     m_all [m_bound, m_lit_ci ''similar to above'', m_bound],
     m_all [m_bound, m_lit ''etc'', m_opt (m_lit ''.''), m_bound],
     m_all [m_bound, m_lit_ci ''fix tests'', m_bound],
     m_all [m_bound, m_lit_ci ''clean up'', m_bound]]"

definition GENERIC_TODO_PHRASES :: "string list" where
  "GENERIC_TODO_PHRASES =
    [''fix tests'', ''clean up'', ''update docs'', ''make it work'', ''handle edge cases'',
     ''add tests'', ''refactor'']"

definition path_char :: "char \<Rightarrow> bool" where
  "path_char c \<longleftrightarrow> is_word c \<or> c \<in> {CHR ''.'', CHR ''/'', CHR 0x5C, CHR ''-''}"

text \<open>
  \<open>[.\<backslash>w/\\-]+\<backslash>.\<backslash>w{1,8}\<close>: a search never needs more than one character after the dot.
\<close>

definition file_path_pattern :: matcher where
  "file_path_pattern = m_all [m_plus path_char, m_lit ''.'', m_class is_word]"

definition concrete_indicators :: "matcher list" where
  "concrete_indicators =
    [file_path_pattern,
     m_all [m_lit ''`'', m_plus (\<lambda>c. c \<noteq> CHR ''`''), m_lit ''`''],
     m_all [m_plus is_word, m_lit ''.'', m_plus is_word, m_lit ''(''],
     m_all [m_bound, m_lit ''test'', m_opt (m_lit ''s''), m_lit ''/'', m_class is_word],
     m_all [m_bound, m_lit ''pytest'', m_bound],
     m_all [m_bound, m_lit ''ruff'', m_bound],
     m_all [m_bound, m_lit ''mypy'', m_bound],
     m_all [m_bound, m_lit ''class'', m_plus py_isspace, m_class is_word],
     m_all [m_bound, m_lit ''def'', m_plus py_isspace, m_class is_word]]"

section \<open>Reading the plan\<close>

text \<open>The depth of a heading \<open>^(#{1,3})\<backslash>s+TITLE\<backslash>s*$\<close>, if the line is one.\<close>

definition heading_depth :: "string \<Rightarrow> string \<Rightarrow> nat option" where
  "heading_depth title line =
     (let n = length (takeWhile (\<lambda>c. c = CHR ''#'') line);
          rest = drop n line
      in if 1 \<le> n \<and> n \<le> 3 \<and> rest \<noteq> [] \<and> py_isspace (hd rest)
            \<and> lower (strip rest) = lower title
         then Some n else None)"

text \<open>\<open>^(#{1,depth})\<backslash>s+\<backslash>S\<close>\<close>

definition closes_section :: "nat \<Rightarrow> string \<Rightarrow> bool" where
  "closes_section depth line =
     (let n = length (takeWhile (\<lambda>c. c = CHR ''#'') line);
          rest = drop n line
      in 1 \<le> n \<and> n \<le> depth \<and> rest \<noteq> [] \<and> py_isspace (hd rest) \<and> strip rest \<noteq> [])"

definition section_text :: "string list \<Rightarrow> string option" where
  "section_text lines =
     (let t = strip (join [CHR 0x0A] lines) in if t = [] then None else Some t)"

text \<open>
  The loop of \<open>_body_section\<close>: \<open>cur\<close> is the depth of the heading last seen and the lines
  collected since.
\<close>

fun section_loop :: "string \<Rightarrow> (nat \<times> string list) option \<Rightarrow> string list \<Rightarrow> string option" where
  "section_loop title cur [] = (case cur of None \<Rightarrow> None | Some (_, acc) \<Rightarrow> section_text acc)"
| "section_loop title cur (line # lines) =
     (case heading_depth title line of
        Some d \<Rightarrow> section_loop title (Some (d, [])) lines
      | None \<Rightarrow>
          (case cur of
             None \<Rightarrow> section_loop title None lines
           | Some (d, acc) \<Rightarrow>
               if closes_section d line then section_text acc
               else section_loop title (Some (d, acc @ [line])) lines))"

definition body_section :: "string \<Rightarrow> string \<Rightarrow> string option" where
  "body_section body title = section_loop title None (splitlines body)"

fun goal_line :: "string list \<Rightarrow> string option" where
  "goal_line [] = None"
| "goal_line (line # lines) =
     (let stripped = strip line;
          rest = strip (drop 5 stripped)
      in if startswith (lower stripped) ''goal:'' \<and> rest \<noteq> [] then Some rest
         else goal_line lines)"

definition goal_text :: "PlanRecord \<Rightarrow> string option" where
  "goal_text plan =
     (let goal = strip (str_or (pl_goal plan) [])
      in if goal \<noteq> [] then Some goal
         else case body_section (pl_body plan) ''Goal'' of
           Some heading \<Rightarrow> Some (strip heading)
         | None \<Rightarrow> goal_line (splitlines (pl_body plan)))"

definition has_hint :: "TaskTodo \<Rightarrow> bool" where
  "has_hint todo \<longleftrightarrow> strip (str_or (td_validation_hint todo) []) \<noteq> []"

definition todo_is_concrete :: "TaskTodo \<Rightarrow> bool" where
  "todo_is_concrete todo =
     (let text = strip (td_text todo)
      in if text = [] then False
         else if strip (lower text) \<in> set GENERIC_TODO_PHRASES then False
         else if list_ex (\<lambda>m. re_search m text) concrete_indicators then True
         else if has_hint todo then True
         else if CHR ''/'' \<in> set text \<or> CHR 0x5C \<in> set text \<or> CHR ''.'' \<in> set text then True
         else let meaningful = filter (\<lambda>w. length w > 1) (words text)
              in if length meaningful < 3 then False
                 else let stripped = py_replace '' '' [] text
                      in if length stripped < 12 then False
                         else False)"

definition has_placeholder :: "string \<Rightarrow> bool" where
  "has_placeholder text = list_ex (\<lambda>m. re_search m text) PLACEHOLDER_PATTERNS"

definition has_file_reference :: "PlanRecord \<Rightarrow> bool" where
  "has_file_reference plan \<longleftrightarrow>
     pl_files plan \<noteq> []
     \<or> list_ex (re_search file_path_pattern) (splitlines (pl_body plan))"

definition test_tools :: "string list" where
  "test_tools = [''pytest'', ''ruff'', ''mypy'', ''python -m'', ''tox'', ''pre-commit'']"

definition has_test_command :: "PlanRecord \<Rightarrow> bool" where
  "has_test_command plan \<longleftrightarrow>
     pl_test_commands plan \<noteq> []
     \<or> list_ex (\<lambda>line. list_ex (\<lambda>tool. re_search (m_lit tool) (strip line)) test_tools)
         (splitlines (pl_body plan))"

definition todos_have_validation_hints :: "PlanRecord \<Rightarrow> bool" where
  "todos_have_validation_hints plan \<longleftrightarrow> list_ex has_hint (pl_todos plan)"

definition has_expected_output :: "PlanRecord \<Rightarrow> bool" where
  "has_expected_output plan \<longleftrightarrow>
     pl_expected_outputs plan \<noteq> []
     \<or> body_section (pl_body plan) ''Expected output'' \<noteq> None
     \<or> body_section (pl_body plan) ''Expected outputs'' \<noteq> None
     \<or> list_ex has_hint (pl_todos plan)"

section \<open>The rules\<close>

datatype Severity = SV_error | SV_warning

record PlanLintIssue =
  li_severity :: Severity
  li_code :: string
  li_location :: string

definition issue :: "Severity \<Rightarrow> string \<Rightarrow> string \<Rightarrow> PlanLintIssue" where
  "issue severity code location =
     \<lparr>li_severity = severity, li_code = code, li_location = location\<rparr>"

definition when_issue :: "bool \<Rightarrow> PlanLintIssue \<Rightarrow> PlanLintIssue list" where
  "when_issue b i = (if b then [i] else [])"

definition soft :: "bool \<Rightarrow> Severity" where
  "soft strict = (if strict then SV_error else SV_warning)"

definition placeholder_issues :: "bool \<Rightarrow> string \<Rightarrow> string option \<Rightarrow> PlanLintIssue list" where
  "placeholder_issues strict label text =
     when_issue (has_placeholder (str_or text [])) (issue (soft strict) ''placeholder'' label)"

definition indexed :: "string \<Rightarrow> nat \<Rightarrow> string" where
  "indexed label index = label @ ''['' @ nat_str index @ '']''"

definition run_lint_rules :: "PlanRecord \<Rightarrow> bool \<Rightarrow> PlanLintIssue list" where
  "run_lint_rules plan strict =
     (let goal = goal_text plan;
          waiver = strip (str_or (pl_todos_waived_reason plan) []);
          todos = enumerate 0 (pl_todos plan);
          criteria = enumerate 0 (pl_criteria plan)
      in when_issue (goal = None) (issue SV_error ''missing_goal'' ''plan.goal'')
       @ when_issue (pl_criteria plan = [])
           (issue SV_error ''missing_acceptance_criteria'' ''plan.criteria'')
       @ when_issue (pl_todos plan = [] \<and> waiver = [])
           (issue SV_error ''missing_todos'' ''plan.todos'')
       @ when_issue (strip (pl_body plan) = []) (issue SV_error ''missing_plan_body'' ''plan.body'')
       @ concat (map (\<lambda>(i, t). when_issue (\<not> todo_is_concrete t)
           (issue SV_error ''todo_not_concrete'' (indexed ''plan.todos'' i))) todos)
       @ placeholder_issues strict ''plan.goal'' goal
       @ placeholder_issues strict ''plan.body'' (Some (pl_body plan))
       @ concat (map (\<lambda>(i, c). placeholder_issues strict (indexed ''plan.criteria'' i)
           (Some (ac_text c))) criteria)
       @ concat (map (\<lambda>(i, t). placeholder_issues strict (indexed ''plan.todos'' i)
             (Some (td_text t))
           @ placeholder_issues strict (indexed ''plan.todos'' i @ ''.validation_hint'')
             (td_validation_hint t)) todos)
       @ when_issue (\<not> has_file_reference plan) (issue (soft strict) ''missing_files'' ''plan.files'')
       @ when_issue (\<not> has_test_command plan)
           (issue (soft strict) ''missing_test_commands'' ''plan.test_commands'')
       @ when_issue (\<not> has_expected_output plan)
           (issue (soft strict) ''missing_expected_outputs'' ''plan.expected_outputs'')
       @ when_issue (pl_todos plan \<noteq> [] \<and> \<not> has_test_command plan
             \<and> \<not> todos_have_validation_hints plan)
           (issue (soft strict) ''missing_todo_validation_hint'' ''plan.todos''))"

record PlanLintPayload =
  pp_plan_version :: int
  pp_strict :: bool
  pp_passed :: bool
  pp_errors :: nat
  pp_warnings :: nat
  pp_issues :: "PlanLintIssue list"

definition lint_payload :: "PlanRecord \<Rightarrow> bool \<Rightarrow> PlanLintPayload" where
  "lint_payload plan strict =
     (let issues = run_lint_rules plan strict;
          errors = length (filter (\<lambda>i. li_severity i = SV_error) issues);
          warnings = length (filter (\<lambda>i. li_severity i = SV_warning) issues)
      in \<lparr>pp_plan_version = pl_plan_version plan, pp_strict = strict, pp_passed = (errors = 0),
          pp_errors = errors, pp_warnings = warnings, pp_issues = issues\<rparr>)"

definition lint_plan ::
  "env \<Rightarrow> string \<Rightarrow> int option \<Rightarrow> bool \<Rightarrow> ledger \<Rightarrow> error + PlanLintPayload" where
  "lint_plan E task_ref version strict l =
     bindR (resolve_task E False task_ref l) (\<lambda>task.
     bindR (resolve_plan (tk_id task) version l) (\<lambda>plan.
     Inr (lint_payload plan strict)))"

section \<open>What passing means\<close>

definition no_error :: "PlanLintIssue list \<Rightarrow> bool" where
  "no_error issues \<longleftrightarrow> (\<forall>i \<in> set issues. li_severity i \<noteq> SV_error)"

lemma no_error_simps [simp]:
  "no_error (xs @ ys) \<longleftrightarrow> no_error xs \<and> no_error ys"
  "no_error (concat xss) \<longleftrightarrow> (\<forall>xs \<in> set xss. no_error xs)"
  "no_error (when_issue b (issue sv c k)) \<longleftrightarrow> (b \<longrightarrow> sv \<noteq> SV_error)"
  "no_error (placeholder_issues False k t)"
  by (auto simp: no_error_def when_issue_def issue_def placeholder_issues_def soft_def)

lemma lint_passed: "pp_passed (lint_payload plan strict) \<longleftrightarrow> no_error (run_lint_rules plan strict)"
  by (auto simp: lint_payload_def no_error_def Let_def filter_empty_conv)

lemma enumerate_all: "(\<forall>p \<in> set (enumerate n xs). P (snd p)) \<longleftrightarrow> (\<forall>x \<in> set xs. P x)"
  by (induction xs arbitrary: n) auto

lemma concrete_issues:
  "(\<forall>p \<in> set (enumerate 0 ts). no_error (case p of (i, t) \<Rightarrow>
      when_issue (\<not> todo_is_concrete t) (issue SV_error c (k i)))) \<longleftrightarrow> (\<forall>t \<in> set ts. todo_is_concrete t)"
  using enumerate_all [of 0 ts todo_is_concrete] by (simp add: case_prod_beta)

lemma lint_passed_iff:
  "pp_passed (lint_payload plan False) \<longleftrightarrow>
     goal_text plan \<noteq> None \<and> pl_criteria plan \<noteq> []
     \<and> (pl_todos plan \<noteq> [] \<or> strip (str_or (pl_todos_waived_reason plan) []) \<noteq> [])
     \<and> strip (pl_body plan) \<noteq> [] \<and> (\<forall>t \<in> set (pl_todos plan). todo_is_concrete t)"
proof -
  have hints: "no_error (case p of (i, t) \<Rightarrow> placeholder_issues False (f i) (g t)
      @ placeholder_issues False (h i) (k t))" for p :: "nat \<times> TaskTodo" and f g h k
    by (cases p) simp
  have texts: "no_error (case p of (i, t) \<Rightarrow> placeholder_issues False (f i) (g t))"
    for p :: "nat \<times> AcceptanceCriterion" and f g
    by (cases p) simp
  show ?thesis
    unfolding lint_passed run_lint_rules_def Let_def
    by (simp add: concrete_issues hints texts soft_def)
qed

lemma strict_at_least:
  "pp_passed (lint_payload plan True) \<Longrightarrow> pp_passed (lint_payload plan False)"
  unfolding lint_passed_iff unfolding lint_passed run_lint_rules_def Let_def
  by (simp add: concrete_issues)

end
