(* ===== verification/Planning.thy ===== *)
theory Planning
  imports PlanLint
begin

text \<open>
  The planning commands: \<open>taskledger/services/planning_flow.py\<close>,
  \<open>services/plan_materialization.py\<close>, \<open>services/plan_hash.py\<close> and \<open>reject_plan\<close> and
  \<open>revise_plan\<close> of \<open>services/tasks.py\<close>.
\<close>

section \<open>Starting and proposing\<close>

definition start_planning ::
  "env \<Rightarrow> string \<Rightarrow> ActorRef option \<Rightarrow> HarnessRef option \<Rightarrow> payload command" where
  "start_planning E task_ref actor harness =
     bindE (readE (resolve_task E False task_ref)) (\<lambda>task.
     thenE (ensure_not_archived task)
     (thenE (guardE (tk_status_stage task \<in> {S_draft, S_plan_review})
              (cli_error ''planning stage'' EXIT_CODE_INVALID_TRANSITION))
     (bindE (start_run E task RT_planning LS_planning actor harness) (\<lambda>run.
      bindE (readE (resolve_task E False (tk_id task))) (\<lambda>current.
      let updated = current\<lparr>tk_latest_planning_run := Some (rn_run_id run),
            tk_updated_at := e_now E\<rparr>
      in thenE (modifyE (save_task updated))
        (thenE (modifyE (append_event E (tk_id updated) ''plan.started''
                 [(''run_id'', PStr (rn_run_id run))]))
        (bindE (require_lock E (tk_id updated)) (\<lambda>lock.
         returnE (lifecycle_payload ''plan start'' updated [] True None (Some run) (Some lock)
           None)))))))))"

definition body_warnings :: "string \<Rightarrow> string list" where
  "body_warnings plan_body =
     (if strip plan_body = [] then [''empty plan body''] else [])"

definition propose_plan :: "env \<Rightarrow> string \<Rightarrow> string \<Rightarrow> string list \<Rightarrow> payload command" where
  "propose_plan E task_ref body criteria =
     bindE (readE (resolve_task E False task_ref)) (\<lambda>task.
     thenE (ensure_not_archived task)
     (bindE (readE (require_run E task (tk_latest_planning_run task))) (\<lambda>run.
      bindE (lock_for_mutation E (tk_id task)) (\<lambda>lock.
      thenE (enforce_decision (plan_propose_decision task lock (Some run)))
     (bindE (getsE (list_plans (tk_id task))) (\<lambda>plans.
      bindE (liftE (parse_plan_front_matter E body)) (\<lambda>(front_matter, plan_body).
      bindE (getsE (list_questions (tk_id task))) (\<lambda>questions.
      bindE (liftE (plan_from_input E task plans questions front_matter plan_body criteria
          (map qn_id (filter (\<lambda>q. qn_status q = QS_open) questions))
          (str_or (optional_front_matter_string front_matter ''generation_reason'') ''initial'')
          (map qn_id (filter (\<lambda>q. qn_status q = QS_answered) questions)))) (\<lambda>plan.
      thenE (save_plan plan)
     (let version = pl_plan_version plan;
          finished_run = run\<lparr>rn_status := RS_finished, rn_finished_at := Some (e_now E),
            rn_summary := summary_line (Some plan_body)\<rparr>;
          updated = task\<lparr>tk_latest_plan_version := Some version,
            tk_status_stage := S_plan_review, tk_updated_at := e_now E\<rparr>
      in thenE (modifyE (save_run finished_run))
        (thenE (modifyE (save_task updated))
        (thenE (release_lock E updated LS_planning (rn_run_id run) S_plan_review
                 ''stage.completed'' [(''plan_version'', PInt version)] True)
        (thenE (modifyE (append_event E (tk_id updated) ''plan.proposed''
                 [(''plan_version'', PInt version)]))
          (returnE (lifecycle_payload ''plan propose'' updated (body_warnings plan_body) True
            (Some version) None None None)))))))))))))))"

section \<open>Materialising todos\<close>

definition normalize_todo_text :: "string \<Rightarrow> string" where
  "normalize_todo_text text = join '' '' (words (lower text))"

definition todo_key :: "TaskTodo \<Rightarrow> string option \<times> string" where
  "todo_key todo = (td_source_plan_id todo, normalize_todo_text (td_text todo))"

definition materialized_todo :: "env \<Rightarrow> PlanRecord \<Rightarrow> string \<Rightarrow> TaskTodo \<Rightarrow> TaskTodo" where
  "materialized_todo E plan todo_id todo =
     todo\<lparr>td_id := todo_id, td_source := Some ''plan'',
       td_source_plan_id := Some (PlanRecord_plan_id plan), td_status := TS_open,
       td_done := False, td_created_at := e_now E, td_updated_at := e_now E\<rparr>"

fun new_plan_todos ::
  "env \<Rightarrow> PlanRecord \<Rightarrow> TaskTodo list \<Rightarrow> TaskTodo list \<Rightarrow> TaskTodo list \<Rightarrow> TaskTodo list" where
  "new_plan_todos E plan existing acc [] = acc"
| "new_plan_todos E plan existing acc (t # ts) =
     (if (Some (PlanRecord_plan_id plan), normalize_todo_text (td_text t)) \<in> todo_key ` set existing
      then new_plan_todos E plan existing acc ts
      else new_plan_todos E plan existing
        (acc @ [materialized_todo E plan
           (next_project_id E ''todo'' (map td_id existing @ map td_id acc)) t]) ts)"

definition materialize_plan_todos ::
  "env \<Rightarrow> string \<Rightarrow> int \<Rightarrow> bool \<Rightarrow> TaskTodo list command" where
  "materialize_plan_todos E task_ref version dry_run =
     bindE (readE (resolve_task E False task_ref)) (\<lambda>plain.
     bindE (getsE (task_with_sidecars plain)) (\<lambda>task.
     bindE (readE (resolve_plan (tk_id task) (Some version))) (\<lambda>plan.
     let new_todos = new_plan_todos E plan (tk_todos task) [] (pl_todos plan);
         updated = task\<lparr>tk_todos := tk_todos task @ new_todos, tk_updated_at := e_now E\<rparr>
     in thenE (whenE (new_todos \<noteq> [] \<and> \<not> dry_run)
           (thenE (modifyE (save_todos (tk_id updated) (tk_todos updated)))
           (thenE (modifyE (save_task updated))
             (modifyE (append_event E (tk_id updated) ''todo.added''
               [(''source_plan_id'', PStr (PlanRecord_plan_id plan)),
                (''todo_ids'', str_list (map td_id new_todos))])))))
         (returnE new_todos))))"

section \<open>Approval\<close>

record approve_args =
  aa_version :: int
  aa_actor_type :: string
  aa_actor_name :: "string option"
  aa_note :: "string option"
  aa_allow_agent_approval :: bool
  aa_reason :: "string option"
  aa_allow_empty_criteria :: bool
  aa_materialize_todos :: bool
  aa_allow_open_questions :: bool
  aa_allow_empty_todos :: bool
  aa_allow_lint_errors :: bool
  aa_approval_source :: "string option"

definition given :: "string option \<Rightarrow> bool" where
  "given x \<longleftrightarrow> strip (str_or x []) \<noteq> []"

definition approval_actor ::
  "env \<Rightarrow> string \<Rightarrow> string option \<Rightarrow> string option \<Rightarrow> bool \<Rightarrow> string option \<Rightarrow> error + ActorRef" where
  "approval_actor E actor_type actor_name note allow_agent_approval reason =
     (let kind = strip actor_type
      in if kind = ''user'' then
           (if \<not> given note then Inl (bad_input ''approval note'')
            else Inr (ActorRef_default\<lparr>ar_actor_type := AT_user,
              ar_actor_name := strip (str_or actor_name (str_or (Some (e_user E)) ''user'')),
              ar_tool := Some ''manual''\<rparr>))
         else if kind = ''agent'' then
           (if \<not> allow_agent_approval \<or> \<not> given reason
            then Inl (cli_error ''agent approval'' EXIT_CODE_APPROVAL_REQUIRED)
            else Inr (ActorRef_default\<lparr>ar_actor_type := AT_agent,
              ar_actor_name := strip (str_or actor_name (str_or (Some (e_user E)) ''taskledger'')),
              ar_tool := Some ''taskledger'', ar_host := Some (e_host E),
              ar_pid := Some (e_pid E)\<rparr>))
         else Inl (bad_input ''approval actor''))"

definition APPROVAL_SOURCES :: "string list" where
  "APPROVAL_SOURCES =
    [''explicit_chat'', ''initial_instruction'', ''harness_preapproved'', ''manual_override'',
     ''unknown'']"

definition normalize_approval_source :: "string option \<Rightarrow> error + string option" where
  "normalize_approval_source value =
     (case value of
        None \<Rightarrow> Inr None
      | Some v \<Rightarrow>
          (let normalized = lower (strip v)
           in if normalized = [] then Inr None
              else if normalized \<notin> set APPROVAL_SOURCES then Inl (bad_input ''approval source'')
              else Inr (Some normalized)))"

definition approved_plan_content_hash :: "env \<Rightarrow> PlanRecord \<Rightarrow> string" where
  "approved_plan_content_hash E plan =
     e_json_hash E (PDict
       [(''body'', PStr (pl_body plan)), (''goal'', opt_str (pl_goal plan)),
        (''files'', str_list (pl_files plan)), (''test_commands'', str_list (pl_test_commands plan)),
        (''expected_outputs'', str_list (pl_expected_outputs plan)),
        (''criteria'', PList (map (\<lambda>c. PDict (AcceptanceCriterion_to_dict c)) (pl_criteria plan))),
        (''todos'', PList (map (\<lambda>t. PDict (TaskTodo_to_dict t)) (pl_todos plan)))])"

text \<open>What \<open>approve_plan\<close> makes of each stored plan version.\<close>

definition approved_version ::
  "env \<Rightarrow> PlanRecord \<Rightarrow> ActorRef \<Rightarrow> string \<Rightarrow> string \<Rightarrow> PlanRecord \<Rightarrow> PlanRecord" where
  "approved_version E target approved_by note source plan =
     (if pl_plan_version plan = pl_plan_version target then
        plan\<lparr>pl_status := PS_accepted, pl_approved_at := Some (e_now E),
          pl_approved_by := Some approved_by, pl_approval_note := Some note,
          pl_approval_source := Some source,
          pl_approved_plan_hash := Some (approved_plan_content_hash E target)\<rparr>
      else if pl_status plan = PS_rejected then plan
      else plan\<lparr>pl_status := PS_superseded\<rparr>)"

definition approval_required :: "string \<Rightarrow> error" where
  "approval_required tag = cli_error tag EXIT_CODE_APPROVAL_REQUIRED"

text \<open>The guards of \<open>approve_plan\<close> up to the first write; the result is the plan and the actor.\<close>

definition approve_checks ::
  "env \<Rightarrow> TaskRecord \<Rightarrow> approve_args \<Rightarrow> (PlanRecord \<times> ActorRef \<times> string option) command" where
  "approve_checks E task a =
     bindE (getsE (current_lock (tk_id task))) (\<lambda>lock.
     thenE (enforce_decision (plan_approve_decision task lock))
     (bindE (getsE (running_runs task)) (\<lambda>running.
      thenE (guardE (running = [])
        (coded_error ''running run'' E_APPROVAL_REQUIRED EXIT_CODE_APPROVAL_REQUIRED))
     (bindE (getsE (list_questions (tk_id task))) (\<lambda>questions.
      thenE (guardE (required_open_question_ids questions = [] \<or> aa_allow_open_questions a)
        (approval_required ''open questions''))
     (thenE (guardE (aa_allow_open_questions a \<longrightarrow> given (aa_reason a)) (bad_input ''reason''))
     (bindE (readE (resolve_plan (tk_id task) (Some (aa_version a)))) (\<lambda>target.
      thenE (guardE (pl_status target = PS_proposed)
        (cli_error ''plan not proposed'' EXIT_CODE_INVALID_TRANSITION))
     (thenE (guardE (stale_answer_question_ids E questions target = [])
        (coded_error ''stale answers'' E_APPROVAL_REQUIRED EXIT_CODE_APPROVAL_REQUIRED))
     (thenE (guardE (pl_criteria target \<noteq> [] \<or> aa_allow_empty_criteria a)
        (approval_required ''no criteria''))
     (thenE (guardE (aa_allow_empty_criteria a \<longrightarrow> given (aa_reason a)) (bad_input ''reason''))
     (thenE (guardE (pl_todos target \<noteq> [] \<or> aa_allow_empty_todos a)
        (approval_required ''no todos''))
     (thenE (guardE (aa_allow_empty_todos a \<longrightarrow> given (aa_reason a)) (bad_input ''reason''))
     (thenE (guardE (aa_materialize_todos a \<or> given (aa_reason a)) (bad_input ''reason''))
     (bindE (liftE (approval_actor E (aa_actor_type a) (aa_actor_name a) (aa_note a)
               (aa_allow_agent_approval a) (aa_reason a))) (\<lambda>approved_by.
      bindE (readE (lint_plan E (tk_id task) (Some (aa_version a)) False)) (\<lambda>lint.
      thenE (guardE (pp_passed lint \<or> aa_allow_lint_errors a)
        (coded_error ''plan lint'' E_APPROVAL_REQUIRED EXIT_CODE_APPROVAL_REQUIRED))
     (thenE (guardE (aa_allow_lint_errors a \<longrightarrow> given (aa_reason a)) (bad_input ''reason''))
     (bindE (liftE (normalize_approval_source (aa_approval_source a))) (\<lambda>source.
      returnE (target, approved_by, source)))))))))))))))))))))"

definition approve_plan :: "env \<Rightarrow> string \<Rightarrow> approve_args \<Rightarrow> payload command" where
  "approve_plan E task_ref a =
     bindE (readE (resolve_task E False task_ref)) (\<lambda>task.
     thenE (ensure_not_archived task)
     (bindE (approve_checks E task a) (\<lambda>(target, approved_by, source).
      let note = strip (str_or (opt_str_or (aa_note a) (aa_reason a)) []);
          source_value = str_or source ''unknown'';
          version = pl_plan_version target;
          updated = task\<lparr>tk_accepted_plan_version := Some version,
            tk_status_stage := S_approved, tk_updated_at := e_now E\<rparr>
      in bindE (getsE (list_plans (tk_id task))) (\<lambda>plans.
         thenE (forE plans (\<lambda>plan. modifyE (overwrite_plan
           (approved_version E target approved_by note source_value plan))))
        (thenE (modifyE (save_task updated))
        (bindE (if aa_materialize_todos a
                then bindE (materialize_plan_todos E (tk_id updated) version False) (\<lambda>new_todos.
                     bindE (readE (resolve_task E False (tk_id updated))) (\<lambda>reread.
                     returnE (length new_todos, reread)))
                else returnE (0, updated)) (\<lambda>(materialized, final).
         thenE (modifyE (append_event E (tk_id final) ''plan.approved''
           [(''plan_version'', PInt version), (''approved_by'', PDict (ActorRef_to_dict approved_by)),
            (''approval_note'', PStr note), (''approval_source'', PStr source_value),
            (''approved_plan_hash'', PStr (approved_plan_content_hash E target))]))
          (returnE (lifecycle_payload ''plan approve'' final
             (if source = None then [''approval source missing''] else []) True (Some version)
             None None (Some (''materialized_todos='' @ nat_str materialized)))))))))))"

definition reject_plan :: "env \<Rightarrow> string \<Rightarrow> string option \<Rightarrow> payload command" where
  "reject_plan E task_ref reason =
     bindE (readE (resolve_task E False task_ref)) (\<lambda>task.
     thenE (ensure_not_archived task)
     (bindE (getsE (current_lock (tk_id task))) (\<lambda>lock.
      thenE (enforce_decision (plan_approve_decision task lock))
     (bindE (readE (resolve_plan (tk_id task) None)) (\<lambda>latest.
      let updated = task\<lparr>tk_status_stage := S_plan_review, tk_updated_at := e_now E\<rparr>
      in thenE (modifyE (overwrite_plan (latest\<lparr>pl_status := PS_rejected\<rparr>)))
        (thenE (modifyE (save_task updated))
        (thenE (modifyE (append_event E (tk_id updated) ''plan.rejected''
           [(''plan_version'', PInt (pl_plan_version latest)), (''reason'', opt_str reason)]))
          (returnE (lifecycle_payload ''plan reject'' updated [] True
             (Some (pl_plan_version latest)) None None None)))))))))"

definition revise_plan :: "env \<Rightarrow> string \<Rightarrow> payload command" where
  "revise_plan E task_ref =
     bindE (readE (resolve_task E False task_ref)) (\<lambda>task.
     thenE (ensure_not_archived task)
     (bindE (getsE (current_lock (tk_id task))) (\<lambda>lock.
      thenE (enforce_decision (plan_revise_decision task lock))
        (start_planning E task_ref None None))))"

section \<open>Regeneration after answers\<close>

text \<open>
  Which running planning run the regeneration ends: the one under its lock, an orphaned one,
  or none.
\<close>

definition regeneration_run ::
  "env \<Rightarrow> TaskRecord \<Rightarrow> ledger \<Rightarrow> error + (TaskRunRecord option \<times> TaskRunRecord option)" where
  "regeneration_run E task l =
     (let latest = optional_run E task (tk_latest_planning_run task) l;
          lock = current_lock (tk_id task) l
      in case running_runs task l of
           [] \<Rightarrow> Inr (None, None)
         | [r] \<Rightarrow>
             (case latest of
                Some p \<Rightarrow>
                  if rn_run_id r = rn_run_id p \<and> rn_run_type p = RT_planning then
                    bindR (lock_matches_run E lock p) (\<lambda>matches.
                    if matches then Inr (Some p, None)
                    else if lock = None then Inr (None, Some p)
                    else Inl running_run_conflict_error)
                  else Inl running_run_conflict_error
              | None \<Rightarrow> Inl running_run_conflict_error)
         | _ \<Rightarrow> Inl running_run_conflict_error)"

text \<open>What it writes, once the new plan is computed.\<close>

definition store_regenerated_plan ::
  "env \<Rightarrow> TaskRecord \<Rightarrow> PlanRecord list \<Rightarrow> PlanRecord \<Rightarrow> string
    \<Rightarrow> TaskRunRecord option \<times> TaskRunRecord option \<Rightarrow> payload command" where
  "store_regenerated_plan E task plans plan plan_body runs =
     thenE (save_plan plan)
     (thenE (whenE (plans \<noteq> [] \<and> pl_status (last plans) = PS_proposed)
        (modifyE (overwrite_plan ((last plans)\<lparr>pl_status := PS_superseded\<rparr>))))
     (let version = pl_plan_version plan;
          finish = (\<lambda>r. save_run (r\<lparr>rn_status := RS_finished, rn_finished_at := Some (e_now E),
            rn_summary := summary_line (Some plan_body)\<rparr>));
          updated = task\<lparr>tk_latest_plan_version := Some version,
            tk_status_stage := S_plan_review, tk_updated_at := e_now E\<rparr>
      in thenE (case fst runs of None \<Rightarrow> returnE () | Some r \<Rightarrow> modifyE (finish r))
        (thenE (case snd runs of None \<Rightarrow> returnE () | Some r \<Rightarrow> modifyE (finish r))
        (thenE (modifyE (save_task updated))
        (thenE (case fst runs of
                  None \<Rightarrow> returnE ()
                | Some r \<Rightarrow> release_lock E updated LS_planning (rn_run_id r) S_plan_review
                    ''stage.completed'' [(''plan_version'', PInt version)] True)
        (thenE (case snd runs of
                  None \<Rightarrow> returnE ()
                | Some r \<Rightarrow> modifyE (append_event E (tk_id updated) ''run.recovered''
                    [(''stage'', PStr ''planning''), (''run_id'', PStr (rn_run_id r)),
                     (''recovered_missing_lock'', PBool True), (''plan_version'', PInt version)]))
        (thenE (modifyE (append_event E (tk_id updated) ''plan.proposed''
            [(''plan_version'', PInt version), (''generation_reason'', PStr ''after_questions'')]))
          (returnE (lifecycle_payload ''plan regenerate'' updated (body_warnings plan_body) True
            (Some version) None None None)))))))))"

definition regenerate_plan_from_answers ::
  "env \<Rightarrow> string \<Rightarrow> string \<Rightarrow> string list \<Rightarrow> bool \<Rightarrow> payload command" where
  "regenerate_plan_from_answers E task_ref body criteria allow_open_questions =
     bindE (readE (resolve_task E False task_ref)) (\<lambda>task.
     bindE (getsE (list_questions (tk_id task))) (\<lambda>questions.
     let open_required = required_open_question_ids questions;
         answered = filter (\<lambda>q. qn_status q = QS_answered \<and> qn_required_for_plan q) questions
     in thenE (guardE (open_required = [] \<or> allow_open_questions)
          (approval_required ''open questions''))
     (bindE (getsE (list_plans (tk_id task))) (\<lambda>plans.
      thenE (guardE (answered \<noteq> [] \<or> plans \<noteq> []) (approval_required ''nothing to regenerate''))
     (bindE (readE (regeneration_run E task)) (\<lambda>runs.
      bindE (liftE (parse_plan_front_matter E body)) (\<lambda>(front_matter, plan_body).
      bindE (liftE (plan_from_input E task plans questions front_matter plan_body criteria
          open_required ''after_questions'' (map qn_id answered))) (\<lambda>plan.
      store_regenerated_plan E task plans plan plan_body runs))))))))"

record upsert_args =
  ua_criteria :: "string list"
  ua_from_answers :: bool
  ua_allow_open_questions :: bool
  ua_auto_revise :: bool

definition upsert_plan :: "env \<Rightarrow> string \<Rightarrow> string \<Rightarrow> upsert_args \<Rightarrow> payload command" where
  "upsert_plan E task_ref body a =
     bindE (readE (resolve_task E False task_ref)) (\<lambda>task.
     thenE (ensure_not_archived task)
     (bindE (getsE (list_questions (tk_id task))) (\<lambda>questions.
      thenE (guardE (required_open_question_ids questions = [] \<or> ua_allow_open_questions a)
        (approval_required ''open questions''))
     (bindE (getsE (latest_plan_or_none (tk_id task))) (\<lambda>latest.
      let stale = (case latest of
            Some p \<Rightarrow> stale_answer_question_ids E questions p
          | None \<Rightarrow> map qn_id (filter (\<lambda>q. qn_status q = QS_answered \<and> qn_required_for_plan q)
              questions))
      in if ua_from_answers a \<or> stale \<noteq> [] then
           regenerate_plan_from_answers E (tk_id task) body (ua_criteria a)
             (ua_allow_open_questions a)
         else
           bindE (getsE (current_lock (tk_id task))) (\<lambda>lock.
           thenE (if ua_auto_revise a \<and> tk_status_stage task = S_plan_review \<and> lock = None
                  then bindE (start_planning E (tk_id task) None None) (\<lambda>_. returnE ())
                  else returnE ())
             (propose_plan E (tk_id task) body (ua_criteria a))))))))"

section \<open>Planning guidance\<close>

definition PLANNING_GUIDANCE_WORKLOG_PREFIX :: string where
  "PLANNING_GUIDANCE_WORKLOG_PREFIX = ''Planning guidance viewed:''"

definition mark_planning_guidance_viewed :: "env \<Rightarrow> string \<Rightarrow> bool command" where
  "mark_planning_guidance_viewed E task_ref =
     bindE (readE (resolve_task E False task_ref)) (\<lambda>task.
     thenE (ensure_not_archived task)
     (bindE (getsE (optional_run E task (tk_latest_planning_run task))) (\<lambda>optional.
      case optional of
        None \<Rightarrow> returnE False
      | Some run \<Rightarrow>
          if rn_run_type run \<noteq> RT_planning \<or> rn_status run \<noteq> RS_running then returnE False
          else if list_ex (\<lambda>line. startswith line PLANNING_GUIDANCE_WORKLOG_PREFIX)
                 (rn_worklog run)
          then returnE False
          else
            thenE (modifyE (save_run (run\<lparr>rn_worklog := rn_worklog run @
                [PLANNING_GUIDANCE_WORKLOG_PREFIX @ '' '' @ e_now E]\<rparr>)))
           (thenE (modifyE (append_event E (tk_id task) ''plan.guidance.viewed''
                [(''run_id'', PStr (rn_run_id run))]))
             (returnE True)))))"

section \<open>The run invariant\<close>

lemma start_planning_inv: "keeps run_inv (start_planning E task_ref actor harness)"
  unfolding start_planning_def Let_def
  by (intro keepsI wp_intro) (auto intro!: run_inv_save_task started_ledger_inv)

lemma propose_plan_inv: "keeps run_inv (propose_plan E task_ref body criteria)"
  unfolding propose_plan_def Let_def
  by (intro keepsI wp_intro)
    (auto dest: require_run_of run_inv_task holds_runD simp: plan_propose_allowed)

lemma materialize_plan_todos_inv: "keeps run_inv (materialize_plan_todos E task_ref version dry)"
  unfolding materialize_plan_todos_def Let_def
  by (intro keepsI wp_intro) auto

text \<open>
  What \<open>approve_plan\<close> demands before it writes anything, in one predicate: the stage, no lock
  and no running run, the questions, the version, its criteria, todos and lint report, the
  approver, and a reason for every exception.
\<close>

definition approval_gate ::
  "env \<Rightarrow> TaskRecord \<Rightarrow> approve_args \<Rightarrow> ledger \<Rightarrow> PlanRecord \<Rightarrow> ActorRef \<Rightarrow> bool" where
  "approval_gate E task a l plan actor \<longleftrightarrow>
     tk_status_stage task = S_plan_review \<and> read_lock (tk_id task) l = None
     \<and> running_runs task l = []
     \<and> resolve_plan (tk_id task) (Some (aa_version a)) l = Inr plan
     \<and> pl_status plan = PS_proposed
     \<and> stale_answer_question_ids E (list_questions (tk_id task) l) plan = []
     \<and> (required_open_question_ids (list_questions (tk_id task) l) = []
        \<or> aa_allow_open_questions a)
     \<and> (pl_criteria plan \<noteq> [] \<or> aa_allow_empty_criteria a)
     \<and> (pl_todos plan \<noteq> [] \<or> aa_allow_empty_todos a)
     \<and> (\<exists>lint. lint_plan E (tk_id task) (Some (aa_version a)) False l = Inr lint
          \<and> (pp_passed lint \<or> aa_allow_lint_errors a))
     \<and> (given (aa_reason a) \<or> aa_materialize_todos a \<and> \<not> aa_allow_open_questions a
        \<and> \<not> aa_allow_empty_criteria a \<and> \<not> aa_allow_empty_todos a \<and> \<not> aa_allow_lint_errors a)
     \<and> approval_actor E (aa_actor_type a) (aa_actor_name a) (aa_note a)
         (aa_allow_agent_approval a) (aa_reason a) = Inr actor"

lemma wp_approve_checks [wp_intro]:
  assumes "\<And>plan actor source. approval_gate E task a l plan actor
      \<Longrightarrow> normalize_approval_source (aa_approval_source a) = Inr source
      \<Longrightarrow> Q (plan, actor, source) l"
    and "\<And>e. X e l"
  shows "wp (approve_checks E task a) Q X l"
  unfolding approve_checks_def
  by (intro wp_intro assms)
    (auto simp: plan_approve_allowed current_lock_def approval_gate_def)

lemma approve_plan_inv: "keeps run_inv (approve_plan E task_ref a)"
  unfolding approve_plan_def Let_def
  by (intro keepsI wp_intro wp_mono [OF wp_forE [where I = run_inv]]
     wp_keeps [OF materialize_plan_todos_inv]; auto)

lemma reject_plan_inv: "keeps run_inv (reject_plan E task_ref reason)"
  unfolding reject_plan_def Let_def
  by (intro keepsI wp_intro) auto

lemma revise_plan_inv: "keeps run_inv (revise_plan E task_ref)"
  unfolding revise_plan_def
  by (intro keepsI wp_intro wp_keeps [OF start_planning_inv]) auto

lemma mark_planning_guidance_viewed_inv: "keeps run_inv (mark_planning_guidance_viewed E task_ref)"
  unfolding mark_planning_guidance_viewed_def
  by (intro keepsI wp_intro)
    (auto intro!: run_inv_edit_run dest!: optional_run_of [OF sym])

lemma regeneration_runD:
  assumes "regeneration_run E task l = Inr (a, b)" "dir_ok rn_run_id (l_runs l (tk_id task))"
    "\<forall>r \<in> runs_of l (tk_id task). rn_task_id r = tk_id task"
  shows "(a = None \<and> b = None) \<or>
    (\<exists>r \<in> runs_of l (tk_id task). rn_status r = RS_running \<and> rn_run_type r = RT_planning
      \<and> rn_task_id r = tk_id task
      \<and> (a = Some r \<and> b = None \<or> a = None \<and> b = Some r \<and> read_lock (tk_id task) l = None))"
proof (cases "running_runs task l")
  case Nil
  then show ?thesis using assms by (simp add: regeneration_run_def Let_def)
next
  case (Cons r rs)
  then have r: "r \<in> runs_of l (tk_id task)" "rn_status r = RS_running"
    using running_runs_mem [of r task l] by auto
  obtain p where latest: "optional_run E task (tk_latest_planning_run task) l = Some p"
    using Cons assms(1)
    by (cases "optional_run E task (tk_latest_planning_run task) l")
      (auto simp: regeneration_run_def Let_def split: list.splits)
  have mem: "p \<in> runs_of l (tk_id task)"
    using latest by (rule optional_run_of)
  from latest Cons assms(1) have p: "rs = []" "rn_run_id r = rn_run_id p"
    "rn_run_type p = RT_planning"
    and ab: "a = Some p \<and> b = None \<or> a = None \<and> b = Some p \<and> read_lock (tk_id task) l = None"
    by (auto simp: regeneration_run_def Let_def bindR_def current_lock_def
        split: list.splits if_splits sum.splits)
  show ?thesis
    using p ab runs_same_id [OF assms(2) mem r(1)] r assms(3) by auto
qed

lemma store_regenerated_plan_inv:
  assumes inv: "run_inv l" and runs: "regeneration_run E task l = Inr runs"
  shows "wp (store_regenerated_plan E task plans plan plan_body runs)
    (\<lambda>_. run_inv) (\<lambda>_. run_inv) l"
proof -
  obtain a b where ab: "runs = (a, b)" by fastforce
  have own: "\<forall>r \<in> runs_of l (tk_id task). rn_task_id r = tk_id task"
    by (intro ballI run_inv_task [OF inv])
  consider "a = None" "b = None"
    | r where "r \<in> runs_of l (tk_id task)" "rn_status r = RS_running" "rn_run_type r = RT_planning"
      "rn_task_id r = tk_id task" "a = Some r" "b = None"
    | r where "r \<in> runs_of l (tk_id task)" "rn_task_id r = tk_id task" "a = None" "b = Some r"
      "read_lock (tk_id task) l = None"
    using regeneration_runD [OF runs [unfolded ab] run_inv_dir [OF inv] own] by blast
  then show ?thesis
    unfolding store_regenerated_plan_def Let_def ab fst_conv snd_conv
    by cases (use inv in \<open>simp; intro wp_intro;
      auto intro!: run_inv_end_orphan run_inv_save_task\<close>)+
qed

lemma regenerate_plan_inv:
  "keeps run_inv (regenerate_plan_from_answers E task_ref body criteria allow)"
  unfolding regenerate_plan_from_answers_def Let_def
  by (intro keepsI wp_intro store_regenerated_plan_inv)

lemma upsert_plan_inv: "keeps run_inv (upsert_plan E task_ref body a)"
  unfolding upsert_plan_def Let_def
  by (intro keepsI wp_intro wp_keeps [OF start_planning_inv] wp_keeps [OF propose_plan_inv]
      wp_keeps [OF regenerate_plan_inv]) auto

section \<open>What an approval leaves behind\<close>

text \<open>
  \<open>plan_inv\<close>: the plan files of a task carry their versions' names and belong to the task. From
  it, a fold that rewrites every stored version is an image on the stored plans, which is what the
  approval does to accept one version and supersede the others.
\<close>

lemma forE_modify: "forE xs (\<lambda>x. modifyE (h x)) l = (Inr (), fold h xs l)"
  by (induction xs arbitrary: l) (simp_all add: returnE_def thenE_def bindE_def modifyE_def)

definition plan_inv :: "ledger \<Rightarrow> bool" where
  "plan_inv l \<longleftrightarrow>
     (\<forall>t. dir_ok PlanRecord_plan_id (l_plans l t) \<and> (\<forall>p \<in> snd ` set (l_plans l t). pl_task_id p = t))"

lemma plan_id_prefix: "startswith (plan_id v) ''plan-v''"
  unfolding plan_id_def by (rule startswith_append)

lemma list_plans_records:
  assumes "plan_inv l"
  shows "set (list_plans t l) = snd ` set (l_plans l t)"
proof -
  have "startswith k ''plan-v''" if "(k, p) \<in> set (l_plans l t)" for k p
  proof -
    have "k = plan_id (pl_plan_version p)"
      using assms that by (auto simp: plan_inv_def dir_ok_def PlanRecord_plan_id_def)
    then show ?thesis using plan_id_prefix by simp
  qed
  then show ?thesis by (force simp: list_plans_def dir_glob_mem)
qed

lemma overwrite_fold:
  assumes "\<forall>p \<in> set ps. pl_task_id (g p) = t \<and> pl_plan_version (g p) = pl_plan_version p"
  shows "fold (\<lambda>p. overwrite_plan (g p)) ps l =
    l\<lparr>l_plans := (l_plans l)(t := fold (\<lambda>p. dir_put (PlanRecord_plan_id p) (persist_plan (g p))) ps
       (l_plans l t))\<rparr>"
  using assms
  by (induction ps arbitrary: l) (simp_all add: overwrite_plan_def PlanRecord_plan_id_def fun_upd_idem)

lemma plan_inv_get:
  assumes "plan_inv l" "p \<in> set (list_plans t l)"
  shows "dir_get (l_plans l t) (PlanRecord_plan_id p) = Some p" "pl_task_id p = t"
proof -
  have "dir_ok PlanRecord_plan_id (l_plans l t)" using assms(1) by (simp add: plan_inv_def)
  then show "dir_get (l_plans l t) (PlanRecord_plan_id p) = Some p"
    using assms(2) by (simp only: list_plans_records [OF assms(1)] dir_ok_records)
  show "pl_task_id p = t"
    using assms by (auto simp: plan_inv_def list_plans_records)
qed

lemma persist_plan_sel [simp]:
  "pl_plan_version (persist_plan p) = pl_plan_version p" "pl_task_id (persist_plan p) = pl_task_id p"
  "pl_status (persist_plan p) = pl_status p"
  "PlanRecord_plan_id (persist_plan p) = PlanRecord_plan_id p"
  by (simp_all add: persist_plan_def PlanRecord_plan_id_def)


text \<open>Rewriting every stored version of a task.\<close>

lemma rewrite_plans:
  assumes inv: "plan_inv l"
    and g: "\<And>p. pl_task_id (g p) = pl_task_id p" "\<And>p. pl_plan_version (g p) = pl_plan_version p"
    and l': "l' = fold (\<lambda>p. overwrite_plan (g p)) (list_plans t l) l"
  shows "plan_inv l'" "set (list_plans t l') = (\<lambda>p. persist_plan (g p)) ` set (list_plans t l)"
proof -
  let ?ps = "list_plans t l" and ?f = "\<lambda>p. persist_plan (g p)"
  let ?d = "fold (\<lambda>p. dir_put (PlanRecord_plan_id p) (?f p)) ?ps (l_plans l t)"
  have task: "\<forall>p \<in> set ?ps. pl_task_id (g p) = t \<and> pl_plan_version (g p) = pl_plan_version p"
    using plan_inv_get(2) [OF inv, of _ t] by (simp only: g) blast
  have plans: "l_plans l' = (l_plans l)(t := ?d)"
    using overwrite_fold [OF task, of l] l' by simp
  have ok: "dir_ok PlanRecord_plan_id (l_plans l t)" using inv by (simp add: plan_inv_def)
  have f: "PlanRecord_plan_id (?f p) = PlanRecord_plan_id p" for p
    by (simp add: PlanRecord_plan_id_def g(2))
  note d = dir_rewrite [where key = PlanRecord_plan_id and f = ?f and d = "l_plans l t" and ps = ?ps,
    OF ok list_plans_records [OF inv] f]
  have "\<forall>p \<in> snd ` set ?d. pl_task_id p = t"
    unfolding d(2) using task by simp
  then show inv': "plan_inv l'"
    using inv d(1) by (simp add: plan_inv_def plans)
  show "set (list_plans t l') = ?f ` set ?ps"
    using d(2) by (simp add: list_plans_records [OF inv'] plans)
qed

lemma approved_version_sel [simp]:
  "pl_task_id (approved_version E target actor note src p) = pl_task_id p"
  "pl_plan_version (approved_version E target actor note src p) = pl_plan_version p"
  by (simp_all add: approved_version_def)

lemma approved_version_accepted:
  "pl_status (approved_version E target actor note src p) = PS_accepted
    \<longleftrightarrow> pl_plan_version p = pl_plan_version target"
  by (auto simp: approved_version_def)

text \<open>
  A stored task that is approved for version \<open>v\<close> stays so while its todos are materialised.
\<close>

definition approved_task :: "string \<Rightarrow> int \<Rightarrow> ledger \<Rightarrow> bool" where
  "approved_task i v l \<longleftrightarrow>
     dir_ok tk_id (l_tasks l) \<and> (\<exists>t. dir_get (l_tasks l) i = Some t
       \<and> tk_status_stage t = S_approved \<and> tk_accepted_plan_version t = Some v)"

lemma dir_get_save_task:
  "dir_get (l_tasks (save_task t l)) i = (if i = tk_id t then Some (persist_task t) else dir_get (l_tasks l) i)"
  by (simp add: save_task_def dir_get_put)

lemma persist_task_sel [simp]:
  "tk_id (persist_task t) = tk_id t" "tk_status_stage (persist_task t) = tk_status_stage t"
  "tk_accepted_plan_version (persist_task t) = tk_accepted_plan_version t"
  by (simp_all add: persist_task_def)

lemma dir_ok_save_task: "dir_ok tk_id (l_tasks l) \<Longrightarrow> dir_ok tk_id (l_tasks (save_task t l))"
  by (auto simp: save_task_def intro!: dir_ok_put)

lemma approved_task_frame [simp]:
  "approved_task i v (append_event E t n d l) = approved_task i v l"
  "approved_task i v (save_todos k ts l) = approved_task i v l"
  by (simp_all add: approved_task_def save_todos_def)

lemma task_with_sidecars_sel [simp]:
  "tk_id (task_with_sidecars t l) = tk_id t"
  "tk_status_stage (task_with_sidecars t l) = tk_status_stage t"
  "tk_accepted_plan_version (task_with_sidecars t l) = tk_accepted_plan_version t"
  by (simp_all add: task_with_sidecars_def)

lemma save_todos_frame [simp]:
  "l_tasks (save_todos k ts l) = l_tasks l" "l_plans (save_todos k ts l) = l_plans l"
  by (simp_all add: save_todos_def)

lemma approved_task_save:
  assumes "approved_task i v l" "\<exists>t0. dir_get (l_tasks l) (tk_id t) = Some t0
      \<and> tk_status_stage t = tk_status_stage t0
      \<and> tk_accepted_plan_version t = tk_accepted_plan_version t0"
  shows "approved_task i v (save_task t l)"
  using assms by (auto simp: approved_task_def dir_get_save_task dir_ok_save_task)

lemma wp_materialize_plan_todos:
  assumes "approved_task i v l"
    and "\<And>todos l'. approved_task i v l' \<Longrightarrow> l_plans l' = l_plans l \<Longrightarrow> Q todos l'"
    and "\<And>e. X e l"
  shows "wp (materialize_plan_todos E ref version dry) Q X l"
proof -
  have ok: "dir_ok tk_id (l_tasks l)" using assms(1) by (simp add: approved_task_def)
  show ?thesis
  unfolding materialize_plan_todos_def Let_def
  by (intro wp_intro assms(2,3))
    (use assms(1) in \<open>auto intro!: approved_task_save dest!: resolve_task_stored [OF _ ok]\<close>)
qed

lemma dir_ok_tasks_plans [simp]: "l_tasks (fold (\<lambda>p. overwrite_plan (g p)) ps l) = l_tasks l"
  by (induction ps arbitrary: l) simp_all

lemma approved_task_saved:
  "dir_ok tk_id (l_tasks l) \<Longrightarrow> tk_status_stage t = S_approved \<Longrightarrow> tk_accepted_plan_version t = Some v
    \<Longrightarrow> approved_task (tk_id t) v (save_task t l)"
  by (simp add: approved_task_def dir_get_save_task dir_ok_save_task)

lemma wp_forE_fold: "Q () (fold h xs l) \<Longrightarrow> wp (forE xs (\<lambda>x. modifyE (h x))) Q X l"
  by (simp add: wp_def forE_modify)

lemma list_plans_frame: "l_plans l' = l_plans l \<Longrightarrow> list_plans t l' = list_plans t l"
  by (simp add: list_plans_def)

lemma approved_plans:
  assumes "plan_inv l" "approval_gate E task a l plan actor"
    "l_plans l' = l_plans (fold (\<lambda>p. overwrite_plan (approved_version E plan ac note src p))
      (list_plans (tk_id task) l) l)"
  shows "\<forall>p \<in> set (list_plans (tk_id task) l').
    pl_status p = PS_accepted \<longleftrightarrow> pl_plan_version p = aa_version a"
proof -
  have v: "pl_plan_version plan = aa_version a"
    using assms(2) by (auto simp: approval_gate_def dest: resolve_plan_version)
  show ?thesis
    using rewrite_plans(2) [OF assms(1) _ _ refl, of "approved_version E plan ac note src" "tk_id task"]
    by (auto simp: list_plans_frame [OF assms(3)] approved_version_accepted v)
qed

definition plan_approved :: "env \<Rightarrow> string \<Rightarrow> approve_args \<Rightarrow> ledger \<Rightarrow> ledger \<Rightarrow> bool" where
  "plan_approved E ref a l l' \<longleftrightarrow>
     (\<exists>task plan actor. resolve_task E False ref l = Inr task \<and> \<not> is_archived_task task
        \<and> approval_gate E task a l plan actor
        \<and> approved_task (tk_id task) (aa_version a) l'
        \<and> (\<forall>p \<in> set (list_plans (tk_id task) l').
             pl_status p = PS_accepted \<longleftrightarrow> pl_plan_version p = aa_version a))"

lemma plan_approvedI:
  assumes "plan_inv l" "resolve_task E False ref l = Inr task" "\<not> is_archived_task task"
    "approval_gate E task a l plan actor"
    "approved_task (tk_id task) (pl_plan_version plan) l'"
    "l_plans l' = l_plans (fold (\<lambda>p. overwrite_plan (approved_version E plan actor note src p))
      (list_plans (tk_id task) l) l)"
  shows "plan_approved E ref a l l'"
proof -
  have "pl_plan_version plan = aa_version a"
    using assms(4) by (auto simp: approval_gate_def dest: resolve_plan_version)
  then show ?thesis
    using assms approved_plans [OF assms(1,4,6)] by (auto simp: plan_approved_def)
qed

lemma approve_plan_outcome:
  assumes "plan_inv l" "run_inv l"
  shows "wp (approve_plan E ref a) (\<lambda>_. plan_approved E ref a l) (\<lambda>_ _. True) l"
proof -
  have saved: "approved_task (tk_id task) v (save_task (task\<lparr>tk_accepted_plan_version := Some v,
      tk_status_stage := S_approved, tk_updated_at := now\<rparr>)
      (fold (\<lambda>p. overwrite_plan (g p)) ps l))" for task v now and g :: "PlanRecord \<Rightarrow> PlanRecord" and ps
    using run_inv_tasks [OF assms(2)]
    by (simp add: approved_task_def dir_get_save_task dir_ok_save_task)
  show ?thesis
    unfolding approve_plan_def Let_def
    by (intro wp_intro wp_forE_fold wp_materialize_plan_todos;
      (rule saved | rule plan_approvedI [OF assms(1)])?; (assumption | simp add: saved)?)
qed

section \<open>Materialising twice\<close>

lemma new_plan_todos_acc: "set acc \<subseteq> set (new_plan_todos E plan existing acc ts)"
  by (induction E plan existing acc ts rule: new_plan_todos.induct) auto

lemma new_plan_todos_keys:
  "t \<in> set ts \<Longrightarrow> (Some (PlanRecord_plan_id plan), normalize_todo_text (td_text t))
     \<in> todo_key ` set (existing @ new_plan_todos E plan existing acc ts)"
proof (induction E plan existing acc ts rule: new_plan_todos.induct)
  case (2 E plan existing acc x xs)
  show ?case
  proof (cases "t = x")
    case True
    let ?m = "materialized_todo E plan (next_project_id E ''todo'' (map td_id existing @ map td_id acc)) x"
    have "todo_key ?m = (Some (PlanRecord_plan_id plan), normalize_todo_text (td_text x))"
      by (simp add: todo_key_def materialized_todo_def)
    then show ?thesis
      using True new_plan_todos_acc [of "acc @ [?m]" E plan existing xs]
      by (auto intro: rev_image_eqI)
  next
    case False
    then show ?thesis using 2 by auto
  qed
qed simp

lemma new_plan_todos_none:
  "\<forall>t \<in> set ts. (Some (PlanRecord_plan_id plan), normalize_todo_text (td_text t)) \<in> todo_key ` set existing
    \<Longrightarrow> new_plan_todos E plan existing acc ts = acc"
  by (induction E plan existing acc ts rule: new_plan_todos.induct) auto

lemma materialized_again:
  "new_plan_todos E plan (existing @ new_plan_todos E plan existing [] ts) [] ts = []"
  by (rule new_plan_todos_none) (intro ballI new_plan_todos_keys)

end
