(* ===== verification/Questions.thy ===== *)
theory Questions
  imports Planning
begin

text \<open>
  Planning questions: \<open>add_question\<close>, \<open>add_questions\<close>, \<open>answer_question\<close>,
  \<open>answer_questions\<close>, \<open>dismiss_question\<close> and \<open>question_status\<close> of
  \<open>taskledger/services/tasks.py\<close>.
\<close>

section \<open>Asking\<close>

definition new_question ::
  "env \<Rightarrow> TaskRecord \<Rightarrow> string \<Rightarrow> string \<Rightarrow> bool \<Rightarrow> ActorRef option \<Rightarrow> HarnessRef option
    \<Rightarrow> QuestionRecord" where
  "new_question E task question_id text required_for_plan actor harness =
     \<lparr>qn_id = question_id, qn_task_id = tk_id task, qn_question = text,
      qn_plan_version = tk_latest_plan_version task, qn_status = QS_open,
      qn_created_at = e_now E, qn_answered_at = None, qn_answered_by = None,
      qn_answered_by_actor = None, qn_asked_by_actor = Some (actor_or E actor),
      qn_asked_in_harness = Some (case harness of Some h \<Rightarrow> h | None \<Rightarrow> default_harness E),
      qn_required_for_plan = required_for_plan, qn_answer_source = None, qn_answer = None,
      qn_file_version = TASKLEDGER_V2_FILE_VERSION,
      qn_schema_version = TASKLEDGER_SCHEMA_VERSION, qn_object_type = ''question''\<rparr>"

definition save_new_question :: "env \<Rightarrow> string \<Rightarrow> QuestionRecord \<Rightarrow> unit command" where
  "save_new_question E task_id question =
     thenE (modifyE (save_question question))
       (modifyE (append_event E task_id ''question.added''
         [(''question_id'', PStr (qn_id question)),
          (''required_for_plan'', PBool (qn_required_for_plan question))]))"

definition add_question ::
  "env \<Rightarrow> string \<Rightarrow> string \<Rightarrow> bool \<Rightarrow> ActorRef option \<Rightarrow> HarnessRef option
    \<Rightarrow> QuestionRecord command" where
  "add_question E task_ref text required_for_plan actor harness =
     bindE (readE (resolve_task E False task_ref)) (\<lambda>task.
     thenE (ensure_not_archived task)
     (bindE (lock_for_mutation E (tk_id task)) (\<lambda>lock.
      thenE (enforce_decision (question_add_decision task lock ''planner''))
     (bindE (getsE (list_questions (tk_id task))) (\<lambda>existing.
      let question = new_question E task (next_project_id E ''q'' (map qn_id existing))
            (strip text) required_for_plan actor harness
      in thenE (save_new_question E (tk_id task) question) (returnE question))))))"

text \<open>\<open>casefold\<close> is \<open>lower\<close> on ASCII text.\<close>

fun normalize_question_batch ::
  "bool \<Rightarrow> string set \<Rightarrow> (string \<times> bool) list \<Rightarrow> error + (string \<times> bool) list" where
  "normalize_question_batch allow_duplicates seen [] = Inr []"
| "normalize_question_batch allow_duplicates seen ((text, required) # rest) =
     (let stripped = strip text; key = lower stripped
      in if stripped = [] then Inl (bad_input ''empty question'')
         else if \<not> allow_duplicates \<and> key \<in> seen then Inl (bad_input ''duplicate question'')
         else bindR (normalize_question_batch allow_duplicates (insert key seen) rest) (\<lambda>qs.
              Inr ((stripped, required) # qs)))"

fun batch_questions ::
  "env \<Rightarrow> TaskRecord \<Rightarrow> ActorRef option \<Rightarrow> HarnessRef option \<Rightarrow> string list
    \<Rightarrow> (string \<times> bool) list \<Rightarrow> QuestionRecord list" where
  "batch_questions E task actor harness known_ids [] = []"
| "batch_questions E task actor harness known_ids ((text, required) # rest) =
     (let question_id = next_project_id E ''q'' known_ids
      in new_question E task question_id text required actor harness
         # batch_questions E task actor harness (known_ids @ [question_id]) rest)"

definition add_questions ::
  "env \<Rightarrow> string \<Rightarrow> (string \<times> bool) list \<Rightarrow> ActorRef option \<Rightarrow> HarnessRef option \<Rightarrow> bool
    \<Rightarrow> QuestionRecord list command" where
  "add_questions E task_ref questions actor harness allow_duplicates =
     bindE (readE (resolve_task E False task_ref)) (\<lambda>task.
     thenE (ensure_not_archived task)
     (bindE (lock_for_mutation E (tk_id task)) (\<lambda>lock.
      thenE (enforce_decision (question_add_decision task lock ''planner''))
     (thenE (guardE (questions \<noteq> []) (bad_input ''no questions''))
     (bindE (liftE (normalize_question_batch allow_duplicates {} questions)) (\<lambda>normalized.
      bindE (getsE (list_questions (tk_id task))) (\<lambda>existing.
      let created = batch_questions E task actor harness (map qn_id existing) normalized
      in thenE (forE created (save_new_question E (tk_id task))) (returnE created))))))))"

section \<open>Answering\<close>

definition EXPLICIT_ANSWER_SOURCES :: "string list" where
  "EXPLICIT_ANSWER_SOURCES = [''explicit_user_chat'', ''user_file'']"

definition answered_record ::
  "env \<Rightarrow> QuestionRecord \<Rightarrow> string \<Rightarrow> ActorRef \<Rightarrow> string \<Rightarrow> QuestionRecord" where
  "answered_record E question text actor source =
     question\<lparr>qn_status := QS_answered, qn_answer := Some text,
       qn_answered_at := Some (e_now E), qn_answered_by := Some (ar_actor_name actor),
       qn_answered_by_actor := Some actor,
       qn_answer_source := (if source = [] then None else Some source)\<rparr>"

definition answer_question ::
  "env \<Rightarrow> string \<Rightarrow> string \<Rightarrow> string \<Rightarrow> ActorRef option \<Rightarrow> string \<Rightarrow> QuestionRecord command" where
  "answer_question E task_ref question_id text actor answer_source =
     bindE (readE (resolve_task E False task_ref)) (\<lambda>task.
     thenE (ensure_not_archived task)
     (bindE (lock_for_mutation E (tk_id task)) (\<lambda>lock.
      thenE (enforce_decision (question_mutation_decision task lock ''user''))
     (let stripped = strip text
      in thenE (guardE (stripped \<noteq> []) (cli_error ''empty answer'' EXIT_CODE_INVALID_TRANSITION))
     (bindE (readE (resolve_question E (tk_id task) question_id)) (\<lambda>question.
      let resolved_actor = (case actor of Some a \<Rightarrow> a
            | None \<Rightarrow> ActorRef_default\<lparr>ar_actor_type := AT_user, ar_actor_name := ''user''\<rparr>);
          normalized_source = lower (strip answer_source)
      in thenE (guardE (qn_required_for_plan question
               \<longrightarrow> normalized_source \<in> set EXPLICIT_ANSWER_SOURCES)
             (approval_required ''explicit source''))
        (let answered = answered_record E question stripped resolved_actor normalized_source
         in thenE (modifyE (save_question answered))
           (thenE (modifyE (append_event E (tk_id task) ''question.answered''
              [(''question_id'', PStr (qn_id answered))]))
             (returnE answered)))))))))"

record question_status_payload =
  qs_required_open :: "string list"
  qs_answered_required :: "string list"
  qs_answered :: nat
  qs_answered_since_latest_plan :: "string list"
  qs_plan_regeneration_needed :: bool
  qs_next_action :: string

definition question_status :: "env \<Rightarrow> string \<Rightarrow> question_status_payload command" where
  "question_status E task_ref =
     bindE (readE (resolve_task E False task_ref)) (\<lambda>task.
     bindE (getsE (list_questions (tk_id task))) (\<lambda>questions.
     bindE (getsE (latest_plan_or_none (tk_id task))) (\<lambda>latest_plan.
     let required_open = required_open_question_ids questions;
         answered = filter (\<lambda>q. qn_status q = QS_answered) questions;
         since = (case latest_plan of
             Some p \<Rightarrow> stale_answer_question_ids E questions p
           | None \<Rightarrow> map qn_id answered);
         regeneration_needed = (since \<noteq> [] \<and> required_open = [])
     in returnE
       \<lparr>qs_required_open = required_open,
        qs_answered_required = map qn_id (filter qn_required_for_plan answered),
        qs_answered = length answered, qs_answered_since_latest_plan = since,
        qs_plan_regeneration_needed = regeneration_needed,
        qs_next_action =
          (if regeneration_needed then ''taskledger plan upsert --from-answers --file plan.md''
           else if required_open \<noteq> [] then ''taskledger question answer-many --file answers.yaml''
           else ''taskledger plan propose --file plan.md'')\<rparr>)))"

fun answer_each ::
  "env \<Rightarrow> string \<Rightarrow> ActorRef option \<Rightarrow> string \<Rightarrow> (string \<times> string) list
    \<Rightarrow> QuestionRecord list command" where
  "answer_each E task_id actor answer_source [] = returnE []"
| "answer_each E task_id actor answer_source ((question_id, text) # rest) =
     bindE (answer_question E task_id question_id text actor answer_source) (\<lambda>question.
     bindE (answer_each E task_id actor answer_source rest) (\<lambda>questions.
     returnE (question # questions)))"

definition answer_questions ::
  "env \<Rightarrow> string \<Rightarrow> (string \<times> string) list \<Rightarrow> ActorRef option \<Rightarrow> string
    \<Rightarrow> (QuestionRecord list \<times> question_status_payload) command" where
  "answer_questions E task_ref answers actor answer_source =
     bindE (readE (resolve_task E False task_ref)) (\<lambda>task.
     thenE (ensure_not_archived task)
     (thenE (guardE (answers \<noteq> []) (bad_input ''no answers''))
     (bindE (getsE (list_questions (tk_id task))) (\<lambda>known.
      thenE (guardE (\<forall>(question_id, _) \<in> set answers. question_id \<in> qn_id ` set known)
        (cli_error ''unknown questions'' EXIT_CODE_MISSING))
     (thenE (guardE (\<forall>(_, text) \<in> set answers. strip text \<noteq> []) (bad_input ''empty answers''))
     (bindE (answer_each E (tk_id task) actor answer_source answers) (\<lambda>answered.
      bindE (question_status E (tk_id task)) (\<lambda>status.
      returnE (answered, status)))))))))"

definition dismiss_question :: "env \<Rightarrow> string \<Rightarrow> string \<Rightarrow> QuestionRecord command" where
  "dismiss_question E task_ref question_id =
     bindE (readE (resolve_task E False task_ref)) (\<lambda>task.
     thenE (ensure_not_archived task)
     (bindE (lock_for_mutation E (tk_id task)) (\<lambda>lock.
      thenE (enforce_decision (question_mutation_decision task lock ''user''))
     (bindE (readE (resolve_question E (tk_id task) question_id)) (\<lambda>question.
      let dismissed = question\<lparr>qn_status := QS_dismissed\<rparr>
      in thenE (modifyE (save_question dismissed))
        (thenE (modifyE (append_event E (tk_id task) ''question.dismissed''
           [(''question_id'', PStr (qn_id dismissed))]))
          (returnE dismissed)))))))"

section \<open>The run invariant\<close>

lemma save_new_question_inv: "keeps run_inv (save_new_question E t q)"
  unfolding save_new_question_def by (intro keepsI wp_intro) simp

lemma add_question_inv: "keeps run_inv (add_question E task_ref text required actor harness)"
  unfolding add_question_def Let_def
  by (intro keepsI wp_intro wp_keeps [OF save_new_question_inv])

lemma wp_forE_keeps:
  assumes "\<And>x. keeps I (f x)" "I l" "\<And>l'. I l' \<Longrightarrow> Q () l'" "\<And>e l'. I l' \<Longrightarrow> X e l'"
  shows "wp (forE xs f) Q X l"
proof -
  have "wp (forE xs f) (\<lambda>_. I) (\<lambda>_. I) l"
    by (rule wp_forE) (use assms in \<open>auto simp: keeps_def\<close>)
  then show ?thesis by (rule wp_mono) (auto intro: assms)
qed

lemma add_questions_inv: "keeps run_inv (add_questions E task_ref qs actor harness dup)"
  unfolding add_questions_def Let_def
  by (intro keepsI wp_intro wp_forE_keeps [OF save_new_question_inv])

lemma answer_question_inv: "keeps run_inv (answer_question E task_ref q text actor src)"
  unfolding answer_question_def Let_def by (intro keepsI wp_intro) auto

lemma answer_each_inv: "keeps run_inv (answer_each E t actor src answers)"
  by (induction E t actor src answers rule: answer_each.induct)
    (auto intro!: keepsI wp_intro wp_keeps [OF answer_question_inv] elim: wp_keeps)

lemma question_status_inv: "keeps run_inv (question_status E task_ref)"
  unfolding question_status_def Let_def by (intro keepsI wp_intro)

lemma answer_questions_inv: "keeps run_inv (answer_questions E task_ref answers actor src)"
  unfolding answer_questions_def
  by (intro keepsI wp_intro wp_keeps [OF answer_each_inv] wp_keeps [OF question_status_inv])

lemma dismiss_question_inv: "keeps run_inv (dismiss_question E task_ref q)"
  unfolding dismiss_question_def Let_def by (intro keepsI wp_intro) auto

section \<open>Batches\<close>

lemma normalize_batch:
  "case normalize_question_batch False seen qs of
     Inl _ \<Rightarrow> True
   | Inr out \<Rightarrow> distinct (map (lower \<circ> fst) out) \<and> (\<forall>q \<in> set out. lower (fst q) \<notin> seen)
       \<and> [] \<notin> set (map fst out) \<and> map snd out = map snd qs
       \<and> map fst out = map (strip \<circ> fst) qs"
proof (induction qs arbitrary: seen)
  case (Cons q qs)
  obtain qt required where q: "q = (qt, required)" by fastforce
  note ih = Cons.IH [of "insert (lower (strip qt)) seen"]
  show ?case
  proof (cases "normalize_question_batch False (insert (lower (strip qt)) seen) qs")
    case (Inr out)
    have "distinct (map (lower \<circ> fst) out)" "[] \<notin> set (map fst out)"
      "map snd out = map snd qs" "map fst out = map (strip \<circ> fst) qs"
      "\<And>x. x \<in> set out \<Longrightarrow> lower (fst x) \<noteq> lower (strip qt) \<and> lower (fst x) \<notin> seen"
      using ih unfolding Inr sum.case by blast+
    then show ?thesis
      using Inr by (auto simp: q Let_def bindR_def) blast
  qed (simp add: q Let_def bindR_def)
qed simp

end
