(* ===== verification/Implementation.thy ===== *)
theory Implementation
  imports Planning
begin

text \<open>
  The implementation commands: \<open>taskledger/services/implementation_flow.py\<close>, the change log of
  \<open>services/change_tracking.py\<close> and the todo gate of \<open>services/tasks.py\<close>.
\<close>

section \<open>Starting\<close>

definition start_implementation_for_task ::
  "env \<Rightarrow> TaskRecord \<Rightarrow> ActorRef option \<Rightarrow> HarnessRef option \<Rightarrow> payload command" where
  "start_implementation_for_task E task actor harness =
     thenE (guardE (tk_status_stage task \<in> set IMPLEMENTABLE_TASK_STAGES)
       (cli_error ''implementable stage'' EXIT_CODE_INVALID_TRANSITION))
     (bindE (readE (require_accepted_plan_record task)) (\<lambda>_.
      thenE (ensure_dependencies_done E task)
     (bindE (start_run E task RT_implementation LS_implementing actor harness) (\<lambda>run.
      bindE (readE (resolve_task E False (tk_id task))) (\<lambda>current.
      let updated = current\<lparr>tk_latest_implementation_run := Some (rn_run_id run),
            tk_status_stage := S_implementing, tk_updated_at := e_now E\<rparr>
      in thenE (modifyE (save_task updated))
        (thenE (modifyE (append_event E (tk_id updated) ''implementation.started''
                 [(''run_id'', PStr (rn_run_id run))]))
        (bindE (require_lock E (tk_id updated)) (\<lambda>lock.
         returnE (lifecycle_payload ''implement start''
           (updated\<lparr>tk_status_stage := tk_status_stage task\<rparr>) [] True None (Some run)
           (Some lock) None)))))))))"

definition start_implementation ::
  "env \<Rightarrow> string \<Rightarrow> ActorRef option \<Rightarrow> HarnessRef option \<Rightarrow> payload command" where
  "start_implementation E task_ref actor harness =
     bindE (readE (resolve_task E False task_ref)) (\<lambda>task.
     thenE (ensure_not_archived task) (start_implementation_for_task E task actor harness))"

definition invalid_transition :: "string \<Rightarrow> error" where
  "invalid_transition tag = cli_error tag EXIT_CODE_INVALID_TRANSITION"

text \<open>What a restart needs: the failed validation run and the implementation run before it.\<close>

definition restart_checks ::
  "env \<Rightarrow> TaskRecord \<Rightarrow> (TaskRunRecord \<times> TaskRunRecord) command" where
  "restart_checks E task =
     thenE (guardE (tk_status_stage task = S_failed_validation) (invalid_transition ''stage''))
     (bindE (readE (require_accepted_plan_record task)) (\<lambda>_.
      thenE (guardE (tk_latest_validation_run task \<noteq> None)
        (invalid_transition ''no validation run''))
     (bindE (readE (require_run E task (tk_latest_validation_run task))) (\<lambda>validation_run.
      thenE (guardE (rn_run_type validation_run = RT_validation
          \<and> rn_status validation_run \<in> {RS_failed, RS_blocked}
          \<and> rn_result validation_run \<in> {Some VR_failed, Some VR_blocked})
        (invalid_transition ''validation run''))
     (thenE (guardE (tk_latest_implementation_run task \<noteq> None)
        (invalid_transition ''no implementation run''))
     (bindE (readE (require_run E task (tk_latest_implementation_run task))) (\<lambda>previous_run.
      thenE (guardE (rn_run_type previous_run = RT_implementation)
        (invalid_transition ''implementation run''))
       (returnE (validation_run, previous_run)))))))))"

definition result_text :: "ValidationResult option \<Rightarrow> string" where
  "result_text r =
     (case r of None \<Rightarrow> ''None'' | Some v \<Rightarrow> enum_name validation_result_names v)"

definition restart_implementation ::
  "env \<Rightarrow> string \<Rightarrow> string \<Rightarrow> ActorRef option \<Rightarrow> HarnessRef option \<Rightarrow> payload command" where
  "restart_implementation E task_ref summary actor harness =
     bindE (readE (resolve_task E False task_ref)) (\<lambda>task.
     thenE (ensure_not_archived task)
     (bindE (restart_checks E task) (\<lambda>(validation_run, previous_run).
      let restart_summary = strip summary
      in thenE (guardE (restart_summary \<noteq> []) (bad_input ''summary''))
     (thenE (ensure_dependencies_done E task)
     (bindE (start_run E task RT_implementation LS_implementing actor harness) (\<lambda>run.
      let restarted = run\<lparr>rn_resumes_run_id := Some (rn_run_id previous_run),
            rn_worklog := [''Restart summary: '' @ restart_summary,
              ''Restarted after validation run '' @ rn_run_id validation_run @ '' (''
                @ result_text (rn_result validation_run) @ '').''] @ rn_worklog run\<rparr>
      in thenE (modifyE (save_run restarted))
     (bindE (readE (resolve_task E False (tk_id task))) (\<lambda>current.
      let updated = current\<lparr>tk_latest_implementation_run := Some (rn_run_id restarted),
            tk_status_stage := S_implementing, tk_updated_at := e_now E\<rparr>
      in thenE (modifyE (save_task updated))
        (thenE (modifyE (append_event E (tk_id updated) ''implementation.started''
           [(''run_id'', PStr (rn_run_id restarted)), (''restart'', PBool True),
            (''summary'', PStr restart_summary),
            (''after_validation_run'', PStr (rn_run_id validation_run)),
            (''resumes_run_id'', PStr (rn_run_id previous_run))]))
        (bindE (require_lock E (tk_id updated)) (\<lambda>lock.
         returnE (lifecycle_payload ''implement restart''
           (updated\<lparr>tk_status_stage := tk_status_stage task\<rparr>) [] True None (Some restarted)
           (Some lock) None))))))))))))"

section \<open>Resuming\<close>

text \<open>
  The lock a resume finds: none, or an expired one of the same run that the caller asks to
  release.
\<close>

definition clear_resume_lock ::
  "env \<Rightarrow> TaskRecord \<Rightarrow> TaskRunRecord \<Rightarrow> string \<Rightarrow> bool \<Rightarrow> unit command" where
  "clear_resume_lock E task run resume_reason repair_expired_lock =
     bindE (getsE (current_lock (tk_id task))) (\<lambda>existing_lock.
     case existing_lock of
       None \<Rightarrow> returnE ()
     | Some lock \<Rightarrow>
         bindE (liftE (lock_is_expired E lock)) (\<lambda>expired.
         if repair_expired_lock \<and> expired then
           thenE (guardE (lk_run_id lock = rn_run_id run \<and> lk_stage lock = LS_implementing)
             (cli_error ''expired lock mismatch'' EXIT_CODE_LOCK_CONFLICT))
             (release_expired_lock E (tk_id task) lock
               (''Expired lock released for resume: '' @ resume_reason))
         else if expired then raiseE stale_lock_error
         else raiseE (coded_error ''active lock'' E_LOCK_CONFLICT EXIT_CODE_LOCK_CONFLICT)))"

definition resume_implementation ::
  "env \<Rightarrow> string \<Rightarrow> string option \<Rightarrow> string \<Rightarrow> ActorRef option \<Rightarrow> HarnessRef option \<Rightarrow> bool
    \<Rightarrow> payload command" where
  "resume_implementation E task_ref run_id reason actor harness repair_expired_lock =
     bindE (readE (resolve_task E False task_ref)) (\<lambda>task.
     thenE (ensure_not_archived task)
     (let resume_reason = strip reason
      in thenE (guardE (resume_reason \<noteq> []) (bad_input ''reason''))
     (thenE (guardE (tk_status_stage task \<in> {S_approved, S_implementing})
        (invalid_transition ''stage''))
     (bindE (readE (require_accepted_plan_record task)) (\<lambda>_.
      bindE (readE (require_run E task (opt_str_or run_id (tk_latest_implementation_run task)))) (\<lambda>run.
      thenE (guardE (rn_run_type run = RT_implementation \<and> rn_status run = RS_running)
        (invalid_transition ''run''))
     (thenE (clear_resume_lock E task run resume_reason repair_expired_lock)
     (thenE (ensure_dependencies_done E task)
     (bindE (acquire_lock E task LS_implementing run resume_reason (Some (actor_or E actor))
               harness) (\<lambda>lock.
      let updated = task\<lparr>tk_latest_implementation_run := Some (rn_run_id run),
            tk_status_stage := S_implementing, tk_updated_at := e_now E\<rparr>
      in thenE (modifyE (save_task updated))
        (thenE (modifyE (append_event E (tk_id updated) ''run.resumed''
           [(''run_id'', PStr (rn_run_id run)), (''run_type'', PStr ''implementation''),
            (''reason'', PStr resume_reason)]))
          (returnE (lifecycle_payload ''implement resume''
             (updated\<lparr>tk_status_stage := tk_status_stage task\<rparr>) [] True None (Some run)
             (Some lock) None)))))))))))))"

section \<open>Recording work\<close>

definition require_running_implementation_with_decision ::
  "env \<Rightarrow> string \<Rightarrow> string \<Rightarrow> (TaskRecord \<times> TaskRunRecord) command" where
  "require_running_implementation_with_decision E task_ref action =
     bindE (readE (resolve_task E False task_ref)) (\<lambda>task.
     thenE (ensure_not_archived task)
     (bindE (readE (require_running_run E task (tk_latest_implementation_run task)
               RT_implementation)) (\<lambda>run.
      bindE (lock_for_mutation E (tk_id task)) (\<lambda>lock.
      thenE (enforce_decision (implementation_mutation_decision task lock (Some run) action))
        (returnE (task, run))))))"

definition log_implementation :: "env \<Rightarrow> string \<Rightarrow> string \<Rightarrow> TaskRunRecord command" where
  "log_implementation E task_ref message =
     bindE (require_running_implementation_with_decision E task_ref ''log implementation work'')
       (\<lambda>(task, run).
     let updated = run\<lparr>rn_worklog := rn_worklog run @ [strip message]\<rparr>
     in thenE (modifyE (save_run updated))
       (thenE (modifyE (append_event E (tk_id task) ''implementation.logged''
          [(''run_id'', PStr (rn_run_id run)), (''message'', PStr (strip message))]))
         (returnE updated)))"

definition add_implementation_deviation :: "env \<Rightarrow> string \<Rightarrow> string \<Rightarrow> TaskRunRecord command" where
  "add_implementation_deviation E task_ref message =
     bindE (require_running_implementation_with_decision E task_ref
              ''record implementation deviations'') (\<lambda>(task, run).
     let updated = run\<lparr>rn_deviations_from_plan :=
           rn_deviations_from_plan run @ [strip message]\<rparr>
     in thenE (modifyE (save_run updated))
       (thenE (modifyE (append_event E (tk_id task) ''implementation.logged''
          [(''run_id'', PStr (rn_run_id run)), (''deviation'', PStr (strip message))]))
         (returnE updated)))"

definition add_implementation_artifact ::
  "env \<Rightarrow> string \<Rightarrow> string \<Rightarrow> string \<Rightarrow> TaskRunRecord command" where
  "add_implementation_artifact E task_ref path summary =
     bindE (require_running_implementation_with_decision E task_ref
              ''record implementation artifacts'') (\<lambda>(task, run).
     let updated = run\<lparr>rn_artifact_refs :=
           rn_artifact_refs run @ [path @ '': '' @ strip summary]\<rparr>
     in thenE (modifyE (save_run updated))
       (thenE (modifyE (append_event E (tk_id task) ''implementation.logged''
          [(''run_id'', PStr (rn_run_id run)), (''artifact'', PStr path),
           (''summary'', PStr (strip summary))]))
         (returnE updated)))"

record change_args =
  cg_path :: string
  cg_kind :: string
  cg_summary :: string
  cg_git_commit :: "string option"
  cg_git_diff_stat :: "string option"
  cg_command :: "string option"
  cg_before_hash :: "string option"
  cg_after_hash :: "string option"
  cg_exit_code :: "int option"
  cg_artifact_refs :: "string list"

definition new_change :: "env \<Rightarrow> TaskRecord \<Rightarrow> TaskRunRecord \<Rightarrow> string \<Rightarrow> change_args \<Rightarrow> CodeChangeRecord" where
  "new_change E task run change_id a =
     \<lparr>ch_change_id = change_id, ch_task_id = tk_id task, ch_implementation_run = rn_run_id run,
      ch_timestamp = e_now E, ch_kind = cg_kind a, ch_path = cg_path a,
      ch_summary = strip (cg_summary a), ch_git_commit = cg_git_commit a,
      ch_git_diff_stat = cg_git_diff_stat a, ch_command = cg_command a,
      ch_before_hash = cg_before_hash a, ch_after_hash = cg_after_hash a,
      ch_exit_code = cg_exit_code a, ch_file_version = TASKLEDGER_V2_FILE_VERSION,
      ch_schema_version = TASKLEDGER_SCHEMA_VERSION, ch_object_type = ''change''\<rparr>"

definition add_change :: "env \<Rightarrow> string \<Rightarrow> change_args \<Rightarrow> CodeChangeRecord command" where
  "add_change E task_ref a =
     bindE (require_running_implementation_with_decision E task_ref ''record code changes'')
       (\<lambda>(task, run).
     bindE (getsE (list_changes (tk_id task))) (\<lambda>existing.
     let change = new_change E task run
           (next_project_id E ''change'' (map ch_change_id existing)) a
     in thenE (modifyE (save_change change))
       (thenE (modifyE (save_run (run\<lparr>rn_change_refs := rn_change_refs run @ [ch_change_id change],
          rn_artifact_refs := rn_artifact_refs run @ cg_artifact_refs a\<rparr>)))
       (thenE (modifyE (save_task (task\<lparr>tk_code_change_log_refs :=
            tk_code_change_log_refs task @ [ch_change_id change], tk_updated_at := e_now E\<rparr>)))
       (thenE (modifyE (append_event E (tk_id task) ''change.logged''
          [(''change_id'', PStr (ch_change_id change)), (''path'', PStr (cg_path a))]))
         (returnE change))))))"

text \<open>The git state is an argument: branch, status and diff stat as git prints them.\<close>

definition scan_changes ::
  "env \<Rightarrow> string \<times> string \<times> string \<Rightarrow> string \<Rightarrow> bool \<Rightarrow> string \<Rightarrow> CodeChangeRecord command" where
  "scan_changes E git_state task_ref from_git summary =
     (let (branch, status, diff) = git_state
      in thenE (guardE from_git (bad_input ''from git''))
         (add_change E task_ref
           \<lparr>cg_path = ''.'', cg_kind = ''scan'',
            cg_summary = str_or (Some (strip summary)) ''Scanned Git changes.'',
            cg_git_commit = None,
            cg_git_diff_stat = Some (join nl [''branch: '' @ branch, ''status:'',
              str_or (Some status) ''(clean)'', ''diff_stat:'', str_or (Some diff) ''(no diff)'']),
            cg_command =
              Some ''git branch --show-current && git status --short && git diff --stat'',
            cg_before_hash = None, cg_after_hash = None, cg_exit_code = None,
            cg_artifact_refs = []\<rparr>))"

section \<open>Finishing\<close>

definition todo_blocks_finish :: "TaskTodo \<Rightarrow> bool" where
  "todo_blocks_finish todo \<longleftrightarrow>
     \<not> td_done todo \<and> td_status todo \<notin> {TS_done, TS_skipped}
     \<and> (\<not> td_mandatory todo \<or> td_active_at todo \<noteq> None \<or> td_source todo = Some ''plan''
        \<or> td_source_plan_id todo \<noteq> None)"

record todo_gate_report =
  tg_total :: nat
  tg_done :: nat
  tg_open_todos :: "string list"
  tg_can_finish_implementation :: bool

definition build_todo_gate_report :: "TaskRecord \<Rightarrow> ledger \<Rightarrow> todo_gate_report" where
  "build_todo_gate_report task l =
     (let todos = tk_todos (task_with_sidecars task l);
          open_todos = map td_id (filter todo_blocks_finish todos)
      in \<lparr>tg_total = length todos, tg_done = length todos - length open_todos,
          tg_open_todos = open_todos, tg_can_finish_implementation = (open_todos = [])\<rparr>)"

definition implementation_finish_warnings :: "env \<Rightarrow> string \<Rightarrow> string \<Rightarrow> ledger \<Rightarrow> string list" where
  "implementation_finish_warnings E task_id run_id l =
     (let changes = filter (\<lambda>c. ch_implementation_run c = run_id) (list_changes task_id l)
      in if changes = [] then []
         else if \<not> list_ex (\<lambda>c. ch_kind c \<noteq> ''scan'') changes \<or> list_ex (\<lambda>c. ch_kind c = ''scan'') changes
         then []
         else if \<not> e_git_workspace E then [] else [''no git-backed scan''])"

definition finish_implementation :: "env \<Rightarrow> string \<Rightarrow> string \<Rightarrow> payload command" where
  "finish_implementation E task_ref summary =
     bindE (readE (resolve_task E False task_ref)) (\<lambda>task.
     thenE (ensure_not_archived task)
     (bindE (readE (require_running_run E task (tk_latest_implementation_run task)
               RT_implementation)) (\<lambda>run.
      bindE (getsE (implementation_finish_warnings E (tk_id task) (rn_run_id run))) (\<lambda>warnings.
      bindE (getsE (build_todo_gate_report task)) (\<lambda>report.
      thenE (guardE (tg_can_finish_implementation report)
        (coded_error ''todos incomplete'' E_IMPLEMENTATION_TODOS_INCOMPLETE
           EXIT_CODE_VALIDATION_FAILED))
     (let finished = run\<lparr>rn_status := RS_finished, rn_finished_at := Some (e_now E),
            rn_summary := Some (strip summary),
            rn_workspace_git_commit := ss_git_commit (e_snapshot E),
            rn_workspace_dirty := ss_dirty (e_snapshot E),
            rn_workspace_diff_hash := ss_diff_hash (e_snapshot E),
            rn_workspace_status_hash := ss_status_hash (e_snapshot E),
            rn_workspace_snapshot_at := ss_captured_at (e_snapshot E)\<rparr>;
          updated = task\<lparr>tk_status_stage := S_implemented, tk_updated_at := e_now E\<rparr>
      in thenE (modifyE (save_run finished))
        (thenE (modifyE (save_task updated))
        (thenE (release_lock E updated LS_implementing (rn_run_id run) S_implemented
                 ''stage.completed'' [] False)
        (thenE (modifyE (append_event E (tk_id updated) ''implementation.finished''
                 [(''run_id'', PStr (rn_run_id run))]))
          (returnE (lifecycle_payload ''implement finish'' updated warnings True None
             (Some finished) None None)))))))))))"

section \<open>The run invariant\<close>

lemma start_implementation_for_task_inv:
  "keeps run_inv (start_implementation_for_task E task actor harness)"
  unfolding start_implementation_for_task_def Let_def
  by (intro keepsI wp_intro) (auto intro!: run_inv_save_task started_ledger_inv)

lemma start_implementation_inv: "keeps run_inv (start_implementation E task_ref actor harness)"
  unfolding start_implementation_def
  by (intro keepsI wp_intro wp_keeps [OF start_implementation_for_task_inv]) auto

lemma run_inv_edit_started:
  assumes inv: "run_inv l" "read_lock (tk_id task) l = None" "running_runs task l = []"
    and run: "run = new_run E task kind actor harness l"
    and same: "rn_run_id r' = rn_run_id run" "rn_task_id r' = tk_id task" "rn_run_type r' = kind"
      "rn_status r' = RS_running"
  shows "run_inv (save_run r' (started_ledger E task kind run harness l))"
  using started_ledger_inv [OF inv, of run kind E harness] run same
  by (intro run_inv_edit_run) (auto intro!: bexI [of _ "persist_run run"])

lemma accepted_plan_version_given:
  "require_accepted_plan_record task l = Inr p \<Longrightarrow> tk_accepted_plan_version task \<noteq> None"
  by (simp add: require_accepted_plan_record_def split: option.splits)

lemma wp_restart_checks [wp_intro]:
  assumes "\<And>v p. tk_status_stage task = S_failed_validation \<Longrightarrow> v \<in> runs_of l (tk_id task)
      \<Longrightarrow> rn_run_type v = RT_validation \<Longrightarrow> rn_result v \<in> {Some VR_failed, Some VR_blocked}
      \<Longrightarrow> p \<in> runs_of l (tk_id task) \<Longrightarrow> rn_run_type p = RT_implementation
      \<Longrightarrow> require_run E task (tk_latest_validation_run task) l = Inr v
      \<Longrightarrow> require_run E task (tk_latest_implementation_run task) l = Inr p
      \<Longrightarrow> rn_status v \<in> {RS_failed, RS_blocked} \<Longrightarrow> tk_accepted_plan_version task \<noteq> None
      \<Longrightarrow> Q (v, p) l"
    and "\<And>e. X e l"
  shows "wp (restart_checks E task) Q X l"
  unfolding restart_checks_def
  by (intro wp_intro assms) (auto dest: require_run_of accepted_plan_version_given)

lemma restart_implementation_inv:
  "keeps run_inv (restart_implementation E task_ref summary actor harness)"
  unfolding restart_implementation_def Let_def
  by (intro keepsI wp_intro) (auto intro!: run_inv_save_task run_inv_edit_started started_ledger_inv)

lemma lock_frames [simp]:
  "l_tasks (remove_lock k l) = l_tasks l" "l_runs (remove_lock k l) = l_runs l"
  "l_tasks (write_broken_lock_audit E k lk l) = l_tasks l"
  "l_runs (write_broken_lock_audit E k lk l) = l_runs l"
  "read_lock t (write_broken_lock_audit E k lk l) = read_lock t l"
  by (simp_all add: remove_lock_def write_broken_lock_audit_def read_lock_def Let_def)

text \<open>After \<open>clear_resume_lock\<close> the task has no lock and nothing else has changed.\<close>

lemma wp_clear_resume_lock [wp_intro]:
  assumes "run_inv l"
    and "\<And>l'. run_inv l' \<Longrightarrow> l_tasks l' = l_tasks l \<Longrightarrow> l_runs l' = l_runs l
      \<Longrightarrow> read_lock (tk_id task) l' = None \<Longrightarrow> Q () l'"
    and "\<And>e. X e l"
  shows "wp (clear_resume_lock E task run reason repair) Q X l"
  unfolding clear_resume_lock_def release_expired_lock_def
  by (intro wp_intro assms(2,3))
    (use assms(1) in \<open>auto simp: current_lock_def intro!: run_inv_remove_lock\<close>)

lemma resume_implementation_inv:
  "keeps run_inv (resume_implementation E task_ref run_id reason actor harness repair)"
  unfolding resume_implementation_def Let_def
  by (intro keepsI wp_intro)
    (auto intro!: run_inv_save_task run_inv_locked dest!: require_run_of simp: runs_of_def)

lemma wp_require_running_implementation [wp_intro]:
  assumes "\<And>task run. resolve_task E False task_ref l = Inr task \<Longrightarrow> \<not> is_archived_task task
      \<Longrightarrow> run \<in> runs_of l (tk_id task)
      \<Longrightarrow> holds_run RT_implementation (read_lock (tk_id task) l) (Some run)
      \<Longrightarrow> Q (task, run) l"
    and "\<And>e. X e l"
  shows "wp (require_running_implementation_with_decision E task_ref action) Q X l"
  unfolding require_running_implementation_with_decision_def
  by (intro wp_intro assms)
    (auto simp: implementation_mutation_allowed require_running_run_def bindR_def
      split: sum.splits if_splits dest: require_run_of)

lemma save_change_runs [simp]: "runs_of (save_change c l) t = runs_of l t"
  by (simp add: save_change_def runs_of_def)

lemma log_implementation_inv: "keeps run_inv (log_implementation E task_ref message)"
  and add_implementation_deviation_inv:
    "keeps run_inv (add_implementation_deviation E task_ref message)"
  and add_implementation_artifact_inv:
    "keeps run_inv (add_implementation_artifact E task_ref path summary)"
  unfolding log_implementation_def add_implementation_deviation_def
    add_implementation_artifact_def Let_def
  by (intro keepsI wp_intro; auto intro!: run_inv_edit_run)+

lemma add_change_inv: "keeps run_inv (add_change E task_ref a)"
  unfolding add_change_def Let_def
  by (intro keepsI wp_intro)
    (auto intro!: run_inv_save_task run_inv_edit_run)

lemma scan_changes_inv: "keeps run_inv (scan_changes E git task_ref from_git summary)"
  unfolding scan_changes_def Let_def
  by (cases git) (auto intro!: keepsI wp_intro wp_keeps [OF add_change_inv])

lemma require_running_runD:
  assumes "require_running_run E task i kind l = Inr r"
  shows "r \<in> runs_of l (tk_id task)" "rn_run_type r = kind" "rn_status r = RS_running"
  using assms
  by (auto simp: require_running_run_def bindR_def split: sum.splits if_splits dest: require_run_of)

lemma finish_implementation_inv: "keeps run_inv (finish_implementation E task_ref summary)"
  unfolding finish_implementation_def Let_def
  by (intro keepsI wp_intro) (auto dest: require_running_runD run_inv_task)

end
