(* ===== verification/Validation.thy ===== *)
theory Validation
  imports Implementation
begin

text \<open>
  Validation: \<open>taskledger/services/validation_flow.py\<close> and the gate report of
  \<open>services/validation.py\<close>.
\<close>

section \<open>Starting\<close>

definition ensure_implementation_snapshot_current ::
  "env \<Rightarrow> TaskRecord \<Rightarrow> TaskRunRecord \<Rightarrow> unit command" where
  "ensure_implementation_snapshot_current E task impl_run =
     (case rn_workspace_git_commit impl_run of
        None \<Rightarrow>
          guardE (\<not> list_ex (contains ''Unarchived from non-terminal state'') (tk_notes task))
            (invalid_transition ''snapshot missing'')
      | Some expected_commit \<Rightarrow>
          guardE (ss_git_commit (e_snapshot E) = Some expected_commit
              \<and> ss_status_hash (e_snapshot E) = rn_workspace_status_hash impl_run
              \<and> ss_diff_hash (e_snapshot E) = rn_workspace_diff_hash impl_run)
            (invalid_transition ''workspace differs''))"

definition start_validation ::
  "env \<Rightarrow> string \<Rightarrow> ActorRef option \<Rightarrow> HarnessRef option \<Rightarrow> payload command" where
  "start_validation E task_ref actor harness =
     bindE (readE (resolve_task E False task_ref)) (\<lambda>task.
     thenE (ensure_not_archived task)
     (thenE (guardE (tk_status_stage task = S_implemented) (invalid_transition ''stage''))
     (bindE (readE (require_run E task (tk_latest_implementation_run task))) (\<lambda>impl_run.
      thenE (guardE (rn_run_type impl_run = RT_implementation \<and> rn_status impl_run = RS_finished)
        (invalid_transition ''implementation run''))
     (thenE (ensure_implementation_snapshot_current E task impl_run)
     (bindE (start_run E task RT_validation LS_validating actor harness) (\<lambda>run.
      let updated_run = run\<lparr>rn_based_on_implementation_run := Some (rn_run_id impl_run)\<rparr>
      in thenE (modifyE (save_run updated_run))
     (bindE (readE (resolve_task E False (tk_id task))) (\<lambda>current.
      let updated = current\<lparr>tk_latest_validation_run := Some (rn_run_id updated_run),
            tk_updated_at := e_now E\<rparr>
      in thenE (modifyE (save_task updated))
        (thenE (modifyE (append_event E (tk_id updated) ''validation.started''
           [(''run_id'', PStr (rn_run_id updated_run))]))
        (bindE (require_lock E (tk_id updated)) (\<lambda>lock.
         returnE (lifecycle_payload ''validate start'' updated [] True None (Some updated_run)
           (Some lock) None)))))))))))))"

section \<open>Criteria\<close>

definition same_int :: "string \<Rightarrow> string \<Rightarrow> bool" where
  "same_int a b \<longleftrightarrow> py_int a \<noteq> None \<and> py_int a = py_int b"

definition criterion_matches :: "string \<Rightarrow> string \<Rightarrow> bool" where
  "criterion_matches normalized_ref c_id =
     (let c_id_lower = lower c_id
      in c_id_lower = normalized_ref \<or>
         (case split_char CHR ''-'' c_id_lower of
            [prefix, number] \<Rightarrow>
              normalized_ref = prefix @ ''-'' @ number
              \<or> (case split_char CHR ''-'' normalized_ref of
                   [ref_prefix, ref_number] \<Rightarrow> ref_prefix = prefix \<and> same_int ref_number number
                 | _ \<Rightarrow> False)
              \<or> normalized_ref = number
              \<or> same_int normalized_ref number
          | _ \<Rightarrow> False))"

definition resolve_criterion_ref :: "env \<Rightarrow> PlanRecord \<Rightarrow> string \<Rightarrow> error + string" where
  "resolve_criterion_ref E plan criterion_ref =
     (if pl_criteria plan = [] then Inl (bad_input ''no criteria'')
      else
        (let stripped = lower (strip criterion_ref);
             normalized_ref = (case e_local_id E ''ac'' stripped of
               Some local \<Rightarrow> local | None \<Rightarrow> stripped)
         in case find (\<lambda>c. criterion_matches normalized_ref (ac_id c)) (pl_criteria plan) of
              Some c \<Rightarrow> Inr (ac_id c)
            | None \<Rightarrow> Inl (bad_input ''unknown criterion'')))"

section \<open>Checks and waivers\<close>

definition require_running_validation_with_decision ::
  "env \<Rightarrow> string \<Rightarrow> (TaskRecord \<times> TaskRunRecord) command" where
  "require_running_validation_with_decision E task_ref =
     bindE (readE (resolve_task E False task_ref)) (\<lambda>task.
     thenE (ensure_not_archived task)
     (bindE (readE (require_running_run E task (tk_latest_validation_run task) RT_validation)) (\<lambda>run.
      bindE (lock_for_mutation E (tk_id task)) (\<lambda>lock.
      thenE (enforce_decision (validation_check_decision task lock (Some run)))
        (returnE (task, run))))))"

definition next_check_id :: "TaskRunRecord \<Rightarrow> string" where
  "next_check_id run = ''check-'' @ zpad 4 (nat_str (length (rn_checks run) + 1))"

text \<open>A criterion reference is resolved against the accepted plan.\<close>

definition resolve_accepted_criterion ::
  "env \<Rightarrow> TaskRecord \<Rightarrow> string \<Rightarrow> ledger \<Rightarrow> error + string" where
  "resolve_accepted_criterion E task criterion_ref l =
     (case tk_accepted_plan_version task of
        None \<Rightarrow> Inl (bad_input ''no accepted plan'')
      | Some v \<Rightarrow>
          bindR (resolve_plan (tk_id task) (Some v) l) (\<lambda>accepted_plan.
          resolve_criterion_ref E accepted_plan criterion_ref))"

record check_args =
  ca_name :: "string option"
  ca_criterion_id :: "string option"
  ca_status :: string
  ca_details :: "string option"
  ca_evidence :: "string list"

definition nonempty :: "string option \<Rightarrow> string option" where
  "nonempty x = (case x of Some s \<Rightarrow> if s = [] then None else Some s | None \<Rightarrow> None)"

definition add_validation_check :: "env \<Rightarrow> string \<Rightarrow> check_args \<Rightarrow> TaskRunRecord command" where
  "add_validation_check E task_ref a =
     bindE (require_running_validation_with_decision E task_ref) (\<lambda>(task, run).
     bindE (liftE (normalize_validation_check_status (ca_status a))) (\<lambda>normalized_status.
     let check_id = next_check_id run;
         given_criterion = map_option strip (nonempty (ca_criterion_id a))
     in thenE (guardE (normalized_status = CS_not_run \<or> given_criterion \<noteq> None)
          (bad_input ''criterion required''))
     (bindE (case given_criterion of
               None \<Rightarrow> returnE None
             | Some ref \<Rightarrow> bindE (readE (resolve_accepted_criterion E task ref)) (\<lambda>c.
                 returnE (Some c))) (\<lambda>resolved_criterion.
      let check = \<lparr>vc_name = strip (str_or (opt_str_or (ca_name a) resolved_criterion) check_id),
            vc_id = Some check_id, vc_criterion_id = resolved_criterion,
            vc_status = normalized_status, vc_details = map_option strip (nonempty (ca_details a)),
            vc_evidence = filter (\<lambda>s. s \<noteq> []) (map strip (ca_evidence a)), vc_waiver = None\<rparr>;
          updated = run\<lparr>rn_checks := rn_checks run @ [check]\<rparr>
      in thenE (modifyE (save_run updated))
        (thenE (modifyE (append_event E (tk_id task) ''validation.check.logged''
           [(''run_id'', PStr (rn_run_id run)), (''check_id'', PStr check_id),
            (''criterion_id'', opt_str resolved_criterion),
            (''status'', PStr (enum_name check_status_names normalized_status)),
            (''evidence'', PStr (join '' | '' (vc_evidence check))),
            (''details'', opt_str (vc_details check))]))
          (returnE updated))))))"

definition waive_criterion ::
  "env \<Rightarrow> string \<Rightarrow> string \<Rightarrow> string \<Rightarrow> string option \<Rightarrow> TaskRunRecord command" where
  "waive_criterion E task_ref criterion_ref reason actor_name =
     bindE (require_running_validation_with_decision E task_ref) (\<lambda>(task, run).
     bindE (readE (resolve_accepted_criterion E task criterion_ref)) (\<lambda>resolved_criterion.
     thenE (guardE (strip reason \<noteq> []) (bad_input ''reason''))
     (let waiver = \<lparr>cw_actor = ActorRef_default\<lparr>ar_actor_type := AT_user,
              ar_actor_name := strip (str_or actor_name (str_or (Some (e_user E)) ''user'')),
              ar_tool := Some ''manual''\<rparr>,
            cw_reason = strip reason, cw_created_at = e_now E\<rparr>;
          check_id = next_check_id run;
          check = \<lparr>vc_name = resolved_criterion, vc_id = Some check_id,
            vc_criterion_id = Some resolved_criterion, vc_status = CS_pass, vc_details = None,
            vc_evidence = [], vc_waiver = Some waiver\<rparr>;
          updated = run\<lparr>rn_checks := rn_checks run @ [check]\<rparr>
      in thenE (modifyE (save_run updated))
        (thenE (modifyE (append_event E (tk_id task) ''validation.criterion.waived''
           [(''run_id'', PStr (rn_run_id run)), (''check_id'', PStr check_id),
            (''criterion_id'', PStr resolved_criterion), (''reason'', PStr (strip reason))]))
          (returnE updated)))))"

section \<open>The gate report\<close>

datatype gate_blocker =
    B_no_accepted_plan
  | B_plan_not_accepted PlanStatus
  | B_no_finished_implementation
  | B_criterion_missing string
  | B_criterion_fail string
  | B_todo_open string
  | B_dependency string

datatype criterion_blocker = CB_fail | CB_missing | CB_unsatisfied

record criterion_report =
  cr_id :: string
  cr_text :: string
  cr_mandatory :: bool
  cr_latest_check_id :: "string option"
  cr_latest_status :: ValidationCheckStatus
  cr_satisfied :: bool
  cr_has_waiver :: bool
  cr_evidence :: "string list"
  cr_history :: "(string option \<times> ValidationCheckStatus) list"
  cr_blocker :: "criterion_blocker option"

record gate_report =
  gr_task_id :: string
  gr_run_id :: "string option"
  gr_accepted_plan :: "(int \<times> PlanStatus) option"
  gr_implementation :: "(string \<times> RunStatus \<times> bool) option"
  gr_criteria :: "criterion_report list"
  gr_open_mandatory :: "string list"
  gr_dependencies :: "string list"
  gr_blockers :: "gate_blocker list"
  gr_can_finish_passed :: bool

definition criterion_has_user_waiver :: "ValidationCheck \<Rightarrow> bool" where
  "criterion_has_user_waiver check \<longleftrightarrow>
     (case vc_waiver check of None \<Rightarrow> False | Some w \<Rightarrow> ar_actor_type (cw_actor w) = AT_user)"

definition build_criterion_report ::
  "ValidationCheck list \<Rightarrow> AcceptanceCriterion \<Rightarrow> criterion_report" where
  "build_criterion_report run_checks criterion =
     (let checks = filter (\<lambda>c. vc_criterion_id c = Some (ac_id criterion)) run_checks;
          latest_check = (if checks = [] then None else Some (last checks));
          latest_status = (case latest_check of None \<Rightarrow> CS_not_run | Some c \<Rightarrow> vc_status c);
          has_waiver = (case latest_check of None \<Rightarrow> False | Some c \<Rightarrow> criterion_has_user_waiver c);
          satisfied = (latest_status = CS_pass \<or> has_waiver)
      in \<lparr>cr_id = ac_id criterion, cr_text = ac_text criterion,
          cr_mandatory = ac_mandatory criterion,
          cr_latest_check_id = (case latest_check of None \<Rightarrow> None | Some c \<Rightarrow> vc_id c),
          cr_latest_status = latest_status, cr_satisfied = satisfied, cr_has_waiver = has_waiver,
          cr_evidence = (case latest_check of None \<Rightarrow> [] | Some c \<Rightarrow> vc_evidence c),
          cr_history = map (\<lambda>c. (vc_id c, vc_status c)) checks,
          cr_blocker =
            (if \<not> ac_mandatory criterion then None
             else if latest_status = CS_fail then Some CB_fail
             else if latest_status = CS_not_run then Some CB_missing
             else if \<not> satisfied \<and> latest_status \<noteq> CS_pass then Some CB_unsatisfied
             else None)\<rparr>)"

definition build_validation_gate_report ::
  "env \<Rightarrow> TaskRecord \<Rightarrow> TaskRunRecord option \<Rightarrow> ledger \<Rightarrow> error + gate_report" where
  "build_validation_gate_report E task given_run l =
     (let run = (case given_run of Some r \<Rightarrow> Some r
                 | None \<Rightarrow> optional_run E task (tk_latest_validation_run task) l);
          impl_run = optional_run E task (tk_latest_implementation_run task) l;
          run_checks = (case run of None \<Rightarrow> [] | Some r \<Rightarrow> rn_checks r)
      in bindR (case tk_accepted_plan_version task of
                  None \<Rightarrow> Inr None
                | Some v \<Rightarrow> bindR (resolve_plan (tk_id task) (Some v) l) (\<lambda>p. Inr (Some p)))
           (\<lambda>accepted_plan.
         let criteria = (case accepted_plan of None \<Rightarrow> []
               | Some p \<Rightarrow> map (build_criterion_report run_checks) (pl_criteria p));
             missing = filter (\<lambda>c. cr_blocker c \<in> {Some CB_missing, Some CB_unsatisfied}) criteria;
             failing = filter (\<lambda>c. cr_blocker c = Some CB_fail) criteria;
             open_todos = map td_id (filter (\<lambda>t. td_mandatory t \<and> \<not> td_done t)
               (load_todos (tk_id task) l))
         in bindR (dependency_blockers E task l) (\<lambda>dependencies.
            let blockers =
                  (case accepted_plan of
                     None \<Rightarrow> [B_no_accepted_plan]
                   | Some p \<Rightarrow> if pl_status p = PS_accepted then [] else [B_plan_not_accepted (pl_status p)])
                  @ (case impl_run of
                       None \<Rightarrow> [B_no_finished_implementation]
                     | Some r \<Rightarrow> if rn_status r = RS_finished then [] else [B_no_finished_implementation])
                  @ map (\<lambda>c. B_criterion_missing (cr_id c)) missing
                  @ map (\<lambda>c. B_criterion_fail (cr_id c)) failing
                  @ map B_todo_open open_todos
                  @ map (\<lambda>t. B_dependency (tk_id t)) dependencies
            in Inr \<lparr>gr_task_id = tk_id task, gr_run_id = map_option rn_run_id run,
                 gr_accepted_plan = (case accepted_plan of None \<Rightarrow> None
                   | Some p \<Rightarrow> map_option (\<lambda>v. (v, pl_status p)) (tk_accepted_plan_version task)),
                 gr_implementation = map_option (\<lambda>r. (rn_run_id r, rn_status r,
                   rn_status r = RS_finished)) impl_run,
                 gr_criteria = criteria, gr_open_mandatory = open_todos,
                 gr_dependencies = map tk_id dependencies, gr_blockers = blockers,
                 gr_can_finish_passed = (blockers = [])\<rparr>)))"

definition validation_status ::
  "env \<Rightarrow> string \<Rightarrow> string option \<Rightarrow> gate_report command" where
  "validation_status E task_ref run_id =
     bindE (readE (resolve_task E False task_ref)) (\<lambda>task.
     bindE (case nonempty run_id of
              None \<Rightarrow> returnE None
            | Some i \<Rightarrow> bindE (readE (resolve_run E (tk_id task) i)) (\<lambda>r. returnE (Some r))) (\<lambda>run.
     readE (build_validation_gate_report E task run)))"

section \<open>Finishing\<close>

definition ensure_validation_can_pass ::
  "env \<Rightarrow> TaskRecord \<Rightarrow> TaskRunRecord \<Rightarrow> unit command" where
  "ensure_validation_can_pass E task run =
     bindE (readE (build_validation_gate_report E task (Some run))) (\<lambda>report.
     guardE (gr_can_finish_passed report)
       (coded_error ''validation incomplete'' E_VALIDATION_INCOMPLETE EXIT_CODE_VALIDATION_FAILED))"

fun run_status_of_result :: "ValidationResult \<Rightarrow> RunStatus" where
  "run_status_of_result VR_passed = RS_finished"
| "run_status_of_result VR_blocked = RS_blocked"
| "run_status_of_result VR_failed = RS_failed"

definition finish_validation ::
  "env \<Rightarrow> string \<Rightarrow> string \<Rightarrow> string \<Rightarrow> string option \<Rightarrow> payload command" where
  "finish_validation E task_ref result summary recommendation =
     bindE (readE (resolve_task E False task_ref)) (\<lambda>task.
     thenE (ensure_not_archived task)
     (bindE (readE (require_running_run E task (tk_latest_validation_run task) RT_validation)) (\<lambda>run.
      bindE (liftE (normalize_validation_result result)) (\<lambda>normalized_result.
      thenE (whenE (normalized_result = VR_passed) (ensure_validation_can_pass E task run))
     (let target_stage = (if normalized_result = VR_passed then S_done else S_failed_validation);
          finished = run\<lparr>rn_status := run_status_of_result normalized_result,
            rn_finished_at := Some (e_now E), rn_summary := Some (strip summary),
            rn_recommendation := recommendation, rn_result := Some normalized_result\<rparr>;
          updated = task\<lparr>tk_status_stage := target_stage, tk_updated_at := e_now E\<rparr>;
          result_name = enum_name validation_result_names normalized_result
      in thenE (modifyE (save_run finished))
        (thenE (modifyE (save_task updated))
        (thenE (release_lock E updated LS_validating (rn_run_id run) target_stage
                 (if normalized_result = VR_passed then ''stage.completed'' else ''stage.failed'')
                 [(''result'', PStr result_name)] False)
        (thenE (modifyE (append_event E (tk_id updated) ''validation.finished''
           [(''run_id'', PStr (rn_run_id run)), (''result'', PStr result_name)]))
          (returnE (lifecycle_payload ''validate finish'' updated [] True None (Some finished)
             None (Some result_name)))))))))))"

section \<open>What the gate means\<close>

text \<open>
  The gate, stated without the report: an accepted plan whose mandatory criteria all have a
  satisfying latest check, a finished implementation, no open mandatory todo and no unfinished
  requirement.
\<close>

definition criterion_passed :: "ValidationCheck list \<Rightarrow> AcceptanceCriterion \<Rightarrow> bool" where
  "criterion_passed checks criterion \<longleftrightarrow>
     (let own = filter (\<lambda>c. vc_criterion_id c = Some (ac_id criterion)) checks
      in own \<noteq> [] \<and> (vc_status (last own) = CS_pass
        \<or> vc_status (last own) = CS_warn \<and> criterion_has_user_waiver (last own)))"

definition validation_gate :: "env \<Rightarrow> TaskRecord \<Rightarrow> TaskRunRecord \<Rightarrow> ledger \<Rightarrow> bool" where
  "validation_gate E task run l \<longleftrightarrow>
     (\<exists>v p. tk_accepted_plan_version task = Some v \<and> resolve_plan (tk_id task) (Some v) l = Inr p
        \<and> pl_status p = PS_accepted
        \<and> (\<forall>c \<in> set (pl_criteria p). ac_mandatory c \<longrightarrow> criterion_passed (rn_checks run) c))
     \<and> (\<exists>r. optional_run E task (tk_latest_implementation_run task) l = Some r
          \<and> rn_status r = RS_finished)
     \<and> (\<forall>t \<in> set (load_todos (tk_id task) l). td_mandatory t \<longrightarrow> td_done t)
     \<and> dependency_blockers E task l = Inr []"

lemma criterion_blocker_None:
  "cr_blocker (build_criterion_report checks c) = None \<longleftrightarrow>
     (ac_mandatory c \<longrightarrow> criterion_passed checks c)"
  by (cases "vc_status (last (filter (\<lambda>k. vc_criterion_id k = Some (ac_id c)) checks))")
    (auto simp: build_criterion_report_def criterion_passed_def Let_def)

lemma criterion_blocker_cases:
  "b = None \<longleftrightarrow> b \<noteq> Some CB_missing \<and> b \<noteq> Some CB_unsatisfied \<and> b \<noteq> Some CB_fail"
  by (metis criterion_blocker.exhaust option.distinct(1) not_None_eq)

lemma gate_report_iff:
  "(\<exists>report. build_validation_gate_report E task (Some run) l = Inr report
      \<and> gr_can_finish_passed report) \<longleftrightarrow> validation_gate E task run l"
proof (cases "tk_accepted_plan_version task")
  case None
  then show ?thesis
    by (auto simp: build_validation_gate_report_def validation_gate_def bindR_def Let_def
        split: sum.splits)
next
  case (Some v)
  show ?thesis
  proof (cases "resolve_plan (tk_id task) (Some v) l")
    case (Inl e)
    then show ?thesis using Some
      by (simp add: build_validation_gate_report_def validation_gate_def bindR_def Let_def)
  next
    case (Inr p)
    then show ?thesis using Some
      by (auto simp: build_validation_gate_report_def validation_gate_def bindR_def Let_def
          criterion_blocker_None [symmetric] criterion_blocker_cases filter_empty_conv
          split: option.splits sum.splits if_splits)
  qed
qed

lemma wp_ensure_validation_can_pass [wp_intro]:
  assumes "validation_gate E task run l \<Longrightarrow> Q () l"
    and "\<And>e. \<not> validation_gate E task run l \<Longrightarrow> X e l"
  shows "wp (ensure_validation_can_pass E task run) Q X l"
  unfolding ensure_validation_can_pass_def
  by (intro wp_intro assms) (use gate_report_iff [of E task run l] in auto)

section \<open>The run invariant\<close>

lemma wp_snapshot_current [wp_intro]:
  assumes "Q () l" and "\<And>e. X e l"
  shows "wp (ensure_implementation_snapshot_current E task r) Q X l"
  unfolding ensure_implementation_snapshot_current_def by (intro wp_intro assms)

lemma start_validation_inv: "keeps run_inv (start_validation E task_ref actor harness)"
  unfolding start_validation_def Let_def
  by (intro keepsI wp_intro) (auto intro!: run_inv_save_task run_inv_edit_started started_ledger_inv)

lemma wp_require_running_validation [wp_intro]:
  assumes "\<And>task run. resolve_task E False task_ref l = Inr task \<Longrightarrow> \<not> is_archived_task task
      \<Longrightarrow> run \<in> runs_of l (tk_id task)
      \<Longrightarrow> holds_run RT_validation (read_lock (tk_id task) l) (Some run)
      \<Longrightarrow> Q (task, run) l"
    and "\<And>e. X e l"
  shows "wp (require_running_validation_with_decision E task_ref) Q X l"
  unfolding require_running_validation_with_decision_def
  by (intro wp_intro assms) (auto simp: validation_check_allowed dest: require_running_runD)

lemma add_validation_check_inv: "keeps run_inv (add_validation_check E task_ref a)"
  and waive_criterion_inv: "keeps run_inv (waive_criterion E task_ref criterion reason actor_name)"
  unfolding add_validation_check_def waive_criterion_def Let_def
  by (intro keepsI wp_intro; auto intro!: run_inv_edit_run)+

lemma run_status_of_result_final: "run_status_of_result r \<noteq> RS_running"
  by (cases r) simp_all

lemma finish_validation_inv: "keeps run_inv (finish_validation E task_ref result summary rec)"
  unfolding finish_validation_def Let_def
  by (intro keepsI wp_intro)
    (auto dest: require_running_runD run_inv_task simp: run_status_of_result_final)

end
