(* ===== verification/Lifecycle.thy ===== *)
theory Lifecycle
  imports Validation
begin

text \<open>
  Tasks from creation to closure: \<open>taskledger/services/task_lifecycle.py\<close>,
  \<open>_unique_slug\<close> and \<open>_task_active_stage\<close> of \<open>services/tasks.py\<close> and
  \<open>allocate_ledger_task_id\<close> of \<open>ids.py\<close>.
\<close>

section \<open>Identifiers and slugs\<close>

text \<open>
  \<open>max_existing\<close> over the ids that parse as \<open>task-\<close> ids, and the next number: never below the
  configured one.
\<close>

definition max_existing :: "env \<Rightarrow> string list \<Rightarrow> nat" where
  "max_existing E existing_ids =
     fold (\<lambda>item m. case e_parse_id E ''task'' item of None \<Rightarrow> m | Some n \<Rightarrow> max m n) existing_ids 0"

definition allocate_ledger_task_id :: "env \<Rightarrow> string list \<Rightarrow> nat \<Rightarrow> string \<times> nat" where
  "allocate_ledger_task_id E existing_ids config_next_number =
     (let next_number = max config_next_number (max_existing E existing_ids + 1)
      in (e_format_id E ''task'' next_number, next_number + 1))"

definition allocate_task_id_and_advance :: "env \<Rightarrow> string list \<Rightarrow> string command" where
  "allocate_task_id_and_advance E existing_ids =
     bindE (getsE l_next_task_number) (\<lambda>config_next.
     let (task_id, new_next) = allocate_ledger_task_id E existing_ids config_next
     in thenE (whenE (new_next \<noteq> config_next) (modifyE (\<lambda>l. l\<lparr>l_next_task_number := new_next\<rparr>)))
         (returnE task_id))"

definition slug_candidate :: "string \<Rightarrow> nat \<Rightarrow> string" where
  "slug_candidate base suffix = base @ ''-'' @ nat_str suffix"

lemma slug_candidate_inj: "slug_candidate base m = slug_candidate base n \<longleftrightarrow> m = n"
  by (metis append_same_eq digits_nat_str same_append_eq slug_candidate_def)

function unique_suffix :: "string list \<Rightarrow> string \<Rightarrow> nat \<Rightarrow> nat" where
  "unique_suffix taken base suffix =
     (if slug_candidate base suffix \<in> set taken then unique_suffix taken base (Suc suffix)
      else suffix)"
  by pat_completeness auto

termination
proof (relation "measure (\<lambda>(taken, base, n). card (set taken \<inter> slug_candidate base ` {n..}))")
  fix taken base n
  assume "slug_candidate base n \<in> set taken"
  then have "set taken \<inter> slug_candidate base ` {Suc n..} \<subseteq>
      (set taken \<inter> slug_candidate base ` {n..}) - {slug_candidate base n}"
    "slug_candidate base n \<in> set taken \<inter> slug_candidate base ` {n..}"
    by (auto simp: slug_candidate_inj image_iff)
  then have "set taken \<inter> slug_candidate base ` {Suc n..} \<subset> set taken \<inter> slug_candidate base ` {n..}"
    by blast
  then show "((taken, base, Suc n), taken, base, n)
    \<in> measure (\<lambda>(taken, base, n). card (set taken \<inter> slug_candidate base ` {n..}))"
    by (simp add: psubset_card_mono)
qed simp

declare unique_suffix.simps [simp del]

text \<open>\<open>_unique_slug(existing, value)\<close>, given the slugs of the existing records.\<close>

definition unique_slug :: "env \<Rightarrow> string list \<Rightarrow> string \<Rightarrow> string" where
  "unique_slug E taken value =
     (let base = e_slugify E value ''task''
      in if base \<notin> set taken then base else slug_candidate base (unique_suffix taken base 2))"

section \<open>Creating\<close>

text \<open>\<open>tuple(dict.fromkeys(xs))\<close>: the first occurrence of each element.\<close>

definition dedupe :: "'a list \<Rightarrow> 'a list" where
  "dedupe xs = rev (remdups (rev xs))"

definition new_task :: "env \<Rightarrow> string \<Rightarrow> string \<Rightarrow> string \<Rightarrow> string \<Rightarrow> TaskRecord" where
  "new_task E task_id slug title body =
     \<lparr>tk_id = task_id, tk_slug = slug, tk_title = title, tk_body = body,
      tk_status_stage = S_draft, tk_created_at = e_now E, tk_updated_at = e_now E,
      tk_description_summary = None, tk_priority = None, tk_labels = [], tk_owner = None,
      tk_introduction_ref = None, tk_requirements = [], tk_file_links = [], tk_todos = [],
      tk_latest_plan_version = None, tk_accepted_plan_version = None,
      tk_latest_planning_run = None, tk_latest_implementation_run = None,
      tk_latest_validation_run = None, tk_code_change_log_refs = [], tk_notes = [],
      tk_parent_task_id = None, tk_parent_relation = None, tk_closed_at = None,
      tk_closed_by = None, tk_closure_note = None, tk_archived_at = None,
      tk_archived_by = None, tk_archive_reason = None,
      tk_file_version = TASKLEDGER_V2_FILE_VERSION,
      tk_schema_version = TASKLEDGER_SCHEMA_VERSION, tk_object_type = ''task'',
      tk_task_type = TT_managed, tk_recorded_at = None, tk_recorded_by = None\<rparr>"

text \<open>The slug and the id of a new task.\<close>

definition allocate_task :: "env \<Rightarrow> string option \<Rightarrow> string \<Rightarrow> (string \<times> string) command" where
  "allocate_task E slug title =
     bindE (getsE list_tasks) (\<lambda>all_tasks.
     bindE (getsE (list_tasks_by_visibility V_visible)) (\<lambda>visible_tasks.
     let task_slug = unique_slug E (map tk_slug visible_tasks) (str_or slug title)
     in bindE (allocate_task_id_and_advance E (map tk_id all_tasks)) (\<lambda>task_id.
        returnE (task_id, task_slug))))"

record create_args =
  nt_title :: string
  nt_description :: string
  nt_slug :: "string option"
  nt_priority :: "string option"
  nt_labels :: "string list"
  nt_owner :: "string option"

definition create_task :: "env \<Rightarrow> create_args \<Rightarrow> TaskRecord command" where
  "create_task E a =
     bindE (allocate_task E (nt_slug a) (nt_title a)) (\<lambda>(task_id, task_slug).
     let task = (new_task E task_id task_slug (nt_title a) (strip (nt_description a)))
           \<lparr>tk_description_summary := summary_line (Some (nt_description a)),
            tk_priority := nt_priority a, tk_labels := dedupe (nt_labels a),
            tk_owner := nt_owner a\<rparr>
     in thenE (modifyE (save_task task))
       (thenE (modifyE (append_event E (tk_id task) ''task.created''
          [(''slug'', PStr (tk_slug task)), (''title'', PStr (tk_title task))]))
         (returnE task)))"

section \<open>The active task\<close>

definition actor_for_active_task :: "env \<Rightarrow> string \<Rightarrow> error + ActorRef" where
  "actor_for_active_task E actor_type =
     (case enum_value actor_type_names actor_type of
        None \<Rightarrow> Inl (bad_input ''actor type'')
      | Some t \<Rightarrow> Inr ((default_actor E)\<lparr>ar_actor_type := t\<rparr>))"

definition ensure_active_switch_allowed ::
  "env \<Rightarrow> string \<Rightarrow> bool \<Rightarrow> string option \<Rightarrow> unit command" where
  "ensure_active_switch_allowed E task_id force reason =
     bindE (getsE (current_lock task_id)) (\<lambda>lock.
     case lock of
       None \<Rightarrow> returnE ()
     | Some l \<Rightarrow>
         bindE (liftE (lock_is_expired E l)) (\<lambda>expired.
         guardE (expired \<or> force \<and> given reason) (mk_error C_LockConflict ''live lock'')))"

definition task_active_stage :: "env \<Rightarrow> TaskRecord \<Rightarrow> ledger \<Rightarrow> error + RunType option" where
  "task_active_stage E task l =
     (case current_lock (tk_id task) l of
        None \<Rightarrow> Inr None
      | Some lock \<Rightarrow>
          bindR (lock_is_expired E lock) (\<lambda>expired.
          Inr (if expired then None
               else derive_active_stage (Some lock) (list_runs (tk_id task) l))))"

record active_payload =
  av_task_id :: string
  av_active_stage :: "RunType option"
  av_active :: bool
  av_changed :: bool
  av_previous_task_id :: "string option"
  av_state :: ActiveTaskState

definition active_task_payload ::
  "env \<Rightarrow> TaskRecord \<Rightarrow> ActiveTaskState \<Rightarrow> bool \<Rightarrow> string option \<Rightarrow> bool
    \<Rightarrow> active_payload command" where
  "active_task_payload E task state changed previous_task_id active =
     bindE (if active then readE (task_active_stage E task) else returnE None) (\<lambda>stage.
     returnE \<lparr>av_task_id = tk_id task, av_active_stage = stage, av_active = active,
       av_changed = changed, av_previous_task_id = previous_task_id, av_state = state\<rparr>)"

definition new_active_state ::
  "env \<Rightarrow> TaskRecord \<Rightarrow> ActorRef \<Rightarrow> string option \<Rightarrow> string option \<Rightarrow> ActiveTaskState" where
  "new_active_state E task actor reason previous_task_id =
     \<lparr>as_task_id = tk_id task, as_activated_at = e_now E, as_activated_by = actor,
      as_reason = reason, as_previous_task_id = previous_task_id,
      as_schema_version = TASKLEDGER_SCHEMA_VERSION, as_object_type = ''active_task'',
      as_file_version = TASKLEDGER_V2_FILE_VERSION\<rparr>"

definition switch_active_task ::
  "env \<Rightarrow> TaskRecord \<Rightarrow> string option \<Rightarrow> string option \<Rightarrow> string \<Rightarrow> bool
    \<Rightarrow> active_payload command" where
  "switch_active_task E task previous_task_id reason actor_type force =
     thenE (case previous_task_id of
              None \<Rightarrow> returnE ()
            | Some p \<Rightarrow> ensure_active_switch_allowed E p force reason)
     (bindE (liftE (actor_for_active_task E actor_type)) (\<lambda>actor.
      let state = new_active_state E task actor reason previous_task_id
      in thenE (modifyE (save_active_task_state state))
        (thenE (case previous_task_id of
                  None \<Rightarrow> returnE ()
                | Some p \<Rightarrow> modifyE (append_event E p ''task.deactivated''
                    [(''reason'', opt_str reason), (''next_task_id'', PStr (tk_id task)),
                     (''forced'', PBool force)]))
        (thenE (modifyE (append_event E (tk_id task) ''task.activated''
           [(''reason'', opt_str reason), (''previous_task_id'', opt_str previous_task_id),
            (''forced'', PBool force)]))
          (active_task_payload E task state True previous_task_id True)))))"

definition activate_task ::
  "env \<Rightarrow> string \<Rightarrow> string option \<Rightarrow> string \<Rightarrow> bool \<Rightarrow> active_payload command" where
  "activate_task E ref reason actor_type force =
     bindE (readE (resolve_task E False ref)) (\<lambda>task.
     thenE (ensure_not_archived task)
     (bindE (getsE l_active) (\<lambda>previous.
      case previous of
        None \<Rightarrow> switch_active_task E task None reason actor_type force
      | Some p \<Rightarrow>
          if as_task_id p = tk_id task
          then active_task_payload E task p False (as_previous_task_id p) True
          else switch_active_task E task (Some (as_task_id p)) reason actor_type force)))"

definition clear_active_task ::
  "env \<Rightarrow> string \<Rightarrow> string \<Rightarrow> bool \<Rightarrow> active_payload command" where
  "clear_active_task E reason actor_type force =
     bindE (getsE l_active) (\<lambda>state.
     case state of
       None \<Rightarrow> raiseE (mk_error C_NoActiveTask ''no active task'')
     | Some s \<Rightarrow>
         thenE (ensure_active_switch_allowed E (as_task_id s) force (Some reason))
         (bindE (readE (resolve_active_task E)) (\<lambda>task.
          thenE (modifyE clear_active_task_state)
         (thenE (modifyE (append_event E (tk_id task) ''task.deactivated''
            [(''reason'', PStr reason), (''forced'', PBool force),
             (''actor_type'', PStr actor_type)]))
           (active_task_payload E task s True (as_previous_task_id s) False)))))"

section \<open>Follow-up tasks\<close>

definition is_external_task_link :: "FileLink \<Rightarrow> bool" where
  "is_external_task_link link \<longleftrightarrow>
     fl_kind link = FK_other \<or> contains ''://'' (fl_path link)
     \<or> startswith (fl_path link) ''mailto:''"

definition copied_link :: "env \<Rightarrow> FileLink \<Rightarrow> FileLink" where
  "copied_link E item =
     \<lparr>fl_path = fl_path item, fl_kind = fl_kind item, fl_label = fl_label item,
      fl_required_for_validation = fl_required_for_validation item, fl_id = None,
      fl_task_id = None, fl_target_type = fl_target_type item, fl_baseline_hash = None,
      fl_baseline_size = None, fl_baseline_mtime = None, fl_baseline_exists = None,
      fl_file_version = TASKLEDGER_V2_FILE_VERSION,
      fl_schema_version = TASKLEDGER_SCHEMA_VERSION, fl_object_type = ''link'',
      fl_created_at = e_now E, fl_updated_at = e_now E\<rparr>"

definition copy_follow_up_links ::
  "env \<Rightarrow> FileLink list \<Rightarrow> bool \<Rightarrow> bool \<Rightarrow> FileLink list" where
  "copy_follow_up_links E file_links copy_files copy_links =
     map (copied_link E)
       (filter (\<lambda>item. if is_external_task_link item then copy_links else copy_files) file_links)"

definition follow_up_description ::
  "TaskRecord \<Rightarrow> string option \<Rightarrow> string option \<Rightarrow> string" where
  "follow_up_description parent description reason =
     join (nl @ nl)
       ((if given description then [strip (str_or description [])] else [])
        @ [''Follow-up of '' @ tk_id parent @ '' ('' @ tk_slug parent @ ''): '' @ tk_title parent @ ''.'']
        @ (if given reason then [''Reason: '' @ strip (str_or reason [])] else []))"

record follow_up_args =
  fu_title :: string
  fu_description :: "string option"
  fu_slug :: "string option"
  fu_labels :: "string list"
  fu_activate :: bool
  fu_copy_files :: bool
  fu_copy_links :: bool
  fu_reason :: "string option"

definition create_follow_up_task ::
  "env \<Rightarrow> string \<Rightarrow> follow_up_args \<Rightarrow> TaskRecord command" where
  "create_follow_up_task E parent_ref a =
     bindE (readE (resolve_task E False parent_ref)) (\<lambda>plain.
     bindE (getsE (task_with_sidecars plain)) (\<lambda>parent.
     thenE (ensure_not_archived parent)
     (thenE (guardE (tk_status_stage parent = S_done) (invalid_transition ''parent not done''))
     (bindE (allocate_task E (fu_slug a) (fu_title a)) (\<lambda>(task_id, task_slug).
      let body = follow_up_description parent (fu_description a) (fu_reason a);
          copied_links = copy_follow_up_links E (tk_file_links parent) (fu_copy_files a)
            (fu_copy_links a);
          child = (new_task E task_id task_slug (fu_title a) body)
            \<lparr>tk_description_summary := summary_line (Some body),
             tk_labels := dedupe (fu_labels a @ [''follow-up'']),
             tk_file_links := copied_links, tk_parent_task_id := Some (tk_id parent),
             tk_parent_relation := Some ''follow_up''\<rparr>
      in thenE (modifyE (save_task child))
        (thenE (whenE (copied_links \<noteq> []) (modifyE (save_links E (tk_id child) copied_links)))
        (thenE (modifyE (append_event E (tk_id parent) ''task.follow_up.created''
           [(''child_task_id'', PStr (tk_id child)), (''child_slug'', PStr (tk_slug child)),
            (''reason'', opt_str (fu_reason a))]))
        (thenE (modifyE (append_event E (tk_id child) ''task.created''
           [(''slug'', PStr (tk_slug child)), (''title'', PStr (tk_title child)),
            (''parent_task_id'', PStr (tk_id parent)), (''parent_relation'', PStr ''follow_up'')]))
        (thenE (if fu_activate a
                then bindE (activate_task E (tk_id child) (fu_reason a) ''agent'' False)
                  (\<lambda>_. returnE ())
                else returnE ())
          (returnE child))))))))))"

definition list_follow_up_tasks :: "env \<Rightarrow> string \<Rightarrow> ledger \<Rightarrow> error + TaskRecord list" where
  "list_follow_up_tasks E parent_ref l =
     bindR (resolve_task E False parent_ref l) (\<lambda>parent.
     Inr (filter (\<lambda>t. tk_parent_task_id t = Some (tk_id parent)
        \<and> tk_parent_relation t = Some ''follow_up'') (list_tasks l)))"

section \<open>Recording finished work\<close>

record record_args =
  rc_title :: string
  rc_description :: "string option"
  rc_summary :: string
  rc_slug :: "string option"
  rc_labels :: "string list"
  rc_owner :: "string option"
  rc_changes :: "(string \<times> string \<times> string) list"
  rc_evidence :: "string list"
  rc_completed_by :: "ActorRef option"
  rc_recorded_by :: "ActorRef option"
  rc_harness :: "HarnessRef option"
  rc_allow_empty_record :: bool
  rc_reason :: "string option"

definition record_checks :: "record_args \<Rightarrow> unit command" where
  "record_checks a =
     thenE (guardE (strip (rc_title a) \<noteq> []) (bad_input ''title''))
     (thenE (guardE (strip (rc_summary a) \<noteq> []) (bad_input ''summary''))
     (thenE (guardE (rc_changes a \<noteq> [] \<or> rc_evidence a \<noteq> [] \<or> rc_allow_empty_record a)
        (bad_input ''empty record''))
     (thenE (guardE (rc_allow_empty_record a \<longrightarrow> given (rc_reason a)) (bad_input ''reason''))
       (guardE (list_all (\<lambda>(path, kind, summary). strip path \<noteq> [] \<and> strip kind \<noteq> []
           \<and> strip summary \<noteq> []) (rc_changes a)) (bad_input ''change'')))))"

text \<open>A finished run that was not worked on under a lock.\<close>

definition recorded_run ::
  "env \<Rightarrow> TaskRecord \<Rightarrow> RunType \<Rightarrow> string \<Rightarrow> record_args \<Rightarrow> string \<Rightarrow> TaskRunRecord" where
  "recorded_run E task kind run_id a summary =
     (new_run E task kind (Some (actor_or E (rc_completed_by a))) (rc_harness a) empty_ledger)
       \<lparr>rn_run_id := run_id, rn_status := RS_finished, rn_finished_at := Some (e_now E),
        rn_based_on_plan_version := None, rn_summary := Some summary\<rparr>"

fun recorded_changes ::
  "env \<Rightarrow> string \<Rightarrow> string \<Rightarrow> string list \<Rightarrow> (string \<times> string \<times> string) list
    \<Rightarrow> CodeChangeRecord list" where
  "recorded_changes E task_id run_id existing [] = []"
| "recorded_changes E task_id run_id existing ((path, kind, summary) # rest) =
     (let change_id = next_project_id E ''change'' existing
      in \<lparr>ch_change_id = change_id, ch_task_id = task_id, ch_implementation_run = run_id,
          ch_timestamp = e_now E, ch_kind = strip kind, ch_path = strip path,
          ch_summary = strip summary, ch_git_commit = None, ch_git_diff_stat = None,
          ch_command = None, ch_before_hash = None, ch_after_hash = None, ch_exit_code = None,
          ch_file_version = TASKLEDGER_V2_FILE_VERSION,
          ch_schema_version = TASKLEDGER_SCHEMA_VERSION, ch_object_type = ''change''\<rparr>
         # recorded_changes E task_id run_id (existing @ [change_id]) rest)"

definition recorded_validation_run ::
  "env \<Rightarrow> record_args \<Rightarrow> TaskRecord \<Rightarrow> string \<Rightarrow> string list \<Rightarrow> TaskRunRecord option" where
  "recorded_validation_run E a task impl_run_id existing_run_ids =
     (if rc_evidence a = [] then None
      else Some ((recorded_run E task RT_validation
            (next_project_id E ''run'' (existing_run_ids @ [impl_run_id])) a
            ''Recorded validation evidence for manually completed work.'')
          \<lparr>rn_based_on_implementation_run := Some impl_run_id,
           rn_evidence := rc_evidence a, rn_result := Some VR_passed\<rparr>))"

text \<open>The events of a recorded task.\<close>

definition record_events ::
  "env \<Rightarrow> record_args \<Rightarrow> TaskRecord \<Rightarrow> string \<Rightarrow> TaskRunRecord option \<Rightarrow> string list
    \<Rightarrow> unit command" where
  "record_events E a task impl_run_id validation_run change_ids =
     thenE (modifyE (append_event E (tk_id task) ''task.created''
        [(''slug'', PStr (tk_slug task)), (''title'', PStr (tk_title task)),
         (''task_type'', PStr ''recorded'')]))
     (thenE (modifyE (append_event E (tk_id task) ''task.recorded''
        [(''task_type'', PStr ''recorded''), (''recorded_at'', PStr (e_now E)),
         (''recorded_by'', PDict (ActorRef_to_dict (actor_or E (rc_recorded_by a))))]))
     (thenE (forE change_ids (\<lambda>cid. modifyE (append_event E (tk_id task) ''change.logged''
               [(''change_id'', PStr cid)])))
     (thenE (modifyE (append_event E (tk_id task) ''implementation.finished''
        [(''run_id'', PStr impl_run_id), (''recorded'', PBool True)]))
       (case validation_run of
          None \<Rightarrow> returnE ()
        | Some r \<Rightarrow> modifyE (append_event E (tk_id task) ''validation.finished''
            [(''run_id'', PStr (rn_run_id r)), (''result'', PStr ''passed''),
             (''recorded'', PBool True)])))))"

text \<open>What follows the synthetic implementation run: changes, validation run, task, events.\<close>

definition store_recorded_work ::
  "env \<Rightarrow> record_args \<Rightarrow> TaskRecord \<Rightarrow> TaskRunRecord \<Rightarrow> string list \<Rightarrow> TaskRecord command" where
  "store_recorded_work E a task impl_run existing_run_ids =
     bindE (getsE (list_changes (tk_id task))) (\<lambda>all_changes.
      let changes = recorded_changes E (tk_id task) (rn_run_id impl_run)
            (map ch_change_id all_changes) (rc_changes a);
          change_ids = map ch_change_id changes;
          validation_run = recorded_validation_run E a task (rn_run_id impl_run) existing_run_ids;
          updated = task\<lparr>tk_latest_implementation_run := Some (rn_run_id impl_run),
            tk_latest_validation_run := map_option rn_run_id validation_run,
            tk_code_change_log_refs := change_ids\<rparr>
      in thenE (forE changes (\<lambda>c. modifyE (save_change c)))
        (thenE (whenE (change_ids \<noteq> [])
                 (modifyE (save_run (impl_run\<lparr>rn_change_refs := change_ids\<rparr>))))
        (thenE (case validation_run of None \<Rightarrow> returnE () | Some r \<Rightarrow> modifyE (save_run r))
        (thenE (modifyE (save_task updated))
        (thenE (record_events E a task (rn_run_id impl_run) validation_run change_ids)
          (returnE updated))))))"

definition recorded_task :: "env \<Rightarrow> record_args \<Rightarrow> string \<Rightarrow> string \<Rightarrow> TaskRecord" where
  "recorded_task E a task_id task_slug =
     (new_task E task_id task_slug (strip (rc_title a)) (strip (str_or (rc_description a) [])))
       \<lparr>tk_description_summary := summary_line (Some (str_or (rc_description a) (rc_title a))),
        tk_labels := dedupe (rc_labels a), tk_owner := rc_owner a,
        tk_status_stage := S_done, tk_task_type := TT_recorded,
        tk_recorded_at := Some (e_now E),
        tk_recorded_by := Some (actor_or E (rc_recorded_by a))\<rparr>"

definition recorded_implementation_run ::
  "env \<Rightarrow> record_args \<Rightarrow> TaskRecord \<Rightarrow> string list \<Rightarrow> TaskRunRecord" where
  "recorded_implementation_run E a task existing_run_ids =
     (recorded_run E task RT_implementation (next_project_id E ''run'' existing_run_ids) a
        (strip (rc_summary a)))
       \<lparr>rn_worklog := [''Recorded completed work after it was performed outside taskledger.'']\<rparr>"

definition record_completed_task :: "env \<Rightarrow> record_args \<Rightarrow> TaskRecord command" where
  "record_completed_task E a =
     thenE (record_checks a)
     (bindE (allocate_task E (rc_slug a) (rc_title a)) (\<lambda>(task_id, task_slug).
      let task = recorded_task E a task_id task_slug
      in thenE (modifyE (save_task task))
     (bindE (getsE (list_runs (tk_id task))) (\<lambda>runs.
      let impl_run = recorded_implementation_run E a task (map rn_run_id runs)
      in thenE (modifyE (save_run impl_run))
          (store_recorded_work E a task impl_run (map rn_run_id runs))))))"

section \<open>Editing, cancelling, closing\<close>

record edit_args =
  ed_title :: "string option"
  ed_description :: "string option"
  ed_priority :: "string option"
  ed_owner :: "string option"
  ed_add_labels :: "string list"
  ed_remove_labels :: "string list"
  ed_add_notes :: "string list"

definition edited_labels :: "string list \<Rightarrow> string list \<Rightarrow> string list \<Rightarrow> string list" where
  "edited_labels labels remove add =
     foldl (\<lambda>ls label. if label \<in> set ls then ls else ls @ [label])
       (filter (\<lambda>l. l \<notin> set remove) labels) add"

definition edit_task :: "env \<Rightarrow> string \<Rightarrow> edit_args \<Rightarrow> TaskRecord command" where
  "edit_task E ref a =
     bindE (readE (resolve_task E False ref)) (\<lambda>task.
     thenE (ensure_not_archived task)
     (bindE (getsE (current_lock (tk_id task))) (\<lambda>lock.
      thenE (enforce_decision (metadata_edit_decision task lock))
     (let updated = task\<lparr>tk_title := str_or (ed_title a) (tk_title task),
            tk_body := (case ed_description a of Some d \<Rightarrow> strip d | None \<Rightarrow> tk_body task),
            tk_description_summary := (case ed_description a of
                Some d \<Rightarrow> summary_line (Some d) | None \<Rightarrow> tk_description_summary task),
            tk_priority := opt_str_or (ed_priority a) (tk_priority task),
            tk_owner := opt_str_or (ed_owner a) (tk_owner task),
            tk_labels := edited_labels (tk_labels task) (ed_remove_labels a) (ed_add_labels a),
            tk_notes := tk_notes task @ filter (\<lambda>n. n \<noteq> []) (ed_add_notes a),
            tk_updated_at := e_now E\<rparr>
      in thenE (modifyE (save_task updated))
        (thenE (modifyE (append_event E (tk_id updated) ''task.updated''
           [(''title'', PStr (tk_title updated))]))
          (returnE updated))))))"

definition cancel_task :: "env \<Rightarrow> string \<Rightarrow> string option \<Rightarrow> payload command" where
  "cancel_task E ref reason =
     bindE (readE (resolve_task E False ref)) (\<lambda>task.
     thenE (ensure_not_archived task)
     (thenE (liftE (require_transition (tk_status_stage task) S_cancelled))
     (bindE (getsE (read_lock (tk_id task))) (\<lambda>lock.
      bindE (case lock of
               None \<Rightarrow> returnE task
             | Some l \<Rightarrow>
                 thenE (release_lock E task (lk_stage l) (lk_run_id l) S_cancelled ''stage.failed''
                   [(''reason'', PStr (str_or reason ''cancelled''))] False)
                   (readE (resolve_task E False ref))) (\<lambda>current.
      let updated = current\<lparr>tk_status_stage := S_cancelled, tk_updated_at := e_now E\<rparr>
      in thenE (modifyE (save_task updated))
        (thenE (modifyE (append_event E (tk_id updated) ''task.cancelled''
           [(''reason'', opt_str reason)]))
          (returnE (lifecycle_payload ''task cancel'' updated [] True None None None None))))))))"

text \<open>A failed or blocked validation run, and a finished implementation run.\<close>

definition failed_validation_run :: "TaskRunRecord option \<Rightarrow> bool" where
  "failed_validation_run run \<longleftrightarrow>
     (case run of
        None \<Rightarrow> False
      | Some r \<Rightarrow> rn_run_type r = RT_validation \<and> rn_status r \<in> {RS_failed, RS_blocked}
          \<and> rn_result r \<in> {Some VR_failed, Some VR_blocked})"

definition finished_implementation_run :: "TaskRunRecord option \<Rightarrow> bool" where
  "finished_implementation_run run \<longleftrightarrow>
     (case run of
        None \<Rightarrow> False
      | Some r \<Rightarrow> rn_run_type r = RT_implementation \<and> rn_status r = RS_finished)"

definition has_proposed_plan :: "string \<Rightarrow> ledger \<Rightarrow> bool" where
  "has_proposed_plan task_id l \<longleftrightarrow>
     (case latest_plan_or_none task_id l of None \<Rightarrow> False | Some p \<Rightarrow> pl_status p = PS_proposed)"

definition infer_uncancel_target :: "env \<Rightarrow> TaskRecord \<Rightarrow> ledger \<Rightarrow> TaskStatusStage" where
  "infer_uncancel_target E task l =
     (if failed_validation_run (optional_run E task (tk_latest_validation_run task) l)
         \<and> accepted_plan_record_or_none task l \<noteq> None then S_failed_validation
      else if finished_implementation_run
                (optional_run E task (tk_latest_implementation_run task) l) then S_implemented
      else if accepted_plan_record_or_none task l \<noteq> None then S_approved
      else if has_proposed_plan (tk_id task) l then S_plan_review
      else S_draft)"

definition validate_uncancel_target ::
  "env \<Rightarrow> TaskRecord \<Rightarrow> TaskStatusStage \<Rightarrow> ledger \<Rightarrow> error + unit" where
  "validate_uncancel_target E task target l =
     (let require = (\<lambda>b. if b then Inr () else Inl (invalid_transition ''uncancel target''))
      in case target of
           S_draft \<Rightarrow> Inr ()
         | S_plan_review \<Rightarrow> require (has_proposed_plan (tk_id task) l)
         | S_approved \<Rightarrow> require (accepted_plan_record_or_none task l \<noteq> None)
         | S_implemented \<Rightarrow> require (finished_implementation_run
             (optional_run E task (tk_latest_implementation_run task) l))
         | S_failed_validation \<Rightarrow> require (accepted_plan_record_or_none task l \<noteq> None
             \<and> failed_validation_run (optional_run E task (tk_latest_validation_run task) l))
         | _ \<Rightarrow> Inl (bad_input ''uncancel target''))"

definition uncancel_task ::
  "env \<Rightarrow> string \<Rightarrow> string option \<Rightarrow> string \<Rightarrow> ActorRef option \<Rightarrow> bool \<Rightarrow> payload command" where
  "uncancel_task E ref target_stage reason actor allow_agent_uncancel =
     bindE (readE (resolve_task E False ref)) (\<lambda>task.
     thenE (ensure_not_archived task)
     (bindE (getsE (current_lock (tk_id task))) (\<lambda>lock.
      bindE (getsE (resumable_implementation_run E task lock)) (\<lambda>resumable_run.
      thenE (guardE (tk_status_stage task = S_cancelled)
        (if resumable_run \<noteq> None \<and> tk_status_stage task = S_implementing
         then coded_error ''resume instead'' E_INVALID_TRANSITION EXIT_CODE_INVALID_TRANSITION
         else invalid_transition ''not cancelled''))
     (thenE (case lock of
               None \<Rightarrow> returnE ()
             | Some l \<Rightarrow> bindE (liftE (lock_is_expired E l)) (\<lambda>expired.
                 raiseE (if expired then stale_lock_error
                         else cli_error ''active lock'' EXIT_CODE_LOCK_CONFLICT)))
     (let uncancel_reason = strip reason; resolved_actor = actor_or E actor
      in thenE (guardE (uncancel_reason \<noteq> []) (bad_input ''reason''))
     (thenE (guardE (ar_actor_type resolved_actor \<noteq> AT_system) (bad_input ''system actor''))
     (thenE (guardE (ar_actor_type resolved_actor = AT_user \<or> allow_agent_uncancel)
        (approval_required ''agent uncancel''))
     (bindE (case target_stage of
               None \<Rightarrow> getsE (infer_uncancel_target E task)
             | Some t \<Rightarrow> liftE (normalize_task_status_stage t)) (\<lambda>target.
      thenE (guardE (target \<notin> set ACTIVE_TASK_STAGES \<and> target \<notin> {S_done, S_cancelled})
        (bad_input ''uncancel target''))
     (thenE (readE (validate_uncancel_target E task target))
     (let updated = task\<lparr>tk_status_stage := target, tk_updated_at := e_now E\<rparr>
      in thenE (modifyE (save_task updated))
        (thenE (modifyE (append_event E (tk_id updated) ''task.uncancelled''
           [(''from'', PStr ''cancelled''), (''to'', PStr (enum_name stage_names target)),
            (''reason'', PStr uncancel_reason),
            (''actor'', PDict (ActorRef_to_dict resolved_actor))]))
          (returnE (lifecycle_payload ''task uncancel'' updated [] True None None None None)))))))))))))))"

definition close_task :: "env \<Rightarrow> string \<Rightarrow> string option \<Rightarrow> payload command" where
  "close_task E ref note =
     bindE (readE (resolve_task E False ref)) (\<lambda>task.
     thenE (ensure_not_archived task)
     (thenE (guardE (tk_status_stage task = S_done) (invalid_transition ''not done''))
     (if tk_closed_at task \<noteq> None
      then returnE (lifecycle_payload ''task close'' task [] False None None None None)
      else
        (let updated = task\<lparr>tk_closed_at := Some (e_now E),
               tk_closed_by := Some (default_actor E), tk_closure_note := note,
               tk_updated_at := e_now E\<rparr>
         in thenE (modifyE (save_task updated))
           (thenE (modifyE (append_event E (tk_id updated) ''task.closed''
              [(''closed_at'', PStr (e_now E)), (''note'', opt_str note)]))
             (returnE (lifecycle_payload ''task close'' updated [] True None None None None)))))))"

section \<open>Fresh identifiers\<close>

text \<open>
  What the code relies on in the identifier functions of \<open>ledgercore\<close>: a formatted number
  parses back, and \<open>LedgerIdFormat.next\<close> returns an id that is not in use.
\<close>

definition ids_ok :: "env \<Rightarrow> bool" where
  "ids_ok E \<longleftrightarrow>
     (\<forall>prefix n. e_parse_id E prefix (e_format_id E prefix n) = Some n)
     \<and> (\<forall>prefix existing. e_next_id E prefix existing \<notin> set existing)"

lemma ids_okD:
  assumes "ids_ok E"
  shows "e_parse_id E prefix (e_format_id E prefix n) = Some n"
    "next_project_id E prefix existing \<notin> set existing"
  using assms by (simp_all add: ids_ok_def next_project_id_def)

lemma fold_max_bound:
  fixes f :: "string \<Rightarrow> nat option"
  shows "(\<forall>i \<in> set is. \<forall>n. f i = Some n \<longrightarrow> n \<le> fold (\<lambda>i m. case f i of None \<Rightarrow> m | Some n \<Rightarrow> max m n) is m0)
   \<and> m0 \<le> fold (\<lambda>i m. case f i of None \<Rightarrow> m | Some n \<Rightarrow> max m n) is m0"
proof (induction "is" arbitrary: m0)
  case Nil
  then show ?case by simp
next
  case (Cons i "is")
  show ?case
    using Cons.IH [of "case f i of None \<Rightarrow> m0 | Some n \<Rightarrow> max m0 n"]
    by (cases "f i") (auto simp: max_def split: if_splits)
qed

lemma max_existing_bound:
  "i \<in> set ids \<Longrightarrow> e_parse_id E ''task'' i = Some n \<Longrightarrow> n \<le> max_existing E ids"
  using fold_max_bound [of ids "e_parse_id E ''task''" 0] by (auto simp: max_existing_def)

lemma allocate_fresh:
  assumes "ids_ok E" "allocate_ledger_task_id E ids n = (i, n')"
  shows "i \<notin> set ids" "n < n'" "e_parse_id E ''task'' i = Some (n' - 1)"
proof -
  let ?n = "max n (max_existing E ids + 1)"
  have i: "i = e_format_id E ''task'' ?n" "n' = ?n + 1"
    using assms(2) by (auto simp: allocate_ledger_task_id_def Let_def)
  show "i \<notin> set ids"
    using ids_okD(1) [OF assms(1), of "''task''" ?n] max_existing_bound [of i ids E ?n] i
    by auto
  show "n < n'" "e_parse_id E ''task'' i = Some (n' - 1)"
    using i ids_okD(1) [OF assms(1), of "''task''" ?n] by auto
qed

lemma unique_suffix_free: "slug_candidate base (unique_suffix taken base n) \<notin> set taken"
  by (induction taken base n rule: unique_suffix.induct) (simp add: unique_suffix.simps)

lemma unique_suffix_least:
  "n \<le> k \<Longrightarrow> k < unique_suffix taken base n \<Longrightarrow> slug_candidate base k \<in> set taken"
proof (induction taken base n rule: unique_suffix.induct)
  case (1 taken base n)
  then show ?case
    by (cases "k = n") (auto simp: unique_suffix.simps [of taken base n] split: if_splits)
qed

lemma unique_slug_fresh: "unique_slug E taken value \<notin> set taken"
  using unique_suffix_free [of "e_slugify E value ''task''" taken 2]
  by (auto simp: unique_slug_def Let_def)

section \<open>The run invariant\<close>

text \<open>A run that is not running may be added under a new id.\<close>

lemma run_inv_add_run:
  assumes inv: "run_inv l" and r: "rn_status r \<noteq> RS_running"
    "rn_run_id r \<notin> rn_run_id ` runs_of l (rn_task_id r)"
  shows "run_inv (save_run r l)"
proof -
  have other: "\<forall>x \<in> runs_of l (rn_task_id r). rn_run_id x \<noteq> rn_run_id r"
    using r(2) by (metis imageI)
  have runs: "runs_of (save_run r l) t =
      (if t = rn_task_id r then insert (persist_run r) (runs_of l t) else runs_of l t)" for t
    using other by (auto simp: runs_of_save_run [OF inv])
  have "lock_backed (save_run r l) t" for t
    using run_inv_lock [OF inv, of t] by (auto simp: lock_backed_def runs)
  then show ?thesis
    using inv r(1) dir_ok_save_run [OF inv] by (auto simp: run_inv_def runs split: if_splits)
qed

lemma run_inv_next_number [simp]: "run_inv (l\<lparr>l_next_task_number := n\<rparr>) = run_inv l"
  by (rule run_inv_frame) simp_all

lemma allocate_task_inv: "keeps run_inv (allocate_task E slug title)"
  unfolding allocate_task_def allocate_task_id_and_advance_def Let_def
  by (intro keepsI wp_intro) auto

lemma create_task_inv: "keeps run_inv (create_task E a)"
  unfolding create_task_def Let_def
  by (intro keepsI wp_intro wp_keeps [OF allocate_task_inv]) auto

lemma active_task_payload_inv: "keeps run_inv (active_task_payload E t st c p a)"
  unfolding active_task_payload_def by (intro keepsI wp_intro)

lemma ensure_active_switch_inv: "keeps run_inv (ensure_active_switch_allowed E t force reason)"
  unfolding ensure_active_switch_allowed_def by (intro keepsI wp_intro)

lemma switch_active_task_inv: "keeps run_inv (switch_active_task E t p reason actor force)"
  unfolding switch_active_task_def Let_def
  by (intro keepsI wp_intro wp_keeps [OF active_task_payload_inv]
      wp_keeps [OF ensure_active_switch_inv]) auto

lemma activate_task_inv: "keeps run_inv (activate_task E ref reason actor_type force)"
  unfolding activate_task_def
  by (intro keepsI wp_intro wp_keeps [OF active_task_payload_inv]
      wp_keeps [OF switch_active_task_inv]) auto

lemma clear_active_task_inv: "keeps run_inv (clear_active_task E reason actor_type force)"
  unfolding clear_active_task_def
  by (intro keepsI wp_intro wp_keeps [OF active_task_payload_inv]
      wp_keeps [OF ensure_active_switch_inv]) auto

lemma create_follow_up_task_inv: "keeps run_inv (create_follow_up_task E ref a)"
  unfolding create_follow_up_task_def Let_def
  by (intro keepsI wp_intro wp_keeps [OF allocate_task_inv] wp_keeps [OF activate_task_inv]) auto

lemma edit_task_inv: "keeps run_inv (edit_task E ref ea)"
  and close_task_inv: "keeps run_inv (close_task E ref note)"
  and uncancel_task_inv: "keeps run_inv (uncancel_task E ref target reason actor allow)"
  unfolding edit_task_def close_task_def uncancel_task_def Let_def
  by (intro keepsI wp_intro; auto)+

lemma wp_release_lock:
  assumes "run_inv l" "\<And>l'. run_inv l' \<Longrightarrow> Q () l'" "\<And>e. X e l"
  shows "wp (release_lock E u stage run_id target name data del) Q X l"
  unfolding release_lock_def
  by (intro wp_intro assms(2,3)) (use assms(1) in \<open>auto intro!: run_inv_remove_lock run_inv_save_task\<close>)

lemma cancel_task_inv: "keeps run_inv (cancel_task E ref reason)"
  unfolding cancel_task_def Let_def
  by (intro keepsI wp_intro wp_release_lock) auto

lemma wp_forE_modify:
  assumes "P l" "\<And>x l. P l \<Longrightarrow> P (g x l)" "\<And>l'. P l' \<Longrightarrow> Q () l'"
  shows "wp (forE xs (\<lambda>x. modifyE (g x))) Q X l"
proof -
  have "wp (forE xs (\<lambda>x. modifyE (g x))) (\<lambda>_. P) X l"
    by (rule wp_forE) (auto intro: assms(1,2) simp: wp_simps)
  then show ?thesis by (rule wp_mono) (auto intro: assms(3))
qed

lemma save_change_frame [simp]:
  "l_runs (save_change c l) = l_runs l" "l_tasks (save_change c l) = l_tasks l"
  "runs_of (save_change c l) t = runs_of l t"
  by (simp_all add: save_change_def runs_of_def)

lemma recorded_run_sel [simp]:
  "rn_run_id (recorded_run E task kind i a s) = i"
  "rn_task_id (recorded_run E task kind i a s) = tk_id task"
  "rn_run_type (recorded_run E task kind i a s) = kind"
  "rn_status (recorded_run E task kind i a s) = RS_finished"
  by (simp_all add: recorded_run_def)

lemma wp_record_checks [wp_intro]: "Q () l \<Longrightarrow> (\<And>e. X e l) \<Longrightarrow> wp (record_checks a) Q X l"
  unfolding record_checks_def by (intro wp_intro)

lemma record_events_inv: "keeps run_inv (record_events E a task i v cs)"
  unfolding record_events_def
  by (intro keepsI wp_intro wp_forE_modify [where P = run_inv]) auto

lemma store_recorded_work_inv:
  assumes E: "ids_ok E" and inv: "run_inv l"
    and impl: "persist_run impl_run \<in> runs_of l (tk_id task)" "rn_task_id impl_run = tk_id task"
    and ids: "rn_run_id ` runs_of l (tk_id task) = set ids \<union> {rn_run_id impl_run}"
  shows "wp (store_recorded_work E a task impl_run ids) (\<lambda>_. run_inv) (\<lambda>_. run_inv) l"
proof -
  let ?t = "tk_id task"
  have edit: "run_inv (save_run (impl_run\<lparr>rn_change_refs := cs\<rparr>) l')
      \<and> rn_run_id ` runs_of (save_run (impl_run\<lparr>rn_change_refs := cs\<rparr>) l') ?t
        = set ids \<union> {rn_run_id impl_run}"
    if l': "run_inv l'" "runs_of l' ?t = runs_of l ?t" for l' cs
  proof
    show "run_inv (save_run (impl_run\<lparr>rn_change_refs := cs\<rparr>) l')"
      using l' impl by (intro run_inv_edit_run) (auto intro!: bexI [of _ "persist_run impl_run"])
    show "rn_run_id ` runs_of (save_run (impl_run\<lparr>rn_change_refs := cs\<rparr>) l') ?t
        = set ids \<union> {rn_run_id impl_run}"
      using l' ids impl by (auto simp: runs_of_save_run [OF l'(1)])
  qed
  have add: "run_inv (save_run r l')"
    if "run_inv l'" "rn_run_id ` runs_of l' ?t = set ids \<union> {rn_run_id impl_run}"
      "recorded_validation_run E a task (rn_run_id impl_run) ids = Some r" for l' r
  proof (rule run_inv_add_run [OF that(1)])
    have "rn_run_id r = next_project_id E ''run'' (ids @ [rn_run_id impl_run])"
      "rn_task_id r = ?t" "rn_status r = RS_finished"
      using that(3) by (auto simp: recorded_validation_run_def split: if_splits)
    then show "rn_status r \<noteq> RS_running" "rn_run_id r \<notin> rn_run_id ` runs_of l' (rn_task_id r)"
      using ids_okD(2) [OF E, of "''run''" "ids @ [rn_run_id impl_run]"] that(2) by auto
  qed
  show ?thesis
    unfolding store_recorded_work_def Let_def
    by (intro wp_intro wp_keeps [OF record_events_inv]
        wp_forE_modify [where P = "\<lambda>l'. run_inv l' \<and> runs_of l' ?t = runs_of l ?t"])
      (use inv ids edit add in \<open>auto intro!: run_inv_save_task\<close>)
qed

lemma record_completed_task_inv:
  assumes E: "ids_ok E"
  shows "keeps run_inv (record_completed_task E a)"
proof -
  have stored: "wp (store_recorded_work E a task r (map rn_run_id (list_runs (tk_id task) l)))
      (\<lambda>_. run_inv) (\<lambda>_. run_inv) (save_run r l)"
    if inv: "run_inv l" and r: "r = recorded_implementation_run E a task
      (map rn_run_id (list_runs (tk_id task) l))" for l task r
  proof (rule store_recorded_work_inv [OF E])
    have sel: "rn_task_id r = tk_id task" "rn_status r = RS_finished"
      "rn_run_id r = next_project_id E ''run'' (map rn_run_id (list_runs (tk_id task) l))"
      by (simp_all add: r recorded_implementation_run_def)
    have fresh: "rn_run_id r \<notin> rn_run_id ` runs_of l (tk_id task)"
      using ids_okD(2) [OF E, of "''run''" "map rn_run_id (list_runs (tk_id task) l)"]
      by (simp add: sel(3) list_runs_of)
    then show "run_inv (save_run r l)"
      using inv sel by (intro run_inv_add_run) auto
    show "persist_run r \<in> runs_of (save_run r l) (tk_id task)" "rn_task_id r = tk_id task"
      using sel by (auto simp: runs_of_save_run [OF inv])
    show "rn_run_id ` runs_of (save_run r l) (tk_id task)
        = set (map rn_run_id (list_runs (tk_id task) l)) \<union> {rn_run_id r}"
      using sel fresh by (auto simp: runs_of_save_run [OF inv] list_runs_of image_iff)
  qed
  show ?thesis
    unfolding record_completed_task_def Let_def
    by (intro keepsI wp_intro wp_keeps [OF allocate_task_inv]) (auto intro!: stored)
qed

text \<open>
  The stage that \<open>uncancel\<close> infers passes the checks that a stage named by the user has to pass, and
  is neither an active stage nor done nor cancelled.
\<close>

lemma inferred_target_valid:
  "validate_uncancel_target E task (infer_uncancel_target E task l) l = Inr ()
   \<and> infer_uncancel_target E task l \<notin> set ACTIVE_TASK_STAGES
   \<and> infer_uncancel_target E task l \<notin> {S_done, S_cancelled}"
  by (auto simp: infer_uncancel_target_def validate_uncancel_target_def ACTIVE_TASK_STAGES_def Let_def)

end
