(* ===== verification/Collections.thy ===== *)
theory Collections
  imports Lifecycle
begin

text \<open>
  What hangs on a task: requirements, file links and todos
  (\<open>taskledger/services/task_collections.py\<close>, \<open>services/file_links.py\<close>), and the archive
  (\<open>services/task_archive.py\<close>). The state of the workspace files is an argument \<open>snapshot\<close>,
  the result of \<open>snapshot_path\<close> for each link path.
\<close>

section \<open>Requirements\<close>

definition new_requirement :: "env \<Rightarrow> string \<Rightarrow> DependencyRequirement" where
  "new_requirement E task_id =
     \<lparr>dr_task_id = task_id, dr_required_status = ''done'', dr_waiver = None, dr_id = None,
      dr_required_task_id = None, dr_parent_task_id = None,
      dr_file_version = TASKLEDGER_V2_FILE_VERSION,
      dr_schema_version = TASKLEDGER_SCHEMA_VERSION, dr_object_type = ''requirement'',
      dr_created_at = e_now E, dr_updated_at = e_now E\<rparr>"

text \<open>\<open>_task_with_sidecars(resolve_task(ref))\<close> of a task that is not archived.\<close>

definition editable_task :: "env \<Rightarrow> string \<Rightarrow> TaskRecord command" where
  "editable_task E task_ref =
     bindE (readE (resolve_task E False task_ref)) (\<lambda>plain.
     bindE (getsE (task_with_sidecars plain)) (\<lambda>task.
     thenE (ensure_not_archived task) (returnE task)))"

definition add_requirement :: "env \<Rightarrow> string \<Rightarrow> string \<Rightarrow> TaskRecord command" where
  "add_requirement E task_ref required_task_ref =
     bindE (editable_task E task_ref) (\<lambda>task.
     bindE (readE (resolve_task E False required_task_ref)) (\<lambda>required.
     let requirements = (if tk_id required \<in> set (tk_requirements task) then tk_requirements task
           else tk_requirements task @ [tk_id required]);
         updated = task\<lparr>tk_requirements := requirements, tk_updated_at := e_now E\<rparr>
     in thenE (modifyE (save_requirements (tk_id updated) (map (new_requirement E) requirements)))
       (thenE (modifyE (save_task updated)) (returnE updated))))"

definition remove_requirement :: "env \<Rightarrow> string \<Rightarrow> string \<Rightarrow> TaskRecord command" where
  "remove_requirement E task_ref required_task_ref =
     bindE (editable_task E task_ref) (\<lambda>task.
     bindE (readE (resolve_task E False required_task_ref)) (\<lambda>required.
     let remaining = filter (\<lambda>i. i \<noteq> tk_id required) (tk_requirements task);
         updated = task\<lparr>tk_requirements := remaining, tk_updated_at := e_now E\<rparr>
     in thenE (modifyE (save_requirements (tk_id updated) (map (new_requirement E) remaining)))
       (thenE (modifyE (save_task updated)) (returnE updated))))"

definition user_waiver :: "env \<Rightarrow> string \<Rightarrow> DependencyWaiver" where
  "user_waiver E reason =
     \<lparr>dw_actor = ActorRef_default\<lparr>ar_actor_type := AT_user,
        ar_actor_name := str_or (Some (e_user E)) ''user'', ar_tool := Some ''manual''\<rparr>,
      dw_reason = strip reason, dw_created_at = e_now E\<rparr>"

fun waive_first ::
  "env \<Rightarrow> string \<Rightarrow> DependencyWaiver \<Rightarrow> DependencyRequirement list
    \<Rightarrow> DependencyRequirement list" where
  "waive_first E task_id waiver [] = [(new_requirement E task_id)\<lparr>dr_waiver := Some waiver\<rparr>]"
| "waive_first E task_id waiver (r # rs) =
     (if dr_task_id r = task_id then r\<lparr>dr_waiver := Some waiver\<rparr> # rs
      else r # waive_first E task_id waiver rs)"

definition waive_requirement ::
  "env \<Rightarrow> string \<Rightarrow> string \<Rightarrow> string \<Rightarrow> string \<Rightarrow> TaskRecord command" where
  "waive_requirement E task_ref required_task_ref actor_type reason =
     thenE (guardE (actor_type = ''user'') (approval_required ''user waiver''))
     (thenE (guardE (strip reason \<noteq> []) (bad_input ''reason''))
     (bindE (editable_task E task_ref) (\<lambda>task.
      bindE (readE (resolve_task E False required_task_ref)) (\<lambda>required.
      bindE (getsE (load_requirements (tk_id task))) (\<lambda>existing.
      let requirements = waive_first E (tk_id required) (user_waiver E reason) existing;
          updated = task\<lparr>tk_requirements := map dr_task_id requirements,
            tk_updated_at := e_now E\<rparr>
      in thenE (modifyE (save_requirements (tk_id task) requirements))
        (thenE (modifyE (save_task updated))
        (thenE (modifyE (append_event E (tk_id updated) ''requirement.waived''
           [(''required_task_id'', PStr (tk_id required)), (''reason'', PStr (strip reason))]))
          (returnE updated))))))))"

section \<open>File links\<close>

record FileSnapshot =
  fs_exists :: bool
  fs_target_type :: string
  fs_hash :: "string option"
  fs_size :: "int option"
  fs_mtime :: "string option"

definition with_baseline :: "env \<Rightarrow> (string \<Rightarrow> FileSnapshot) \<Rightarrow> FileLink \<Rightarrow> FileLink" where
  "with_baseline E snapshot link =
     (let s = snapshot (fl_path link)
      in link\<lparr>fl_target_type := Some (fs_target_type s), fl_baseline_hash := fs_hash s,
           fl_baseline_size := fs_size s, fl_baseline_mtime := fs_mtime s,
           fl_baseline_exists := Some (fs_exists s), fl_updated_at := e_now E\<rparr>)"

record link_args =
  la_path :: string
  la_kind :: string
  la_label :: "string option"
  la_required_for_validation :: bool
  la_snapshot :: "bool option"

definition new_file_link :: "env \<Rightarrow> link_args \<Rightarrow> FileLinkKind \<Rightarrow> FileLink" where
  "new_file_link E a kind =
     \<lparr>fl_path = la_path a, fl_kind = kind, fl_label = la_label a,
      fl_required_for_validation = la_required_for_validation a, fl_id = None,
      fl_task_id = None, fl_target_type = None, fl_baseline_hash = None,
      fl_baseline_size = None, fl_baseline_mtime = None, fl_baseline_exists = None,
      fl_file_version = TASKLEDGER_V2_FILE_VERSION,
      fl_schema_version = TASKLEDGER_SCHEMA_VERSION, fl_object_type = ''link'',
      fl_created_at = e_now E, fl_updated_at = e_now E\<rparr>"

definition linked_file ::
  "env \<Rightarrow> (string \<Rightarrow> FileSnapshot) \<Rightarrow> link_args \<Rightarrow> FileLinkKind \<Rightarrow> FileLink option \<Rightarrow> FileLink" where
  "linked_file E snapshot a kind existing =
     (case existing of
        None \<Rightarrow>
          if la_snapshot a \<noteq> Some False then with_baseline E snapshot (new_file_link E a kind)
          else new_file_link E a kind
      | Some old \<Rightarrow>
          (let new_link = old\<lparr>fl_kind := kind, fl_label := la_label a,
                 fl_required_for_validation := la_required_for_validation a,
                 fl_updated_at := e_now E\<rparr>
           in if la_snapshot a = Some True then with_baseline E snapshot new_link else new_link))"

definition add_file_link ::
  "env \<Rightarrow> (string \<Rightarrow> FileSnapshot) \<Rightarrow> string \<Rightarrow> link_args \<Rightarrow> TaskRecord command" where
  "add_file_link E snapshot task_ref a =
     bindE (editable_task E task_ref) (\<lambda>task.
     bindE (liftE (normalize_file_link_kind (la_kind a))) (\<lambda>kind.
     let existing = find (\<lambda>k. fl_path k = la_path a) (tk_file_links task);
         new_link = linked_file E snapshot a kind existing;
         links = filter (\<lambda>k. fl_path k \<noteq> la_path a) (tk_file_links task) @ [new_link];
         updated = task\<lparr>tk_file_links := links, tk_updated_at := e_now E\<rparr>
     in thenE (modifyE (save_links E (tk_id updated) links))
       (thenE (modifyE (save_task updated))
       (thenE (modifyE (append_event E (tk_id updated) ''file.linked''
          [(''path'', PStr (la_path a)), (''kind'', PStr (la_kind a)),
           (''snapshot'', opt_bool (la_snapshot a)),
           (''target_type'', opt_str (fl_target_type new_link))]))
         (returnE updated)))))"

definition remove_file_link :: "env \<Rightarrow> string \<Rightarrow> string \<Rightarrow> TaskRecord command" where
  "remove_file_link E task_ref path =
     bindE (editable_task E task_ref) (\<lambda>task.
     let remaining = filter (\<lambda>k. fl_path k \<noteq> path) (tk_file_links task);
         updated = task\<lparr>tk_file_links := remaining, tk_updated_at := e_now E\<rparr>
     in thenE (modifyE (save_links E (tk_id updated) remaining))
       (thenE (modifyE (save_task updated)) (returnE updated)))"

datatype LinkStatus = LS_unbaselined | LS_new | LS_unchanged | LS_deleted | LS_modified

definition link_status :: "FileLink \<Rightarrow> FileSnapshot \<Rightarrow> LinkStatus" where
  "link_status link current =
     (if fl_baseline_exists link = None then LS_unbaselined
      else if fl_baseline_exists link = Some False then
        (if fs_exists current then LS_new else LS_unchanged)
      else if \<not> fs_exists current then LS_deleted
      else if fl_target_type link \<noteq> Some (fs_target_type current) then LS_modified
      else if fs_target_type current = ''file'' then
        (if str_or (fl_baseline_hash link) [] \<noteq> [] \<and> str_or (fs_hash current) [] \<noteq> []
            \<and> fl_baseline_hash link \<noteq> fs_hash current then LS_modified
         else if (fl_baseline_hash link = None \<or> fs_hash current = None)
            \<and> fl_baseline_size link \<noteq> fs_size current then LS_modified
         else LS_unchanged)
      else LS_unchanged)"

definition refresh_file_baseline ::
  "env \<Rightarrow> (string \<Rightarrow> FileSnapshot) \<Rightarrow> string \<Rightarrow> string \<Rightarrow> string \<Rightarrow> FileLink command" where
  "refresh_file_baseline E snapshot task_ref path reason =
     thenE (guardE (strip reason \<noteq> []) (launch_error ''reason''))
     (bindE (editable_task E task_ref) (\<lambda>task.
      let matching = filter (\<lambda>k. fl_path k = path) (tk_file_links task);
          links = map (\<lambda>k. if fl_path k = path then with_baseline E snapshot k else k)
            (tk_file_links task);
          updated = task\<lparr>tk_file_links := links, tk_updated_at := e_now E\<rparr>
      in if matching = [] then raiseE (launch_error ''link not found'')
         else
           (let refreshed = with_baseline E snapshot (last matching)
            in thenE (modifyE (save_links E (tk_id updated) links))
              (thenE (modifyE (save_task updated))
              (thenE (modifyE (append_event E (tk_id updated) ''file.baseline_refreshed''
                 [(''path'', PStr path), (''reason'', PStr (strip reason)),
                  (''target_type'', opt_str (fl_target_type refreshed))]))
                (returnE refreshed))))))"

section \<open>Todos\<close>

definition normalize_local_id :: "env \<Rightarrow> string \<Rightarrow> string \<Rightarrow> string" where
  "normalize_local_id E ref prefix =
     (let normalized = lower (strip ref)
      in case e_local_id E prefix normalized of
           Some local \<Rightarrow> local
         | None \<Rightarrow>
             if \<not> startswith normalized (prefix @ ''-'') then normalized
             else (let suffix = removeprefix normalized (prefix @ ''-'')
                   in if \<not> isdigit suffix then normalized
                      else prefix @ ''-'' @ zpad 4 (nat_str (digits_nat suffix))))"

definition inferred_source :: "string option \<Rightarrow> TaskLock option \<Rightarrow> string" where
  "inferred_source source lock =
     (case source of
        Some s \<Rightarrow> s
      | None \<Rightarrow>
          (case lock of
             Some l \<Rightarrow> if lk_stage l = LS_planning then ''planner''
                       else if lk_stage l = LS_implementing then ''implementer'' else ''user''
           | None \<Rightarrow> ''user''))"

definition new_todo ::
  "env \<Rightarrow> TaskLock option \<Rightarrow> string \<Rightarrow> string \<Rightarrow> string \<Rightarrow> bool \<Rightarrow> TaskTodo" where
  "new_todo E lock todo_id text source mandatory =
     \<lparr>td_id = todo_id, td_text = strip text, td_done = False, td_created_at = e_now E,
      td_updated_at = e_now E, td_source = Some source, td_mandatory = mandatory,
      td_status = TS_open,
      td_active_at = (case lock of
          Some l \<Rightarrow> if lk_stage l = LS_implementing then Some (e_now E) else None | None \<Rightarrow> None),
      td_blocked_reason = None, td_done_at = None, td_skipped_at = None,
      td_completed_by = None, td_completed_in_harness = None, td_skipped_by = None,
      td_evidence = [], td_artifact_refs = [], td_change_refs = [], td_command_refs = [],
      td_source_plan_id = None, td_source_question_ids = [], td_validation_hint = None,
      td_worker_step_id = None\<rparr>"

definition add_todo ::
  "env \<Rightarrow> string \<Rightarrow> string \<Rightarrow> string option \<Rightarrow> bool \<Rightarrow> TaskRecord command" where
  "add_todo E task_ref text source mandatory =
     bindE (editable_task E task_ref) (\<lambda>task.
     bindE (lock_for_mutation E (tk_id task)) (\<lambda>lock.
     let resolved_source = inferred_source source lock
     in bindE (liftE (require_known_actor_role resolved_source)) (\<lambda>actor_role.
        thenE (enforce_decision (todo_add_decision task lock actor_role))
       (let todo = new_todo E lock (next_project_id E ''todo'' (map td_id (tk_todos task))) text
              resolved_source mandatory;
            updated = task\<lparr>tk_todos := tk_todos task @ [todo], tk_updated_at := e_now E\<rparr>
        in thenE (modifyE (save_todos (tk_id updated) (tk_todos updated)))
          (thenE (modifyE (save_task updated))
          (thenE (modifyE (append_event E (tk_id updated) ''todo.added''
             [(''todo_id'', PStr (td_id todo)), (''text'', PStr (td_text todo))]))
            (returnE updated)))))))"

record todo_done_args =
  da_done :: bool
  da_evidence :: "string option"
  da_artifacts :: "string list"
  da_changes :: "string list"
  da_actor :: "ActorRef option"
  da_harness :: "HarnessRef option"

definition toggled_todo :: "env \<Rightarrow> todo_done_args \<Rightarrow> TaskTodo \<Rightarrow> TaskTodo" where
  "toggled_todo E a todo =
     (let d = da_done a
      in todo\<lparr>td_done := d, td_status := (if d then TS_done else TS_open),
           td_updated_at := e_now E, td_done_at := (if d then Some (e_now E) else None),
           td_completed_by := (if d then Some (actor_or E (da_actor a)) else None),
           td_completed_in_harness := (if d then da_harness a else None),
           td_evidence := (if d \<and> given (da_evidence a)
             then td_evidence todo @ [strip (str_or (da_evidence a) [])] else td_evidence todo),
           td_artifact_refs := (if d then td_artifact_refs todo @ da_artifacts a
             else td_artifact_refs todo),
           td_change_refs := (if d then td_change_refs todo @ da_changes a
             else td_change_refs todo)\<rparr>)"

definition set_todo_done ::
  "env \<Rightarrow> string \<Rightarrow> string \<Rightarrow> todo_done_args \<Rightarrow> TaskRecord command" where
  "set_todo_done E task_ref todo_id a =
     bindE (editable_task E task_ref) (\<lambda>task.
     let ids = {todo_id, normalize_local_id E todo_id ''todo''}
     in bindE (lock_for_mutation E (tk_id task)) (\<lambda>lock.
        thenE (enforce_decision (todo_toggle_decision task lock ''user''))
       (thenE (guardE (\<exists>t \<in> set (tk_todos task). td_id t \<in> ids)
          (cli_error ''todo not found'' EXIT_CODE_MISSING))
       (let todos = map (\<lambda>t. if td_id t \<in> ids then toggled_todo E a t else t) (tk_todos task);
            updated = task\<lparr>tk_todos := todos, tk_updated_at := e_now E\<rparr>
        in thenE (modifyE (save_todos (tk_id updated) todos))
          (thenE (modifyE (save_task updated))
          (thenE (modifyE (append_event E (tk_id updated)
             (if da_done a then ''todo.completed'' else ''todo.toggled'')
             [(''todo_id'', PStr todo_id), (''done'', PBool (da_done a)),
              (''evidence'', opt_str (da_evidence a)), (''artifacts'', str_list (da_artifacts a)),
              (''changes'', str_list (da_changes a))]))
            (returnE updated)))))))"

definition next_todo :: "env \<Rightarrow> string \<Rightarrow> TaskTodo option command" where
  "next_todo E task_ref =
     bindE (readE (resolve_task E False task_ref)) (\<lambda>task.
     bindE (getsE (load_todos (tk_id task))) (\<lambda>todos.
     returnE (case find (\<lambda>t. \<not> td_done t \<and> td_status t = TS_active) todos of
                Some t \<Rightarrow> Some t
              | None \<Rightarrow> find (\<lambda>t. \<not> td_done t) todos)))"

section \<open>The archive\<close>

definition archive_task :: "env \<Rightarrow> string \<Rightarrow> string \<Rightarrow> bool \<Rightarrow> (TaskRecord \<times> bool) command" where
  "archive_task E ref reason force =
     (let archive_reason = strip reason
      in thenE (guardE (archive_reason \<noteq> []) (bad_input ''reason''))
     (bindE (readE (resolve_task E False ref)) (\<lambda>task.
      if tk_archived_at task \<noteq> None then returnE (task, False)
      else
        bindE (getsE (read_lock (tk_id task))) (\<lambda>lock.
        thenE (case lock of
                 None \<Rightarrow> returnE ()
               | Some l \<Rightarrow> bindE (liftE (lock_is_expired E l)) (\<lambda>expired.
                   guardE expired (invalid_transition ''live lock'')))
       (thenE (guardE (tk_status_stage task \<notin> set ACTIVE_TASK_STAGES)
          (invalid_transition ''active stage''))
       (thenE (guardE (tk_status_stage task \<in> {S_done, S_cancelled} \<or> force)
          (invalid_transition ''not finished''))
       (let updated = task\<lparr>tk_archived_at := Some (e_now E),
              tk_archived_by := Some (default_actor E), tk_archive_reason := Some archive_reason,
              tk_updated_at := e_now E\<rparr>
        in thenE (modifyE (save_task updated))
          (bindE (getsE l_active) (\<lambda>active_state.
           thenE (whenE ((\<exists>s. active_state = Some s \<and> as_task_id s = tk_id updated)
                    \<and> tk_status_stage updated \<in> {S_done, S_cancelled})
                  (modifyE clear_active_task_state))
          (thenE (modifyE (append_event E (tk_id updated) ''task.archived''
             [(''archived_at'', PStr (e_now E)), (''reason'', PStr archive_reason),
              (''force'', PBool force)]))
            (returnE (updated, True))))))))))))"

definition NONTERMINAL_UNARCHIVE_STALE_STAGES :: "TaskStatusStage list" where
  "NONTERMINAL_UNARCHIVE_STALE_STAGES = [S_approved, S_implemented, S_failed_validation]"

definition unarchived_task ::
  "env \<Rightarrow> TaskRecord \<Rightarrow> string \<Rightarrow> bool \<Rightarrow> TaskRecord" where
  "unarchived_task E task requested_slug reopen_for_work =
     (let stale = (reopen_for_work \<and> tk_status_stage task = S_implemented)
      in task\<lparr>tk_slug := requested_slug,
           tk_status_stage := (if stale then S_failed_validation else tk_status_stage task),
           tk_archived_at := None, tk_archived_by := None, tk_archive_reason := None,
           tk_updated_at := e_now E,
           tk_notes := tk_notes task @ (if stale then
             [''Unarchived from non-terminal state ''
               @ enum_name stage_names (tk_status_stage task)
               @ ''; old implementation evidence must not be validated directly.''] else [])\<rparr>)"

definition unarchive_task ::
  "env \<Rightarrow> string \<Rightarrow> string \<Rightarrow> string option \<Rightarrow> bool \<Rightarrow> (TaskRecord \<times> bool) command" where
  "unarchive_task E ref reason slug reopen_for_work =
     (let unarchive_reason = strip reason
      in thenE (guardE (unarchive_reason \<noteq> []) (bad_input ''reason''))
     (bindE (readE (resolve_task E True ref)) (\<lambda>task.
      if tk_archived_at task = None then returnE (task, False)
      else
        thenE (guardE (tk_status_stage task \<notin> set NONTERMINAL_UNARCHIVE_STALE_STAGES
            \<or> reopen_for_work) (invalid_transition ''recovery mode''))
       (bindE (getsE (list_tasks_by_visibility V_visible)) (\<lambda>visible.
        let requested_slug = (case nonempty slug of Some s \<Rightarrow> e_slugify E s ''task''
              | None \<Rightarrow> tk_slug task)
        in thenE (guardE (\<not> (\<exists>t \<in> set visible. tk_slug t = requested_slug \<and> tk_id t \<noteq> tk_id task))
             (invalid_transition ''slug conflict''))
          (let updated = unarchived_task E task requested_slug reopen_for_work
           in thenE (modifyE (save_task updated))
             (thenE (modifyE (append_event E (tk_id updated) ''task.unarchived''
                [(''reason'', PStr unarchive_reason), (''slug'', PStr requested_slug),
                 (''reopen_for_work'', PBool reopen_for_work),
                 (''target_stage'', PStr (enum_name stage_names (tk_status_stage updated)))]))
               (returnE (updated, True)))))))))"

section \<open>Introductions\<close>

definition create_introduction ::
  "env \<Rightarrow> string \<Rightarrow> string \<Rightarrow> string option \<Rightarrow> string list \<Rightarrow> IntroductionRecord command" where
  "create_introduction E title body slug labels =
     bindE (getsE list_introductions) (\<lambda>intros.
     let intro = \<lparr>in_id = next_project_id E ''intro'' (map in_id intros),
           in_slug = unique_slug E (map in_slug intros) (str_or slug title),
           in_title = title, in_body = strip body, in_created_at = e_now E,
           in_updated_at = e_now E, in_labels = dedupe labels,
           in_file_version = TASKLEDGER_V2_FILE_VERSION,
           in_schema_version = TASKLEDGER_SCHEMA_VERSION, in_object_type = ''introduction''\<rparr>
     in thenE (modifyE (save_introduction intro)) (returnE intro))"

definition link_introduction :: "env \<Rightarrow> string \<Rightarrow> string \<Rightarrow> TaskRecord command" where
  "link_introduction E task_ref introduction_ref =
     bindE (readE (resolve_task E False task_ref)) (\<lambda>task.
     thenE (ensure_not_archived task)
     (bindE (readE (resolve_introduction introduction_ref)) (\<lambda>intro.
      let updated = task\<lparr>tk_introduction_ref := Some (in_id intro), tk_updated_at := e_now E\<rparr>
      in thenE (modifyE (save_task updated))
        (thenE (modifyE (append_event E (tk_id updated) ''task.updated''
           [(''introduction_ref'', PStr (in_id intro))]))
          (returnE updated)))))"

section \<open>The run invariant\<close>

lemma wp_editable_task [wp_intro]:
  assumes "\<And>task plain. resolve_task E False task_ref l = Inr plain \<Longrightarrow> task = task_with_sidecars plain l
      \<Longrightarrow> \<not> is_archived_task task \<Longrightarrow> Q task l"
    and "\<And>e. X e l"
  shows "wp (editable_task E task_ref) Q X l"
  unfolding editable_task_def by (intro wp_intro assms)

lemma add_requirement_inv: "keeps run_inv (add_requirement E task_ref req)"
  and remove_requirement_inv: "keeps run_inv (remove_requirement E task_ref req)"
  and waive_requirement_inv: "keeps run_inv (waive_requirement E task_ref req actor reason)"
  and add_file_link_inv: "keeps run_inv (add_file_link E fs task_ref la)"
  and remove_file_link_inv: "keeps run_inv (remove_file_link E task_ref path)"
  and refresh_file_baseline_inv: "keeps run_inv (refresh_file_baseline E fs task_ref path reason)"
  and add_todo_inv: "keeps run_inv (add_todo E task_ref text source mandatory)"
  and set_todo_done_inv: "keeps run_inv (set_todo_done E task_ref todo_id da)"
  unfolding add_requirement_def remove_requirement_def waive_requirement_def add_file_link_def
    remove_file_link_def refresh_file_baseline_def add_todo_def set_todo_done_def Let_def
  by (intro keepsI wp_intro; auto)+

lemma archive_task_inv: "keeps run_inv (archive_task E ref reason force)"
  and unarchive_task_inv: "keeps run_inv (unarchive_task E ref reason slug reopen)"
  unfolding archive_task_def unarchive_task_def Let_def
  by (intro keepsI wp_intro; auto)+

lemma create_introduction_inv: "keeps run_inv (create_introduction E title body slug labels)"
  and link_introduction_inv: "keeps run_inv (link_introduction E task_ref introduction_ref)"
  unfolding create_introduction_def link_introduction_def Let_def
  by (intro keepsI wp_intro; auto)+

end
