(* ===== verification/Handoffs.thy ===== *)
theory Handoffs
  imports Locks
begin

text \<open>
  Handoffs: \<open>taskledger/services/handoff_lifecycle.py\<close>. The actor and the harness are the
  resolved ones (\<open>resolve_actor\<close> and \<open>resolve_harness\<close> read the process environment).
\<close>

definition require_intent :: "TaskHandoffRecord \<Rightarrow> ActorRef \<Rightarrow> HarnessRef \<Rightarrow> unit command" where
  "require_intent handoff actor harness =
     thenE (guardE (ho_intended_actor_type handoff \<in> {None, Some (ar_actor_type actor)})
       (launch_error ''actor type''))
     (thenE (guardE (str_or (ho_intended_actor_name handoff) [] \<in> {[], ar_actor_name actor})
       (launch_error ''actor name''))
       (guardE (str_or (ho_intended_harness handoff) [] \<in> {[], ''any'', hr_name harness})
         (launch_error ''harness'')))"

text \<open>The lock that the handoff speaks of: that of its source run.\<close>

definition with_source_lock ::
  "env \<Rightarrow> string \<Rightarrow> string \<Rightarrow> (string \<Rightarrow> TaskLock \<Rightarrow> unit command) \<Rightarrow> string option command" where
  "with_source_lock E task_id source_run_id act =
     bindE (readE (resolve_task E False task_id)) (\<lambda>task.
     bindE (getsE (read_lock (tk_id task))) (\<lambda>existing.
     case existing of
       None \<Rightarrow> returnE None
     | Some lock \<Rightarrow>
         if lk_run_id lock = source_run_id
         then thenE (act (tk_id task) lock) (returnE (Some (lk_lock_id lock)))
         else returnE None))"

definition apply_lock_policy ::
  "env \<Rightarrow> string \<Rightarrow> TaskHandoffRecord \<Rightarrow> ActorRef \<Rightarrow> HarnessRef \<Rightarrow> string option command" where
  "apply_lock_policy E task_id handoff actor harness =
     (let source = str_or (ho_source_run_id handoff) []
      in if source = [] then returnE None
         else if ho_lock_policy handoff = LP_transfer then
           with_source_lock E task_id source (\<lambda>t lock.
             bindE (transfer_lock E t (lk_lock_id lock) actor harness) (\<lambda>_. returnE ()))
         else if ho_lock_policy handoff = LP_release then
           with_source_lock E task_id source (\<lambda>t lock.
             bindE (handoff_release_lock E t (lk_lock_id lock)) (\<lambda>_. returnE ()))
         else returnE None)"

definition claimed_handoff ::
  "env \<Rightarrow> TaskHandoffRecord \<Rightarrow> ActorRef \<Rightarrow> HarnessRef \<Rightarrow> string option \<Rightarrow> string option
    \<Rightarrow> TaskHandoffRecord" where
  "claimed_handoff E handoff actor harness new_run_id lock_id =
     handoff\<lparr>ho_status := HS_claimed, ho_claim_run_id := new_run_id,
       ho_released_lock_id := (case lock_id of Some i \<Rightarrow> Some i | None \<Rightarrow> ho_released_lock_id handoff),
       ho_claimed_at := Some (e_now E), ho_claimed_by := Some actor,
       ho_claimed_in_harness := Some harness\<rparr>"

definition claim_handoff ::
  "env \<Rightarrow> string \<Rightarrow> string \<Rightarrow> ActorRef \<Rightarrow> HarnessRef \<Rightarrow> string option
    \<Rightarrow> TaskHandoffRecord command" where
  "claim_handoff E task_id handoff_id actor harness new_run_id =
     bindE (readE (resolve_handoff E task_id handoff_id)) (\<lambda>handoff.
     thenE (guardE (ho_status handoff = HS_open) (launch_error ''handoff status''))
     (thenE (require_intent handoff actor harness)
     (bindE (apply_lock_policy E task_id handoff actor harness) (\<lambda>lock_id.
      let updated = claimed_handoff E handoff actor harness new_run_id lock_id
      in thenE (modifyE (save_handoff updated)) (returnE updated)))))"

definition close_handoff ::
  "env \<Rightarrow> string \<Rightarrow> string \<Rightarrow> string option \<Rightarrow> TaskHandoffRecord command" where
  "close_handoff E task_id handoff_id reason =
     bindE (readE (resolve_handoff E task_id handoff_id)) (\<lambda>handoff.
     thenE (guardE (ho_status handoff \<in> {HS_open, HS_claimed}) (launch_error ''handoff status''))
     (let updated = handoff\<lparr>ho_status := HS_closed,
            ho_summary := opt_str_or reason (ho_summary handoff)\<rparr>
      in thenE (modifyE (save_handoff updated)) (returnE updated)))"

definition cancel_handoff ::
  "env \<Rightarrow> string \<Rightarrow> string \<Rightarrow> string option \<Rightarrow> TaskHandoffRecord command" where
  "cancel_handoff E task_id handoff_id reason =
     bindE (readE (resolve_handoff E task_id handoff_id)) (\<lambda>handoff.
     thenE (guardE (ho_status handoff = HS_open) (launch_error ''handoff status''))
     (let updated = handoff\<lparr>ho_status := HS_cancelled,
            ho_summary := opt_str_or reason (ho_summary handoff)\<rparr>
      in thenE (modifyE (save_handoff updated)) (returnE updated)))"

section \<open>The run invariant\<close>

text \<open>A lock may be rewritten as long as it names the same task, stage and run.\<close>

lemma run_inv_swap_lock:
  assumes "run_inv l" "read_lock t l = Some k" "lk_task_id k' = lk_task_id k"
    "lk_stage k' = lk_stage k" "lk_run_id k' = lk_run_id k"
  shows "run_inv (update_lock t k' l)"
proof -
  obtain r where "r \<in> runs_of l t" "run_matches_lock k r" "lk_task_id k = t"
    using run_inv_lock [OF assms(1), of t] assms(2) by (auto simp: lock_backed_def)
  then show ?thesis
    using run_inv_put_lock [OF assms(1), of k' t r] assms
    by (simp add: run_matches_lock_def TaskLock_run_type_def)
qed

lemma wp_save_lock_same:
  assumes "run_inv l" "\<exists>k. read_lock t l = Some k \<and> lk_task_id k' = lk_task_id k
      \<and> lk_stage k' = lk_stage k \<and> lk_run_id k' = lk_run_id k"
    and "\<And>l'. run_inv l' \<Longrightarrow> Q () l'"
  shows "wp (save_lock t k') Q X l"
  unfolding save_lock_def
  by (intro wp_intro) (use assms in \<open>auto intro!: run_inv_swap_lock\<close>)

lemma transfer_lock_inv: "keeps run_inv (transfer_lock E t i actor harness)"
  and handoff_release_lock_inv: "keeps run_inv (handoff_release_lock E t i)"
  unfolding transfer_lock_def handoff_release_lock_def Let_def
  by (intro keepsI wp_intro wp_save_lock_same;
      auto simp: transferred_lock_def dest: sym [of "Some _"])+

lemma with_source_lock_inv:
  assumes "\<And>t k. keeps run_inv (act t k)"
  shows "keeps run_inv (with_source_lock E task_id run act)"
  unfolding with_source_lock_def by (intro keepsI wp_intro wp_keeps [OF assms])

lemma apply_lock_policy_inv: "keeps run_inv (apply_lock_policy E task_id h actor harness)"
proof -
  have act: "keeps run_inv (bindE (transfer_lock E t i actor harness) (\<lambda>_. returnE ()))"
    "keeps run_inv (bindE (handoff_release_lock E t i) (\<lambda>_. returnE ()))" for t i
    by (intro keepsI wp_intro wp_keeps [OF transfer_lock_inv] wp_keeps [OF handoff_release_lock_inv];
        assumption)+
  show ?thesis
    unfolding apply_lock_policy_def Let_def
    by (intro keepsI wp_intro wp_keeps [OF with_source_lock_inv [OF act(1)]]
        wp_keeps [OF with_source_lock_inv [OF act(2)]])
qed

lemma claim_handoff_inv: "keeps run_inv (claim_handoff E t h actor harness run)"
  and close_handoff_inv: "keeps run_inv (close_handoff E t h reason)"
  and cancel_handoff_inv: "keeps run_inv (cancel_handoff E t h reason)"
  unfolding claim_handoff_def close_handoff_def cancel_handoff_def require_intent_def Let_def
  by (intro keepsI wp_intro wp_keeps [OF apply_lock_policy_inv]; simp)+

end
