(* ===== verification/Commands.thy ===== *)
theory Commands
  imports Planning Implementation
begin

text \<open>
  Shell commands run for a task: \<open>run_implementation_command\<close>
  (\<open>services/implementation_flow.py\<close>), \<open>run_planning_command\<close> and \<open>show_task_run\<close>
  (\<open>services/change_tracking.py\<close>), the checks they record (\<open>services/check_tracking.py\<close>) and the
  text helpers of \<open>services/tasks.py\<close>. The process itself is an argument: what the command line
  exits with and prints. The separate agent log is not part of the ledger.
\<close>

section \<open>Command lines\<close>

text \<open>\<open>shlex.quote\<close> and \<open>shlex.join\<close>\<close>

definition shell_safe :: "char \<Rightarrow> bool" where
  "shell_safe c \<longleftrightarrow> is_alpha c \<or> is_digit_char c \<or> c \<in> set ''_@%+=:,./-''"

definition shlex_quote :: "string \<Rightarrow> string" where
  "shlex_quote s =
     (if s = [] then [CHR 0x27, CHR 0x27]
      else if list_all shell_safe s then s
      else [CHR 0x27]
        @ py_replace [CHR 0x27] [CHR 0x27, CHR 0x22, CHR 0x27, CHR 0x22, CHR 0x27] s
        @ [CHR 0x27])"

definition shlex_join :: "string list \<Rightarrow> string" where
  "shlex_join argv = join '' '' (map shlex_quote argv)"

definition classify_check_command :: "string list \<Rightarrow> CheckCategory" where
  "classify_check_command argv =
     (let normalized = map lower argv
      in if normalized = [] then CC_other
         else if ''pytest'' \<in> set normalized then CC_test
         else if length normalized \<ge> 3 \<and> take 2 normalized = [''python'', ''-m'']
                 \<and> normalized ! 2 = ''pytest'' then CC_test
         else if hd normalized = ''ruff''
         then (if ''format'' \<in> set normalized then CC_format else CC_lint)
         else if hd normalized \<in> {''mypy'', ''pyright'', ''pyre''} then CC_typecheck
         else if hd normalized \<in> {''tox'', ''nox''} then CC_test
         else if hd normalized \<in> {''npm'', ''pnpm'', ''yarn''} \<and> ''test'' \<in> set normalized then CC_test
         else CC_other)"

record process_result =
  pr_returncode :: int
  pr_stdout :: string
  pr_stderr :: string

definition command_output :: "string list \<Rightarrow> string \<Rightarrow> string \<Rightarrow> string" where
  "command_output argv stdout stderr =
     ''$ '' @ shlex_join argv @ [CHR 0x0A, CHR 0x0A]
     @ ''stdout:'' @ [CHR 0x0A] @ (if stdout = [] then ''(empty)'' else stdout) @ [CHR 0x0A, CHR 0x0A]
     @ ''stderr:'' @ [CHR 0x0A] @ (if stderr = [] then ''(empty)'' else stderr) @ [CHR 0x0A]"

definition command_summary :: "string list \<Rightarrow> int \<Rightarrow> string option \<Rightarrow> string" where
  "command_summary argv exit_code artifact_ref =
     ''Ran '' @ shlex_join argv @ '' (exit '' @ int_str exit_code @ '')''
     @ (case artifact_ref of None \<Rightarrow> [] | Some r \<Rightarrow> '' output: @'' @ r)"

definition artifact_name :: "string \<Rightarrow> string \<Rightarrow> ledger \<Rightarrow> string" where
  "artifact_name task_id run_id l =
     (let existing = filter (\<lambda>(k, _). startswith k (run_id @ ''-command-'')) (l_artifacts l task_id)
      in run_id @ ''-command-'' @ zpad 4 (nat_str (length existing + 1)))"

definition write_command_artifact ::
  "env \<Rightarrow> string \<Rightarrow> string \<Rightarrow> string \<Rightarrow> string command" where
  "write_command_artifact E task_id run_id output =
     bindE (getsE (artifact_name task_id run_id)) (\<lambda>name.
     thenE (modifyE (save_artifact task_id name output))
       (returnE (e_tasks_dir E @ ''/'' @ task_id @ ''/artifacts/'' @ name @ ''.log'')))"

text \<open>Long output goes to a file.\<close>

definition output_artifact ::
  "env \<Rightarrow> string \<Rightarrow> string \<Rightarrow> string \<Rightarrow> string option command" where
  "output_artifact E task_id run_id output =
     (if length output > 4000 \<or> length (filter (\<lambda>c. c = CHR 0x0A) output) > 50
      then bindE (write_command_artifact E task_id run_id output) (\<lambda>r. returnE (Some r))
      else returnE None)"

section \<open>Checks\<close>

record add_check_args =
  kc_argv :: "string list"
  kc_command :: string
  kc_exit_code :: "int option"
  kc_summary :: "string option"
  kc_category :: CheckCategory
  kc_artifact_refs :: "string list"

definition check_record_status :: "int option \<Rightarrow> ImplementationCheckStatus" where
  "check_record_status exit_code =
     (if exit_code = Some 0 then IC_passed else if exit_code \<noteq> None then IC_failed else IC_unknown)"

definition new_check ::
  "env \<Rightarrow> TaskRecord \<Rightarrow> TaskRunRecord \<Rightarrow> string \<Rightarrow> add_check_args \<Rightarrow> ImplementationCheckRecord" where
  "new_check E task run check_id a =
     \<lparr>ic_check_id = check_id, ic_task_id = tk_id task, ic_implementation_run = rn_run_id run,
      ic_timestamp = e_now E, ic_command = kc_command a, ic_argv = kc_argv a,
      ic_exit_code = kc_exit_code a, ic_status = check_record_status (kc_exit_code a),
      ic_category = kc_category a,
      ic_summary = (let s = strip (str_or (kc_summary a) []) in if s = [] then None else Some s),
      ic_stdout_ref = None, ic_stderr_ref = None, ic_combined_ref = None,
      ic_file_version = TASKLEDGER_V2_FILE_VERSION,
      ic_schema_version = TASKLEDGER_SCHEMA_VERSION, ic_object_type = ''implementation_check''\<rparr>"

definition add_check :: "env \<Rightarrow> string \<Rightarrow> add_check_args \<Rightarrow> ImplementationCheckRecord command" where
  "add_check E task_ref a =
     bindE (require_running_implementation_with_decision E task_ref ''record implementation checks'')
       (\<lambda>(task, run).
     bindE (getsE (list_checks (tk_id task))) (\<lambda>existing.
     let check = new_check E task run (next_project_id E ''check'' (map ic_check_id existing)) a
     in thenE (modifyE (save_check check))
       (thenE (modifyE (save_run (run\<lparr>rn_check_refs := rn_check_refs run @ [ic_check_id check],
          rn_artifact_refs := rn_artifact_refs run @ kc_artifact_refs a\<rparr>)))
       (thenE (modifyE (save_task (task\<lparr>tk_updated_at := e_now E\<rparr>)))
       (thenE (modifyE (append_event E (tk_id task) ''implementation.check.logged''
          [(''check_id'', PStr (ic_check_id check)), (''command'', PStr (kc_command a))]))
         (returnE check))))))"

section \<open>Running commands\<close>

definition run_implementation_command ::
  "env \<Rightarrow> process_result \<Rightarrow> string \<Rightarrow> string list \<Rightarrow> ImplementationCheckRecord command" where
  "run_implementation_command E completed task_ref argv =
     thenE (guardE (argv \<noteq> []) (bad_input ''command required''))
     (bindE (require_running_implementation_with_decision E task_ref ''record implementation commands'')
       (\<lambda>(task, run).
      bindE (output_artifact E (tk_id task) (rn_run_id run)
          (command_output argv (pr_stdout completed) (pr_stderr completed))) (\<lambda>artifact_ref.
      add_check E task_ref
        \<lparr>kc_argv = argv, kc_command = shlex_join argv,
         kc_exit_code = Some (pr_returncode completed),
         kc_summary = Some (command_summary argv (pr_returncode completed) artifact_ref),
         kc_category = classify_check_command argv,
         kc_artifact_refs = (case artifact_ref of None \<Rightarrow> [] | Some r \<Rightarrow> [r])\<rparr>)))"

definition run_planning_command ::
  "env \<Rightarrow> process_result \<Rightarrow> string \<Rightarrow> string list \<Rightarrow> string option command" where
  "run_planning_command E completed task_ref argv =
     thenE (guardE (argv \<noteq> []) (bad_input ''command required''))
     (bindE (readE (resolve_task E False task_ref)) (\<lambda>task.
      thenE (ensure_not_archived task)
     (bindE (readE (require_running_run E task (tk_latest_planning_run task) RT_planning)) (\<lambda>run.
      bindE (lock_for_mutation E (tk_id task)) (\<lambda>lock.
      thenE (enforce_decision (plan_command_decision task lock (Some run)))
     (bindE (output_artifact E (tk_id task) (rn_run_id run)
          (command_output argv (pr_stdout completed) (pr_stderr completed))) (\<lambda>artifact_ref.
      let summary = command_summary argv (pr_returncode completed) artifact_ref;
          updated_run = run\<lparr>rn_worklog := rn_worklog run @ [summary],
            rn_artifact_refs := rn_artifact_refs run
              @ (case artifact_ref of None \<Rightarrow> [] | Some r \<Rightarrow> [r])\<rparr>
      in thenE (modifyE (save_run updated_run))
        (thenE (modifyE (save_task (task\<lparr>tk_updated_at := e_now E\<rparr>)))
        (thenE (modifyE (append_event E (tk_id task) ''plan.command''
           [(''run_id'', PStr (rn_run_id run)), (''command'', PStr (shlex_join argv)),
            (''exit_code'', PInt (pr_returncode completed)),
            (''artifact_ref'', opt_str artifact_ref)]))
          (returnE artifact_ref))))))))))"

definition latest_run_of_type :: "TaskRecord \<Rightarrow> RunType \<Rightarrow> string option" where
  "latest_run_of_type task run_type =
     (case run_type of
        RT_implementation \<Rightarrow> tk_latest_implementation_run task
      | RT_validation \<Rightarrow> tk_latest_validation_run task
      | RT_planning \<Rightarrow> tk_latest_planning_run task)"

definition show_task_run ::
  "env \<Rightarrow> string \<Rightarrow> string option \<Rightarrow> RunType \<Rightarrow> ledger \<Rightarrow> error + TaskRunRecord" where
  "show_task_run E task_ref run_id run_type l =
     bindR (resolve_task E False task_ref l) (\<lambda>task.
     let selected = (case run_id of Some i \<Rightarrow> Some i | None \<Rightarrow> latest_run_of_type task run_type)
     in bindR (require_run E task selected l) (\<lambda>run.
        if rn_run_type run \<noteq> run_type
        then Inl (cli_error ''run type'' EXIT_CODE_INVALID_TRANSITION) else Inr run))"

section \<open>The run invariant\<close>

lemma output_artifact_inv: "keeps run_inv (output_artifact E task_id run_id output)"
  unfolding output_artifact_def write_command_artifact_def
  by (intro keepsI wp_intro) auto

text \<open>Writing the output of a command changes neither the tasks nor the runs nor the locks.\<close>

lemma wp_output_artifact [wp_intro]:
  assumes "run_inv l"
    and "\<And>r l'. run_inv l' \<Longrightarrow> l_tasks l' = l_tasks l \<Longrightarrow> runs_of l' = runs_of l
      \<Longrightarrow> l_locks l' = l_locks l \<Longrightarrow> Q r l'"
  shows "wp (output_artifact E task_id run_id output) Q X l"
  unfolding output_artifact_def write_command_artifact_def
  by (intro wp_intro assms(2)) (use assms(1) in \<open>auto simp: fun_eq_iff\<close>)

lemma add_check_inv: "keeps run_inv (add_check E task_ref a)"
  unfolding add_check_def Let_def
  by (intro keepsI wp_intro) (auto intro!: run_inv_save_task run_inv_edit_run)

lemma run_implementation_command_inv:
  "keeps run_inv (run_implementation_command E completed task_ref argv)"
  unfolding run_implementation_command_def
  by (intro keepsI wp_intro wp_keeps [OF add_check_inv]) auto

lemma run_planning_command_inv: "keeps run_inv (run_planning_command E completed task_ref argv)"
  unfolding run_planning_command_def Let_def
  by (intro keepsI wp_intro)
    (auto intro!: run_inv_save_task run_inv_edit_run bexI [OF _ require_running_runD(1)])

end
