(* ===== verification/Actors.thy ===== *)
theory Actors
  imports Store
begin

text \<open>
  Who runs a command: \<open>taskledger/services/actors.py\<close>, the stored identities of
  \<open>cli_actor.py\<close> and \<open>resolve_cli_actor_harness\<close> of \<open>cli_common.py\<close>. The process environment
  is \<open>e_getenv\<close>. A workspace root that is not given is the value \<open>None\<close> for the ledger.
\<close>

section \<open>Process ids\<close>

text \<open>Python's truth value and \<open>or\<close> on optional strings\<close>

definition is_set :: "string option \<Rightarrow> bool" where
  "is_set v \<longleftrightarrow> v \<noteq> None \<and> v \<noteq> Some []"

definition first_set :: "string option \<Rightarrow> string option \<Rightarrow> string option" where
  "first_set a b = (if is_set a then a else b)"

definition int_env :: "env \<Rightarrow> string \<Rightarrow> int option" where
  "int_env E name =
     (if \<not> is_set (e_getenv E name) then None
      else case py_int (the (e_getenv E name)) of
             None \<Rightarrow> None
           | Some value \<Rightarrow> if value > 0 then Some value else None)"

definition owner_pid_from_env :: "env \<Rightarrow> int option" where
  "owner_pid_from_env E =
     (case int_env E ''TASKLEDGER_OWNER_PID'' of
        Some p \<Rightarrow> Some p
      | None \<Rightarrow> int_env E ''TASKLEDGER_HARNESS_PID'')"

definition is_harness_context :: "env \<Rightarrow> string option \<Rightarrow> string option \<Rightarrow> bool" where
  "is_harness_context E session_id harness_id \<longleftrightarrow>
     is_set session_id \<or> is_set harness_id \<or> is_set (e_getenv E ''TASKLEDGER_HARNESS'')
     \<or> is_set (e_getenv E ''PI_VERSION'') \<or> is_set (e_getenv E ''CODEX_VERSION'')
     \<or> is_set (e_getenv E ''OPENCODE_VERSION'')"

definition resolve_pids ::
  "env \<Rightarrow> string option \<Rightarrow> string option \<Rightarrow> int option \<times> int \<times> PidScope" where
  "resolve_pids E session_id harness_id =
     (case owner_pid_from_env E of
        Some owner_pid \<Rightarrow> (Some owner_pid, e_pid E, SP_owner)
      | None \<Rightarrow>
          if is_harness_context E session_id harness_id
          then (None, e_pid E, SP_unverifiable_harness)
          else (Some (e_pid E), e_pid E, SP_owner))"

section \<open>Actors\<close>

record actor_args =
  aq_actor_type :: "string option"
  aq_actor_name :: "string option"
  aq_role :: "string option"
  aq_tool :: "string option"
  aq_session_id :: "string option"
  aq_harness_id :: "string option"

text \<open>
  Every branch of \<open>resolve_actor\<close> builds the reference the same way: the process ids come from
  the session and harness it resolved, the harness id of the record is separate.
\<close>

definition actor_ref ::
  "env \<Rightarrow> ActorType \<Rightarrow> string \<Rightarrow> ActorRole option \<Rightarrow> string option \<Rightarrow> string option
    \<Rightarrow> string option \<Rightarrow> string option \<Rightarrow> ActorRef" where
  "actor_ref E actor_type actor_name role tool session_id harness_id context_harness =
     (case resolve_pids E session_id context_harness of
        (pid, command_pid, pid_scope) \<Rightarrow>
          \<lparr>ar_actor_type = actor_type, ar_actor_name = actor_name, ar_tool = tool,
           ar_session_id = session_id, ar_host = Some (e_host E), ar_pid = pid,
           ar_actor_id = None, ar_role = role, ar_harness_id = harness_id,
           ar_command_pid = Some command_pid, ar_pid_scope = Some pid_scope\<rparr>)"

definition role_or_none :: "string option \<Rightarrow> error + ActorRole option" where
  "role_or_none role =
     (if is_set role then bindR (normalize_actor_role (the role)) (\<lambda>r. Inr (Some r)) else Inr None)"

definition auto_actor :: "env \<Rightarrow> actor_args \<Rightarrow> ActorRef" where
  "auto_actor E a =
     (let detected = (\<lambda>var. is_set (e_getenv E var));
          session = first_set (aq_session_id a) (e_getenv E ''TASKLEDGER_SESSION_ID'');
          agent = (\<lambda>tool. actor_ref E AT_agent tool None (Some tool) session None (aq_harness_id a))
      in if detected ''OPENCODE_VERSION'' then agent ''opencode''
         else if detected ''CODEX_VERSION'' then agent ''codex''
         else if detected ''PI_VERSION'' then agent ''pi''
         else if e_getenv E ''GITHUB_ACTIONS'' = Some ''true''
         then actor_ref E AT_system ''github-actions'' None (Some ''github-actions'')
           (first_set (aq_session_id a) (e_getenv E ''GITHUB_RUN_ID'')) None (aq_harness_id a)
         else if e_isatty E \<and> \<not> detected ''OPENCODE_VERSION'' \<and> \<not> detected ''CODEX_VERSION''
                 \<and> \<not> detected ''PI_VERSION'' \<and> \<not> detected ''GITHUB_ACTIONS''
         then actor_ref E AT_user (if e_user E = [] then ''user'' else e_user E) None None
           (aq_session_id a) None (aq_harness_id a)
         else actor_ref E AT_agent ''taskledger'' None (aq_tool a) (aq_session_id a) None
           (aq_harness_id a))"

definition resolve_actor :: "env \<Rightarrow> ledger option \<Rightarrow> actor_args \<Rightarrow> error + ActorRef" where
  "resolve_actor E workspace a =
     (let env_type = e_getenv E ''TASKLEDGER_ACTOR_TYPE'';
          env_name = e_getenv E ''TASKLEDGER_ACTOR_NAME''
      in if is_set (aq_actor_type a) \<and> is_set (aq_actor_name a)
         then bindR (normalize_actor_type (the (aq_actor_type a))) (\<lambda>type.
              bindR (role_or_none (aq_role a)) (\<lambda>role.
              Inr (actor_ref E type (the (aq_actor_name a)) role (aq_tool a) (aq_session_id a)
                (aq_harness_id a) (aq_harness_id a))))
         else if is_set env_type \<or> is_set env_name
         then bindR (normalize_actor_type
                (str_or (first_set env_type (aq_actor_type a)) ''agent'')) (\<lambda>type.
              bindR (role_or_none
                (first_set (e_getenv E ''TASKLEDGER_ACTOR_ROLE'') (aq_role a))) (\<lambda>role.
              let session = first_set (e_getenv E ''TASKLEDGER_SESSION_ID'') (aq_session_id a);
                  harness = first_set (aq_harness_id a) (e_getenv E ''TASKLEDGER_HARNESS'')
              in Inr (actor_ref E type (str_or (first_set env_name (aq_actor_name a)) ''taskledger'')
                role (aq_tool a) session harness harness)))
         else case workspace of
                None \<Rightarrow> Inr (auto_actor E a)
              | Some l \<Rightarrow>
                  (case l_actor l of
                     None \<Rightarrow> Inr (auto_actor E a)
                   | Some stored \<Rightarrow>
                       Inr (actor_ref E (xa_actor_type stored) (xa_actor_name stored)
                         (xa_role stored) (first_set (xa_tool stored) (aq_tool a))
                         (first_set (xa_session_id stored) (aq_session_id a))
                         (aq_harness_id a) (aq_harness_id a))))"

section \<open>Harnesses\<close>

record harness_args =
  hq_name :: "string option"
  hq_kind :: "string option"
  hq_session_id :: "string option"
  hq_cwd :: "string option"

definition harness_ref ::
  "env \<Rightarrow> string \<Rightarrow> HarnessKind \<Rightarrow> string option \<Rightarrow> string option \<Rightarrow> HarnessRef" where
  "harness_ref E name kind session_id cwd =
     \<lparr>hr_harness_id = next_project_id E ''harness'' [], hr_name = name, hr_kind = kind,
      hr_session_id = session_id, hr_working_directory = cwd, hr_command = None,
      hr_version = None, hr_capabilities = [], hr_created_at = e_now E,
      hr_schema_version = TASKLEDGER_SCHEMA_VERSION, hr_object_type = ''harness''\<rparr>"

definition auto_harness :: "env \<Rightarrow> harness_args \<Rightarrow> HarnessRef" where
  "auto_harness E a =
     (if is_set (e_getenv E ''OPENCODE_VERSION'')
      then harness_ref E ''opencode'' HK_agent_harness (hq_session_id a) None
      else if is_set (e_getenv E ''CODEX_VERSION'')
      then harness_ref E ''codex'' HK_agent_harness (hq_session_id a) None
      else if e_getenv E ''GITHUB_ACTIONS'' = Some ''true''
      then harness_ref E ''github-actions'' HK_ci
        (first_set (hq_session_id a) (e_getenv E ''GITHUB_RUN_ID'')) None
      else harness_ref E ''unknown'' HK_unknown (hq_session_id a) (hq_cwd a))"

definition resolve_harness :: "env \<Rightarrow> ledger option \<Rightarrow> harness_args \<Rightarrow> error + HarnessRef" where
  "resolve_harness E workspace a =
     (let env_harness = e_getenv E ''TASKLEDGER_HARNESS'';
          kind = normalize_harness_kind (str_or (hq_kind a) ''unknown'')
      in if is_set (hq_name a)
         then bindR kind (\<lambda>k.
              Inr (harness_ref E (the (hq_name a)) k (hq_session_id a) (hq_cwd a)))
         else if is_set env_harness
         then bindR kind (\<lambda>k.
              Inr (harness_ref E (the env_harness) k
                (first_set (hq_session_id a) (e_getenv E ''TASKLEDGER_SESSION_ID'')) (hq_cwd a)))
         else case workspace of
                None \<Rightarrow> Inr (auto_harness E a)
              | Some l \<Rightarrow>
                  (case l_harness l of
                     None \<Rightarrow> Inr (auto_harness E a)
                   | Some stored \<Rightarrow>
                       Inr (harness_ref E (xh_name stored) (xh_kind stored)
                         (first_set (xh_session_id stored) (hq_session_id a)) (hq_cwd a))))"

section \<open>The command line\<close>

record identity_options =
  io_actor :: "string option"
  io_actor_name :: "string option"
  io_actor_role :: "string option"
  io_harness :: "string option"
  io_session_id :: "string option"

definition resolve_cli_actor_harness ::
  "env \<Rightarrow> ledger option \<Rightarrow> identity_options \<Rightarrow> error + (ActorRef \<times> HarnessRef)" where
  "resolve_cli_actor_harness E workspace a =
     bindR (resolve_harness E workspace
       \<lparr>hq_name = io_harness a, hq_kind = None, hq_session_id = io_session_id a, hq_cwd = None\<rparr>)
       (\<lambda>harness.
     bindR (resolve_actor E workspace
       \<lparr>aq_actor_type = io_actor a, aq_actor_name = io_actor_name a, aq_role = io_actor_role a,
        aq_tool = None, aq_session_id = first_set (io_session_id a) (hr_session_id harness),
        aq_harness_id = Some (hr_harness_id harness)\<rparr>)
       (\<lambda>actor. Inr (actor, harness)))"

text \<open>\<open>actor set\<close>, \<open>actor clear\<close>, \<open>harness set\<close> and \<open>harness clear\<close>\<close>

definition actor_set ::
  "string \<Rightarrow> string \<Rightarrow> string option \<Rightarrow> string option \<Rightarrow> string option \<Rightarrow> ActiveActorState command" where
  "actor_set actor_type actor_name role tool session_id =
     bindE (liftE (normalize_actor_type actor_type)) (\<lambda>type.
     bindE (liftE (role_or_none role)) (\<lambda>normalized_role.
     let state = \<lparr>xa_actor_type = type, xa_actor_name = actor_name, xa_role = normalized_role,
           xa_tool = tool, xa_session_id = session_id,
           xa_schema_version = TASKLEDGER_SCHEMA_VERSION, xa_object_type = ''active_actor'',
           xa_file_version = TASKLEDGER_V2_FILE_VERSION\<rparr>
     in thenE (modifyE (save_actor_state (Some state))) (returnE state)))"

definition actor_clear :: "ActiveActorState option command" where
  "actor_clear =
     bindE (getsE l_actor) (\<lambda>cleared.
     thenE (modifyE (save_actor_state None)) (returnE cleared))"

definition harness_set ::
  "string \<Rightarrow> string option \<Rightarrow> string option \<Rightarrow> ActiveHarnessState command" where
  "harness_set name kind session_id =
     bindE (liftE (if is_set kind then normalize_harness_kind (the kind) else Inr HK_unknown)) (\<lambda>k.
     let state = \<lparr>xh_name = name, xh_kind = k, xh_session_id = session_id,
           xh_schema_version = TASKLEDGER_SCHEMA_VERSION, xh_object_type = ''active_harness'',
           xh_file_version = TASKLEDGER_V2_FILE_VERSION\<rparr>
     in thenE (modifyE (save_harness_state (Some state))) (returnE state))"

definition harness_clear :: "ActiveHarnessState option command" where
  "harness_clear =
     bindE (getsE l_harness) (\<lambda>cleared.
     thenE (modifyE (save_harness_state None)) (returnE cleared))"

section \<open>What a resolved actor says\<close>

text \<open>
  A recorded process id is one that belongs to the owner: the id that the environment names, or
  the command's own id outside every harness.
\<close>

definition pids_sound :: "env \<Rightarrow> ActorRef \<Rightarrow> bool" where
  "pids_sound E actor \<longleftrightarrow>
     ar_command_pid actor = Some (e_pid E) \<and> ar_host actor = Some (e_host E)
     \<and> (case ar_pid actor of
          None \<Rightarrow> ar_pid_scope actor = Some SP_unverifiable_harness \<and> owner_pid_from_env E = None
        | Some p \<Rightarrow>
            ar_pid_scope actor = Some SP_owner
            \<and> (owner_pid_from_env E = Some p
               \<or> owner_pid_from_env E = None \<and> p = e_pid E
                 \<and> \<not> is_harness_context E (ar_session_id actor) None))"

lemma actor_ref_sound: "pids_sound E (actor_ref E type name role tool session harness context)"
  by (auto simp: pids_sound_def actor_ref_def resolve_pids_def is_harness_context_def is_set_def
      split: option.splits)

lemma auto_actor_sound: "pids_sound E (auto_actor E a)"
  by (simp add: auto_actor_def Let_def actor_ref_sound)

lemma resolve_actor_sound: "resolve_actor E workspace a = Inr actor \<Longrightarrow> pids_sound E actor"
  by (auto simp: resolve_actor_def Let_def bindR_def actor_ref_sound auto_actor_sound
      split: if_splits sum.splits option.splits)

text \<open>With an explicit type and name nothing else is consulted for either.\<close>

lemma resolve_actor_explicit:
  assumes "resolve_actor E workspace a = Inr actor" "is_set (aq_actor_type a)"
    "is_set (aq_actor_name a)"
  shows "normalize_actor_type (the (aq_actor_type a)) = Inr (ar_actor_type actor)"
    and "aq_actor_name a = Some (ar_actor_name actor)"
  using assms
  by (auto simp: resolve_actor_def bindR_def actor_ref_def is_set_def split: sum.splits prod.splits)

lemma actor_ref_context:
  "owner_pid_from_env E = None \<Longrightarrow> is_set context \<Longrightarrow>
    ar_pid (actor_ref E type name role tool session harness context) = None"
  by (simp add: actor_ref_def resolve_pids_def is_harness_context_def)

lemma resolve_actor_harness:
  assumes "resolve_actor E workspace a = Inr actor" "owner_pid_from_env E = None"
    "is_set (aq_harness_id a)"
  shows "ar_pid actor = None"
  using assms
  by (auto simp: resolve_actor_def auto_actor_def Let_def bindR_def actor_ref_context first_set_def
      split: if_splits sum.splits option.splits)

lemma resolve_harness_id:
  "resolve_harness E workspace a = Inr h \<Longrightarrow> hr_harness_id h = next_project_id E ''harness'' []"
  by (auto simp: resolve_harness_def auto_harness_def harness_ref_def Let_def bindR_def
      split: if_splits sum.splits option.splits)

text \<open>
  The command line always passes a harness id on, so without an owner id in the environment a
  command never records a process id, not even one typed at a terminal.
\<close>

lemma cli_actor_no_pid:
  assumes "resolve_cli_actor_harness E workspace a = Inr (actor, h)" "owner_pid_from_env E = None"
    "next_project_id E ''harness'' [] \<noteq> []"
  shows "ar_pid actor = None"
  using assms resolve_actor_harness [OF _ assms(2)] resolve_harness_id
  by (fastforce simp: resolve_cli_actor_harness_def bindR_def is_set_def split: sum.splits)

end
