(* ===== verification/Reviews.thy ===== *)
theory Reviews
  imports Locks Actors
begin

text \<open>
  The configured worker pipeline of a task (\<open>services/worker_pipeline.py\<close>) and the code reviews
  that its review steps produce (\<open>services/code_review.py\<close>). Git is an argument: the result of
  each command line; so is the digest function.
\<close>

section \<open>The next worker step\<close>

definition HANDOFF_COMPLETION_STEP_KINDS :: "string list" where
  "HANDOFF_COMPLETION_STEP_KINDS = [''review'', ''custom'', ''check'']"

definition list_handoffs :: "string \<Rightarrow> ledger \<Rightarrow> TaskHandoffRecord list" where
  "list_handoffs task_id l =
     sort_key ho_created_at (map (\<lambda>(_, h). h\<lparr>ho_context_body := []\<rparr>) (l_handoffs l task_id))"

definition require_enabled_pipeline :: "env \<Rightarrow> error + WorkerPipelineConfig" where
  "require_enabled_pipeline E =
     (case e_pipeline E of
        None \<Rightarrow> Inl (launch_error ''no worker pipeline'')
      | Some pipeline \<Rightarrow>
          if \<not> pc_enabled pipeline then Inl (launch_error ''worker pipeline disabled'')
          else Inr pipeline)"

definition resolve_worker_pipeline_step ::
  "env \<Rightarrow> string \<Rightarrow> error + (WorkerPipelineConfig \<times> WorkerStepConfig)" where
  "resolve_worker_pipeline_step E step_id =
     bindR (require_enabled_pipeline E) (\<lambda>pipeline.
     bindR (resolve_step pipeline step_id) (\<lambda>step. Inr (pipeline, step)))"

definition first_step_for_stage :: "WorkerPipelineConfig \<Rightarrow> string \<Rightarrow> WorkerStepConfig option" where
  "first_step_for_stage pipeline stage = find (\<lambda>s. ws_lifecycle_stage s = stage) (pc_steps pipeline)"

definition first_matching_step ::
  "WorkerPipelineConfig \<Rightarrow> string list \<Rightarrow> WorkerStepConfig option" where
  "first_matching_step pipeline ids = find (\<lambda>s. ws_id s \<in> set ids) (pc_steps pipeline)"

definition latest_run :: "TaskRunRecord list \<Rightarrow> RunType \<Rightarrow> TaskRunRecord option" where
  "latest_run runs run_type =
     (case filter (\<lambda>r. rn_run_type r = run_type) runs of
        [] \<Rightarrow> None | x # xs \<Rightarrow> Some (last (x # xs)))"

text \<open>A worker step id that is not blank\<close>

definition named_step :: "string option \<Rightarrow> bool" where
  "named_step v \<longleftrightarrow> (case v of None \<Rightarrow> False | Some s \<Rightarrow> strip s \<noteq> [])"

definition open_worker_todo_step_ids :: "string \<Rightarrow> ledger \<Rightarrow> string list" where
  "open_worker_todo_step_ids task_id l =
     map (\<lambda>t. the (td_worker_step_id t))
       (filter (\<lambda>t. \<not> td_done t \<and> named_step (td_worker_step_id t)) (load_todos task_id l))"

definition closed_worker_handoff_step_ids :: "string \<Rightarrow> ledger \<Rightarrow> string list" where
  "closed_worker_handoff_step_ids task_id l =
     map (\<lambda>h. the (ho_worker_step_id h))
       (filter (\<lambda>h. is_set (ho_worker_step_id h) \<and> ho_status h = HS_closed
           \<and> named_step (ho_worker_step_id h)) (list_handoffs task_id l))"

definition completed_worker_review_step_ids :: "string \<Rightarrow> ledger \<Rightarrow> string list" where
  "completed_worker_review_step_ids task_id l =
     closed_worker_handoff_step_ids task_id l
     @ map (\<lambda>r. the (cv_worker_step_id r))
         (filter (\<lambda>r. is_set (cv_worker_step_id r) \<and> cv_result r = RR_pass)
           (list_code_reviews task_id l))"

definition first_pending_review_step ::
  "WorkerPipelineConfig \<Rightarrow> string list \<Rightarrow> WorkerStepConfig option" where
  "first_pending_review_step pipeline completed =
     find (\<lambda>s. ws_lifecycle_stage s = ''review'' \<and> ws_kind s \<in> set HANDOFF_COMPLETION_STEP_KINDS
         \<and> ws_id s \<notin> set completed) (pc_steps pipeline)"

definition determine_next_worker_step ::
  "TaskRecord \<Rightarrow> WorkerPipelineConfig \<Rightarrow> ledger \<Rightarrow> WorkerStepConfig option" where
  "determine_next_worker_step task pipeline l =
     (if tk_accepted_plan_version task = None then first_step_for_stage pipeline ''planning''
      else let open_ids = open_worker_todo_step_ids (tk_id task) l;
               reviewable = tk_status_stage task \<in> {S_implemented, S_validating, S_failed_validation}
           in if open_ids \<noteq> [] then first_matching_step pipeline open_ids
              else case (if reviewable \<and> latest_run (list_runs (tk_id task) l) RT_validation = None
                         then first_pending_review_step pipeline
                                (completed_worker_review_step_ids (tk_id task) l)
                         else None) of
                     Some step \<Rightarrow> Some step
                   | None \<Rightarrow>
                       if reviewable then first_step_for_stage pipeline ''validation'' else None)"

record pipeline_status =
  pw_configured :: bool
  pw_enabled :: bool
  pw_message :: string
  pw_pipeline :: "WorkerPipelineConfig option"

definition worker_pipeline_status :: "env \<Rightarrow> pipeline_status" where
  "worker_pipeline_status E =
     (case e_pipeline E of
        None \<Rightarrow> \<lparr>pw_configured = False, pw_enabled = False,
          pw_message = ''No worker pipeline configured.'', pw_pipeline = None\<rparr>
      | Some pipeline \<Rightarrow>
          if \<not> pc_enabled pipeline
          then \<lparr>pw_configured = True, pw_enabled = False,
            pw_message = ''Worker pipeline is disabled.'', pw_pipeline = Some pipeline\<rparr>
          else \<lparr>pw_configured = True, pw_enabled = True,
            pw_message = ''Worker pipeline is enabled.'', pw_pipeline = Some pipeline\<rparr>)"

definition worker_pipeline_next_reason :: "TaskRecord \<Rightarrow> WorkerStepConfig option \<Rightarrow> string" where
  "worker_pipeline_next_reason task step =
     (case step of
        None \<Rightarrow> ''No configured worker step is pending for task stage ''
          @ stage_str (tk_status_stage task) @ ''.''
      | Some s \<Rightarrow>
          if tk_accepted_plan_version task = None then ''No accepted plan exists yet.''
          else ''Next configured worker step is '' @ ws_id s @ ''.'')"

record pipeline_next =
  pn_task_id :: "string option"
  pn_step :: "WorkerStepConfig option"
  pn_reason :: string

definition worker_pipeline_next :: "env \<Rightarrow> string \<Rightarrow> ledger \<Rightarrow> error + pipeline_next" where
  "worker_pipeline_next E task_ref l =
     (let status = worker_pipeline_status E
      in if \<not> pw_configured status \<or> \<not> pw_enabled status
         then Inr \<lparr>pn_task_id = None, pn_step = None, pn_reason = pw_message status\<rparr>
         else bindR (require_enabled_pipeline E) (\<lambda>pipeline.
              bindR (resolve_task E False task_ref l) (\<lambda>task.
              let step = determine_next_worker_step task pipeline l
              in Inr \<lparr>pn_task_id = Some (tk_id task), pn_step = step,
                   pn_reason = worker_pipeline_next_reason task step\<rparr>)))"

section \<open>Git metadata\<close>

record git_result =
  gr_returncode :: int
  gr_stdout :: string

type_synonym git = "string list \<Rightarrow> git_result"

record review_metadata =
  rm_branch :: "string option"
  rm_commit :: "string option"
  rm_status_short :: "string option"
  rm_diff_stat :: "string option"
  rm_staged_diff_stat :: "string option"
  rm_changed_paths :: "string list"
  rm_diff_hash :: "string option"

definition git_text :: "git \<Rightarrow> string \<Rightarrow> string list \<Rightarrow> error + string" where
  "git_text git message argv =
     (if gr_returncode (git argv) = 0 then Inr (gr_stdout (git argv))
      else Inl (launch_error message))"

definition ensure_git_workspace :: "git \<Rightarrow> error + unit" where
  "ensure_git_workspace git =
     (let result = git [''git'', ''rev-parse'', ''--is-inside-work-tree'']
      in if gr_returncode result \<noteq> 0 \<or> strip (gr_stdout result) \<noteq> ''true''
         then Inl (launch_error ''git workspace required'') else Inr ())"

fun dedupe_aux :: "string list \<Rightarrow> string list \<Rightarrow> string list" where
  "dedupe_aux seen [] = []"
| "dedupe_aux seen (item # items) =
     (let stripped = strip item
      in if stripped = [] \<or> stripped \<in> set seen then dedupe_aux seen items
         else stripped # dedupe_aux (stripped # seen) items)"

definition dedupe_preserving_order :: "string list \<Rightarrow> string list" where
  "dedupe_preserving_order items = dedupe_aux [] items"

definition none_if_empty :: "string \<Rightarrow> string option" where
  "none_if_empty s = (if s = [] then None else Some s)"

definition branch_or_detached :: "string \<Rightarrow> string option" where
  "branch_or_detached branch = Some (if branch = [] then ''(detached)'' else branch)"

definition collect_working_tree_metadata ::
  "git \<Rightarrow> (string \<Rightarrow> string) \<Rightarrow> error + review_metadata" where
  "collect_working_tree_metadata git sha256 =
     bindR (ensure_git_workspace git) (\<lambda>_.
     let text = git_text git ''git workspace required'' in
     bindR (text [''git'', ''branch'', ''--show-current'']) (\<lambda>branch.
     bindR (text [''git'', ''status'', ''--short'']) (\<lambda>status.
     bindR (text [''git'', ''diff'', ''--stat'']) (\<lambda>diff_stat.
     bindR (text [''git'', ''diff'', ''--cached'', ''--stat'']) (\<lambda>staged_stat.
     bindR (text [''git'', ''diff'', ''--name-only'']) (\<lambda>unstaged_paths.
     bindR (text [''git'', ''diff'', ''--cached'', ''--name-only'']) (\<lambda>staged_paths.
     bindR (text [''git'', ''diff'', ''--binary'']) (\<lambda>unstaged_binary.
     bindR (text [''git'', ''diff'', ''--cached'', ''--binary'']) (\<lambda>staged_binary.
     Inr \<lparr>rm_branch = branch_or_detached (strip branch), rm_commit = None,
       rm_status_short = none_if_empty (strip status),
       rm_diff_stat = none_if_empty (strip diff_stat),
       rm_staged_diff_stat = none_if_empty (strip staged_stat),
       rm_changed_paths =
         dedupe_preserving_order (splitlines unstaged_paths @ splitlines staged_paths),
       rm_diff_hash = Some (''sha256:'' @ sha256 (unstaged_binary
         @ [CHR 0x0A] @ ''---STAGED---'' @ [CHR 0x0A] @ staged_binary))\<rparr>)))))))))"

definition collect_commit_metadata ::
  "git \<Rightarrow> (string \<Rightarrow> string) \<Rightarrow> string \<Rightarrow> error + review_metadata" where
  "collect_commit_metadata git sha256 commit =
     bindR (ensure_git_workspace git) (\<lambda>_.
     bindR (git_text git ''git commit not found''
       [''git'', ''rev-parse'', ''--verify'', commit @ ''^{commit}'']) (\<lambda>out.
     let resolved = strip out; text = git_text git ''git workspace required''
     in if resolved = [] then Inl (launch_error ''git commit not found'')
        else bindR (text [''git'', ''show'', ''--stat'', ''--format=fuller'', ''--no-ext-diff'',
                          ''--no-color'', resolved]) (\<lambda>show_out.
             bindR (text [''git'', ''diff-tree'', ''--root'', ''--no-commit-id'', ''--name-only'',
                          ''-r'', resolved]) (\<lambda>paths.
             bindR (text [''git'', ''branch'', ''--show-current'']) (\<lambda>branch.
             Inr \<lparr>rm_branch = branch_or_detached (strip branch), rm_commit = Some resolved,
               rm_status_short = None, rm_diff_stat = none_if_empty (strip show_out),
               rm_staged_diff_stat = None,
               rm_changed_paths = dedupe_preserving_order (splitlines paths),
               rm_diff_hash = Some (''sha256:'' @ sha256 (strip show_out))\<rparr>)))))"

definition resolve_git_metadata ::
  "git \<Rightarrow> (string \<Rightarrow> string) \<Rightarrow> ReviewSource \<Rightarrow> string option \<Rightarrow> error + review_metadata" where
  "resolve_git_metadata git sha256 source commit =
     (case source of
        RV_manual \<Rightarrow>
          Inr \<lparr>rm_branch = None, rm_commit = None, rm_status_short = None, rm_diff_stat = None,
            rm_staged_diff_stat = None, rm_changed_paths = [], rm_diff_hash = None\<rparr>
      | RV_working_tree \<Rightarrow> collect_working_tree_metadata git sha256
      | RV_commit \<Rightarrow>
          (case commit of
             None \<Rightarrow> Inl (launch_error ''commit source without commit'')
           | Some c \<Rightarrow> collect_commit_metadata git sha256 c))"

section \<open>Recording a review\<close>

definition ALLOWED_REVIEW_STAGES :: "TaskStatusStage list" where
  "ALLOWED_REVIEW_STAGES =
     [S_implementing, S_implemented, S_validating, S_failed_validation, S_done]"

definition ALLOWED_WORKER_REVIEW_CONTEXTS :: "string list" where
  "ALLOWED_WORKER_REVIEW_CONTEXTS = [''code-reviewer'', ''reviewer'', ''spec-reviewer'']"

record review_args =
  vw_result :: string
  vw_body :: string
  vw_summary :: "string option"
  vw_from_git :: bool
  vw_commit :: "string option"
  vw_run_id :: "string option"
  vw_worker_step_id :: "string option"
  vw_handoff_id :: "string option"
  vw_actor :: "ActorRef option"
  vw_harness :: "HarnessRef option"

definition normalize_review_result :: "string \<Rightarrow> error + ReviewResult" where
  "normalize_review_result value =
     (case enum_value review_result_names (lower (strip value)) of
        Some r \<Rightarrow> Inr r
      | None \<Rightarrow> Inl (cli_error ''review result'' EXIT_CODE_BAD_INPUT))"

definition resolve_review_source :: "bool \<Rightarrow> string option \<Rightarrow> error + ReviewSource" where
  "resolve_review_source from_git commit =
     (case commit of
        Some c \<Rightarrow> if strip c = [] then Inl (cli_error ''empty commit'' EXIT_CODE_BAD_INPUT)
                  else Inr RV_commit
      | None \<Rightarrow> Inr (if from_git then RV_working_tree else RV_manual))"

definition validate_review_step :: "env \<Rightarrow> string \<Rightarrow> error + unit" where
  "validate_review_step E worker_step_id =
     bindR (resolve_worker_pipeline_step E worker_step_id) (\<lambda>(_, step).
     if ws_lifecycle_stage step \<noteq> ''review''
     then Inl (cli_error ''worker step stage'' EXIT_CODE_INVALID_TRANSITION)
     else if ws_base_context step \<notin> set ALLOWED_WORKER_REVIEW_CONTEXTS
     then Inl (cli_error ''worker step context'' EXIT_CODE_BAD_INPUT)
     else Inr ())"

definition validate_handoff ::
  "env \<Rightarrow> string \<Rightarrow> string \<Rightarrow> string option \<Rightarrow> ledger \<Rightarrow> error + unit" where
  "validate_handoff E task_id handoff_id worker_step_id l =
     bindR (resolve_handoff E task_id handoff_id l) (\<lambda>handoff.
     if ho_task_id handoff \<noteq> task_id
     then Inl (cli_error ''handoff task'' EXIT_CODE_BAD_INPUT)
     else if worker_step_id \<noteq> None \<and> ho_worker_step_id handoff \<noteq> None
             \<and> ho_worker_step_id handoff \<noteq> worker_step_id
     then Inl (cli_error ''handoff worker step'' EXIT_CODE_BAD_INPUT)
     else Inr ())"

definition normalize_summary :: "string option \<Rightarrow> string \<Rightarrow> string option" where
  "normalize_summary summary body =
     (case summary of
        Some s \<Rightarrow> if strip s \<noteq> [] then summary_line (Some (strip s)) else
          (case find (\<lambda>x. x \<noteq> []) (map strip (splitlines body)) of
             None \<Rightarrow> None | Some first_line \<Rightarrow> summary_line (Some first_line))
      | None \<Rightarrow>
          (case find (\<lambda>x. x \<noteq> []) (map strip (splitlines body)) of
             None \<Rightarrow> None | Some first_line \<Rightarrow> summary_line (Some first_line)))"

definition new_review ::
  "env \<Rightarrow> string \<Rightarrow> TaskRecord \<Rightarrow> TaskRunRecord \<Rightarrow> ReviewResult \<Rightarrow> ReviewSource
    \<Rightarrow> review_metadata \<Rightarrow> review_args \<Rightarrow> CodeReviewRecord" where
  "new_review E review_id task run result source meta a =
     \<lparr>cv_review_id = review_id, cv_task_id = tk_id task,
      cv_implementation_run = Some (rn_run_id run), cv_reviewed_at = e_now E,
      cv_result = result, cv_source = source, cv_body = strip (vw_body a),
      cv_summary = normalize_summary (vw_summary a) (vw_body a),
      cv_reviewer = actor_or E (vw_actor a),
      cv_harness = Some (case vw_harness a of Some h \<Rightarrow> h | None \<Rightarrow> default_harness E),
      cv_worker_step_id = vw_worker_step_id a, cv_handoff_id = vw_handoff_id a,
      cv_git_branch = rm_branch meta, cv_git_commit = rm_commit meta,
      cv_git_status_short = rm_status_short meta, cv_git_diff_stat = rm_diff_stat meta,
      cv_git_staged_diff_stat = rm_staged_diff_stat meta,
      cv_git_changed_paths = rm_changed_paths meta, cv_git_diff_hash = rm_diff_hash meta,
      cv_artifact_refs = [], cv_file_version = TASKLEDGER_V2_FILE_VERSION,
      cv_schema_version = TASKLEDGER_SCHEMA_VERSION, cv_object_type = ''code_review''\<rparr>"

definition record_code_review ::
  "env \<Rightarrow> git \<Rightarrow> (string \<Rightarrow> string) \<Rightarrow> string \<Rightarrow> review_args \<Rightarrow> CodeReviewRecord command" where
  "record_code_review E git sha256 task_ref a =
     bindE (readE (resolve_task E False task_ref)) (\<lambda>task.
     thenE (ensure_not_archived task)
     (thenE (guardE (tk_status_stage task \<in> set ALLOWED_REVIEW_STAGES)
        (cli_error ''review stage'' EXIT_CODE_INVALID_TRANSITION))
     (thenE (guardE (strip (vw_body a) \<noteq> []) (cli_error ''review body'' EXIT_CODE_BAD_INPUT))
     (let effective = first_set (vw_run_id a) (tk_latest_implementation_run task)
      in thenE (guardE (effective \<noteq> None) (cli_error ''review run'' EXIT_CODE_MISSING))
     (bindE (readE (resolve_run E (tk_id task) (the effective))) (\<lambda>run.
      thenE (guardE (rn_run_type run = RT_implementation)
        (cli_error ''review run type'' EXIT_CODE_INVALID_TRANSITION))
     (bindE (liftE (normalize_review_result (vw_result a))) (\<lambda>result.
      bindE (liftE (resolve_review_source (vw_from_git a) (vw_commit a))) (\<lambda>source.
      thenE (whenE (is_set (vw_worker_step_id a))
        (liftE (validate_review_step E (the (vw_worker_step_id a)))))
     (thenE (whenE (is_set (vw_handoff_id a))
        (readE (validate_handoff E (tk_id task) (the (vw_handoff_id a)) (vw_worker_step_id a))))
     (bindE (liftE (resolve_git_metadata git sha256 source (vw_commit a))) (\<lambda>meta.
      bindE (getsE (list_code_reviews (tk_id task))) (\<lambda>existing.
      let review = new_review E (next_project_id E ''review'' (map cv_review_id existing))
            task run result source meta a
      in thenE (modifyE (save_code_review review))
        (thenE (modifyE (save_task (task\<lparr>tk_updated_at := e_now E\<rparr>)))
        (thenE (modifyE (append_event E (tk_id task) ''code_review.recorded''
           [(''review_id'', PStr (cv_review_id review)),
            (''result'', PStr (enum_name review_result_names (cv_result review))),
            (''source'', PStr (enum_name review_source_names (cv_source review))),
            (''worker_step_id'', opt_str (cv_worker_step_id review)),
            (''git_commit'', opt_str (cv_git_commit review))]))
          (returnE review))))))))))))))))"

definition list_code_review_records ::
  "env \<Rightarrow> string \<Rightarrow> CodeReviewRecord list command" where
  "list_code_review_records E task_ref =
     bindE (readE (resolve_task E False task_ref)) (\<lambda>task.
     thenE (ensure_not_archived task) (getsE (list_code_reviews (tk_id task))))"

definition show_code_review :: "env \<Rightarrow> string \<Rightarrow> string \<Rightarrow> CodeReviewRecord command" where
  "show_code_review E task_ref review_ref =
     bindE (readE (resolve_task E False task_ref)) (\<lambda>task.
     thenE (ensure_not_archived task) (readE (resolve_code_review E (tk_id task) review_ref)))"

section \<open>Facts\<close>

lemma dedupe_aux_distinct:
  "distinct (dedupe_aux seen items) \<and> set (dedupe_aux seen items) \<inter> set seen = {}"
  by (induction seen items rule: dedupe_aux.induct) (auto simp: Let_def)

lemma dedupe_aux_set: "set (dedupe_aux seen items) = strip ` set items - set seen - {[]}"
  by (induction seen items rule: dedupe_aux.induct) (auto simp: Let_def)

lemma saved_review_listed:
  "startswith (cv_review_id r) ''review-'' \<Longrightarrow> cv_task_id r = t
    \<Longrightarrow> persist_review r \<in> set (list_code_reviews t (save_code_review r l))"
  by (auto simp: list_code_reviews_def save_code_review_def dir_glob_mem dir_get_put intro!: exI dir_get_mem)

lemma list_code_reviews_frame [simp]:
  "list_code_reviews t (save_task u l) = list_code_reviews t l"
  "list_code_reviews t (append_event E i n d l) = list_code_reviews t l"
  by (simp_all add: list_code_reviews_def save_task_def append_event_def append_event_as_def Let_def)

lemma review_completes_step:
  assumes "cv_task_id r = t" "cv_result r = RR_pass" "cv_worker_step_id r = Some s" "s \<noteq> []"
    "startswith (cv_review_id r) ''review-''" "list_code_reviews t l' = list_code_reviews t (save_code_review r l)"
  shows "s \<in> set (completed_worker_review_step_ids t l')"
  using saved_review_listed [OF assms(5,1), of l] assms
  by (force simp: completed_worker_review_step_ids_def is_set_def persist_review_def)

lemma record_code_review_inv: "keeps run_inv (record_code_review E git sha256 task_ref a)"
  unfolding record_code_review_def Let_def
  by (intro keepsI wp_intro) (auto intro!: run_inv_save_task)

end
