(* ===== verification/Releases.thy ===== *)
theory Releases
  imports Actors Locks
begin

text \<open>
  Releases (\<open>taskledger/services/releases.py\<close>): a version names a finished task as its boundary
  and counts the tasks that were finished since the release before it.
\<close>

section \<open>Task numbers\<close>

text \<open>\<open>re.fullmatch(r"task-(\<backslash>d+)", task_id)\<close>\<close>

definition task_number :: "string \<Rightarrow> error + nat" where
  "task_number task_id =
     (let digits = removeprefix task_id ''task-''
      in if startswith task_id ''task-'' \<and> isdigit digits then Inr (digits_nat digits)
         else Inl (launch_error ''numeric task id required''))"

text \<open>The number of a release's boundary, paired with the release\<close>

definition numbered_release :: "ReleaseRecord \<Rightarrow> error + (nat \<times> ReleaseRecord)" where
  "numbered_release r = bindR (task_number (rl_boundary_task_id r)) (\<lambda>n. Inr (n, r))"

text \<open>\<open>max(candidates, key=...)\<close> returns the first of several largest.\<close>

definition first_max :: "(nat \<times> 'a) list \<Rightarrow> (nat \<times> 'a) option" where
  "first_max xs =
     (case xs of [] \<Rightarrow> None
      | x # rest \<Rightarrow> Some (foldl (\<lambda>b y. if fst y > fst b then y else b) x rest))"

definition resolve_previous_release ::
  "ReleaseRecord list \<Rightarrow> nat \<Rightarrow> string option \<Rightarrow> error + ReleaseRecord option" where
  "resolve_previous_release releases boundary_number explicit =
     (case explicit of
        Some v \<Rightarrow>
          (case find (\<lambda>r. rl_version r = v) releases of
             None \<Rightarrow> Inl (launch_error ''release not found'')
           | Some r \<Rightarrow>
               bindR (task_number (rl_boundary_task_id r)) (\<lambda>n.
               if n \<ge> boundary_number then Inl (launch_error ''previous release not before'')
               else Inr (Some r)))
      | None \<Rightarrow>
          bindR (mapR numbered_release releases) (\<lambda>numbered.
          Inr (map_option snd (first_max (filter (\<lambda>(n, _). n < boundary_number) numbered)))))"

definition count_done_tasks_between ::
  "string option \<Rightarrow> string \<Rightarrow> ledger \<Rightarrow> error + nat" where
  "count_done_tasks_between lower_task_id upper_task_id l =
     bindR (case lower_task_id of Some i \<Rightarrow> task_number i | None \<Rightarrow> Inr 0) (\<lambda>lower.
     bindR (task_number upper_task_id) (\<lambda>upper.
     bindR (mapR (\<lambda>t. task_number (tk_id t))
         (filter (\<lambda>t. tk_status_stage t = S_done) (list_tasks l))) (\<lambda>numbers.
     Inr (length (filter (\<lambda>n. lower < n \<and> n \<le> upper) numbers)))))"

section \<open>Tagging\<close>

record tag_args =
  tg_version :: string
  tg_at_task :: string
  tg_note :: "string option"
  tg_previous_version :: "string option"
  tg_actor :: "ActorRef option"

definition no_actor_args :: actor_args where
  "no_actor_args = \<lparr>aq_actor_type = None, aq_actor_name = None, aq_role = None, aq_tool = None,
     aq_session_id = None, aq_harness_id = None\<rparr>"

definition append_release_event :: "env \<Rightarrow> string \<Rightarrow> string \<Rightarrow> pydict \<Rightarrow> unit command" where
  "append_release_event E task_id event_name data =
     (if \<not> e_event_logging E then returnE ()
      else bindE (readE (\<lambda>l. resolve_actor E (Some l) no_actor_args)) (\<lambda>actor.
           bindE (readE (\<lambda>l. resolve_harness E (Some l)
             \<lparr>hq_name = None, hq_kind = None, hq_session_id = None, hq_cwd = Some (e_root E)\<rparr>))
             (\<lambda>harness.
           modifyE (append_event_as E actor harness task_id event_name data))))"

record release_payload =
  rp_release :: ReleaseRecord
  rp_boundary_task :: TaskRecord

definition new_release ::
  "env \<Rightarrow> tag_args \<Rightarrow> string \<Rightarrow> ActorRef \<Rightarrow> nat \<Rightarrow> ReleaseRecord option \<Rightarrow> ReleaseRecord" where
  "new_release E a boundary actor task_count previous =
     \<lparr>rl_version = tg_version a, rl_boundary_task_id = boundary, rl_created_at = e_now E,
      rl_created_by = actor, rl_note = tg_note a,
      rl_task_count = (if previous \<noteq> None then Some (int task_count) else None),
      rl_previous_version = map_option rl_version previous,
      rl_file_version = TASKLEDGER_V2_FILE_VERSION,
      rl_schema_version = TASKLEDGER_SCHEMA_VERSION, rl_object_type = ''release''\<rparr>"

definition tag_release :: "env \<Rightarrow> tag_args \<Rightarrow> release_payload command" where
  "tag_release E a =
     bindE (readE (resolve_task E False (tg_at_task a))) (\<lambda>task.
     thenE (guardE (tk_status_stage task = S_done) (launch_error ''boundary not done''))
     (bindE (getsE (list_releases E)) (\<lambda>existing.
      thenE (guardE (tg_version a \<notin> rl_version ` set existing)
        (launch_error ''release version exists''))
     (bindE (liftE (task_number (tk_id task))) (\<lambda>boundary_number.
      bindE (liftE (resolve_previous_release existing boundary_number (tg_previous_version a)))
        (\<lambda>previous.
      bindE (case tg_actor a of
          Some actor \<Rightarrow> returnE actor
        | None \<Rightarrow> readE (\<lambda>l. resolve_actor E (Some l) no_actor_args)) (\<lambda>actor.
      bindE (readE (count_done_tasks_between (map_option rl_boundary_task_id previous) (tk_id task)))
        (\<lambda>task_count.
      let release = new_release E a (tk_id task) actor task_count previous
      in thenE (save_release release)
        (thenE (append_release_event E (tk_id task) ''release.tagged''
           [(''version'', PStr (rl_version release)),
            (''boundary_task_id'', PStr (rl_boundary_task_id release)),
            (''note'', opt_str (rl_note release)),
            (''previous_version'', opt_str (rl_previous_version release))])
          (returnE \<lparr>rp_release = release, rp_boundary_task = task\<rparr>))))))))))"

definition show_release :: "env \<Rightarrow> string \<Rightarrow> ledger \<Rightarrow> error + release_payload" where
  "show_release E version l =
     bindR (resolve_release version l) (\<lambda>release.
     bindR (resolve_task E False (rl_boundary_task_id release) l) (\<lambda>task.
     Inr \<lparr>rp_release = release, rp_boundary_task = task\<rparr>))"

section \<open>What a tag says\<close>

lemma first_max_spec:
  "case first_max xs of
     None \<Rightarrow> xs = []
   | Some m \<Rightarrow> m \<in> set xs \<and> list_all (\<lambda>y. fst y \<le> fst m) xs"
proof -
  have fold: "foldl (\<lambda>b y. if fst y > fst b then y else b) x ys \<in> insert x (set ys)
      \<and> list_all (\<lambda>y. fst y \<le> fst (foldl (\<lambda>b y. if fst y > fst b then y else b) x ys)) (x # ys)"
    for x :: "nat \<times> 'a" and ys
  proof (induction ys arbitrary: x)
    case (Cons a ys)
    show ?case using Cons.IH [of a] Cons.IH [of x] by (auto simp: list_all_iff)
  qed simp
  show ?thesis
    using fold by (auto simp: first_max_def split: list.splits)
qed

text \<open>
  The release before a boundary: the one with the largest boundary number below it; and the tasks
  done between two boundaries.
\<close>

definition latest_before :: "ReleaseRecord list \<Rightarrow> nat \<Rightarrow> ReleaseRecord option \<Rightarrow> bool" where
  "latest_before existing n previous \<longleftrightarrow>
     (case previous of
        None \<Rightarrow> list_all (\<lambda>r. \<exists>m. task_number (rl_boundary_task_id r) = Inr m \<and> n \<le> m) existing
      | Some p \<Rightarrow> p \<in> set existing
          \<and> (\<exists>k. task_number (rl_boundary_task_id p) = Inr k \<and> k < n
               \<and> list_all (\<lambda>r. \<exists>m. task_number (rl_boundary_task_id r) = Inr m \<and> (m \<le> k \<or> n \<le> m)) existing))"

lemma numbered_releases:
  "mapR numbered_release rs = Inr ns \<Longrightarrow>
    map snd ns = rs \<and> list_all (\<lambda>(m, r). task_number (rl_boundary_task_id r) = Inr m) ns"
  by (induction rs arbitrary: ns) (auto simp: numbered_release_def bindR_def split: sum.splits)

lemma resolve_previous_latest:
  assumes "resolve_previous_release existing n None = Inr previous"
  shows "latest_before existing n previous"
proof -
  obtain ns where ns: "mapR numbered_release existing = Inr ns"
    "previous = map_option snd (first_max (filter (\<lambda>(m, _). m < n) ns))"
    using assms by (auto simp: resolve_previous_release_def bindR_def split: sum.splits)
  let ?below = "filter (\<lambda>(m, _). m < n) ns"
  have pairs: "task_number (rl_boundary_task_id r) = Inr m \<and> r \<in> set existing" if "(m, r) \<in> set ns" for m r
    using numbered_releases [OF ns(1)] that by (force simp: list_all_iff)
  have numbered: "\<exists>m. (m, r) \<in> set ns" if "r \<in> set existing" for r
    using that unfolding numbered_releases [OF ns(1), THEN conjunct1, symmetric] by auto
  show ?thesis
  proof (cases "first_max ?below")
    case None
    then have "n \<le> m" if "(m, r) \<in> set ns" for m r
      using first_max_spec [of ?below] that by (auto simp: filter_empty_conv not_less)
    then show ?thesis
      using pairs numbered by (auto simp: latest_before_def ns(2) None list_all_iff) blast
  next
    case (Some best)
    obtain k p where best: "best = (k, p)" by fastforce
    have top: "(k, p) \<in> set ns" "k < n"
      using first_max_spec [of ?below] by (auto simp: Some best)
    have "m \<le> k \<or> n \<le> m" if "(m, r) \<in> set ns" for m r
      using first_max_spec [of ?below] that by (auto simp: Some best list_all_iff not_le)
    then have "list_all (\<lambda>r. \<exists>m. task_number (rl_boundary_task_id r) = Inr m \<and> (m \<le> k \<or> n \<le> m)) existing"
      unfolding list_all_iff using pairs numbered by blast
    then show ?thesis
      using pairs [OF top(1)] top(2) by (simp add: latest_before_def ns(2) Some best)
  qed
qed

lemma resolve_previous_named:
  "resolve_previous_release existing n (Some v) = Inr previous \<Longrightarrow>
    \<exists>p k. previous = Some p \<and> p \<in> set existing \<and> rl_version p = v
      \<and> task_number (rl_boundary_task_id p) = Inr k \<and> k < n"
proof -
  assume found: "resolve_previous_release existing n (Some v) = Inr previous"
  then obtain p where p: "find (\<lambda>r. rl_version r = v) existing = Some p"
    by (auto simp: resolve_previous_release_def split: option.splits)
  from find_SomeD [OF p] found show ?thesis
    by (auto simp: resolve_previous_release_def p bindR_def split: sum.splits if_splits)
qed

definition done_between :: "nat \<Rightarrow> nat \<Rightarrow> TaskRecord \<Rightarrow> bool" where
  "done_between lo up t \<longleftrightarrow> tk_status_stage t = S_done
     \<and> (case task_number (tk_id t) of Inl _ \<Rightarrow> False | Inr n \<Rightarrow> lo < n \<and> n \<le> up)"

lemma count_numbers:
  "mapR (\<lambda>t. task_number (tk_id t)) (filter (\<lambda>t. tk_status_stage t = S_done) ts) = Inr ns \<Longrightarrow>
    length (filter (\<lambda>n. lo < n \<and> n \<le> up) ns) = length (filter (done_between lo up) ts)"
  by (induction ts arbitrary: ns) (auto simp: done_between_def bindR_def split: sum.splits if_splits)

lemma count_done_between:
  assumes "count_done_tasks_between before i l = Inr c"
  obtains lo up where "(case before of None \<Rightarrow> Inr 0 | Some j \<Rightarrow> task_number j) = Inr lo"
    "task_number i = Inr up" "c = length (filter (done_between lo up) (list_tasks l))"
  using assms count_numbers
  by (auto simp: count_done_tasks_between_def bindR_def split: sum.splits option.splits)


lemma released_stored:
  "wp (save_release r) (\<lambda>_ l'. resolve_release (rl_version r) l' = Inr r \<and> l_tasks l' = l_tasks l) (\<lambda>_ l'. l' = l) l"
  unfolding save_release_def
  by (intro wp_intro) (auto simp: resolve_release_def put_release_def dir.get_put bindR_def)

text \<open>What the stored record says of its boundary.\<close>

definition release_says :: "env \<Rightarrow> tag_args \<Rightarrow> ledger \<Rightarrow> TaskRecord \<Rightarrow> ReleaseRecord \<Rightarrow> bool" where
  "release_says E a l task r \<longleftrightarrow>
     (\<exists>n previous. task_number (tk_id task) = Inr n
       \<and> rl_previous_version r = map_option rl_version previous
       \<and> (case tg_previous_version a of
            None \<Rightarrow> latest_before (list_releases E l) n previous
          | Some v \<Rightarrow> (\<exists>p k. previous = Some p \<and> p \<in> set (list_releases E l) \<and> rl_version p = v
              \<and> task_number (rl_boundary_task_id p) = Inr k \<and> k < n))
       \<and> (case previous of
            None \<Rightarrow> rl_task_count r = None
          | Some p \<Rightarrow> (\<exists>k. task_number (rl_boundary_task_id p) = Inr k
              \<and> rl_task_count r = Some (int (length (filter (done_between k n) (list_tasks l)))))))"

lemma resolve_release_event [simp]: "resolve_release v (append_event_as E ac h i n d l) = resolve_release v l"
  by (simp add: resolve_release_def append_event_as_def Let_def)

lemma new_release_simps [simp]:
  "rl_version (new_release E a i actor c previous) = tg_version a"
  "rl_boundary_task_id (new_release E a i actor c previous) = i"
  by (simp_all add: new_release_def)

lemma new_release_says:
  assumes "task_number (tk_id task) = Inr n"
    "resolve_previous_release (list_releases E l) n (tg_previous_version a) = Inr previous"
    "count_done_tasks_between (map_option rl_boundary_task_id previous) (tk_id task) l = Inr c"
  shows "release_says E a l task (new_release E a (tk_id task) actor c previous)"
proof -
  have "case previous of
      None \<Rightarrow> rl_task_count (new_release E a (tk_id task) actor c previous) = None
    | Some p \<Rightarrow> (\<exists>k. task_number (rl_boundary_task_id p) = Inr k
        \<and> rl_task_count (new_release E a (tk_id task) actor c previous)
            = Some (int (length (filter (done_between k n) (list_tasks l)))))"
  proof -
    obtain lo up where "(case map_option rl_boundary_task_id previous of None \<Rightarrow> Inr 0 | Some j \<Rightarrow> task_number j) = Inr lo"
      "task_number (tk_id task) = Inr up" "c = length (filter (done_between lo up) (list_tasks l))"
      by (rule count_done_between [OF assms(3)])
    with assms(1) show ?thesis by (auto simp: new_release_def split: option.split)
  qed
  moreover have "case tg_previous_version a of
      None \<Rightarrow> latest_before (list_releases E l) n previous
    | Some v \<Rightarrow> (\<exists>p k. previous = Some p \<and> p \<in> set (list_releases E l) \<and> rl_version p = v
        \<and> task_number (rl_boundary_task_id p) = Inr k \<and> k < n)"
    using assms(2) resolve_previous_latest resolve_previous_named by (auto split: option.split)
  ultimately show ?thesis
    unfolding release_says_def using assms(1) by (auto simp: new_release_def)
qed

section \<open>The run invariant\<close>

lemma save_release_inv: "keeps run_inv (save_release r)"
  unfolding save_release_def by (intro keepsI wp_intro) auto

lemma append_release_event_inv: "keeps run_inv (append_release_event E task_id event_name data)"
  unfolding append_release_event_def by (intro keepsI wp_intro) auto

lemma tag_release_inv: "keeps run_inv (tag_release E a)"
  unfolding tag_release_def Let_def
  by (intro keepsI wp_intro wp_keeps [OF save_release_inv] wp_keeps [OF append_release_event_inv])
    (auto split: option.splits intro!: wp_intro)

end
