(* ===== verification/Repair.thy ===== *)
theory Repair
  imports Locks
begin

text \<open>
  Repairs of a task's records (\<open>taskledger/services/task_repair.py\<close>): an inspection that only
  logs, the end of a planning run that lost its lock, and the move of shell commands that were
  recorded as code changes during planning into the worklog of the planning run.
\<close>

section \<open>Inspection\<close>

definition recovery_commands ::
  "env \<Rightarrow> TaskRecord \<Rightarrow> ledger \<Rightarrow> string list" where
  "recovery_commands E task l =
     (if tk_status_stage task = S_implementing
         \<and> (case optional_run E task (tk_latest_implementation_run task) l of
              None \<Rightarrow> False
            | Some r \<Rightarrow> rn_run_type r = RT_implementation \<and> rn_status r = RS_running)
         \<and> current_lock (tk_id task) l = None
      then [''taskledger implement resume --reason '' @ CHR 0x22
            # ''Reacquire implementation lock for existing running run.'' @ [CHR 0x22]]
      else if tk_status_stage task = S_cancelled
      then [''taskledger task uncancel --reason '' @ CHR 0x22
            # ''Restore the task to a safe durable stage.'' @ [CHR 0x22]]
      else [])"

definition repair_task_record :: "env \<Rightarrow> string \<Rightarrow> string \<Rightarrow> string list command" where
  "repair_task_record E task_ref reason =
     thenE (guardE (strip reason \<noteq> []) (cli_error ''repair reason'' EXIT_CODE_BAD_INPUT))
     (bindE (readE (resolve_task E False task_ref)) (\<lambda>task.
      bindE (getsE (recovery_commands E task)) (\<lambda>commands.
      thenE (modifyE (append_event E (tk_id task) ''repair.task''
        [(''reason'', PStr (strip reason))]))
        (returnE commands))))"

section \<open>Planning runs without a lock\<close>

definition repair_orphaned_planning_run ::
  "env \<Rightarrow> string \<Rightarrow> string option \<Rightarrow> string \<Rightarrow> TaskRunRecord command" where
  "repair_orphaned_planning_run E task_ref run_id reason =
     thenE (guardE (strip reason \<noteq> []) (cli_error ''repair reason'' EXIT_CODE_BAD_INPUT))
     (bindE (readE (resolve_task E False task_ref)) (\<lambda>task.
      bindE (readE (require_run E task (opt_str_or run_id (tk_latest_planning_run task)))) (\<lambda>run.
      thenE (guardE (rn_run_type run = RT_planning)
        (cli_error ''repair run type'' EXIT_CODE_INVALID_TRANSITION))
     (thenE (guardE (rn_status run = RS_running)
        (cli_error ''repair run status'' EXIT_CODE_INVALID_TRANSITION))
     (bindE (getsE (current_lock (tk_id task))) (\<lambda>active_lock.
      bindE (liftE (lock_matches_run E active_lock run)) (\<lambda>matching.
      thenE (guardE (\<not> matching) (cli_error ''repair locked run'' EXIT_CODE_LOCK_CONFLICT))
     (thenE (guardE (active_lock = None)
        (coded_error ''running run conflict'' E_RUNNING_RUN_CONFLICT EXIT_CODE_LOCK_CONFLICT))
     (let finished = run\<lparr>rn_status := RS_finished, rn_finished_at := Some (e_now E),
            rn_summary := Some (''Repaired orphaned planning run: '' @ strip reason)\<rparr>
      in thenE (modifyE (save_run finished))
        (thenE (modifyE (append_event E (tk_id task) ''repair.run''
           [(''action'', PStr ''finished_orphan_run''), (''run_id'', PStr (rn_run_id run)),
            (''run_type'', PStr (enum_name run_type_names (rn_run_type run))),
            (''previous_status'', PStr (enum_name run_status_names (rn_status run))),
            (''new_status'', PStr ''finished''), (''reason'', PStr (strip reason))]))
          (returnE finished)))))))))))"

section \<open>Commands recorded as changes\<close>

text \<open>
  One turn of the loop. The file it would delete is \<open>changes/<id>.yaml\<close>, but a change is stored
  in \<open>changes/<id>.md\<close> (\<open>change_markdown_path\<close>), so no change file goes away. The task written
  back is the one read before the loop.
\<close>

definition move_change ::
  "env \<Rightarrow> TaskRecord \<Rightarrow> string \<Rightarrow> CodeChangeRecord \<Rightarrow> TaskRunRecord \<Rightarrow> unit command" where
  "move_change E task reason change run =
     (let updated_run = run\<lparr>rn_worklog := rn_worklog run @ [ch_summary change],
            rn_artifact_refs := rn_artifact_refs run
              @ (if startswith (ch_change_id change) ''artifact_'' then [] else [ch_change_id change])\<rparr>
      in thenE (modifyE (save_run updated_run))
        (thenE (modifyE (save_task (task\<lparr>
           tk_code_change_log_refs :=
             filter (\<lambda>ref. ref \<noteq> ch_change_id change) (tk_code_change_log_refs task),
           tk_updated_at := e_now E\<rparr>)))
          (modifyE (append_event E (tk_id task) ''repair.change''
            [(''action'', PStr ''moved_planning_command_to_worklog''),
             (''change_id'', PStr (ch_change_id change)), (''run_id'', PStr (rn_run_id run)),
             (''reason'', PStr reason)]))))"

definition planning_run_of_change ::
  "env \<Rightarrow> TaskRecord \<Rightarrow> CodeChangeRecord \<Rightarrow> ledger \<Rightarrow> TaskRunRecord option" where
  "planning_run_of_change E task change l =
     (if ch_kind change \<noteq> ''command'' then None
      else case optional_run E task (Some (ch_implementation_run change)) l of
             None \<Rightarrow> None
           | Some run \<Rightarrow> if rn_run_type run = RT_planning then Some run else None)"

fun repair_each ::
  "env \<Rightarrow> TaskRecord \<Rightarrow> string \<Rightarrow> bool \<Rightarrow> CodeChangeRecord list \<Rightarrow> string list command" where
  "repair_each E task reason dry_run [] = returnE []"
| "repair_each E task reason dry_run (change # changes) =
     bindE (getsE (planning_run_of_change E task change)) (\<lambda>found.
     case found of
       None \<Rightarrow> repair_each E task reason dry_run changes
     | Some run \<Rightarrow>
         thenE (whenE (\<not> dry_run) (move_change E task reason change run))
           (bindE (repair_each E task reason dry_run changes) (\<lambda>repaired.
            returnE (ch_change_id change # repaired))))"

definition repair_planning_command_changes ::
  "env \<Rightarrow> string \<Rightarrow> string \<Rightarrow> bool \<Rightarrow> string list command" where
  "repair_planning_command_changes E task_ref reason dry_run =
     thenE (guardE (strip reason \<noteq> []) (cli_error ''repair reason'' EXIT_CODE_BAD_INPUT))
     (bindE (readE (resolve_task E False task_ref)) (\<lambda>task.
      bindE (getsE (list_changes (tk_id task))) (\<lambda>changes.
      repair_each E task (strip reason) dry_run changes)))"

section \<open>The run invariant\<close>

lemma repair_task_record_inv: "keeps run_inv (repair_task_record E task_ref reason)"
  unfolding repair_task_record_def by (intro keepsI wp_intro) auto

lemma repair_orphaned_planning_run_inv:
  "keeps run_inv (repair_orphaned_planning_run E task_ref run_id reason)"
  unfolding repair_orphaned_planning_run_def Let_def
  by (intro keepsI wp_intro)
    (auto simp: current_lock_def run_inv_task dest!: require_run_of intro!: run_inv_end_orphan)

lemma planning_run_of_change_of:
  "planning_run_of_change E task change l = Some run \<Longrightarrow> run \<in> runs_of l (tk_id task)"
  by (auto simp: planning_run_of_change_def split: if_splits option.splits
      intro: optional_run_of)

lemma wp_move_change:
  assumes "run_inv l" "run \<in> runs_of l (tk_id task)" "\<And>l'. run_inv l' \<Longrightarrow> Q () l'"
  shows "wp (move_change E task reason change run) Q X l"
  unfolding move_change_def Let_def
  by (intro wp_intro assms(3)) (use assms(1,2) in \<open>auto intro!: run_inv_save_task run_inv_edit_run\<close>)

lemma repair_each_inv: "keeps run_inv (repair_each E task reason dry_run changes)"
proof (induction changes)
  case (Cons change changes)
  show ?case
    by (auto intro!: keepsI wp_intro wp_move_change wp_keeps [OF Cons.IH] split: option.split
        dest: planning_run_of_change_of)
qed (auto intro!: keepsI wp_intro)

lemma repair_planning_command_changes_inv:
  "keeps run_inv (repair_planning_command_changes E task_ref reason dry_run)"
  unfolding repair_planning_command_changes_def
  by (intro keepsI wp_intro wp_keeps [OF repair_each_inv]) auto

end
