(* ===== verification/StoreInvariant.thy ===== *)
theory StoreInvariant
  imports Questions Collections Handoffs Commands Reviews Releases Repair
begin

text \<open>
  Invariants of the ledger that every single write keeps. A command of the services is a
  composition of reads, guards and the writes of the store, so a predicate that each write
  keeps is kept by every command. The locale \<open>store_invariant\<close> states the writes as its
  assumptions and carries the argument once, command by command.
\<close>

named_theorems keeps_intro \<open>one rule per combinator, and one lemma per command\<close>

section \<open>Combinators\<close>

lemma keeps_basic [keeps_intro]:
  "keeps I (returnE x)" "keeps I (raiseE e)" "keeps I (getsE f)" "keeps I (readE r)"
  "keeps I (liftE s)" "keeps I (guardE b e)"
  by (simp_all add: keeps_def wp_simps split: sum.splits)

lemma keeps_bindE [keeps_intro]:
  "keeps I m \<Longrightarrow> (\<And>x. keeps I (f x)) \<Longrightarrow> keeps I (bindE m f)"
  by (rule keepsI) (auto simp: wp_bindE elim!: wp_keeps intro: wp_keeps)

lemma keeps_thenE [keeps_intro]: "keeps I m \<Longrightarrow> keeps I k \<Longrightarrow> keeps I (thenE m k)"
  unfolding thenE_def by (rule keeps_bindE)

lemma keeps_whenE [keeps_intro]: "keeps I m \<Longrightarrow> keeps I (whenE b m)"
  by (simp add: whenE_def keeps_basic)

lemma keeps_control [keeps_intro]:
  "keeps I m \<Longrightarrow> keeps I n \<Longrightarrow> keeps I (if b then m else n)"
  "keeps I n \<Longrightarrow> (\<And>x. keeps I (g x)) \<Longrightarrow> keeps I (case v of None \<Rightarrow> n | Some x \<Rightarrow> g x)"
  "(\<And>x y. keeps I (h x y)) \<Longrightarrow> keeps I (case p of (x, y) \<Rightarrow> h x y)"
  "keeps I (j w) \<Longrightarrow> keeps I (let x = w in j x)"
  by (simp_all split: option.splits prod.splits)

lemma keeps_catchE [keeps_intro]:
  "keeps I m \<Longrightarrow> (\<And>e. keeps I (h e)) \<Longrightarrow> keeps I (catchE m h)"
  by (rule keepsI) (auto simp: wp_catchE elim!: wp_keeps intro: wp_keeps)

lemma keeps_forE [keeps_intro]: "(\<And>x. keeps I (f x)) \<Longrightarrow> keeps I (forE xs f)"
  by (induction xs) (auto intro: keeps_basic keeps_thenE)

lemma keeps_modifyE: "(\<And>l. I l \<Longrightarrow> I (f l)) \<Longrightarrow> keeps I (modifyE f)"
  by (simp add: keeps_def wp_modifyE)

lemma keeps_checks [keeps_intro]:
  "keeps I (enforce_decision d)" "keeps I (ensure_not_archived task)"
  "keeps I (lock_for_mutation E i)" "keeps I (ensure_dependencies_done E task)"
  "keeps I (ensure_active_switch_allowed E i force reason)"
  "keeps I (active_task_payload E task st ch prev act)" "keeps I (record_checks ra)"
  "keeps I (require_intent ho ac h)" "keeps I (question_status E ref)"
  unfolding enforce_decision_def ensure_not_archived_def lock_for_mutation_def
    ensure_dependencies_done_def ensure_active_switch_allowed_def active_task_payload_def
    record_checks_def require_intent_def question_status_def
  by (intro keeps_intro)+

section \<open>The interface\<close>

locale store_invariant =
  fixes I :: "ledger \<Rightarrow> bool"
  assumes task: "I l \<Longrightarrow> I (save_task t l)"
    and run: "I l \<Longrightarrow> I (save_run r l)"
    and plan: "I l \<Longrightarrow> I (overwrite_plan p l)"
    and question: "I l \<Longrightarrow> I (save_question q l)"
    and change: "I l \<Longrightarrow> I (save_change c l)"
    and handoff: "I l \<Longrightarrow> I (save_handoff h l)"
    and todos: "I l \<Longrightarrow> I (save_todos i ts l)"
    and links: "I l \<Longrightarrow> I (save_links E i ks l)"
    and requirements: "I l \<Longrightarrow> I (save_requirements i rs l)"
    and lock: "I l \<Longrightarrow> I (update_lock i k l)"
    and unlock: "I l \<Longrightarrow> I (remove_lock i l)"
    and audit: "I l \<Longrightarrow> I (write_broken_lock_audit E i k l)"
    and activate: "I l \<Longrightarrow> I (save_active_task_state st l)"
    and deactivate: "I l \<Longrightarrow> I (clear_active_task_state l)"
    and check: "I l \<Longrightarrow> I (save_check ck l)"
    and review: "I l \<Longrightarrow> I (save_code_review cr l)"
    and artifact: "I l \<Longrightarrow> I (save_artifact i9 n9 x9 l)"
    and intro_file: "I l \<Longrightarrow> I (save_introduction intro l)"
    and release: "I l \<Longrightarrow> I (put_release i8 rel l)"
    and actor: "I l \<Longrightarrow> I (save_actor_state ac_st l)"
    and harness: "I l \<Longrightarrow> I (save_harness_state h_st l)"
    and event_as: "I l \<Longrightarrow> I (append_event_as E ac9 h9 i n d l)"
    and next_number: "I l \<Longrightarrow> I (l\<lparr>l_next_task_number := number\<rparr>)"
begin

lemma event: "I l \<Longrightarrow> I (append_event E i n d l)"
  unfolding append_event_def by (rule event_as)

lemmas writes = task run plan question change handoff todos links requirements lock unlock audit
  activate deactivate event event_as next_number check review artifact intro_file release actor harness

lemma keeps_writes [keeps_intro]:
  "keeps I (modifyE (save_task t))" "keeps I (modifyE (save_run r))"
  "keeps I (modifyE (overwrite_plan p))" "keeps I (modifyE (save_question q))"
  "keeps I (modifyE (save_change c))" "keeps I (modifyE (save_handoff h))"
  "keeps I (modifyE (save_todos i ts))" "keeps I (modifyE (save_links E i ks))"
  "keeps I (modifyE (save_requirements i rs))" "keeps I (modifyE (update_lock i k))"
  "keeps I (modifyE (remove_lock i))" "keeps I (modifyE (write_broken_lock_audit E i k))"
  "keeps I (modifyE (save_active_task_state st))" "keeps I (modifyE clear_active_task_state)"
  "keeps I (modifyE (append_event E i n d))" "keeps I (modifyE (append_event_as E ac9 h9 i n d))"
  "keeps I (modifyE (\<lambda>l. l\<lparr>l_next_task_number := number\<rparr>))"
  "keeps I (modifyE (save_check ck))" "keeps I (modifyE (save_code_review cr))"
  "keeps I (modifyE (save_artifact i9 n9 x9))" "keeps I (modifyE (save_introduction intro))"
  "keeps I (modifyE (put_release i8 rel))" "keeps I (modifyE (save_actor_state ac_st))"
  "keeps I (modifyE (save_harness_state h_st))"
  by (rule keeps_modifyE, erule writes)+

lemma store_commands [keeps_intro]:
  "keeps I (save_plan p)" "keeps I (write_lock task_id lock)" "keeps I (save_lock task_id lock)"
  unfolding save_plan_def write_lock_def save_lock_def
  by (intro keeps_intro)+

lemma locks_commands [keeps_intro]:
  "keeps I (enforce_decision d)" "keeps I (ensure_not_archived t)"
  "keeps I (lock_for_mutation E task_id)" "keeps I (require_lock E task_id)"
  "keeps I (ensure_dependencies_done E t)" "keeps I (acquire_lock E t stage rn5 r5 ac5 h5)"
  "keeps I (release_lock E t expected_stage run_id target_stage event_name extra_data delete_only)"
  "keeps I (release_expired_lock E task_id lock r7)" "keeps I (break_lock E ref r8)"
  "keeps I (transfer_lock E task_id lock_id to_actor to_harness)"
  "keeps I (handoff_release_lock E task_id lock_id)"
  "keeps I (start_run E t run_type stage ac11 h11)"
  unfolding enforce_decision_def ensure_not_archived_def lock_for_mutation_def require_lock_def
    ensure_dependencies_done_def acquire_lock_def release_lock_def release_expired_lock_def
    break_lock_def transfer_lock_def handoff_release_lock_def start_run_def
  by (intro keeps_intro)+

lemma planning_commands [keeps_intro]:
  "keeps I (start_planning E ref ac0 h0)" "keeps I (propose_plan E ref body criteria)"
  "keeps I (materialize_plan_todos E ref version dry_run)" "keeps I (approve_checks E t a3)"
  "keeps I (approve_plan E ref a4)" "keeps I (reject_plan E ref r5)" "keeps I (revise_plan E ref)"
  "keeps I (store_regenerated_plan E t plans plan plan_body runs)"
  "keeps I (regenerate_plan_from_answers E ref body criteria allow_open_questions)"
  "keeps I (upsert_plan E ref body a9)" "keeps I (mark_planning_guidance_viewed E ref)"
  unfolding start_planning_def propose_plan_def materialize_plan_todos_def approve_checks_def
    approve_plan_def reject_plan_def revise_plan_def store_regenerated_plan_def
    regenerate_plan_from_answers_def upsert_plan_def mark_planning_guidance_viewed_def
  by (intro keeps_intro)+

lemma implementation_commands [keeps_intro]:
  "keeps I (start_implementation_for_task E t ac0 h0)"
  "keeps I (start_implementation E ref ac1 h1)" "keeps I (restart_checks E t)"
  "keeps I (restart_implementation E ref summary ac3 h3)"
  "keeps I (clear_resume_lock E t rn4 resume_reason repair_expired_lock)"
  "keeps I (resume_implementation E ref run_id r5 ac5 h5 repair_expired_lock)"
  "keeps I (require_running_implementation_with_decision E ref action)"
  "keeps I (log_implementation E ref message)"
  "keeps I (add_implementation_deviation E ref message)"
  "keeps I (add_implementation_artifact E ref path summary)" "keeps I (add_change E ref a10)"
  "keeps I (scan_changes E git_state ref from_git summary)"
  "keeps I (finish_implementation E ref summary)"
  unfolding start_implementation_for_task_def start_implementation_def restart_checks_def
    restart_implementation_def clear_resume_lock_def resume_implementation_def
    require_running_implementation_with_decision_def log_implementation_def
    add_implementation_deviation_def add_implementation_artifact_def add_change_def
    scan_changes_def finish_implementation_def
  by (intro keeps_intro)+

lemma validation_commands [keeps_intro]:
  "keeps I (ensure_implementation_snapshot_current E t impl_run)"
  "keeps I (start_validation E ref ac1 h1)"
  "keeps I (require_running_validation_with_decision E ref)"
  "keeps I (add_validation_check E ref a3)"
  "keeps I (waive_criterion E ref criterion_ref r4 actor_name)"
  "keeps I (validation_status E ref run_id)" "keeps I (ensure_validation_can_pass E t rn6)"
  "keeps I (finish_validation E ref result summary recommendation)"
  unfolding ensure_implementation_snapshot_current_def start_validation_def
    require_running_validation_with_decision_def add_validation_check_def waive_criterion_def
    validation_status_def ensure_validation_can_pass_def finish_validation_def
  by (intro keeps_intro)+

lemma question_commands [keeps_intro]:
  "keeps I (save_new_question E task_id question)"
  "keeps I (add_question E ref text required_for_plan ac1 h1)"
  "keeps I (add_questions E ref questions ac2 h2 allow_duplicates)"
  "keeps I (answer_question E ref question_id text ac3 answer_source)"
  "keeps I (question_status E ref)"
  unfolding save_new_question_def add_question_def add_questions_def answer_question_def
    question_status_def
  by (intro keeps_intro)+

lemma answer_each_keeps [keeps_intro]: "keeps I (answer_each E i actor src answers)"
  by (induction E i actor src answers rule: answer_each.induct)
    (auto intro!: keeps_basic keeps_bindE question_commands)

lemma question_batch_commands [keeps_intro]:
  "keeps I (answer_questions E ref answers ac0 answer_source)"
  "keeps I (dismiss_question E ref question_id)"
  unfolding answer_questions_def dismiss_question_def
  by (intro keeps_intro)+

lemma lifecycle_commands [keeps_intro]:
  "keeps I (allocate_task_id_and_advance E existing_ids)" "keeps I (allocate_task E slug1 title)"
  "keeps I (create_task E a2)" "keeps I (ensure_active_switch_allowed E task_id force r3)"
  "keeps I (active_task_payload E t state changed previous_task_id active)"
  "keeps I (switch_active_task E t previous_task_id r5 actor_type force)"
  "keeps I (activate_task E ref r6 actor_type force)"
  "keeps I (clear_active_task E r7 actor_type force)"
  "keeps I (create_follow_up_task E parent_ref a8)" "keeps I (record_checks a9)"
  "keeps I (record_events E a10 t impl_run_id validation_run change_ids)"
  "keeps I (store_recorded_work E a11 t impl_run existing_run_ids)"
  "keeps I (record_completed_task E a12)" "keeps I (edit_task E ref a13)"
  "keeps I (cancel_task E ref r14)"
  "keeps I (uncancel_task E ref target_stage r15 ac15 allow_agent_uncancel)"
  "keeps I (close_task E ref note)"
  unfolding allocate_task_id_and_advance_def allocate_task_def create_task_def
    ensure_active_switch_allowed_def active_task_payload_def switch_active_task_def
    activate_task_def clear_active_task_def create_follow_up_task_def record_checks_def
    record_events_def store_recorded_work_def record_completed_task_def edit_task_def
    cancel_task_def uncancel_task_def close_task_def
  by (intro keeps_intro)+

lemma collections_commands [keeps_intro]:
  "keeps I (editable_task E ref)" "keeps I (add_requirement E ref required_task_ref)"
  "keeps I (remove_requirement E ref required_task_ref)"
  "keeps I (waive_requirement E ref required_task_ref actor_type r3)"
  "keeps I (add_file_link E snapshot ref a4)" "keeps I (remove_file_link E ref path)"
  "keeps I (refresh_file_baseline E snapshot ref path r6)"
  "keeps I (add_todo E ref text source mandatory)" "keeps I (set_todo_done E ref todo_id a8)"
  "keeps I (next_todo E ref)" "keeps I (archive_task E ref r10 force)"
  "keeps I (unarchive_task E ref r11 slug11 reopen_for_work)"
  unfolding editable_task_def add_requirement_def remove_requirement_def waive_requirement_def
    add_file_link_def remove_file_link_def refresh_file_baseline_def add_todo_def
    set_todo_done_def next_todo_def archive_task_def unarchive_task_def
  by (intro keeps_intro)+

lemma handoff_commands [keeps_intro]:
  "keeps I (require_intent handoff ac0 h0)" "keeps I (apply_lock_policy E task_id handoff ac1 h1)"
  "keeps I (claim_handoff E task_id handoff_id ac2 h2 new_run_id)"
  "keeps I (close_handoff E task_id handoff_id r3)"
  "keeps I (cancel_handoff E task_id handoff_id r4)"
  unfolding require_intent_def apply_lock_policy_def claim_handoff_def close_handoff_def
    cancel_handoff_def with_source_lock_def
  by (intro keeps_intro)+

lemma work_commands [keeps_intro]:
  "keeps I (write_command_artifact E task_id run_id output)"
  "keeps I (output_artifact E task_id run_id output)" "keeps I (add_check E ref ck2)"
  "keeps I (run_implementation_command E completed ref argv)"
  "keeps I (run_planning_command E completed ref argv)"
  "keeps I (record_code_review E git sha256 ref cr5)"
  unfolding write_command_artifact_def output_artifact_def add_check_def
    run_implementation_command_def run_planning_command_def record_code_review_def
  by (intro keeps_intro)+

lemma repair_each_keeps [keeps_intro]: "keeps I (repair_each E t reason dry_run changes)"
  by (induction E t reason dry_run changes rule: repair_each.induct)
    (auto simp: move_change_def Let_def intro!: keeps_intro)

lemma side_commands [keeps_intro]:
  "keeps I (save_release rel)" "keeps I (append_release_event E task_id event_name data)"
  "keeps I (tag_release E rel2)" "keeps I (create_introduction E title body slug labels)"
  "keeps I (link_introduction E ref intro_ref)" "keeps I (repair_task_record E ref reason)"
  "keeps I (repair_orphaned_planning_run E ref run_id reason)"
  "keeps I (repair_planning_command_changes E ref reason dry_run)"
  "keeps I (actor_set actor_type actor_name role tool session_id)" "keeps I actor_clear"
  "keeps I (harness_set name kind session_id)" "keeps I harness_clear"
  unfolding save_release_def append_release_event_def tag_release_def create_introduction_def
    link_introduction_def repair_task_record_def repair_orphaned_planning_run_def
    repair_planning_command_changes_def actor_set_def actor_clear_def harness_set_def harness_clear_def
  by (intro keeps_intro)+

end

end
