(* ===== verification/System.thy ===== *)
theory System
  imports StoreInvariant
begin

text \<open>
  The whole program: any command of the services, run in any environment, from the empty
  ledger. A command that raises still counts, with what it wrote before it raised. An
  invariant of the program is an instance of the locale \<open>system_invariant\<close>.
\<close>

section \<open>Steps\<close>

inductive step :: "env \<Rightarrow> ledger \<Rightarrow> ledger \<Rightarrow> bool" where
  s_create: "step E l (snd (create_task E ca l))"
| s_follow_up: "step E l (snd (create_follow_up_task E ref fu l))"
| s_record: "step E l (snd (record_completed_task E rc l))"
| s_activate: "step E l (snd (activate_task E ref oreason actor_type flag l))"
| s_deactivate: "step E l (snd (clear_active_task E reason actor_type flag l))"
| s_edit: "step E l (snd (edit_task E ref ea l))"
| s_cancel: "step E l (snd (cancel_task E ref oreason l))"
| s_uncancel: "step E l (snd (uncancel_task E ref target reason oactor flag l))"
| s_close: "step E l (snd (close_task E ref note l))"
| s_archive: "step E l (snd (archive_task E ref reason flag l))"
| s_unarchive: "step E l (snd (unarchive_task E ref reason slug flag l))"
| s_plan_start: "step E l (snd (start_planning E ref oactor oharness l))"
| s_plan_propose: "step E l (snd (propose_plan E ref body crit l))"
| s_plan_upsert: "step E l (snd (upsert_plan E ref body ua l))"
| s_plan_regenerate: "step E l (snd (regenerate_plan_from_answers E ref body crit flag l))"
| s_plan_approve: "step E l (snd (approve_plan E ref aa l))"
| s_plan_reject: "step E l (snd (reject_plan E ref oreason l))"
| s_plan_revise: "step E l (snd (revise_plan E ref l))"
| s_plan_materialize: "step E l (snd (materialize_plan_todos E ref version flag l))"
| s_plan_guidance: "step E l (snd (mark_planning_guidance_viewed E ref l))"
| s_question_add: "step E l (snd (add_question E ref text flag oactor oharness l))"
| s_question_add_many: "step E l (snd (add_questions E ref qs oactor oharness flag l))"
| s_question_answer: "step E l (snd (answer_question E ref qid text oactor source l))"
| s_question_answer_many: "step E l (snd (answer_questions E ref answers oactor source l))"
| s_question_dismiss: "step E l (snd (dismiss_question E ref qid l))"
| s_implement_start: "step E l (snd (start_implementation E ref oactor oharness l))"
| s_implement_restart: "step E l (snd (restart_implementation E ref summary oactor oharness l))"
| s_implement_resume:
    "step E l (snd (resume_implementation E ref orun reason oactor oharness flag l))"
| s_implement_log: "step E l (snd (log_implementation E ref text l))"
| s_implement_deviation: "step E l (snd (add_implementation_deviation E ref text l))"
| s_implement_artifact: "step E l (snd (add_implementation_artifact E ref path summary l))"
| s_implement_change: "step E l (snd (add_change E ref cg l))"
| s_implement_scan: "step E l (snd (scan_changes E git ref flag summary l))"
| s_implement_finish: "step E l (snd (finish_implementation E ref summary l))"
| s_validate_start: "step E l (snd (start_validation E ref oactor oharness l))"
| s_validate_check: "step E l (snd (add_validation_check E ref ck l))"
| s_validate_waive: "step E l (snd (waive_criterion E ref criterion reason oname l))"
| s_validate_finish: "step E l (snd (finish_validation E ref result summary recommendation l))"
| s_requirement_add: "step E l (snd (add_requirement E ref required l))"
| s_requirement_remove: "step E l (snd (remove_requirement E ref required l))"
| s_requirement_waive: "step E l (snd (waive_requirement E ref required actor_type reason l))"
| s_link_add: "step E l (snd (add_file_link E fs ref la l))"
| s_link_remove: "step E l (snd (remove_file_link E ref path l))"
| s_link_refresh: "step E l (snd (refresh_file_baseline E fs ref path reason l))"
| s_todo_add: "step E l (snd (add_todo E ref text osource flag l))"
| s_todo_done: "step E l (snd (set_todo_done E ref todo_id da l))"
| s_handoff_claim: "step E l (snd (claim_handoff E ref hid actor harness orun l))"
| s_handoff_close: "step E l (snd (close_handoff E ref hid oreason l))"
| s_handoff_cancel: "step E l (snd (cancel_handoff E ref hid oreason l))"
| s_implement_check: "step E l (snd (add_check E ref kc l))"
| s_implement_command: "step E l (snd (run_implementation_command E completed ref argv l))"
| s_plan_command: "step E l (snd (run_planning_command E completed ref argv l))"
| s_review: "step E l (snd (record_code_review E git_run sha256 ref va l))"
| s_release: "step E l (snd (tag_release E ta l))"
| s_introduction: "step E l (snd (create_introduction E title body oslug labels l))"
| s_introduction_link: "step E l (snd (link_introduction E ref iref l))"
| s_repair_task: "step E l (snd (repair_task_record E ref reason l))"
| s_repair_run: "step E l (snd (repair_orphaned_planning_run E ref orun reason l))"
| s_repair_changes: "step E l (snd (repair_planning_command_changes E ref reason flag l))"
| s_actor_set: "step E l (snd (actor_set actor_type actor_name orole otool osession l))"
| s_actor_clear: "step E l (snd (actor_clear l))"
| s_harness_set: "step E l (snd (harness_set hname okind osession l))"
| s_harness_clear: "step E l (snd (harness_clear l))"
| s_lock_break: "step E l (snd (break_lock E ref reason l))"

inductive reachable :: "ledger \<Rightarrow> bool" where
  init: "reachable empty_ledger"
| run: "reachable l \<Longrightarrow> ids_ok E \<Longrightarrow> step E l l' \<Longrightarrow> reachable l'"

locale system_invariant =
  fixes I :: "ledger \<Rightarrow> bool"
  assumes init: "I empty_ledger"
    and step: "ids_ok E \<Longrightarrow> I l \<Longrightarrow> step E l l' \<Longrightarrow> I l'"
begin

lemma reachable: "reachable l \<Longrightarrow> I l"
  by (induction rule: reachable.induct) (auto intro: init step)

end

lemma keeps_snd: "keeps I m \<Longrightarrow> I l \<Longrightarrow> I (snd (m l))"
  by (cases "m l") (auto simp: keeps_def wp_def split: sum.splits dest!: spec [of _ l])

section \<open>Predicates that every write keeps\<close>

context store_invariant
begin

lemmas commands_keep =
  locks_commands planning_commands implementation_commands validation_commands question_commands
  question_batch_commands lifecycle_commands collections_commands handoff_commands
  work_commands side_commands

lemma step_keeps: "step E l l' \<Longrightarrow> I l \<Longrightarrow> I l'"
  by (cases rule: step.cases) (auto intro: commands_keep [THEN keeps_snd])

end

locale ledger_invariant = store_invariant +
  assumes empty: "I empty_ledger"

sublocale ledger_invariant \<subseteq> system_invariant I
  by unfold_locales (auto intro: empty step_keeps)

text \<open>Every record file carries the id of its record, in the directory of the record's task.\<close>

definition files_of :: "('r \<Rightarrow> string) \<Rightarrow> ('r \<Rightarrow> string) \<Rightarrow> (string \<Rightarrow> 'r dir) \<Rightarrow> bool" where
  "files_of key owner dirs \<longleftrightarrow>
     (\<forall>t. dir_ok key (dirs t) \<and> (\<forall>r \<in> snd ` set (dirs t). owner r = t))"

definition ledger_files_ok :: "ledger \<Rightarrow> bool" where
  "ledger_files_ok l \<longleftrightarrow>
     dir_ok tk_id (l_tasks l) \<and> files_of rn_run_id rn_task_id (l_runs l)
     \<and> files_of PlanRecord_plan_id pl_task_id (l_plans l)
     \<and> files_of qn_id qn_task_id (l_questions l) \<and> files_of ch_change_id ch_task_id (l_changes l)
     \<and> files_of ho_handoff_id ho_task_id (l_handoffs l)
     \<and> files_of ic_check_id ic_task_id (l_checks l)
     \<and> files_of cv_review_id cv_task_id (l_reviews l) \<and> dir_ok in_id (l_intros l)
     \<and> (\<forall>t. dir_ok td_id (l_todos l t)) \<and> distinct (map fst (l_locks l))"

lemma files_of_put [intro]:
  assumes "files_of key owner dirs" "owner r = t" "key r = k"
  shows "files_of key owner (dirs(t := dir_put k r (dirs t)))"
proof -
  have ok: "dir_ok key (dirs t)" using assms(1) by (simp add: files_of_def)
  have "\<forall>x \<in> snd ` set (dir_put k r (dirs t)). owner x = t"
    unfolding dir_put_records [OF ok assms(3)] using assms(1,2) by (auto simp: files_of_def)
  then show ?thesis
    using assms(1) dir_ok_put [OF ok assms(3)] by (simp add: files_of_def)
qed

lemma dir_ok_filter: "dir_ok key d \<Longrightarrow> dir_ok key (filter P d)"
  by (auto simp: dir_ok_def distinct_map_filter)

lemma dir_ok_collection:
  assumes "dir_ok key d" "\<forall>(k, r) \<in> set entries. key r = k"
  shows "dir_ok key (save_collection prefix entries d)"
proof -
  have "dir_ok key (foldl (\<lambda>d (k, r). dir_put k r d) d entries)"
    using assms by (induction entries arbitrary: d) (auto intro: dir_ok_put)
  then show ?thesis unfolding save_collection_def by (rule dir_ok_filter)
qed

lemma ledger_files_frame:
  "l_tasks l' = l_tasks l \<Longrightarrow> l_runs l' = l_runs l \<Longrightarrow> l_plans l' = l_plans l
    \<Longrightarrow> l_questions l' = l_questions l \<Longrightarrow> l_changes l' = l_changes l
    \<Longrightarrow> l_handoffs l' = l_handoffs l \<Longrightarrow> l_todos l' = l_todos l
    \<Longrightarrow> l_checks l' = l_checks l \<Longrightarrow> l_reviews l' = l_reviews l \<Longrightarrow> l_intros l' = l_intros l
    \<Longrightarrow> l_locks l' = l_locks l \<Longrightarrow> ledger_files_ok l' = ledger_files_ok l"
  by (simp add: ledger_files_ok_def)

interpretation files: ledger_invariant ledger_files_ok
proof
  show "ledger_files_ok empty_ledger"
    by (simp add: ledger_files_ok_def empty_ledger_def files_of_def)
qed (auto simp: ledger_files_ok_def save_task_def save_run_def overwrite_plan_def save_question_def
    save_change_def save_handoff_def save_todos_def save_links_def save_requirements_def
    update_lock_def remove_lock_def write_broken_lock_audit_def save_active_task_state_def
    clear_active_task_state_def append_event_as_def save_check_def
    save_code_review_def save_artifact_def save_introduction_def put_release_def
    save_actor_state_def save_harness_state_def Let_def PlanRecord_plan_id_def persist_handoff_def
    persist_review_def
    dir_remove_def distinct_map_filter intro!: dir_ok_put dir_ok_collection dir_put_distinct)

lemma plan_inv_files: "ledger_files_ok l \<Longrightarrow> plan_inv l"
  by (simp add: ledger_files_ok_def files_of_def plan_inv_def)

text \<open>
  What is never lost: the event log only grows, and no write removes a task, a plan version, a
  run, question, change, handoff, check, review, introduction or release.
\<close>

definition dir_ids :: "(string \<Rightarrow> 'r dir) \<Rightarrow> (string \<times> string) set" where
  "dir_ids dirs = {(t, i). i \<in> fst ` set (dirs t)}"

definition extends :: "ledger \<Rightarrow> ledger \<Rightarrow> bool" where
  "extends l0 l \<longleftrightarrow>
     (\<exists>es. l_events l = l_events l0 @ es)
     \<and> fst ` set (l_tasks l0) \<subseteq> fst ` set (l_tasks l)
     \<and> dir_ids (l_runs l0) \<subseteq> dir_ids (l_runs l) \<and> dir_ids (l_plans l0) \<subseteq> dir_ids (l_plans l)
     \<and> dir_ids (l_questions l0) \<subseteq> dir_ids (l_questions l)
     \<and> dir_ids (l_changes l0) \<subseteq> dir_ids (l_changes l)
     \<and> dir_ids (l_handoffs l0) \<subseteq> dir_ids (l_handoffs l)
     \<and> dir_ids (l_checks l0) \<subseteq> dir_ids (l_checks l)
     \<and> dir_ids (l_reviews l0) \<subseteq> dir_ids (l_reviews l)
     \<and> fst ` set (l_intros l0) \<subseteq> fst ` set (l_intros l)
     \<and> fst ` set (l_releases l0) \<subseteq> fst ` set (l_releases l)"

lemma dir_ids_put: "A \<subseteq> dir_ids dirs \<Longrightarrow> A \<subseteq> dir_ids (dirs(t := dir_put k r (dirs t)))"
proof -
  have "dir_ids dirs \<subseteq> dir_ids (dirs(t := dir_put k r (dirs t)))"
    unfolding dir_ids_def using dir_put_keys [of k r "dirs t"] by (simp add: subset_iff)
  then show "A \<subseteq> dir_ids dirs \<Longrightarrow> A \<subseteq> dir_ids (dirs(t := dir_put k r (dirs t)))" by blast
qed

interpretation history: store_invariant "extends l0" for l0
  by unfold_locales (simp_all add: extends_def save_task_def save_run_def
    overwrite_plan_def save_question_def save_change_def save_handoff_def save_todos_def
    save_links_def save_requirements_def update_lock_def remove_lock_def
    write_broken_lock_audit_def save_active_task_state_def clear_active_task_state_def
    append_event_as_def save_check_def
    save_code_review_def save_artifact_def save_introduction_def put_release_def
    save_actor_state_def save_harness_state_def Let_def dir_ids_put dir_put_keys subset_insertI2, metis append_assoc)

section \<open>The run invariant\<close>

lemma break_lock_inv: "keeps run_inv (break_lock E ref reason)"
  unfolding break_lock_def Let_def
  by (intro keepsI wp_intro) auto

lemma stored_identity_inv:
  "keeps run_inv (actor_set actor_type actor_name role tool session_id)" "keeps run_inv actor_clear"
  "keeps run_inv (harness_set name kind session_id)" "keeps run_inv harness_clear"
  unfolding actor_set_def actor_clear_def harness_set_def harness_clear_def Let_def
  by (intro keepsI wp_intro; simp)+

lemmas command_inv =
  create_task_inv create_follow_up_task_inv activate_task_inv
  clear_active_task_inv edit_task_inv cancel_task_inv uncancel_task_inv close_task_inv
  archive_task_inv unarchive_task_inv start_planning_inv propose_plan_inv upsert_plan_inv
  regenerate_plan_inv approve_plan_inv reject_plan_inv revise_plan_inv
  materialize_plan_todos_inv mark_planning_guidance_viewed_inv add_question_inv
  add_questions_inv answer_question_inv answer_questions_inv dismiss_question_inv
  start_implementation_inv restart_implementation_inv resume_implementation_inv
  log_implementation_inv add_implementation_deviation_inv add_implementation_artifact_inv
  add_change_inv scan_changes_inv finish_implementation_inv start_validation_inv
  add_validation_check_inv waive_criterion_inv finish_validation_inv add_requirement_inv
  remove_requirement_inv waive_requirement_inv add_file_link_inv remove_file_link_inv
  refresh_file_baseline_inv add_todo_inv set_todo_done_inv claim_handoff_inv
  close_handoff_inv cancel_handoff_inv break_lock_inv add_check_inv run_implementation_command_inv
  run_planning_command_inv record_code_review_inv tag_release_inv create_introduction_inv
  link_introduction_inv repair_task_record_inv repair_orphaned_planning_run_inv
  repair_planning_command_changes_inv stored_identity_inv

interpretation runs: system_invariant run_inv
proof
  show "run_inv empty_ledger" by (rule run_inv_empty)
  show "run_inv l'" if "ids_ok E" "run_inv l" "step E l l'" for E l l'
    using that(3,2)
    by cases (auto intro: keeps_snd [OF record_completed_task_inv [OF that(1)]]
        command_inv [THEN keeps_snd])
qed

end
