(* ===== verification/Completion.thy ===== *)
theory Completion
  imports System
begin

text \<open>
  What it takes for a task to be done. In every reachable ledger a task file with the stage
  \<open>done\<close> belongs to a task that was recorded as completed work (\<open>record_completed_task\<close>) or to
  one with a stored validation run that finished with the result \<open>passed\<close>. The invariant is not
  one that every write keeps: a task file may be written as done, and a run file rewritten, only
  under conditions that each command has to meet.
\<close>

definition passed_run :: "TaskRunRecord \<Rightarrow> bool" where
  "passed_run r \<longleftrightarrow>
     rn_run_type r = RT_validation \<and> rn_status r = RS_finished \<and> rn_result r = Some VR_passed"

definition justified :: "string \<Rightarrow> TaskType \<Rightarrow> ledger \<Rightarrow> bool" where
  "justified i type l \<longleftrightarrow> type = TT_recorded \<or> (\<exists>r \<in> runs_of l i. passed_run r)"

definition done_inv :: "ledger \<Rightarrow> bool" where
  "done_inv l \<longleftrightarrow>
     dir_ok tk_id (l_tasks l)
     \<and> (\<forall>t. dir_ok rn_run_id (l_runs l t) \<and> (\<forall>r \<in> runs_of l t. rn_task_id r = t))
     \<and> (\<forall>t \<in> snd ` set (l_tasks l). tk_status_stage t = S_done \<longrightarrow> justified (tk_id t) (tk_task_type t) l)"

text \<open>A run file may be rewritten unless it holds a passed validation.\<close>

definition replaceable :: "string \<Rightarrow> string \<Rightarrow> ledger \<Rightarrow> bool" where
  "replaceable t i l \<longleftrightarrow> (\<forall>x \<in> runs_of l t. rn_run_id x = i \<longrightarrow> \<not> passed_run x)"

lemma done_inv_frame:
  "l_tasks l' = l_tasks l \<Longrightarrow> l_runs l' = l_runs l \<Longrightarrow> done_inv l' = done_inv l"
  "l_runs l' = l_runs l \<Longrightarrow> justified j ty l' = justified j ty l"
  "l_runs l' = l_runs l \<Longrightarrow> replaceable j i l' = replaceable j i l"
  by (simp_all add: done_inv_def justified_def replaceable_def runs_of_def)

lemma other_writes [simp]:
  "l_tasks (save_question q l) = l_tasks l" "l_runs (save_question q l) = l_runs l"
  "l_tasks (save_change c l) = l_tasks l" "l_runs (save_change c l) = l_runs l"
  "l_tasks (save_handoff h l) = l_tasks l" "l_runs (save_handoff h l) = l_runs l"
  "l_runs (save_todos i ts l) = l_runs l" "l_tasks (save_links E i ks l) = l_tasks l"
  "l_runs (save_links E i ks l) = l_runs l" "l_tasks (save_requirements i rs l) = l_tasks l"
  "l_runs (save_requirements i rs l) = l_runs l" "l_tasks (update_lock i k l) = l_tasks l"
  "l_runs (update_lock i k l) = l_runs l" "l_tasks (remove_lock i l) = l_tasks l"
  "l_runs (remove_lock i l) = l_runs l" "l_tasks (write_broken_lock_audit E i k l) = l_tasks l"
  "l_runs (write_broken_lock_audit E i k l) = l_runs l"
  "l_tasks (save_active_task_state st l) = l_tasks l"
  "l_runs (save_active_task_state st l) = l_runs l"
  "l_tasks (clear_active_task_state l) = l_tasks l" "l_runs (clear_active_task_state l) = l_runs l"
  by (simp_all add: save_question_def save_change_def save_handoff_def save_todos_def save_links_def
      save_requirements_def update_lock_def remove_lock_def write_broken_lock_audit_def
      save_active_task_state_def clear_active_task_state_def Let_def)

lemma done_frames [simp]:
  "done_inv (append_event E i n d l) = done_inv l"
  "justified j ty (append_event E i n d l) = justified j ty l"
  "done_inv (overwrite_plan p l) = done_inv l"
  "justified j ty (overwrite_plan p l) = justified j ty l"
  "done_inv (save_question q l) = done_inv l"
  "justified j ty (save_question q l) = justified j ty l"
  "done_inv (save_change c l) = done_inv l" "justified j ty (save_change c l) = justified j ty l"
  "done_inv (save_handoff h l) = done_inv l" "justified j ty (save_handoff h l) = justified j ty l"
  "done_inv (save_todos i ts l) = done_inv l"
  "justified j ty (save_todos i ts l) = justified j ty l"
  "done_inv (save_links E i ks l) = done_inv l"
  "justified j ty (save_links E i ks l) = justified j ty l"
  "done_inv (save_requirements i rs l) = done_inv l"
  "justified j ty (save_requirements i rs l) = justified j ty l"
  "done_inv (update_lock i k l) = done_inv l"
  "justified j ty (update_lock i k l) = justified j ty l"
  "done_inv (remove_lock i l) = done_inv l" "justified j ty (remove_lock i l) = justified j ty l"
  "done_inv (write_broken_lock_audit E i k l) = done_inv l"
  "justified j ty (write_broken_lock_audit E i k l) = justified j ty l"
  "done_inv (save_active_task_state st l) = done_inv l"
  "justified j ty (save_active_task_state st l) = justified j ty l"
  "done_inv (clear_active_task_state l) = done_inv l"
  "justified j ty (clear_active_task_state l) = justified j ty l"
  "done_inv (l\<lparr>l_next_task_number := m\<rparr>) = done_inv l"
  "justified j ty (l\<lparr>l_next_task_number := m\<rparr>) = justified j ty l"
  "justified j ty (save_task t l) = justified j ty l"
  "replaceable j o1 (append_event E i n d l) = replaceable j o1 l"
  "replaceable j o1 (overwrite_plan p l) = replaceable j o1 l"
  "replaceable j o1 (save_question q l) = replaceable j o1 l"
  "replaceable j o1 (save_change c l) = replaceable j o1 l"
  "replaceable j o1 (save_handoff h l) = replaceable j o1 l"
  "replaceable j o1 (save_todos i ts l) = replaceable j o1 l"
  "replaceable j o1 (save_links E i ks l) = replaceable j o1 l"
  "replaceable j o1 (save_requirements i rs l) = replaceable j o1 l"
  "replaceable j o1 (update_lock i k l) = replaceable j o1 l"
  "replaceable j o1 (remove_lock i l) = replaceable j o1 l"
  "replaceable j o1 (write_broken_lock_audit E i k l) = replaceable j o1 l"
  "replaceable j o1 (save_active_task_state st l) = replaceable j o1 l"
  "replaceable j o1 (clear_active_task_state l) = replaceable j o1 l"
  "replaceable j o1 (l\<lparr>l_next_task_number := m\<rparr>) = replaceable j o1 l"
  "replaceable j o1 (save_task t l) = replaceable j o1 l"
  by (rule done_inv_frame; simp)+

lemma side_done_frames [simp]:
  "done_inv (save_check c' l) = done_inv l" "justified j ty (save_check c' l) = justified j ty l"
  "replaceable j o1 (save_check c' l) = replaceable j o1 l"
  "done_inv (save_code_review v l) = done_inv l" "justified j ty (save_code_review v l) = justified j ty l"
  "replaceable j o1 (save_code_review v l) = replaceable j o1 l"
  "done_inv (save_artifact i n x l) = done_inv l" "justified j ty (save_artifact i n x l) = justified j ty l"
  "replaceable j o1 (save_artifact i n x l) = replaceable j o1 l"
  "done_inv (save_introduction intro l) = done_inv l" "justified j ty (save_introduction intro l) = justified j ty l"
  "replaceable j o1 (save_introduction intro l) = replaceable j o1 l"
  "done_inv (put_release i rel l) = done_inv l" "justified j ty (put_release i rel l) = justified j ty l"
  "replaceable j o1 (put_release i rel l) = replaceable j o1 l"
  "done_inv (save_actor_state st1 l) = done_inv l" "justified j ty (save_actor_state st1 l) = justified j ty l"
  "replaceable j o1 (save_actor_state st1 l) = replaceable j o1 l"
  "done_inv (save_harness_state st2 l) = done_inv l" "justified j ty (save_harness_state st2 l) = justified j ty l"
  "replaceable j o1 (save_harness_state st2 l) = replaceable j o1 l"
  "done_inv (append_event_as E ac h i n d l) = done_inv l" "justified j ty (append_event_as E ac h i n d l) = justified j ty l"
  "replaceable j o1 (append_event_as E ac h i n d l) = replaceable j o1 l"
  by (rule done_inv_frame; simp)+

lemma done_save_task [intro!]:
  assumes "done_inv l" "tk_status_stage u = S_done \<Longrightarrow> justified (tk_id u) (tk_task_type u) l"
  shows "done_inv (save_task u l)"
proof -
  have ok: "dir_ok tk_id (l_tasks l)" using assms(1) by (simp add: done_inv_def)
  have [simp]: "tk_task_type (persist_task u) = tk_task_type u" by (simp add: persist_task_def)
  have "\<forall>t \<in> snd ` set (dir_put (tk_id u) (persist_task u) (l_tasks l)).
      tk_status_stage t = S_done \<longrightarrow> justified (tk_id t) (tk_task_type t) l"
    unfolding dir_put_records [OF ok, of "persist_task u" "tk_id u", simplified]
    using assms by (auto simp: done_inv_def)
  then show ?thesis
    using assms(1) ok
    by (simp add: done_inv_def dir_ok_save_task) (simp add: save_task_def)
qed

lemma done_runs_of_save:
  assumes "done_inv l"
  shows "runs_of (save_run r l) t =
    (if t = rn_task_id r then insert (persist_run r) {x \<in> runs_of l t. rn_run_id x \<noteq> rn_run_id r}
     else runs_of l t)"
proof -
  have "dir_ok rn_run_id (l_runs l t)" using assms by (simp add: done_inv_def)
  from dir_put_records [OF this, of "persist_run r" "rn_run_id r"] show ?thesis
    by (cases "t = rn_task_id r") (simp_all add: runs_of_def save_run_def)
qed

lemma justified_save_run [intro!]:
  "done_inv l \<Longrightarrow> replaceable (rn_task_id r) (rn_run_id r) l \<Longrightarrow> justified j ty l \<Longrightarrow> justified j ty (save_run r l)"
  by (auto simp: justified_def done_runs_of_save replaceable_def)

lemma done_invD:
  assumes "done_inv l"
  shows "\<forall>t \<in> snd ` set (l_tasks l). tk_status_stage t = S_done
    \<longrightarrow> justified (tk_id t) (tk_task_type t) l"
  using assms unfolding done_inv_def by (elim conjE)

lemma done_save_run [intro!]:
  assumes "done_inv l" "replaceable (rn_task_id r) (rn_run_id r) l"
  shows "done_inv (save_run r l)"
proof -
  have "dir_ok rn_run_id (l_runs (save_run r l) t)" for t
    using assms(1) by (auto simp: done_inv_def save_run_def)
  moreover have "\<forall>x \<in> runs_of (save_run r l) t. rn_task_id x = t" for t
    using assms(1) by (simp add: done_runs_of_save [OF assms(1)]) (simp add: done_inv_def)
  moreover have "\<forall>t \<in> snd ` set (l_tasks l). tk_status_stage t = S_done
      \<longrightarrow> justified (tk_id t) (tk_task_type t) (save_run r l)"
    by (intro ballI impI justified_save_run [OF assms]) (use done_invD [OF assms(1)] in blast)
  ultimately show ?thesis using assms(1) by (simp add: done_inv_def)
qed

lemma replaceable_running:
  assumes "done_inv l" "x \<in> runs_of l t" "rn_status x \<noteq> RS_finished"
  shows "replaceable (rn_task_id x) (rn_run_id x) l"
proof -
  have "rn_task_id x = t" "dir_ok rn_run_id (l_runs l t)"
    using assms(1,2) by (simp_all add: done_inv_def)
  then show ?thesis
    using runs_same_id [OF _ _ assms(2)] assms(3)
    by (auto simp: replaceable_def passed_run_def)
qed

lemma replaceable_new: "i \<notin> rn_run_id ` runs_of l t \<Longrightarrow> replaceable t i l"
  by (auto simp: replaceable_def rev_image_eqI)

lemma replaceable_started:
  assumes "ids_ok E"
  shows "replaceable (tk_id task) (rn_run_id (new_run E task kind actor harness l)) l"
  using ids_okD(2) [OF assms, of "''run''" "map rn_run_id (list_runs (tk_id task) l)"]
  by (intro replaceable_new) (simp add: new_run_def list_runs_of)

lemma done_resolved:
  assumes "done_inv l" "resolve_task E b ref l = Inr t" "tk_status_stage t = S_done"
  shows "justified (tk_id t) (tk_task_type t) l"
proof -
  have "dir_get (l_tasks l) (tk_id t) = Some t"
    using assms by (auto simp: done_inv_def intro: resolve_task_stored)
  then have "t \<in> snd ` set (l_tasks l)" by (auto dest!: dir_get_mem intro: rev_image_eqI)
  then show ?thesis using assms unfolding done_inv_def by blast
qed

lemma task_with_sidecars_type [simp]:
  "tk_task_type (task_with_sidecars t l) = tk_task_type t"
  by (simp add: task_with_sidecars_def)

lemma question_done:
  "keeps done_inv (add_question E ref text req ac h)"
  "keeps done_inv (answer_question E ref q text ac src)"
  "keeps done_inv (dismiss_question E ref q)"
  unfolding add_question_def answer_question_def dismiss_question_def save_new_question_def Let_def
  by (intro keepsI wp_intro; simp)+

lemma task_done:
  "keeps done_inv (edit_task E ref ea)" "keeps done_inv (uncancel_task E ref tgt reason ac flag)"
  "keeps done_inv (close_task E ref note)"
  "keeps done_inv (archive_task E ref reason flag)"
  "keeps done_inv (unarchive_task E ref reason slug flag)"
  unfolding edit_task_def uncancel_task_def close_task_def archive_task_def unarchive_task_def unarchived_task_def Let_def
  by (intro keepsI wp_intro; auto dest: done_resolved)+

lemma coll_done:
  "keeps done_inv (add_requirement E ref req)" "keeps done_inv (remove_requirement E ref req)"
  "keeps done_inv (waive_requirement E ref req at reason)"
  "keeps done_inv (add_file_link E fs ref la)" "keeps done_inv (remove_file_link E ref path)"
  "keeps done_inv (refresh_file_baseline E fs ref path reason)"
  "keeps done_inv (add_todo E ref text src m)" "keeps done_inv (set_todo_done E ref todo da)"
  "keeps done_inv (reject_plan E ref oreason)"
  unfolding add_requirement_def remove_requirement_def waive_requirement_def add_file_link_def remove_file_link_def
    refresh_file_baseline_def add_todo_def set_todo_done_def reject_plan_def Let_def
  by (intro keepsI wp_intro; auto dest: done_resolved)+

lemma done_started:
  assumes "done_inv l" "replaceable (tk_id task) (rn_run_id run) l" "rn_task_id run = tk_id task"
  shows "done_inv (started_ledger E task kind run h l)"
    "justified j ty l \<Longrightarrow> justified j ty (started_ledger E task kind run h l)"
  using assms by (auto simp: started_ledger_def locked_ledger_def Let_def)

lemma replaceable_holds:
  assumes "done_inv l" "x \<in> runs_of l t" "holds_run kind lock (Some x)"
  shows "replaceable (rn_task_id x) (rn_run_id x) l"
  using assms holds_runD(2) [OF assms(3)] by (intro replaceable_running) auto

lemma run_done:
  "keeps done_inv (log_implementation E ref msg)"
  "keeps done_inv (add_implementation_deviation E ref msg)"
  "keeps done_inv (add_implementation_artifact E ref path summary)"
  "keeps done_inv (add_change E ref cg)" "keeps done_inv (add_validation_check E ref ck)"
  "keeps done_inv (waive_criterion E ref crit reason nm)"
  unfolding log_implementation_def add_implementation_deviation_def add_implementation_artifact_def add_change_def
    add_validation_check_def waive_criterion_def Let_def
  by (intro keepsI wp_intro; auto dest: done_resolved replaceable_holds)+

lemma lock_done:
  "keeps done_inv (break_lock E ref reason)" "keeps done_inv (close_handoff E i j o1)"
  "keeps done_inv (cancel_handoff E i j o2)"
   "keeps done_inv (transfer_lock E i j ac h)" "keeps done_inv (handoff_release_lock E i j)"
  unfolding break_lock_def close_handoff_def cancel_handoff_def transfer_lock_def save_lock_def write_lock_def
    handoff_release_lock_def Let_def
  by (intro keepsI wp_intro; auto dest: done_resolved replaceable_holds)+

lemma resolve_frames [simp]:
  "resolve_task E b ref (started_ledger E' task kind run h l) = resolve_task E b ref l"
  by (simp add: started_ledger_def Let_def)

lemma start_done:
  assumes "ids_ok E"
  shows "keeps done_inv (start_planning E ref oa oh)"
    "keeps done_inv (start_implementation_for_task E task oa oh)"
  unfolding start_planning_def start_implementation_for_task_def Let_def
  by (intro keepsI wp_intro; auto dest: done_resolved intro!: done_started replaceable_started [OF assms])+

lemma replaceable_started_run:
  assumes "done_inv l" "replaceable (tk_id task) (rn_run_id run) l" "rn_task_id run = tk_id task" "rn_status run = RS_running"
  shows "replaceable (tk_id task) (rn_run_id run) (started_ledger E task kind run h l)"
proof -
  have "runs_of (started_ledger E task kind run h l) = runs_of (save_run run l)"
    by (auto simp: started_ledger_def Let_def fun_eq_iff)
  then show ?thesis
    using assms by (auto simp: replaceable_def done_runs_of_save passed_run_def)
qed

lemma restart_done:
  assumes "ids_ok E"
  shows "keeps done_inv (restart_implementation E ref summary oa oh)"
    "keeps done_inv (start_validation E ref oa oh)"
  unfolding restart_implementation_def start_validation_def Let_def
  by (intro keepsI wp_intro; auto dest: done_resolved intro!: done_started replaceable_started_run replaceable_started [OF assms])+

lemma resume_done:
    "keeps done_inv (resume_implementation E ref orun reason oa oh flag)"
  unfolding resume_implementation_def clear_resume_lock_def release_expired_lock_def acquire_lock_def write_lock_def Let_def
  by (intro keepsI wp_intro; auto dest: done_resolved)

lemma replaceable_required:
  "require_running_run E task i kind l = Inr r \<Longrightarrow> done_inv l \<Longrightarrow> replaceable (rn_task_id r) (rn_run_id r) l"
  by (auto dest: require_running_runD intro!: replaceable_running)

lemma justified_passed:
  assumes "done_inv l" "r \<in> runs_of l i" "rn_run_type r = RT_validation"
  shows "justified i ty (save_run (r\<lparr>rn_status := RS_finished, rn_finished_at := f,
    rn_summary := su, rn_recommendation := recom, rn_result := Some VR_passed\<rparr>) l)"
proof -
  have "rn_task_id r = i" using assms(1,2) by (simp add: done_inv_def)
  then show ?thesis
    using assms(3) by (auto simp: justified_def done_runs_of_save [OF assms(1)] passed_run_def persist_run_def)
qed

lemma justified_required:
  assumes "require_running_run E task i RT_validation l = Inr r" "done_inv l"
  shows "justified (tk_id task) ty (save_run (r\<lparr>rn_status := RS_finished, rn_finished_at := f,
    rn_summary := su, rn_recommendation := recom, rn_result := Some VR_passed\<rparr>) l)"
  using require_running_runD [OF assms(1)] by (intro justified_passed [OF assms(2)])

lemma finish_implementation_done: "keeps done_inv (finish_implementation E ref summary)"
  unfolding finish_implementation_def release_lock_def Let_def
  by (intro keepsI wp_intro; auto dest: done_resolved; rule replaceable_required; assumption)

lemma finish_validation_done:
  "keeps done_inv (finish_validation E ref result summary recom)"
  unfolding finish_validation_def release_lock_def Let_def
  by (intro keepsI wp_intro; auto dest: done_resolved del: justified_save_run;
      (rule replaceable_required justified_required; assumption))

lemma propose_done: "keeps done_inv (propose_plan E ref body crit)"
  unfolding propose_plan_def release_lock_def Let_def
  by (intro keepsI wp_intro) (auto simp: plan_propose_allowed  dest: done_resolved;
     rule replaceable_holds; assumption?; erule require_run_of)+

lemma materialize_done: "keeps done_inv (materialize_plan_todos E ref v flag)"
  unfolding materialize_plan_todos_def Let_def
  by (intro keepsI wp_intro; auto dest: done_resolved)

lemma done_fold_overwrite [simp]: "done_inv (fold (\<lambda>p. overwrite_plan (g p)) ps l) = done_inv l"
  by (induction ps arbitrary: l) simp_all

lemma approve_done: "keeps done_inv (approve_plan E ref aa)"
  unfolding approve_plan_def Let_def
  by (intro keepsI wp_intro wp_forE_fold wp_keeps [OF materialize_done]; auto)

lemma guidance_done: "keeps done_inv (mark_planning_guidance_viewed E ref)"
  unfolding mark_planning_guidance_viewed_def Let_def
  by (intro keepsI wp_intro; auto; rule replaceable_running; (assumption | rule optional_run_of [OF sym] | simp))

lemma store_regenerated_done:
  assumes inv: "done_inv l" and runs: "regeneration_run E task l = Inr runs"
    and task: "resolve_task E b ref l = Inr task"
  shows "wp (store_regenerated_plan E task plans plan plan_body runs)
    (\<lambda>_. done_inv) (\<lambda>_. done_inv) l"
proof -
  obtain a b where ab: "runs = (a, b)" by fastforce
  have dirs: "dir_ok rn_run_id (l_runs l (tk_id task))"
    "\<forall>r \<in> runs_of l (tk_id task). rn_task_id r = tk_id task"
    using inv by (simp_all add: done_inv_def)
  have free: "replaceable (rn_task_id r) (rn_run_id r) l"
    if "r \<in> runs_of l t" "rn_status r = RS_running" for r t
    using replaceable_running [OF inv that(1)] that(2) by simp
  consider "a = None" "b = None"
    | r where "r \<in> runs_of l (tk_id task)" "rn_status r = RS_running" "a = Some r" "b = None"
    | r where "r \<in> runs_of l (tk_id task)" "rn_status r = RS_running" "a = None" "b = Some r"
    using regeneration_runD [OF runs [unfolded ab] dirs] by blast
  then show ?thesis
    unfolding store_regenerated_plan_def release_lock_def Let_def ab fst_conv snd_conv
    by cases (use inv in \<open>simp; intro wp_intro; auto dest: free\<close>)+
qed

lemma regenerate_done: "keeps done_inv (regenerate_plan_from_answers E ref body crit allow)"
  unfolding regenerate_plan_from_answers_def Let_def
  by (intro keepsI wp_intro store_regenerated_done; assumption)

lemma composed_done:
  assumes "ids_ok E"
  shows "keeps done_inv (upsert_plan E ref body ua)" "keeps done_inv (revise_plan E ref)"
    "keeps done_inv (start_implementation E ref oa oh)"
    "keeps done_inv (scan_changes E git ref flag summary)"
  unfolding upsert_plan_def revise_plan_def start_implementation_def scan_changes_def Let_def
  by (intro keeps_intro start_done [OF assms] propose_done regenerate_done run_done)+

lemma plain_writes_done [keeps_intro]:
  "keeps done_inv (modifyE (save_question q))" "keeps done_inv (modifyE (append_event E i n d))"
  "keeps done_inv (modifyE (save_active_task_state st))"
  "keeps done_inv (modifyE clear_active_task_state)" "keeps done_inv (modifyE (save_handoff h))"
  "keeps done_inv (modifyE (\<lambda>l. l\<lparr>l_next_task_number := number\<rparr>))"
  "keeps done_inv (modifyE (append_event_as E ac9 h9 i n d))"
  "keeps done_inv (modifyE (save_introduction intro))" "keeps done_inv (modifyE (put_release i8 rel))"
  "keeps done_inv (modifyE (save_actor_state st1))" "keeps done_inv (modifyE (save_harness_state st2))"
  by (rule keeps_modifyE; simp)+

lemma answer_each_done: "keeps done_inv (answer_each E i ac src answers)"
  by (induction E i ac src answers rule: answer_each.induct)
    (auto intro!: keeps_intro question_done)

lemma batch_done:
    "keeps done_inv (add_questions E ref qs ac2 h flag)"
    "keeps done_inv (answer_questions E ref answers ac3 src)"
  unfolding add_questions_def answer_questions_def save_new_question_def
  by (intro keeps_intro answer_each_done)+

lemma active_done:
    "keeps done_inv (activate_task E ref reason at force)"
    "keeps done_inv (clear_active_task E reason2 at force)"
  unfolding activate_task_def clear_active_task_def switch_active_task_def
  by (intro keeps_intro)+

lemma apply_policy_done: "keeps done_inv (apply_lock_policy E i handoff actor harness)"
  unfolding apply_lock_policy_def with_source_lock_def
  by (intro keeps_intro lock_done)+

lemma claim_done: "keeps done_inv (claim_handoff E i hid actor harness orun)"
  unfolding claim_handoff_def by (intro keeps_intro apply_policy_done)+

lemma allocate_done: "keeps done_inv (allocate_task E slug title)"
  unfolding allocate_task_def allocate_task_id_and_advance_def case_prod_beta by (intro keeps_intro)+

lemma new_task_stage [simp]: "tk_status_stage (new_task E i s ti b) = S_draft"
  by (simp add: new_task_def)

lemma create_done:
    "keeps done_inv (create_task E ca)"
    "keeps done_inv (create_follow_up_task E ref fu)"
  unfolding create_task_def create_follow_up_task_def Let_def
  by (intro keepsI wp_intro wp_keeps [OF allocate_done] wp_keeps [OF active_done(1)]; auto)+

lemma cancel_done: "keeps done_inv (cancel_task E ref oreason)"
  unfolding cancel_task_def release_lock_def Let_def
  by (intro keepsI wp_intro; auto)

lemma replaceable_save_run:
  "done_inv l \<Longrightarrow> replaceable t i l \<Longrightarrow> \<not> passed_run r \<Longrightarrow> replaceable t i (save_run r l)"
  by (auto simp: replaceable_def done_runs_of_save passed_run_def persist_run_def)

lemma recorded_not_passed [simp]:
  "\<not> passed_run (recorded_implementation_run E a task ids)"
  "\<not> passed_run (recorded_implementation_run E a task ids\<lparr>rn_change_refs := cs\<rparr>)"
  by (simp_all add: passed_run_def recorded_implementation_run_def recorded_run_def)

lemma recorded_run_ids [simp]:
  "rn_task_id (recorded_implementation_run E a task ids) = tk_id task"
  "rn_run_id (recorded_implementation_run E a task ids) = next_project_id E ''run'' ids"
  by (simp_all add: recorded_implementation_run_def recorded_run_def)

lemma recorded_validation_ids:
  "recorded_validation_run E a task i ids = Some r \<Longrightarrow>
    rn_task_id r = tk_id task \<and> rn_run_id r = next_project_id E ''run'' (ids @ [i])"
  by (auto simp: recorded_validation_run_def recorded_run_def split: if_splits)

lemma store_recorded_work_done:
  assumes "done_inv l" "tk_task_type task = TT_recorded"
    "replaceable (tk_id task) (next_project_id E ''run'' ids) l"
    "replaceable (tk_id task) (next_project_id E ''run'' (ids @ [next_project_id E ''run'' ids])) l"
  shows "wp (store_recorded_work E a task (recorded_implementation_run E a task ids) ids)
    (\<lambda>_. done_inv) (\<lambda>_. done_inv) l"
proof -
  let ?v = "next_project_id E ''run'' (ids @ [next_project_id E ''run'' ids])"
  let ?K = "\<lambda>l. done_inv l \<and> replaceable (tk_id task) (next_project_id E ''run'' ids) l
    \<and> replaceable (tk_id task) ?v l"
  have just: "justified (tk_id task) TT_recorded l" for l by (simp add: justified_def)
  have events: "keeps done_inv (record_events E a task i v cs)" for i v cs
    unfolding record_events_def by (intro keeps_intro)
  show ?thesis
    unfolding store_recorded_work_def Let_def
    by (intro wp_intro wp_forE_modify [where P = ?K] wp_keeps [OF events])
      (use assms(1-4) in \<open>auto simp: just justified_def intro!: replaceable_save_run
         dest!: recorded_validation_ids\<close>)
qed

lemma recorded_task_type [simp]: "tk_task_type (recorded_task E a i s) = TT_recorded"
  by (simp add: recorded_task_def)

lemma record_done:
  assumes "ids_ok E"
  shows "keeps done_inv (record_completed_task E a)"
proof -
  have stored: "wp (store_recorded_work E a task (recorded_implementation_run E a task
        (map rn_run_id (list_runs (tk_id task) l))) (map rn_run_id (list_runs (tk_id task) l)))
      (\<lambda>_. done_inv) (\<lambda>_. done_inv)
      (save_run (recorded_implementation_run E a task (map rn_run_id (list_runs (tk_id task) l))) l)"
    if "done_inv l" "tk_task_type task = TT_recorded" for task l
  proof -
    let ?ids = "map rn_run_id (list_runs (tk_id task) l)"
    have "replaceable (tk_id task) i l" if "i \<notin> set ?ids" for i
      using that by (intro replaceable_new) (simp add: list_runs_of)
    then have "replaceable (tk_id task) (next_project_id E ''run'' ?ids) l"
      "replaceable (tk_id task) (next_project_id E ''run'' (?ids @ [next_project_id E ''run'' ?ids])) l"
      using ids_okD(2) [OF assms, of "''run''" ?ids]
        ids_okD(2) [OF assms, of "''run''" "?ids @ [next_project_id E ''run'' ?ids]"] by auto
    then show ?thesis
      using that by (intro store_recorded_work_done) (auto intro!: replaceable_save_run)
  qed
  show ?thesis
    unfolding record_completed_task_def Let_def
    by (intro keepsI wp_intro wp_keeps [OF allocate_done]) (auto simp: justified_def intro!: stored)
qed

lemma wp_artifact_done:
  assumes "done_inv l"
    and "\<And>r l'. done_inv l' \<Longrightarrow> (\<And>j i. replaceable j i l' = replaceable j i l)
      \<Longrightarrow> (\<And>j ty. justified j ty l' = justified j ty l) \<Longrightarrow> Q r l'"
  shows "wp (output_artifact E task_id run_id output) Q X l"
  unfolding output_artifact_def write_command_artifact_def
  by (intro wp_intro assms(2)) (use assms(1) in auto)

lemma work_done:
  "keeps done_inv (add_check E ref kc)" "keeps done_inv (record_code_review E git sha256 ref va)"
  "keeps done_inv (link_introduction E ref iref)"
  unfolding add_check_def record_code_review_def link_introduction_def Let_def
  by (intro keepsI wp_intro; auto dest: done_resolved replaceable_holds)+

lemma implementation_command_done:
  "keeps done_inv (run_implementation_command E completed ref argv)"
  unfolding run_implementation_command_def
  by (intro keepsI wp_artifact_done wp_intro wp_keeps [OF work_done(1)]) auto

lemma planning_command_done: "keeps done_inv (run_planning_command E completed ref argv)"
  unfolding run_planning_command_def Let_def
  by (intro keepsI wp_artifact_done wp_intro)
    (auto intro: replaceable_required dest: done_resolved)

lemma replaceable_live:
  "done_inv l \<Longrightarrow> x \<in> runs_of l t \<Longrightarrow> rn_status x = RS_running \<Longrightarrow> replaceable (rn_task_id x) (rn_run_id x) l"
  by (rule replaceable_running) auto

lemma repair_run_done: "keeps done_inv (repair_orphaned_planning_run E ref orun reason)"
  unfolding repair_orphaned_planning_run_def Let_def
  by (intro keepsI wp_intro) (auto dest!: require_run_of intro: replaceable_live)

text \<open>The runs that the repair of recorded commands rewrites are planning runs.\<close>

lemma move_change_done:
  assumes "done_inv l" "planning_run_of_change E task change l = Some run"
    "tk_status_stage task = S_done \<Longrightarrow> justified (tk_id task) (tk_task_type task) l"
  shows "wp (move_change E task reason change run)
    (\<lambda>_ l'. done_inv l' \<and> (tk_status_stage task = S_done \<longrightarrow> justified (tk_id task) (tk_task_type task) l'))
    (\<lambda>_ l'. done_inv l' \<and> (tk_status_stage task = S_done \<longrightarrow> justified (tk_id task) (tk_task_type task) l')) l"
proof -
  have run: "run \<in> runs_of l (tk_id task)" "rn_run_type run = RT_planning"
    using assms(2) planning_run_of_change_of [OF assms(2)]
    by (auto simp: planning_run_of_change_def split: if_splits option.splits)
  have "replaceable (rn_task_id run) (rn_run_id run) l"
  proof -
    have "rn_task_id run = tk_id task" "dir_ok rn_run_id (l_runs l (tk_id task))"
      using assms(1) run(1) by (simp_all add: done_inv_def)
    then have "x = run" if "x \<in> runs_of l (tk_id task)" "rn_run_id x = rn_run_id run" for x
      using runs_same_id [OF _ that(1) run(1) that(2)] by blast
    then show ?thesis
      using run(2) \<open>rn_task_id run = tk_id task\<close> by (fastforce simp: replaceable_def passed_run_def)
  qed
  then show ?thesis
    unfolding move_change_def Let_def
    by (intro wp_intro) (use assms(1,3) in auto)
qed

lemma repair_each_done:
  assumes "done_inv l" "tk_status_stage task = S_done \<Longrightarrow> justified (tk_id task) (tk_task_type task) l"
  shows "wp (repair_each E task reason dry_run changes) (\<lambda>_. done_inv) (\<lambda>_. done_inv) l"
  using assms
proof (induction changes arbitrary: l)
  case (Cons change changes)
  have rest: "wp (bindE (repair_each E task reason dry_run changes) (\<lambda>x. returnE (h # x)))
      (\<lambda>_. done_inv) (\<lambda>_. done_inv) l"
    if "done_inv l" "tk_status_stage task = S_done \<longrightarrow> justified (tk_id task) (tk_task_type task) l" for h l
  proof -
    have ret: "wp (returnE y) Q X = Q y" for y :: "string list" and Q and X :: "error \<Rightarrow> ledger \<Rightarrow> bool"
      by (simp add: fun_eq_iff wp_returnE)
    show ?thesis using Cons.IH that by (simp add: wp_bindE ret)
  qed
  show ?case
  proof (cases "planning_run_of_change E task change l")
    case None
    then show ?thesis using Cons by (simp add: wp_simps)
  next
    case (Some run)
    have "wp (move_change E task reason change run)
        (\<lambda>_. wp (bindE (repair_each E task reason dry_run changes) (\<lambda>x. returnE (ch_change_id change # x)))
          (\<lambda>_. done_inv) (\<lambda>_. done_inv)) (\<lambda>_. done_inv) l"
      by (rule wp_mono [OF move_change_done [OF Cons.prems(1) Some Cons.prems(2)]]) (auto intro: rest)
    then show ?thesis
      using Some rest [of l] Cons.prems
      by (auto simp: whenE_def wp_thenE wp_bindE [of "getsE f" for f] wp_getsE wp_returnE [of "()"])
  qed
qed (auto intro: wp_intro)

lemma repair_done:
  "keeps done_inv (repair_planning_command_changes E ref reason dry_run)"
  "keeps done_inv (repair_task_record E ref reason)"
  unfolding repair_planning_command_changes_def repair_task_record_def
  by (intro keepsI wp_intro repair_each_done; auto dest: done_resolved)+

lemma release_done: "keeps done_inv (tag_release E ta)" "keeps done_inv (create_introduction E title body oslug labels)"
  unfolding tag_release_def save_release_def append_release_event_def create_introduction_def Let_def
  by (intro keeps_intro)+

lemma identity_done:
  "keeps done_inv (actor_set actor_type actor_name role tool session_id)" "keeps done_inv actor_clear"
  "keeps done_inv (harness_set name kind session_id)" "keeps done_inv harness_clear"
  unfolding actor_set_def actor_clear_def harness_set_def harness_clear_def Let_def
  by (intro keeps_intro)+

lemmas done_commands = question_done task_done coll_done run_done lock_done resume_done
  finish_implementation_done finish_validation_done propose_done materialize_done approve_done
  guidance_done regenerate_done batch_done active_done claim_done create_done cancel_done
  work_done implementation_command_done planning_command_done repair_run_done repair_done
  release_done identity_done

lemma done_step:
  assumes "ids_ok E" "done_inv l" "step E l l'"
  shows "done_inv l'"
  using assms(3,2)
  by cases (auto intro: done_commands [THEN keeps_snd] composed_done [OF assms(1), THEN keeps_snd]
      start_done [OF assms(1), THEN keeps_snd] restart_done [OF assms(1), THEN keeps_snd]
      record_done [OF assms(1), THEN keeps_snd])

interpretation completion: system_invariant done_inv
proof
  show "done_inv empty_ledger"
    by (simp add: done_inv_def empty_ledger_def runs_of_def)
qed (rule done_step)

end
