(* ===== verification/Atomicity.thy ===== *)
theory Atomicity
  imports Questions Collections Handoffs Commands Reviews Repair
begin

text \<open>
  Commands that check everything before their first write: when they raise, the ledger is the
  one they were called on. The commands that are not listed write before their last check; the
  root theory says what they may leave behind.
\<close>

definition atomic :: "'a command \<Rightarrow> bool" where
  "atomic m \<longleftrightarrow> (\<forall>l. wp m (\<lambda>_ _. True) (\<lambda>_ l'. l' = l) l)"

lemma modify_modify: "thenE (modifyE f) (modifyE g) = modifyE (\<lambda>l. g (f l))"
  by (simp add: thenE_def bindE_def modifyE_def fun_eq_iff)

lemma question_atomic:
  "atomic (add_question E ref text req ac h)" "atomic (answer_question E ref q text ac src)"
  "atomic (dismiss_question E ref q)"
  unfolding atomic_def add_question_def answer_question_def dismiss_question_def
    save_new_question_def Let_def
  by (intro allI wp_intro; simp)+

lemma add_questions_atomic: "atomic (add_questions E ref qs ac h flag)"
  unfolding atomic_def add_questions_def save_new_question_def modify_modify Let_def
  by (intro allI wp_intro wp_forE_fold; simp)

lemma task_atomic:
  "atomic (edit_task E ref ea)" "atomic (uncancel_task E ref target reason ac flag)"
  "atomic (close_task E ref note)" "atomic (archive_task E ref reason flag)"
  "atomic (unarchive_task E ref reason slug flag)" "atomic (reject_plan E ref oreason)"
  unfolding atomic_def edit_task_def uncancel_task_def close_task_def archive_task_def
    unarchive_task_def reject_plan_def Let_def
  by (intro allI wp_intro; simp)+

lemma collection_atomic:
  "atomic (add_requirement E ref req)" "atomic (remove_requirement E ref req)"
  "atomic (waive_requirement E ref req actor_type reason)" "atomic (add_file_link E fs ref la)"
  "atomic (remove_file_link E ref path)" "atomic (refresh_file_baseline E fs ref path reason)"
  "atomic (add_todo E ref text src flag)" "atomic (set_todo_done E ref todo da)"
  unfolding atomic_def add_requirement_def remove_requirement_def waive_requirement_def
    add_file_link_def remove_file_link_def refresh_file_baseline_def add_todo_def
    set_todo_done_def Let_def
  by (intro allI wp_intro; simp)+

lemma run_atomic:
  "atomic (log_implementation E ref msg)" "atomic (add_implementation_deviation E ref msg)"
  "atomic (add_implementation_artifact E ref path msg)" "atomic (add_change E ref cg)"
  "atomic (add_validation_check E ref ck)" "atomic (waive_criterion E ref crit reason name)"
  unfolding atomic_def log_implementation_def add_implementation_deviation_def
    add_implementation_artifact_def add_change_def add_validation_check_def waive_criterion_def
    Let_def
  by (intro allI wp_intro; simp)+

lemma lock_atomic:
  "atomic (break_lock E ref reason)" "atomic (transfer_lock E i j ac h)"
  "atomic (close_handoff E i j oreason)" "atomic (cancel_handoff E i j oreason)"
  unfolding atomic_def break_lock_def transfer_lock_def close_handoff_def cancel_handoff_def
    save_lock_def write_lock_def Let_def
  by (intro allI wp_intro; simp)+

lemma side_atomic:
  "atomic (add_check E ref kc)" "atomic (record_code_review E git sha256 ref va)"
  "atomic (link_introduction E ref iref)" "atomic (repair_task_record E ref reason)"
  "atomic (repair_orphaned_planning_run E ref orun reason)"
  "atomic (actor_set actor_type name role tool session)"
  "atomic (harness_set name2 kind session)"
  unfolding atomic_def add_check_def record_code_review_def link_introduction_def
    repair_task_record_def repair_orphaned_planning_run_def actor_set_def harness_set_def Let_def
  by (intro allI wp_intro; simp)+

end
