(* ===== verification/Outcomes.thy ===== *)
theory Outcomes
  imports Completion Atomicity
begin

text \<open>
  The vocabulary in which the properties state what a command did to the ledger: the stage stored
  for a task, a requirement that is met, a criterion of the accepted plan, a command that needs a
  task that is not archived.
\<close>

definition stored_stage :: "string \<Rightarrow> ledger \<Rightarrow> TaskStatusStage option" where
  "stored_stage i l = map_option tk_status_stage (dir_get (l_tasks l) i)"

definition requirement_met :: "env \<Rightarrow> ledger \<Rightarrow> DependencyRequirement \<Rightarrow> bool" where
  "requirement_met E l r \<longleftrightarrow> has_user_waiver (dr_waiver r)
     \<or> (\<exists>t. resolve_task E False (dr_task_id r) l = Inr t \<and> tk_status_stage t = S_done)"

definition accepted_criterion :: "TaskRecord \<Rightarrow> string \<Rightarrow> ledger \<Rightarrow> bool" where
  "accepted_criterion task c l \<longleftrightarrow>
     (\<exists>v p. tk_accepted_plan_version task = Some v \<and> resolve_plan (tk_id task) (Some v) l = Inr p
        \<and> c \<in> ac_id ` set (pl_criteria p))"

definition needs_live_task :: "env \<Rightarrow> string \<Rightarrow> 'a command \<Rightarrow> bool" where
  "needs_live_task E ref m \<longleftrightarrow>
     (\<forall>l. wp m (\<lambda>_ _. \<exists>task. resolve_task E False ref l = Inr task \<and> \<not> is_archived_task task)
       (\<lambda>_ _. True) l)"

lemma runs_of_remove_lock [simp]: "runs_of (remove_lock t l) = runs_of l"
  by (simp add: runs_of_def remove_lock_def fun_eq_iff)

lemma saved_run_stored: "rn_task_id run = t \<Longrightarrow> persist_run run \<in> runs_of (save_run run l) t"
proof -
  assume t: "rn_task_id run = t"
  have "(rn_run_id run, persist_run run)
      \<in> set (dir_put (rn_run_id run) (persist_run run) (l_runs l (rn_task_id run)))"
    by (rule dir_get_mem) (simp add: dir_get_put)
  then show ?thesis by (auto simp: save_run_def runs_of_def t [symmetric] intro: rev_image_eqI)
qed

lemma read_lock_update [simp]:
  "read_lock t (update_lock i k l) = (if t = i then Some k else read_lock t l)"
  by (simp add: read_lock_def update_lock_def dir.get_put)

lemma stored_stage_frame [simp]:
  "stored_stage i (append_event E t n d l) = stored_stage i l"
  "stored_stage i (save_run r l) = stored_stage i l"
  "stored_stage i (remove_lock t l) = stored_stage i l"
  "stored_stage i (save_task u l) = (if i = tk_id u then Some (tk_status_stage u) else stored_stage i l)"
  by (simp_all add: stored_stage_def dir_get_save_task remove_lock_def)

lemma no_incomplete_requirements:
  "incomplete_requirements E rs l = Inr [] \<longleftrightarrow> list_all (requirement_met E l) rs"
  by (induction rs) (auto simp: requirement_met_def bindR_def split: sum.splits if_splits)

lemma accepted_criterion_known:
  "resolve_accepted_criterion E task ref l = Inr c \<Longrightarrow> accepted_criterion task c l"
  by (auto simp: accepted_criterion_def resolve_accepted_criterion_def resolve_criterion_ref_def bindR_def Let_def
      split: option.splits sum.splits if_splits dest!: find_SomeD)

lemma wp_live:
  assumes "\<And>task. resolve_task E False ref l = Inr task \<Longrightarrow> \<not> is_archived_task task \<Longrightarrow> wp (f task) Q X l"
    and "\<And>e. X e l"
  shows "wp (bindE (readE (resolve_task E False ref)) (\<lambda>task. thenE (ensure_not_archived task) (f task))) Q X l"
  by (intro wp_intro assms)

lemma needs_live_task_guard:
  "needs_live_task E ref (bindE (readE (resolve_task E False ref))
     (\<lambda>task. thenE (ensure_not_archived task) (f task)))"
  unfolding needs_live_task_def by (intro allI wp_live wp_top) auto

end
