(* ===== verification/LockDiagnosis.thy ===== *)
theory LockDiagnosis
  imports Locks Actors
begin

text \<open>
  What a lock tells about its holder: \<open>taskledger/services/lock_diagnostics.py\<close>, \<open>lock_status\<close> of
  \<open>storage/locks.py\<close>, \<open>show_lock\<close> and \<open>list_locks\<close> of \<open>services/run_store.py\<close> and \<open>_lock_payload\<close>
  of \<open>services/usage.py\<close>. The probe of a process id is \<open>e_pid_check\<close>.
\<close>

section \<open>Hosts, actors and time\<close>

datatype LockClassification =
    LC_none | LC_expired | LC_live_local_process | LC_dead_local_process | LC_unverifiable
  | LC_no_pid | LC_same_actor | LC_harness_session | LC_other_actor

definition short_host :: "string \<Rightarrow> string" where
  "short_host h = takeWhile (\<lambda>c. c \<noteq> CHR ''.'') h"

definition current_host_name :: "env \<Rightarrow> string" where
  "current_host_name E = short_host (if e_host E \<noteq> [] then e_host E else e_node E)"

definition host_matches :: "env \<Rightarrow> string option \<Rightarrow> string \<Rightarrow> bool" where
  "host_matches E holder_host current_host =
     (case holder_host of
        None \<Rightarrow> False
      | Some h \<Rightarrow>
          if h = [] then False
          else let candidates = filter (\<lambda>c. c \<noteq> [])
                 [e_host E, e_fqdn E, e_node E, current_host,
                  short_host (e_host E), short_host (e_fqdn E), short_host (e_node E)]
               in h \<in> set candidates \<or> short_host h \<in> set candidates)"

definition actor_matches :: "ActorRef \<Rightarrow> ActorRef option \<Rightarrow> bool" where
  "actor_matches holder current_actor =
     (case current_actor of
        None \<Rightarrow> False
      | Some a \<Rightarrow>
          if is_set (ar_actor_id holder) \<and> is_set (ar_actor_id a)
          then ar_actor_id holder = ar_actor_id a
          else if ar_actor_type holder \<noteq> ar_actor_type a then False
          else ar_actor_name holder = ar_actor_name a)"

text \<open>\<open>int\<close> of a difference in seconds cuts the fraction off.\<close>

definition seconds_until_expiry :: "env \<Rightarrow> TaskLock \<Rightarrow> int option" where
  "seconds_until_expiry E lock =
     (if \<not> is_set (lk_expires_at lock) then None
      else case fromisoformat (the (lk_expires_at lock)) of
             None \<Rightarrow> None
           | Some expires_at \<Rightarrow>
               let delta = instant expires_at - instant (e_clock E)
               in Some (if delta \<ge> 0 then delta div 1000000 else - ((- delta) div 1000000)))"

definition format_expiry_delta :: "int option \<Rightarrow> string" where
  "format_expiry_delta seconds =
     (case seconds of
        None \<Rightarrow> ''no expiry''
      | Some secs \<Rightarrow>
          if secs \<le> 0 then ''expired''
          else let hours = secs div 3600; minutes = secs mod 3600 div 60;
                   parts = (if hours \<noteq> 0 then [int_str hours @ ''h''] else [])
                     @ (if minutes \<noteq> 0 \<or> hours = 0 then [int_str minutes @ ''m''] else [])
               in ''valid for '' @ join '' '' parts)"

section \<open>The diagnosis\<close>

record LockDiagnostics =
  ld_active :: bool
  ld_expired :: bool
  ld_classification :: LockClassification
  ld_holder :: "ActorRef option"
  ld_holder_pid :: "int option"
  ld_holder_host :: "string option"
  ld_current_host :: string
  ld_holder_pid_check :: PidStatus
  ld_seconds_until_expiry :: "int option"
  ld_expiry_label :: string
  ld_summary :: string
  ld_remediation :: "string list"

definition empty_diagnostics :: "string \<Rightarrow> LockDiagnostics" where
  "empty_diagnostics current_host =
     \<lparr>ld_active = False, ld_expired = False, ld_classification = LC_none, ld_holder = None,
      ld_holder_pid = None, ld_holder_host = None, ld_current_host = current_host,
      ld_holder_pid_check = PK_na, ld_seconds_until_expiry = None, ld_expiry_label = ''n/a'',
      ld_summary = ''No active lock.'', ld_remediation = []\<rparr>"

definition in_quotes :: "string \<Rightarrow> string" where
  "in_quotes s = CHR 0x22 # s @ [CHR 0x22]"

definition lock_stage_str :: "TaskLock \<Rightarrow> string" where
  "lock_stage_str lock = enum_name lock_stage_names (lk_stage lock)"

definition holder_str :: "ActorRef \<Rightarrow> string" where
  "holder_str h = enum_name actor_type_names (ar_actor_type h) @ '':'' @ ar_actor_name h"

definition remediation_for_expired :: "TaskLock \<Rightarrow> string \<Rightarrow> string list" where
  "remediation_for_expired lock target =
     (if lk_stage lock = LS_implementing
      then [''taskledger implement resume --task '' @ target @ '' --repair-expired-lock --reason ''
            @ in_quotes ''Reacquire expired implementation lock.'']
      else [''taskledger repair lock --task '' @ target @ '' --reason ''
            @ in_quotes (''Recover expired '' @ lock_stage_str lock @ '' lock.'')])"

definition remediation_for_dead_local :: "TaskLock \<Rightarrow> string \<Rightarrow> int \<Rightarrow> string list" where
  "remediation_for_dead_local lock target pid =
     (let repair = ''taskledger repair lock --task '' @ target @ '' --reason ''
            @ in_quotes (''Holder PID '' @ int_str pid @ '' is no longer running.'')
      in if lk_stage lock = LS_implementing
         then [repair, ''taskledger implement resume --task '' @ target @ '' --reason ''
                @ in_quotes ''Reacquire implementation lock after stale holder repair.'']
         else [repair])"

definition remediation_for_unverifiable :: "TaskLock \<Rightarrow> string \<Rightarrow> string list" where
  "remediation_for_unverifiable lock target =
     (let holder = lk_holder lock;
          pid_text = (case ar_pid holder of
             Some p \<Rightarrow> if p \<noteq> 0 then '' PID '' @ int_str p else [] | None \<Rightarrow> [])
      in [''# Holder'' @ pid_text @ '' is on host '' @ py_repr (opt_str (ar_host holder))
            @ ''; verify liveness manually before repairing.'',
          ''taskledger lock show --task '' @ target])"

definition KNOWN_HARNESS_TOOLS :: "string list" where
  "KNOWN_HARNESS_TOOLS = [''pi'', ''codex'', ''opencode'']"

text \<open>Records without a scope fall through to the last case when no known tool is named.\<close>

definition pid_is_checkable_owner :: "ActorRef \<Rightarrow> TaskLock \<Rightarrow> bool" where
  "pid_is_checkable_owner holder lock =
     (case ar_pid_scope holder of
        Some SP_owner \<Rightarrow> ar_pid holder \<noteq> None
      | Some _ \<Rightarrow> False
      | None \<Rightarrow>
          if (is_set (ar_session_id holder) \<or> is_set (ar_harness_id holder) \<or> lk_harness lock \<noteq> None)
             \<and> (lower (str_or (ar_tool holder) []) \<in> set KNOWN_HARNESS_TOOLS
                \<or> lower (case lk_harness lock of Some h \<Rightarrow> hr_name h | None \<Rightarrow> [])
                    \<in> set KNOWN_HARNESS_TOOLS)
          then False else ar_pid holder \<noteq> None)"

text \<open>The three answers of the part of \<open>diagnose_lock\<close> that depends on the process id\<close>

type_synonym verdict = "LockClassification \<times> PidStatus \<times> string \<times> string list"

definition harness_verdict :: "TaskLock \<Rightarrow> string \<Rightarrow> verdict" where
  "harness_verdict lock target =
     (LC_harness_session, PK_na,
      ''Active '' @ lock_stage_str lock @ '' lock is held by harness session ''
        @ ar_actor_name (lk_holder lock) @ ''/'' @ str_or (ar_session_id (lk_holder lock)) ''unknown''
        @ ''; no owner PID is available for liveness probing. Do not repair solely from command PID state.'',
      [''taskledger lock show --task '' @ target])"

definition verdict_no_pid :: "env \<Rightarrow> TaskLock \<Rightarrow> string \<Rightarrow> bool \<Rightarrow> string \<Rightarrow> verdict" where
  "verdict_no_pid E lock target same_actor host =
     (let holder = lk_holder lock; stage = lock_stage_str lock
      in if same_actor
         then (LC_same_actor, PK_na,
           ''Active '' @ stage @ '' lock is held by the current actor ('' @ holder_str holder
             @ ''); no holder PID was recorded.'', [])
         else if is_set (ar_session_id holder) \<or> is_set (ar_harness_id holder)
                 \<or> lk_harness lock \<noteq> None \<or> ar_pid_scope holder = Some SP_unverifiable_harness
         then harness_verdict lock target
         else if host_matches E (ar_host holder) host
         then (LC_no_pid, PK_na,
           ''Active '' @ stage @ '' lock is held by '' @ holder_str holder
             @ '' on this host, but no holder PID was recorded.'',
           [''taskledger lock show --task '' @ target])
         else (LC_unverifiable, PK_na,
           ''Active '' @ stage @ '' lock is held by '' @ holder_str holder @ '' on host ''
             @ py_repr (opt_str (ar_host holder)) @ ''; liveness cannot be verified without a PID.'',
           remediation_for_unverifiable lock target))"

definition verdict_pid :: "env \<Rightarrow> TaskLock \<Rightarrow> string \<Rightarrow> bool \<Rightarrow> string \<Rightarrow> int \<Rightarrow> verdict" where
  "verdict_pid E lock target same_actor host pid =
     (let holder = lk_holder lock; stage = lock_stage_str lock;
          current = ''Active '' @ stage @ '' lock is held by the current actor ('' @ holder_str holder
      in if \<not> pid_is_checkable_owner holder lock
         then (if same_actor
               then (LC_same_actor, PK_na,
                 current @ ''); holder PID is a command subprocess, not used for liveness probing.'', [])
               else harness_verdict lock target)
         else let host_match = host_matches E (ar_host holder) host;
                  pid_status = (if host_match then e_pid_check E pid else PK_unknown)
              in if \<not> host_match \<or> pid_status = PK_unknown
                 then (LC_unverifiable, PK_unknown,
                   ''Active '' @ stage @ '' lock is held by '' @ holder_str holder @ '' on host ''
                     @ py_repr (opt_str (ar_host holder))
                     @ ''; cannot verify the holder process from this host.'',
                   remediation_for_unverifiable lock target)
                 else if pid_status \<noteq> PK_alive \<and> pid_status \<noteq> PK_alive_unowned
                 then (LC_dead_local_process, pid_status,
                   ''Active non-expired '' @ stage @ '' lock is held by a local PID ('' @ int_str pid
                     @ '') that is no longer running.'',
                   remediation_for_dead_local lock target pid)
                 else if same_actor
                 then (LC_same_actor, pid_status,
                   current @ ''); holder PID '' @ int_str pid @ '' is alive on this host.'', [])
                 else (LC_other_actor, pid_status,
                   ''Active '' @ stage @ '' lock is held by a different actor ('' @ holder_str holder
                     @ ''); holder PID '' @ int_str pid @ '' is alive on this host.'',
                   [''# Do not take over a live lock from another actor; use a handoff or wait for the holder to release.'',
                    ''taskledger lock show --task '' @ target]))"

definition diagnose_lock ::
  "env \<Rightarrow> TaskLock option \<Rightarrow> string option \<Rightarrow> ActorRef option \<Rightarrow> error + LockDiagnostics" where
  "diagnose_lock E lock_opt task_id current_actor =
     (let host = current_host_name E
      in case lock_opt of
           None \<Rightarrow> Inr (empty_diagnostics host)
         | Some lock \<Rightarrow>
             bindR (lock_is_expired E lock) (\<lambda>expired.
             let holder = lk_holder lock; target = str_or task_id (lk_task_id lock);
                 seconds = seconds_until_expiry E lock;
                 same_actor = actor_matches holder current_actor;
                 (classification, pid_check, summary, remediation) =
                   (if expired
                    then (LC_expired, PK_na,
                      ''Expired '' @ lock_stage_str lock @ '' lock from run '' @ lk_run_id lock
                        @ ''; follow the recommended recovery command.'',
                      remediation_for_expired lock target)
                    else case ar_pid holder of
                           None \<Rightarrow> verdict_no_pid E lock target same_actor host
                         | Some pid \<Rightarrow> verdict_pid E lock target same_actor host pid)
             in Inr \<lparr>ld_active = True, ld_expired = expired, ld_classification = classification,
                  ld_holder = Some holder, ld_holder_pid = ar_pid holder,
                  ld_holder_host = ar_host holder, ld_current_host = host,
                  ld_holder_pid_check = pid_check, ld_seconds_until_expiry = seconds,
                  ld_expiry_label = format_expiry_delta seconds, ld_summary = summary,
                  ld_remediation = remediation\<rparr>))"

section \<open>Showing locks\<close>

record lock_status_payload =
  kp_active :: bool
  kp_expired :: bool
  kp_holder :: "ActorRef option"
  kp_stage :: "ActiveTaskStatusStage option"
  kp_run_id :: "string option"
  kp_created_at :: "string option"
  kp_expires_at :: "string option"

definition lock_status :: "env \<Rightarrow> TaskLock option \<Rightarrow> error + lock_status_payload" where
  "lock_status E lock_opt =
     (case lock_opt of
        None \<Rightarrow> Inr \<lparr>kp_active = False, kp_expired = False, kp_holder = None, kp_stage = None,
          kp_run_id = None, kp_created_at = None, kp_expires_at = None\<rparr>
      | Some lock \<Rightarrow>
          bindR (lock_is_expired E lock) (\<lambda>expired.
          Inr \<lparr>kp_active = True, kp_expired = expired, kp_holder = Some (lk_holder lock),
            kp_stage = Some (lk_stage lock), kp_run_id = Some (lk_run_id lock),
            kp_created_at = Some (lk_created_at lock), kp_expires_at = lk_expires_at lock\<rparr>))"

record lock_view =
  lv_task_id :: string
  lv_lock :: "TaskLock option"
  lv_status :: lock_status_payload
  lv_diagnostics :: LockDiagnostics

definition view_lock ::
  "env \<Rightarrow> string \<Rightarrow> TaskLock option \<Rightarrow> ActorRef option \<Rightarrow> error + lock_view" where
  "view_lock E task_id lock current_actor =
     bindR (diagnose_lock E lock (Some task_id) current_actor) (\<lambda>diagnostics.
     bindR (lock_status E lock) (\<lambda>status.
     Inr \<lparr>lv_task_id = task_id, lv_lock = lock, lv_status = status,
       lv_diagnostics = diagnostics\<rparr>))"

definition show_lock :: "env \<Rightarrow> string \<Rightarrow> ActorRef option \<Rightarrow> ledger \<Rightarrow> error + lock_view" where
  "show_lock E task_ref current_actor l =
     bindR (resolve_task E False task_ref l) (\<lambda>task.
     view_lock E (tk_id task) (read_lock (tk_id task) l) current_actor)"

definition list_locks :: "env \<Rightarrow> ledger \<Rightarrow> error + lock_view list" where
  "list_locks E l =
     mapR (\<lambda>lock. view_lock E (lk_task_id lock) (Some lock) None) (load_active_locks l)"

datatype LockHealth = LH_expired | LH_none | LH_stale | LH_active

definition lock_health :: "LockClassification \<Rightarrow> LockHealth" where
  "lock_health classification =
     (if classification = LC_expired then LH_expired
      else if classification = LC_none then LH_none
      else if classification \<in> {LC_dead_local_process, LC_no_pid, LC_unverifiable} then LH_stale
      else LH_active)"

section \<open>What a diagnosis says\<close>

lemma verdict_no_pid_class:
  "fst (verdict_no_pid E lock target same host)
    \<in> {LC_same_actor, LC_harness_session, LC_no_pid, LC_unverifiable}"
  by (simp add: verdict_no_pid_def harness_verdict_def Let_def)

lemma verdict_pid_class:
  "fst (verdict_pid E lock target same host pid)
    \<in> {LC_same_actor, LC_harness_session, LC_unverifiable, LC_dead_local_process, LC_other_actor}"
  by (simp add: verdict_pid_def harness_verdict_def Let_def)

lemma verdict_pid_dead:
  "fst (verdict_pid E lock target same host pid) = LC_dead_local_process \<longleftrightarrow>
     pid_is_checkable_owner (lk_holder lock) lock \<and> host_matches E (ar_host (lk_holder lock)) host
     \<and> e_pid_check E pid \<in> {PK_dead, PK_na}"
  by (cases "e_pid_check E pid") (simp_all add: verdict_pid_def harness_verdict_def Let_def)

lemma diagnose_lock_class:
  assumes "diagnose_lock E (Some lock) t a = Inr d"
  shows "lock_is_expired E lock = Inr (ld_expired d)" "ld_active d"
    "ld_classification d =
      (if ld_expired d then LC_expired
       else let same = actor_matches (lk_holder lock) a; target = str_or t (lk_task_id lock)
            in case ar_pid (lk_holder lock) of
                 None \<Rightarrow> fst (verdict_no_pid E lock target same (current_host_name E))
               | Some p \<Rightarrow> fst (verdict_pid E lock target same (current_host_name E) p))"
  using assms
  by (auto simp: diagnose_lock_def bindR_def Let_def split: sum.splits option.splits prod.splits)

text \<open>
  A lock is called dead exactly when it has not expired, names a checkable owner process on this
  host, and the probe of that process says it is gone.
\<close>

lemma diagnose_lock_dead_iff:
  assumes "diagnose_lock E (Some lock) t a = Inr d"
  shows "ld_classification d = LC_dead_local_process \<longleftrightarrow>
    lock_is_expired E lock = Inr False
    \<and> (\<exists>pid. ar_pid (lk_holder lock) = Some pid \<and> pid_is_checkable_owner (lk_holder lock) lock
         \<and> host_matches E (ar_host (lk_holder lock)) (current_host_name E)
         \<and> e_pid_check E pid \<in> {PK_dead, PK_na})"
proof -
  note d = diagnose_lock_class [OF assms]
  show ?thesis
  proof (cases "ar_pid (lk_holder lock)")
    case None
    then show ?thesis
      using verdict_no_pid_class [of E lock "str_or t (lk_task_id lock)"
          "actor_matches (lk_holder lock) a" "current_host_name E"]
      unfolding d(1,3) by (auto simp: Let_def)
  next
    case (Some pid)
    then show ?thesis unfolding d(1,3) by (auto simp: Let_def verdict_pid_dead)
  qed
qed

lemma diagnose_lock_live_unused:
  assumes "diagnose_lock E lock t a = Inr d"
  shows "ld_classification d \<noteq> LC_live_local_process"
proof (cases lock)
  case None
  then show ?thesis using assms by (auto simp: diagnose_lock_def empty_diagnostics_def)
next
  case (Some k)
  note d = diagnose_lock_class(3) [OF assms [unfolded Some]]
  have "fst (verdict_no_pid E k tg s h) \<noteq> LC_live_local_process" for tg s h
    using verdict_no_pid_class [of E k tg s h] by auto
  moreover have "fst (verdict_pid E k tg s h p) \<noteq> LC_live_local_process" for tg s h p
    using verdict_pid_class [of E k tg s h p] by auto
  ultimately show ?thesis unfolding d by (simp add: Let_def split: option.split)
qed

end
