(* ===== verification/NextAction.thy ===== *)
theory NextAction
  imports Lifecycle LockDiagnosis Reviews
begin

text \<open>
  What to do next on a task: the decision of \<open>next_action_for_task\<close>
  (\<open>services/navigation.py\<close>, with \<open>services/next_action_model.py\<close> and the helpers of
  \<open>services/next_action_payload.py\<close>), the item it points at, and the command lines it offers.
  The item dictionaries are the constructors of \<open>next_item\<close>; the fields that the code copies out
  of a record into the dictionary are read from the record.
\<close>

section \<open>Items, blockers, commands\<close>

datatype next_item =
    NI_question QuestionRecord
  | NI_answered_question QuestionRecord
  | NI_todo TaskTodo
  | NI_criterion criterion_report
  | NI_plan PlanRecord
  | NI_task string TaskStatusStage
  | NI_lock string TaskLock bool

record running_run_info =
  rd_task_id :: string
  rd_run_id :: string
  rd_run_type :: RunType
  rd_status :: RunStatus
  rd_has_matching_lock :: bool

record next_blocker =
  nb_kind :: string
  nb_message :: string
  nb_ref :: "string option"
  nb_command_hint :: "string option"
  nb_question_ids :: "string list"
  nb_running_run :: "running_run_info option"
  nb_diagnostics :: "LockDiagnostics option"

definition blocker :: "string \<Rightarrow> string \<Rightarrow> next_blocker" where
  "blocker kind message =
     \<lparr>nb_kind = kind, nb_message = message, nb_ref = None, nb_command_hint = None,
      nb_question_ids = [], nb_running_run = None, nb_diagnostics = None\<rparr>"

record next_command =
  nc_kind :: string
  nc_label :: string
  nc_command :: string
  nc_primary :: bool

definition command_entry :: "string \<Rightarrow> string \<Rightarrow> string \<Rightarrow> bool \<Rightarrow> next_command" where
  "command_entry kind label command primary =
     \<lparr>nc_kind = kind, nc_label = label, nc_command = command, nc_primary = primary\<rparr>"

text \<open>\<open>NextActionDecision\<close>: what is decided before the command lines are made.\<close>

record NextActionDecision =
  nd_action :: string
  nd_reason :: string
  nd_next_item :: "next_item option"
  nd_blockers :: "next_blocker list"
  nd_progress :: pydict

definition running_run_details ::
  "env \<Rightarrow> TaskRecord \<Rightarrow> TaskRunRecord \<Rightarrow> TaskLock option \<Rightarrow> error + running_run_info" where
  "running_run_details E task run lock =
     bindR (lock_matches_run E lock run) (\<lambda>matching.
     Inr \<lparr>rd_task_id = tk_id task, rd_run_id = rn_run_id run, rd_run_type = rn_run_type run,
       rd_status = rn_status run, rd_has_matching_lock = matching\<rparr>)"

definition task_next_item :: "TaskRecord \<Rightarrow> next_item" where
  "task_next_item task = NI_task (tk_id task) (tk_status_stage task)"

definition lock_next_item :: "env \<Rightarrow> TaskRecord \<Rightarrow> TaskLock \<Rightarrow> error + next_item" where
  "lock_next_item E task lock =
     bindR (lock_is_expired E lock) (\<lambda>expired. Inr (NI_lock (tk_id task) lock expired))"

definition first_question_by_ids :: "QuestionRecord list \<Rightarrow> string list \<Rightarrow> QuestionRecord option" where
  "first_question_by_ids questions ids = find (\<lambda>q. qn_id q \<in> set ids) questions"

definition dependency_next_blockers :: "TaskRecord list \<Rightarrow> next_blocker list" where
  "dependency_next_blockers required =
     map (\<lambda>t. blocker ''dependency''
       (''Requirement '' @ tk_id t @ '' is still '' @ stage_str (tk_status_stage t) @ ''.'')) required"

section \<open>Planning\<close>

definition questions_progress :: "string list \<Rightarrow> (string list) option \<Rightarrow> pydict" where
  "questions_progress open_ids since =
     [(''questions'', PDict ([(''required_open'', PInt (int (length open_ids))),
        (''required_open_ids'', PList (map PStr open_ids))]
        @ (case since of None \<Rightarrow> []
           | Some ids \<Rightarrow> [(''answered_since_latest_plan'', PList (map PStr ids))])))]"

definition open_questions_blocker :: "string list \<Rightarrow> next_blocker" where
  "open_questions_blocker ids =
     (blocker ''open_questions'' ''Required planning questions must be answered.'')
       \<lparr>nb_question_ids := ids\<rparr>"

definition question_decision ::
  "QuestionRecord list \<Rightarrow> string list \<Rightarrow> NextActionDecision" where
  "question_decision questions open_ids =
     \<lparr>nd_action = ''question-answer'', nd_reason = ''Required planning questions are open.'',
      nd_next_item = map_option NI_question (first_question_by_ids questions open_ids),
      nd_blockers = [open_questions_blocker open_ids],
      nd_progress = questions_progress open_ids None\<rparr>"

definition regenerate_decision ::
  "QuestionRecord list \<Rightarrow> string list \<Rightarrow> string \<Rightarrow> next_blocker list \<Rightarrow> NextActionDecision" where
  "regenerate_decision questions stale reason blockers =
     \<lparr>nd_action = ''plan-regenerate'', nd_reason = reason,
      nd_next_item = map_option NI_answered_question (first_question_by_ids questions stale),
      nd_blockers = blockers, nd_progress = questions_progress [] (Some stale)\<rparr>"

definition planning_decision :: "env \<Rightarrow> TaskRecord \<Rightarrow> ledger \<Rightarrow> NextActionDecision" where
  "planning_decision E task l =
     (let questions = list_questions (tk_id task) l;
          open_questions = required_open_question_ids questions;
          stale_answers = (case latest_plan_or_none (tk_id task) l of
             Some plan \<Rightarrow> stale_answer_question_ids E questions plan
           | None \<Rightarrow> map qn_id (filter (\<lambda>q. qn_status q = QS_answered \<and> qn_required_for_plan q)
               questions))
      in if open_questions \<noteq> [] then question_decision questions open_questions
         else if stale_answers \<noteq> []
         then regenerate_decision questions stale_answers
           ''Answered planning questions should be reflected in the plan.'' []
         else \<lparr>nd_action = ''plan-propose'',
           nd_reason = ''Planning is active; propose the next plan.'', nd_next_item = None,
           nd_blockers = [], nd_progress = []\<rparr>)"

section \<open>Implementation\<close>

definition first_open_todo_from_report ::
  "TaskRecord \<Rightarrow> string list \<Rightarrow> ledger \<Rightarrow> TaskTodo option" where
  "first_open_todo_from_report task open_ids l =
     (let todos = tk_todos (task_with_sidecars task l);
          wanted = (\<lambda>t. td_id t \<in> set open_ids \<and> \<not> td_done t)
      in case find (\<lambda>t. wanted t \<and> td_status t = TS_active) todos of
           Some t \<Rightarrow> Some t
         | None \<Rightarrow> find wanted todos)"

definition implementation_decision :: "TaskRecord \<Rightarrow> ledger \<Rightarrow> NextActionDecision" where
  "implementation_decision task l =
     (let report = build_todo_gate_report task l; open_ids = tg_open_todos report;
          progress = [(''todos'', PDict [(''total'', PInt (int (tg_total report))),
            (''done'', PInt (int (tg_done report))), (''open'', PInt (int (length open_ids))),
            (''open_ids'', PList (map PStr open_ids))])]
      in if open_ids \<noteq> []
         then \<lparr>nd_action = ''todo-work'',
           nd_reason = ''Implementation is in progress; '' @ nat_str (length open_ids) @ '' todos remain.'',
           nd_next_item = map_option NI_todo (first_open_todo_from_report task open_ids l),
           nd_blockers = [], nd_progress = progress\<rparr>
         else \<lparr>nd_action = ''implement-finish'',
           nd_reason = ''All todos done; ready to finish implementation.'',
           nd_next_item = Some (task_next_item task), nd_blockers = [], nd_progress = progress\<rparr>)"

section \<open>Validation\<close>

text \<open>
  A blocker of the gate report as the payload shows it. For a dependency the code passes the whole
  requirement entry as \<open>ref\<close>, which is not a string: it is dropped here, and never leads to an
  item below.
\<close>

definition evidence_hint :: "string \<Rightarrow> string" where
  "evidence_hint command = command @ '' --evidence '' @ in_quotes ''...''"

definition check_command_hint :: "string \<Rightarrow> string" where
  "check_command_hint c =
     evidence_hint (''taskledger validate check --criterion '' @ c @ '' --status pass'')"

definition todo_done_command :: "string \<Rightarrow> string" where
  "todo_done_command todo_id = evidence_hint (''taskledger todo done '' @ todo_id)"

definition requirement_text :: "TaskRecord \<Rightarrow> pyval" where
  "requirement_text t = PDict [(''kind'', PStr ''dependency''),
     (''message'', PStr (''Requirement '' @ tk_id t @ '' is still '' @ stage_str (tk_status_stage t) @ ''.''))]"

definition compact_gate_blocker :: "TaskRecord list \<Rightarrow> gate_blocker \<Rightarrow> next_blocker" where
  "compact_gate_blocker required b =
     (case b of
        B_no_accepted_plan \<Rightarrow>
          (blocker ''no_accepted_plan'' ''No accepted plan is recorded.'')
            \<lparr>nb_command_hint := Some ''taskledger plan propose ... && taskledger plan approve ...''\<rparr>
      | B_plan_not_accepted status \<Rightarrow>
          blocker ''plan_not_accepted'' (''Accepted plan record status is ''
            @ enum_name plan_status_names status @ '', not accepted.'')
      | B_no_finished_implementation \<Rightarrow>
          (blocker ''no_finished_implementation'' ''No finished implementation run is recorded.'')
            \<lparr>nb_command_hint :=
               Some ''taskledger implement start ... && taskledger implement finish ...''\<rparr>
      | B_criterion_missing c \<Rightarrow>
          (blocker ''criterion_missing'' (''Mandatory criterion '' @ c @ '' has no passing check.''))
            \<lparr>nb_ref := none_if_empty c, nb_command_hint := Some (check_command_hint c)\<rparr>
      | B_criterion_fail c \<Rightarrow>
          (blocker ''criterion_fail'' (''Mandatory criterion '' @ c @ '' has a failing check.''))
            \<lparr>nb_ref := none_if_empty c, nb_command_hint := Some (check_command_hint c)\<rparr>
      | B_todo_open i \<Rightarrow>
          (blocker ''todo_open'' (''Mandatory todo '' @ i @ '' is not done.''))
            \<lparr>nb_ref := none_if_empty i, nb_command_hint := Some (todo_done_command i)\<rparr>
      | B_dependency i \<Rightarrow>
          blocker ''dependency_blocker'' (''Dependency ''
            @ (case find (\<lambda>t. tk_id t = i) required of
                 Some t \<Rightarrow> py_repr (requirement_text t) | None \<Rightarrow> i)
            @ '' blocks this task.''))"

definition gate_blocker_ref :: "gate_blocker \<Rightarrow> string option" where
  "gate_blocker_ref b =
     (case b of
        B_criterion_missing c \<Rightarrow> none_if_empty c
      | B_criterion_fail c \<Rightarrow> none_if_empty c
      | B_todo_open i \<Rightarrow> none_if_empty i
      | _ \<Rightarrow> None)"

definition validation_progress :: "gate_report \<Rightarrow> pydict" where
  "validation_progress report =
     (let criteria = gr_criteria report;
          satisfied = length (filter cr_satisfied criteria);
          blocking_ids = dedupe (List.map_filter gate_blocker_ref (gr_blockers report))
      in [(''validation'', PDict [(''total'', PInt (int (length criteria))),
           (''satisfied'', PInt (int satisfied)),
           (''remaining'',
              PInt (max (int (length blocking_ids)) (int (length criteria) - int satisfied))),
           (''blocking_ids'', PList (map PStr blocking_ids))])])"

definition criterion_next_item :: "gate_report \<Rightarrow> string \<Rightarrow> next_item option" where
  "criterion_next_item report c = map_option NI_criterion (find (\<lambda>r. cr_id r = c) (gr_criteria report))"

definition plan_or_task_item :: "TaskRecord \<Rightarrow> ledger \<Rightarrow> next_item" where
  "plan_or_task_item task l =
     (case latest_plan_or_none (tk_id task) l of
        Some p \<Rightarrow> NI_plan p | None \<Rightarrow> task_next_item task)"

text \<open>The priorities, one rank per blocker kind; \<open>criterion_unsatisfied\<close> is no kind of the report.\<close>

definition blocker_rank :: "gate_blocker \<Rightarrow> nat" where
  "blocker_rank b =
     (case b of
        B_criterion_fail _ \<Rightarrow> 0
      | B_criterion_missing _ \<Rightarrow> 1
      | B_todo_open _ \<Rightarrow> 3
      | B_no_finished_implementation \<Rightarrow> 4
      | B_dependency _ \<Rightarrow> 5
      | B_no_accepted_plan \<Rightarrow> 6
      | B_plan_not_accepted _ \<Rightarrow> 7)"

definition blocker_item ::
  "TaskRecord \<Rightarrow> gate_report \<Rightarrow> ledger \<Rightarrow> gate_blocker \<Rightarrow> next_item option" where
  "blocker_item task report l b =
     (case b of
        B_criterion_fail c \<Rightarrow> criterion_next_item report c
      | B_criterion_missing c \<Rightarrow> criterion_next_item report c
      | B_todo_open i \<Rightarrow> map_option NI_todo (first_open_todo_from_report task [i] l)
      | B_no_finished_implementation \<Rightarrow> Some (task_next_item task)
      | B_dependency _ \<Rightarrow> None
      | B_no_accepted_plan \<Rightarrow> Some (plan_or_task_item task l)
      | B_plan_not_accepted _ \<Rightarrow> Some (plan_or_task_item task l))"

definition next_validation_item ::
  "TaskRecord \<Rightarrow> gate_report \<Rightarrow> ledger \<Rightarrow> next_item option" where
  "next_validation_item task report l =
     (case List.map_filter (blocker_item task report l)
             (concat (map (\<lambda>rank. filter (\<lambda>b. blocker_rank b = rank) (gr_blockers report))
                [0..<8])) of
        item # _ \<Rightarrow> Some item
      | [] \<Rightarrow> map_option NI_criterion (find (\<lambda>r. cr_blocker r \<noteq> None) (gr_criteria report)))"

definition validation_decision :: "env \<Rightarrow> TaskRecord \<Rightarrow> ledger \<Rightarrow> error + NextActionDecision" where
  "validation_decision E task l =
     bindR (build_validation_gate_report E task None l) (\<lambda>report.
     bindR (dependency_blockers E task l) (\<lambda>required.
     let blockers = gr_blockers report
     in Inr (if blockers \<noteq> []
        then \<lparr>nd_action = ''validate-check'',
          nd_reason = ''Validation is in progress; required checks remain.'',
          nd_next_item = next_validation_item task report l,
          nd_blockers = map (compact_gate_blocker required) blockers,
          nd_progress = validation_progress report\<rparr>
        else \<lparr>nd_action = ''validate-finish'',
          nd_reason = ''Validation is complete enough to finish.'',
          nd_next_item = Some (task_next_item task), nd_blockers = [],
          nd_progress = validation_progress report\<rparr>)))"

section \<open>No active stage\<close>

definition find_run :: "TaskRunRecord list \<Rightarrow> string option \<Rightarrow> TaskRunRecord option" where
  "find_run runs run_id =
     (case run_id of None \<Rightarrow> None | Some i \<Rightarrow> find (\<lambda>r. rn_run_id r = i) runs)"

definition running_implementation :: "TaskRunRecord option \<Rightarrow> bool" where
  "running_implementation run \<longleftrightarrow>
     (case run of None \<Rightarrow> False
      | Some r \<Rightarrow> rn_run_type r = RT_implementation \<and> rn_status r = RS_running)"

definition missing_lock_blocker :: "TaskRunRecord \<Rightarrow> next_blocker" where
  "missing_lock_blocker run =
     blocker ''lock'' (''Missing active implementation lock for run '' @ rn_run_id run @ ''.'')"

definition decide_orphaned_active_stage ::
  "TaskRecord \<Rightarrow> PlanRecord list \<Rightarrow> TaskRunRecord list \<Rightarrow> TaskLock option
    \<Rightarrow> NextActionDecision" where
  "decide_orphaned_active_stage task plans runs lock =
     (let stage = stage_str (tk_status_stage task);
          orphaned = blocker ''active_stage'' (''Task status is '' @ stage
            @ '', but active_stage is missing.'');
          latest_run = find_run runs (tk_latest_implementation_run task);
          has_accepted_plan = list_ex (\<lambda>p. Some (pl_plan_version p) = tk_accepted_plan_version task
            \<and> pl_status p = PS_accepted) plans
      in if tk_status_stage task = S_implementing \<and> running_implementation latest_run
            \<and> lock = None \<and> has_accepted_plan
         then \<lparr>nd_action = ''implement-resume'',
           nd_reason = ''Implementation run is running but the lock is missing.'',
           nd_next_item = Some (task_next_item task),
           nd_blockers = [orphaned, missing_lock_blocker (the latest_run)], nd_progress = []\<rparr>
         else \<lparr>nd_action = ''repair-active-stage'',
           nd_reason = ''Task is '' @ stage @ '', but no matching active lock/run exists.'',
           nd_next_item = Some (task_next_item task), nd_blockers = [orphaned],
           nd_progress = []\<rparr>)"

definition unmatched_lock_blocker :: "TaskLock \<Rightarrow> next_blocker" where
  "unmatched_lock_blocker lock =
     blocker ''lock'' (''Task has a '' @ lock_stage_str lock @ '' lock from '' @ lk_run_id lock
       @ '' without a matching running run.'')"

definition repair_lock_reason :: string where
  "repair_lock_reason = ''A stale or broken lock must be repaired before work can continue.''"

text \<open>The action, its reason and its blocker for an expired lock; the item is the lock.\<close>

definition decide_expired_lock_action ::
  "TaskRecord \<Rightarrow> TaskLock \<Rightarrow> TaskRunRecord list \<Rightarrow> string \<times> string \<times> next_blocker" where
  "decide_expired_lock_action task lock runs =
     (let impl_run = find_run runs (tk_latest_implementation_run task)
      in if running_implementation impl_run \<and> lk_run_id lock = rn_run_id (the impl_run)
         then (''expired-lock-resume'', ''Implementation lock expired; resume to continue the run.'',
           blocker ''expired_lock'' (''Implementation lock for run '' @ rn_run_id (the impl_run)
             @ '' has expired.''))
         else (''repair-lock'', repair_lock_reason, unmatched_lock_blocker lock))"

definition review_decision :: "env \<Rightarrow> TaskRecord \<Rightarrow> ledger \<Rightarrow> NextActionDecision" where
  "review_decision E task l =
     (let questions = list_questions (tk_id task) l;
          open_questions = required_open_question_ids questions;
          latest_plan = latest_plan_or_none (tk_id task) l;
          stale_answers = (case latest_plan of
             Some plan \<Rightarrow> stale_answer_question_ids E questions plan | None \<Rightarrow> [])
      in if open_questions \<noteq> [] then question_decision questions open_questions
         else if stale_answers \<noteq> []
         then regenerate_decision questions stale_answers
           ''Answered planning questions are not reflected in the latest plan.''
           [(blocker ''stale_answers'' ''Regenerate the plan from answered questions.'')
              \<lparr>nb_question_ids := stale_answers\<rparr>]
         else \<lparr>nd_action = ''plan-approve'', nd_reason = ''A proposed plan is waiting for review.'',
           nd_next_item = map_option NI_plan latest_plan, nd_blockers = [], nd_progress = []\<rparr>)"

definition task_decision ::
  "TaskRecord \<Rightarrow> string \<Rightarrow> string \<Rightarrow> next_blocker list \<Rightarrow> NextActionDecision" where
  "task_decision task action reason blockers =
     \<lparr>nd_action = action, nd_reason = reason, nd_next_item = Some (task_next_item task),
      nd_blockers = blockers, nd_progress = []\<rparr>"

definition approved_decision ::
  "env \<Rightarrow> TaskRecord \<Rightarrow> TaskLock option \<Rightarrow> ledger \<Rightarrow> error + NextActionDecision" where
  "approved_decision E task lock l =
     (let non_resumable = filter (\<lambda>r. \<not> (rn_run_type r = RT_implementation
            \<and> Some (rn_run_id r) = tk_latest_implementation_run task \<and> lock = None))
            (running_runs task l)
      in case non_resumable of
           run # _ \<Rightarrow>
             bindR (running_run_details E task run lock) (\<lambda>details.
             let kind = enum_name run_type_names (rn_run_type run)
             in Inr (task_decision task ''repair-run-state''
               (''Task is approved, but '' @ kind @ '' run '' @ rn_run_id run
                 @ '' is still marked running.'')
               [(blocker ''running_run'' (''Task has running '' @ kind @ '' run '' @ rn_run_id run
                 @ ''; run `taskledger doctor`.''))\<lparr>nb_running_run := Some details\<rparr>]))
         | [] \<Rightarrow>
             (case resumable_implementation_run E task lock l of
                Some run \<Rightarrow> Inr (task_decision task ''implement-resume''
                  ''Implementation run is running but the lock is missing.''
                  [missing_lock_blocker run])
              | None \<Rightarrow>
                  bindR (dependency_blockers E task l) (\<lambda>required.
                  Inr (task_decision task ''implement''
                    ''The approved plan is ready for implementation.''
                    ((if tk_accepted_plan_version task = None
                      then [blocker ''approval'' ''No accepted plan version is recorded.''] else [])
                     @ dependency_next_blockers required)))))"

definition finished_implementation :: "TaskRunRecord option \<Rightarrow> bool" where
  "finished_implementation run \<longleftrightarrow>
     (case run of None \<Rightarrow> False
      | Some r \<Rightarrow> rn_run_type r = RT_implementation \<and> rn_status r = RS_finished)"

definition no_action :: "string \<Rightarrow> NextActionDecision" where
  "no_action reason = \<lparr>nd_action = ''none'', nd_reason = reason, nd_next_item = None,
     nd_blockers = [], nd_progress = []\<rparr>"

definition inactive_status_next_action ::
  "env \<Rightarrow> TaskRecord \<Rightarrow> TaskLock option \<Rightarrow> ledger \<Rightarrow> error + NextActionDecision" where
  "inactive_status_next_action E task lock l =
     (case tk_status_stage task of
        S_draft \<Rightarrow> Inr \<lparr>nd_action = ''plan'',
          nd_reason = ''Draft tasks need planning before work starts.'', nd_next_item = None,
          nd_blockers = [], nd_progress = []\<rparr>
      | S_plan_review \<Rightarrow> Inr (review_decision E task l)
      | S_approved \<Rightarrow> approved_decision E task lock l
      | S_implemented \<Rightarrow>
          Inr (task_decision task ''validate'' ''Implementation is complete and ready to validate.''
            (if finished_implementation (optional_run E task (tk_latest_implementation_run task) l)
             then [] else [blocker ''implementation''
               ''Validation requires a finished implementation run.'']))
      | S_failed_validation \<Rightarrow>
          bindR (dependency_blockers E task l) (\<lambda>required.
          Inr (task_decision task ''implement-restart''
            ''Validation failed; restart implementation.'' (dependency_next_blockers required)))
      | S_done \<Rightarrow> Inr (no_action ''The task is complete.'')
      | S_cancelled \<Rightarrow> Inr (no_action ''The task is cancelled.'')
      | _ \<Rightarrow> Inr (decide_orphaned_active_stage task (list_plans (tk_id task) l)
          (list_runs (tk_id task) l) lock))"

section \<open>The decision\<close>

text \<open>
  The stage decides; a lock without an active stage replaces action and item; a holder that is
  known to be dead replaces them once more.
\<close>

definition with_unmatched_lock ::
  "env \<Rightarrow> TaskRecord \<Rightarrow> TaskLock \<Rightarrow> ledger \<Rightarrow> NextActionDecision \<Rightarrow> error + NextActionDecision" where
  "with_unmatched_lock E task lock l d =
     bindR (lock_is_expired E lock) (\<lambda>expired.
     let (action, reason, b) =
           (if expired then decide_expired_lock_action task lock (list_runs (tk_id task) l)
            else (''repair-lock'', repair_lock_reason, unmatched_lock_blocker lock))
     in Inr (d\<lparr>nd_action := action, nd_reason := reason,
          nd_next_item := Some (NI_lock (tk_id task) lock expired),
          nd_blockers := nd_blockers d @ [b]\<rparr>))"

definition with_dead_holder ::
  "env \<Rightarrow> TaskRecord \<Rightarrow> TaskLock \<Rightarrow> LockDiagnostics \<Rightarrow> NextActionDecision
    \<Rightarrow> error + NextActionDecision" where
  "with_dead_holder E task lock diagnostics d =
     bindR (lock_next_item E task lock) (\<lambda>item.
     Inr (d\<lparr>nd_action := ''repair-lock'',
       nd_reason := ''Implementation lock is active but the recorded holder process is not running.'',
       nd_next_item := Some item,
       nd_blockers := nd_blockers d
         @ [(blocker ''lock'' (ld_summary diagnostics))\<lparr>nb_diagnostics := Some diagnostics\<rparr>]\<rparr>))"

definition stage_decision ::
  "env \<Rightarrow> TaskRecord \<Rightarrow> TaskLock option \<Rightarrow> RunType option \<Rightarrow> ledger \<Rightarrow> error + NextActionDecision" where
  "stage_decision E task lock active_stage l =
     (case active_stage of
        Some RT_planning \<Rightarrow> Inr (planning_decision E task l)
      | Some RT_implementation \<Rightarrow> Inr (implementation_decision task l)
      | Some RT_validation \<Rightarrow> validation_decision E task l
      | None \<Rightarrow> inactive_status_next_action E task lock l)"

definition decide_next_action ::
  "env \<Rightarrow> TaskRecord \<Rightarrow> TaskLock option \<Rightarrow> RunType option \<Rightarrow> LockDiagnostics option \<Rightarrow> ledger
    \<Rightarrow> error + NextActionDecision" where
  "decide_next_action E task lock active_stage diagnostics l =
     bindR (stage_decision E task lock active_stage l) (\<lambda>d.
     bindR (case lock of
              Some k \<Rightarrow> if active_stage = None then with_unmatched_lock E task k l d else Inr d
            | None \<Rightarrow> Inr d) (\<lambda>d.
     case (lock, diagnostics) of
       (Some k, Some diag) \<Rightarrow>
         if ld_classification diag = LC_dead_local_process then with_dead_holder E task k diag d
         else Inr d
     | _ \<Rightarrow> Inr d))"

end
