(* ===== verification/Navigation.thy ===== *)
theory Navigation
  imports NextAction
begin

text \<open>
  The command lines that go with a decision, the payload of \<open>next-action\<close>, and \<open>can_perform\<close>
  (\<open>services/navigation.py\<close>; the command tables are also in \<open>services/next_action_payload.py\<close>).
\<close>

section \<open>Command lines\<close>

definition quoted_reason :: "string \<Rightarrow> string" where
  "quoted_reason reason = '' --reason '' @ in_quotes reason"

definition next_action_command :: "string \<Rightarrow> string option" where
  "next_action_command action =
     map_of [
       (''plan'', ''taskledger plan start''),
       (''plan-propose'', ''taskledger plan upsert --file plan.md''),
       (''question-answer'', ''taskledger question answer-many --file answers.yaml''),
       (''plan-regenerate'', ''taskledger plan upsert --from-answers --file plan.md''),
       (''plan-approve'', ''taskledger plan review --version VERSION''),
       (''implement'', ''taskledger implement start''),
       (''implement-restart'', ''taskledger implement restart --summary SUMMARY''),
       (''implement-resume'', ''taskledger implement resume --reason REASON''),
       (''expired-lock-resume'',
          ''taskledger implement resume --repair-expired-lock --reason REASON''),
       (''todo-work'', ''taskledger implement checklist''),
       (''implement-finish'', ''taskledger implement finish --summary SUMMARY''),
       (''validate'', ''taskledger validate start''),
       (''validate-check'', check_command_hint ''CRITERION''),
       (''validate-finish'', ''taskledger validate finish --result passed --summary SUMMARY''),
       (''repair-lock'', ''taskledger lock show''),
       (''repair-run-state'', ''taskledger doctor'')] action"

definition implement_resume_command :: "string option \<Rightarrow> string" where
  "implement_resume_command task_id =
     ''taskledger implement resume''
       @ (case task_id of None \<Rightarrow> [] | Some i \<Rightarrow> '' --task '' @ i)
       @ quoted_reason ''Reacquire implementation lock for existing running run.''"

definition question_answer_command :: "string \<Rightarrow> string" where
  "question_answer_command i = ''taskledger question answer '' @ i @ '' --text '' @ in_quotes ''...''"

definition plan_review_command :: "PlanRecord \<Rightarrow> string" where
  "plan_review_command p = ''taskledger plan review --version '' @ int_str (pl_plan_version p)"

definition repair_lock_command :: "string \<Rightarrow> string" where
  "repair_lock_command task_id = ''taskledger repair lock --task '' @ task_id @ quoted_reason ''...''"

definition primary_command_for_next_item :: "string \<Rightarrow> next_item option \<Rightarrow> string option" where
  "primary_command_for_next_item action item =
     (case item of
        Some (NI_question q) \<Rightarrow> Some (question_answer_command (qn_id q))
      | Some (NI_todo t) \<Rightarrow> Some (''taskledger todo show '' @ td_id t)
      | Some (NI_criterion c) \<Rightarrow> Some (check_command_hint (cr_id c))
      | Some (NI_plan p) \<Rightarrow> Some (plan_review_command p)
      | Some (NI_task i stage) \<Rightarrow>
          if action \<in> {''implement-resume'', ''expired-lock-resume''}
          then Some (implement_resume_command (Some i))
          else if action = ''repair-active-stage'' then Some (''taskledger task show --task '' @ i)
          else next_action_command action
      | Some (NI_lock task_id lock expired) \<Rightarrow>
          if action = ''expired-lock-resume''
          then Some (''taskledger implement resume --repair-expired-lock --task '' @ task_id
            @ quoted_reason ''...'')
          else Some (repair_lock_command task_id)
      | Some (NI_answered_question q) \<Rightarrow> next_action_command action
      | None \<Rightarrow> next_action_command action)"

definition table_get :: "(string \<times> string) list \<Rightarrow> string \<Rightarrow> string \<Rightarrow> string" where
  "table_get table dflt k = (case map_of table k of Some v \<Rightarrow> v | None \<Rightarrow> dflt)"

definition checklist_command :: next_command where
  "checklist_command = command_entry ''context'' ''Show implementation checklist''
     ''taskledger implement checklist'' False"

definition validation_status_command :: next_command where
  "validation_status_command =
     command_entry ''context'' ''Show validation status'' ''taskledger validate status'' False"

text \<open>The two tables of labels and kinds: without an item, and with an item of no special form.\<close>

definition plain_label :: "string \<Rightarrow> string" where
  "plain_label action = table_get [
     (''plan'', ''Start planning''), (''plan-propose'', ''Propose plan''),
     (''plan-regenerate'', ''Regenerate plan from answers''),
     (''plan-approve'', ''Review proposed plan''), (''implement'', ''Start implementation''),
     (''implement-restart'', ''Restart implementation''),
     (''todo-work'', ''Show implementation checklist''),
     (''implement-finish'', ''Finish implementation''), (''validate'', ''Start validation''),
     (''validate-check'', ''Record validation check''),
     (''validate-finish'', ''Finish validation''), (''repair-lock'', ''Show current lock'')]
     ''Show next action'' action"

definition plain_kind :: "string \<Rightarrow> string" where
  "plain_kind action = table_get [
     (''plan'', ''start''), (''plan-propose'', ''regenerate''), (''plan-regenerate'', ''regenerate''),
     (''plan-approve'', ''inspect''), (''implement'', ''start''), (''implement-restart'', ''restart''),
     (''todo-work'', ''context''), (''implement-finish'', ''finish''), (''validate'', ''start''),
     (''validate-check'', ''check''), (''validate-finish'', ''finish''), (''repair-lock'', ''inspect'')]
     ''context'' action"

definition item_label :: "string \<Rightarrow> string" where
  "item_label action = table_get [
     (''implement'', ''Start implementation''), (''implement-restart'', ''Restart implementation''),
     (''implement-resume'', ''Resume implementation''),
     (''implement-finish'', ''Finish implementation''),
     (''expired-lock-resume'', ''Resume with expired lock''),
     (''repair-active-stage'', ''Inspect task state''), (''validate'', ''Start validation''),
     (''validate-finish'', ''Finish validation'')] ''Show next action'' action"

definition item_command_kind :: "string \<Rightarrow> string" where
  "item_command_kind action = table_get [
     (''implement'', ''start''), (''implement-restart'', ''restart''),
     (''implement-resume'', ''resume''), (''implement-finish'', ''finish''),
     (''expired-lock-resume'', ''resume''), (''repair-active-stage'', ''inspect''),
     (''validate'', ''start''), (''validate-finish'', ''finish'')] ''context'' action"

definition general_item_commands :: "string \<Rightarrow> next_item option \<Rightarrow> next_command list" where
  "general_item_commands action item =
     (case primary_command_for_next_item action item of
        None \<Rightarrow> []
      | Some primary \<Rightarrow>
          [command_entry (item_command_kind action) (item_label action) primary True]
          @ (if action = ''implement-finish'' then [checklist_command] else [])
          @ (if action = ''validate-finish'' then [validation_status_command] else []))"

definition plan_item_commands :: "string \<Rightarrow> PlanRecord \<Rightarrow> next_command list" where
  "plan_item_commands action p =
     (let version = int_str (pl_plan_version p)
      in [command_entry ''inspect'' ''Review proposed plan'' (plan_review_command p) True]
         @ (if action = ''plan-approve''
            then [command_entry ''accept'' ''Accept plan after explicit user approval''
                    (''taskledger plan accept --version '' @ version @ '' --note ''
                      @ in_quotes ''User approved in harness.'') False,
                  command_entry ''revise'' ''Revise proposed plan'' ''taskledger plan revise'' False,
                  command_entry ''export'' ''Export editable plan''
                    (''taskledger plan export --version '' @ version @ '' --file ./plan.md'') False]
            else []))"

definition todo_command_hints :: "string \<Rightarrow> next_command list" where
  "todo_command_hints i =
     [command_entry ''inspect'' ''Show next todo'' (''taskledger todo show '' @ i) True,
      command_entry ''complete'' ''Mark todo done after evidence exists'' (todo_done_command i) False]"

definition commands_for_next_item :: "string \<Rightarrow> next_item option \<Rightarrow> next_command list" where
  "commands_for_next_item action item =
     (case item of
        None \<Rightarrow>
          (case primary_command_for_next_item action None of
             None \<Rightarrow> []
           | Some primary \<Rightarrow>
               [command_entry (plain_kind action) (plain_label action) primary True])
      | Some (NI_question q) \<Rightarrow>
          [command_entry ''answer'' ''Answer required question'' (question_answer_command (qn_id q)) True,
           command_entry ''context'' ''Show question status'' ''taskledger question status'' False]
      | Some (NI_answered_question q) \<Rightarrow>
          [command_entry ''regenerate'' ''Regenerate plan from answers''
             ''taskledger plan upsert --from-answers --file plan.md'' True,
           command_entry ''context'' ''Show answered questions'' ''taskledger question answers'' False]
      | Some (NI_todo t) \<Rightarrow> todo_command_hints (td_id t) @ [checklist_command]
      | Some (NI_criterion c) \<Rightarrow>
          [command_entry ''check'' ''Record validation check'' (check_command_hint (cr_id c)) True,
           validation_status_command]
      | Some (NI_plan p) \<Rightarrow> plan_item_commands action p
      | Some (NI_task i stage) \<Rightarrow>
          if action \<in> {''implement-resume'', ''expired-lock-resume''}
          then [command_entry ''resume'' ''Resume implementation''
                  (implement_resume_command (Some i)) True, checklist_command]
          else if action = ''repair-active-stage''
          then [command_entry ''inspect'' ''Inspect task state''
                  (''taskledger task show --task '' @ i) True,
                command_entry ''inspect'' ''Run doctor'' ''taskledger doctor'' False]
          else general_item_commands action (Some (NI_task i stage))
      | Some (NI_lock task_id lock expired) \<Rightarrow>
          [command_entry ''repair'' ''Repair stale lock'' (repair_lock_command task_id) True,
           command_entry ''inspect'' ''Show current lock'' ''taskledger lock show'' False])"

section \<open>Guidance and the guided pipeline\<close>

definition planning_guidance_already_viewed :: "TaskRecord \<Rightarrow> TaskRunRecord list \<Rightarrow> bool" where
  "planning_guidance_already_viewed task runs \<longleftrightarrow>
     (case tk_latest_planning_run task of
        None \<Rightarrow> False
      | Some i \<Rightarrow>
          (case find (\<lambda>r. rn_run_id r = i \<and> rn_run_type r = RT_planning) runs of
             None \<Rightarrow> False
           | Some r \<Rightarrow> list_ex (\<lambda>line. startswith line ''Planning guidance viewed:'') (rn_worklog r)))"

definition guidance_command ::
  "env \<Rightarrow> TaskRecord \<Rightarrow> string \<Rightarrow> RunType option \<Rightarrow> TaskRunRecord list \<Rightarrow> string option" where
  "guidance_command E task action active_stage runs =
     (if active_stage \<noteq> Some RT_planning
         \<or> action \<notin> {''plan-propose'', ''question-answer'', ''plan-regenerate''}
         \<or> \<not> e_planning_profile E \<or> planning_guidance_already_viewed task runs
      then None else Some ''taskledger plan guidance'')"

record guided_pipeline =
  gp_step :: WorkerStepConfig
  gp_context_command :: string
  gp_handoff_command :: string
  gp_review_command :: "string option"

definition guided_worker_handoff_command :: "string \<Rightarrow> string \<Rightarrow> string" where
  "guided_worker_handoff_command step_id base_context =
     ''taskledger handoff create --worker '' @ step_id
     @ (if base_context \<in> {''spec-reviewer'', ''code-reviewer''} then '' --scope task'' else [])
     @ '' --summary '' @ in_quotes ''...''"

definition guided_worker_review_command :: "string \<Rightarrow> string \<Rightarrow> string option" where
  "guided_worker_review_command step_id lifecycle_stage =
     (if lifecycle_stage \<noteq> ''review'' then None
      else Some (''taskledger review record --worker '' @ step_id
        @ '' --from-git --result pass --summary-file REVIEW.md''))"

definition guided_worker_pipeline_payload ::
  "env \<Rightarrow> TaskRecord \<Rightarrow> ledger \<Rightarrow> guided_pipeline option" where
  "guided_worker_pipeline_payload E task l =
     (case e_pipeline E of
        None \<Rightarrow> None
      | Some pipeline \<Rightarrow>
          if \<not> pc_enabled pipeline \<or> pc_mode pipeline \<noteq> ''guided'' then None
          else map_option (\<lambda>step.
            \<lparr>gp_step = step, gp_context_command = ''taskledger pipeline context '' @ ws_id step,
             gp_handoff_command = guided_worker_handoff_command (ws_id step) (ws_base_context step),
             gp_review_command = guided_worker_review_command (ws_id step) (ws_lifecycle_stage step)\<rparr>)
            (determine_next_worker_step task pipeline l))"

definition append_guided_worker_pipeline_commands ::
  "next_command list \<Rightarrow> guided_pipeline \<Rightarrow> next_command list" where
  "append_guided_worker_pipeline_commands commands p =
     (let extras = [command_entry ''context'' ''Show worker context'' (gp_context_command p) False,
            command_entry ''handoff'' ''Create worker handoff'' (gp_handoff_command p) False]
            @ (case gp_review_command p of None \<Rightarrow> []
               | Some c \<Rightarrow> [command_entry ''review'' ''Record code review'' c False]);
          before = takeWhile (\<lambda>c. \<not> nc_primary c) commands;
          rest = dropWhile (\<lambda>c. \<not> nc_primary c) commands
      in case rest of [] \<Rightarrow> commands @ extras | p1 # rest1 \<Rightarrow> before @ [p1] @ extras @ rest1)"

section \<open>The payload\<close>

record next_action_payload =
  np_task_id :: string
  np_status_stage :: TaskStatusStage
  np_active_stage :: "RunType option"
  np_action :: string
  np_reason :: string
  np_blocking :: "next_blocker list"
  np_next_command :: "string option"
  np_guidance_command :: "string option"
  np_next_item :: "next_item option"
  np_commands :: "next_command list"
  np_progress :: pydict
  np_lock_status :: "LockDiagnostics option"
  np_lock_warning :: "string option"
  np_template_command :: "string option"
  np_worker_pipeline :: "guided_pipeline option"

definition unarchive_command :: "TaskRecord \<Rightarrow> string" where
  "unarchive_command task =
     ''taskledger task unarchive '' @ tk_id task @ quoted_reason ''Restore archived task.''"

definition archived_blocker :: "TaskRecord \<Rightarrow> next_blocker" where
  "archived_blocker task =
     (blocker ''archived_task'' (''Task '' @ tk_id task @ '' is archived and read-only. ''
        @ ''Use taskledger task unarchive '' @ tk_id task @ quoted_reason ''...''
        @ '' first, then re-check next-action.''))
       \<lparr>nb_command_hint := Some (unarchive_command task)\<rparr>"

definition archived_next_action_payload :: "TaskRecord \<Rightarrow> next_action_payload" where
  "archived_next_action_payload task =
     \<lparr>np_task_id = tk_id task, np_status_stage = tk_status_stage task, np_active_stage = None,
      np_action = ''archived'', np_reason = ''Task is archived and read-only.'',
      np_blocking = [archived_blocker task], np_next_command = Some (unarchive_command task),
      np_guidance_command = None, np_next_item = None,
      np_commands = [command_entry ''unarchive'' ''Unarchive task'' (unarchive_command task) False],
      np_progress = [], np_lock_status = None, np_lock_warning = None,
      np_template_command = None, np_worker_pipeline = None\<rparr>"

definition lock_warning_for_action ::
  "TaskLock option \<Rightarrow> LockDiagnostics option \<Rightarrow> string option" where
  "lock_warning_for_action lock diagnostics =
     (case (lock, diagnostics) of
        (Some k, Some d) \<Rightarrow>
          if ld_classification d \<in> {LC_dead_local_process, LC_expired, LC_same_actor} then None
          else let holder = lk_holder k;
                   pid_part = (case ar_pid holder of
                     Some p \<Rightarrow> if p \<noteq> 0 then '' pid='' @ int_str p else [] | None \<Rightarrow> []);
                   host_part = (if is_set (ar_host holder) then '' host='' @ the (ar_host holder)
                     else [])
               in Some (''Warning: task has an active lock held by '' @ holder_str holder
                    @ host_part @ pid_part
                    @ ''. Do not take over from another live holder; inspect with taskledger lock show or use a handoff.'')
      | _ \<Rightarrow> None)"

text \<open>
  \<open>_finalize_next_action_payload\<close> runs last: for \<open>plan-regenerate\<close> its template command replaces
  the one with \<open>--include-guidance\<close>.
\<close>

definition template_command_for :: "string \<Rightarrow> string option \<Rightarrow> string option" where
  "template_command_for action guidance =
     (if action = ''plan-regenerate'' then Some ''taskledger plan template --from-answers --file plan.md''
      else if guidance \<noteq> None \<and> action = ''plan-propose''
      then Some ''taskledger plan template --include-guidance --file plan.md''
      else None)"

definition next_action_for_task ::
  "env \<Rightarrow> TaskRecord \<Rightarrow> ledger \<Rightarrow> error + next_action_payload" where
  "next_action_for_task E task l =
     (let lock = current_lock (tk_id task) l; runs = list_runs (tk_id task) l
      in bindR (task_active_stage E task l) (\<lambda>active_stage.
         bindR (case lock of None \<Rightarrow> Inr None
                | Some k \<Rightarrow> bindR (diagnose_lock E (Some k) (Some (tk_id task)) None) (\<lambda>d. Inr (Some d)))
           (\<lambda>diagnostics.
         if is_archived_task task then Inr (archived_next_action_payload task)
         else bindR (decide_next_action E task lock active_stage diagnostics l) (\<lambda>d.
           let action = nd_action d; item = nd_next_item d;
               guidance = guidance_command E task action active_stage runs;
               commands = (case guidance of None \<Rightarrow> []
                   | Some c \<Rightarrow> [command_entry ''guidance'' ''Review planning guidance'' c False])
                 @ commands_for_next_item action item;
               pipeline = guided_worker_pipeline_payload E task l
           in Inr \<lparr>np_task_id = tk_id task, np_status_stage = tk_status_stage task,
                np_active_stage = active_stage, np_action = action, np_reason = nd_reason d,
                np_blocking = nd_blockers d,
                np_next_command = primary_command_for_next_item action item,
                np_guidance_command = guidance, np_next_item = item,
                np_commands = (case pipeline of None \<Rightarrow> commands
                  | Some p \<Rightarrow> append_guided_worker_pipeline_commands commands p),
                np_progress = nd_progress d, np_lock_status = diagnostics,
                np_lock_warning = lock_warning_for_action lock diagnostics,
                np_template_command = template_command_for action guidance,
                np_worker_pipeline = pipeline\<rparr>))))"

definition next_action :: "env \<Rightarrow> string \<Rightarrow> ledger \<Rightarrow> error + next_action_payload" where
  "next_action E task_ref l =
     bindR (resolve_task E False task_ref l) (\<lambda>task. next_action_for_task E task l)"

section \<open>One primary command\<close>

definition primary_commands :: "next_command list \<Rightarrow> string list" where
  "primary_commands cs = map nc_command (filter nc_primary cs)"

lemma primary_commands_simps [simp]:
  "primary_commands [] = []"
  "primary_commands (command_entry k lb c p # cs) = (if p then [c] else []) @ primary_commands cs"
  "primary_commands (cs @ ds) = primary_commands cs @ primary_commands ds"
  "primary_commands [checklist_command] = []" "primary_commands [validation_status_command] = []"
  by (simp_all add: primary_commands_def command_entry_def checklist_command_def
      validation_status_command_def)

lemma general_item_primary:
  "primary_commands (general_item_commands a i)
    = (case primary_command_for_next_item a i of None \<Rightarrow> [] | Some c \<Rightarrow> [c])"
  by (simp add: general_item_commands_def split: option.split)

definition item_fits :: "string \<Rightarrow> next_item option \<Rightarrow> bool" where
  "item_fits action item \<longleftrightarrow>
     (case item of
        Some (NI_answered_question _) \<Rightarrow> action = ''plan-regenerate''
      | Some (NI_lock _ _ _) \<Rightarrow> action \<noteq> ''expired-lock-resume''
      | _ \<Rightarrow> True)"

lemma regenerate_command:
  "next_action_command ''plan-regenerate''
    = Some ''taskledger plan upsert --from-answers --file plan.md''"
  by (simp add: next_action_command_def)

lemma commands_primary:
  assumes "item_fits a i"
  shows "primary_commands (commands_for_next_item a i)
    = (case primary_command_for_next_item a i of None \<Rightarrow> [] | Some c \<Rightarrow> [c])"
proof (cases i)
  case None
  then show ?thesis by (simp add: commands_for_next_item_def split: option.split)
next
  case (Some item)
  then show ?thesis
    using assms
    by (cases item)
      (simp_all add: commands_for_next_item_def primary_command_for_next_item_def item_fits_def
        todo_command_hints_def plan_item_commands_def general_item_primary regenerate_command Let_def)
qed

lemma append_guided_primary [simp]:
  "primary_commands (append_guided_worker_pipeline_commands cs p) = primary_commands cs"
proof -
  have "primary_commands cs = primary_commands (takeWhile (\<lambda>c. \<not> nc_primary c) cs)
      @ primary_commands (dropWhile (\<lambda>c. \<not> nc_primary c) cs)"
    by (metis primary_commands_simps(3) takeWhile_dropWhile_id)
  then show ?thesis
    by (auto simp: append_guided_worker_pipeline_commands_def Let_def split: list.split option.split)
      (auto simp: primary_commands_def command_entry_def)
qed

lemma task_item_fits [simp]: "item_fits a (Some (task_next_item task))"
  by (simp add: item_fits_def task_next_item_def)

text \<open>Items of the stages: only a plan to regenerate points at an answered question.\<close>

lemma blocker_item_fits: "blocker_item task report l b = Some i \<Longrightarrow> item_fits a (Some i)"
  by (auto simp: blocker_item_def criterion_next_item_def plan_or_task_item_def task_next_item_def
      item_fits_def split: gate_blocker.splits option.splits)

lemma item_fits_simps [simp]:
  "item_fits a None" "item_fits a (map_option NI_question q)" "item_fits a (map_option NI_todo t)"
  "item_fits a (map_option NI_plan p)" "item_fits a (map_option NI_criterion c)"
  "item_fits ''plan-regenerate'' (map_option NI_answered_question q)"
  by (simp_all add: item_fits_def split: option.split)

lemma map_filter_head: "List.map_filter f xs = y # ys \<Longrightarrow> \<exists>x. f x = Some y"
  by (induction xs) (auto simp: map_filter_simps split: option.splits)

lemma next_validation_item_fits [simp]: "item_fits a (next_validation_item task report l)"
  unfolding next_validation_item_def
  by (auto split: list.split dest!: map_filter_head intro: blocker_item_fits)

lemma planning_stage_fits [simp]:
  "item_fits (nd_action (planning_decision E task l)) (nd_next_item (planning_decision E task l))"
  "item_fits (nd_action (review_decision E task l)) (nd_next_item (review_decision E task l))"
  "item_fits (nd_action (implementation_decision task l)) (nd_next_item (implementation_decision task l))"
  by (simp_all add: planning_decision_def review_decision_def question_decision_def Let_def
      regenerate_decision_def implementation_decision_def)

lemma task_decisions_point_at_task:
  "nd_next_item (task_decision task a r bs) = Some (task_next_item task)"
  "nd_next_item (decide_orphaned_active_stage task plans runs lock) = Some (task_next_item task)"
  "approved_decision E task lock l = Inr d \<Longrightarrow> nd_next_item d = Some (task_next_item task)"
  by (auto simp: task_decision_def decide_orphaned_active_stage_def Let_def approved_decision_def bindR_def
      split: list.splits sum.splits option.splits)

lemma inactive_fits:
  assumes "inactive_status_next_action E task lock l = Inr d"
  shows "item_fits (nd_action d) (nd_next_item d)"
  using assms
  by (cases "tk_status_stage task")
    (auto simp: inactive_status_next_action_def task_decisions_point_at_task no_action_def bindR_def
      split: sum.splits)

lemma stage_decision_fits:
  assumes "stage_decision E task lock st l = Inr d"
  shows "item_fits (nd_action d) (nd_next_item d)"
  using assms
  by (auto simp: stage_decision_def inactive_fits validation_decision_def bindR_def Let_def split: option.splits RunType.splits sum.splits if_splits)

lemma decided_item_fits:
  assumes "decide_next_action E task lock st diag l = Inr d" "nd_action d \<noteq> ''expired-lock-resume''"
  shows "item_fits (nd_action d) (nd_next_item d)"
  using assms stage_decision_fits [of E task lock st l]
  by (auto simp: decide_next_action_def with_unmatched_lock_def with_dead_holder_def lock_next_item_def
      bindR_def item_fits_def [of _ "Some (NI_lock _ _ _)"] split: sum.splits option.splits if_splits prod.splits)

end
