(* ===== verification/Capabilities.thy ===== *)
theory Capabilities
  imports Navigation
begin

text \<open>
  \<open>can_perform\<close> (\<open>services/navigation.py\<close>): whether an action is possible on a task, with the
  reasons why not. The lemmas at the end compare its answers with the commands themselves.
\<close>

record task_capability =
  cp_task_id :: string
  cp_action :: string
  cp_ok :: bool
  cp_reason :: string
  cp_active_stage :: "RunType option"
  cp_blocking :: "next_blocker list"

type_synonym capability = "bool \<times> string \<times> next_blocker list"

definition capability_reason :: "bool \<Rightarrow> string \<Rightarrow> string \<Rightarrow> string" where
  "capability_reason ok yes no = (if ok then yes else no)"

definition blockers_if :: "bool \<Rightarrow> string \<Rightarrow> string \<Rightarrow> next_blocker list" where
  "blockers_if b kind message = (if b then [blocker kind message] else [])"

definition active_lock_blockers :: "TaskLock option \<Rightarrow> next_blocker list" where
  "active_lock_blockers lock =
     (case lock of None \<Rightarrow> []
      | Some k \<Rightarrow> [blocker ''lock'' (''Task has an active '' @ lock_stage_str k @ '' lock from ''
          @ lk_run_id k @ ''.'')])"

definition no_plan_blockers :: "TaskRecord \<Rightarrow> next_blocker list" where
  "no_plan_blockers task =
     blockers_if (tk_accepted_plan_version task = None) ''approval'' ''No accepted plan version.''"

section \<open>One function per action\<close>

definition can_plan :: "TaskRecord \<Rightarrow> TaskLock option \<Rightarrow> capability" where
  "can_plan task lock =
     (let ok = (tk_status_stage task \<in> {S_draft, S_plan_review} \<and> lock = None)
      in (ok, capability_reason ok ''Planning can start from draft or after plan review.''
            ''Planning is only available from draft or plan_review without an active lock.'',
          active_lock_blockers lock))"

definition running_run_blocker ::
  "TaskRecord \<Rightarrow> TaskRunRecord \<Rightarrow> running_run_info \<Rightarrow> next_blocker" where
  "running_run_blocker task run details =
     (let can_resume = (rn_run_type run = RT_implementation
            \<and> Some (rn_run_id run) = tk_latest_implementation_run task)
      in (blocker ''implementation'' (''Task already has running ''
            @ enum_name run_type_names (rn_run_type run) @ '' run '' @ rn_run_id run @ ''; ''
            @ (if can_resume then ''use taskledger implement resume.'' else ''run taskledger doctor.'')))
         \<lparr>nb_command_hint := Some (if can_resume then implement_resume_command (Some (tk_id task))
             else ''taskledger doctor''),
          nb_running_run := Some details\<rparr>)"

definition can_implement ::
  "env \<Rightarrow> TaskRecord \<Rightarrow> TaskLock option \<Rightarrow> RunType option \<Rightarrow> ledger \<Rightarrow> error + capability" where
  "can_implement E task lock active_stage l =
     (let running = running_runs task l
      in bindR (dependency_blockers E task l) (\<lambda>required.
         bindR (case running of
                  [] \<Rightarrow> Inr []
                | run # _ \<Rightarrow> bindR (running_run_details E task run lock) (\<lambda>details.
                    Inr [running_run_blocker task run details])) (\<lambda>run_blockers.
         let ok = (tk_status_stage task \<in> set IMPLEMENTABLE_TASK_STAGES
               \<and> tk_accepted_plan_version task \<noteq> None \<and> required = [] \<and> running = []
               \<and> lock = None \<and> active_stage = None)
         in Inr (ok, capability_reason ok ''Implementation is ready.''
              ''Implementation requires an accepted plan, valid stage, no conflicting lock, and completed dependencies.'',
              no_plan_blockers task @ dependency_next_blockers required @ run_blockers
              @ active_lock_blockers lock))))"

definition check_resume_can_perform ::
  "env \<Rightarrow> string \<Rightarrow> TaskRecord \<Rightarrow> TaskLock option \<Rightarrow> RunType option \<Rightarrow> ledger
    \<Rightarrow> error + capability" where
  "check_resume_can_perform E action task lock active_stage l =
     (let run = optional_run E task (tk_latest_implementation_run task) l;
          resumable_stage = (tk_status_stage task \<in> {S_approved, S_implementing})
      in bindR (dependency_blockers E task l) (\<lambda>required.
         bindR (case lock of None \<Rightarrow> Inr False | Some k \<Rightarrow> lock_is_expired E k) (\<lambda>expired.
         let base = (resumable_stage \<and> tk_accepted_plan_version task \<noteq> None
               \<and> running_implementation run \<and> required = []);
             ok = (if action = ''expired-lock-resume''
               then base \<and> lock \<noteq> None \<and> expired \<and> lk_run_id (the lock) = rn_run_id (the run)
               else base \<and> lock = None \<and> active_stage = None)
         in Inr (ok,
              (if ok then ''Implementation resume is ready.''
               else if action = ''expired-lock-resume''
               then ''Expired lock resume requires an expired implementation lock matching the running implementation run.''
               else ''Implementation resume requires approved or implementing state, an accepted plan, a running implementation run, no active lock, and completed dependencies.''),
              blockers_if (\<not> resumable_stage) ''stage''
                ''Implementation resume requires approved or implementing state.''
              @ no_plan_blockers task
              @ blockers_if (\<not> running_implementation run) ''implementation''
                  ''No running implementation run is available to resume.''
              @ dependency_next_blockers required
              @ (if expired then [] else active_lock_blockers lock)
              @ blockers_if (action = ''expired-lock-resume'' \<and> \<not> (lock \<noteq> None \<and> expired)) ''lock''
                  ''No expired implementation lock found for resume.''))))"

definition restartable_validation :: "TaskRunRecord option \<Rightarrow> bool" where
  "restartable_validation run \<longleftrightarrow>
     (case run of None \<Rightarrow> False
      | Some r \<Rightarrow> rn_run_type r = RT_validation \<and> rn_status r \<in> {RS_failed, RS_blocked}
          \<and> rn_result r \<in> {Some VR_failed, Some VR_blocked})"

definition is_implementation :: "TaskRunRecord option \<Rightarrow> bool" where
  "is_implementation run \<longleftrightarrow>
     (case run of None \<Rightarrow> False | Some r \<Rightarrow> rn_run_type r = RT_implementation)"

definition can_restart ::
  "env \<Rightarrow> TaskRecord \<Rightarrow> TaskLock option \<Rightarrow> RunType option \<Rightarrow> ledger \<Rightarrow> error + capability" where
  "can_restart E task lock active_stage l =
     (let validation_run = optional_run E task (tk_latest_validation_run task) l;
          implementation_run = optional_run E task (tk_latest_implementation_run task) l
      in bindR (dependency_blockers E task l) (\<lambda>required.
         let ok = (tk_status_stage task = S_failed_validation
               \<and> tk_accepted_plan_version task \<noteq> None \<and> restartable_validation validation_run
               \<and> is_implementation implementation_run \<and> required = []
               \<and> lock = None \<and> active_stage = None)
         in Inr (ok, capability_reason ok ''Implementation restart is ready.''
              ''Implementation restart requires failed_validation state, an accepted plan, recorded failed validation, a previous implementation run, no conflicting lock, and completed dependencies.'',
              no_plan_blockers task
              @ blockers_if (\<not> restartable_validation validation_run) ''validation''
                  ''No failed validation run is available for restart.''
              @ blockers_if (\<not> is_implementation implementation_run) ''implementation''
                  ''No previous implementation run is available.''
              @ dependency_next_blockers required @ active_lock_blockers lock)))"

definition can_validate ::
  "env \<Rightarrow> TaskRecord \<Rightarrow> TaskLock option \<Rightarrow> RunType option \<Rightarrow> ledger \<Rightarrow> capability" where
  "can_validate E task lock active_stage l =
     (let finished = finished_implementation
            (optional_run E task (tk_latest_implementation_run task) l);
          ok = (tk_status_stage task = S_implemented \<and> lock = None \<and> active_stage = None \<and> finished)
      in (ok, capability_reason ok ''Validation is ready.''
            ''Validation requires implemented state, a finished implementation run, and no conflicting lock.'',
          blockers_if (\<not> finished) ''implementation'' ''No finished implementation run is available.''
          @ active_lock_blockers lock))"

section \<open>The dispatch\<close>

definition capability_of ::
  "env \<Rightarrow> string \<Rightarrow> TaskRecord \<Rightarrow> TaskLock option \<Rightarrow> RunType option \<Rightarrow> ledger \<Rightarrow> error + capability" where
  "capability_of E action task lock active_stage l =
     (if action = ''plan'' then Inr (can_plan task lock)
      else if action = ''implement'' then can_implement E task lock active_stage l
      else if action \<in> {''implement-resume'', ''expired-lock-resume''}
      then check_resume_can_perform E action task lock active_stage l
      else if action = ''implement-restart'' then can_restart E task lock active_stage l
      else if action = ''validate'' then Inr (can_validate E task lock active_stage l)
      else Inl (bad_input ''unsupported action''))"

definition can_perform :: "env \<Rightarrow> string \<Rightarrow> string \<Rightarrow> ledger \<Rightarrow> error + task_capability" where
  "can_perform E task_ref action l =
     bindR (resolve_task E False task_ref l) (\<lambda>task.
     if is_archived_task task
     then Inr \<lparr>cp_task_id = tk_id task, cp_action = action, cp_ok = False,
       cp_reason = ''Task is archived and read-only.'', cp_active_stage = None,
       cp_blocking = [archived_blocker task]\<rparr>
     else bindR (task_active_stage E task l) (\<lambda>active_stage.
       bindR (capability_of E action task (current_lock (tk_id task) l) active_stage l)
         (\<lambda>(ok, reason, blocking).
       Inr \<lparr>cp_task_id = tk_id task, cp_action = action, cp_ok = ok, cp_reason = reason,
         cp_active_stage = active_stage, cp_blocking = blocking\<rparr>)))"

section \<open>Answers and commands\<close>

lemma active_stage_unlocked:
  "current_lock (tk_id task) l = None \<Longrightarrow> task_active_stage E task l = Inr None"
  by (simp add: task_active_stage_def)

text \<open>What the answers say about the ledger, spelled out.\<close>

lemma can_implement_ok:
  assumes "can_perform E ref ''implement'' l = Inr c"
  shows "\<exists>task. resolve_task E False ref l = Inr task
    \<and> (cp_ok c \<longleftrightarrow> \<not> is_archived_task task \<and> tk_status_stage task \<in> set IMPLEMENTABLE_TASK_STAGES
        \<and> tk_accepted_plan_version task \<noteq> None \<and> dependency_blockers E task l = Inr []
        \<and> running_runs task l = [] \<and> read_lock (tk_id task) l = None)"
  using assms active_stage_unlocked
  by (auto simp: can_perform_def capability_of_def can_implement_def bindR_def Let_def current_lock_def
      task_active_stage_def split: sum.splits if_splits)

lemma start_implementation_ready:
  assumes "resolve_task E False ref l = Inr task" "\<not> is_archived_task task"
    "tk_status_stage task \<in> set IMPLEMENTABLE_TASK_STAGES"
    "require_accepted_plan_record task l = Inr plan" "dependency_blockers E task l = Inr []"
    "running_runs task l = []" "read_lock (tk_id task) l = None"
    and self: "resolve_task E False (tk_id task) l = Inr task"
    and clock: "valid_datetime (e_clock E)" "dt_year (e_clock E) < 9999" "dt_offset (e_clock E) = Some 0"
  shows "wp (start_implementation E ref actor harness) (\<lambda>_ _. True) (\<lambda>_ _. False) l"
  unfolding start_implementation_def start_implementation_for_task_def Let_def
  by (intro wp_ensure_dependencies_ok wp_start_run_free wp_require_live_lock wp_intro)
    (use assms new_lock_live [OF clock] in \<open>auto simp: started_ledger_def Let_def\<close>)

text \<open>The facts under which each of the other answers is yes.\<close>

lemma optional_run_required: "require_run E task i l = Inr r \<Longrightarrow> optional_run E task i l = Some r"
  by (auto simp: require_run_def optional_run_def split: option.splits)

definition says_yes :: "env \<Rightarrow> string \<Rightarrow> string \<Rightarrow> ledger \<Rightarrow> bool" where
  "says_yes E ref action l \<longleftrightarrow>
     (case can_perform E ref action l of Inl _ \<Rightarrow> False | Inr c \<Rightarrow> cp_ok c)"

lemma says_yes_unlocked:
  assumes "resolve_task E False ref l = Inr task" "\<not> is_archived_task task"
    "read_lock (tk_id task) l = None"
  shows "says_yes E ref action l \<longleftrightarrow>
    (case capability_of E action task None None l of Inl _ \<Rightarrow> False | Inr (ok, _, _) \<Rightarrow> ok)"
  using assms
  by (simp add: says_yes_def can_perform_def current_lock_def task_active_stage_def bindR_def
      split: sum.split prod.split)

lemma start_planning_possible:
  "wp (start_planning E ref actor harness) (\<lambda>_ _. says_yes E ref ''plan'' l) (\<lambda>_ _. True) l"
  unfolding start_planning_def Let_def
  by (intro wp_intro) (auto simp: says_yes_unlocked capability_of_def can_plan_def)

lemma start_implementation_possible:
  "wp (start_implementation E ref actor harness) (\<lambda>_ _. says_yes E ref ''implement'' l) (\<lambda>_ _. True) l"
  unfolding start_implementation_def start_implementation_for_task_def Let_def
  by (intro wp_intro)
    (auto simp: says_yes_unlocked capability_of_def can_implement_def bindR_def
      dest: accepted_plan_version_given)

lemma restart_implementation_possible:
  "wp (restart_implementation E ref summary actor harness)
    (\<lambda>_ _. says_yes E ref ''implement-restart'' l) (\<lambda>_ _. True) l"
  unfolding restart_implementation_def Let_def
  by (intro wp_intro)
    (auto simp: says_yes_unlocked capability_of_def can_restart_def bindR_def restartable_validation_def
      is_implementation_def dest!: optional_run_required)

lemma start_validation_possible:
  "wp (start_validation E ref actor harness) (\<lambda>_ _. says_yes E ref ''validate'' l) (\<lambda>_ _. True) l"
  unfolding start_validation_def Let_def
  by (intro wp_intro)
    (auto simp: says_yes_unlocked capability_of_def can_validate_def finished_implementation_def
      dest!: optional_run_required)

lemma dependency_blockers_frame:
  "l_tasks l' = l_tasks l \<Longrightarrow> l_requirements l' = l_requirements l
    \<Longrightarrow> dependency_blockers E task l' = dependency_blockers E task l"
proof -
  assume same: "l_tasks l' = l_tasks l" "l_requirements l' = l_requirements l"
  have "incomplete_requirements E rs l' = incomplete_requirements E rs l" for rs
    by (induction rs) (simp_all add: resolve_task_frame [OF same(1)])
  then show ?thesis by (simp add: dependency_blockers_def load_requirements_def same(2))
qed

lemma wp_clear_resume_lock_cases:
  assumes "read_lock (tk_id task) l = None \<Longrightarrow> Q () l"
    and "\<And>k l'. repair \<Longrightarrow> read_lock (tk_id task) l = Some k \<Longrightarrow> lock_is_expired E k = Inr True
      \<Longrightarrow> lk_run_id k = rn_run_id run
      \<Longrightarrow> dependency_blockers E task l = dependency_blockers E task l' \<Longrightarrow> Q () l'"
    and "\<And>e l'. X e l'"
  shows "wp (clear_resume_lock E task run reason repair) Q X l"
  unfolding clear_resume_lock_def release_expired_lock_def
  by (cases "read_lock (tk_id task) l"; intro wp_intro assms(3))
    (auto simp: current_lock_def write_broken_lock_audit_def remove_lock_def append_event_def
      append_event_as_def Let_def assms(1) intro!: assms(2) dependency_blockers_frame [symmetric])

lemma says_yes_expired:
  assumes "resolve_task E False ref l = Inr task" "\<not> is_archived_task task"
    "read_lock (tk_id task) l = Some k" "lock_is_expired E k = Inr True"
  shows "says_yes E ref action l \<longleftrightarrow>
    (case capability_of E action task (Some k) None l of Inl _ \<Rightarrow> False | Inr (ok, _, _) \<Rightarrow> ok)"
  using assms
  by (simp add: says_yes_def can_perform_def current_lock_def task_active_stage_def bindR_def
      split: sum.split prod.split)

lemma wp_fixed: "C \<Longrightarrow> wp m (\<lambda>_ _. C) (\<lambda>_ _. True) l"
  by (simp add: wp_def split: prod.split sum.split)

lemma wp_acquire_fixed:
  "C \<Longrightarrow> wp (bindE (acquire_lock E task stage run reason actor harness) g) (\<lambda>_ _. C) (\<lambda>_ _. True) l"
  by (rule wp_fixed)

lemma says_yes_resume:
  assumes "resolve_task E False ref l = Inr task" "\<not> is_archived_task task"
    "tk_status_stage task \<in> {S_approved, S_implementing}" "tk_accepted_plan_version task \<noteq> None"
    "optional_run E task (tk_latest_implementation_run task) l = Some run"
    "rn_run_type run = RT_implementation" "rn_status run = RS_running"
    "dependency_blockers E task l = Inr []"
  shows "read_lock (tk_id task) l = None \<Longrightarrow> says_yes E ref ''implement-resume'' l"
    and "read_lock (tk_id task) l = Some k \<Longrightarrow> lock_is_expired E k = Inr True
      \<Longrightarrow> lk_run_id k = rn_run_id run \<Longrightarrow> says_yes E ref ''expired-lock-resume'' l"
  using assms
  by (auto simp: says_yes_unlocked says_yes_expired capability_of_def check_resume_can_perform_def
      bindR_def running_implementation_def)

lemma resume_implementation_possible:
  "wp (resume_implementation E ref None reason actor harness repair)
    (\<lambda>_ _. says_yes E ref ''implement-resume'' l
       \<or> repair \<and> says_yes E ref ''expired-lock-resume'' l) (\<lambda>_ _. True) l"
  unfolding resume_implementation_def Let_def
  by (intro wp_acquire_fixed wp_clear_resume_lock_cases wp_intro)
    (auto simp: opt_str_or_def dest!: optional_run_required dest: accepted_plan_version_given
      intro: says_yes_resume)

end
