(* ===== verification/Doctor.thy ===== *)
theory Doctor
  imports Reviews LockDiagnosis
begin

text \<open>
  The doctor: \<open>inspect_v2_project\<close> and \<open>inspect_v2_locks\<close> of \<open>services/doctor.py\<close> with
  \<open>scan_task_integrity\<close> of \<open>services/doctor_checks/task_checks.py\<close>. The scans of the configuration
  file and of files of older layouts look at the file system outside the ledger and are left out.
  An error is a constructor with its data; \<open>error_text\<close> is the line that is printed.
\<close>

section \<open>Findings\<close>

datatype doctor_error =
    DE_active_missing string
  | DE_accepted_missing string int
  | DE_multiple_accepted string
  | DE_accepted_count string
  | DE_duplicate_todos string
  | DE_transient_stage string TaskStatusStage
  | DE_multiple_running string
  | DE_run_without_lock string
  | DE_lock_without_run string ActiveTaskStatusStage
  | DE_change_missing_run string string string
  | DE_change_wrong_run string string string RunType
  | DE_validation_missing_run string string string
  | DE_validation_wrong_run string string string RunType
  | DE_lock_missing_task string string
  | DE_lock_expiry string string string
  | DE_lock_missing_run string string string
  | DE_lock_not_running string string
  | DE_lock_stage string ActiveTaskStatusStage string RunType
  | DE_broken_references

definition run_type_str :: "RunType \<Rightarrow> string" where
  "run_type_str t = enum_name run_type_names t"

definition change_missing_message :: "string \<Rightarrow> string \<Rightarrow> string \<Rightarrow> string" where
  "change_missing_message task change run =
     ''Change '' @ change @ '' in task '' @ task @ '' references missing implementation run ''
       @ run @ ''.''"

definition change_wrong_message :: "string \<Rightarrow> string \<Rightarrow> string \<Rightarrow> RunType \<Rightarrow> string" where
  "change_wrong_message task change run type =
     ''Change '' @ change @ '' in task '' @ task @ '' references non-implementation run ''
       @ run @ '' ('' @ run_type_str type @ '').''"

definition validation_missing_message :: "string \<Rightarrow> string \<Rightarrow> string \<Rightarrow> string" where
  "validation_missing_message task run based =
     ''Validation run '' @ run @ '' in task '' @ task
       @ '' references missing implementation run '' @ based @ ''.''"

definition validation_wrong_message :: "string \<Rightarrow> string \<Rightarrow> string \<Rightarrow> RunType \<Rightarrow> string" where
  "validation_wrong_message task run based type =
     ''Validation run '' @ run @ '' in task '' @ task
       @ '' references non-implementation run '' @ based @ '' ('' @ run_type_str type @ '').''"

definition diagnostic_line :: "string \<Rightarrow> string \<Rightarrow> string \<Rightarrow> string \<Rightarrow> string" where
  "diagnostic_line severity code task message =
     ''['' @ severity @ '':'' @ code @ ''] '' @ task @ '': '' @ message"

fun error_text :: "doctor_error \<Rightarrow> string" where
  "error_text (DE_active_missing i) = ''Active task points to missing task '' @ i @ ''.''"
| "error_text (DE_accepted_missing i v) =
     ''Task '' @ i @ '' points to missing accepted plan v'' @ int_str v @ ''.''"
| "error_text (DE_multiple_accepted i) = ''Task '' @ i @ '' has multiple accepted plans.''"
| "error_text (DE_accepted_count i) =
     ''Task '' @ i @ '' must have exactly one accepted plan for accepted_plan_version.''"
| "error_text (DE_duplicate_todos i) = ''Task '' @ i @ '' contains duplicate todo ids.''"
| "error_text (DE_transient_stage i s) =
     ''Task '' @ i @ '' persists transient stage '' @ stage_str s @ '' as status.''"
| "error_text (DE_multiple_running i) = ''Task '' @ i @ '' has multiple running runs.''"
| "error_text (DE_run_without_lock i) =
     ''Task '' @ i @ '' has a running run without a matching active lock.''"
| "error_text (DE_lock_without_run i s) =
     ''Task '' @ i @ '' has a '' @ enum_name lock_stage_names s @ '' lock without a running run.''"
| "error_text (DE_change_missing_run t c r) =
     diagnostic_line ''error'' ''change.missing_implementation_run'' t (change_missing_message t c r)"
| "error_text (DE_change_wrong_run t c r k) =
     diagnostic_line ''error'' ''change.non_implementation_run'' t (change_wrong_message t c r k)"
| "error_text (DE_validation_missing_run t r b) =
     diagnostic_line ''error'' ''validation_run.missing_implementation_run'' t
       (validation_missing_message t r b)"
| "error_text (DE_validation_wrong_run t r b k) =
     diagnostic_line ''error'' ''validation_run.non_implementation_run'' t
       (validation_wrong_message t r b k)"
| "error_text (DE_lock_missing_task k t) =
     ''Lock '' @ k @ '' references missing task '' @ t @ ''.''"
| "error_text (DE_lock_expiry t k s) =
     ''Invalid lock expiration on '' @ t @ '' ('' @ k @ ''): '' @ s"
| "error_text (DE_lock_missing_run k r t) =
     ''Lock '' @ k @ '' references missing run '' @ r @ '' for task '' @ t @ ''.''"
| "error_text (DE_lock_not_running k r) =
     ''Lock '' @ k @ '' references non-running run '' @ r @ ''.''"
| "error_text (DE_lock_stage k s r t) =
     ''Lock '' @ k @ '' stage '' @ enum_name lock_stage_names s @ '' does not match run '' @ r
       @ '' type '' @ run_type_str t @ ''.''"
| "error_text DE_broken_references = ''V2 task records contain broken references.''"

text \<open>
  A structured diagnostic: the optional fields are listed in the order of the dictionary, without
  those that are \<open>None\<close>.
\<close>

record diagnostic =
  dg_severity :: string
  dg_code :: string
  dg_message :: string
  dg_task_id :: string
  dg_fields :: "(string \<times> string) list"
  dg_hints :: "string list"

record broken_link =
  bl_task_id :: string
  bl_kind :: string
  bl_ref :: string

record run_lock_mismatch =
  mm_task_id :: string
  mm_run_id :: string
  mm_run_type :: RunType
  mm_status :: RunStatus
  mm_next_command :: string
  mm_note :: string

record scan =
  sn_errors :: "doctor_error list"
  sn_warnings :: "string list"
  sn_hints :: "string list"
  sn_links :: "broken_link list"
  sn_mismatches :: "run_lock_mismatch list"
  sn_diagnostics :: "diagnostic list"

definition no_findings :: scan where
  "no_findings = \<lparr>sn_errors = [], sn_warnings = [], sn_hints = [], sn_links = [],
     sn_mismatches = [], sn_diagnostics = []\<rparr>"

definition join_scans :: "scan \<Rightarrow> scan \<Rightarrow> scan" where
  "join_scans a b =
     \<lparr>sn_errors = sn_errors a @ sn_errors b, sn_warnings = sn_warnings a @ sn_warnings b,
      sn_hints = sn_hints a @ sn_hints b, sn_links = sn_links a @ sn_links b,
      sn_mismatches = sn_mismatches a @ sn_mismatches b,
      sn_diagnostics = sn_diagnostics a @ sn_diagnostics b\<rparr>"

section \<open>References and plans\<close>

definition scan_links :: "TaskRecord \<Rightarrow> TaskRecord list \<Rightarrow> ledger \<Rightarrow> broken_link list" where
  "scan_links task tasks l =
     (case tk_introduction_ref task of
        None \<Rightarrow> []
      | Some i \<Rightarrow>
          if i \<noteq> [] \<and> (case resolve_introduction i l of Inl _ \<Rightarrow> True | Inr _ \<Rightarrow> False)
          then [\<lparr>bl_task_id = tk_id task, bl_kind = ''introduction'', bl_ref = i\<rparr>] else [])
     @ map (\<lambda>r. \<lparr>bl_task_id = tk_id task, bl_kind = ''requirement'', bl_ref = r\<rparr>)
         (filter (\<lambda>r. r \<notin> tk_id ` set tasks)
           (map dr_task_id (load_requirements (tk_id task) l)))"

definition scan_plans :: "TaskRecord \<Rightarrow> ledger \<Rightarrow> doctor_error list" where
  "scan_plans task l =
     (let plans = list_plans (tk_id task) l;
          accepted = filter (\<lambda>p. pl_status p = PS_accepted) plans
      in (case tk_accepted_plan_version task of
            None \<Rightarrow> []
          | Some v \<Rightarrow> if list_ex (\<lambda>p. pl_plan_version p = v) plans then []
                      else [DE_accepted_missing (tk_id task) v])
         @ (if length accepted > 1 then [DE_multiple_accepted (tk_id task)] else [])
         @ (if tk_accepted_plan_version task \<noteq> None \<and> length accepted \<noteq> 1
            then [DE_accepted_count (tk_id task)] else []))"

definition scan_todos :: "TaskRecord \<Rightarrow> ledger \<Rightarrow> doctor_error list" where
  "scan_todos task l =
     (let todos = load_todos (tk_id task) l
      in if length (remdups (map td_id todos)) \<noteq> length todos
         then [DE_duplicate_todos (tk_id task)] else [])"

definition valid_step_ids :: "env \<Rightarrow> string list" where
  "valid_step_ids E =
     (case e_pipeline E of
        None \<Rightarrow> []
      | Some pipeline \<Rightarrow> if pc_enabled pipeline then step_ids pipeline else [])"

definition stale_step :: "env \<Rightarrow> string option \<Rightarrow> bool" where
  "stale_step E step_id \<longleftrightarrow> named_step step_id \<and> the step_id \<notin> set (valid_step_ids E)"

definition stale_step_diagnostic ::
  "TaskRecord \<Rightarrow> string \<Rightarrow> string \<Rightarrow> string \<Rightarrow> string \<Rightarrow> string \<Rightarrow> string list \<Rightarrow> diagnostic" where
  "stale_step_diagnostic task code what key i step_id hints =
     \<lparr>dg_severity = ''warning'', dg_code = code,
      dg_message = what @ '' '' @ i @ '' references worker step '' @ [CHR 0x27] @ step_id @ [CHR 0x27]
        @ '' but no enabled worker pipeline defines it.'',
      dg_task_id = tk_id task,
      dg_fields = [(''task_slug'', tk_slug task), (key, i), (''worker_step_id'', step_id)],
      dg_hints = hints\<rparr>"

definition inspect_overlay_hint :: string where
  "inspect_overlay_hint = ''Inspect the current overlay with `taskledger pipeline show`.''"

definition warn_stale_worker_step_references ::
  "env \<Rightarrow> TaskRecord \<Rightarrow> ledger \<Rightarrow> diagnostic list" where
  "warn_stale_worker_step_references E task l =
     map (\<lambda>t. stale_step_diagnostic task ''todo.stale_worker_step'' ''Todo'' ''todo_id'' (td_id t)
            (the (td_worker_step_id t))
            [inspect_overlay_hint,
             ''Update the todo worker_step reference or restore the missing step.''])
       (filter (\<lambda>t. stale_step E (td_worker_step_id t)) (load_todos (tk_id task) l))
     @ map (\<lambda>h. stale_step_diagnostic task ''handoff.stale_worker_step'' ''Handoff'' ''handoff_id''
            (ho_handoff_id h) (the (ho_worker_step_id h))
            [inspect_overlay_hint,
             ''Update the handoff worker_step_id or restore the missing step.''])
       (filter (\<lambda>h. stale_step E (ho_worker_step_id h)) (list_handoffs (tk_id task) l))"

section \<open>Runs and locks\<close>

fun live_lock_of :: "env \<Rightarrow> string \<Rightarrow> TaskLock list \<Rightarrow> error + TaskLock option" where
  "live_lock_of E task_id [] = Inr None"
| "live_lock_of E task_id (lock # locks) =
     (if lk_task_id lock = task_id
      then bindR (lock_is_expired E lock) (\<lambda>expired.
           if expired then live_lock_of E task_id locks else Inr (Some lock))
      else live_lock_of E task_id locks)"

definition mismatch :: "TaskRecord \<Rightarrow> TaskRunRecord \<Rightarrow> run_lock_mismatch" where
  "mismatch task run =
     (let (command, note) =
        (case rn_run_type run of
           RT_planning \<Rightarrow>
             (''taskledger repair run --task '' @ tk_id task @ '' --run '' @ rn_run_id run
                @ '' --reason '' @ in_quotes ''Finish orphaned planning run.'',
              ''Planning run can be explicitly finished with repair run.'')
         | RT_implementation \<Rightarrow>
             if Some (rn_run_id run) = tk_latest_implementation_run task
                \<and> tk_status_stage task \<in> {S_approved, S_implementing, S_failed_validation}
             then (''taskledger implement resume --task '' @ tk_id task @ '' --run '' @ rn_run_id run
                     @ '' --reason '' @ in_quotes ''Reacquire implementation lock.'',
                   ''Reacquire the missing implementation lock for this running run.'')
             else (''taskledger doctor locks'',
                   ''Historical or non-resumable implementation run. Inspect run state before repair.'')
         | RT_validation \<Rightarrow>
             (''taskledger task show --task '' @ tk_id task,
              ''Inspect task and run state before choosing repair.''))
      in \<lparr>mm_task_id = tk_id task, mm_run_id = rn_run_id run, mm_run_type = rn_run_type run,
          mm_status = rn_status run, mm_next_command = command, mm_note = note\<rparr>)"

definition orphaned_run_hint ::
  "TaskRecord \<Rightarrow> TaskLock option \<Rightarrow> TaskRunRecord list \<Rightarrow> string" where
  "orphaned_run_hint task active_lock running =
     (if active_lock = None \<and> tk_status_stage task = S_implementing
         \<and> tk_accepted_plan_version task \<noteq> None
         \<and> list_ex (\<lambda>r. rn_run_type r = RT_implementation
             \<and> Some (rn_run_id r) = tk_latest_implementation_run task) running
      then ''After confirming the previous lock was intentionally broken, resume the running implementation with `taskledger implement resume --task ''
        @ tk_id task @ '' --reason ''
        @ in_quotes ''Reacquire implementation lock for existing running run.'' @ ''`.''
      else ''Inspect the run/lock pair and repair the orphaned run for task '' @ tk_id task
        @ '' explicitly.'')"

definition scan_runs ::
  "TaskRecord \<Rightarrow> TaskLock option \<Rightarrow> TaskRunRecord list \<Rightarrow> scan" where
  "scan_runs task active_lock running =
     (let active_stage = derive_active_stage active_lock running;
          transient = (if tk_status_stage task \<in> {S_planning, S_implementing, S_validating}
            then [DE_transient_stage (tk_id task) (tk_status_stage task)] else []);
          multiple = (if length running > 1 then [DE_multiple_running (tk_id task)] else []);
          found = no_findings\<lparr>sn_errors := transient @ multiple\<rparr>
      in if running \<noteq> [] \<and> active_stage = None
         then found\<lparr>sn_errors := transient @ multiple @ [DE_run_without_lock (tk_id task)],
                sn_mismatches := map (mismatch task) running,
                sn_hints := [orphaned_run_hint task active_lock running]\<rparr>
         else if active_lock \<noteq> None \<and> active_stage = None \<and> running = []
         then found\<lparr>sn_errors := transient @ multiple
                  @ [DE_lock_without_run (tk_id task) (lk_stage (the active_lock))],
                sn_hints := [''Break the stale lock with `taskledger repair lock --task ''
                  @ tk_id task @ '' --reason '' @ in_quotes ''...'' @ ''`.'']\<rparr>
         else found)"

section \<open>Changes and validation runs\<close>

text \<open>\<open>run_map\<close> is built from all runs in order, so the last record of an id counts.\<close>

definition run_in_map :: "string \<Rightarrow> TaskRunRecord list \<Rightarrow> TaskRunRecord option" where
  "run_in_map run_id runs = find (\<lambda>r. rn_run_id r = run_id) (rev runs)"

definition record_path :: "env \<Rightarrow> string \<Rightarrow> string \<Rightarrow> string \<Rightarrow> string" where
  "record_path E task_id kind i =
     e_tasks_dir E @ ''/'' @ task_id @ ''/'' @ kind @ ''/'' @ i @ ''.md''"

definition inspect_task_hint :: "TaskRecord \<Rightarrow> string" where
  "inspect_task_hint task = ''Inspect task: taskledger task show --task '' @ tk_id task"

definition scan_change ::
  "env \<Rightarrow> TaskRecord \<Rightarrow> TaskRunRecord list \<Rightarrow> CodeChangeRecord
    \<Rightarrow> (doctor_error \<times> diagnostic) list" where
  "scan_change E task runs change =
     (let run_id = ch_implementation_run change; i = ch_change_id change;
          path = record_path E (tk_id task) ''changes'' i
      in case run_in_map run_id runs of
           None \<Rightarrow>
             [(DE_change_missing_run (tk_id task) i run_id,
               \<lparr>dg_severity = ''error'', dg_code = ''change.missing_implementation_run'',
                dg_message = change_missing_message (tk_id task) i run_id, dg_task_id = tk_id task,
                dg_fields = [(''task_slug'', tk_slug task), (''change_id'', i), (''run_id'', run_id),
                  (''expected_run_type'', ''implementation''), (''change_kind'', ch_kind change),
                  (''change_path'', path)],
                dg_hints = [inspect_task_hint task,
                  ''If the change is invalid, remove or migrate the change record; if it is valid, relink it to the correct implementation run.'']\<rparr>)]
         | Some run \<Rightarrow>
             if rn_run_type run = RT_implementation then []
             else let command = (ch_kind change = ''command'' \<and> rn_run_type run = RT_planning)
               in [(DE_change_wrong_run (tk_id task) i run_id (rn_run_type run),
                 \<lparr>dg_severity = ''error'', dg_code = ''change.non_implementation_run'',
                  dg_message = change_wrong_message (tk_id task) i run_id (rn_run_type run),
                  dg_task_id = tk_id task,
                  dg_fields = [(''task_slug'', tk_slug task), (''change_id'', i), (''run_id'', run_id),
                    (''expected_run_type'', ''implementation''),
                    (''actual_run_type'', run_type_str (rn_run_type run)),
                    (''actual_run_status'', enum_name run_status_names (rn_status run)),
                    (''change_kind'', ch_kind change), (''change_path'', path),
                    (''run_path'', record_path E (tk_id task) ''runs'' (rn_run_id run))],
                  dg_hints =
                    (if command
                     then [''This looks like a planning command record stored as a code change.'']
                     else [])
                    @ [inspect_task_hint task,
                       ''Inspect run: taskledger implement show --task '' @ tk_id task @ '' --run ''
                         @ run_id]
                    @ (if command
                       then [''Run: taskledger repair planning-command-changes --task '' @ tk_id task
                         @ '' --reason '' @ in_quotes ''Move planning command logs out of code changes.'']
                       else [])\<rparr>)])"

definition scan_validation_run ::
  "env \<Rightarrow> TaskRecord \<Rightarrow> TaskRunRecord list \<Rightarrow> TaskRunRecord \<Rightarrow> (doctor_error \<times> diagnostic) list" where
  "scan_validation_run E task runs run =
     (if rn_run_type run = RT_validation \<and> is_set (rn_based_on_implementation_run run)
      then let based = the (rn_based_on_implementation_run run); i = rn_run_id run;
               path = record_path E (tk_id task) ''runs'' i
           in case run_in_map based runs of
                None \<Rightarrow>
                  [(DE_validation_missing_run (tk_id task) i based,
                    \<lparr>dg_severity = ''error'', dg_code = ''validation_run.missing_implementation_run'',
                     dg_message = validation_missing_message (tk_id task) i based,
                     dg_task_id = tk_id task,
                     dg_fields = [(''task_slug'', tk_slug task), (''run_id'', i),
                       (''based_on_run_id'', based), (''expected_run_type'', ''implementation''),
                       (''run_path'', path)],
                     dg_hints = [inspect_task_hint task,
                       ''If the based-on run is invalid, relink validation run or remove it.'']\<rparr>)]
              | Some linked \<Rightarrow>
                  if rn_run_type linked = RT_implementation then []
                  else [(DE_validation_wrong_run (tk_id task) i based (rn_run_type linked),
                    \<lparr>dg_severity = ''error'', dg_code = ''validation_run.non_implementation_run'',
                     dg_message = validation_wrong_message (tk_id task) i based (rn_run_type linked),
                     dg_task_id = tk_id task,
                     dg_fields = [(''task_slug'', tk_slug task), (''run_id'', i),
                       (''based_on_run_id'', based), (''expected_run_type'', ''implementation''),
                       (''actual_run_type'', run_type_str (rn_run_type linked)), (''run_path'', path),
                       (''based_on_run_path'',
                          record_path E (tk_id task) ''runs'' (rn_run_id linked))],
                     dg_hints = [inspect_task_hint task,
                       ''Inspect validation run: taskledger validate show --task '' @ tk_id task
                         @ '' --run '' @ i,
                       ''Relink validation run to an implementation run or remove it.'']\<rparr>)]
      else [])"

section \<open>One task\<close>

definition scan_task_integrity ::
  "env \<Rightarrow> TaskRecord list \<Rightarrow> TaskRecord \<Rightarrow> ledger \<Rightarrow> error + scan" where
  "scan_task_integrity E tasks task l =
     bindR (live_lock_of E (tk_id task) (load_active_locks l)) (\<lambda>active_lock.
     let runs = list_runs (tk_id task) l;
         running = filter (\<lambda>r. rn_status r = RS_running) runs;
         stale = warn_stale_worker_step_references E task l;
         found = scan_runs task active_lock running;
         refs = concat (map (scan_change E task runs) (list_changes (tk_id task) l))
           @ concat (map (scan_validation_run E task runs) runs)
     in Inr \<lparr>sn_errors = scan_plans task l @ scan_todos task l @ sn_errors found @ map fst refs,
          sn_warnings = map (\<lambda>d. diagnostic_line ''warning'' (dg_code d) (dg_task_id d) (dg_message d))
            stale,
          sn_hints = sn_hints found, sn_links = scan_links task tasks l,
          sn_mismatches = sn_mismatches found, sn_diagnostics = stale @ map snd refs\<rparr>)"

section \<open>Active task and lock files\<close>

definition scan_active_task :: "TaskRecord list \<Rightarrow> ledger \<Rightarrow> scan" where
  "scan_active_task tasks l =
     (case l_active l of
        None \<Rightarrow> no_findings
      | Some state \<Rightarrow>
          (case find (\<lambda>t. tk_id t = as_task_id state) tasks of
             None \<Rightarrow> no_findings\<lparr>sn_errors := [DE_active_missing (as_task_id state)]\<rparr>
           | Some t \<Rightarrow>
               if tk_status_stage t \<in> {S_cancelled, S_done}
               then no_findings\<lparr>sn_warnings :=
                 [''Active task '' @ tk_id t @ '' is '' @ stage_str (tk_status_stage t) @ ''.'']\<rparr>
               else no_findings))"

definition scan_lock ::
  "env \<Rightarrow> TaskRecord list \<Rightarrow> ledger \<Rightarrow> TaskLock \<Rightarrow> doctor_error list" where
  "scan_lock E tasks l lock =
     (if lk_task_id lock \<notin> tk_id ` set tasks
      then [DE_lock_missing_task (lk_lock_id lock) (lk_task_id lock)]
      else (case lock_is_expired E lock of
              Inl _ \<Rightarrow> [DE_lock_expiry (lk_task_id lock) (lk_lock_id lock) (str_or (lk_expires_at lock) [])] | Inr _ \<Rightarrow> [])
        @ (case resolve_run E (lk_task_id lock) (lk_run_id lock) l of
             Inl _ \<Rightarrow> [DE_lock_missing_run (lk_lock_id lock) (lk_run_id lock) (lk_task_id lock)]
           | Inr run \<Rightarrow>
               (if rn_status run \<noteq> RS_running
                then [DE_lock_not_running (lk_lock_id lock) (rn_run_id run)] else [])
               @ (if lk_stage lock \<noteq> stage_of_run_type (rn_run_type run)
                  then [DE_lock_stage (lk_lock_id lock) (lk_stage lock) (rn_run_id run)
                    (rn_run_type run)] else [])))"

definition lock_expired_entry :: "env \<Rightarrow> TaskRecord list \<Rightarrow> TaskLock \<Rightarrow> bool" where
  "lock_expired_entry E tasks lock \<longleftrightarrow>
     lk_task_id lock \<in> tk_id ` set tasks \<and> lock_is_expired E lock = Inr True"

section \<open>The report\<close>

record doctor_counts =
  dc_tasks :: nat
  dc_plans :: nat
  dc_questions :: nat
  dc_runs :: nat
  dc_changes :: nat
  dc_locks :: nat
  dc_active_task :: nat

record doctor_report =
  dr_counts :: doctor_counts
  dr_errors :: "doctor_error list"
  dr_warnings :: "string list"
  dr_hints :: "string list"
  dr_links :: "broken_link list"
  dr_expired :: "TaskLock list"
  dr_mismatches :: "run_lock_mismatch list"
  dr_diagnostics :: "diagnostic list"

definition total :: "(string \<Rightarrow> nat) \<Rightarrow> TaskRecord list \<Rightarrow> nat" where
  "total f tasks = sum_list (map (\<lambda>t. f (tk_id t)) tasks)"

definition inspect_v2_project :: "env \<Rightarrow> ledger \<Rightarrow> error + doctor_report" where
  "inspect_v2_project E l =
     (let tasks = list_tasks l; locks = load_active_locks l; active = scan_active_task tasks l
      in bindR (mapR (\<lambda>t. scan_task_integrity E tasks t l) tasks) (\<lambda>scans.
         let found = fold (\<lambda>s acc. join_scans acc s) scans active;
             expired = filter (lock_expired_entry E tasks) locks
         in Inr \<lparr>dr_counts = \<lparr>dc_tasks = length tasks,
                   dc_plans = total (\<lambda>i. length (list_plans i l)) tasks,
                   dc_questions = total (\<lambda>i. length (list_questions i l)) tasks,
                   dc_runs = total (\<lambda>i. length (list_runs i l)) tasks,
                   dc_changes = total (\<lambda>i. length (list_changes i l)) tasks,
                   dc_locks = length locks,
                   dc_active_task = (if l_active l = None then 0 else 1)\<rparr>,
              dr_errors = sn_errors found @ concat (map (scan_lock E tasks l) locks)
                @ (if sn_links found \<noteq> [] then [DE_broken_references] else []),
              dr_warnings = sn_warnings found
                @ (if expired \<noteq> [] then [''Expired task locks require explicit resolution.''] else []),
              dr_hints = sn_hints found
                @ (if expired \<noteq> []
                   then [''Break stale locks explicitly with `taskledger repair lock <task> --reason ''
                     @ in_quotes ''...'' @ ''`.''] else []),
              dr_links = sn_links found, dr_expired = expired,
              dr_mismatches = sn_mismatches found, dr_diagnostics = sn_diagnostics found\<rparr>))"

definition doctor_healthy :: "doctor_report \<Rightarrow> bool" where
  "doctor_healthy r \<longleftrightarrow> dr_errors r = []"

text \<open>\<open>inspect_v2_locks\<close>\<close>

definition locks_healthy :: "doctor_report \<Rightarrow> bool" where
  "locks_healthy r \<longleftrightarrow> dr_expired r = [] \<and> dr_mismatches r = []"

text \<open>The errors that \<open>inspect_v2_schema\<close> takes over: those whose text mentions a schema or a version\<close>

definition schema_errors :: "doctor_report \<Rightarrow> doctor_error list" where
  "schema_errors r =
     filter (\<lambda>e. contains ''schema'' (lower (error_text e)) \<or> contains ''version'' (lower (error_text e)))
       (dr_errors r)"

section \<open>What healthy means\<close>

definition links_ok :: "TaskRecord list \<Rightarrow> TaskRecord \<Rightarrow> ledger \<Rightarrow> bool" where
  "links_ok tasks task l \<longleftrightarrow>
     (case tk_introduction_ref task of
        None \<Rightarrow> True
      | Some i \<Rightarrow> i = [] \<or> (\<exists>intro. resolve_introduction i l = Inr intro))
     \<and> dr_task_id ` set (load_requirements (tk_id task) l) \<subseteq> tk_id ` set tasks"

definition plans_consistent :: "TaskRecord \<Rightarrow> ledger \<Rightarrow> bool" where
  "plans_consistent task l \<longleftrightarrow>
     (let plans = list_plans (tk_id task) l;
          accepted = filter (\<lambda>p. pl_status p = PS_accepted) plans
      in case tk_accepted_plan_version task of
           None \<Rightarrow> length accepted \<le> 1
         | Some v \<Rightarrow> length accepted = 1 \<and> v \<in> pl_plan_version ` set plans)"

definition runs_consistent :: "TaskLock option \<Rightarrow> TaskRunRecord list \<Rightarrow> bool" where
  "runs_consistent lock running \<longleftrightarrow>
     (case running of
        [] \<Rightarrow> lock = None
      | [r] \<Rightarrow> (\<exists>k. lock = Some k \<and> run_matches_lock k r)
      | _ \<Rightarrow> False)"

definition implementation_in :: "TaskRunRecord list \<Rightarrow> string \<Rightarrow> bool" where
  "implementation_in runs i \<longleftrightarrow>
     (\<exists>r. run_in_map i runs = Some r \<and> rn_run_type r = RT_implementation)"

definition task_healthy :: "env \<Rightarrow> TaskRecord list \<Rightarrow> ledger \<Rightarrow> TaskRecord \<Rightarrow> bool" where
  "task_healthy E tasks l task \<longleftrightarrow>
     (let runs = list_runs (tk_id task) l in
      links_ok tasks task l \<and> plans_consistent task l
      \<and> distinct (map td_id (load_todos (tk_id task) l))
      \<and> tk_status_stage task \<notin> {S_planning, S_implementing, S_validating}
      \<and> (\<exists>lock. live_lock_of E (tk_id task) (load_active_locks l) = Inr lock
           \<and> runs_consistent lock (filter (\<lambda>r. rn_status r = RS_running) runs))
      \<and> list_all (\<lambda>c. implementation_in runs (ch_implementation_run c)) (list_changes (tk_id task) l)
      \<and> list_all (\<lambda>r. implementation_in runs (the (rn_based_on_implementation_run r)))
           (filter (\<lambda>r. rn_run_type r = RT_validation \<and> is_set (rn_based_on_implementation_run r)) runs))"

definition lock_healthy :: "env \<Rightarrow> TaskRecord list \<Rightarrow> ledger \<Rightarrow> TaskLock \<Rightarrow> bool" where
  "lock_healthy E tasks l lock \<longleftrightarrow>
     lk_task_id lock \<in> tk_id ` set tasks \<and> (\<exists>expired. lock_is_expired E lock = Inr expired)
     \<and> (\<exists>run. resolve_run E (lk_task_id lock) (lk_run_id lock) l = Inr run
          \<and> rn_status run = RS_running \<and> lk_stage lock = stage_of_run_type (rn_run_type run))"

definition ledger_healthy :: "env \<Rightarrow> ledger \<Rightarrow> bool" where
  "ledger_healthy E l \<longleftrightarrow>
     (let tasks = list_tasks l in
      (case l_active l of None \<Rightarrow> True | Some s \<Rightarrow> as_task_id s \<in> tk_id ` set tasks)
      \<and> list_all (task_healthy E tasks l) tasks
      \<and> list_all (lock_healthy E tasks l) (load_active_locks l))"

lemma scan_links_ok: "scan_links task tasks l = [] \<longleftrightarrow> links_ok tasks task l"
  by (auto simp: scan_links_def links_ok_def filter_empty_conv image_subset_iff split: option.splits sum.splits)

lemma scan_plans_ok: "scan_plans task l = [] \<longleftrightarrow> plans_consistent task l"
  by (auto simp: scan_plans_def plans_consistent_def Let_def list_ex_iff image_iff split: option.splits)

lemma scan_todos_ok: "scan_todos task l = [] \<longleftrightarrow> distinct (map td_id (load_todos (tk_id task) l))"
  using length_remdups_eq [of "map td_id (load_todos (tk_id task) l)"]
  by (simp add: scan_todos_def Let_def remdups_id_iff_distinct)

lemma scan_runs_ok:
  "sn_errors (scan_runs task lock running) = [] \<longleftrightarrow>
     tk_status_stage task \<notin> {S_planning, S_implementing, S_validating} \<and> runs_consistent lock running"
  by (auto simp: scan_runs_def runs_consistent_def no_findings_def derive_active_stage_def Let_def
      split: list.splits option.splits)

lemma scan_change_ok:
  "scan_change E task runs c = [] \<longleftrightarrow> implementation_in runs (ch_implementation_run c)"
  by (auto simp: scan_change_def implementation_in_def Let_def split: option.splits)

lemma scan_validation_run_ok:
  "scan_validation_run E task runs r = [] \<longleftrightarrow>
     (rn_run_type r = RT_validation \<and> is_set (rn_based_on_implementation_run r)
      \<longrightarrow> implementation_in runs (the (rn_based_on_implementation_run r)))"
  by (auto simp: scan_validation_run_def implementation_in_def Let_def split: option.splits)

lemma scan_task_ok:
  assumes "scan_task_integrity E tasks task l = Inr s"
  shows "sn_errors s = [] \<and> sn_links s = [] \<longleftrightarrow> task_healthy E tasks l task"
  using assms
  by (auto simp: scan_task_integrity_def task_healthy_def bindR_def Let_def scan_links_ok scan_plans_ok
      scan_todos_ok scan_runs_ok scan_change_ok scan_validation_run_ok list_all_iff split: sum.splits)

lemma scan_lock_ok: "scan_lock E tasks l lock = [] \<longleftrightarrow> lock_healthy E tasks l lock"
  by (auto simp: scan_lock_def lock_healthy_def split: sum.splits)

lemma joined_scans:
  "sn_errors (fold (\<lambda>s acc. join_scans acc s) ss a) = sn_errors a @ concat (map sn_errors ss)"
  "sn_links (fold (\<lambda>s acc. join_scans acc s) ss a) = sn_links a @ concat (map sn_links ss)"
  by (induction ss arbitrary: a) (simp_all add: join_scans_def)

lemma scan_active_ok:
  "sn_links (scan_active_task tasks l) = []"
  "sn_errors (scan_active_task tasks l) = [] \<longleftrightarrow>
     (case l_active l of None \<Rightarrow> True | Some s \<Rightarrow> as_task_id s \<in> tk_id ` set tasks)"
  by (auto simp: scan_active_task_def no_findings_def find_None_iff dest!: find_SomeD
      split: option.splits intro: rev_image_eqI)

lemma scans_ok:
  "list_all2 (\<lambda>t s. scan_task_integrity E tasks t l = Inr s) ts scans \<Longrightarrow>
    list_all (task_healthy E tasks l) ts \<longleftrightarrow> list_all (\<lambda>s. sn_errors s = [] \<and> sn_links s = []) scans"
  by (induction rule: list_all2_induct) (auto simp: scan_task_ok)

lemma doctor_healthy_iff:
  assumes "inspect_v2_project E l = Inr r"
  shows "doctor_healthy r \<longleftrightarrow> ledger_healthy E l"
proof -
  obtain scans where scans: "mapR (\<lambda>t. scan_task_integrity E (list_tasks l) t l) (list_tasks l) = Inr scans"
    and errors: "dr_errors r = sn_errors (scan_active_task (list_tasks l) l) @ concat (map sn_errors scans)
      @ concat (map (scan_lock E (list_tasks l) l) (load_active_locks l))
      @ (if concat (map sn_links scans) \<noteq> [] then [DE_broken_references] else [])"
    using assms
    by (auto simp: inspect_v2_project_def bindR_def Let_def joined_scans scan_active_ok split: sum.splits)
  have "list_all2 (\<lambda>t s. scan_task_integrity E (list_tasks l) t l = Inr s) (list_tasks l) scans"
    using scans by (rule mapR_InrD)
  note scans_ok [OF this]
  then show ?thesis
    by (auto simp: doctor_healthy_def ledger_healthy_def errors scan_active_ok scan_lock_ok list_all_iff Let_def)
qed

text \<open>A task in a transient stage makes the doctor complain, whatever else holds.\<close>

lemma transient_unhealthy:
  assumes "inspect_v2_project E l = Inr r" "t \<in> set (list_tasks l)"
    "tk_status_stage t \<in> {S_planning, S_implementing, S_validating}"
  shows "\<not> doctor_healthy r"
  using assms(2,3) unfolding doctor_healthy_iff [OF assms(1)]
  by (auto simp: ledger_healthy_def task_healthy_def list_all_iff Let_def)

end
