(* ===== verification/Health.thy ===== *)
theory Health
  imports Doctor System
begin

text \<open>
  What the doctor can find in a ledger that the commands produced: the errors that rest on the
  invariants of \<open>System\<close> never occur.
\<close>

fun impossible_error :: "doctor_error \<Rightarrow> bool" where
  "impossible_error (DE_duplicate_todos _) = True"
| "impossible_error (DE_multiple_running _) = True"
| "impossible_error (DE_lock_without_run _ _) = True"
| "impossible_error (DE_lock_missing_run _ _ _) = True"
| "impossible_error (DE_lock_not_running _ _) = True"
| "impossible_error (DE_lock_stage _ _ _ _) = True"
| "impossible_error _ = False"

text \<open>Run ids are written the way the identifier package prints them.\<close>

definition canonical_run_ids :: "env \<Rightarrow> ledger \<Rightarrow> bool" where
  "canonical_run_ids E l \<longleftrightarrow>
     (\<forall>t. \<forall>r \<in> runs_of l t. normalize_resource_ref E (rn_run_id r) ''run'' = Inr (rn_run_id r))"

lemma live_lock_stored:
  "live_lock_of E t locks = Inr (Some k) \<Longrightarrow> k \<in> set locks \<and> lk_task_id k = t"
  by (induction E t locks rule: live_lock_of.induct) (auto simp: bindR_def split: if_splits sum.splits)

lemma active_lock_read:
  assumes "run_inv l" "distinct (map fst (l_locks l))" "k \<in> set (load_active_locks l)"
  shows "read_lock (lk_task_id k) l = Some k"
proof -
  obtain t where t: "(t, k) \<in> set (l_locks l)"
    using assms(3) by (auto simp: load_active_locks_def)
  then have "read_lock t l = Some k"
    using assms(2) by (simp add: read_lock_def dir_get_def)
  then show ?thesis
    using run_inv_lock [OF assms(1), of t] by (auto simp: lock_backed_def)
qed

lemma active_lock_backed:
  assumes "run_inv l" "distinct (map fst (l_locks l))" "k \<in> set (load_active_locks l)"
  obtains r where "r \<in> runs_of l (lk_task_id k)" "run_matches_lock k r"
  using run_inv_lock [OF assms(1)] active_lock_read [OF assms] unfolding lock_backed_def by blast

lemma running_at_most_one:
  assumes "run_inv l"
  shows "length (filter (\<lambda>r. rn_status r = RS_running) (list_runs t l)) \<le> 1"
proof (rule distinct_one)
  show "distinct (filter (\<lambda>r. rn_status r = RS_running) (list_runs t l))"
    using distinct_records [OF run_inv_dir [OF assms, of t]] by (simp add: list_runs_def)
qed (use run_inv_unique [OF assms, of _ t] in \<open>auto simp: list_runs_of\<close>)

lemma scan_runs_possible:
  assumes "run_inv l" "distinct (map fst (l_locks l))"
    and "live_lock_of E (tk_id task) (load_active_locks l) = Inr lock"
  shows "list_all (\<lambda>e. \<not> impossible_error e) (sn_errors (scan_runs task lock
    (filter (\<lambda>r. rn_status r = RS_running) (list_runs (tk_id task) l))))"
proof -
  have "filter (\<lambda>r. rn_status r = RS_running) (list_runs (tk_id task) l) \<noteq> []" if k: "lock = Some k" for k
  proof -
    have "k \<in> set (load_active_locks l)" "lk_task_id k = tk_id task"
      using live_lock_stored assms(3) k by blast+
    then obtain r where "r \<in> runs_of l (tk_id task)" "run_matches_lock k r"
      using active_lock_backed [OF assms(1,2)] by metis
    then show ?thesis by (auto simp: filter_empty_conv list_runs_of run_matches_lock_def)
  qed
  then show ?thesis
    using running_at_most_one [OF assms(1), of "tk_id task"]
    by (auto simp: scan_runs_def no_findings_def Let_def)
qed

lemma scan_refs_possible:
  "list_all (\<lambda>e. \<not> impossible_error e) (map fst (scan_change E task runs c))"
  "list_all (\<lambda>e. \<not> impossible_error e) (map fst (scan_validation_run E task runs r))"
  by (auto simp: scan_change_def scan_validation_run_def Let_def split: option.splits)

lemma scan_plans_possible: "list_all (\<lambda>e. \<not> impossible_error e) (scan_plans task l)"
  by (auto simp: scan_plans_def Let_def split: option.splits)

lemma loaded_todos_distinct:
  "dir_ok td_id (l_todos l t) \<Longrightarrow> distinct (map td_id (load_todos t l))"
proof -
  assume ok: "dir_ok td_id (l_todos l t)"
  have "map td_id (dir_glob p d) = filter (\<lambda>k. startswith k p) (map fst d)" if "dir_ok td_id d" for p d
    using that by (induction d) (auto simp: dir_glob_def dir_ok_def)
  from this [OF ok] have "distinct (map td_id (dir_glob ''todo-'' (l_todos l t)))"
    using ok by (simp add: dir_ok_def)
  then show ?thesis
    unfolding load_todos_def by (simp add: distinct_map)
qed

lemma scan_task_possible:
  assumes "run_inv l" "ledger_files_ok l" "scan_task_integrity E tasks task l = Inr s"
  shows "list_all (\<lambda>e. \<not> impossible_error e) (sn_errors s)"
proof -
  have "distinct (map fst (l_locks l))" "dir_ok td_id (l_todos l (tk_id task))"
    using assms(2) by (simp_all add: ledger_files_ok_def)
  then show ?thesis
    using assms(3) scan_todos_ok [of task l] loaded_todos_distinct [of l "tk_id task"]
      scan_runs_possible [OF assms(1), of E task] scan_plans_possible [of task l]
    by (auto simp: scan_task_integrity_def bindR_def Let_def list_all_iff split: sum.splits
        dest: scan_refs_possible [unfolded list_all_iff, simplified, rule_format])
qed

lemma find_unique:
  assumes "r \<in> set xs" "P r" "\<And>x. x \<in> set xs \<Longrightarrow> P x \<Longrightarrow> x = r"
  shows "find P xs = Some r"
proof (cases "find P xs")
  case None
  then show ?thesis using assms(1,2) by (auto simp: find_None_iff)
next
  case (Some y)
  then have "y = r" using find_SomeD assms(3) by metis
  then show ?thesis using Some by simp
qed

lemma scan_lock_possible:
  assumes "run_inv l" "distinct (map fst (l_locks l))" "canonical_run_ids E l"
    "k \<in> set (load_active_locks l)"
  shows "list_all (\<lambda>e. \<not> impossible_error e) (scan_lock E tasks l k)"
proof -
  obtain r where r: "r \<in> runs_of l (lk_task_id k)" "run_matches_lock k r"
    using active_lock_backed [OF assms(1,2,4)] by blast
  have "normalize_resource_ref E (lk_run_id k) ''run'' = Inr (lk_run_id k)"
    using assms(3) r unfolding canonical_run_ids_def run_matches_lock_def by metis
  moreover have "find (\<lambda>x. rn_run_id x = lk_run_id k) (list_runs (lk_task_id k) l) = Some r"
  proof (rule find_unique)
    show "r \<in> set (list_runs (lk_task_id k) l)" "rn_run_id r = lk_run_id k"
      using r by (simp_all add: list_runs_of run_matches_lock_def)
    show "x = r" if "x \<in> set (list_runs (lk_task_id k) l)" "rn_run_id x = lk_run_id k" for x
      using runs_same_id [OF run_inv_dir [OF assms(1)] _ r(1)] that r(2)
      by (simp add: list_runs_of run_matches_lock_def)
  qed
  ultimately have "resolve_run E (lk_task_id k) (lk_run_id k) l = Inr r"
    by (simp add: resolve_run_def)
  then show ?thesis
    using r(2) by (cases "lk_stage k")
      (auto simp: scan_lock_def run_matches_lock_def TaskLock_run_type_def split: sum.splits)
qed

lemma scans_possible:
  assumes "run_inv l" "ledger_files_ok l"
    and "list_all2 (\<lambda>t s. scan_task_integrity E tasks t l = Inr s) ts scans"
  shows "list_all (\<lambda>s. list_all (\<lambda>e. \<not> impossible_error e) (sn_errors s)) scans"
  using assms(3) by (induction rule: list_all2_induct) (simp_all add: scan_task_possible [OF assms(1,2)])

lemma inspect_possible:
  assumes "run_inv l" "ledger_files_ok l" "canonical_run_ids E l" "inspect_v2_project E l = Inr r"
  shows "list_all (\<lambda>e. \<not> impossible_error e) (dr_errors r)"
proof -
  let ?ok = "\<lambda>e. \<not> impossible_error e"
  have distinct: "distinct (map fst (l_locks l))"
    using assms(2) by (simp add: ledger_files_ok_def)
  obtain scans where scans: "mapR (\<lambda>t. scan_task_integrity E (list_tasks l) t l) (list_tasks l) = Inr scans"
    and errors: "dr_errors r = sn_errors (scan_active_task (list_tasks l) l) @ concat (map sn_errors scans)
      @ concat (map (scan_lock E (list_tasks l) l) (load_active_locks l))
      @ (if concat (map sn_links scans) \<noteq> [] then [DE_broken_references] else [])"
    using assms(4)
    by (auto simp: inspect_v2_project_def bindR_def Let_def joined_scans scan_active_ok split: sum.splits)
  have "list_all (\<lambda>s. list_all ?ok (sn_errors s)) scans"
    by (rule scans_possible [OF assms(1,2) mapR_InrD [OF scans]])
  then have "list_all ?ok (concat (map sn_errors scans))"
    by (auto simp: list_all_iff)
  moreover have "list_all ?ok (concat (map (scan_lock E (list_tasks l) l) (load_active_locks l)))"
    using scan_lock_possible [OF assms(1) distinct assms(3)] by (auto simp: list_all_iff)
  moreover have "list_all ?ok (sn_errors (scan_active_task (list_tasks l) l))"
    by (auto simp: scan_active_task_def no_findings_def split: option.splits)
  ultimately show ?thesis by (simp add: errors)
qed

text \<open>A task whose implementation has started is stored in a stage that the doctor complains about.\<close>

lemma saved_task_listed:
  assumes "startswith (tk_id t) ''task-''"
  shows "persist_task t \<in> set (list_tasks (save_task t l))"
  using assms by (auto simp: list_tasks_def save_task_def dir_glob_mem dir_get_put intro!: exI dir_get_mem)

lemma resolved_task_id:
  assumes "resolve_task E b ref l = Inr t" "dir_ok tk_id (l_tasks l)"
  shows "startswith (tk_id t) ''task-''"
  using assms
  by (auto simp: resolve_task_def list_tasks_def dir_glob_mem dir_ok_def bindR_def Let_def dir_get_def
      split: option.splits if_splits sum.splits dest!: find_SomeD resolve_slug_mem map_of_SomeD)

text \<open>
  A ledger holds a task in a transient stage after every start of an implementation; what is
  recorded afterwards does not matter for the task files.
\<close>

definition holds_transient :: "ledger \<Rightarrow> bool" where
  "holds_transient l \<longleftrightarrow>
     list_ex (\<lambda>t. tk_status_stage t \<in> {S_planning, S_implementing, S_validating}) (list_tasks l)"

lemma holds_transientI:
  "t \<in> set (list_tasks l) \<Longrightarrow> tk_status_stage t = S_implementing \<Longrightarrow> holds_transient l"
  by (auto simp: holds_transient_def list_ex_iff)

lemma holds_transient_frame: "l_tasks l' = l_tasks l \<Longrightarrow> holds_transient l' = holds_transient l"
  by (simp add: holds_transient_def list_tasks_def)

lemma saved_transient:
  assumes "resolve_task E b ref l = Inr t" "dir_ok tk_id (l_tasks l)"
  shows "holds_transient (append_event E i n d (save_task (t\<lparr>tk_latest_implementation_run := r,
    tk_status_stage := S_implementing, tk_updated_at := c\<rparr>) l))"
    (is "holds_transient (append_event E i n d (save_task ?u l))")
proof -
  have "persist_task ?u \<in> set (list_tasks (save_task ?u l))"
    by (rule saved_task_listed) (simp add: resolved_task_id [OF assms])
  moreover have "tk_status_stage (persist_task ?u) = S_implementing"
    by (simp add: persist_task_def)
  ultimately have "holds_transient (save_task ?u l)"
    by (rule holds_transientI)
  then show ?thesis by (subst holds_transient_frame [of _ "save_task ?u l"]) simp_all
qed

lemma holds_transient_unhealthy:
  "holds_transient l \<Longrightarrow> inspect_v2_project E l = Inr r \<Longrightarrow> \<not> doctor_healthy r"
  by (auto simp: holds_transient_def list_ex_iff dest: transient_unhealthy)

lemma started_transient:
  assumes "dir_ok tk_id (l_tasks l)"
  shows "wp (start_implementation E ref actor harness) (\<lambda>_ l'. holds_transient l') (\<lambda>_ _. True) l"
  unfolding start_implementation_def start_implementation_for_task_def Let_def
  by (intro wp_intro) (auto simp: started_ledger_def Let_def assms intro!: saved_transient)

end
