(* ===== verification/TaskTree.thy ===== *)
theory TaskTree
  imports Releases
begin

text \<open>
  The tree view of \<open>services/tree.py\<close>: tasks below the task they follow up, orphans whose parent is
  not listed, one ledger or all of them, the subtree of one task, and the printed tree. The ledgers
  that are not the current one are read from their directories; their records are an argument.
\<close>

section \<open>Nodes\<close>

record tree_counts =
  tc_plans :: nat
  tc_questions :: nat
  tc_runs :: nat
  tc_changes :: nat
  tc_todos_total :: nat
  tc_todos_done :: nat
  tc_has_lock :: bool

record tree_info =
  ti_id :: string
  ti_slug :: string
  ti_title :: string
  ti_stage :: TaskStatusStage
  ti_archived :: bool
  ti_active_stage :: "RunType option"
  ti_is_active :: bool
  ti_task_type :: TaskType
  ti_parent_task_id :: "string option"
  ti_parent_relation :: "string option"
  ti_counts :: "tree_counts option"

datatype tree_node = Cycle string | Node tree_info "tree_node list"

fun node_ids :: "tree_node \<Rightarrow> string list" where
  "node_ids (Cycle _) = []"
| "node_ids (Node info kids) = ti_id info # concat (map node_ids kids)"

fun cycle_free :: "tree_node \<Rightarrow> bool" where
  "cycle_free (Cycle _) = False"
| "cycle_free (Node _ kids) = list_all cycle_free kids"

definition forest_ids :: "tree_node list \<Rightarrow> string list" where
  "forest_ids ns = concat (map node_ids ns)"

lemma forest_ids_simps [simp]:
  "forest_ids [] = []"
  "forest_ids (Cycle i # ns) = forest_ids ns"
  "forest_ids (Node info kids # ns) = ti_id info # forest_ids kids @ forest_ids ns"
  "forest_ids (ms @ ns) = forest_ids ms @ forest_ids ns"
  by (simp_all add: forest_ids_def)

section \<open>Parents and children\<close>

text \<open>\<open>children_by_parent.get(i, [])\<close>: the listed tasks whose parent is the listed task \<open>i\<close>\<close>

definition children_of :: "TaskRecord list \<Rightarrow> string \<Rightarrow> TaskRecord list" where
  "children_of tasks i =
     (if i \<in> tk_id ` set tasks then filter (\<lambda>t. tk_parent_task_id t = Some i \<and> i \<noteq> []) tasks else [])"

definition parent_of :: "TaskRecord \<Rightarrow> string option" where
  "parent_of t = (case tk_parent_task_id t of None \<Rightarrow> None | Some p \<Rightarrow> if p = [] then None else Some p)"

definition is_root :: "TaskRecord \<Rightarrow> bool" where
  "is_root t \<longleftrightarrow> parent_of t = None"

definition is_orphan :: "TaskRecord list \<Rightarrow> TaskRecord \<Rightarrow> bool" where
  "is_orphan tasks t \<longleftrightarrow> (case parent_of t of None \<Rightarrow> False | Some p \<Rightarrow> p \<notin> tk_id ` set tasks)"

lemma child_iff:
  "c \<in> set (children_of tasks i) \<longleftrightarrow> c \<in> set tasks \<and> i \<in> tk_id ` set tasks \<and> parent_of c = Some i"
  by (auto simp: children_of_def parent_of_def split: option.splits if_splits)

text \<open>\<open>_collect_subtree_ids\<close>: a stack whose top is the head of the list\<close>

function collect_subtree_ids :: "TaskRecord list \<Rightarrow> string set \<Rightarrow> string list \<Rightarrow> string set" where
  "collect_subtree_ids tasks ids [] = ids"
| "collect_subtree_ids tasks ids (i # stack) =
     (if i \<in> ids then collect_subtree_ids tasks ids stack
      else collect_subtree_ids tasks (insert i ids) (rev (map tk_id (children_of tasks i)) @ stack))"
  by pat_completeness auto

termination
proof (relation "measures [\<lambda>(tasks, ids, stack). card ((tk_id ` set tasks \<union> set stack) - ids),
    \<lambda>(tasks, ids, stack). length stack]", goal_cases)
  case 1
  show ?case by simp
next
  case (2 tasks ids i stack)
  then have "(tk_id ` set tasks \<union> set (i # stack)) - ids = (tk_id ` set tasks \<union> set stack) - ids"
    by auto
  then show ?case by simp
next
  case (3 tasks ids i stack)
  let ?new = "rev (map tk_id (children_of tasks i)) @ stack"
  have "(tk_id ` set tasks \<union> set ?new) - insert i ids \<subset> (tk_id ` set tasks \<union> set (i # stack)) - ids"
    using 3 by (auto simp: child_iff)
  then show ?case by (simp add: psubset_card_mono)
qed

definition child_rel :: "TaskRecord list \<Rightarrow> (string \<times> string) set" where
  "child_rel tasks = {(i, tk_id c) | i c. c \<in> set (children_of tasks i)}"

definition subtree_ids :: "TaskRecord list \<Rightarrow> string \<Rightarrow> string set" where
  "subtree_ids tasks i = insert i (collect_subtree_ids tasks {} [i])"

text \<open>The nodes below the given tasks; \<open>visited\<close> goes through all of them in order.\<close>

function build_nodes ::
  "env \<Rightarrow> (TaskRecord \<Rightarrow> tree_info) \<Rightarrow> TaskRecord list \<Rightarrow> string set \<Rightarrow> TaskRecord list
    \<Rightarrow> string set \<times> tree_node list" where
  "build_nodes E info tasks visited [] = (visited, [])"
| "build_nodes E info tasks visited (t # ts) =
     (if tk_id t \<in> visited
      then (case build_nodes E info tasks visited ts of (v, ns) \<Rightarrow> (v, Cycle (tk_id t) # ns))
      else (case build_nodes E info tasks (insert (tk_id t) visited)
              (sort_key (\<lambda>c. numeric_id_sort_key E (tk_id c) ''task'') (children_of tasks (tk_id t))) of
              (v, kids) \<Rightarrow>
                (case build_nodes E info tasks v ts of (v', ns) \<Rightarrow> (v', Node (info t) kids # ns))))"
  by pat_completeness auto

termination
proof -
  have grows: "visited \<subseteq> fst (build_nodes E info tasks visited ts)"
    if "build_nodes_dom (E, info, tasks, visited, ts)" for E info tasks visited ts
    using that
    by (induction rule: build_nodes.pinduct) (force simp: build_nodes.psimps split: prod.splits)+
  show "All build_nodes_dom"
  proof (relation "measures [\<lambda>(E, info, tasks, visited, ts). card (tk_id ` set tasks - visited),
      \<lambda>(E, info, tasks, visited, ts). length ts]", goal_cases)
    case 1
    show ?case by simp
  next
    case 2
    then show ?case by simp
  next
    case (3 E info tasks visited t ts)
    show ?case
    proof (cases "tk_id t \<in> tk_id ` set tasks")
      case True
      then have "tk_id ` set tasks - insert (tk_id t) visited \<subset> tk_id ` set tasks - visited"
        using 3 by auto
      then show ?thesis by (simp add: psubset_card_mono)
    next
      case False
      then have "tk_id ` set tasks - insert (tk_id t) visited = tk_id ` set tasks - visited" by auto
      then show ?thesis using False by (simp add: children_of_def)
    qed
  next
    case (4 E info tasks visited t ts v kids)
    then have "insert (tk_id t) visited \<subseteq> fst (v, kids)"
      by (metis grows)
    then have "visited \<subseteq> v" by simp
    then have "card (tk_id ` set tasks - v) \<le> card (tk_id ` set tasks - visited)"
      by (intro card_mono) auto
    then show ?case by auto
  qed
qed

section \<open>What the forest shows\<close>

lemma child_rel_image: "child_rel tasks `` {i} = tk_id ` set (children_of tasks i)"
  by (auto simp: child_rel_def)

text \<open>The nodes that were not visited before, each once, closed under children\<close>

lemma build_nodes_ids:
  "(\<And>t. ti_id (info t) = tk_id t) \<Longrightarrow> build_nodes E info tasks visited ts = (v, ns) \<Longrightarrow>
    v = visited \<union> set (forest_ids ns) \<and> distinct (forest_ids ns) \<and> set (forest_ids ns) \<inter> visited = {}
    \<and> tk_id ` set ts \<subseteq> v
    \<and> child_rel tasks `` set (forest_ids ns) \<subseteq> v"
proof (induction E info tasks visited ts arbitrary: v ns rule: build_nodes.induct)
  case (1 E info tasks visited)
  then show ?case by simp
next
  case (2 E info tasks visited t ts)
  show ?case
  proof (cases "tk_id t \<in> visited")
    case True
    then obtain ns' where "build_nodes E info tasks visited ts = (v, ns')" "ns = Cycle (tk_id t) # ns'"
      using 2(5) by (auto split: prod.splits)
    then show ?thesis using 2(1) [OF True 2(4)] True by auto
  next
    case False
    obtain v1 kids where kids: "build_nodes E info tasks (insert (tk_id t) visited)
        (sort_key (\<lambda>c. numeric_id_sort_key E (tk_id c) ''task'') (children_of tasks (tk_id t))) = (v1, kids)"
      by fastforce
    obtain ns' where rest: "build_nodes E info tasks v1 ts = (v, ns')" "ns = Node (info t) kids # ns'"
      using 2(5) False kids by (auto split: prod.splits)
    note new = 2(2) [OF False 2(4) kids] 2(3) [OF False kids [symmetric] 2(4) rest(1)]
    have v1: "v1 = insert (tk_id t) visited \<union> set (forest_ids kids)"
      and k: "distinct (forest_ids kids)" "set (forest_ids kids) \<inter> insert (tk_id t) visited = {}"
        "tk_id ` set (children_of tasks (tk_id t)) \<subseteq> v1"
        "child_rel tasks `` set (forest_ids kids) \<subseteq> v1"
      using new(1) unfolding set_sort by - (elim conjE, assumption)+
    have v: "v = v1 \<union> set (forest_ids ns')"
      and n: "distinct (forest_ids ns')" "set (forest_ids ns') \<inter> v1 = {}" "tk_id ` set ts \<subseteq> v"
        "child_rel tasks `` set (forest_ids ns') \<subseteq> v"
      using new(2) by - (elim conjE, assumption)+
    have sub: "v1 \<subseteq> v" "tk_id t \<in> v1" unfolding v v1 by auto
    have "child_rel tasks `` set (forest_ids ns) =
        tk_id ` set (children_of tasks (tk_id t)) \<union> child_rel tasks `` set (forest_ids kids)
          \<union> child_rel tasks `` set (forest_ids ns')"
      unfolding child_rel_image [symmetric] by (auto simp: rest 2(4))
    also have "\<dots> \<subseteq> v"
      using k(3,4) n(4) sub(1) by blast
    finally have "child_rel tasks `` set (forest_ids ns) \<subseteq> v" .
    moreover have "v = visited \<union> set (forest_ids ns)"
      by (subst v, subst v1) (auto simp: rest 2(4))
    moreover have "set (forest_ids ns) \<inter> visited = {}"
      using False k(2) n(2) unfolding v1 by (auto simp: rest 2(4))
    moreover have "distinct (forest_ids ns)"
      using k(1,2) n(1,2) unfolding v1 by (auto simp: rest 2(4))
    moreover have "tk_id ` set (t # ts) \<subseteq> v"
      using n(3) sub by auto
    ultimately show ?thesis by (intro conjI)
  qed
qed

lemma build_nodes_within:
  "(\<And>t. ti_id (info t) = tk_id t) \<Longrightarrow> build_nodes E info tasks visited ts = (v, ns) \<Longrightarrow>
    set (forest_ids ns) \<subseteq> (child_rel tasks)\<^sup>* `` (tk_id ` set ts)"
proof (induction E info tasks visited ts arbitrary: v ns rule: build_nodes.induct)
  case (1 E info tasks visited)
  then show ?case by simp
next
  case (2 E info tasks visited t ts)
  show ?case
  proof (cases "tk_id t \<in> visited")
    case True
    then obtain ns' where "build_nodes E info tasks visited ts = (v, ns')" "ns = Cycle (tk_id t) # ns'"
      using 2(5) by (auto split: prod.splits)
    then show ?thesis using 2(1) [OF True 2(4)] by auto
  next
    case False
    obtain v1 kids where kids: "build_nodes E info tasks (insert (tk_id t) visited)
        (sort_key (\<lambda>c. numeric_id_sort_key E (tk_id c) ''task'') (children_of tasks (tk_id t))) = (v1, kids)"
      by fastforce
    obtain ns' where rest: "build_nodes E info tasks v1 ts = (v, ns')" "ns = Node (info t) kids # ns'"
      using 2(5) False kids by (auto split: prod.splits)
    have "(tk_id t, tk_id c) \<in> child_rel tasks" if "c \<in> set (children_of tasks (tk_id t))" for c
      using that by (auto simp: child_rel_def)
    then have "(child_rel tasks)\<^sup>* `` (tk_id ` set (children_of tasks (tk_id t)))
        \<subseteq> (child_rel tasks)\<^sup>* `` {tk_id t}"
      by (auto intro: converse_rtrancl_into_rtrancl)
    with 2(2) [OF False 2(4) kids] have "set (forest_ids kids) \<subseteq> (child_rel tasks)\<^sup>* `` {tk_id t}"
      by (simp only: set_sort)
    moreover have "set (forest_ids ns') \<subseteq> (child_rel tasks)\<^sup>* `` (tk_id ` set ts)"
      by (rule 2(3) [OF False kids [symmetric] 2(4) rest(1)])
    ultimately show ?thesis
      unfolding rest 2(4) forest_ids_simps by fastforce
  qed
qed

lemma build_nodes_closure:
  assumes "\<And>t. ti_id (info t) = tk_id t" "build_nodes E info tasks {} ts = (v, ns)"
  shows "distinct (forest_ids ns)"
    and "set (forest_ids ns) = (child_rel tasks)\<^sup>* `` (tk_id ` set ts)"
proof -
  let ?ids = "set (forest_ids ns)"
  note ids = build_nodes_ids [OF assms]
  show "distinct (forest_ids ns)" using ids by blast
  have "child_rel tasks `` ?ids \<subseteq> ?ids"
    using ids by blast
  then have "(child_rel tasks)\<^sup>* `` ?ids = ?ids" by (rule Image_closed_trancl)
  moreover have "tk_id ` set ts \<subseteq> ?ids" using ids by blast
  ultimately show "?ids = (child_rel tasks)\<^sup>* `` (tk_id ` set ts)"
    using build_nodes_within [OF assms] by blast
qed

lemma build_nodes_append:
  "build_nodes E info tasks visited (ts @ us) =
     (case build_nodes E info tasks visited ts of
        (v, ns) \<Rightarrow> case build_nodes E info tasks v us of (w, ms) \<Rightarrow> (w, ns @ ms))"
  by (induction E info tasks visited ts rule: build_nodes.induct) (auto split: prod.splits)

text \<open>
  Marks for cycles do not occur as long as tasks are entered after their parents: then a task that is
  entered was not visited before, because ids are unique and each task has one parent.
\<close>

lemma build_nodes_source:
  "(\<And>t. ti_id (info t) = tk_id t) \<Longrightarrow> build_nodes E info tasks visited ts = (v, ns) \<Longrightarrow>
    set (forest_ids ns) \<subseteq> tk_id ` set ts \<union> child_rel tasks `` set (forest_ids ns)"
proof (induction E info tasks visited ts arbitrary: v ns rule: build_nodes.induct)
  case (1 E info tasks visited)
  then show ?case by simp
next
  case (2 E info tasks visited t ts)
  show ?case
  proof (cases "tk_id t \<in> visited")
    case True
    then obtain ns' where "build_nodes E info tasks visited ts = (v, ns')" "ns = Cycle (tk_id t) # ns'"
      using 2(5) by (auto split: prod.splits)
    then show ?thesis using 2(1) [OF True 2(4)] by auto
  next
    case False
    obtain v1 kids where kids: "build_nodes E info tasks (insert (tk_id t) visited)
        (sort_key (\<lambda>c. numeric_id_sort_key E (tk_id c) ''task'') (children_of tasks (tk_id t))) = (v1, kids)"
      by fastforce
    obtain ns' where rest: "build_nodes E info tasks v1 ts = (v, ns')" "ns = Node (info t) kids # ns'"
      using 2(5) False kids by (auto split: prod.splits)
    have "set (forest_ids kids) \<subseteq> child_rel tasks `` {tk_id t} \<union> child_rel tasks `` set (forest_ids kids)"
      using 2(2) [OF False 2(4) kids] unfolding child_rel_image set_sort .
    moreover note 2(3) [OF False kids [symmetric] 2(4) rest(1)]
    ultimately show ?thesis unfolding rest 2(4) forest_ids_simps by fastforce
  qed
qed

definition ready :: "TaskRecord list \<Rightarrow> string set \<Rightarrow> TaskRecord \<Rightarrow> bool" where
  "ready tasks visited t \<longleftrightarrow>
     (\<forall>p. parent_of t = Some p \<longrightarrow> p \<in> tk_id ` set tasks \<longrightarrow> p \<in> visited)"

definition up_closed :: "TaskRecord list \<Rightarrow> string set \<Rightarrow> bool" where
  "up_closed tasks visited \<longleftrightarrow> (\<forall>t \<in> set tasks. tk_id t \<in> visited \<longrightarrow> ready tasks visited t)"

lemma ready_mono: "ready tasks v t \<Longrightarrow> v \<subseteq> w \<Longrightarrow> ready tasks w t"
  by (auto simp: ready_def)

lemma same_task:
  "distinct (map tk_id tasks) \<Longrightarrow> x \<in> set tasks \<Longrightarrow> y \<in> set tasks \<Longrightarrow> tk_id x = tk_id y \<Longrightarrow> x = y"
  by (auto simp: distinct_map inj_on_def)

lemma up_closed_insert:
  assumes "distinct (map tk_id tasks)" "up_closed tasks visited" "t \<in> set tasks" "ready tasks visited t"
  shows "up_closed tasks (insert (tk_id t) visited)"
  unfolding up_closed_def
proof (intro ballI impI)
  fix x
  assume x: "x \<in> set tasks" "tk_id x \<in> insert (tk_id t) visited"
  then have "ready tasks visited x"
    using assms(2,4) same_task [OF assms(1) x(1) assms(3)] by (auto simp: up_closed_def)
  then show "ready tasks (insert (tk_id t) visited) x" by (rule ready_mono) auto
qed

lemma child_new:
  assumes "up_closed tasks visited" "t \<in> set tasks" "ready tasks visited t" "tk_id t \<notin> visited"
    "distinct (map tk_id tasks)" "c \<in> set (children_of tasks (tk_id t))"
  shows "tk_id c \<notin> insert (tk_id t) visited"
proof
  assume c: "tk_id c \<in> insert (tk_id t) visited"
  have "parent_of c = Some (tk_id t)" "c \<in> set tasks"
    using assms(6) by (auto simp: child_iff)
  moreover have "ready tasks visited c"
    using c assms(1,3) same_task [OF assms(5) calculation(2) assms(2)] calculation(2)
    by (auto simp: up_closed_def)
  ultimately show False
    using assms(2,4) by (auto simp: ready_def)
qed

lemma build_nodes_cycle_free:
  assumes "distinct (map tk_id tasks)"
  shows "(\<And>t. ti_id (info t) = tk_id t) \<Longrightarrow> build_nodes E info tasks visited ts = (v, ns) \<Longrightarrow>
    set ts \<subseteq> set tasks \<Longrightarrow> distinct (map tk_id ts) \<Longrightarrow> tk_id ` set ts \<inter> visited = {} \<Longrightarrow>
    list_all (ready tasks visited) ts \<Longrightarrow> up_closed tasks visited \<Longrightarrow>
    list_all cycle_free ns \<and> up_closed tasks v"
  using assms
proof (induction E info tasks visited ts arbitrary: v ns rule: build_nodes.induct)
  case (1 E info tasks visited)
  then show ?case by simp
next
  case (2 E info tasks visited t ts)
  have t: "t \<in> set tasks" "tk_id t \<notin> visited" "ready tasks visited t"
    using 2(6,8,9) by auto
  let ?kids = "sort_key (\<lambda>c. numeric_id_sort_key E (tk_id c) ''task'') (children_of tasks (tk_id t))"
  obtain v1 kids where kids: "build_nodes E info tasks (insert (tk_id t) visited) ?kids = (v1, kids)"
    by fastforce
  obtain ns' where rest: "build_nodes E info tasks v1 ts = (v, ns')" "ns = Node (info t) kids # ns'"
    using 2(5) t(2) kids by (auto split: prod.splits)
  have "list_all cycle_free kids \<and> up_closed tasks v1"
  proof (rule 2(2) [OF t(2) 2(4) kids])
    show "set ?kids \<subseteq> set tasks" by (auto simp: child_iff)
    have "distinct (map tk_id (children_of tasks (tk_id t)))"
      using 2(11) by (auto simp: children_of_def distinct_map inj_on_def)
    then show "distinct (map tk_id ?kids)"
      by (simp add: distinct_map)
    show "tk_id ` set ?kids \<inter> insert (tk_id t) visited = {}"
    proof (rule equals0I, elim IntE imageE)
      fix i c
      assume c: "i \<in> insert (tk_id t) visited" "i = tk_id c" "c \<in> set ?kids"
      have "tk_id c \<notin> insert (tk_id t) visited"
        by (rule child_new [OF 2(10) t(1,3,2) 2(11)]) (use c(3) in simp)
      then show False using c(1,2) by simp
    qed
    show "list_all (ready tasks (insert (tk_id t) visited)) ?kids"
      by (auto simp: list_all_iff child_iff ready_def)
    show "up_closed tasks (insert (tk_id t) visited)"
      by (rule up_closed_insert [OF 2(11,10) t(1,3)])
  qed (rule 2(11))
  moreover have "list_all cycle_free ns' \<and> up_closed tasks v"
  proof (rule 2(3) [OF t(2) kids [symmetric] 2(4) rest(1)])
    note new = build_nodes_ids [OF 2(4) kids]
    have v1: "v1 = insert (tk_id t) visited \<union> set (forest_ids kids)"
      "set (forest_ids kids) \<inter> insert (tk_id t) visited = {}"
      using new by - (elim conjE, assumption)+
    show "set ts \<subseteq> set tasks" "distinct (map tk_id ts)"
      using 2(6,7) by auto
    show "list_all (ready tasks v1) ts"
      using 2(9) ready_mono [of tasks visited _ v1] unfolding v1 by (auto simp: list_all_iff)
    show "up_closed tasks v1" using calculation by blast
    show "tk_id ` set ts \<inter> v1 = {}"
    proof -
      have False if r: "r \<in> set ts" "tk_id r \<in> set (forest_ids kids)" for r
      proof -
        have "tk_id r \<in> child_rel tasks `` {tk_id t} \<union> child_rel tasks `` set (forest_ids kids)"
          using build_nodes_source [OF 2(4) kids] r(2) unfolding child_rel_image set_sort by blast
        then obtain i c where c: "c \<in> set (children_of tasks i)" "tk_id c = tk_id r"
          "i \<in> insert (tk_id t) (set (forest_ids kids))"
          by (auto simp: child_rel_def)
        have "c = r"
          using same_task [OF 2(11)] c(1,2) 2(6) r(1) by (auto simp: child_iff)
        then have "i \<in> visited"
          using c(1) 2(9) r(1) by (auto simp: child_iff ready_def list_all_iff)
        then show False using c(3) t(2) v1(2) by auto
      qed
      then show ?thesis
        using 2(7,8) unfolding v1 by auto
    qed
  qed (rule 2(11))
  ultimately show ?case by (simp add: rest)
qed

section \<open>The tree of one ledger\<close>

definition tree_counts_of :: "ledger \<Rightarrow> bool \<Rightarrow> string \<Rightarrow> tree_counts" where
  "tree_counts_of l locked i =
     (let todos = load_todos i l
      in \<lparr>tc_plans = length (list_plans i l), tc_questions = length (list_questions i l),
          tc_runs = length (list_runs i l), tc_changes = length (list_changes i l),
          tc_todos_total = length todos, tc_todos_done = length (filter td_done todos),
          tc_has_lock = locked\<rparr>)"

text \<open>What a node shows of its task; \<open>locks\<close> are the live locks of the current ledger.\<close>

definition task_info ::
  "ledger \<Rightarrow> bool \<Rightarrow> string option \<Rightarrow> bool \<Rightarrow> TaskLock list \<Rightarrow> TaskRecord \<Rightarrow> tree_info" where
  "task_info l is_current active details locks t =
     (let lock = find (\<lambda>k. lk_task_id k = tk_id t) (rev locks)
      in \<lparr>ti_id = tk_id t, ti_slug = tk_slug t, ti_title = tk_title t,
          ti_stage = tk_status_stage t, ti_archived = (tk_archived_at t \<noteq> None),
          ti_active_stage =
            (if \<not> is_current \<or> lock = None then None
             else derive_active_stage lock (list_runs (tk_id t) l)),
          ti_is_active = (Some (tk_id t) = active), ti_task_type = tk_task_type t,
          ti_parent_task_id = tk_parent_task_id t, ti_parent_relation = tk_parent_relation t,
          ti_counts =
            (if details then Some (tree_counts_of l (lock \<noteq> None) (tk_id t)) else None)\<rparr>)"

definition task_forest ::
  "env \<Rightarrow> (TaskRecord \<Rightarrow> tree_info) \<Rightarrow> TaskRecord list \<Rightarrow> TaskRecord list \<Rightarrow> TaskRecord list
    \<Rightarrow> tree_node list \<times> tree_node list" where
  "task_forest E info tasks roots orphans =
     (let by_id = sort_key (\<lambda>t. numeric_id_sort_key E (tk_id t) ''task'')
      in case build_nodes E info tasks {} (by_id roots) of
           (visited, root_nodes) \<Rightarrow>
             (root_nodes, snd (build_nodes E info tasks visited (by_id orphans))))"

text \<open>
  \<open>_build_task_nodes\<close>. A reference narrows the view to one task and what is below it; a target
  below a listed task becomes the only root. A reference that cannot be resolved shows nothing.
\<close>

definition build_task_nodes ::
  "env \<Rightarrow> ledger \<Rightarrow> (TaskRecord \<Rightarrow> tree_info) \<Rightarrow> TaskRecord list \<Rightarrow> string option
    \<Rightarrow> tree_node list \<times> tree_node list" where
  "build_task_nodes E l info tasks task_ref =
     (let roots = filter is_root tasks; orphans = filter (is_orphan tasks) tasks
      in case task_ref of
           None \<Rightarrow> task_forest E info tasks roots orphans
         | Some ref \<Rightarrow>
             if ref = [] then task_forest E info tasks roots orphans
             else (case resolve_task E True ref l of
                Inl _ \<Rightarrow> ([], [])
              | Inr target \<Rightarrow>
                  let shown = filter (\<lambda>t. tk_id t \<in> subtree_ids tasks (tk_id target));
                      below = (case parent_of target of
                        None \<Rightarrow> False | Some p \<Rightarrow> p \<in> tk_id ` set tasks)
                  in task_forest E info (shown tasks)
                       (if below then [target] else shown roots) (shown orphans)))"

text \<open>\<open>_compute_next_task_id\<close>: ids of the form \<open>task-<digits>\<close>\<close>

definition compute_next_task_id :: "TaskRecord list \<Rightarrow> string option" where
  "compute_next_task_id tasks =
     (let numbers = map (\<lambda>t. case task_number (tk_id t) of Inl _ \<Rightarrow> 0 | Inr n \<Rightarrow> n) tasks;
          max_num = fold max numbers 0
      in if max_num = 0 then None else Some (''task-'' @ zpad 4 (nat_str (max_num + 1))))"

fun live_locks :: "env \<Rightarrow> TaskLock list \<Rightarrow> error + TaskLock list" where
  "live_locks E [] = Inr []"
| "live_locks E (k # ks) =
     bindR (lock_is_expired E k) (\<lambda>expired.
     bindR (live_locks E ks) (\<lambda>rest. Inr (if expired then rest else k # rest)))"

record tree_ledger =
  tl_ref :: string
  tl_is_current :: bool
  tl_active_task_id :: "string option"
  tl_next_task_id :: "string option"
  tl_task_count :: nat
  tl_releases :: "(string \<times> string \<times> string option) list"
  tl_tasks :: "tree_node list"
  tl_orphans :: "tree_node list"

record tree_options =
  to_all_ledgers :: bool
  to_task_ref :: "string option"
  to_details :: bool
  to_include_archived :: bool

definition listed_tasks :: "tree_options \<Rightarrow> TaskRecord list \<Rightarrow> TaskRecord list" where
  "listed_tasks opts tasks =
     (if to_include_archived opts then tasks else filter (\<lambda>t. tk_archived_at t = None) tasks)"

text \<open>
  \<open>_build_ledger\<close>: the records of the ledger are arguments, counts and runs are always read from the
  current one (\<open>l\<close>).
\<close>

definition build_ledger ::
  "env \<Rightarrow> ledger \<Rightarrow> tree_options \<Rightarrow> string \<Rightarrow> bool \<Rightarrow> string option \<Rightarrow> TaskRecord list \<Rightarrow> ReleaseRecord list
    \<Rightarrow> error + tree_ledger" where
  "build_ledger E l opts ref is_current active all_tasks releases =
     (let tasks = listed_tasks opts all_tasks
      in bindR (if is_current then live_locks E (load_active_locks l) else Inr []) (\<lambda>locks.
         let (nodes, orphans) = build_task_nodes E l
               (task_info l is_current active (to_details opts) locks) tasks
               (if is_current then to_task_ref opts else None)
         in Inr \<lparr>tl_ref = ref, tl_is_current = is_current, tl_active_task_id = active,
              tl_next_task_id = compute_next_task_id all_tasks, tl_task_count = length tasks,
              tl_releases =
                map (\<lambda>r. (rl_version r, rl_boundary_task_id r, rl_previous_version r)) releases,
              tl_tasks = nodes, tl_orphans = orphans\<rparr>))"

text \<open>\<open>_ledger_records\<close>\<close>

definition ledger_records :: "env \<Rightarrow> ledger \<Rightarrow> TaskRecord list \<times> ReleaseRecord list" where
  "ledger_records E g =
     (sort_key (\<lambda>t. numeric_id_sort_key E (tk_id t) ''task'') (dir_glob ''task-'' (l_tasks g)),
      list_releases E g)"

definition tree_scope :: "tree_options \<Rightarrow> string" where
  "tree_scope opts =
     (if (case to_task_ref opts of None \<Rightarrow> False | Some r \<Rightarrow> r \<noteq> []) then ''task_subtree''
      else if to_all_ledgers opts then ''all_ledgers'' else ''current_ledger'')"

text \<open>\<open>ledgers\<close>: the directories of all ledgers, sorted by their names, which are their refs\<close>

definition build_tree ::
  "env \<Rightarrow> string \<Rightarrow> (string \<times> ledger) list \<Rightarrow> tree_options \<Rightarrow> ledger \<Rightarrow> error + tree_ledger list" where
  "build_tree E current_ref ledgers opts l =
     (let active = map_option as_task_id (l_active l)
      in if to_all_ledgers opts
         then mapR (\<lambda>(ref, g).
                let (tasks, releases) = ledger_records E g; is_current = (ref = current_ref)
                in build_ledger E l opts ref is_current (if is_current then active else None)
                     tasks releases) ledgers
         else bindR (build_ledger E l opts current_ref True active (list_tasks l) (list_releases E l))
                (\<lambda>g. Inr [g]))"

section \<open>What the tree shows\<close>

lemma closure_from:
  assumes "r `` A \<subseteq> A \<union> B"
  shows "r\<^sup>* `` A \<subseteq> A \<union> r\<^sup>* `` B"
proof clarify
  fix a x
  assume "(a, x) \<in> r\<^sup>*" "a \<in> A" "x \<notin> r\<^sup>* `` B"
  then show "x \<in> A"
    using assms by (induction rule: rtrancl_induct) (auto intro: rtrancl_into_rtrancl)
qed

lemma collect_subtree_closure:
  "child_rel tasks `` ids \<subseteq> ids \<union> set stack \<Longrightarrow>
    collect_subtree_ids tasks ids stack = ids \<union> (child_rel tasks)\<^sup>* `` set stack"
proof (induction tasks ids stack rule: collect_subtree_ids.induct)
  case (1 tasks ids)
  then show ?case by simp
next
  case (2 tasks ids i stack)
  let ?R = "child_rel tasks"
  show ?case
  proof (cases "i \<in> ids")
    case True
    then have closed: "?R `` ids \<subseteq> ids \<union> set stack" using 2(3) by auto
    have "?R\<^sup>* `` {i} \<subseteq> ids \<union> ?R\<^sup>* `` set stack"
      using closure_from [OF closed] True by blast
    then show ?thesis using 2(1) [OF True closed] True by auto
  next
    case False
    let ?new = "tk_id ` set (children_of tasks i)"
    have closed: "?R `` insert i ids \<subseteq> insert i ids \<union> set (rev (map tk_id (children_of tasks i)) @ stack)"
      using 2(3) child_rel_image [of tasks i] by auto
    have "?R\<^sup>* `` {i} = insert i (?R\<^sup>* `` ?new)"
      unfolding child_rel_image [symmetric] by (auto elim: converse_rtranclE intro: converse_rtrancl_into_rtrancl)
    then show ?thesis using 2(2) [OF False closed] False by (auto simp: Image_Un)
  qed
qed

lemma subtree_ids_closure: "subtree_ids tasks i = (child_rel tasks)\<^sup>* `` {i}"
  using collect_subtree_closure [of tasks "{}" "[i]"] by (auto simp: subtree_ids_def)

lemma task_forest_nodes:
  assumes "task_forest E info tasks roots orphans = (rs, os)"
  shows "\<exists>v. build_nodes E info tasks {} (sort_key (\<lambda>t. numeric_id_sort_key E (tk_id t) ''task'') roots
    @ sort_key (\<lambda>t. numeric_id_sort_key E (tk_id t) ''task'') orphans) = (v, rs @ os)"
  using assms by (auto simp: task_forest_def build_nodes_append Let_def split: prod.splits)

lemma task_forest_shows:
  assumes "\<And>t. ti_id (info t) = tk_id t" "task_forest E info tasks roots orphans = (rs, os)"
  shows "distinct (forest_ids (rs @ os))"
    and "set (forest_ids (rs @ os)) = (child_rel tasks)\<^sup>* `` (tk_id ` (set roots \<union> set orphans))"
proof -
  let ?by_id = "sort_key (\<lambda>t. numeric_id_sort_key E (tk_id t) ''task'')"
  obtain v where v: "build_nodes E info tasks {} (?by_id roots @ ?by_id orphans) = (v, rs @ os)"
    using task_forest_nodes [OF assms(2)] by blast
  show "distinct (forest_ids (rs @ os))"
    by (rule build_nodes_closure(1) [OF assms(1) v])
  show "set (forest_ids (rs @ os)) = (child_rel tasks)\<^sup>* `` (tk_id ` (set roots \<union> set orphans))"
    using build_nodes_closure(2) [OF assms(1) v] by (simp add: image_Un)
qed

lemma rooted_forest:
  assumes "acyclic (child_rel tasks)"
  shows "tk_id ` set tasks \<subseteq>
    (child_rel tasks)\<^sup>* `` (tk_id ` {t \<in> set tasks. is_root t \<or> is_orphan tasks t})"
proof clarify
  fix t
  assume "t \<in> set tasks"
  have "finite (child_rel tasks)"
  proof (rule finite_subset)
    show "child_rel tasks \<subseteq> tk_id ` set tasks \<times> tk_id ` set tasks"
      by (auto simp: child_rel_def child_iff)
  qed simp
  then have "wf (child_rel tasks)"
    using assms by (simp add: wf_iff_acyclic_if_finite)
  then show "tk_id t \<in> (child_rel tasks)\<^sup>* `` (tk_id ` {t \<in> set tasks. is_root t \<or> is_orphan tasks t})"
    using \<open>t \<in> set tasks\<close>
  proof (induction "tk_id t" arbitrary: t rule: wf_induct_rule)
    case less
    show ?case
    proof (cases "is_root t \<or> is_orphan tasks t")
      case True
      then show ?thesis using less(2) by blast
    next
      case False
      then obtain p where p: "p \<in> set tasks" "parent_of t = Some (tk_id p)"
        by (auto simp: is_root_def is_orphan_def split: option.splits)
      then have step: "(tk_id p, tk_id t) \<in> child_rel tasks"
        using less(2) by (auto simp: child_rel_def child_iff)
      show ?thesis using less(1) [OF step p(1)] step by (auto intro: rtrancl_into_rtrancl)
    qed
  qed
qed

lemma child_rel_tasks: "(child_rel tasks)\<^sup>* `` (tk_id ` X) \<subseteq> tk_id ` set tasks" if "X \<subseteq> set tasks"
proof -
  have "child_rel tasks `` (tk_id ` set tasks) \<subseteq> tk_id ` set tasks"
    by (auto simp: child_rel_def child_iff)
  then have "(child_rel tasks)\<^sup>* `` (tk_id ` set tasks) = tk_id ` set tasks"
    by (rule Image_closed_trancl)
  then show ?thesis using that by blast
qed

text \<open>Without a cycle of parents, every listed task has exactly one node, and no node is a mark.\<close>

lemma full_forest:
  assumes "\<And>t. ti_id (info t) = tk_id t" "distinct (map tk_id tasks)" "acyclic (child_rel tasks)"
    "build_task_nodes E l info tasks None = (rs, os)"
  shows "mset (forest_ids (rs @ os)) = mset (map tk_id tasks)" "list_all cycle_free (rs @ os)"
proof -
  let ?roots = "filter is_root tasks" and ?orphans = "filter (is_orphan tasks) tasks"
  let ?by_id = "sort_key (\<lambda>t. numeric_id_sort_key E (tk_id t) ''task'')"
  have forest: "task_forest E info tasks ?roots ?orphans = (rs, os)"
    using assms(4) by (simp add: build_task_nodes_def Let_def)
  have starts: "set ?roots \<union> set ?orphans = {t \<in> set tasks. is_root t \<or> is_orphan tasks t}"
    by auto
  have "set (forest_ids (rs @ os)) = tk_id ` set tasks"
    using task_forest_shows(2) [OF assms(1) forest] rooted_forest [OF assms(3)]
      child_rel_tasks [of "{t \<in> set tasks. is_root t \<or> is_orphan tasks t}" tasks]
    unfolding starts by auto
  then show "mset (forest_ids (rs @ os)) = mset (map tk_id tasks)"
    using task_forest_shows(1) [OF assms(1) forest] assms(2)
    by (simp only: set_eq_iff_mset_eq_distinct [symmetric] set_map)
  obtain v where v: "build_nodes E info tasks {} (?by_id ?roots @ ?by_id ?orphans) = (v, rs @ os)"
    using task_forest_nodes [OF forest] by blast
  have "distinct (map tk_id (?by_id ?roots @ ?by_id ?orphans))"
    unfolding map_append distinct_append
  proof (intro conjI)
    show "distinct (map tk_id (?by_id ?roots))" "distinct (map tk_id (?by_id ?orphans))"
      using assms(2) by (simp_all add: distinct_map inj_on_def)
    have False if "x \<in> set ?roots" "y \<in> set ?orphans" "tk_id x = tk_id y" for x y
      using same_task [OF assms(2), of x y] that by (auto simp: is_root_def is_orphan_def)
    then show "set (map tk_id (?by_id ?roots)) \<inter> set (map tk_id (?by_id ?orphans)) = {}"
      by (simp only: set_map set_sort) blast
  qed
  then have "list_all cycle_free (rs @ os) \<and> up_closed tasks v"
    by (intro build_nodes_cycle_free [OF assms(2,1) v])
      (auto simp: list_all_iff ready_def up_closed_def is_root_def is_orphan_def split: option.splits)
  then show "list_all cycle_free (rs @ os)" ..
qed

text \<open>The view of one task shows it and what is below it, each once.\<close>

lemma restricted_closure:
  assumes "kept = filter (\<lambda>t. tk_id t \<in> (child_rel tasks)\<^sup>* `` {i}) tasks"
  shows "(child_rel kept)\<^sup>* `` {i} = (child_rel tasks)\<^sup>* `` {i}"
proof (rule equalityI)
  have "child_rel kept \<subseteq> child_rel tasks"
    by (auto simp: child_rel_def child_iff assms)
  then show "(child_rel kept)\<^sup>* `` {i} \<subseteq> (child_rel tasks)\<^sup>* `` {i}"
    by (intro Image_mono rtrancl_mono) auto
  show "(child_rel tasks)\<^sup>* `` {i} \<subseteq> (child_rel kept)\<^sup>* `` {i}"
  proof (rule subsetI)
    fix x
    assume "x \<in> (child_rel tasks)\<^sup>* `` {i}"
    then have "(i, x) \<in> (child_rel tasks)\<^sup>*" by simp
    then show "x \<in> (child_rel kept)\<^sup>* `` {i}"
    proof (induction rule: rtrancl_induct)
      case base
      then show ?case by simp
    next
      case (step y z)
      then have "(i, z) \<in> (child_rel tasks)\<^sup>*" by (auto intro: rtrancl_into_rtrancl)
      then have "(y, z) \<in> child_rel kept"
        using step(1,2) by (auto simp: child_rel_def child_iff assms)
      then show ?case using step(3) by (auto intro: rtrancl_into_rtrancl)
    qed
  qed
qed

lemma subtree_forest:
  assumes "\<And>t. ti_id (info t) = tk_id t" "ref \<noteq> []" "resolve_task E True ref l = Inr target"
    "target \<in> set tasks" "build_task_nodes E l info tasks (Some ref) = (rs, os)"
  shows "distinct (forest_ids (rs @ os))"
    "set (forest_ids (rs @ os)) = (child_rel tasks)\<^sup>* `` {tk_id target}"
proof -
  let ?R = "child_rel tasks" and ?i = "tk_id target"
  define kept where "kept = filter (\<lambda>t. tk_id t \<in> ?R\<^sup>* `` {?i}) tasks"
  define roots where "roots = (if case parent_of target of None \<Rightarrow> False | Some p \<Rightarrow> p \<in> tk_id ` set tasks
    then [target] else filter (\<lambda>t. tk_id t \<in> ?R\<^sup>* `` {?i}) (filter is_root tasks))"
  define orphans where "orphans = filter (\<lambda>t. tk_id t \<in> ?R\<^sup>* `` {?i}) (filter (is_orphan tasks) tasks)"
  have forest: "task_forest E info kept roots orphans = (rs, os)"
    using assms(2,3,5)
    unfolding build_task_nodes_def Let_def subtree_ids_closure kept_def roots_def orphans_def by simp
  have target: "target \<in> set roots \<union> set orphans"
    using assms(4) by (auto simp: roots_def orphans_def is_root_def is_orphan_def split: option.splits)
  have within: "set roots \<union> set orphans \<subseteq> set kept"
    using assms(4) by (auto simp: roots_def orphans_def kept_def split: if_splits)
  show "distinct (forest_ids (rs @ os))"
    by (rule task_forest_shows(1) [OF assms(1) forest])
  have "(child_rel kept)\<^sup>* `` (tk_id ` (set roots \<union> set orphans)) \<subseteq> tk_id ` set kept"
    by (rule child_rel_tasks [OF within])
  moreover have "tk_id ` set kept \<subseteq> ?R\<^sup>* `` {?i}" by (auto simp: kept_def)
  moreover have "?R\<^sup>* `` {?i} \<subseteq> (child_rel kept)\<^sup>* `` (tk_id ` (set roots \<union> set orphans))"
    using restricted_closure [OF kept_def] target by blast
  ultimately show "set (forest_ids (rs @ os)) = ?R\<^sup>* `` {?i}"
    using task_forest_shows(2) [OF assms(1) forest] by simp
qed

lemma task_info_id: "ti_id (task_info l c a d ks t) = tk_id t"
  by (simp add: task_info_def Let_def)

lemma built_nodes:
  assumes "build_ledger E l opts ref is_current active tasks releases = Inr g"
  obtains locks where "build_task_nodes E l (task_info l is_current active (to_details opts) locks)
    (listed_tasks opts tasks) (if is_current then to_task_ref opts else None) = (tl_tasks g, tl_orphans g)"
  using assms that by (auto simp: build_ledger_def bindR_def Let_def split: sum.splits prod.splits)

lemma listed_distinct: "distinct (map tk_id tasks) \<Longrightarrow> distinct (map tk_id (listed_tasks opts tasks))"
  by (auto simp: listed_tasks_def distinct_map inj_on_def)

section \<open>The printed tree\<close>

text \<open>The box characters are written as their UTF-8 bytes.\<close>

record tree_glyphs =
  gl_mid :: string
  gl_last :: string
  gl_pipe :: string
  gl_space :: string

definition UNICODE_GLYPHS :: tree_glyphs where
  "UNICODE_GLYPHS =
     \<lparr>gl_mid = [CHR 0xE2, CHR 0x94, CHR 0x9C, CHR 0xE2, CHR 0x94, CHR 0x80] @ '' '',
      gl_last = [CHR 0xE2, CHR 0x94, CHR 0x94, CHR 0xE2, CHR 0x94, CHR 0x80] @ '' '',
      gl_pipe = [CHR 0xE2, CHR 0x94, CHR 0x82] @ ''  '', gl_space = ''   ''\<rparr>"

definition ASCII_GLYPHS :: tree_glyphs where
  "ASCII_GLYPHS = \<lparr>gl_mid = ''+- '', gl_last = ''`- '', gl_pipe = ''|  '', gl_space = ''   ''\<rparr>"

definition branch_of :: "tree_glyphs \<Rightarrow> bool \<Rightarrow> string" where
  "branch_of g is_last = (if is_last then gl_last g else gl_mid g)"

definition below_of :: "tree_glyphs \<Rightarrow> bool \<Rightarrow> string" where
  "below_of g is_last = (if is_last then gl_space g else gl_pipe g)"

definition counts_text :: "tree_counts \<Rightarrow> string" where
  "counts_text c =
     ''todos='' @ nat_str (tc_todos_done c) @ ''/'' @ nat_str (tc_todos_total c)
       @ '' plans='' @ nat_str (tc_plans c) @ '' runs='' @ nat_str (tc_runs c)
       @ '' changes='' @ nat_str (tc_changes c)"

definition node_label :: "tree_info \<Rightarrow> string" where
  "node_label i =
     join '' ''
       ([ti_id i] @ (if ti_slug i \<noteq> [] then [ti_slug i] else [])
        @ [case ti_active_stage i of
             None \<Rightarrow> ''['' @ stage_str (ti_stage i) @ '']''
           | Some kind \<Rightarrow> ''['' @ stage_str (ti_stage i) @ ''/'' @ enum_name run_type_names kind @ '']'']
        @ (if ti_title i \<noteq> [] then [ti_title i] else [])
        @ (if ti_parent_relation i = Some ''follow_up'' then [''(follow-up)''] else [])
        @ (if ti_task_type i = TT_recorded then [''{recorded}''] else [])
        @ (if ti_archived i then [''{archived}''] else [])
        @ (if ti_is_active i then [''*''] else [])
        @ (case ti_counts i of None \<Rightarrow> [] | Some c \<Rightarrow> [counts_text c]))"

text \<open>
  \<open>_render_task_node\<close>: a mark for a cycle below a node has a line of its own; at the top it is printed
  like a node without fields.
\<close>

fun render_task_node :: "tree_glyphs \<Rightarrow> string \<Rightarrow> bool \<Rightarrow> tree_node \<Rightarrow> string list"
  and render_children :: "tree_glyphs \<Rightarrow> string \<Rightarrow> tree_node list \<Rightarrow> string list" where
  "render_task_node g prefix is_last (Cycle i) = [prefix @ branch_of g is_last @ i @ '' []'']"
| "render_task_node g prefix is_last (Node info kids) =
     (prefix @ branch_of g is_last @ node_label info)
       # render_children g (prefix @ below_of g is_last) kids"
| "render_children g prefix [] = []"
| "render_children g prefix (Cycle i # ns) =
     (prefix @ gl_last g @ ''(cycle: '' @ i @ '')'') # render_children g prefix ns"
| "render_children g prefix (Node info kids # ns) =
     render_task_node g prefix (ns = []) (Node info kids) @ render_children g prefix ns"

text \<open>A list of nodes at the top; the last one closes the list when nothing follows it.\<close>

fun render_nodes :: "tree_glyphs \<Rightarrow> string \<Rightarrow> bool \<Rightarrow> tree_node list \<Rightarrow> string list" where
  "render_nodes g prefix followed [] = []"
| "render_nodes g prefix followed (n # ns) =
     render_task_node g prefix (ns = [] \<and> \<not> followed) n @ render_nodes g prefix followed ns"

definition ledger_header :: "tree_ledger \<Rightarrow> string" where
  "ledger_header t =
     join '' ''
       ([''ledger '' @ tl_ref t] @ (if tl_is_current t then [''(current)''] else [])
        @ [''tasks='' @ nat_str (tl_task_count t),
           ''active='' @ (case tl_active_task_id t of None \<Rightarrow> ''none'' | Some a \<Rightarrow> if a = [] then ''none'' else a)]
        @ (case tl_next_task_id t of None \<Rightarrow> [] | Some n \<Rightarrow> [''next='' @ n]))"

definition ledger_children :: "tree_ledger \<Rightarrow> nat" where
  "ledger_children t =
     (if tl_releases t \<noteq> [] then 1 else 0)
       + (if tl_tasks t \<noteq> [] \<or> tl_orphans t \<noteq> [] then 1 else 0)"

fun render_releases :: "tree_glyphs \<Rightarrow> string \<Rightarrow> (string \<times> string \<times> string option) list \<Rightarrow> string list" where
  "render_releases g prefix [] = []"
| "render_releases g prefix ((version, boundary, _) # rs) =
     (prefix @ branch_of g (rs = []) @ version @ '' -> '' @ boundary) # render_releases g prefix rs"

definition render_ledger :: "tree_glyphs \<Rightarrow> bool \<Rightarrow> tree_ledger \<Rightarrow> string list" where
  "render_ledger g is_last t =
     (let cont = below_of g is_last;
          has_releases = (tl_releases t \<noteq> []);
          release_last = (1 = ledger_children t);
          task_last = ((if has_releases then 2 else 1) = ledger_children t \<and> tl_orphans t = []);
          below = cont @ below_of g task_last
      in [branch_of g is_last @ ledger_header t]
         @ (if has_releases
            then (cont @ branch_of g release_last @ ''releases'')
              # render_releases g (cont @ below_of g release_last) (tl_releases t)
            else [])
         @ (if tl_tasks t = [] \<and> tl_orphans t = []
            then [cont @ branch_of g task_last @ ''(no tasks)'']
            else (cont @ branch_of g task_last @ ''tasks'')
              # render_nodes g below (tl_orphans t \<noteq> []) (tl_tasks t)
              @ (if tl_orphans t \<noteq> []
                 then (below @ gl_last g @ ''orphaned children'')
                   # render_nodes g (below @ gl_space g) False (tl_orphans t)
                 else [])))"

fun render_ledgers :: "tree_glyphs \<Rightarrow> tree_ledger list \<Rightarrow> string list" where
  "render_ledgers g [] = []"
| "render_ledgers g (t # ts) = render_ledger g (ts = []) t @ render_ledgers g ts"

definition render_tree_text :: "bool \<Rightarrow> string \<Rightarrow> tree_ledger list \<Rightarrow> string" where
  "render_tree_text plain workspace_root ledgers =
     join [CHR 0x0A]
       ([''TASKLEDGER TREE'', workspace_root]
        @ render_ledgers (if plain then ASCII_GLYPHS else UNICODE_GLYPHS) ledgers)"

text \<open>Every node of a forest without marks is one line.\<close>

lemma render_lines:
  "cycle_free n \<Longrightarrow> length (render_task_node g p b n) = length (node_ids n)"
  "list_all cycle_free ns \<Longrightarrow> length (render_children g p ns) = length (forest_ids ns)"
  by (induction g p b n and g p ns rule: render_task_node_render_children.induct)
    (auto simp: forest_ids_def)

lemma render_nodes_lines:
  "list_all cycle_free ns \<Longrightarrow> length (render_nodes g p followed ns) = length (forest_ids ns)"
  by (induction ns) (simp_all add: render_lines(1) forest_ids_def)

text \<open>Both together for a ledger of the view, with the lines that are printed.\<close>

lemma full_listing:
  assumes "build_ledger E l opts ref is_current active tasks releases = Inr g"
    and "to_task_ref opts = None" "distinct (map tk_id tasks)" "acyclic (child_rel (listed_tasks opts tasks))"
  shows "mset (forest_ids (tl_tasks g @ tl_orphans g)) = mset (map tk_id (listed_tasks opts tasks))
    \<and> list_all cycle_free (tl_tasks g @ tl_orphans g)
    \<and> length (render_nodes gl p followed (tl_tasks g @ tl_orphans g)) = length (listed_tasks opts tasks)"
proof -
  obtain locks where nodes: "build_task_nodes E l (task_info l is_current active (to_details opts) locks)
      (listed_tasks opts tasks) None = (tl_tasks g, tl_orphans g)"
    using built_nodes [OF assms(1)] assms(2) by (metis (full_types))
  note forest = full_forest [OF task_info_id listed_distinct [OF assms(3)] assms(4) nodes]
  have "length (forest_ids (tl_tasks g @ tl_orphans g)) = length (listed_tasks opts tasks)"
    using arg_cong [OF forest(1), of size] by simp
  then show ?thesis using forest render_nodes_lines [OF forest(2)] by simp
qed

end
