(* ===== verification/Ledgers.thy ===== *)
theory Ledgers
  imports Lifecycle PyText
begin

text \<open>
  Branch-scoped ledgers: the ledger keys of the project configuration (\<open>storage/ledger_config.py\<close>,
  \<open>storage/toml_edit.py\<close>) with the edit of the configuration text line by line, and the commands
  \<open>ledger fork\<close>, \<open>switch\<close>, \<open>adopt\<close> and \<open>doctor\<close> of \<open>cli_ledger.py\<close>. The TOML reader is a parameter:
  \<open>reader text\<close> is the table that it reads, or nothing when the text is not TOML.
\<close>

section \<open>The configuration\<close>

datatype branch_guard = BG_off | BG_warn | BG_error

definition branch_guard_names :: "(branch_guard \<times> string) list" where
  "branch_guard_names = [(BG_off, ''off''), (BG_warn, ''warn''), (BG_error, ''error'')]"

record LedgerConfig =
  lc_ref :: string
  lc_parent_ref :: "string option"
  lc_next_task_number :: int
  lc_branch_guard :: branch_guard

definition LedgerConfig_default :: LedgerConfig where
  "LedgerConfig_default = \<lparr>lc_ref = ''main'', lc_parent_ref = None, lc_next_task_number = 1,
     lc_branch_guard = BG_off\<rparr>"

record LedgerConfigPatch =
  lp_ref :: "string option"
  lp_parent_ref :: "string option"
  lp_next_task_number :: "int option"
  lp_branch_guard :: "string option"

definition no_patch :: LedgerConfigPatch where
  "no_patch = \<lparr>lp_ref = None, lp_parent_ref = None, lp_next_task_number = None, lp_branch_guard = None\<rparr>"

record LedgerIdentity =
  li_code :: string
  li_name :: string

definition ref_char :: "char \<Rightarrow> bool" where
  "ref_char c \<longleftrightarrow> is_alpha c \<or> is_digit_char c \<or> c \<in> {CHR ''.'', CHR ''_'', CHR ''-''}"

text \<open>
  \<open>LEDGER_REF_PATTERN.match\<close>: the \<open>$\<close> of the pattern matches at the end and before a newline at the
  end.
\<close>

definition ref_pattern :: "string \<Rightarrow> bool" where
  "ref_pattern s \<longleftrightarrow>
     (s \<noteq> [] \<and> list_all ref_char s)
     \<or> (s \<noteq> [] \<and> last s = CHR 0x0A \<and> butlast s \<noteq> [] \<and> list_all ref_char (butlast s))"

definition validate_ledger_ref :: "string \<Rightarrow> error + string" where
  "validate_ledger_ref v =
     (if v = [] then Inl (launch_error ''empty ledger_ref'')
      else if length v > 80 then Inl (launch_error ''ledger_ref too long'')
      else if \<not> ref_pattern v then Inl (launch_error ''ledger_ref characters'')
      else if contains ''..'' v then Inl (launch_error ''ledger_ref with ..'')
      else if CHR ''/'' \<in> set v \<or> CHR 0x5C \<in> set v then Inl (launch_error ''ledger_ref with separators'')
      else Inr v)"

text \<open>Python's booleans are integers: \<open>true\<close> passes as the number 1.\<close>

fun positive_int :: "pyval \<Rightarrow> int option" where
  "positive_int (PInt n) = (if n \<ge> 1 then Some n else None)"
| "positive_int (PBool b) = (if b then Some 1 else None)"
| "positive_int _ = None"

definition ledger_config_from_dict :: "pydict \<Rightarrow> error + LedgerConfig" where
  "ledger_config_from_dict data =
     bindR (case dget data ''ledger_ref'' of
              PNone \<Rightarrow> Inr ''main''
            | PStr s \<Rightarrow> validate_ledger_ref s
            | _ \<Rightarrow> Inl (launch_error ''ledger_ref is no string'')) (\<lambda>ref.
     bindR (case dget data ''ledger_parent_ref'' of
              PNone \<Rightarrow> Inr None
            | PStr s \<Rightarrow> Inr (if s = [] then None else Some s)
            | _ \<Rightarrow> Inl (launch_error ''ledger_parent_ref is no string'')) (\<lambda>parent_ref.
     bindR (let v = dget data ''ledger_next_task_number''
            in if v = PNone then Inr 1
               else case positive_int v of
                 Some n \<Rightarrow> Inr n | None \<Rightarrow> Inl (launch_error ''ledger_next_task_number'')) (\<lambda>next_number.
     bindR (case dget data ''ledger_branch_guard'' of
              PNone \<Rightarrow> Inr BG_off
            | PStr s \<Rightarrow> normalize_enum branch_guard_names ''ledger_branch_guard'' s
            | _ \<Rightarrow> Inl (launch_error ''ledger_branch_guard'')) (\<lambda>guard.
     Inr \<lparr>lc_ref = ref, lc_parent_ref = parent_ref, lc_next_task_number = next_number,
          lc_branch_guard = guard\<rparr>))))"

text \<open>\<open>None\<close> for the text stands for a file that does not exist.\<close>

definition load_toml_mapping :: "(string \<Rightarrow> pydict option) \<Rightarrow> string \<Rightarrow> error + pydict" where
  "load_toml_mapping reader text =
     (let stripped = strip text
      in if stripped = [] then Inr []
         else case reader stripped of
           None \<Rightarrow> Inl (launch_error ''invalid project config'') | Some data \<Rightarrow> Inr data)"

definition load_ledger_config ::
  "(string \<Rightarrow> pydict option) \<Rightarrow> string option \<Rightarrow> error + LedgerConfig" where
  "load_ledger_config reader file =
     (case file of
        None \<Rightarrow> Inr LedgerConfig_default
      | Some text \<Rightarrow>
          if strip text = [] then Inr LedgerConfig_default
          else bindR (load_toml_mapping reader text) ledger_config_from_dict)"

definition normalize_ledger_name :: "string \<Rightarrow> error + string" where
  "normalize_ledger_name v =
     (let stripped = strip v
      in if stripped = [] then Inl (launch_error ''blank ledger name'')
         else if list_ex (\<lambda>c. c \<in> {CHR 0x0A, CHR 0x0D, CHR 0x09}) stripped
         then Inl (launch_error ''control whitespace in ledger name'')
         else Inr stripped)"

text \<open>\<open>token\<close> is \<open>normalize_ref_token\<close> of the identifier package.\<close>

definition load_ledger_identity ::
  "(string \<Rightarrow> pydict option) \<Rightarrow> (string \<Rightarrow> error + string) \<Rightarrow> string option \<Rightarrow> error + LedgerIdentity" where
  "load_ledger_identity reader token file =
     (case file of
        None \<Rightarrow> Inr \<lparr>li_code = ''tl'', li_name = ''taskledger''\<rparr>
      | Some text \<Rightarrow>
          bindR (load_toml_mapping reader text) (\<lambda>data.
          case dget data ''ledger'' of
            PNone \<Rightarrow> Inr \<lparr>li_code = ''tl'', li_name = ''taskledger''\<rparr>
          | PDict raw \<Rightarrow>
              if \<not> fst ` set raw \<subseteq> {''code'', ''name''}
              then Inl (launch_error ''unsupported [ledger] keys'')
              else (case (dget_default raw ''code'' (PStr ''tl''),
                          dget_default raw ''name'' (PStr ''taskledger'')) of
                      (PStr code, PStr name) \<Rightarrow>
                        bindR (token code) (\<lambda>code'.
                        bindR (normalize_ledger_name name) (\<lambda>name'.
                          Inr \<lparr>li_code = code', li_name = name'\<rparr>))
                    | _ \<Rightarrow> Inl (launch_error ''[ledger] values are no strings''))
          | _ \<Rightarrow> Inl (launch_error ''[ledger] is no table'')))"

section \<open>Editing the text\<close>

definition is_toml_key_line :: "string \<Rightarrow> string \<Rightarrow> bool" where
  "is_toml_key_line line key \<longleftrightarrow>
     (let stripped = strip line; rest = drop (length key) stripped
      in startswith stripped key \<and> rest \<noteq> [] \<and> startswith (lstrip rest) ''='')"

definition LEDGER_KEYS :: "string list" where
  "LEDGER_KEYS =
     [''ledger_ref'', ''ledger_parent_ref'', ''ledger_next_task_number'', ''ledger_branch_guard'']"

text \<open>The line of a key; all values but the number are quoted.\<close>

definition key_entry :: "(string \<Rightarrow> string) \<Rightarrow> string \<Rightarrow> string" where
  "key_entry val key =
     key @ '' = '' @ (if key = ''ledger_next_task_number'' then val key
       else [CHR 0x22] @ val key @ [CHR 0x22])"

definition matched_key :: "string \<Rightarrow> string option" where
  "matched_key line =
     find (\<lambda>key. startswith (strip line) key \<and> is_toml_key_line (strip line) key) LEDGER_KEYS"

definition rewrite_line :: "(string \<Rightarrow> string) \<Rightarrow> string \<Rightarrow> string" where
  "rewrite_line val line =
     (case matched_key line of None \<Rightarrow> line | Some key \<Rightarrow> key_entry val key)"

definition ledger_comment :: string where
  "ledger_comment =
     ''# Taskledger branch-scoped state. This block is intentionally safe to commit.''"

definition patch_lines :: "(string \<Rightarrow> string) \<Rightarrow> string list \<Rightarrow> string list" where
  "patch_lines val lines =
     (let new_lines = map (rewrite_line val) lines;
          missing = filter (\<lambda>key. Some key \<notin> matched_key ` set lines) LEDGER_KEYS
      in if missing = [] then new_lines
         else new_lines
           @ (if new_lines \<noteq> [] \<and> strip (last new_lines) \<noteq> [] then [[]] else [])
           @ [ledger_comment] @ map (key_entry val) missing)"

definition apply_ledger_patch :: "(string \<Rightarrow> string) \<Rightarrow> string \<Rightarrow> string" where
  "apply_ledger_patch val text =
     (let lines = (if text = [] then [] else split_char (CHR 0x0A) text);
          result = join [CHR 0x0A] (patch_lines val lines)
      in if result \<noteq> [] \<and> last result \<noteq> CHR 0x0A then result @ [CHR 0x0A] else result)"

definition config_value :: "LedgerConfig \<Rightarrow> string \<Rightarrow> string" where
  "config_value c key =
     (if key = ''ledger_ref'' then lc_ref c
      else if key = ''ledger_parent_ref'' then str_or (lc_parent_ref c) []
      else if key = ''ledger_next_task_number'' then int_str (lc_next_task_number c)
      else enum_name branch_guard_names (lc_branch_guard c))"

text \<open>\<open>update_ledger_config\<close>: the checks of the patch, the new text, and the configuration it stands for\<close>

definition update_ledger_config ::
  "(string \<Rightarrow> pydict option) \<Rightarrow> LedgerConfigPatch \<Rightarrow> string option \<Rightarrow> error + (string \<times> LedgerConfig)" where
  "update_ledger_config reader patch file =
     (let current_text = (case file of None \<Rightarrow> [] | Some t \<Rightarrow> strip t)
      in bindR (case lp_ref patch of None \<Rightarrow> Inr [] | Some r \<Rightarrow> validate_ledger_ref r) (\<lambda>_.
         bindR (case lp_next_task_number patch of
                  None \<Rightarrow> Inr () | Some n \<Rightarrow> if n < 1 then Inl (launch_error ''ledger_next_task_number'') else Inr ())
           (\<lambda>_.
         bindR (case lp_branch_guard patch of
                  None \<Rightarrow> Inr None
                | Some g \<Rightarrow> bindR (normalize_enum branch_guard_names ''ledger_branch_guard'' g) (\<lambda>x. Inr (Some x)))
           (\<lambda>guard.
         bindR (if current_text = [] then Inr [] else load_toml_mapping reader current_text) (\<lambda>data.
         bindR (ledger_config_from_dict data) (\<lambda>current.
         let parent = (case lp_parent_ref patch of
               Some p \<Rightarrow> p | None \<Rightarrow> str_or (lc_parent_ref current) []);
             updated = \<lparr>lc_ref = (case lp_ref patch of Some r \<Rightarrow> r | None \<Rightarrow> lc_ref current),
               lc_parent_ref = (if parent = [] then None else Some parent),
               lc_next_task_number =
                 (case lp_next_task_number patch of Some n \<Rightarrow> n | None \<Rightarrow> lc_next_task_number current),
               lc_branch_guard = (case guard of Some g \<Rightarrow> g | None \<Rightarrow> lc_branch_guard current)\<rparr>
         in Inr (apply_ledger_patch (config_value updated) current_text, updated)))))))"

section \<open>What an edit changes\<close>

lemma strip_id:
  assumes "s \<noteq> []" "\<not> py_isspace (hd s)" "\<not> py_isspace (last s)"
  shows "strip s = s"
proof -
  have "dropWhile py_isspace (rev s) = rev s"
    using assms(1,3) by (simp add: dropWhile_eq_self_iff hd_rev)
  then have "rstrip s = s" by (simp add: rstrip_def)
  moreover have "lstrip s = s"
    using assms(1,2) by (simp add: lstrip_def dropWhile_eq_self_iff)
  ultimately show ?thesis by (simp add: strip_def)
qed

definition number_value :: "(string \<Rightarrow> string) \<Rightarrow> bool" where
  "number_value val \<longleftrightarrow> (\<exists>n. val ''ledger_next_task_number'' = int_str n)"

lemma key_entry_strip:
  assumes "number_value val" "key \<in> set LEDGER_KEYS"
  shows "strip (key_entry val key) = key_entry val key"
proof -
  obtain n where n: "val ''ledger_next_task_number'' = int_str n"
    using assms(1) by (auto simp: number_value_def)
  have "int_str n \<noteq> [] \<and> \<not> py_isspace (last (int_str n))" for n
  proof -
    have "nat_str k \<noteq> [] \<and> \<not> py_isspace (last (nat_str k))" for k
    proof -
      have "is_digit_char (last (nat_str k))"
        using nat_str_digits [of k] nat_str_nonempty [of k] by (simp add: list_all_iff)
      then show ?thesis
        using nat_str_nonempty [of k] by (auto simp: is_digit_char_def py_isspace_def Let_def)
    qed
    then show ?thesis by (auto simp: int_str_def)
  qed
  then show ?thesis
    using assms(2) n
    by (intro strip_id) (auto simp: key_entry_def LEDGER_KEYS_def py_isspace_def)
qed

lemma key_prefixes:
  "find (\<lambda>k. startswith (key @ '' = '' @ x) k \<and> drop (length k) (key @ '' = '' @ x) \<noteq> []
      \<and> startswith (lstrip (drop (length k) (key @ '' = '' @ x))) ''='') LEDGER_KEYS = Some key"
  if "key \<in> set LEDGER_KEYS"
proof -
  have "lstrip ('' = '' @ x) = ''= '' @ x"
    by (simp add: lstrip_def py_isspace_def Let_def)
  then show ?thesis
    using that unfolding LEDGER_KEYS_def set_simps insert_iff empty_iff
    by (elim disjE FalseE) (simp_all add: lstrip_def py_isspace_def Let_def)
qed

lemma matched_entry:
  assumes "number_value val" "key \<in> set LEDGER_KEYS"
  shows "matched_key (key_entry val key) = Some key"
proof -
  obtain x where x: "key_entry val key = key @ '' = '' @ x"
    by (simp add: key_entry_def)
  have "matched_key (key_entry val key) =
    find (\<lambda>k. startswith (key_entry val key) k \<and> drop (length k) (key_entry val key) \<noteq> []
      \<and> startswith (lstrip (drop (length k) (key_entry val key))) ''='') LEDGER_KEYS"
    unfolding matched_key_def is_toml_key_line_def Let_def key_entry_strip [OF assms]
    by (rule arg_cong [where f = "\<lambda>P. find P LEDGER_KEYS"]) auto
  then show ?thesis
    unfolding x key_prefixes [OF assms(2)] .
qed

lemma matched_in_keys: "matched_key line = Some key \<Longrightarrow> key \<in> set LEDGER_KEYS"
  by (auto simp: matched_key_def dest: find_SomeD)

lemma unmatched: "matched_key [] = None" "matched_key ledger_comment = None"
  by code_simp+

lemma rewrite_matched:
  "number_value val \<Longrightarrow> matched_key (rewrite_line val line) = matched_key line"
  by (auto simp: rewrite_line_def matched_entry matched_in_keys split: option.split)

lemma rewrite_twice:
  "number_value val \<Longrightarrow> rewrite_line val (rewrite_line val line) = rewrite_line val line"
  using rewrite_matched [of val line] by (auto simp: rewrite_line_def split: option.split)

text \<open>Lines that set no ledger key stay, in order; only a blank line and the comment are added.\<close>

lemma patch_other_lines:
  assumes "number_value val"
  shows "\<exists>extra. filter (\<lambda>x. matched_key x = None) (patch_lines val lines) =
      filter (\<lambda>x. matched_key x = None) lines @ extra \<and> set extra \<subseteq> {[], ledger_comment}"
proof -
  have "filter (\<lambda>x. matched_key x = None) (map (rewrite_line val) ls) = filter (\<lambda>x. matched_key x = None) ls" for ls
    by (induction ls) (simp_all add: rewrite_matched [OF assms], simp add: rewrite_line_def)
  moreover have "filter (\<lambda>x. matched_key x = None) (map (key_entry val) ks) = []" if "set ks \<subseteq> set LEDGER_KEYS" for ks
    using that by (auto simp: filter_empty_conv matched_entry [OF assms])
  ultimately show ?thesis
    by (auto simp: patch_lines_def Let_def unmatched)
qed

text \<open>Each key has lines, and all of them set the new valueue.\<close>

lemma patch_key_lines:
  assumes "number_value val" "key \<in> set LEDGER_KEYS"
  shows "set (filter (\<lambda>x. matched_key x = Some key) (patch_lines val lines)) = {key_entry val key}"
proof (rule equalityI)
  have "x = key_entry val key" if "x \<in> set (patch_lines val lines)" "matched_key x = Some key" for x
    using that
    by (auto simp: patch_lines_def Let_def unmatched matched_entry [OF assms(1)] rewrite_matched [OF assms(1)]
        split: if_splits) (auto simp: rewrite_line_def)
  then show "set (filter (\<lambda>x. matched_key x = Some key) (patch_lines val lines)) \<subseteq> {key_entry val key}"
    by auto
  have "key_entry val key \<in> set (patch_lines val lines)"
  proof (cases "Some key \<in> matched_key ` set lines")
    case True
    then obtain line where "line \<in> set lines" "matched_key line = Some key" by auto
    then have "key_entry val key \<in> set (map (rewrite_line val) lines)"
      by (auto simp: rewrite_line_def intro!: image_eqI [of _ _ line])
    then show ?thesis by (auto simp: patch_lines_def Let_def)
  next
    case False
    then have "key \<in> set (filter (\<lambda>key. Some key \<notin> matched_key ` set lines) LEDGER_KEYS)"
      using assms(2) by simp
    then show ?thesis unfolding patch_lines_def Let_def by (auto simp del: set_filter)
  qed
  then show "{key_entry val key} \<subseteq> set (filter (\<lambda>x. matched_key x = Some key) (patch_lines val lines))"
    by (simp add: matched_entry [OF assms])
qed

lemma patch_lines_twice:
  assumes "number_value val"
  shows "patch_lines val (patch_lines val lines) = patch_lines val lines"
proof -
  let ?out = "patch_lines val lines"
  have "Some key \<in> matched_key ` set ?out" if "key \<in> set LEDGER_KEYS" for key
  proof -
    have "key_entry val key \<in> set (filter (\<lambda>x. matched_key x = Some key) ?out)"
      unfolding patch_key_lines [OF assms that] by simp
    then show ?thesis by (auto intro!: image_eqI [of _ _ "key_entry val key"])
  qed
  then have "filter (\<lambda>key. Some key \<notin> matched_key ` set ?out) LEDGER_KEYS = []"
    by (simp add: filter_empty_conv)
  then have "patch_lines val ?out = map (rewrite_line val) ?out"
    unfolding patch_lines_def [of val "patch_lines val lines"] Let_def by simp
  also have "\<dots> = ?out"
  proof (rule map_idI)
    fix x
    assume x: "x \<in> set ?out"
    show "rewrite_line val x = x"
    proof (cases "matched_key x")
      case None
      then show ?thesis by (simp add: rewrite_line_def)
    next
      case (Some key)
      have "x \<in> set (filter (\<lambda>x. matched_key x = Some key) ?out)"
        using x Some by simp
      then have "x = key_entry val key"
        unfolding patch_key_lines [OF assms matched_in_keys [OF Some]] by simp
      then show ?thesis using Some by (simp add: rewrite_line_def)
    qed
  qed
  finally show ?thesis .
qed

section \<open>Lines and text\<close>

definition text_lines :: "string \<Rightarrow> string list" where
  "text_lines text = (if text = [] then [] else split_char (CHR 0x0A) text)"

lemma split_char_lines: "x \<in> set (split_char c s) \<Longrightarrow> c \<notin> set x"
  by (induction c s arbitrary: x rule: split_char.induct) (auto split: if_splits list.splits)

lemma split_char_nonempty [simp]: "split_char c s \<noteq> []"
  by (induction c s rule: split_char.induct) (auto split: list.split)

lemma split_char_append:
  "c \<notin> set x \<Longrightarrow> split_char c (x @ c # rest) = x # split_char c rest"
  by (induction x) auto

lemma split_char_none: "c \<notin> set x \<Longrightarrow> split_char c x = [x]"
  by (induction x) auto

lemma split_join:
  "xs \<noteq> [] \<Longrightarrow> list_all (\<lambda>x. c \<notin> set x) xs \<Longrightarrow> split_char c (join [c] xs) = xs"
  by (induction "[c]" xs rule: join.induct) (auto simp: split_char_append split_char_none)

text \<open>A text that is stripped and edited is, stripped again, the text of the edited lines.\<close>

definition no_newline :: "string \<Rightarrow> bool" where
  "no_newline s \<longleftrightarrow> CHR 0x0A \<notin> set s"

lemma join_ends:
  assumes "xs \<noteq> []" "hd xs \<noteq> []" "last xs \<noteq> []"
  shows "join sep xs \<noteq> []" "hd (join sep xs) = hd (hd xs)" "last (join sep xs) = last (last xs)"
proof -
  show "join sep xs \<noteq> []" "hd (join sep xs) = hd (hd xs)"
    using assms(1,2) by (cases xs; cases "tl xs"; auto)+
  have "join sep xs \<noteq> [] \<and> last (join sep xs) = last (last xs)"
    using assms(1,3) by (induction sep xs rule: join.induct) auto
  then show "last (join sep xs) = last (last xs)" ..
qed

lemma strip_ends:
  assumes "strip s \<noteq> []"
  shows "\<not> py_isspace (hd (strip s))" "\<not> py_isspace (last (strip s))"
proof -
  let ?l = "lstrip s"
  have "?l \<noteq> []" using assms by (auto simp: strip_def rstrip_def)
  then have head: "\<not> py_isspace (hd ?l)" using hd_dropWhile [of py_isspace s] by (simp add: lstrip_def)
  have r: "dropWhile py_isspace (rev ?l) \<noteq> []"
    using assms by (simp add: strip_def rstrip_def)
  then show "\<not> py_isspace (last (strip s))"
    using hd_dropWhile [OF r] by (simp add: strip_def rstrip_def last_rev)
  obtain pre where "rev ?l = pre @ dropWhile py_isspace (rev ?l)"
    by (metis takeWhile_dropWhile_id)
  then have "?l = rstrip ?l @ rev pre"
    unfolding rstrip_def by (metis rev_append rev_rev_ident)
  then have "hd ?l = hd (strip s)"
    using assms by (metis strip_def hd_append2)
  then show "\<not> py_isspace (hd (strip s))" using head by simp
qed

lemma split_char_ends:
  assumes "t \<noteq> []" "hd t \<noteq> c" "last t \<noteq> c"
  shows "hd (split_char c t) \<noteq> []" "hd (hd (split_char c t)) = hd t"
    "last (split_char c t) \<noteq> []" "last (last (split_char c t)) = last t"
proof -
  obtain x xs where t: "t = x # xs" using assms(1) by (cases t) auto
  show "hd (split_char c t) \<noteq> []" "hd (hd (split_char c t)) = hd t"
    using assms(2) by (auto simp: t split: list.split)
  have "last (split_char c t) \<noteq> [] \<and> last (last (split_char c t)) = last t"
    using assms(1,3)
  proof (induction c t rule: split_char.induct)
    case (2 c x xs)
    then show ?case
      by (cases "xs = []") (auto split: list.split)
  qed simp
  then show "last (split_char c t) \<noteq> []" "last (last (split_char c t)) = last t" by auto
qed

lemma strip_newline:
  assumes "s \<noteq> []" "\<not> py_isspace (hd s)" "\<not> py_isspace (last s)"
  shows "strip (s @ [CHR 0x0A]) = s"
proof -
  have "dropWhile py_isspace (rev s) = rev s" "dropWhile py_isspace (s @ [CHR 0x0A]) = s @ [CHR 0x0A]"
    using assms by (simp_all add: dropWhile_eq_self_iff hd_rev)
  then show ?thesis
    by (simp add: strip_def lstrip_def rstrip_def py_isspace_def Let_def)
qed

lemma key_entry_ends:
  assumes "number_value val" "key \<in> set LEDGER_KEYS"
  shows "key_entry val key \<noteq> []" "\<not> py_isspace (hd (key_entry val key))"
    "\<not> py_isspace (last (key_entry val key))"
proof -
  show "key_entry val key \<noteq> []" by (simp add: key_entry_def)
  then show "\<not> py_isspace (hd (key_entry val key))" "\<not> py_isspace (last (key_entry val key))"
    using strip_ends [of "key_entry val key"] by (simp_all add: key_entry_strip [OF assms])
qed

lemma patched_ends:
  assumes "number_value val" "t = strip t0" "out = patch_lines val (text_lines t)"
  shows "out \<noteq> []" "hd out \<noteq> []" "\<not> py_isspace (hd (hd out))" "last out \<noteq> []" "\<not> py_isspace (last (last out))"
proof -
  let ?lines = "text_lines t" and ?new = "map (rewrite_line val) (text_lines t)"
  define missing where "missing = filter (\<lambda>key. Some key \<notin> matched_key ` set ?lines) LEDGER_KEYS"
  have out: "out = (if missing = [] then ?new else ?new
      @ (if ?new \<noteq> [] \<and> strip (last ?new) \<noteq> [] then [[]] else []) @ [ledger_comment] @ map (key_entry val) missing)"
    unfolding assms(3) patch_lines_def Let_def missing_def by simp
  have sub: "set missing \<subseteq> set LEDGER_KEYS" by (auto simp: missing_def)
  have rewritten: "rewrite_line val x \<noteq> [] \<and> \<not> py_isspace (hd (rewrite_line val x))"
    if "x \<noteq> []" "\<not> py_isspace (hd x)" for x
    using that key_entry_ends [OF assms(1) matched_in_keys] by (auto simp: rewrite_line_def split: option.split)
  have rewritten_last: "rewrite_line val x \<noteq> [] \<and> \<not> py_isspace (last (rewrite_line val x))"
    if "x \<noteq> []" "\<not> py_isspace (last x)" for x
    using that key_entry_ends [OF assms(1) matched_in_keys] by (auto simp: rewrite_line_def split: option.split)
  have newline: "py_isspace (CHR 0x0A)" by (simp add: py_isspace_def)
  have comment: "ledger_comment \<noteq> []" "\<not> py_isspace (hd ledger_comment)"
    by (simp_all add: ledger_comment_def py_isspace_def)
  have none: "missing = LEDGER_KEYS \<and> ?lines = []" if "t = []"
    using that by (simp add: missing_def text_lines_def)
  have ends: "?lines \<noteq> [] \<and> hd ?lines \<noteq> [] \<and> \<not> py_isspace (hd (hd ?lines))
      \<and> last ?lines \<noteq> [] \<and> \<not> py_isspace (last (last ?lines))" if t: "t \<noteq> []"
  proof -
    have s: "\<not> py_isspace (hd t)" "\<not> py_isspace (last t)"
      using strip_ends [of t0] t assms(2) by simp_all
    then have "hd t \<noteq> CHR 0x0A" "last t \<noteq> CHR 0x0A" using newline by auto
    from split_char_ends [OF t this] s t show ?thesis by (simp add: text_lines_def)
  qed
  show "out \<noteq> []" "hd out \<noteq> []" "\<not> py_isspace (hd (hd out))"
    using none ends rewritten [of "hd ?lines"] comment unfolding out
    by (cases "t = []"; simp add: LEDGER_KEYS_def hd_map hd_append)+
  have last_missing: "last out = key_entry val (last missing)" if "missing \<noteq> []"
    using that by (simp add: out last_map)
  have last_kept: "last out = rewrite_line val (last ?lines)" if "missing = []" "t \<noteq> []"
    using that ends by (simp add: out last_map)
  have "missing \<noteq> [] \<or> t \<noteq> []" using none by (auto simp: LEDGER_KEYS_def)
  then have "last out \<noteq> [] \<and> \<not> py_isspace (last (last out))"
  proof (cases "missing = []")
    case True
    then show ?thesis
      using last_kept ends rewritten_last [of "last ?lines"] \<open>missing \<noteq> [] \<or> t \<noteq> []\<close> by auto
  next
    case False
    then have "last missing \<in> set LEDGER_KEYS" using sub last_in_set by blast
    then show ?thesis
      using last_missing [OF False] key_entry_ends [OF assms(1), of "last missing"] by simp
  qed
  then show "last out \<noteq> []" "\<not> py_isspace (last (last out))" by auto
qed

lemma patched_newlines:
  assumes "list_all (\<lambda>key. no_newline (val key)) LEDGER_KEYS" "list_all no_newline lines"
  shows "list_all no_newline (patch_lines val lines)"
proof -
  have entry: "no_newline (key_entry val key)" if "key \<in> set LEDGER_KEYS" for key
    using that assms(1) unfolding LEDGER_KEYS_def by (auto simp: key_entry_def no_newline_def)
  then have "no_newline (rewrite_line val x)" if "no_newline x" for x
    using that matched_in_keys by (auto simp: rewrite_line_def split: option.split)
  moreover have "no_newline ledger_comment" "no_newline []"
    by (simp_all add: no_newline_def ledger_comment_def)
  ultimately show ?thesis
    using assms(2) entry by (auto simp: patch_lines_def Let_def list_all_iff)
qed

lemma applied_patch:
  assumes "number_value val" "t = strip t0" "list_all (\<lambda>key. no_newline (val key)) LEDGER_KEYS"
  shows "strip (apply_ledger_patch val t) = join [CHR 0x0A] (patch_lines val (text_lines t))"
    and "apply_ledger_patch val t = join [CHR 0x0A] (patch_lines val (text_lines t)) @ [CHR 0x0A]"
    and "text_lines (strip (apply_ledger_patch val t)) = patch_lines val (text_lines t)"
proof -
  let ?out = "patch_lines val (text_lines t)"
  note out = patched_ends [OF assms(1,2) refl]
  note ends = join_ends [OF out(1,2,4), of "[CHR 0x0A]"]
  have solid: "join [CHR 0x0A] ?out \<noteq> []" "\<not> py_isspace (hd (join [CHR 0x0A] ?out))"
    "\<not> py_isspace (last (join [CHR 0x0A] ?out))"
    using out(3,5) ends by simp_all
  then have "last (join [CHR 0x0A] ?out) \<noteq> CHR 0x0A" by (auto simp: py_isspace_def)
  then show result: "apply_ledger_patch val t = join [CHR 0x0A] ?out @ [CHR 0x0A]"
    using solid(1) unfolding apply_ledger_patch_def Let_def text_lines_def [symmetric] by simp
  show stripped: "strip (apply_ledger_patch val t) = join [CHR 0x0A] ?out"
    unfolding result by (rule strip_newline [OF solid])
  have "list_all no_newline (text_lines t)"
    by (auto simp: text_lines_def list_all_iff no_newline_def dest: split_char_lines)
  then have "list_all no_newline ?out"
    by (rule patched_newlines [OF assms(3)])
  then have "list_all (\<lambda>x. CHR 0x0A \<notin> set x) ?out"
    by (simp add: no_newline_def list_all_iff)
  then show "text_lines (strip (apply_ledger_patch val t)) = ?out"
    unfolding stripped text_lines_def [of "join [CHR 0x0A] ?out"]
    using solid(1) by (simp add: split_join [OF out(1)])
qed

lemma apply_patch_twice:
  assumes "number_value val" "t = strip t0" "list_all (\<lambda>key. no_newline (val key)) LEDGER_KEYS"
  shows "apply_ledger_patch val (strip (apply_ledger_patch val t)) = apply_ledger_patch val t"
  unfolding applied_patch(2) [OF assms(1) refl assms(3)] applied_patch(3) [OF assms]
    patch_lines_twice [OF assms(1)]
  by (rule applied_patch(2) [OF assms, symmetric])

text \<open>
  Two edges. Keys that are missing are appended at the end: below a table header they belong to that
  table, and a text that starts with a header gets all of them there. And the pattern of a ref lets
  a newline at its end pass.
\<close>

definition top_lines :: "string list \<Rightarrow> string list" where
  "top_lines lines = takeWhile (\<lambda>x. \<not> startswith (strip x) ''['') lines"

lemma appended_below_header:
  assumes "startswith (strip line) ''[''"
  shows "top_lines (patch_lines val (line # lines)) = []"
proof -
  obtain t where "strip line = CHR ''['' # t"
    using assms by (auto simp: startswith_iff)
  then have "matched_key line = None"
    by (simp add: matched_key_def LEDGER_KEYS_def)
  then show ?thesis
    using assms by (simp add: top_lines_def patch_lines_def Let_def rewrite_line_def)
qed

lemma ref_with_newline: "validate_ledger_ref (''main'' @ [CHR 0x0A]) = Inr (''main'' @ [CHR 0x0A])"
  by code_simp

section \<open>Updating the configuration\<close>

lemma config_value_number: "number_value (config_value c)"
  by (auto simp: number_value_def config_value_def)

lemma config_value_newlines:
  assumes "no_newline (lc_ref c)" "no_newline (str_or (lc_parent_ref c) [])"
  shows "list_all (\<lambda>key. no_newline (config_value c key)) LEDGER_KEYS"
proof -
  have "no_newline (int_str n)" for n
  proof -
    have "no_newline (nat_str k)" for k
      using nat_str_digits [of k] by (auto simp: no_newline_def list_all_iff is_digit_char_def Let_def)
    then show ?thesis by (simp add: int_str_def no_newline_def)
  qed
  moreover have "no_newline (enum_name branch_guard_names g)" for g
    by (cases g) (simp_all add: enum_name_def branch_guard_names_def no_newline_def)
  ultimately show ?thesis
    using assms by (simp add: LEDGER_KEYS_def config_value_def)
qed

lemma updated_text:
  assumes "update_ledger_config reader patch file = Inr (text', c)"
  shows "text' = apply_ledger_patch (config_value c) (case file of None \<Rightarrow> [] | Some t \<Rightarrow> strip t)"
  using assms unfolding update_ledger_config_def Let_def
  by (auto simp: bindR_def split: sum.splits option.splits if_splits)

lemma strip_strip: "strip (strip s) = strip s"
proof (cases "strip s = []")
  case True
  then show ?thesis by (simp only: True) (simp add: strip_def lstrip_def rstrip_def)
next
  case False
  then show ?thesis using strip_ends [OF False] by (intro strip_id)
qed

text \<open>What a configuration that was loaded satisfies\<close>

definition valid_config :: "LedgerConfig \<Rightarrow> bool" where
  "valid_config c \<longleftrightarrow> validate_ledger_ref (lc_ref c) = Inr (lc_ref c) \<and> lc_next_task_number c \<ge> 1
     \<and> lc_parent_ref c \<noteq> Some []"

lemma main_valid: "validate_ledger_ref ''main'' = Inr ''main''"
  by code_simp

lemma validated_ref: "validate_ledger_ref v = Inr w \<Longrightarrow> validate_ledger_ref w = Inr w"
  by (auto simp: validate_ledger_ref_def split: if_splits)

lemma validated_same: "validate_ledger_ref v = Inr w \<Longrightarrow> w = v"
  by (simp add: validate_ledger_ref_def split: if_splits)

lemma positive_int_pos: "positive_int v = Some n \<Longrightarrow> n \<ge> 1"
  by (cases v rule: positive_int.cases) (auto split: if_splits)

lemma config_from_dict_valid:
  assumes "ledger_config_from_dict data = Inr c"
  shows "valid_config c"
proof -
  have "validate_ledger_ref (lc_ref c) = Inr (lc_ref c)"
    using assms unfolding ledger_config_from_dict_def
    by (cases "dget data ''ledger_ref''") (auto simp: bindR_Inr main_valid validated_ref)
  moreover have "lc_parent_ref c \<noteq> Some []"
    using assms unfolding ledger_config_from_dict_def
    by (cases "dget data ''ledger_parent_ref''") (auto simp: bindR_Inr split: if_splits)
  moreover have "lc_next_task_number c \<ge> 1"
    using assms unfolding ledger_config_from_dict_def
    by (auto simp: bindR_Inr Let_def positive_int_pos split: option.splits if_splits)
  ultimately show ?thesis by (simp add: valid_config_def)
qed

lemma loaded_config_valid:
  "load_ledger_config reader file = Inr c \<Longrightarrow> valid_config c"
  by (auto simp: load_ledger_config_def LedgerConfig_default_def valid_config_def main_valid bindR_def
      split: option.splits if_splits sum.splits dest: config_from_dict_valid)

text \<open>When the configuration can be loaded, an update with a valid patch succeeds.\<close>

lemma update_loaded:
  assumes "load_ledger_config reader file = Inr c"
    and "lp_branch_guard patch = None"
    and "case lp_ref patch of None \<Rightarrow> True | Some r \<Rightarrow> validate_ledger_ref r = Inr r"
    and "case lp_next_task_number patch of None \<Rightarrow> True | Some n \<Rightarrow> n \<ge> 1"
  shows "\<exists>text'. update_ledger_config reader patch file = Inr (text',
    \<lparr>lc_ref = (case lp_ref patch of None \<Rightarrow> lc_ref c | Some r \<Rightarrow> r),
     lc_parent_ref = (case lp_parent_ref patch of
        None \<Rightarrow> lc_parent_ref c | Some p \<Rightarrow> if p = [] then None else Some p),
     lc_next_task_number = (case lp_next_task_number patch of None \<Rightarrow> lc_next_task_number c | Some n \<Rightarrow> n),
     lc_branch_guard = lc_branch_guard c\<rparr>)"
proof -
  let ?text = "case file of None \<Rightarrow> [] | Some t \<Rightarrow> strip t"
  have "ledger_config_from_dict [] = Inr LedgerConfig_default"
    by code_simp
  moreover have "load_toml_mapping reader (strip t) = load_toml_mapping reader t" for t
    by (simp only: load_toml_mapping_def strip_strip)
  ultimately have "bindR (if ?text = [] then Inr [] else load_toml_mapping reader ?text) ledger_config_from_dict = Inr c"
    using assms(1) unfolding load_ledger_config_def
    by (cases "file") (simp_all only: simp_thms option.case if_True if_False bindR_simps refl split: if_splits)
  then obtain data where data: "(if ?text = [] then Inr [] else load_toml_mapping reader ?text) = Inr data"
    "ledger_config_from_dict data = Inr c"
    by auto
  have parent: "lc_parent_ref c \<noteq> Some []"
    using loaded_config_valid [OF assms(1)] by (simp add: valid_config_def)
  have ref: "(case lp_ref patch of None \<Rightarrow> Inr [] | Some r \<Rightarrow> validate_ledger_ref r) = Inr (str_or (lp_ref patch) [])"
    using assms(3) validate_ledger_ref_def [of "[]"] by (auto simp: str_or_def split: option.splits)
  have number: "(case lp_next_task_number patch of None \<Rightarrow> Inr ()
      | Some n \<Rightarrow> if n < 1 then Inl (launch_error ''ledger_next_task_number'') else Inr ()) = Inr ()"
    using assms(4) by (simp split: option.splits)
  show ?thesis
    unfolding update_ledger_config_def Let_def ref number data bindR_simps assms(2) option.case
    using parent by (auto simp: str_or_def split: option.splits)
qed

section \<open>The ledgers of a workspace\<close>

text \<open>
  The configuration file and the ledger directories, by ref. The number of the next task stands in
  the configuration and is shared by all ledgers; \<open>current_ledger\<close> is what the commands on tasks see.
\<close>

record workspace =
  ks_file :: "string option"
  ks_ledgers :: "string \<Rightarrow> ledger option"

type_synonym 'a ws_command = "(workspace, error, 'a) cmd"

definition ledger_at :: "workspace \<Rightarrow> string \<Rightarrow> ledger" where
  "ledger_at w ref = (case ks_ledgers w ref of None \<Rightarrow> empty_ledger | Some l \<Rightarrow> l)"

definition current_ledger :: "workspace \<Rightarrow> LedgerConfig \<Rightarrow> ledger" where
  "current_ledger w c = (ledger_at w (lc_ref c))\<lparr>l_next_task_number := nat (lc_next_task_number c)\<rparr>"

definition read_config :: "(string \<Rightarrow> pydict option) \<Rightarrow> LedgerConfig ws_command" where
  "read_config reader = readE (\<lambda>w. load_ledger_config reader (ks_file w))"

definition write_config ::
  "(string \<Rightarrow> pydict option) \<Rightarrow> LedgerConfigPatch \<Rightarrow> LedgerConfig ws_command" where
  "write_config reader patch =
     bindE (readE (\<lambda>w. update_ledger_config reader patch (ks_file w))) (\<lambda>(text', c).
     thenE (modifyE (\<lambda>w. w\<lparr>ks_file := Some text'\<rparr>)) (returnE c))"

definition create_ledger_dir :: "string \<Rightarrow> workspace \<Rightarrow> workspace" where
  "create_ledger_dir ref w = w\<lparr>ks_ledgers := (ks_ledgers w)(ref \<mapsto> empty_ledger)\<rparr>"

text \<open>\<open>ledger fork\<close>; the option \<open>--copy-open\<close> is accepted and has no effect.\<close>

definition ledger_fork :: "(string \<Rightarrow> pydict option) \<Rightarrow> string \<Rightarrow> bool \<Rightarrow> LedgerConfig ws_command" where
  "ledger_fork reader ref copy_open =
     bindE (liftE (validate_ledger_ref ref)) (\<lambda>_.
     bindE (read_config reader) (\<lambda>config.
     thenE (guardE (ref \<noteq> lc_ref config) (launch_error ''fork onto itself''))
     (bindE (getsE (\<lambda>w. ks_ledgers w ref)) (\<lambda>target.
      thenE (guardE (target = None) (launch_error ''ledger exists''))
      (thenE (modifyE (create_ledger_dir ref))
        (write_config reader (no_patch\<lparr>lp_ref := Some ref, lp_parent_ref := Some (lc_ref config),
           lp_next_task_number := Some (lc_next_task_number config)\<rparr>)))))))"

definition ledger_switch :: "(string \<Rightarrow> pydict option) \<Rightarrow> string \<Rightarrow> bool \<Rightarrow> LedgerConfig ws_command" where
  "ledger_switch reader ref create =
     bindE (liftE (validate_ledger_ref ref)) (\<lambda>_.
     bindE (read_config reader) (\<lambda>config.
     bindE (getsE (\<lambda>w. ks_ledgers w ref)) (\<lambda>target.
      thenE (whenE (target = None)
        (thenE (guardE create (launch_error ''ledger does not exist''))
          (modifyE (create_ledger_dir ref))))
       (write_config reader (no_patch\<lparr>lp_ref := Some ref\<rparr>)))))"

text \<open>
  The copied task directory: \<open>rewrite_task_refs\<close> sets the task id of every markdown record when the id
  changed. The lock file and the artifacts are no markdown records and are copied as they are.
\<close>

definition own :: "('r \<Rightarrow> 'r) \<Rightarrow> 'r dir \<Rightarrow> 'r dir" where
  "own f d = map (map_prod id f) d"

definition copy_task :: "ledger \<Rightarrow> string \<Rightarrow> string \<Rightarrow> TaskRecord \<Rightarrow> ledger \<Rightarrow> ledger" where
  "copy_task src old new task l =
     l\<lparr>l_tasks := dir_put new (task\<lparr>tk_id := new\<rparr>) (l_tasks l),
       l_locks := (case dir_get (l_locks src) old of
         None \<Rightarrow> dir_remove new (l_locks l) | Some k \<Rightarrow> dir_put new k (l_locks l)),
       l_runs := (l_runs l)(new := own (\<lambda>r. r\<lparr>rn_task_id := new\<rparr>) (l_runs src old)),
       l_plans := (l_plans l)(new := own (\<lambda>p. p\<lparr>pl_task_id := new\<rparr>) (l_plans src old)),
       l_questions := (l_questions l)(new := own (\<lambda>q. q\<lparr>qn_task_id := new\<rparr>) (l_questions src old)),
       l_todos := (l_todos l)(new := l_todos src old),
       l_links := (l_links l)(new := l_links src old),
       l_requirements := (l_requirements l)(new := l_requirements src old),
       l_handoffs := (l_handoffs l)(new := own (\<lambda>h. h\<lparr>ho_task_id := new\<rparr>) (l_handoffs src old)),
       l_changes := (l_changes l)(new := own (\<lambda>c. c\<lparr>ch_task_id := new\<rparr>) (l_changes src old)),
       l_checks := (l_checks l)(new := own (\<lambda>c. c\<lparr>ic_task_id := new\<rparr>) (l_checks src old)),
       l_reviews := (l_reviews l)(new := own (\<lambda>c. c\<lparr>cv_task_id := new\<rparr>) (l_reviews src old)),
       l_artifacts := (l_artifacts l)(new := l_artifacts src old)\<rparr>"

text \<open>\<open>ledger adopt\<close>: a task is copied under its id, or under the next free one when its id is taken.\<close>

definition ledger_adopt ::
  "env \<Rightarrow> (string \<Rightarrow> pydict option) \<Rightarrow> string \<Rightarrow> string \<Rightarrow> string ws_command" where
  "ledger_adopt E reader task_ref from_ledger =
     bindE (read_config reader) (\<lambda>config.
     bindE (getsE (\<lambda>w. ks_ledgers w from_ledger)) (\<lambda>source.
      case source of
        None \<Rightarrow> raiseE (launch_error ''source ledger does not exist'')
      | Some src \<Rightarrow>
         (case dir_get (l_tasks src) task_ref of
            None \<Rightarrow> raiseE (launch_error ''task not found in ledger'')
          | Some task \<Rightarrow>
             bindE (getsE (\<lambda>w. ledger_at w (lc_ref config))) (\<lambda>cur.
             let current_ids = map tk_id (list_tasks cur);
                 counter = nat (lc_next_task_number config);
                 (new_task_id, new_next) =
                   (if task_ref \<in> set current_ids then allocate_ledger_task_id E current_ids counter
                    else (task_ref, counter))
             in thenE (guardE (dir_get (l_tasks cur) new_task_id = None)
                  (launch_error ''target task directory exists''))
               (thenE (modifyE (\<lambda>w. w\<lparr>ks_ledgers := (ks_ledgers w)(lc_ref config \<mapsto>
                    copy_task src task_ref new_task_id task (ledger_at w (lc_ref config)))\<rparr>))
               (thenE (whenE (new_next \<noteq> counter)
                  (thenE (write_config reader (no_patch\<lparr>lp_next_task_number := Some (int new_next)\<rparr>))
                     (returnE ())))
                 (returnE new_task_id)))))))"

text \<open>\<open>ledger doctor\<close>: the failed checks; the paths of older layouts only cause warnings.\<close>

datatype ledger_issue = LI_no_directory | LI_bad_counter | LI_missing_active string

definition ledger_doctor :: "(string \<Rightarrow> pydict option) \<Rightarrow> workspace \<Rightarrow> error + ledger_issue list" where
  "ledger_doctor reader w =
     bindR (load_ledger_config reader (ks_file w)) (\<lambda>config.
     let l = ledger_at w (lc_ref config)
     in Inr ((if ks_ledgers w (lc_ref config) = None then [LI_no_directory] else [])
        @ (if lc_next_task_number config < 1 then [LI_bad_counter] else [])
        @ (case l_active l of
             None \<Rightarrow> []
           | Some a \<Rightarrow> if as_task_id a \<in> tk_id ` set (list_tasks l) then []
                       else [LI_missing_active (as_task_id a)])))"

section \<open>Ledgers do not disturb each other\<close>

lemma wp_read_config [wp_intro]:
  assumes "\<And>c. load_ledger_config reader (ks_file w) = Inr c \<Longrightarrow> Q c w" "\<And>e. X e w"
  shows "wp (read_config reader) Q X w"
  unfolding read_config_def by (intro wp_intro) (use assms in auto)

lemma wp_write_loaded:
  assumes "load_ledger_config reader (ks_file w) = Inr c" "lp_branch_guard patch = None"
    and "case lp_ref patch of None \<Rightarrow> True | Some r \<Rightarrow> validate_ledger_ref r = Inr r"
    and "case lp_next_task_number patch of None \<Rightarrow> True | Some n \<Rightarrow> n \<ge> 1"
    and "\<And>text' c'. lc_ref c' = (case lp_ref patch of None \<Rightarrow> lc_ref c | Some r \<Rightarrow> r)
      \<Longrightarrow> lc_parent_ref c' = (case lp_parent_ref patch of
            None \<Rightarrow> lc_parent_ref c | Some p \<Rightarrow> if p = [] then None else Some p)
      \<Longrightarrow> lc_next_task_number c' =
            (case lp_next_task_number patch of None \<Rightarrow> lc_next_task_number c | Some n \<Rightarrow> n)
      \<Longrightarrow> Q c' (w\<lparr>ks_file := Some text'\<rparr>)"
  shows "wp (write_config reader patch) Q X w"
proof -
  obtain text' c' where new: "update_ledger_config reader patch (ks_file w) = Inr (text', c')"
    "lc_ref c' = (case lp_ref patch of None \<Rightarrow> lc_ref c | Some r \<Rightarrow> r)"
    "lc_parent_ref c' = (case lp_parent_ref patch of
        None \<Rightarrow> lc_parent_ref c | Some p \<Rightarrow> if p = [] then None else Some p)"
    "lc_next_task_number c' =
      (case lp_next_task_number patch of None \<Rightarrow> lc_next_task_number c | Some n \<Rightarrow> n)"
    using update_loaded [OF assms(1-4)] by fastforce
  show ?thesis
    unfolding write_config_def
    by (simp add: wp_bindE wp_readE new(1) wp_thenE wp_modifyE wp_returnE) (rule assms(5) [OF new(2-4)])
qed

lemma valid_ref_nonempty: "valid_config c \<Longrightarrow> lc_ref c \<noteq> []"
  using validate_ledger_ref_def [of "[]"] by (auto simp: valid_config_def)

lemma fork_outcome:
  "wp (ledger_fork reader ref copy_open)
    (\<lambda>c w'. \<exists>c0. load_ledger_config reader (ks_file w) = Inr c0 \<and> ref \<noteq> lc_ref c0
       \<and> ks_ledgers w ref = None \<and> ks_ledgers w' = (ks_ledgers w)(ref \<mapsto> empty_ledger)
       \<and> lc_ref c = ref \<and> lc_parent_ref c = Some (lc_ref c0)
       \<and> lc_next_task_number c = lc_next_task_number c0)
    (\<lambda>_ w'. w' = w) w"
  unfolding ledger_fork_def
  by (intro wp_intro wp_write_loaded)
    (auto simp: create_ledger_dir_def no_patch_def validated_ref valid_config_def
      dest: validated_same loaded_config_valid valid_ref_nonempty [OF loaded_config_valid])

lemma switch_outcome:
  "wp (ledger_switch reader ref create)
    (\<lambda>c w'. \<exists>c0. load_ledger_config reader (ks_file w) = Inr c0
       \<and> ks_ledgers w' = (if ks_ledgers w ref = None then (ks_ledgers w)(ref \<mapsto> empty_ledger) else ks_ledgers w)
       \<and> (ks_ledgers w ref = None \<longrightarrow> create)
       \<and> lc_ref c = ref \<and> lc_parent_ref c = lc_parent_ref c0
       \<and> lc_next_task_number c = lc_next_task_number c0)
    (\<lambda>_ w'. w' = w) w"
  unfolding ledger_switch_def
  by (intro wp_intro wp_write_loaded)
    (auto simp: create_ledger_dir_def no_patch_def validated_ref dest: validated_same)

text \<open>An adopted task lies beside the tasks that were there; they and their records stay.\<close>

definition same_task_dir :: "string \<Rightarrow> ledger \<Rightarrow> ledger \<Rightarrow> bool" where
  "same_task_dir i l l' \<longleftrightarrow>
     dir_get (l_tasks l') i = dir_get (l_tasks l) i \<and> dir_get (l_locks l') i = dir_get (l_locks l) i
     \<and> l_runs l' i = l_runs l i \<and> l_plans l' i = l_plans l i \<and> l_questions l' i = l_questions l i
     \<and> l_todos l' i = l_todos l i \<and> l_links l' i = l_links l i
     \<and> l_requirements l' i = l_requirements l i \<and> l_handoffs l' i = l_handoffs l i
     \<and> l_changes l' i = l_changes l i \<and> l_checks l' i = l_checks l i
     \<and> l_reviews l' i = l_reviews l i \<and> l_artifacts l' i = l_artifacts l i"

lemma copy_task_frame: "i \<noteq> new \<Longrightarrow> same_task_dir i l (copy_task src old new task l)"
  by (simp add: same_task_dir_def copy_task_def dir_get_put dir_get_remove split: option.split)

lemma copied_task: "dir_get (l_tasks (copy_task src old new task l)) new = Some (task\<lparr>tk_id := new\<rparr>)"
  by (simp add: copy_task_def dir_get_put)

text \<open>The lock of the source is copied with the task id and the run that it names there.\<close>

lemma copied_lock:
  "read_lock old src = Some k \<Longrightarrow> read_lock new (copy_task src old new task l) = Some k"
  by (simp add: copy_task_def read_lock_def dir_get_put)

lemma adopt_outcome:
  "wp (ledger_adopt E reader task_ref from_ledger)
    (\<lambda>new w'. \<exists>c src task. load_ledger_config reader (ks_file w) = Inr c
       \<and> ks_ledgers w from_ledger = Some src \<and> dir_get (l_tasks src) task_ref = Some task
       \<and> dir_get (l_tasks (ledger_at w (lc_ref c))) new = None
       \<and> (task_ref \<notin> tk_id ` set (list_tasks (ledger_at w (lc_ref c))) \<longrightarrow> new = task_ref)
       \<and> ks_ledgers w' = (ks_ledgers w)(lc_ref c \<mapsto>
            copy_task src task_ref new task (ledger_at w (lc_ref c))))
    (\<lambda>_ w'. w' = w) w"
  unfolding ledger_adopt_def Let_def
  by (intro wp_intro wp_write_loaded)
    (auto simp: no_patch_def allocate_ledger_task_id_def Let_def dest!: sym [of "Some _"] split: if_splits)

text \<open>
  What an edit of the file keeps and sets: the lines of no key stay, each key has the line of its
  value and no other.
\<close>

definition stripped_file :: "string option \<Rightarrow> string" where
  "stripped_file file = (case file of None \<Rightarrow> [] | Some t \<Rightarrow> strip t)"

definition edited_in_place :: "(string \<Rightarrow> string) \<Rightarrow> string list \<Rightarrow> string list \<Rightarrow> bool" where
  "edited_in_place val old new \<longleftrightarrow>
     (\<exists>extra. filter (\<lambda>x. matched_key x = None) new = filter (\<lambda>x. matched_key x = None) old @ extra
        \<and> set extra \<subseteq> {[], ledger_comment})
     \<and> (\<forall>key \<in> set LEDGER_KEYS. {x \<in> set new. matched_key x = Some key} = {key_entry val key})"

lemma edited_config:
  assumes "update_ledger_config reader patch file = Inr (text', c)"
    and "no_newline (lc_ref c)" "no_newline (str_or (lc_parent_ref c) [])"
  shows "edited_in_place (config_value c) (text_lines (stripped_file file)) (text_lines (strip text'))
    \<and> apply_ledger_patch (config_value c) (strip text') = text'"
proof -
  obtain t0 where t: "stripped_file file = strip t0"
    by (cases "file") (auto simp: stripped_file_def strip_def lstrip_def rstrip_def intro: that [of "[]"])
  have text': "text' = apply_ledger_patch (config_value c) (stripped_file file)"
    using updated_text [OF assms(1)] unfolding stripped_file_def .
  note applied = config_value_number [of c] t config_value_newlines [OF assms(2,3)]
  have new: "text_lines (strip text') = patch_lines (config_value c) (text_lines (stripped_file file))"
    unfolding text' by (rule applied_patch(3) [OF applied])
  have "{x \<in> set (patch_lines (config_value c) ls). matched_key x = Some key} = {key_entry (config_value c) key}"
    if "key \<in> set LEDGER_KEYS" for key ls
    using patch_key_lines [OF config_value_number that] by simp
  then show ?thesis
    using patch_other_lines [OF config_value_number] apply_patch_twice [OF applied]
    unfolding edited_in_place_def new by (simp add: text')
qed

text \<open>Adoption adds one task directory to the current ledger; everything else stays.\<close>

lemma adopt_apart:
  "wp (ledger_adopt E reader task_ref from_ledger)
     (\<lambda>new w'. \<exists>c src task. load_ledger_config reader (ks_file w) = Inr c
        \<and> ks_ledgers w from_ledger = Some src \<and> dir_get (l_tasks src) task_ref = Some task
        \<and> dir_get (l_tasks (ledger_at w (lc_ref c))) new = None
        \<and> dir_get (l_tasks (ledger_at w' (lc_ref c))) new = Some (task\<lparr>tk_id := new\<rparr>)
        \<and> {i. \<not> same_task_dir i (ledger_at w (lc_ref c)) (ledger_at w' (lc_ref c))} \<subseteq> {new}
        \<and> {r. ks_ledgers w' r \<noteq> ks_ledgers w r} \<subseteq> {lc_ref c})
     (\<lambda>_ w'. w' = w) w"
proof (rule wp_mono [OF adopt_outcome], elim exE conjE, intro exI conjI, assumption, assumption, assumption, assumption)
  fix new c src task and w' :: workspace
  assume w': "ks_ledgers w' = (ks_ledgers w)(lc_ref c \<mapsto>
      copy_task src task_ref new task (ledger_at w (lc_ref c)))"
  then have at: "ledger_at w' (lc_ref c) = copy_task src task_ref new task (ledger_at w (lc_ref c))"
    by (simp add: ledger_at_def)
  show "dir_get (l_tasks (ledger_at w' (lc_ref c))) new = Some (task\<lparr>tk_id := new\<rparr>)"
    unfolding at by (rule copied_task)
  show "{i. \<not> same_task_dir i (ledger_at w (lc_ref c)) (ledger_at w' (lc_ref c))} \<subseteq> {new}"
    unfolding at using copy_task_frame by blast
  show "{r. ks_ledgers w' r \<noteq> ks_ledgers w r} \<subseteq> {lc_ref c}"
    unfolding w' by auto
qed

end
