(* ===== verification/Inventory.thy ===== *)
theory Inventory
  imports Prelude
begin

text \<open>
  The command inventory (\<open>command_inventory.py\<close>): every command line of the program with its audience,
  effects, surface, phase and tier, as the association list the source builds, section by section.
  The lemmas compute the names and check the table against itself.
\<close>

section \<open>The constants\<close>

definition STABLE_FOR_AGENTS :: string where "STABLE_FOR_AGENTS = ''stable_for_agents''"
definition BETA_FOR_AGENTS :: string where "BETA_FOR_AGENTS = ''beta_for_agents''"
definition HUMAN_ORIENTED :: string where "HUMAN_ORIENTED = ''human_oriented''"
definition REPAIR :: string where "REPAIR = ''repair''"
definition PRIMARY :: string where "PRIMARY = ''primary''"
definition SUPPORT :: string where "SUPPORT = ''support''"
definition ADVANCED :: string where "ADVANCED = ''advanced''"
definition HUMAN :: string where "HUMAN = ''human''"
definition REPAIR_SURFACE :: string where "REPAIR_SURFACE = ''repair''"
definition MIGRATION :: string where "MIGRATION = ''migration''"
definition BETA :: string where "BETA = ''beta''"
definition PHASE_SETUP :: string where "PHASE_SETUP = ''setup''"
definition PHASE_PLANNING :: string where "PHASE_PLANNING = ''planning''"
definition PHASE_APPROVAL :: string where "PHASE_APPROVAL = ''approval''"
definition PHASE_IMPLEMENTATION :: string where "PHASE_IMPLEMENTATION = ''implementation''"
definition PHASE_REVIEW :: string where "PHASE_REVIEW = ''review''"
definition PHASE_VALIDATION :: string where "PHASE_VALIDATION = ''validation''"
definition PHASE_REPORTING :: string where "PHASE_REPORTING = ''reporting''"
definition PHASE_TRANSFER :: string where "PHASE_TRANSFER = ''transfer''"
definition PHASE_RELEASE :: string where "PHASE_RELEASE = ''release''"
definition PHASE_REPAIR :: string where "PHASE_REPAIR = ''repair''"
definition PHASE_SEARCH :: string where "PHASE_SEARCH = ''search''"
definition TIER_CRITICAL :: string where "TIER_CRITICAL = ''critical''"
definition TIER_NORMAL :: string where "TIER_NORMAL = ''normal''"
definition TIER_RARE :: string where "TIER_RARE = ''rare''"
definition EFFECT_NONE :: string where "EFFECT_NONE = ''none''"
definition EFFECT_READ :: string where "EFFECT_READ = ''read''"
definition EFFECT_WRITE :: string where "EFFECT_WRITE = ''write''"
definition EXTERNAL_FILE_WRITE :: string where "EXTERNAL_FILE_WRITE = ''file_write''"
definition EXTERNAL_PROCESS_EXEC :: string where "EXTERNAL_PROCESS_EXEC = ''process_exec''"
definition TARGETING_NONE :: string where "TARGETING_NONE = ''none''"
definition TARGETING_ACTIVE_DEFAULT :: string where "TARGETING_ACTIVE_DEFAULT = ''active_default''"
definition TARGETING_POSITIONAL_RESOURCE :: string where "TARGETING_POSITIONAL_RESOURCE = ''positional_resource''"
definition TARGETING_POSITIONAL_OR_ACTIVE :: string where "TARGETING_POSITIONAL_OR_ACTIVE = ''positional_resource_or_active''"
definition TARGETING_EXPLICIT_REQUIRED :: string where "TARGETING_EXPLICIT_REQUIRED = ''explicit_target_required''"

section \<open>The table\<close>

record CommandSpec =
  cs_audience :: string
  cs_effect :: string
  cs_surface :: string
  cs_phase :: string
  cs_tier :: string
  cs_deprecated :: bool
  cs_replaced_by :: string
  cs_ledger_effect :: string
  cs_workspace_effect :: string
  cs_external_effect :: string
  cs_agent_safe :: bool
  cs_targeting :: string

text \<open>The constructor with the defaults of the named tuple.\<close>

definition command_spec :: "string \<Rightarrow> string \<Rightarrow> string \<Rightarrow> string \<Rightarrow> CommandSpec" where
  "command_spec audience effect surface phase =
     \<lparr>cs_audience = audience, cs_effect = effect, cs_surface = surface, cs_phase = phase,
      cs_tier = TIER_NORMAL, cs_deprecated = False, cs_replaced_by = [], cs_ledger_effect = [],
      cs_workspace_effect = [], cs_external_effect = [], cs_agent_safe = True,
      cs_targeting = TARGETING_NONE\<rparr>"

definition AGENT_GOLDEN_PATH_COMMANDS :: "string list" where
  "AGENT_GOLDEN_PATH_COMMANDS =
     [''actor whoami'', ''usage'', ''task active'', ''task show'', ''task create'',
      ''task activate'', ''task follow-up'', ''next-action'', ''context'', ''trace'',
      ''can'', ''plan start'', ''plan template'', ''plan upsert'', ''plan lint'',
      ''plan accept'', ''question add'', ''question add-many'', ''question answer'',
      ''question answer-many'', ''question status'', ''question answers'', ''todo next'',
      ''todo show'', ''todo done'', ''todo status'', ''implement start'',
      ''implement resume'', ''implement change'', ''implement scan-changes'',
      ''implement finish'', ''validate start'', ''validate status'', ''validate check'',
      ''validate finish'', ''review record'', ''handoff create'', ''handoff show'',
      ''handoff claim'', ''handoff close'']"

definition setup_identity_commands :: "(string \<times> CommandSpec) list" where
  "setup_identity_commands =
    [(''actor whoami'', (command_spec STABLE_FOR_AGENTS ''safe_read_only'' PRIMARY PHASE_SETUP)
        \<lparr>cs_tier := TIER_CRITICAL, cs_ledger_effect := EFFECT_READ\<rparr>),
     (''actor set'', (command_spec STABLE_FOR_AGENTS ''ledger_mutation'' PRIMARY PHASE_SETUP)
        \<lparr>cs_ledger_effect := EFFECT_WRITE\<rparr>),
     (''actor clear'', (command_spec STABLE_FOR_AGENTS ''ledger_mutation'' SUPPORT PHASE_SETUP)
        \<lparr>cs_ledger_effect := EFFECT_WRITE\<rparr>),
     (''harness set'', (command_spec STABLE_FOR_AGENTS ''ledger_mutation'' PRIMARY PHASE_SETUP)
        \<lparr>cs_ledger_effect := EFFECT_WRITE\<rparr>),
     (''harness clear'', (command_spec STABLE_FOR_AGENTS ''ledger_mutation'' SUPPORT PHASE_SETUP)
        \<lparr>cs_ledger_effect := EFFECT_WRITE\<rparr>)]"

definition orientation_commands :: "(string \<times> CommandSpec) list" where
  "orientation_commands =
    [(''init'', (command_spec STABLE_FOR_AGENTS ''ledger_mutation'' PRIMARY PHASE_SETUP)
        \<lparr>cs_ledger_effect := EFFECT_WRITE\<rparr>),
     (''next-action'', (command_spec STABLE_FOR_AGENTS ''safe_read_only'' PRIMARY PHASE_REPORTING)
        \<lparr>cs_tier := TIER_CRITICAL, cs_ledger_effect := EFFECT_READ\<rparr>),
     (''can'', (command_spec STABLE_FOR_AGENTS ''safe_read_only'' SUPPORT PHASE_REPORTING)
        \<lparr>cs_ledger_effect := EFFECT_READ\<rparr>),
     (''context'', (command_spec STABLE_FOR_AGENTS ''safe_read_only'' PRIMARY PHASE_REPORTING)
        \<lparr>cs_tier := TIER_CRITICAL, cs_ledger_effect := EFFECT_READ\<rparr>),
     (''trace'', (command_spec STABLE_FOR_AGENTS ''safe_read_only'' PRIMARY PHASE_REPORTING)
        \<lparr>cs_ledger_effect := EFFECT_READ\<rparr>),
     (''config list'', (command_spec STABLE_FOR_AGENTS ''safe_read_only'' SUPPORT PHASE_SETUP)
        \<lparr>cs_ledger_effect := EFFECT_NONE, cs_workspace_effect := EFFECT_READ\<rparr>),
     (''config show'', (command_spec STABLE_FOR_AGENTS ''safe_read_only'' SUPPORT PHASE_SETUP)
        \<lparr>cs_ledger_effect := EFFECT_NONE, cs_workspace_effect := EFFECT_READ\<rparr>),
     (''config get'', (command_spec STABLE_FOR_AGENTS ''safe_read_only'' SUPPORT PHASE_SETUP)
        \<lparr>cs_ledger_effect := EFFECT_NONE, cs_workspace_effect := EFFECT_READ\<rparr>),
     (''config keys'', (command_spec STABLE_FOR_AGENTS ''safe_read_only'' SUPPORT PHASE_SETUP)
        \<lparr>cs_ledger_effect := EFFECT_NONE, cs_workspace_effect := EFFECT_READ\<rparr>),
     (''config describe'', (command_spec STABLE_FOR_AGENTS ''safe_read_only'' SUPPORT PHASE_SETUP)
        \<lparr>cs_ledger_effect := EFFECT_NONE, cs_workspace_effect := EFFECT_READ\<rparr>),
     (''config set'', (command_spec STABLE_FOR_AGENTS ''workspace_mutation'' SUPPORT PHASE_SETUP)
        \<lparr>cs_ledger_effect := EFFECT_NONE, cs_workspace_effect := EFFECT_WRITE,
         cs_external_effect := EXTERNAL_FILE_WRITE\<rparr>),
     (''pipeline show'', (command_spec STABLE_FOR_AGENTS ''safe_read_only'' SUPPORT
          PHASE_REPORTING)
        \<lparr>cs_ledger_effect := EFFECT_NONE, cs_workspace_effect := EFFECT_READ\<rparr>),
     (''pipeline list'', (command_spec STABLE_FOR_AGENTS ''safe_read_only'' SUPPORT
          PHASE_REPORTING)
        \<lparr>cs_ledger_effect := EFFECT_NONE, cs_workspace_effect := EFFECT_READ\<rparr>),
     (''pipeline next'', (command_spec STABLE_FOR_AGENTS ''safe_read_only'' SUPPORT
          PHASE_REPORTING)
        \<lparr>cs_ledger_effect := EFFECT_READ, cs_workspace_effect := EFFECT_READ,
         cs_targeting := TARGETING_ACTIVE_DEFAULT\<rparr>),
     (''pipeline context'', (command_spec STABLE_FOR_AGENTS ''safe_read_only'' SUPPORT
          PHASE_REPORTING)
        \<lparr>cs_ledger_effect := EFFECT_READ, cs_workspace_effect := EFFECT_READ,
         cs_targeting := TARGETING_ACTIVE_DEFAULT\<rparr>)]"

definition task_management_commands :: "(string \<times> CommandSpec) list" where
  "task_management_commands =
    [(''task create'', (command_spec STABLE_FOR_AGENTS ''ledger_mutation'' PRIMARY PHASE_PLANNING)
        \<lparr>cs_ledger_effect := EFFECT_WRITE\<rparr>),
     (''task activate'', (command_spec STABLE_FOR_AGENTS ''ledger_mutation'' PRIMARY
          PHASE_PLANNING)
        \<lparr>cs_ledger_effect := EFFECT_WRITE,
         cs_targeting := TARGETING_POSITIONAL_RESOURCE\<rparr>),
     (''task deactivate'', (command_spec STABLE_FOR_AGENTS ''ledger_mutation'' SUPPORT
          PHASE_PLANNING)
        \<lparr>cs_ledger_effect := EFFECT_WRITE\<rparr>),
     (''task follow-up'', (command_spec STABLE_FOR_AGENTS ''ledger_mutation'' PRIMARY
          PHASE_PLANNING)
        \<lparr>cs_ledger_effect := EFFECT_WRITE\<rparr>),
     (''task record'', (command_spec STABLE_FOR_AGENTS ''ledger_mutation'' SUPPORT PHASE_PLANNING)
        \<lparr>cs_ledger_effect := EFFECT_WRITE\<rparr>),
     (''task active'', (command_spec STABLE_FOR_AGENTS ''safe_read_only'' PRIMARY PHASE_REPORTING)
        \<lparr>cs_tier := TIER_CRITICAL, cs_ledger_effect := EFFECT_READ\<rparr>),
     (''task show'', (command_spec STABLE_FOR_AGENTS ''safe_read_only'' PRIMARY PHASE_REPORTING)
        \<lparr>cs_tier := TIER_CRITICAL, cs_ledger_effect := EFFECT_READ,
         cs_targeting := TARGETING_POSITIONAL_OR_ACTIVE\<rparr>),
     (''task list'', (command_spec STABLE_FOR_AGENTS ''safe_read_only'' SUPPORT PHASE_REPORTING)
        \<lparr>cs_ledger_effect := EFFECT_READ\<rparr>),
     (''task edit'', (command_spec STABLE_FOR_AGENTS ''ledger_mutation'' ADVANCED PHASE_PLANNING)
        \<lparr>cs_ledger_effect := EFFECT_WRITE,
         cs_targeting := TARGETING_EXPLICIT_REQUIRED\<rparr>),
     (''task cancel'', (command_spec STABLE_FOR_AGENTS ''ledger_mutation'' ADVANCED
          PHASE_PLANNING)
        \<lparr>cs_ledger_effect := EFFECT_WRITE,
         cs_targeting := TARGETING_EXPLICIT_REQUIRED\<rparr>),
     (''task uncancel'', (command_spec STABLE_FOR_AGENTS ''ledger_mutation'' ADVANCED
          PHASE_PLANNING)
        \<lparr>cs_ledger_effect := EFFECT_WRITE,
         cs_targeting := TARGETING_EXPLICIT_REQUIRED\<rparr>),
     (''task close'', (command_spec STABLE_FOR_AGENTS ''ledger_mutation'' ADVANCED PHASE_PLANNING)
        \<lparr>cs_ledger_effect := EFFECT_WRITE,
         cs_targeting := TARGETING_POSITIONAL_OR_ACTIVE\<rparr>),
     (''task archive'', (command_spec STABLE_FOR_AGENTS ''ledger_mutation'' ADVANCED
          PHASE_REPORTING)
        \<lparr>cs_ledger_effect := EFFECT_WRITE,
         cs_targeting := TARGETING_POSITIONAL_RESOURCE\<rparr>),
     (''task unarchive'', (command_spec STABLE_FOR_AGENTS ''ledger_mutation'' ADVANCED
          PHASE_REPORTING)
        \<lparr>cs_ledger_effect := EFFECT_WRITE,
         cs_targeting := TARGETING_POSITIONAL_RESOURCE\<rparr>),
     (''task events'', (command_spec STABLE_FOR_AGENTS ''safe_read_only'' ADVANCED
          PHASE_REPORTING)
        \<lparr>cs_ledger_effect := EFFECT_READ,
         cs_targeting := TARGETING_POSITIONAL_OR_ACTIVE\<rparr>)]"

definition planning_commands :: "(string \<times> CommandSpec) list" where
  "planning_commands =
    [(''plan start'', (command_spec STABLE_FOR_AGENTS ''ledger_mutation'' PRIMARY PHASE_PLANNING)
        \<lparr>cs_tier := TIER_CRITICAL, cs_ledger_effect := EFFECT_WRITE,
         cs_targeting := TARGETING_ACTIVE_DEFAULT\<rparr>),
     (''plan template'', (command_spec STABLE_FOR_AGENTS ''safe_read_only'' PRIMARY
          PHASE_PLANNING)
        \<lparr>cs_tier := TIER_CRITICAL, cs_ledger_effect := EFFECT_NONE,
         cs_external_effect := EXTERNAL_FILE_WRITE\<rparr>),
     (''plan guidance'', (command_spec STABLE_FOR_AGENTS ''safe_read_only'' PRIMARY
          PHASE_PLANNING)
        \<lparr>cs_tier := TIER_CRITICAL, cs_ledger_effect := EFFECT_READ\<rparr>),
     (''plan upsert'', (command_spec STABLE_FOR_AGENTS ''ledger_mutation'' PRIMARY PHASE_PLANNING)
        \<lparr>cs_tier := TIER_CRITICAL, cs_ledger_effect := EFFECT_WRITE\<rparr>),
     (''plan lint'', (command_spec STABLE_FOR_AGENTS ''safe_read_only'' PRIMARY PHASE_PLANNING)
        \<lparr>cs_tier := TIER_CRITICAL, cs_ledger_effect := EFFECT_READ\<rparr>),
     (''plan show'', (command_spec STABLE_FOR_AGENTS ''safe_read_only'' SUPPORT PHASE_PLANNING)
        \<lparr>cs_ledger_effect := EFFECT_READ\<rparr>),
     (''plan review'', (command_spec STABLE_FOR_AGENTS ''safe_read_only'' PRIMARY PHASE_APPROVAL)
        \<lparr>cs_ledger_effect := EFFECT_READ, cs_external_effect := EXTERNAL_FILE_WRITE,
         cs_targeting := TARGETING_ACTIVE_DEFAULT\<rparr>),
     (''plan export'', (command_spec STABLE_FOR_AGENTS ''safe_read_only'' SUPPORT PHASE_PLANNING)
        \<lparr>cs_ledger_effect := EFFECT_READ,
         cs_external_effect := EXTERNAL_FILE_WRITE\<rparr>),
     (''plan list'', (command_spec STABLE_FOR_AGENTS ''safe_read_only'' SUPPORT PHASE_PLANNING)
        \<lparr>cs_ledger_effect := EFFECT_READ\<rparr>),
     (''plan diff'', (command_spec STABLE_FOR_AGENTS ''safe_read_only'' SUPPORT PHASE_PLANNING)
        \<lparr>cs_ledger_effect := EFFECT_READ\<rparr>),
     (''plan draft'', (command_spec STABLE_FOR_AGENTS ''safe_read_only'' SUPPORT PHASE_PLANNING)
        \<lparr>cs_ledger_effect := EFFECT_NONE,
         cs_external_effect := EXTERNAL_FILE_WRITE\<rparr>),
     (''plan propose'', (command_spec STABLE_FOR_AGENTS ''ledger_mutation'' ADVANCED
          PHASE_PLANNING)
        \<lparr>cs_ledger_effect := EFFECT_WRITE\<rparr>),
     (''plan regenerate'', (command_spec STABLE_FOR_AGENTS ''ledger_mutation'' ADVANCED
          PHASE_PLANNING)
        \<lparr>cs_ledger_effect := EFFECT_WRITE\<rparr>),
     (''plan materialize-todos'', (command_spec STABLE_FOR_AGENTS ''ledger_mutation'' ADVANCED
          PHASE_PLANNING)
        \<lparr>cs_ledger_effect := EFFECT_WRITE\<rparr>),
     (''plan command'', (command_spec STABLE_FOR_AGENTS ''ledger_mutation'' SUPPORT
          PHASE_PLANNING)
        \<lparr>cs_ledger_effect := EFFECT_WRITE,
         cs_external_effect := EXTERNAL_PROCESS_EXEC\<rparr>),
     (''plan revise'', (command_spec STABLE_FOR_AGENTS ''ledger_mutation'' ADVANCED
          PHASE_PLANNING)
        \<lparr>cs_ledger_effect := EFFECT_WRITE\<rparr>),
     (''plan amend'', (command_spec STABLE_FOR_AGENTS ''ledger_mutation'' ADVANCED PHASE_PLANNING)
        \<lparr>cs_ledger_effect := EFFECT_WRITE\<rparr>),
     (''plan reject'', (command_spec STABLE_FOR_AGENTS ''ledger_mutation'' ADVANCED
          PHASE_APPROVAL)
        \<lparr>cs_ledger_effect := EFFECT_WRITE\<rparr>)]"

definition approval_commands :: "(string \<times> CommandSpec) list" where
  "approval_commands =
    [(''plan accept'', (command_spec STABLE_FOR_AGENTS ''ledger_mutation'' PRIMARY PHASE_APPROVAL)
        \<lparr>cs_tier := TIER_CRITICAL, cs_ledger_effect := EFFECT_WRITE\<rparr>),
     (''plan approve'', (command_spec STABLE_FOR_AGENTS ''ledger_mutation'' ADVANCED
          PHASE_APPROVAL)
        \<lparr>cs_ledger_effect := EFFECT_WRITE\<rparr>)]"

definition questions_commands :: "(string \<times> CommandSpec) list" where
  "questions_commands =
    [(''question add'', (command_spec STABLE_FOR_AGENTS ''ledger_mutation'' PRIMARY
          PHASE_PLANNING)
        \<lparr>cs_ledger_effect := EFFECT_WRITE\<rparr>),
     (''question add-many'', (command_spec STABLE_FOR_AGENTS ''ledger_mutation'' PRIMARY
          PHASE_PLANNING)
        \<lparr>cs_ledger_effect := EFFECT_WRITE\<rparr>),
     (''question answer'', (command_spec STABLE_FOR_AGENTS ''ledger_mutation'' PRIMARY
          PHASE_PLANNING)
        \<lparr>cs_ledger_effect := EFFECT_WRITE,
         cs_targeting := TARGETING_POSITIONAL_RESOURCE\<rparr>),
     (''question answer-many'', (command_spec STABLE_FOR_AGENTS ''ledger_mutation'' PRIMARY
          PHASE_PLANNING)
        \<lparr>cs_ledger_effect := EFFECT_WRITE\<rparr>),
     (''question status'', (command_spec STABLE_FOR_AGENTS ''safe_read_only'' PRIMARY
          PHASE_PLANNING)
        \<lparr>cs_tier := TIER_CRITICAL, cs_ledger_effect := EFFECT_READ\<rparr>),
     (''question answers'', (command_spec STABLE_FOR_AGENTS ''safe_read_only'' PRIMARY
          PHASE_PLANNING)
        \<lparr>cs_tier := TIER_CRITICAL, cs_ledger_effect := EFFECT_READ\<rparr>),
     (''question list'', (command_spec STABLE_FOR_AGENTS ''safe_read_only'' SUPPORT
          PHASE_PLANNING)
        \<lparr>cs_ledger_effect := EFFECT_READ\<rparr>),
     (''question open'', (command_spec STABLE_FOR_AGENTS ''safe_read_only'' SUPPORT
          PHASE_PLANNING)
        \<lparr>cs_ledger_effect := EFFECT_READ\<rparr>),
     (''question dismiss'', (command_spec STABLE_FOR_AGENTS ''ledger_mutation'' SUPPORT
          PHASE_PLANNING)
        \<lparr>cs_ledger_effect := EFFECT_WRITE\<rparr>)]"

definition implementation_commands :: "(string \<times> CommandSpec) list" where
  "implementation_commands =
    [(''implement start'', (command_spec STABLE_FOR_AGENTS ''ledger_mutation'' PRIMARY
          PHASE_IMPLEMENTATION)
        \<lparr>cs_tier := TIER_CRITICAL, cs_ledger_effect := EFFECT_WRITE,
         cs_targeting := TARGETING_ACTIVE_DEFAULT\<rparr>),
     (''implement restart'', (command_spec STABLE_FOR_AGENTS ''ledger_mutation'' PRIMARY
          PHASE_IMPLEMENTATION)
        \<lparr>cs_ledger_effect := EFFECT_WRITE\<rparr>),
     (''implement resume'', (command_spec STABLE_FOR_AGENTS ''ledger_mutation'' PRIMARY
          PHASE_IMPLEMENTATION)
        \<lparr>cs_tier := TIER_CRITICAL, cs_ledger_effect := EFFECT_WRITE\<rparr>),
     (''implement checklist'', (command_spec STABLE_FOR_AGENTS ''safe_read_only'' PRIMARY
          PHASE_IMPLEMENTATION)
        \<lparr>cs_tier := TIER_CRITICAL, cs_ledger_effect := EFFECT_READ\<rparr>),
     (''implement command'', (command_spec STABLE_FOR_AGENTS ''ledger_mutation'' PRIMARY
          PHASE_IMPLEMENTATION)
        \<lparr>cs_tier := TIER_CRITICAL, cs_ledger_effect := EFFECT_WRITE,
         cs_external_effect := EXTERNAL_PROCESS_EXEC\<rparr>),
     (''implement change'', (command_spec STABLE_FOR_AGENTS ''ledger_mutation'' PRIMARY
          PHASE_IMPLEMENTATION)
        \<lparr>cs_tier := TIER_CRITICAL, cs_ledger_effect := EFFECT_WRITE\<rparr>),
     (''implement scan-changes'', (command_spec STABLE_FOR_AGENTS ''ledger_mutation'' PRIMARY
          PHASE_IMPLEMENTATION)
        \<lparr>cs_ledger_effect := EFFECT_WRITE\<rparr>),
     (''implement finish'', (command_spec STABLE_FOR_AGENTS ''ledger_mutation'' PRIMARY
          PHASE_IMPLEMENTATION)
        \<lparr>cs_ledger_effect := EFFECT_WRITE\<rparr>),
     (''implement show'', (command_spec STABLE_FOR_AGENTS ''safe_read_only'' SUPPORT
          PHASE_IMPLEMENTATION)
        \<lparr>cs_ledger_effect := EFFECT_READ\<rparr>),
     (''implement status'', (command_spec STABLE_FOR_AGENTS ''safe_read_only'' SUPPORT
          PHASE_IMPLEMENTATION)
        \<lparr>cs_ledger_effect := EFFECT_READ\<rparr>),
     (''implement log'', (command_spec STABLE_FOR_AGENTS ''ledger_mutation'' SUPPORT
          PHASE_IMPLEMENTATION)
        \<lparr>cs_ledger_effect := EFFECT_WRITE\<rparr>),
     (''implement deviation'', (command_spec STABLE_FOR_AGENTS ''ledger_mutation'' SUPPORT
          PHASE_IMPLEMENTATION)
        \<lparr>cs_ledger_effect := EFFECT_WRITE\<rparr>),
     (''implement artifact'', (command_spec STABLE_FOR_AGENTS ''ledger_mutation'' SUPPORT
          PHASE_IMPLEMENTATION)
        \<lparr>cs_ledger_effect := EFFECT_WRITE\<rparr>)]"

definition todos_commands :: "(string \<times> CommandSpec) list" where
  "todos_commands =
    [(''todo add'', (command_spec STABLE_FOR_AGENTS ''ledger_mutation'' PRIMARY
          PHASE_IMPLEMENTATION)
        \<lparr>cs_ledger_effect := EFFECT_WRITE\<rparr>),
     (''todo done'', (command_spec STABLE_FOR_AGENTS ''ledger_mutation'' PRIMARY
          PHASE_IMPLEMENTATION)
        \<lparr>cs_tier := TIER_CRITICAL, cs_ledger_effect := EFFECT_WRITE,
         cs_targeting := TARGETING_POSITIONAL_RESOURCE\<rparr>),
     (''todo undone'', (command_spec STABLE_FOR_AGENTS ''ledger_mutation'' SUPPORT
          PHASE_IMPLEMENTATION)
        \<lparr>cs_ledger_effect := EFFECT_WRITE\<rparr>),
     (''todo next'', (command_spec STABLE_FOR_AGENTS ''safe_read_only'' PRIMARY
          PHASE_IMPLEMENTATION)
        \<lparr>cs_tier := TIER_CRITICAL, cs_ledger_effect := EFFECT_READ\<rparr>),
     (''todo status'', (command_spec STABLE_FOR_AGENTS ''safe_read_only'' PRIMARY
          PHASE_IMPLEMENTATION)
        \<lparr>cs_ledger_effect := EFFECT_READ\<rparr>),
     (''todo show'', (command_spec STABLE_FOR_AGENTS ''safe_read_only'' SUPPORT
          PHASE_IMPLEMENTATION)
        \<lparr>cs_ledger_effect := EFFECT_READ\<rparr>),
     (''todo list'', (command_spec STABLE_FOR_AGENTS ''safe_read_only'' SUPPORT
          PHASE_IMPLEMENTATION)
        \<lparr>cs_ledger_effect := EFFECT_READ\<rparr>)]"

definition validation_commands :: "(string \<times> CommandSpec) list" where
  "validation_commands =
    [(''validate start'', (command_spec STABLE_FOR_AGENTS ''ledger_mutation'' PRIMARY
          PHASE_VALIDATION)
        \<lparr>cs_tier := TIER_CRITICAL, cs_ledger_effect := EFFECT_WRITE,
         cs_targeting := TARGETING_ACTIVE_DEFAULT\<rparr>),
     (''validate status'', (command_spec STABLE_FOR_AGENTS ''safe_read_only'' PRIMARY
          PHASE_VALIDATION)
        \<lparr>cs_tier := TIER_CRITICAL, cs_ledger_effect := EFFECT_READ\<rparr>),
     (''validate check'', (command_spec STABLE_FOR_AGENTS ''ledger_mutation'' PRIMARY
          PHASE_VALIDATION)
        \<lparr>cs_tier := TIER_CRITICAL, cs_ledger_effect := EFFECT_WRITE\<rparr>),
     (''validate finish'', (command_spec STABLE_FOR_AGENTS ''ledger_mutation'' PRIMARY
          PHASE_VALIDATION)
        \<lparr>cs_tier := TIER_CRITICAL, cs_ledger_effect := EFFECT_WRITE\<rparr>),
     (''validate waive'', (command_spec STABLE_FOR_AGENTS ''ledger_mutation'' ADVANCED
          PHASE_VALIDATION)
        \<lparr>cs_ledger_effect := EFFECT_WRITE\<rparr>),
     (''validate show'', (command_spec STABLE_FOR_AGENTS ''safe_read_only'' SUPPORT
          PHASE_VALIDATION)
        \<lparr>cs_ledger_effect := EFFECT_READ\<rparr>)]"

definition review_commands :: "(string \<times> CommandSpec) list" where
  "review_commands =
    [(''review record'', (command_spec STABLE_FOR_AGENTS ''ledger_mutation'' PRIMARY PHASE_REVIEW)
        \<lparr>cs_tier := TIER_CRITICAL, cs_ledger_effect := EFFECT_WRITE\<rparr>),
     (''review list'', (command_spec STABLE_FOR_AGENTS ''safe_read_only'' SUPPORT PHASE_REVIEW)
        \<lparr>cs_ledger_effect := EFFECT_READ\<rparr>),
     (''review show'', (command_spec STABLE_FOR_AGENTS ''safe_read_only'' SUPPORT PHASE_REVIEW)
        \<lparr>cs_ledger_effect := EFFECT_READ\<rparr>)]"

definition handoffs_commands :: "(string \<times> CommandSpec) list" where
  "handoffs_commands =
    [(''handoff create'', (command_spec STABLE_FOR_AGENTS ''ledger_mutation'' PRIMARY
          PHASE_TRANSFER)
        \<lparr>cs_ledger_effect := EFFECT_WRITE\<rparr>),
     (''handoff claim'', (command_spec STABLE_FOR_AGENTS ''ledger_mutation'' PRIMARY
          PHASE_TRANSFER)
        \<lparr>cs_ledger_effect := EFFECT_WRITE\<rparr>),
     (''handoff close'', (command_spec STABLE_FOR_AGENTS ''ledger_mutation'' PRIMARY
          PHASE_TRANSFER)
        \<lparr>cs_ledger_effect := EFFECT_WRITE\<rparr>),
     (''handoff show'', (command_spec STABLE_FOR_AGENTS ''safe_read_only'' PRIMARY PHASE_TRANSFER)
        \<lparr>cs_ledger_effect := EFFECT_READ,
         cs_targeting := TARGETING_POSITIONAL_RESOURCE\<rparr>),
     (''handoff list'', (command_spec STABLE_FOR_AGENTS ''safe_read_only'' SUPPORT PHASE_TRANSFER)
        \<lparr>cs_ledger_effect := EFFECT_READ\<rparr>),
     (''handoff cancel'', (command_spec STABLE_FOR_AGENTS ''ledger_mutation'' SUPPORT
          PHASE_TRANSFER)
        \<lparr>cs_ledger_effect := EFFECT_WRITE\<rparr>),
     (''handoff plan-context'', (command_spec STABLE_FOR_AGENTS ''safe_read_only'' ADVANCED
          PHASE_TRANSFER)
        \<lparr>cs_ledger_effect := EFFECT_READ\<rparr>),
     (''handoff implementation-context'', (command_spec STABLE_FOR_AGENTS ''safe_read_only''
          ADVANCED PHASE_TRANSFER)
        \<lparr>cs_ledger_effect := EFFECT_READ\<rparr>),
     (''handoff validation-context'', (command_spec STABLE_FOR_AGENTS ''safe_read_only''
          ADVANCED PHASE_TRANSFER)
        \<lparr>cs_ledger_effect := EFFECT_READ\<rparr>)]"

definition human_oriented_reads_commands :: "(string \<times> CommandSpec) list" where
  "human_oriented_reads_commands =
    [(''status'', (command_spec STABLE_FOR_AGENTS ''safe_read_only'' HUMAN PHASE_REPORTING)
        \<lparr>cs_agent_safe := True, cs_ledger_effect := EFFECT_READ\<rparr>),
     (''view'', (command_spec STABLE_FOR_AGENTS ''safe_read_only'' HUMAN PHASE_REPORTING)
        \<lparr>cs_agent_safe := True, cs_ledger_effect := EFFECT_READ\<rparr>),
     (''usage'', (command_spec STABLE_FOR_AGENTS ''safe_read_only'' PRIMARY PHASE_SETUP)
        \<lparr>cs_agent_safe := True, cs_ledger_effect := EFFECT_READ,
         cs_targeting := TARGETING_POSITIONAL_OR_ACTIVE\<rparr>),
     (''monitor'', (command_spec HUMAN_ORIENTED ''safe_read_only'' HUMAN PHASE_REPORTING)
        \<lparr>cs_agent_safe := False, cs_ledger_effect := EFFECT_READ,
         cs_targeting := TARGETING_POSITIONAL_OR_ACTIVE\<rparr>),
     (''tree'', (command_spec STABLE_FOR_AGENTS ''safe_read_only'' HUMAN PHASE_REPORTING)
        \<lparr>cs_agent_safe := True, cs_ledger_effect := EFFECT_READ\<rparr>),
     (''task dossier'', (command_spec STABLE_FOR_AGENTS ''safe_read_only'' HUMAN PHASE_REPORTING)
        \<lparr>cs_agent_safe := True, cs_ledger_effect := EFFECT_READ,
         cs_targeting := TARGETING_POSITIONAL_OR_ACTIVE\<rparr>),
     (''task report'', (command_spec HUMAN_ORIENTED ''safe_read_only'' HUMAN PHASE_REPORTING)
        \<lparr>cs_agent_safe := True, cs_ledger_effect := EFFECT_READ,
         cs_external_effect := EXTERNAL_FILE_WRITE,
         cs_targeting := TARGETING_POSITIONAL_OR_ACTIVE\<rparr>),
     (''task export'', (command_spec STABLE_FOR_AGENTS ''safe_read_only'' HUMAN PHASE_REPORTING)
        \<lparr>cs_agent_safe := True, cs_ledger_effect := EFFECT_READ,
         cs_external_effect := EXTERNAL_FILE_WRITE,
         cs_targeting := TARGETING_POSITIONAL_OR_ACTIVE\<rparr>),
     (''task transcript'', (command_spec HUMAN_ORIENTED ''safe_read_only'' HUMAN PHASE_REPORTING)
        \<lparr>cs_agent_safe := True, cs_ledger_effect := EFFECT_READ,
         cs_targeting := TARGETING_POSITIONAL_OR_ACTIVE\<rparr>),
     (''commands'', (command_spec HUMAN_ORIENTED ''safe_read_only'' HUMAN PHASE_REPORTING)
        \<lparr>cs_agent_safe := True, cs_ledger_effect := EFFECT_NONE\<rparr>)]"

definition references_metadata_commands :: "(string \<times> CommandSpec) list" where
  "references_metadata_commands =
    [(''file add'', (command_spec STABLE_FOR_AGENTS ''ledger_mutation'' SUPPORT PHASE_PLANNING)
        \<lparr>cs_ledger_effect := EFFECT_WRITE\<rparr>),
     (''file link'', (command_spec STABLE_FOR_AGENTS ''ledger_mutation'' SUPPORT PHASE_PLANNING)
        \<lparr>cs_ledger_effect := EFFECT_WRITE, cs_workspace_effect := EFFECT_READ,
         cs_targeting := TARGETING_EXPLICIT_REQUIRED\<rparr>),
     (''file remove'', (command_spec STABLE_FOR_AGENTS ''ledger_mutation'' SUPPORT PHASE_PLANNING)
        \<lparr>cs_ledger_effect := EFFECT_WRITE\<rparr>),
     (''file list'', (command_spec STABLE_FOR_AGENTS ''safe_read_only'' SUPPORT PHASE_REPORTING)
        \<lparr>cs_ledger_effect := EFFECT_READ\<rparr>),
     (''file status'', (command_spec STABLE_FOR_AGENTS ''safe_read_only'' SUPPORT PHASE_REPORTING)
        \<lparr>cs_ledger_effect := EFFECT_READ, cs_workspace_effect := EFFECT_READ,
         cs_targeting := TARGETING_EXPLICIT_REQUIRED\<rparr>),
     (''file refresh'', (command_spec STABLE_FOR_AGENTS ''ledger_mutation'' SUPPORT
          PHASE_PLANNING)
        \<lparr>cs_ledger_effect := EFFECT_WRITE, cs_workspace_effect := EFFECT_READ,
         cs_targeting := TARGETING_EXPLICIT_REQUIRED\<rparr>),
     (''ref show'', (command_spec STABLE_FOR_AGENTS ''safe_read_only'' SUPPORT PHASE_REPORTING)
        \<lparr>cs_ledger_effect := EFFECT_READ\<rparr>),
     (''ref parse'', (command_spec STABLE_FOR_AGENTS ''safe_read_only'' SUPPORT PHASE_REPORTING)
        \<lparr>cs_ledger_effect := EFFECT_READ\<rparr>),
     (''link add'', (command_spec STABLE_FOR_AGENTS ''ledger_mutation'' SUPPORT PHASE_PLANNING)
        \<lparr>cs_ledger_effect := EFFECT_WRITE\<rparr>),
     (''link remove'', (command_spec STABLE_FOR_AGENTS ''ledger_mutation'' SUPPORT PHASE_PLANNING)
        \<lparr>cs_ledger_effect := EFFECT_WRITE\<rparr>),
     (''link list'', (command_spec STABLE_FOR_AGENTS ''safe_read_only'' SUPPORT PHASE_REPORTING)
        \<lparr>cs_ledger_effect := EFFECT_READ\<rparr>),
     (''intro create'', (command_spec STABLE_FOR_AGENTS ''ledger_mutation'' SUPPORT
          PHASE_PLANNING)
        \<lparr>cs_ledger_effect := EFFECT_WRITE\<rparr>),
     (''intro link'', (command_spec STABLE_FOR_AGENTS ''ledger_mutation'' SUPPORT PHASE_PLANNING)
        \<lparr>cs_ledger_effect := EFFECT_WRITE\<rparr>),
     (''intro list'', (command_spec STABLE_FOR_AGENTS ''safe_read_only'' SUPPORT PHASE_REPORTING)
        \<lparr>cs_ledger_effect := EFFECT_READ\<rparr>),
     (''intro show'', (command_spec STABLE_FOR_AGENTS ''safe_read_only'' SUPPORT PHASE_REPORTING)
        \<lparr>cs_ledger_effect := EFFECT_READ\<rparr>),
     (''require add'', (command_spec STABLE_FOR_AGENTS ''ledger_mutation'' SUPPORT PHASE_PLANNING)
        \<lparr>cs_ledger_effect := EFFECT_WRITE,
         cs_targeting := TARGETING_POSITIONAL_RESOURCE\<rparr>),
     (''require remove'', (command_spec STABLE_FOR_AGENTS ''ledger_mutation'' SUPPORT
          PHASE_PLANNING)
        \<lparr>cs_ledger_effect := EFFECT_WRITE\<rparr>),
     (''require list'', (command_spec STABLE_FOR_AGENTS ''safe_read_only'' SUPPORT
          PHASE_REPORTING)
        \<lparr>cs_ledger_effect := EFFECT_READ\<rparr>),
     (''require waive'', (command_spec STABLE_FOR_AGENTS ''ledger_mutation'' ADVANCED
          PHASE_PLANNING)
        \<lparr>cs_ledger_effect := EFFECT_WRITE\<rparr>)]"

definition project_transfer_ledgers_commands :: "(string \<times> CommandSpec) list" where
  "project_transfer_ledgers_commands =
    [(''export'', (command_spec STABLE_FOR_AGENTS ''ledger_mutation'' SUPPORT PHASE_TRANSFER)
        \<lparr>cs_ledger_effect := EFFECT_READ,
         cs_external_effect := EXTERNAL_FILE_WRITE\<rparr>),
     (''import'', (command_spec STABLE_FOR_AGENTS ''ledger_mutation'' SUPPORT PHASE_TRANSFER)
        \<lparr>cs_ledger_effect := EFFECT_WRITE,
         cs_external_effect := EXTERNAL_FILE_WRITE\<rparr>),
     (''snapshot'', (command_spec STABLE_FOR_AGENTS ''safe_read_only'' SUPPORT PHASE_TRANSFER)
        \<lparr>cs_ledger_effect := EFFECT_READ,
         cs_external_effect := EXTERNAL_FILE_WRITE\<rparr>),
     (''ledger status'', (command_spec STABLE_FOR_AGENTS ''safe_read_only'' SUPPORT
          PHASE_TRANSFER)
        \<lparr>cs_ledger_effect := EFFECT_READ\<rparr>),
     (''ledger list'', (command_spec STABLE_FOR_AGENTS ''safe_read_only'' SUPPORT PHASE_TRANSFER)
        \<lparr>cs_ledger_effect := EFFECT_READ\<rparr>),
     (''ledger fork'', (command_spec STABLE_FOR_AGENTS ''ledger_mutation'' ADVANCED
          PHASE_TRANSFER)
        \<lparr>cs_ledger_effect := EFFECT_WRITE\<rparr>),
     (''ledger switch'', (command_spec STABLE_FOR_AGENTS ''ledger_mutation'' ADVANCED
          PHASE_TRANSFER)
        \<lparr>cs_ledger_effect := EFFECT_WRITE\<rparr>),
     (''ledger adopt'', (command_spec STABLE_FOR_AGENTS ''ledger_mutation'' ADVANCED
          PHASE_TRANSFER)
        \<lparr>cs_ledger_effect := EFFECT_WRITE\<rparr>),
     (''ledger doctor'', (command_spec STABLE_FOR_AGENTS ''safe_read_only'' ADVANCED
          PHASE_TRANSFER)
        \<lparr>cs_ledger_effect := EFFECT_READ\<rparr>),
     (''storage where'', (command_spec HUMAN_ORIENTED ''safe_read_only'' HUMAN PHASE_TRANSFER)
        \<lparr>cs_agent_safe := True, cs_ledger_effect := EFFECT_READ,
         cs_workspace_effect := EFFECT_READ\<rparr>),
     (''storage move'', (command_spec HUMAN_ORIENTED ''workspace_mutation'' ADVANCED
          PHASE_TRANSFER)
        \<lparr>cs_agent_safe := True, cs_ledger_effect := EFFECT_READ,
         cs_workspace_effect := EFFECT_WRITE, cs_external_effect := EXTERNAL_FILE_WRITE\<rparr>),
     (''sync preflight'', (command_spec HUMAN_ORIENTED ''safe_read_only'' HUMAN PHASE_TRANSFER)
        \<lparr>cs_agent_safe := True, cs_ledger_effect := EFFECT_READ,
         cs_workspace_effect := EFFECT_READ, cs_external_effect := EXTERNAL_PROCESS_EXEC\<rparr>),
     (''sync status'', (command_spec HUMAN_ORIENTED ''safe_read_only'' HUMAN PHASE_TRANSFER)
        \<lparr>cs_agent_safe := True, cs_ledger_effect := EFFECT_READ,
         cs_workspace_effect := EFFECT_READ, cs_external_effect := EXTERNAL_PROCESS_EXEC\<rparr>),
     (''sync commit'', (command_spec HUMAN_ORIENTED ''workspace_mutation'' ADVANCED
          PHASE_TRANSFER)
        \<lparr>cs_agent_safe := True, cs_ledger_effect := EFFECT_READ,
         cs_workspace_effect := EFFECT_READ, cs_external_effect := EXTERNAL_PROCESS_EXEC\<rparr>),
     (''sync export'', (command_spec STABLE_FOR_AGENTS ''ledger_mutation'' SUPPORT PHASE_TRANSFER)
        \<lparr>cs_ledger_effect := EFFECT_READ,
         cs_external_effect := EXTERNAL_FILE_WRITE\<rparr>),
     (''sync import'', (command_spec STABLE_FOR_AGENTS ''ledger_mutation'' ADVANCED
          PHASE_TRANSFER)
        \<lparr>cs_ledger_effect := EFFECT_WRITE,
         cs_external_effect := EXTERNAL_FILE_WRITE\<rparr>),
     (''sync git'', (command_spec HUMAN_ORIENTED ''safe_read_only'' HUMAN PHASE_TRANSFER)
        \<lparr>cs_ledger_effect := EFFECT_NONE\<rparr>),
     (''sync git init'', (command_spec HUMAN_ORIENTED ''workspace_mutation'' ADVANCED
          PHASE_TRANSFER)
        \<lparr>cs_ledger_effect := EFFECT_WRITE, cs_workspace_effect := EFFECT_WRITE,
         cs_external_effect := EXTERNAL_PROCESS_EXEC\<rparr>),
     (''sync git status'', (command_spec HUMAN_ORIENTED ''safe_read_only'' HUMAN PHASE_TRANSFER)
        \<lparr>cs_ledger_effect := EFFECT_READ, cs_workspace_effect := EFFECT_READ,
         cs_external_effect := EXTERNAL_PROCESS_EXEC\<rparr>),
     (''sync git cd'', (command_spec HUMAN_ORIENTED ''safe_read_only'' HUMAN PHASE_TRANSFER)
        \<lparr>cs_ledger_effect := EFFECT_READ, cs_workspace_effect := EFFECT_READ\<rparr>),
     (''sync git path'', (command_spec HUMAN_ORIENTED ''safe_read_only'' HUMAN PHASE_TRANSFER)
        \<lparr>cs_ledger_effect := EFFECT_READ, cs_workspace_effect := EFFECT_READ\<rparr>),
     (''sync git import-local'', (command_spec HUMAN_ORIENTED ''workspace_mutation'' ADVANCED
          PHASE_TRANSFER)
        \<lparr>cs_ledger_effect := EFFECT_READ, cs_workspace_effect := EFFECT_WRITE,
         cs_external_effect := EXTERNAL_PROCESS_EXEC\<rparr>),
     (''sync git commit'', (command_spec HUMAN_ORIENTED ''workspace_mutation'' HUMAN
          PHASE_TRANSFER)
        \<lparr>cs_ledger_effect := EFFECT_READ, cs_workspace_effect := EFFECT_READ,
         cs_external_effect := EXTERNAL_PROCESS_EXEC\<rparr>),
     (''sync git export-local'', (command_spec HUMAN_ORIENTED ''workspace_mutation'' ADVANCED
          PHASE_TRANSFER)
        \<lparr>cs_ledger_effect := EFFECT_READ, cs_workspace_effect := EFFECT_READ,
         cs_external_effect := EXTERNAL_PROCESS_EXEC\<rparr>),
     (''sync git pull'', (command_spec HUMAN_ORIENTED ''workspace_mutation'' HUMAN PHASE_TRANSFER)
        \<lparr>cs_ledger_effect := EFFECT_READ, cs_workspace_effect := EFFECT_WRITE,
         cs_external_effect := EXTERNAL_PROCESS_EXEC\<rparr>),
     (''sync git push'', (command_spec HUMAN_ORIENTED ''workspace_mutation'' HUMAN PHASE_TRANSFER)
        \<lparr>cs_ledger_effect := EFFECT_READ, cs_workspace_effect := EFFECT_WRITE,
         cs_external_effect := EXTERNAL_PROCESS_EXEC\<rparr>),
     (''sync git sync'', (command_spec HUMAN_ORIENTED ''workspace_mutation'' ADVANCED
          PHASE_TRANSFER)
        \<lparr>cs_deprecated := True, cs_replaced_by := ''sync git cd'',
         cs_ledger_effect := EFFECT_READ, cs_workspace_effect := EFFECT_WRITE,
         cs_external_effect := EXTERNAL_PROCESS_EXEC\<rparr>),
     (''sync git hooks'', (command_spec HUMAN_ORIENTED ''safe_read_only'' HUMAN PHASE_TRANSFER)
        \<lparr>cs_ledger_effect := EFFECT_NONE\<rparr>),
     (''sync git hooks install'', (command_spec HUMAN_ORIENTED ''workspace_mutation'' ADVANCED
          PHASE_TRANSFER)
        \<lparr>cs_ledger_effect := EFFECT_NONE, cs_workspace_effect := EFFECT_WRITE,
         cs_external_effect := EXTERNAL_FILE_WRITE\<rparr>),
     (''sync git hooks status'', (command_spec HUMAN_ORIENTED ''safe_read_only'' HUMAN
          PHASE_TRANSFER)
        \<lparr>cs_ledger_effect := EFFECT_NONE, cs_workspace_effect := EFFECT_READ,
         cs_external_effect := EXTERNAL_FILE_WRITE\<rparr>),
     (''sync git hooks uninstall'', (command_spec HUMAN_ORIENTED ''workspace_mutation''
          ADVANCED PHASE_TRANSFER)
        \<lparr>cs_ledger_effect := EFFECT_NONE, cs_workspace_effect := EFFECT_WRITE,
         cs_external_effect := EXTERNAL_FILE_WRITE\<rparr>)]"

definition release_commands :: "(string \<times> CommandSpec) list" where
  "release_commands =
    [(''release tag'', (command_spec HUMAN_ORIENTED ''ledger_mutation'' ADVANCED PHASE_RELEASE)
        \<lparr>cs_agent_safe := True, cs_ledger_effect := EFFECT_WRITE\<rparr>),
     (''release list'', (command_spec HUMAN_ORIENTED ''safe_read_only'' HUMAN PHASE_RELEASE)
        \<lparr>cs_agent_safe := True, cs_ledger_effect := EFFECT_READ\<rparr>),
     (''release show'', (command_spec HUMAN_ORIENTED ''safe_read_only'' HUMAN PHASE_RELEASE)
        \<lparr>cs_agent_safe := True, cs_ledger_effect := EFFECT_READ,
         cs_targeting := TARGETING_POSITIONAL_RESOURCE\<rparr>)]"

definition search_commands :: "(string \<times> CommandSpec) list" where
  "search_commands =
    [(''search'', (command_spec BETA_FOR_AGENTS ''safe_read_only'' BETA PHASE_SEARCH)
        \<lparr>cs_ledger_effect := EFFECT_NONE, cs_workspace_effect := EFFECT_READ\<rparr>),
     (''grep'', (command_spec BETA_FOR_AGENTS ''safe_read_only'' BETA PHASE_SEARCH)
        \<lparr>cs_ledger_effect := EFFECT_NONE, cs_workspace_effect := EFFECT_READ\<rparr>),
     (''symbols'', (command_spec BETA_FOR_AGENTS ''safe_read_only'' BETA PHASE_SEARCH)
        \<lparr>cs_ledger_effect := EFFECT_NONE, cs_workspace_effect := EFFECT_READ\<rparr>),
     (''deps'', (command_spec BETA_FOR_AGENTS ''safe_read_only'' BETA PHASE_SEARCH)
        \<lparr>cs_ledger_effect := EFFECT_NONE, cs_workspace_effect := EFFECT_READ\<rparr>)]"

definition repair_doctor_commands :: "(string \<times> CommandSpec) list" where
  "repair_doctor_commands =
    [(''doctor'', (command_spec REPAIR ''safe_read_only'' REPAIR_SURFACE PHASE_REPAIR)
        \<lparr>cs_tier := TIER_RARE, cs_ledger_effect := EFFECT_READ\<rparr>),
     (''doctor locks'', (command_spec REPAIR ''safe_read_only'' REPAIR_SURFACE PHASE_REPAIR)
        \<lparr>cs_tier := TIER_RARE, cs_ledger_effect := EFFECT_READ\<rparr>),
     (''doctor schema'', (command_spec REPAIR ''safe_read_only'' REPAIR_SURFACE PHASE_REPAIR)
        \<lparr>cs_tier := TIER_RARE, cs_ledger_effect := EFFECT_READ\<rparr>),
     (''doctor indexes'', (command_spec REPAIR ''safe_read_only'' REPAIR_SURFACE PHASE_REPAIR)
        \<lparr>cs_tier := TIER_RARE, cs_ledger_effect := EFFECT_READ\<rparr>),
     (''lock show'', (command_spec REPAIR ''safe_read_only'' REPAIR_SURFACE PHASE_REPAIR)
        \<lparr>cs_tier := TIER_RARE, cs_ledger_effect := EFFECT_READ\<rparr>),
     (''lock list'', (command_spec REPAIR ''safe_read_only'' REPAIR_SURFACE PHASE_REPAIR)
        \<lparr>cs_tier := TIER_RARE, cs_ledger_effect := EFFECT_READ\<rparr>),
     (''lock break'', (command_spec REPAIR ''ledger_mutation'' ADVANCED PHASE_REPAIR)
        \<lparr>cs_tier := TIER_RARE, cs_deprecated := True,
         cs_replaced_by := ''repair lock'', cs_ledger_effect := EFFECT_WRITE\<rparr>),
     (''repair lock'', (command_spec REPAIR ''ledger_mutation'' REPAIR_SURFACE PHASE_REPAIR)
        \<lparr>cs_tier := TIER_RARE, cs_ledger_effect := EFFECT_WRITE\<rparr>),
     (''repair index'', (command_spec REPAIR ''ledger_mutation'' REPAIR_SURFACE PHASE_REPAIR)
        \<lparr>cs_tier := TIER_RARE, cs_ledger_effect := EFFECT_WRITE\<rparr>),
     (''repair run'', (command_spec REPAIR ''ledger_mutation'' REPAIR_SURFACE PHASE_REPAIR)
        \<lparr>cs_tier := TIER_RARE, cs_ledger_effect := EFFECT_WRITE\<rparr>),
     (''repair task'', (command_spec REPAIR ''ledger_mutation'' REPAIR_SURFACE PHASE_REPAIR)
        \<lparr>cs_tier := TIER_RARE, cs_ledger_effect := EFFECT_WRITE\<rparr>),
     (''repair task-dirs'', (command_spec REPAIR ''ledger_mutation'' REPAIR_SURFACE PHASE_REPAIR)
        \<lparr>cs_tier := TIER_RARE, cs_ledger_effect := EFFECT_WRITE\<rparr>),
     (''repair planning-command-changes'', (command_spec REPAIR ''ledger_mutation''
          REPAIR_SURFACE PHASE_REPAIR)
        \<lparr>cs_tier := TIER_RARE, cs_ledger_effect := EFFECT_WRITE\<rparr>),
     (''migrate status'', (command_spec STABLE_FOR_AGENTS ''safe_read_only'' MIGRATION
          PHASE_REPAIR)
        \<lparr>cs_tier := TIER_RARE, cs_ledger_effect := EFFECT_READ\<rparr>),
     (''migrate plan'', (command_spec STABLE_FOR_AGENTS ''safe_read_only'' MIGRATION PHASE_REPAIR)
        \<lparr>cs_tier := TIER_RARE, cs_ledger_effect := EFFECT_READ\<rparr>),
     (''migrate apply'', (command_spec REPAIR ''ledger_mutation'' MIGRATION PHASE_REPAIR)
        \<lparr>cs_tier := TIER_RARE, cs_ledger_effect := EFFECT_WRITE\<rparr>),
     (''reindex'', (command_spec REPAIR ''ledger_mutation'' REPAIR_SURFACE PHASE_REPAIR)
        \<lparr>cs_tier := TIER_RARE, cs_ledger_effect := EFFECT_WRITE\<rparr>)]"

definition COMMAND_METADATA :: "(string \<times> CommandSpec) list" where
  "COMMAND_METADATA = setup_identity_commands @ orientation_commands
    @ task_management_commands @ planning_commands @ approval_commands @ questions_commands
    @ implementation_commands @ todos_commands @ validation_commands @ review_commands
    @ handoffs_commands @ human_oriented_reads_commands @ references_metadata_commands
    @ project_transfer_ledgers_commands @ release_commands @ search_commands
    @ repair_doctor_commands"

text \<open>Membership of \<open>COMMAND_METADATA\<close>.\<close>

definition listed :: "string \<Rightarrow> bool" where
  "listed name = (map_of COMMAND_METADATA name \<noteq> None)"

section \<open>The table is consistent\<close>

text \<open>
  The names, computed once: membership is then an introduction on this literal list instead of
  another evaluation of the table.
\<close>

lemma table_names: "map fst COMMAND_METADATA =
    [''actor whoami'', ''actor set'', ''actor clear'', ''harness set'', ''harness clear'',
     ''init'', ''next-action'', ''can'', ''context'', ''trace'', ''config list'',
     ''config show'', ''config get'', ''config keys'', ''config describe'', ''config set'',
     ''pipeline show'', ''pipeline list'', ''pipeline next'', ''pipeline context'',
     ''task create'', ''task activate'', ''task deactivate'', ''task follow-up'',
     ''task record'', ''task active'', ''task show'', ''task list'', ''task edit'',
     ''task cancel'', ''task uncancel'', ''task close'', ''task archive'', ''task unarchive'',
     ''task events'', ''plan start'', ''plan template'', ''plan guidance'', ''plan upsert'',
     ''plan lint'', ''plan show'', ''plan review'', ''plan export'', ''plan list'',
     ''plan diff'', ''plan draft'', ''plan propose'', ''plan regenerate'',
     ''plan materialize-todos'', ''plan command'', ''plan revise'', ''plan amend'',
     ''plan reject'', ''plan accept'', ''plan approve'', ''question add'',
     ''question add-many'', ''question answer'', ''question answer-many'',
     ''question status'', ''question answers'', ''question list'', ''question open'',
     ''question dismiss'', ''implement start'', ''implement restart'', ''implement resume'',
     ''implement checklist'', ''implement command'', ''implement change'',
     ''implement scan-changes'', ''implement finish'', ''implement show'',
     ''implement status'', ''implement log'', ''implement deviation'', ''implement artifact'',
     ''todo add'', ''todo done'', ''todo undone'', ''todo next'', ''todo status'',
     ''todo show'', ''todo list'', ''validate start'', ''validate status'',
     ''validate check'', ''validate finish'', ''validate waive'', ''validate show'',
     ''review record'', ''review list'', ''review show'', ''handoff create'',
     ''handoff claim'', ''handoff close'', ''handoff show'', ''handoff list'',
     ''handoff cancel'', ''handoff plan-context'', ''handoff implementation-context'',
     ''handoff validation-context'', ''status'', ''view'', ''usage'', ''monitor'', ''tree'',
     ''task dossier'', ''task report'', ''task export'', ''task transcript'', ''commands'',
     ''file add'', ''file link'', ''file remove'', ''file list'', ''file status'',
     ''file refresh'', ''ref show'', ''ref parse'', ''link add'', ''link remove'',
     ''link list'', ''intro create'', ''intro link'', ''intro list'', ''intro show'',
     ''require add'', ''require remove'', ''require list'', ''require waive'', ''export'',
     ''import'', ''snapshot'', ''ledger status'', ''ledger list'', ''ledger fork'',
     ''ledger switch'', ''ledger adopt'', ''ledger doctor'', ''storage where'',
     ''storage move'', ''sync preflight'', ''sync status'', ''sync commit'', ''sync export'',
     ''sync import'', ''sync git'', ''sync git init'', ''sync git status'', ''sync git cd'',
     ''sync git path'', ''sync git import-local'', ''sync git commit'',
     ''sync git export-local'', ''sync git pull'', ''sync git push'', ''sync git sync'',
     ''sync git hooks'', ''sync git hooks install'', ''sync git hooks status'',
     ''sync git hooks uninstall'', ''release tag'', ''release list'', ''release show'',
     ''search'', ''grep'', ''symbols'', ''deps'', ''doctor'', ''doctor locks'',
     ''doctor schema'', ''doctor indexes'', ''lock show'', ''lock list'', ''lock break'',
     ''repair lock'', ''repair index'', ''repair run'', ''repair task'', ''repair task-dirs'',
     ''repair planning-command-changes'', ''migrate status'', ''migrate plan'',
     ''migrate apply'', ''reindex'']"
  by code_simp

lemma listed_iff: "listed n \<longleftrightarrow> n \<in> set (map fst COMMAND_METADATA)"
  by (simp add: listed_def map_of_eq_None_iff)

lemmas listedI = listed_iff [THEN iffD2, unfolded table_names]

lemma golden_path_listed: "set AGENT_GOLDEN_PATH_COMMANDS \<subseteq> set (map fst COMMAND_METADATA)"
  unfolding table_names AGENT_GOLDEN_PATH_COMMANDS_def
  by (simp only: list.set insert_subset empty_subsetI) (intro conjI TrueI insertI1 insertI2)

text \<open>The legacy effect and the newer fields never contradict each other on a read-only command.\<close>

lemma safe_read_only_writes_nothing:
  "list_all (\<lambda>(n, spec). cs_effect spec = ''safe_read_only'' \<longrightarrow>
      cs_ledger_effect spec \<noteq> ''write'' \<and> cs_workspace_effect spec \<noteq> ''write'') COMMAND_METADATA"
  by code_simp

lemma deprecated_names:
  "map (\<lambda>(n, spec). (n, cs_replaced_by spec)) (filter (\<lambda>(n, spec). cs_deprecated spec) COMMAND_METADATA)
    = [(''sync git sync'', ''sync git cd''), (''lock break'', ''repair lock'')]"
  by code_simp

end
