(* ===== verification/Recording.thy ===== *)
theory Recording
  imports Inventory Store
begin

text \<open>
  Users of the command inventory: the listing of \<open>taskledger commands\<close> (\<open>cli.py\<close>) and the decision
  of \<open>services/agent_logging.py\<close> whether an invocation is recorded. The lemmas show that the recorder
  reads the intended command off any well-formed invocation of one or two words.
\<close>

section \<open>\<open>taskledger commands\<close>\<close>

definition dashes_to_underscores :: "string \<Rightarrow> string" where
  "dashes_to_underscores s = map (\<lambda>c. if c = CHR ''-'' then CHR ''_'' else c) s"

text \<open>A filter option that is absent or empty matches every command.\<close>

definition option_matches :: "string option \<Rightarrow> string \<Rightarrow> bool" where
  "option_matches opt v = (case opt of None \<Rightarrow> True | Some w \<Rightarrow> w = [] \<or> v = w)"

record command_filter =
  cf_audience :: "string option"
  cf_effect :: "string option"
  cf_surface :: "string option"
  cf_phase :: "string option"
  cf_tier :: "string option"
  cf_include_deprecated :: bool

definition filter_accepts :: "command_filter \<Rightarrow> CommandSpec \<Rightarrow> bool" where
  "filter_accepts f spec \<longleftrightarrow>
     (cf_include_deprecated f \<or> \<not> cs_deprecated spec)
     \<and> option_matches (map_option dashes_to_underscores (cf_audience f)) (cs_audience spec)
     \<and> option_matches (map_option dashes_to_underscores (cf_effect f)) (cs_effect spec)
     \<and> option_matches (cf_surface f) (cs_surface spec)
     \<and> option_matches (cf_phase f) (cs_phase spec)
     \<and> option_matches (cf_tier f) (cs_tier spec)"

definition filtered_commands :: "command_filter \<Rightarrow> (string \<times> CommandSpec) list" where
  "filtered_commands f =
     filter (\<lambda>(cmd, spec). filter_accepts f spec) (sort_key fst COMMAND_METADATA)"

section \<open>Which invocations are recorded\<close>

record AgentLoggingConfig =
  ac_enabled :: bool
  ac_capture_taskledger_cli :: bool
  ac_capture_managed_shell :: bool
  ac_capture_visible_stdout :: bool
  ac_capture_visible_stderr :: bool
  ac_capture_visible_combined :: bool
  ac_capture_payload_metadata :: bool
  ac_max_inline_chars :: int
  ac_store_full_output_artifacts :: bool
  ac_max_artifact_bytes :: "int option"
  ac_fail_on_logging_error :: bool
  ac_redact_patterns :: "string list"
  ac_capture_safe_read_only :: bool
  ac_capture_human_oriented :: bool

definition default_agent_logging :: AgentLoggingConfig where
  "default_agent_logging =
     \<lparr>ac_enabled = False, ac_capture_taskledger_cli = True, ac_capture_managed_shell = True,
      ac_capture_visible_stdout = True, ac_capture_visible_stderr = True,
      ac_capture_visible_combined = True, ac_capture_payload_metadata = True,
      ac_max_inline_chars = 4000, ac_store_full_output_artifacts = True,
      ac_max_artifact_bytes = Some 2000000, ac_fail_on_logging_error = False,
      ac_redact_patterns = [], ac_capture_safe_read_only = True, ac_capture_human_oriented = True\<rparr>"

definition GLOBAL_VALUE_OPTIONS :: "string list" where
  "GLOBAL_VALUE_OPTIONS = [''--cwd'', ''--root'']"

definition GLOBAL_BOOL_OPTIONS :: "string list" where
  "GLOBAL_BOOL_OPTIONS = [''--json'', ''--no-log'', ''--version'']"

definition HELP_FLAGS :: "string list" where
  "HELP_FLAGS = [''--help'', ''-h'', ''--show-completion'', ''--install-completion'']"

definition env_no_log :: "env \<Rightarrow> bool" where
  "env_no_log E =
     (let v = (case e_getenv E ''TASKLEDGER_NO_LOG'' of None \<Rightarrow> [] | Some v \<Rightarrow> v)
      in lower (strip v) \<in> {''1'', ''true'', ''yes'', ''on''})"

text \<open>The loop of \<open>_command_key_from_argv\<close>: the parts so far, and \<open>skip_next\<close>.\<close>

definition is_value_option :: "string \<Rightarrow> bool" where
  "is_value_option arg = list_ex (\<lambda>opt. startswith arg (opt @ ''='')) GLOBAL_VALUE_OPTIONS"

fun command_parts :: "string list \<Rightarrow> bool \<Rightarrow> string list \<Rightarrow> string list" where
  "command_parts parts skip [] = parts"
| "command_parts parts skip (arg # rest) =
     (if skip then command_parts parts False rest
      else if arg \<in> set GLOBAL_VALUE_OPTIONS then command_parts parts True rest
      else if is_value_option arg then command_parts parts False rest
      else if arg \<in> set GLOBAL_BOOL_OPTIONS then command_parts parts False rest
      else if startswith arg ''-'' then command_parts parts False rest
      else if 2 \<le> length (parts @ [arg]) then parts @ [arg]
      else command_parts (parts @ [arg]) False rest)"

definition command_key_from_argv :: "string list \<Rightarrow> string option" where
  "command_key_from_argv argv =
     (let parts = command_parts [] False argv
      in if parts = [] then None
         else let two = join '' '' (take 2 parts); one = hd parts
              in if 2 \<le> length parts \<and> listed two then Some two else Some one)"

definition has_process_exec :: "CommandSpec \<Rightarrow> bool" where
  "has_process_exec spec = (cs_external_effect spec = ''process_exec'')"

definition is_read_only :: "CommandSpec \<Rightarrow> bool" where
  "is_read_only spec \<longleftrightarrow>
     cs_ledger_effect spec \<in> {[], ''none'', ''read''}
     \<and> cs_workspace_effect spec \<in> {[], ''none'', ''read''}
     \<and> cs_external_effect spec \<in> {[], ''none''}"

definition should_skip_cli_recording ::
  "env \<Rightarrow> string list \<Rightarrow> AgentLoggingConfig \<Rightarrow> bool \<Rightarrow> bool" where
  "should_skip_cli_recording E argv config no_log =
     (if list_ex (\<lambda>f. f \<in> set argv) HELP_FLAGS then True
      else if no_log \<or> env_no_log E then True
      else if \<not> ac_enabled config \<or> \<not> ac_capture_taskledger_cli config then True
      else (case command_key_from_argv argv of
          None \<Rightarrow> False
        | Some key \<Rightarrow>
            (case map_of COMMAND_METADATA key of
               None \<Rightarrow> False
             | Some metadata \<Rightarrow>
                 if cs_audience metadata = HUMAN_ORIENTED \<and> \<not> ac_capture_human_oriented config then True
                 else if has_process_exec metadata then False
                 else if is_read_only metadata \<and> \<not> ac_capture_safe_read_only config then True
                 else False)))"

section \<open>The recorder reads the command off the invocation\<close>

definition name_words :: "string \<Rightarrow> string list" where
  "name_words n = split_char CHR '' '' n"

lemma split_char_some [simp]: "split_char c s \<noteq> []"
  by (induction s) (auto split: list.split)

lemma join_words: "join [c] ([] # ws) = (if ws = [] then [] else c # join [c] ws)"
    "join [c] ((x # w) # ws) = x # join [c] (w # ws)"
  by (cases ws; simp)+

lemma join_split: "join [c] (split_char c s) = s"
  by (induction s) (auto simp: join_words split: list.split)

lemma name_words_join: "join '' '' (name_words n) = n"
  by (simp add: name_words_def join_split)

text \<open>Every word of a name is a word of the command line: neither empty nor an option.\<close>

lemma table_words:
  "list_all (\<lambda>n. list_all (\<lambda>w. w \<noteq> [] \<and> hd w \<noteq> CHR ''-'') (name_words n)) (map fst COMMAND_METADATA)"
  unfolding table_names by code_simp

text \<open>The one-word names that also begin a longer name.\<close>

lemma table_extensions:
  "filter (\<lambda>n. CHR '' '' \<in> set n \<and> hd (name_words n) \<in> set [''init'', ''next-action'', ''can'',
       ''context'', ''trace'', ''status'', ''view'', ''usage'', ''monitor'', ''tree'', ''commands'',
       ''export'', ''import'', ''snapshot'', ''search'', ''grep'', ''symbols'', ''deps'', ''doctor'',
       ''reindex'']) (map fst COMMAND_METADATA)
    = [''doctor locks'', ''doctor schema'', ''doctor indexes'']"
  unfolding table_names by code_simp

lemma table_one_word:
  "filter (\<lambda>n. CHR '' '' \<notin> set n) (map fst COMMAND_METADATA)
    = [''init'', ''next-action'', ''can'', ''context'', ''trace'', ''status'', ''view'', ''usage'',
       ''monitor'', ''tree'', ''commands'', ''export'', ''import'', ''snapshot'', ''search'', ''grep'',
       ''symbols'', ''deps'', ''doctor'', ''reindex'']"
  unfolding table_names by code_simp

lemma one_word_not_extended:
  assumes "listed w" "CHR '' '' \<notin> set w" "listed (w @ '' '' @ x)"
  shows "w = ''doctor''"
proof -
  let ?ones = "filter (\<lambda>n. CHR '' '' \<notin> set n) (map fst COMMAND_METADATA)"
  have "w \<in> set ?ones" using assms by (simp add: listed_iff)
  moreover have "hd (name_words (w @ '' '' @ x)) = w"
    using assms(2) unfolding name_words_def by (induction w) (auto split: list.split)
  ultimately have "w @ '' '' @ x \<in> set (filter (\<lambda>n. CHR '' '' \<in> set n \<and> hd (name_words n) \<in> set ?ones)
      (map fst COMMAND_METADATA))"
    using assms(3) by (simp add: listed_iff)
  then have "w @ '' '' @ x \<in> set [''doctor locks'', ''doctor schema'', ''doctor indexes'']"
    unfolding table_one_word table_extensions .
  then have "hd (name_words (w @ '' '' @ x)) = ''doctor''"
    by (auto simp del: append_Cons append.simps simp: name_words_def)
  then show ?thesis using \<open>hd (name_words (w @ '' '' @ x)) = w\<close> by simp
qed

lemma listed_words:
  assumes "listed n" "w \<in> set (name_words n)"
  shows "w \<noteq> []" "hd w \<noteq> CHR ''-''"
proof -
  have n: "n \<in> set (map fst COMMAND_METADATA)" using assms(1) unfolding listed_iff .
  have "list_all (\<lambda>w. w \<noteq> [] \<and> hd w \<noteq> CHR ''-'') (name_words n)"
    using table_words n unfolding list_all_iff [of "\<lambda>n. list_all _ (name_words n)"] by (rule bspec)
  then show "w \<noteq> []" "hd w \<noteq> CHR ''-''" using assms(2) by (auto simp: list_all_iff)
qed

text \<open>Arguments before the command: the global options of the program, each with its value.\<close>

fun global_options :: "string list \<Rightarrow> bool" where
  "global_options [] = True"
| "global_options (a # as) =
     (if a \<in> set GLOBAL_VALUE_OPTIONS then (case as of [] \<Rightarrow> False | v # rest \<Rightarrow> global_options rest)
      else (is_value_option a \<or> a \<in> set GLOBAL_BOOL_OPTIONS) \<and> global_options as)"

lemma parts_after_options:
  "global_options opts \<Longrightarrow> command_parts [] False (opts @ argv) = command_parts [] False argv"
  by (induction opts rule: global_options.induct) (auto split: if_splits list.splits)

definition plain_word :: "string \<Rightarrow> bool" where
  "plain_word w \<longleftrightarrow> w \<noteq> [] \<and> hd w \<noteq> CHR ''-''"

lemma plain_word_kept:
  assumes "plain_word w"
  shows "command_parts parts False (w # argv)
    = (if 2 \<le> length (parts @ [w]) then parts @ [w] else command_parts (parts @ [w]) False argv)"
  using assms
  by (cases w) (auto simp: plain_word_def GLOBAL_VALUE_OPTIONS_def GLOBAL_BOOL_OPTIONS_def
      is_value_option_def)

lemma parts_grow:
  "length parts = 1 \<Longrightarrow>
     command_parts parts skip argv = parts \<or> (\<exists>x. command_parts parts skip argv = parts @ [x])"
  by (induction parts skip argv rule: command_parts.induct) auto

text \<open>The key of an invocation of a command of one or two words is its name.\<close>

lemma command_key_two:
  assumes "listed n" "name_words n = [a, b]" "global_options opts"
  shows "command_key_from_argv (opts @ name_words n @ rest) = Some n"
proof -
  have "plain_word a" "plain_word b"
    using listed_words [OF assms(1)] assms(2) by (auto simp: plain_word_def)
  then have "command_parts [] False (opts @ name_words n @ rest) = [a, b]"
    by (simp only: parts_after_options [OF assms(3)] assms(2) append_Cons append_Nil plain_word_kept)
      simp
  moreover have "n = join '' '' [a, b]" using name_words_join [of n] assms(2) by simp
  ultimately show ?thesis
    using assms(1) by (simp add: command_key_from_argv_def Let_def)
qed

lemma split_one_word: "split_char c n = [a] \<Longrightarrow> a = n \<and> c \<notin> set n"
  by (induction n arbitrary: a) (auto split: if_splits list.splits)

lemma command_key_one:
  assumes "listed n" "name_words n = [a]" "global_options opts" "n \<noteq> ''doctor''"
  shows "command_key_from_argv (opts @ name_words n @ rest) = Some n"
proof -
  have a: "a = n" "CHR '' '' \<notin> set n"
    using split_one_word assms(2) unfolding name_words_def by blast+
  have "plain_word n" using listed_words [OF assms(1)] assms(2) a by (auto simp: plain_word_def)
  then have "command_parts [] False (opts @ name_words n @ rest) = command_parts [n] False rest"
    by (simp only: parts_after_options [OF assms(3)] assms(2) a append_Cons append_Nil plain_word_kept)
      simp
  then consider "command_parts [] False (opts @ name_words n @ rest) = [n]"
    | x where "command_parts [] False (opts @ name_words n @ rest) = [n, x]"
    using parts_grow [of "[n]" False rest] by auto
  then show ?thesis
  proof cases
    case 2
    have "\<not> listed (n @ '' '' @ x)"
      using one_word_not_extended [OF assms(1) a(2)] assms(4) by blast
    then show ?thesis using 2 by (simp add: command_key_from_argv_def Let_def)
  qed (simp add: command_key_from_argv_def Let_def)
qed

definition recording_on :: "env \<Rightarrow> string list \<Rightarrow> AgentLoggingConfig \<Rightarrow> bool \<Rightarrow> bool" where
  "recording_on E argv config no_log \<longleftrightarrow>
     ac_enabled config \<and> ac_capture_taskledger_cli config \<and> \<not> no_log \<and> \<not> env_no_log E
     \<and> \<not> list_ex (\<lambda>f. f \<in> set argv) HELP_FLAGS"

lemma doctor_reads_only:
  "case map_of COMMAND_METADATA ''doctor'' of None \<Rightarrow> False | Some spec \<Rightarrow> is_read_only spec"
  by code_simp

lemma writing_command_key:
  assumes "map_of COMMAND_METADATA n = Some spec" "\<not> is_read_only spec"
    and "length (name_words n) \<le> 2" "global_options opts"
  shows "command_key_from_argv (opts @ name_words n @ rest) = Some n"
proof -
  have l: "listed n" using assms(1) by (simp add: listed_def)
  have d: "n \<noteq> ''doctor''"
    using assms(1, 2) doctor_reads_only by (auto simp del: map_of.simps)
  have "name_words n \<noteq> []" by (simp add: name_words_def)
  then consider a where "name_words n = [a]" | a b where "name_words n = [a, b]"
    using assms(3) by (cases "name_words n" rule: remdups_adj.cases) auto
  then show ?thesis
    using command_key_one [OF l _ assms(4) d] command_key_two [OF l _ assms(4)] by cases
qed

lemma writing_command_recorded:
  assumes "map_of COMMAND_METADATA n = Some spec" "\<not> is_read_only spec"
    and "length (name_words n) \<le> 2" "global_options opts"
    and "recording_on E (opts @ name_words n @ rest) config no_log"
  shows "should_skip_cli_recording E (opts @ name_words n @ rest) config no_log
    \<longleftrightarrow> cs_audience spec = HUMAN_ORIENTED \<and> \<not> ac_capture_human_oriented config"
  using assms(1, 2, 5)
  by (simp add: should_skip_cli_recording_def writing_command_key [OF assms(1-4)] recording_on_def
      del: map_of.simps)

text \<open>
  A name of three words is cut to two: \<open>sync git commit\<close>, which runs git, is judged as the
  read-only, human-oriented \<open>sync git\<close> and not recorded when either class is switched off.
\<close>

lemma three_word_key:
  "command_key_from_argv [''sync'', ''git'', ''commit''] = Some ''sync git''"
proof -
  have "listed ''sync git''" by (intro listedI list.set_intros)
  then show ?thesis
    by (simp add: command_key_from_argv_def Let_def GLOBAL_VALUE_OPTIONS_def GLOBAL_BOOL_OPTIONS_def
        is_value_option_def)
qed

lemma sync_git_group:
  "case map_of COMMAND_METADATA ''sync git'' of None \<Rightarrow> False
   | Some spec \<Rightarrow> cs_audience spec = HUMAN_ORIENTED \<and> is_read_only spec \<and> \<not> has_process_exec spec"
  by code_simp

lemma sync_git_commit_runs_git:
  "case map_of COMMAND_METADATA ''sync git commit'' of None \<Rightarrow> False | Some spec \<Rightarrow> has_process_exec spec"
  by code_simp

lemma three_word_command_skipped:
  assumes "\<not> ac_capture_human_oriented config \<or> \<not> ac_capture_safe_read_only config"
  shows "should_skip_cli_recording E [''sync'', ''git'', ''commit''] config False"
  using assms sync_git_group
  by (auto simp: should_skip_cli_recording_def three_word_key simp del: map_of.simps split: option.splits)

end
