(* ===== verification/Proposals.thy ===== *)
theory Proposals
  imports Inventory Capabilities
begin

text \<open>
  The command lines that \<open>next-action\<close> proposes, checked against the command inventory.
\<close>

section \<open>What \<open>next-action\<close> proposes is listed\<close>

text \<open>A command line that starts with a listed command which is not deprecated.\<close>

definition known_command :: "string \<Rightarrow> bool" where
  "known_command c \<longleftrightarrow>
     list_ex (\<lambda>(n, spec). \<not> cs_deprecated spec
       \<and> (c = ''taskledger '' @ n \<or> startswith c (''taskledger '' @ n @ '' ''))) COMMAND_METADATA"

lemma listed_spec:
  assumes "listed n" "n \<notin> {''sync git sync'', ''lock break''}"
  shows "\<exists>spec. (n, spec) \<in> set COMMAND_METADATA \<and> \<not> cs_deprecated spec"
proof -
  obtain spec where s: "(n, spec) \<in> set COMMAND_METADATA"
    using assms(1) by (auto simp: listed_iff)
  have "\<not> cs_deprecated spec"
  proof
    assume "cs_deprecated spec"
    then have "(n, cs_replaced_by spec) \<in> set (map (\<lambda>(n, spec). (n, cs_replaced_by spec))
        (filter (\<lambda>(n, spec). cs_deprecated spec) COMMAND_METADATA))"
      using s by force
    then show False using assms(2) unfolding deprecated_names by auto
  qed
  then show ?thesis using s by blast
qed

lemma known_commandI:
  assumes "listed n" "c = ''taskledger '' @ n \<or> startswith c (''taskledger '' @ n @ '' '')"
    and "n \<notin> {''sync git sync'', ''lock break''}"
  shows "known_command c"
  using listed_spec [OF assms(1, 3)] assms(2) by (auto simp: known_command_def list_ex_iff)

lemma listed_used:
  "listed ''plan start''" "listed ''plan upsert''" "listed ''plan review''" "listed ''plan accept''"
  "listed ''plan revise''" "listed ''plan export''" "listed ''plan guidance''" "listed ''plan template''"
  "listed ''question answer''" "listed ''question answer-many''" "listed ''question status''"
  "listed ''question answers''" "listed ''implement start''" "listed ''implement restart''"
  "listed ''implement resume''" "listed ''implement checklist''" "listed ''implement finish''"
  "listed ''validate start''" "listed ''validate check''" "listed ''validate status''"
  "listed ''validate finish''" "listed ''todo show''" "listed ''todo done''" "listed ''repair lock''"
  "listed ''lock show''" "listed ''doctor''" "listed ''task show''" "listed ''task unarchive''"
  "listed ''pipeline context''" "listed ''handoff create''" "listed ''review record''"
  by (intro listedI list.set_intros)+

lemmas known_used = listed_used [THEN known_commandI]

lemmas command_defs =
  question_answer_command_def plan_review_command_def repair_lock_command_def
  implement_resume_command_def check_command_hint_def todo_done_command_def evidence_hint_def
  unarchive_command_def guided_worker_handoff_command_def

lemma known_closed:
  "known_command ''taskledger plan start''" "known_command ''taskledger plan upsert --file plan.md''"
  "known_command ''taskledger question answer-many --file answers.yaml''"
  "known_command ''taskledger plan upsert --from-answers --file plan.md''"
  "known_command ''taskledger plan review --version VERSION''"
  "known_command ''taskledger implement start''"
  "known_command ''taskledger implement restart --summary SUMMARY''"
  "known_command ''taskledger implement resume --reason REASON''"
  "known_command ''taskledger implement resume --repair-expired-lock --reason REASON''"
  "known_command ''taskledger implement checklist''"
  "known_command ''taskledger implement finish --summary SUMMARY''"
  "known_command ''taskledger validate start''"
  "known_command ''taskledger validate finish --result passed --summary SUMMARY''"
  "known_command ''taskledger lock show''" "known_command ''taskledger doctor''"
  "known_command ''taskledger validate status''" "known_command ''taskledger plan revise''"
  "known_command ''taskledger question status''" "known_command ''taskledger question answers''"
  "known_command ''taskledger plan guidance''"
  "known_command ''taskledger plan template --from-answers --file plan.md''"
  "known_command ''taskledger plan template --include-guidance --file plan.md''"
  by (rule known_used; simp; fail)+

lemma known_open:
  "known_command (question_answer_command i)" "known_command (plan_review_command p)"
  "known_command (repair_lock_command i)" "known_command (implement_resume_command t)"
  "known_command (check_command_hint i)" "known_command (todo_done_command i)"
  "known_command (unarchive_command task)" "known_command (guided_worker_handoff_command i b)"
  by (rule known_used; simp add: command_defs quoted_reason_def split: option.split; fail)+

lemma known_open2:
  "known_command (''taskledger todo show '' @ i)" "known_command (''taskledger task show --task '' @ i)"
  "known_command (''taskledger implement resume --repair-expired-lock --task '' @ i)"
  "known_command (''taskledger plan accept --version '' @ i)"
  "known_command (''taskledger plan export --version '' @ i)"
  "known_command (''taskledger pipeline context '' @ i)"
  "known_command (''taskledger review record --worker '' @ i)"
  by (rule known_used; simp; fail)+

definition all_known :: "next_command list \<Rightarrow> bool" where
  "all_known cs = list_all (\<lambda>c. known_command (nc_command c)) cs"

lemma all_known_simps [simp]:
  "all_known []" "all_known (c # cs) \<longleftrightarrow> known_command (nc_command c) \<and> all_known cs"
  "all_known (xs @ ys) \<longleftrightarrow> all_known xs \<and> all_known ys"
  by (simp_all add: all_known_def)

lemma entry_command [simp]: "nc_command (command_entry k l t p) = t"
  by (simp add: command_entry_def)

lemmas known_lines = known_closed known_open known_open2

lemma known_action: "next_action_command a = Some c \<Longrightarrow> known_command c"
  by (auto simp: next_action_command_def known_lines split: if_splits)

lemma known_primary: "primary_command_for_next_item a i = Some c \<Longrightarrow> known_command c"
  by (cases i; cases "the i")
    (auto simp: primary_command_for_next_item_def known_lines known_action
      simp del: append_Cons append.simps split: if_splits)

lemma known_general: "all_known (general_item_commands a i)"
  by (auto simp: general_item_commands_def known_primary known_lines checklist_command_def
      validation_status_command_def split: option.split)

lemma known_commands_for: "all_known (commands_for_next_item a i)"
  by (cases i; cases "the i")
    (auto simp: commands_for_next_item_def known_lines known_primary known_general checklist_command_def
      validation_status_command_def plan_item_commands_def todo_command_hints_def Let_def
      simp del: append_Cons append.simps split: option.split)

lemma known_pipeline:
  assumes "guided_worker_pipeline_payload E task l = Some p" "all_known cs"
  shows "all_known (append_guided_worker_pipeline_commands cs p)"
proof -
  have "known_command (gp_context_command p)" "known_command (gp_handoff_command p)"
    "\<And>c. gp_review_command p = Some c \<Longrightarrow> known_command c"
    using assms(1)
    by (auto simp: guided_worker_pipeline_payload_def guided_worker_review_command_def known_lines
        simp del: append_Cons append.simps split: option.splits if_splits)
  moreover have "all_known (takeWhile (\<lambda>c. \<not> nc_primary c) cs)"
    "all_known (dropWhile (\<lambda>c. \<not> nc_primary c) cs)"
    using assms(2) takeWhile_dropWhile_id [of "\<lambda>c. \<not> nc_primary c" cs]
    by (metis all_known_simps(3))+
  ultimately show ?thesis
    using assms(2)
    by (auto simp: append_guided_worker_pipeline_commands_def Let_def split: list.split option.split)
qed

lemma known_guidance: "guidance_command E task a st runs = Some c \<Longrightarrow> known_command c"
  by (auto simp: guidance_command_def known_lines split: if_splits)

lemma known_template: "template_command_for a g = Some c \<Longrightarrow> known_command c"
  by (auto simp: template_command_for_def known_lines split: if_splits)

lemma next_action_known:
  assumes "next_action E ref l = Inr p"
  shows "all_known (np_commands p)" "np_next_command p = Some c \<Longrightarrow> known_command c"
    "np_guidance_command p = Some c \<Longrightarrow> known_command c"
    "np_template_command p = Some c \<Longrightarrow> known_command c"
  using assms
  by (auto simp: next_action_def next_action_for_task_def bindR_def Let_def
      archived_next_action_payload_def known_lines known_guidance
      known_primary known_commands_for known_template
      intro!: known_pipeline split: sum.splits if_splits option.splits)

text \<open>The one primary command of a payload is its next command.\<close>

lemma next_action_primary:
  assumes "next_action E ref l = Inr p" "np_action p \<notin> {''archived'', ''expired-lock-resume''}"
  shows "primary_commands (np_commands p) = (case np_next_command p of None \<Rightarrow> [] | Some c \<Rightarrow> [c])"
  using assms
  by (auto simp: next_action_def next_action_for_task_def bindR_def Let_def archived_next_action_payload_def
      dest!: decided_item_fits split: sum.splits if_splits option.splits simp: commands_primary)

end
