(* ===== verification/Exchange.thy ===== *)
theory Exchange
  imports Collections Ledgers Reviews
begin

text \<open>
  Export and import of a project as one JSON document (\<open>exchange.py\<close>): the collections of the
  payload, selection of tasks, omission of bodies, the renumbering of task ids on import, the import
  of every collection and the repair of the task counter. A parsed JSON document is a value of type
  \<open>pyval\<close>; printing it turns tuples into lists, which is \<open>untuple\<close>. The archive around the document
  (tar members, checksums, artifact files) and the index files are left out, and so are the fields
  of the result of an import that repeat the document. A task directory is one that holds a task
  record.
\<close>

section \<open>The project\<close>

record project =
  pj_ledger :: ledger
  pj_logs :: "AgentCommandLogRecord list"

type_synonym 'a project_command = "(project, error, 'a) cmd"

definition on_ledger :: "(ledger \<Rightarrow> ledger) \<Rightarrow> project \<Rightarrow> project" where
  "on_ledger f p = p\<lparr>pj_ledger := f (pj_ledger p)\<rparr>"

definition run_on_ledger :: "'a command \<Rightarrow> 'a project_command" where
  "run_on_ledger c p = (case c (pj_ledger p) of (r, l') \<Rightarrow> (r, p\<lparr>pj_ledger := l'\<rparr>))"

text \<open>
  \<open>load_events\<close>: the log files are named by day and read in the order of their names; an id that
  occurs twice is an error.
\<close>

definition load_events :: "ledger \<Rightarrow> error + TaskEvent list" where
  "load_events l =
     (let events = sort_key (\<lambda>e. take 10 (ev_ts e)) (l_events l)
      in if distinct (map ev_event_id events)
         then Inr (sort_key (\<lambda>e. (ev_ts e, ev_event_id e)) events)
         else Inl (launch_error ''duplicate event id''))"

text \<open>\<open>load_agent_command_logs\<close>: a log id that was seen before is dropped.\<close>

fun first_logs :: "string list \<Rightarrow> AgentCommandLogRecord list \<Rightarrow> AgentCommandLogRecord list" where
  "first_logs seen [] = []"
| "first_logs seen (r # rs) =
     (if al_log_id r \<in> set seen then first_logs seen rs
      else r # first_logs (al_log_id r # seen) rs)"

definition load_agent_command_logs :: "project \<Rightarrow> AgentCommandLogRecord list" where
  "load_agent_command_logs p =
     sort_key (\<lambda>r. (al_started_at r, al_log_id r))
       (first_logs [] (sort_key (\<lambda>r. take 10 (al_started_at r)) (pj_logs p)))"

section \<open>Export\<close>

definition json_records :: "('r \<Rightarrow> pydict) \<Rightarrow> 'r list \<Rightarrow> pyval" where
  "json_records to_dict rs = PList (map (\<lambda>r. PDict (to_dict r)) rs)"

definition per_task :: "TaskRecord list \<Rightarrow> (string \<Rightarrow> 'r list) \<Rightarrow> 'r list" where
  "per_task tasks f = concat (map (\<lambda>t. f (tk_id t)) tasks)"

text \<open>\<open>item.pop(field)\<close> and the mark \<open><field>_omitted\<close>\<close>

definition dset :: "string \<Rightarrow> pyval \<Rightarrow> pydict \<Rightarrow> pydict" where
  "dset k v d = (if has_key d k then map (\<lambda>(k', v'). (k', if k' = k then v else v')) d else d @ [(k, v)])"

definition omit_field :: "string \<Rightarrow> pydict \<Rightarrow> pydict" where
  "omit_field field item =
     (if has_key item field
      then dset (field @ ''_omitted'') (PBool True) (filter (\<lambda>(k, _). k \<noteq> field) item)
      else item)"

text \<open>The mappings of a list are changed in place; other entries stay.\<close>

fun map_dicts :: "(pydict \<Rightarrow> pydict) \<Rightarrow> pyval \<Rightarrow> pyval" where
  "map_dicts f (PList vs) = PList (map (\<lambda>v. case v of PDict d \<Rightarrow> PDict (f d) | _ \<Rightarrow> v) vs)"
| "map_dicts f v = v"

definition update_collection :: "string \<Rightarrow> (pydict \<Rightarrow> pydict) \<Rightarrow> pydict \<Rightarrow> pydict" where
  "update_collection key f payload =
     (if has_key payload key then dset key (map_dicts f (dget payload key)) payload else payload)"

definition strip_export_bodies :: "pydict \<Rightarrow> pydict" where
  "strip_export_bodies payload =
     foldl (\<lambda>d (key, field). update_collection key (omit_field field) d) payload
       [(''tasks'', ''body''), (''introductions'', ''body''), (''plans'', ''body''),
        (''code_reviews'', ''body''), (''handoffs'', ''context_body'')]"

definition export_v2_payload :: "env \<Rightarrow> bool \<Rightarrow> string list option \<Rightarrow> project \<Rightarrow> error + pydict" where
  "export_v2_payload E include_bodies selected p =
     (let l = pj_ledger p;
          chosen = (\<lambda>i. case selected of None \<Rightarrow> True | Some ids \<Rightarrow> i \<in> set ids);
          tasks = filter (\<lambda>t. chosen (tk_id t)) (list_tasks l)
      in bindR (load_events l) (\<lambda>events.
         let payload =
           [(''tasks'', json_records TaskRecord_to_dict tasks),
            (''active_task'', case (selected, l_active l) of
               (None, Some state) \<Rightarrow> PDict (ActiveTaskState_to_dict state) | _ \<Rightarrow> PNone),
            (''introductions'', json_records IntroductionRecord_to_dict
               (if selected = None then list_introductions l else [])),
            (''releases'', json_records ReleaseRecord_to_dict
               (if selected = None then list_releases E l else [])),
            (''plans'', json_records PlanRecord_to_dict (per_task tasks (\<lambda>t. list_plans t l))),
            (''questions'', json_records QuestionRecord_to_dict (per_task tasks (\<lambda>t. list_questions t l))),
            (''runs'', json_records TaskRunRecord_to_dict (per_task tasks (\<lambda>t. list_runs t l))),
            (''changes'', json_records CodeChangeRecord_to_dict (per_task tasks (\<lambda>t. list_changes t l))),
            (''checks'', json_records ImplementationCheckRecord_to_dict (per_task tasks (\<lambda>t. list_checks t l))),
            (''code_reviews'', json_records CodeReviewRecord_to_dict (per_task tasks (\<lambda>t. list_code_reviews t l))),
            (''handoffs'', json_records TaskHandoffRecord_to_dict (per_task tasks (\<lambda>t. list_handoffs t l))),
            (''todos'', json_records TaskTodo_to_dict (per_task tasks (\<lambda>t. load_todos t l))),
            (''links'', json_records FileLink_to_dict (per_task tasks (\<lambda>t. load_links t l))),
            (''requirements'',
               json_records DependencyRequirement_to_dict (per_task tasks (\<lambda>t. load_requirements t l))),
            (''locks'', json_records TaskLock_to_dict
               (filter (\<lambda>k. chosen (lk_task_id k)) (load_active_locks l))),
            (''events'', json_records TaskEvent_to_dict (filter (\<lambda>e. chosen (ev_task_id e)) events)),
            (''agent_command_logs'', json_records AgentCommandLogRecord_to_dict
               (filter (\<lambda>r. selected = None \<or> (case al_task_id r of None \<Rightarrow> False | Some t \<Rightarrow> chosen t))
                  (load_agent_command_logs p)))]
         in Inr (if include_bodies then payload else strip_export_bodies payload)))"

text \<open>The document around the payload; \<open>project_dir\<close> is the path of the project directory.\<close>

definition payload_sizes :: "pydict \<Rightarrow> pydict" where
  "payload_sizes d =
     List.map_filter (\<lambda>(k, v). case v of PList vs \<Rightarrow> Some (k, PInt (int (length (dict_list v)))) | _ \<Rightarrow> None) d"

definition export_project_payload ::
  "env \<Rightarrow> string \<Rightarrow> bool \<Rightarrow> bool \<Rightarrow> string list \<Rightarrow> project \<Rightarrow> error + pydict" where
  "export_project_payload E project_dir include_bodies include_run_artifacts selected p =
     bindR (export_v2_payload E include_bodies (if selected = [] then None else Some selected) p) (\<lambda>v2.
     Inr [(''kind'', PStr ''taskledger_export''), (''version'', PInt 4), (''schema_version'', PInt 2),
       (''generated_at'', PStr (e_now E)), (''project_dir'', PStr project_dir),
       (''archive_scope'', PStr (if selected = [] then ''ledger'' else ''tasks'')),
       (''selected_task_ids'', str_list selected),
       (''options'', PDict [(''include_bodies'', PBool include_bodies),
          (''include_run_artifacts'', PBool include_run_artifacts)]),
       (''counts'', PDict (payload_sizes v2)), (''v2'', PDict v2)])"

text \<open>\<open>resolve_export_selection\<close>: the ids of the referenced tasks, each once\<close>

fun selected_ids :: "env \<Rightarrow> ledger \<Rightarrow> string list \<Rightarrow> string list \<Rightarrow> error + string list" where
  "selected_ids E l ordered [] = Inr ordered"
| "selected_ids E l ordered (ref # refs) =
     bindR (resolve_task E False (strip ref) l) (\<lambda>t.
       if tk_id t \<in> set ordered then selected_ids E l ordered refs
       else selected_ids E l (ordered @ [tk_id t]) refs)"

definition resolve_export_selection :: "env \<Rightarrow> ledger \<Rightarrow> string list \<Rightarrow> error + string list option" where
  "resolve_export_selection E l refs =
     (if refs = [] then Inr None
      else bindR (selected_ids E l [] refs) (\<lambda>ordered.
        if ordered = [] then Inl (launch_error ''no tasks selected'') else Inr (Some ordered)))"

section \<open>Import\<close>

datatype lock_import = LI_drop | LI_keep | LI_quarantine
datatype id_import = II_preserve | II_renumber_on_conflict | II_fail_on_conflict

definition lock_import_names :: "(lock_import \<times> string) list" where
  "lock_import_names = [(LI_drop, ''drop''), (LI_keep, ''keep''), (LI_quarantine, ''quarantine'')]"

definition id_import_names :: "(id_import \<times> string) list" where
  "id_import_names = [(II_preserve, ''preserve''), (II_renumber_on_conflict, ''renumber-on-conflict''),
     (II_fail_on_conflict, ''fail-on-conflict'')]"

definition policy_of :: "('p \<times> string) list \<Rightarrow> string \<Rightarrow> error + 'p" where
  "policy_of table v =
     (case find (\<lambda>(_, n). n = v) table of
        Some (pol, _) \<Rightarrow> Inr pol | None \<Rightarrow> Inl (launch_error ''unknown import policy''))"

text \<open>
  \<open>parse_project_import_payload\<close>: the parsed text, or the result inside the envelope that the
  command line prints around it.
\<close>

definition export_kind :: "pydict \<Rightarrow> bool" where
  "export_kind d \<longleftrightarrow> dget d ''kind'' \<in> {PStr ''taskledger_export'', PStr ''project_export''}"

definition unwrap :: "string \<Rightarrow> string \<Rightarrow> pydict \<Rightarrow> pydict \<Rightarrow> pydict" where
  "unwrap flag key payload dflt =
     (case (dget payload flag, dget payload key) of
        (PBool True, PDict candidate) \<Rightarrow> if export_kind candidate then candidate else dflt
      | _ \<Rightarrow> dflt)"

definition parse_project_import_payload :: "string \<Rightarrow> pyval option \<Rightarrow> error + pydict" where
  "parse_project_import_payload format_name parsed =
     (if format_name \<noteq> ''json'' then Inl (launch_error ''unsupported import format'')
      else case parsed of
        None \<Rightarrow> Inl (launch_error ''invalid import JSON'')
      | Some (PDict payload) \<Rightarrow>
          (let result = unwrap ''ok'' ''result'' payload (unwrap ''success'' ''data'' payload payload)
           in if dget result ''kind'' \<noteq> PNone \<and> \<not> export_kind result
              then Inl (launch_error ''unsupported import kind'') else Inr result)
      | Some _ \<Rightarrow> Inl (launch_error ''import JSON is no object''))"

text \<open>\<open>_build_import_task_id_map\<close>: the map in the order of its keys, with the next number\<close>

fun import_id_map ::
  "env \<Rightarrow> id_import \<Rightarrow> string list \<Rightarrow> nat \<Rightarrow> (string \<times> string) list \<Rightarrow> string list
    \<Rightarrow> error + (string \<times> string) list" where
  "import_id_map E pol allocated next_number id_map [] = Inr id_map"
| "import_id_map E pol allocated next_number id_map (incoming # rest) =
     (if incoming \<in> fst ` set id_map then import_id_map E pol allocated next_number id_map rest
      else if incoming \<notin> set allocated
      then import_id_map E pol (incoming # allocated) next_number (id_map @ [(incoming, incoming)]) rest
      else if pol \<noteq> II_renumber_on_conflict then Inl (launch_error ''task id already exists'')
      else (case allocate_ledger_task_id E (sort allocated) next_number of (new_id, next_number') \<Rightarrow>
        import_id_map E pol (new_id # allocated) next_number' (id_map @ [(incoming, new_id)]) rest))"

definition build_import_task_id_map ::
  "env \<Rightarrow> id_import \<Rightarrow> string list \<Rightarrow> ledger \<Rightarrow> error + (string \<times> string) list" where
  "build_import_task_id_map E pol incoming l =
     import_id_map E pol (map tk_id (list_tasks l)) (l_next_task_number l) [] incoming"

text \<open>\<open>_rewrite_task_ids_in_payload\<close>\<close>

definition rewrite_task_id :: "(string \<times> string) list \<Rightarrow> pyval \<Rightarrow> pyval" where
  "rewrite_task_id id_map v =
     (case v of PStr s \<Rightarrow> (case map_of id_map s of Some t \<Rightarrow> PStr t | None \<Rightarrow> v) | _ \<Rightarrow> v)"

definition rewrite_key :: "(string \<times> string) list \<Rightarrow> string \<Rightarrow> pydict \<Rightarrow> pydict" where
  "rewrite_key id_map key item =
     (if has_key item key then dset key (rewrite_task_id id_map (dget item key)) item else item)"

definition rewrite_task_item :: "(string \<times> string) list \<Rightarrow> pydict \<Rightarrow> pydict" where
  "rewrite_task_item id_map item =
     (let item1 = dset ''id'' (rewrite_task_id id_map (dget item ''id'')) item;
          item2 = rewrite_key id_map ''parent_task_id'' item1
      in case dget item2 ''requirements'' of
           PList vs \<Rightarrow> dset ''requirements'' (PList (map (rewrite_task_id id_map) vs)) item2
         | _ \<Rightarrow> item2)"

definition TASK_ID_COLLECTIONS :: "string list" where
  "TASK_ID_COLLECTIONS =
     [''plans'', ''questions'', ''runs'', ''changes'', ''checks'', ''code_reviews'', ''handoffs'',
      ''todos'', ''links'', ''locks'', ''events'', ''agent_command_logs'']"

definition rewrite_requirement_item :: "(string \<times> string) list \<Rightarrow> pydict \<Rightarrow> pydict" where
  "rewrite_requirement_item id_map item =
     rewrite_key id_map ''required_task_id'' (rewrite_key id_map ''parent_task_id''
       (rewrite_key id_map ''task_id'' item))"

definition rewrite_active_task :: "(string \<times> string) list \<Rightarrow> pydict \<Rightarrow> pydict" where
  "rewrite_active_task id_map payload =
     (case dget payload ''active_task'' of
        PDict active \<Rightarrow>
          if has_key active ''task_id''
          then dset ''active_task'' (PDict (rewrite_key id_map ''previous_task_id''
                 (rewrite_key id_map ''task_id'' active))) payload
          else payload
      | _ \<Rightarrow> payload)"

definition rewrite_task_ids_in_payload ::
  "(string \<times> string) list \<Rightarrow> bool \<Rightarrow> pydict \<Rightarrow> pydict" where
  "rewrite_task_ids_in_payload id_map include_active_task raw =
     (let drop_active = (\<lambda>d. if include_active_task then d else dset ''active_task'' PNone d)
      in if id_map = [] then drop_active raw
         else let d1 = update_collection ''tasks'' (rewrite_task_item id_map) raw;
                  d2 = foldl (\<lambda>d key. update_collection key (rewrite_key id_map ''task_id'') d)
                         d1 TASK_ID_COLLECTIONS;
                  d3 = update_collection ''requirements'' (rewrite_requirement_item id_map) d2;
                  d4 = update_collection ''releases'' (rewrite_key id_map ''boundary_task_id'') d3
              in if include_active_task then rewrite_active_task id_map d4
                 else dset ''active_task'' PNone d4)"

section \<open>Importing the collections\<close>

text \<open>One mapping after the other: parse it, then save the record.\<close>

definition import_each ::
  "(pydict \<Rightarrow> error + 'r) \<Rightarrow> ('r \<Rightarrow> unit project_command) \<Rightarrow> pyval \<Rightarrow> unit project_command" where
  "import_each parse save v = forE (dict_list v) (\<lambda>item. bindE (liftE (parse item)) save)"

definition put_record :: "('r \<Rightarrow> ledger \<Rightarrow> ledger) \<Rightarrow> 'r \<Rightarrow> unit project_command" where
  "put_record save r = modifyE (on_ledger (save r))"

text \<open>A task brings its embedded todos, links and requirements.\<close>

definition import_task :: "env \<Rightarrow> TaskRecord \<Rightarrow> ledger \<Rightarrow> ledger" where
  "import_task E task l =
     (let l1 = save_task task l;
          l2 = (if tk_todos task = [] then l1 else save_todos (tk_id task) (tk_todos task) l1);
          l3 = (if tk_file_links task = [] then l2 else save_links E (tk_id task) (tk_file_links task) l2)
      in if tk_requirements task = [] then l3
         else save_requirements (tk_id task) (map (new_requirement E) (tk_requirements task)) l3)"

text \<open>
  \<open>_import_standalone_collections\<close> groups the mappings by the task id they carry, groups in the
  order of their first mapping. A todo carries none and a requirement carries the id of the task
  that is required.
\<close>

fun group_item :: "string \<Rightarrow> pydict \<Rightarrow> (string \<times> pydict list) list \<Rightarrow> (string \<times> pydict list) list" where
  "group_item tid item [] = [(tid, [item])]"
| "group_item tid item ((t, items) # gs) =
     (if t = tid then (t, items @ [item]) # gs else (t, items) # group_item tid item gs)"

definition group_items :: "(pydict \<Rightarrow> string) \<Rightarrow> pydict list \<Rightarrow> (string \<times> pydict list) list" where
  "group_items tid items = foldl (\<lambda>gs item. group_item (tid item) item gs) [] items"

definition item_task_id :: "pydict \<Rightarrow> string" where
  "item_task_id item = str_of_or (dget item ''task_id'') []"

definition requirement_task_id :: "pydict \<Rightarrow> string" where
  "requirement_task_id item =
     (if truthy (dget item ''task_id'') then py_str (dget item ''task_id'')
      else str_of_or (dget item ''parent_task_id'') [])"

definition import_groups ::
  "(pydict \<Rightarrow> string) \<Rightarrow> (pydict \<Rightarrow> error + 'r) \<Rightarrow> (string \<Rightarrow> 'r list \<Rightarrow> ledger \<Rightarrow> ledger) \<Rightarrow> pyval
    \<Rightarrow> unit project_command" where
  "import_groups tid parse save v =
     forE (group_items tid (dict_list v)) (\<lambda>(t, items).
       bindE (liftE (mapR parse items)) (\<lambda>rs. modifyE (on_ledger (save t rs))))"

definition import_standalone_collections :: "env \<Rightarrow> pydict \<Rightarrow> unit project_command" where
  "import_standalone_collections E raw =
     thenE (import_groups item_task_id (\<lambda>d. TaskTodo_from_dict (e_now E) (PDict d)) save_todos
              (dget raw ''todos''))
    (thenE (import_groups item_task_id (\<lambda>d. FileLink_from_dict (e_now E) (PDict d)) (save_links E)
              (dget raw ''links''))
       (import_groups requirement_task_id (\<lambda>d. DependencyRequirement_from_dict (e_now E) (PDict d))
          save_requirements (dget raw ''requirements'')))"

definition import_active_task :: "env \<Rightarrow> pydict \<Rightarrow> unit project_command" where
  "import_active_task E raw =
     (if dget raw ''active_task'' = PNone then returnE ()
      else bindE (liftE (ActiveTaskState_from_dict (e_now E) (dget raw ''active_task''))) (\<lambda>state.
        bindE (getsE (list_tasks \<circ> pj_ledger)) (\<lambda>tasks.
        thenE (guardE (list_ex (\<lambda>t. tk_id t = as_task_id state) tasks)
            (launch_error ''active task points to missing task''))
          (modifyE (on_ledger (save_active_task_state state))))))"

definition import_releases :: "env \<Rightarrow> pydict \<Rightarrow> unit project_command" where
  "import_releases E raw =
     bindE (getsE (map tk_id \<circ> list_tasks \<circ> pj_ledger)) (\<lambda>ids.
     thenE (guardE (list_all (\<lambda>item. str_of_or (dget item ''boundary_task_id'') [] \<in> set ids)
              (dict_list (dget raw ''releases'')))
            (launch_error ''releases reference missing boundary tasks''))
       (import_each (ReleaseRecord_from_dict (e_now E)) (\<lambda>r. run_on_ledger (save_release r))
          (dget raw ''releases'')))"

definition import_plan :: "PlanRecord \<Rightarrow> unit project_command" where
  "import_plan plan =
     bindE (getsE (\<lambda>p. dir_get (l_plans (pj_ledger p) (pl_task_id plan)) (plan_id (pl_plan_version plan))))
       (\<lambda>existing.
         if existing = None then run_on_ledger (save_plan plan)
         else modifyE (on_ledger (overwrite_plan plan)))"

text \<open>
  \<open>_import_locks\<close>: all locks are parsed first. A quarantined lock is kept as an audit file only.
\<close>

definition quarantine_lock :: "TaskLock \<Rightarrow> ledger \<Rightarrow> ledger" where
  "quarantine_lock lock l =
     (let key = (lk_task_id lock, ''imported-lock-'' @ lk_lock_id lock)
      in l\<lparr>l_audit := filter (\<lambda>(k, _). k \<noteq> key) (l_audit l) @ [(key, lock)]\<rparr>)"

definition import_locks :: "env \<Rightarrow> lock_import \<Rightarrow> pydict \<Rightarrow> unit project_command" where
  "import_locks E pol raw =
     bindE (liftE (mapR (TaskLock_from_dict (e_now E)) (dict_list (dget raw ''locks'')))) (\<lambda>locks.
     case pol of
       LI_drop \<Rightarrow> returnE ()
     | LI_keep \<Rightarrow> forE locks (\<lambda>k. run_on_ledger (write_lock (lk_task_id k) k))
     | LI_quarantine \<Rightarrow> forE locks (\<lambda>k. modifyE (on_ledger (quarantine_lock k))))"

text \<open>Events and logs that are already there are skipped, unless the import replaces everything.\<close>

definition import_events :: "env \<Rightarrow> bool \<Rightarrow> pydict \<Rightarrow> unit project_command" where
  "import_events E replace raw =
     bindE (if replace then thenE (modifyE (on_ledger (\<lambda>l. l\<lparr>l_events := []\<rparr>))) (returnE [])
            else readE (\<lambda>p. bindR (load_events (pj_ledger p)) (\<lambda>es. Inr (map ev_event_id es)))) (\<lambda>existing.
     import_each (TaskEvent_from_dict (e_now E))
       (\<lambda>e. whenE (replace \<or> ev_event_id e \<notin> set existing)
          (modifyE (on_ledger (\<lambda>l. l\<lparr>l_events := l_events l @ [e]\<rparr>))))
       (dget raw ''events''))"

definition import_logs :: "env \<Rightarrow> bool \<Rightarrow> pydict \<Rightarrow> unit project_command" where
  "import_logs E replace raw =
     bindE (getsE (\<lambda>p. if replace then [] else map al_log_id (load_agent_command_logs p))) (\<lambda>existing.
     import_each (AgentCommandLogRecord_from_dict (e_now E))
       (\<lambda>r. whenE (replace \<or> al_log_id r \<notin> set existing)
          (modifyE (\<lambda>p. p\<lparr>pj_logs := pj_logs p @ [r]\<rparr>)))
       (dget raw ''agent_command_logs''))"

definition import_v2_payload :: "env \<Rightarrow> bool \<Rightarrow> lock_import \<Rightarrow> pydict \<Rightarrow> unit project_command" where
  "import_v2_payload E replace pol raw =
     (let now = e_now E
      in thenE (import_each (TaskRecord_from_dict now) (put_record (import_task E)) (dget raw ''tasks''))
        (thenE (import_standalone_collections E raw)
        (thenE (import_active_task E raw)
        (thenE (import_each (IntroductionRecord_from_dict now) (put_record save_introduction)
                  (dget raw ''introductions''))
        (thenE (import_releases E raw)
        (thenE (import_each (PlanRecord_from_dict now) import_plan (dget raw ''plans''))
        (thenE (import_each (QuestionRecord_from_dict now) (put_record save_question) (dget raw ''questions''))
        (thenE (import_each (TaskRunRecord_from_dict now) (put_record save_run) (dget raw ''runs''))
        (thenE (import_each (CodeChangeRecord_from_dict now) (put_record save_change) (dget raw ''changes''))
        (thenE (import_each (ImplementationCheckRecord_from_dict now) (put_record save_check)
                  (dget raw ''checks''))
        (thenE (import_each (CodeReviewRecord_from_dict now) (put_record save_code_review)
                  (dget raw ''code_reviews''))
        (thenE (import_each (\<lambda>d. TaskHandoffRecord_from_dict now (PDict d)) (put_record save_handoff)
                  (dget raw ''handoffs''))
        (thenE (import_locks E pol raw)
        (thenE (import_events E replace raw)
           (import_logs E replace raw)))))))))))))))"

text \<open>\<open>_clear_v2_state\<close>: the directories of tasks and the shared directories; logs stay.\<close>

definition clear_v2_state :: "ledger \<Rightarrow> ledger" where
  "clear_v2_state l =
     (let of_task = (\<lambda>t. startswith t ''task-'')
      in l\<lparr>l_tasks := filter (\<lambda>(k, _). \<not> of_task k) (l_tasks l),
           l_locks := filter (\<lambda>(k, _). \<not> of_task k) (l_locks l),
           l_runs := (\<lambda>t. if of_task t then [] else l_runs l t),
           l_plans := (\<lambda>t. if of_task t then [] else l_plans l t),
           l_questions := (\<lambda>t. if of_task t then [] else l_questions l t),
           l_todos := (\<lambda>t. if of_task t then [] else l_todos l t),
           l_links := (\<lambda>t. if of_task t then [] else l_links l t),
           l_requirements := (\<lambda>t. if of_task t then [] else l_requirements l t),
           l_handoffs := (\<lambda>t. if of_task t then [] else l_handoffs l t),
           l_changes := (\<lambda>t. if of_task t then [] else l_changes l t),
           l_checks := (\<lambda>t. if of_task t then [] else l_checks l t),
           l_reviews := (\<lambda>t. if of_task t then [] else l_reviews l t),
           l_artifacts := (\<lambda>t. if of_task t then [] else l_artifacts l t),
           l_audit := filter (\<lambda>((t, _), _). \<not> of_task t) (l_audit l),
           l_intros := [], l_releases := [], l_events := [], l_active := None\<rparr>)"

text \<open>\<open>repair_ledger_next_task_number\<close> over the numbers of the directories \<open>task-<digits>\<close>\<close>

definition task_number :: "string \<Rightarrow> nat option" where
  "task_number name =
     (if startswith name ''task-'' \<and> isdigit (drop 5 name) then Some (digits_nat (drop 5 name)) else None)"

definition max_numeric_task_number :: "ledger \<Rightarrow> nat option" where
  "max_numeric_task_number l =
     (case List.map_filter (task_number \<circ> fst) (l_tasks l) of
        [] \<Rightarrow> None | n # ns \<Rightarrow> Some (fold max ns n))"

definition repair_ledger_next_task_number :: "ledger \<Rightarrow> ledger" where
  "repair_ledger_next_task_number l =
     (case max_numeric_task_number l of
        None \<Rightarrow> l
      | Some n \<Rightarrow> if l_next_task_number l \<le> n then l\<lparr>l_next_task_number := n + 1\<rparr> else l)"

record import_result =
  im_dry_run :: bool
  im_id_policy :: id_import
  im_task_id_map :: "(string \<times> string) list"
  im_renumbered :: "string list"
  im_imported_task_ids :: "string list"
  im_next_task_number :: "nat option"

definition incoming_task_ids :: "pydict \<Rightarrow> string list" where
  "incoming_task_ids raw =
     map (\<lambda>item. py_str (dget item ''id''))
       (filter (\<lambda>item. truthy (dget item ''id'')) (dict_list (dget raw ''tasks'')))"

text \<open>
  \<open>import_project_payload\<close>. \<open>uuid\<close> is the canonical form that the standard library computes, and
  \<open>local_uuid\<close> the id of the project that imports.
\<close>

definition assert_payload_project_uuid ::
  "(string \<Rightarrow> string option) \<Rightarrow> string \<Rightarrow> pydict \<Rightarrow> error + unit" where
  "assert_payload_project_uuid uuid local_uuid payload =
     (case dget payload ''project_uuid'' of
        PNone \<Rightarrow> Inr ()
      | PStr s \<Rightarrow>
          (case uuid s of
             None \<Rightarrow> Inl (launch_error ''invalid project uuid'')
           | Some u \<Rightarrow> if u = local_uuid then Inr () else Inl (launch_error ''project uuid mismatch''))
      | _ \<Rightarrow> Inl (launch_error ''project uuid is no string''))"

definition effective_id_policy :: "bool \<Rightarrow> bool \<Rightarrow> id_import \<Rightarrow> id_import" where
  "effective_id_policy replace tasks_scope pol =
     (if replace then II_preserve
      else if tasks_scope \<and> pol = II_preserve then II_renumber_on_conflict else pol)"

definition import_project_payload ::
  "env \<Rightarrow> (string \<Rightarrow> string option) \<Rightarrow> string \<Rightarrow> pydict \<Rightarrow> bool \<Rightarrow> bool \<Rightarrow> string \<Rightarrow> string \<Rightarrow> bool
    \<Rightarrow> import_result project_command" where
  "import_project_payload E uuid local_uuid payload replace dry_run lock_policy id_policy tasks_scope =
     bindE (liftE (policy_of lock_import_names lock_policy)) (\<lambda>locks.
     bindE (liftE (policy_of id_import_names id_policy)) (\<lambda>ids.
     thenE (liftE (assert_payload_project_uuid uuid local_uuid payload))
     (case dget payload ''v2'' of
        PDict raw \<Rightarrow>
          (let incoming = incoming_task_ids raw; policy = effective_id_policy replace tasks_scope ids
           in bindE (readE (\<lambda>p. build_import_task_id_map E policy incoming (pj_ledger p))) (\<lambda>id_map.
              let rewritten = rewrite_task_ids_in_payload id_map (\<not> tasks_scope) raw;
                  imported = map (\<lambda>i. the (map_of id_map i)) incoming;
                  result = \<lparr>im_dry_run = dry_run, im_id_policy = policy, im_task_id_map = id_map,
                    im_renumbered = sort (map fst (filter (\<lambda>(i, t). i \<noteq> t) id_map)),
                    im_imported_task_ids = imported, im_next_task_number = None\<rparr>
              in if dry_run then returnE result
                 else thenE
                   (if replace then modifyE (on_ledger clear_v2_state)
                    else bindE (getsE (map tk_id \<circ> list_tasks \<circ> pj_ledger)) (\<lambda>existing.
                      guardE (list_all (\<lambda>i. i \<notin> set existing) imported)
                        (launch_error ''import would overwrite tasks'')))
                   (thenE (import_v2_payload E replace locks rewritten)
                   (thenE (modifyE (on_ledger repair_ledger_next_task_number))
                   (bindE (getsE pj_ledger) (\<lambda>l.
                     returnE (result\<lparr>im_next_task_number :=
                       (case max_numeric_task_number l of
                          None \<Rightarrow> None | Some _ \<Rightarrow> Some (l_next_task_number l))\<rparr>)))))))
      | _ \<Rightarrow> raiseE (launch_error ''payload without v2 state''))))"

section \<open>The map of task ids\<close>

text \<open>
  What the loop keeps: one target per incoming id, different targets, none of them an old id, and
  targets among the ids that are taken; without renumbering every id stays.
\<close>

definition id_map_ok :: "id_import \<Rightarrow> string set \<Rightarrow> string list \<Rightarrow> (string \<times> string) list \<Rightarrow> bool" where
  "id_map_ok pol old allocated m \<longleftrightarrow>
     distinct (map fst m) \<and> distinct (map snd m) \<and> snd ` set m \<inter> old = {}
     \<and> snd ` set m \<union> old \<subseteq> set allocated \<and> (pol = II_renumber_on_conflict \<or> set m \<subseteq> Id)"

lemma id_map_ok_add:
  assumes "id_map_ok pol old allocated m" "x \<notin> fst ` set m" "y \<notin> set allocated"
    "pol = II_renumber_on_conflict \<or> x = y"
  shows "id_map_ok pol old (y # allocated) (m @ [(x, y)])"
  using assms by (auto simp: id_map_ok_def)

lemma import_id_map_sound:
  assumes "ids_ok E" "import_id_map E pol allocated n m incoming = Inr m'" "id_map_ok pol old allocated m"
  shows "(\<exists>allocated'. id_map_ok pol old allocated' m') \<and> fst ` set m' = fst ` set m \<union> set incoming"
  using assms
proof (induction E pol allocated n m incoming rule: import_id_map.induct)
  case (2 E pol allocated n m incoming rest)
  consider (seen) "incoming \<in> fst ` set m"
    | (free) "incoming \<notin> fst ` set m" "incoming \<notin> set allocated"
    | (taken) i n' where "incoming \<notin> fst ` set m" "\<not> incoming \<notin> set allocated" "\<not> pol \<noteq> II_renumber_on_conflict"
        "allocate_ledger_task_id E (sort allocated) n = (i, n')"
    using 2(5) by (cases "allocate_ledger_task_id E (sort allocated) n") (auto split: if_splits)
  then show ?case
  proof cases
    case seen
    then show ?thesis using 2(1) [OF seen 2(4)] 2(5,6) by auto
  next
    case free
    then have "import_id_map E pol (incoming # allocated) n (m @ [(incoming, incoming)]) rest = Inr m'"
      using 2(5) by simp
    from 2(2) [OF free 2(4) this id_map_ok_add [OF 2(6) free]] show ?thesis by auto
  next
    case taken
    have run: "import_id_map E pol (i # allocated) n' (m @ [(incoming, i)]) rest = Inr m'"
      using 2(5) taken by simp
    have "i \<notin> set allocated"
      using allocate_fresh(1) [OF 2(4) taken(4)] by simp
    then have "id_map_ok pol old (i # allocated) (m @ [(incoming, i)])"
      using id_map_ok_add [OF 2(6) taken(1)] taken(3) by simp
    from 2(3) [OF taken(1,2,3) taken(4) [symmetric] 2(4) run this] show ?thesis by auto
  qed
qed auto

lemma built_id_map:
  assumes "ids_ok E" "build_import_task_id_map E pol incoming l = Inr m"
  shows "distinct (map fst m) \<and> fst ` set m = set incoming \<and> distinct (map snd m)
    \<and> snd ` set m \<inter> tk_id ` set (list_tasks l) = {} \<and> (pol = II_renumber_on_conflict \<or> set m \<subseteq> Id)"
proof -
  have "id_map_ok pol (tk_id ` set (list_tasks l)) (map tk_id (list_tasks l)) []"
    by (simp add: id_map_ok_def)
  from import_id_map_sound [OF assms(1) assms(2) [unfolded build_import_task_id_map_def] this]
  show ?thesis by (auto simp: id_map_ok_def)
qed

text \<open>
  So the check against overwriting never fires; and a replacing import of an id that is there is
  refused, although the stored task would be removed.
\<close>

lemma replace_refuses_known_ids:
  assumes "i \<in> set incoming" "i \<in> tk_id ` set (list_tasks l)"
  shows "\<not> (\<exists>m. build_import_task_id_map E (effective_id_policy True scope pol) incoming l = Inr m)"
proof -
  have "import_id_map E II_preserve allocated n m incoming \<noteq> Inr m'"
    if "i \<in> set incoming" "i \<in> set allocated" "i \<notin> fst ` set m" for allocated n m m'
    using that
    by (induction E II_preserve allocated n m incoming rule: import_id_map.induct)
      (auto split: if_splits)
  then show ?thesis
    using assms by (auto simp: build_import_task_id_map_def effective_id_policy_def)
qed

end
