(* ===== verification/ExchangeRestore.thy ===== *)
theory ExchangeRestore
  imports Exchange
begin

text \<open>
  A full export imported into an empty project: what every collection of the import does to the
  ledger, and which parts of the exported ledger are there afterwards. The tasks, their records, the
  introductions, the releases, the active task and the events come back; todos end under the empty
  task id and the texts of handoffs are lost.
\<close>

section \<open>Running the import\<close>

text \<open>Importing the records of a collection is the loop over the records.\<close>

lemma import_each_records:
  assumes "\<And>r. r \<in> set rs \<Longrightarrow> parse (untuple_dict (to_dict r)) = Inr r"
  shows "import_each parse save (untuple (json_records to_dict rs)) = forE rs save"
proof -
  have "forE (map (\<lambda>r. untuple_dict (to_dict r)) rs) (\<lambda>item. bindE (liftE (parse item)) save) = forE rs save"
    using assms
    by (induction rs) (auto simp: thenE_def bindE_def liftE_def readE_def fun_eq_iff split: sum.split prod.split)
  moreover have "dict_list (untuple (json_records to_dict rs)) = map (\<lambda>r. untuple_dict (to_dict r)) rs"
    by (induction rs) (simp_all add: json_records_def untuple_dict_def map_filter_simps)
  ultimately show ?thesis by (simp add: import_each_def)
qed

lemma on_ledger_simps [simp]:
  "pj_ledger (on_ledger f p) = f (pj_ledger p)" "pj_logs (on_ledger f p) = pj_logs p"
  by (simp_all add: on_ledger_def)

lemma fold_on_ledger: "fold (\<lambda>r. on_ledger (h r)) rs p = on_ledger (fold h rs) p"
  by (induction rs arbitrary: p) (simp_all add: on_ledger_def)

lemma run_put_records:
  "forE rs (put_record save) p = (Inr (), on_ledger (fold save rs) p)"
  by (simp add: put_record_def [abs_def] forE_modify fold_on_ledger)

text \<open>
  Records that are saved into the directory of their task. A family of directories lists what its
  files hold, under names that the listing looks for.
\<close>

definition put_all ::
  "('r \<Rightarrow> string) \<Rightarrow> ('r \<Rightarrow> string) \<Rightarrow> ('r \<Rightarrow> 'r) \<Rightarrow> 'r list \<Rightarrow> (string \<Rightarrow> 'r dir) \<Rightarrow> string \<Rightarrow> 'r dir" where
  "put_all owner key persist =
     fold (\<lambda>r D. D(owner r := dir_put (key r) (persist r) (D (owner r))))"

definition family_ok ::
  "string \<Rightarrow> ('r \<Rightarrow> string) \<Rightarrow> ('r \<Rightarrow> string) \<Rightarrow> ('r \<Rightarrow> 'r) \<Rightarrow> ('r \<Rightarrow> bool) \<Rightarrow> string set \<Rightarrow> (string \<Rightarrow> 'r dir) \<Rightarrow> bool"
  where
  "family_ok prefix owner key persist good ids F \<longleftrightarrow>
     (\<forall>t. dir_ok key (F t) \<and> (\<forall>(k, r) \<in> set (F t).
        t \<in> ids \<and> owner r = t \<and> good r \<and> persist r = r \<and> startswith k prefix))"

lemma put_all_other:
  "(\<And>r. r \<in> set rs \<Longrightarrow> owner r = t \<Longrightarrow> key r \<noteq> k) \<Longrightarrow>
    dir_get (put_all owner key persist rs D t) k = dir_get (D t) k"
  by (induction rs rule: rev_induct) (auto simp: put_all_def dir_get_put)

lemma put_all_get:
  assumes "\<And>r r'. r \<in> set rs \<Longrightarrow> r' \<in> set rs \<Longrightarrow> owner r = owner r' \<Longrightarrow> key r = key r' \<Longrightarrow> r = r'"
    and "r \<in> set rs"
  shows "dir_get (put_all owner key persist rs D (owner r)) (key r) = Some (persist r)"
  using assms
proof (induction rs rule: rev_induct)
  case (snoc x rs)
  show ?case
  proof (cases "owner x = owner r \<and> key x = key r")
    case True
    then have "x = r" using snoc.prems by auto
    then show ?thesis by (simp add: put_all_def dir_get_put)
  next
    case False
    then show ?thesis using snoc by (auto simp: put_all_def dir_get_put)
  qed
qed simp

lemma family_record:
  assumes "family_ok prefix owner key persist good ids F" "(k, r) \<in> set (F t)"
  shows "t \<in> ids" "owner r = t" "good r" "persist r = r" "startswith k prefix" "key r = k"
    "dir_get (F t) k = Some r"
  using assms dir_mem_get [of key "F t" k r] by (auto simp: family_ok_def dir_ok_def)

text \<open>Saving what a family lists, task by task, restores the family.\<close>

lemma family_restored:
  assumes "family_ok prefix owner key persist good ids F"
    and "set rs = {r. \<exists>t k. (k, r) \<in> set (F t)}"
  shows "dir_get (put_all owner key persist rs (\<lambda>_. []) t) = dir_get (F t)"
proof
  fix k
  note ok = family_record [OF assms(1)]
  have at: "dir_get (F (owner r)) (key r) = Some r" if "r \<in> set rs" for r
  proof -
    obtain t k where "(k, r) \<in> set (F t)" using \<open>r \<in> set rs\<close> unfolding assms(2) by blast
    from ok(2,6,7) [OF this] show ?thesis by simp
  qed
  have unique: "r = r'" if "r \<in> set rs" "r' \<in> set rs" "owner r = owner r'" "key r = key r'" for r r'
    using at [OF that(1)] at [OF that(2)] that(3,4) by (metis option.inject)
  show "dir_get (put_all owner key persist rs (\<lambda>_. []) t) k = dir_get (F t) k"
  proof (cases "dir_get (F t) k")
    case None
    have "owner r = t \<Longrightarrow> key r \<noteq> k" if r: "r \<in> set rs" for r
      using at [OF r] None by auto
    then have "dir_get (put_all owner key persist rs (\<lambda>_. []) t) k = dir_get [] k"
      by (rule put_all_other)
    then show ?thesis using None by (simp add: dir_get_def)
  next
    case (Some r)
    from ok [OF dir_get_mem [OF this]] have r: "owner r = t" "key r = k" "persist r = r" by blast+
    have "r \<in> set rs" using dir_get_mem [OF Some] unfolding assms(2) by blast
    then have "dir_get (put_all owner key persist rs (\<lambda>_. []) (owner r)) (key r) = Some (persist r)"
      using unique by (intro put_all_get)
    then show ?thesis by (simp add: r Some)
  qed
qed

lemma family_listed:
  assumes "family_ok prefix owner key persist good ids F" "set ts = ids"
  shows "set (concat (map (\<lambda>t. sort_key f (dir_glob prefix (F t))) ts)) = {r. \<exists>t k. (k, r) \<in> set (F t)}"
  using family_record(1,5) [OF assms(1)] assms(2) by (auto simp: dir_glob_mem) blast+

section \<open>The payload of an export\<close>

lemma dget_untuple_dict: "dget (untuple_dict d) k = untuple (dget d k)"
  by (induction d k rule: dget.induct) (simp_all add: untuple_dict_def)

lemma dict_list_json_records: "dict_list (untuple (json_records to_dict rs)) = map (\<lambda>r. untuple_dict (to_dict r)) rs"
  by (induction rs) (simp_all add: json_records_def untuple_dict_def map_filter_simps)

lemma exported_collections:
  assumes "export_v2_payload E True None p = Inr d"
  shows "\<exists>events. load_events (pj_ledger p) = Inr events
    \<and> dget d ''events'' = json_records TaskEvent_to_dict events"
    and "dget d ''tasks'' = json_records TaskRecord_to_dict (list_tasks (pj_ledger p))"
    and "dget d ''active_task'' = opt_rec (\<lambda>s. PDict (ActiveTaskState_to_dict s)) (l_active (pj_ledger p))"
    and "dget d ''introductions'' = json_records IntroductionRecord_to_dict (list_introductions (pj_ledger p))"
    and "dget d ''releases'' = json_records ReleaseRecord_to_dict (list_releases E (pj_ledger p))"
    and "dget d ''locks'' = json_records TaskLock_to_dict (load_active_locks (pj_ledger p))"
    and "dget d ''agent_command_logs'' = json_records AgentCommandLogRecord_to_dict (load_agent_command_logs p)"
  using assms
  by (auto simp: export_v2_payload_def Let_def bindR_def opt_rec_def split: sum.splits option.splits)

lemma exported_task_collections:
  assumes "export_v2_payload E True None p = Inr d"
  shows "dget d ''plans'' = json_records PlanRecord_to_dict
      (per_task (list_tasks (pj_ledger p)) (\<lambda>t. list_plans t (pj_ledger p)))"
    and "dget d ''questions'' = json_records QuestionRecord_to_dict
      (per_task (list_tasks (pj_ledger p)) (\<lambda>t. list_questions t (pj_ledger p)))"
    and "dget d ''runs'' = json_records TaskRunRecord_to_dict
      (per_task (list_tasks (pj_ledger p)) (\<lambda>t. list_runs t (pj_ledger p)))"
    and "dget d ''changes'' = json_records CodeChangeRecord_to_dict
      (per_task (list_tasks (pj_ledger p)) (\<lambda>t. list_changes t (pj_ledger p)))"
    and "dget d ''checks'' = json_records ImplementationCheckRecord_to_dict
      (per_task (list_tasks (pj_ledger p)) (\<lambda>t. list_checks t (pj_ledger p)))"
    and "dget d ''code_reviews'' = json_records CodeReviewRecord_to_dict
      (per_task (list_tasks (pj_ledger p)) (\<lambda>t. list_code_reviews t (pj_ledger p)))"
    and "dget d ''handoffs'' = json_records TaskHandoffRecord_to_dict
      (per_task (list_tasks (pj_ledger p)) (\<lambda>t. list_handoffs t (pj_ledger p)))"
    and "dget d ''todos'' = json_records TaskTodo_to_dict
      (per_task (list_tasks (pj_ledger p)) (\<lambda>t. load_todos t (pj_ledger p)))"
    and "dget d ''links'' = json_records FileLink_to_dict
      (per_task (list_tasks (pj_ledger p)) (\<lambda>t. load_links t (pj_ledger p)))"
    and "dget d ''requirements'' = json_records DependencyRequirement_to_dict
      (per_task (list_tasks (pj_ledger p)) (\<lambda>t. load_requirements t (pj_ledger p)))"
  using assms by (auto simp: export_v2_payload_def Let_def bindR_def split: sum.splits)

section \<open>Saving a collection\<close>

lemma thenE_modifyE: "thenE (modifyE f) c p = c (f p)"
  by (simp add: thenE_def bindE_def modifyE_def)

lemma import_put_records:
  assumes "list_all good rs" "\<And>r. good r \<Longrightarrow> parse (untuple_dict (to_dict r)) = Inr r"
  shows "import_each parse (put_record save) (untuple (json_records to_dict rs))
    = modifyE (on_ledger (fold save rs))"
  using assms by (subst import_each_records) (auto simp: list_all_iff run_put_records modifyE_def)

lemma import_plan_overwrites: "import_plan = put_record overwrite_plan"
proof (intro ext)
  fix plan p
  show "import_plan plan p = put_record overwrite_plan plan p"
    by (cases "dir_get (l_plans (pj_ledger p) (pl_task_id plan)) (plan_id (pl_plan_version plan))")
      (simp_all add: import_plan_def put_record_def run_on_ledger_def save_plan_def on_ledger_def bindE_def
        thenE_def getsE_def guardE_def returnE_def modifyE_def)
qed

text \<open>Every save of a per-task collection is a \<open>put_all\<close> on its field.\<close>

lemma save_folds:
  "fold overwrite_plan ps l = l\<lparr>l_plans := put_all pl_task_id (plan_id \<circ> pl_plan_version) persist_plan ps (l_plans l)\<rparr>"
  "fold save_question qs l = l\<lparr>l_questions := put_all qn_task_id qn_id id qs (l_questions l)\<rparr>"
  "fold save_run rs l = l\<lparr>l_runs := put_all rn_task_id rn_run_id persist_run rs (l_runs l)\<rparr>"
  "fold save_change cs l = l\<lparr>l_changes := put_all ch_task_id ch_change_id id cs (l_changes l)\<rparr>"
  "fold save_check ks l = l\<lparr>l_checks := put_all ic_task_id ic_check_id id ks (l_checks l)\<rparr>"
  "fold save_code_review vs l = l\<lparr>l_reviews := put_all cv_task_id cv_review_id persist_review vs (l_reviews l)\<rparr>"
  "fold save_handoff hs l = l\<lparr>l_handoffs := put_all ho_task_id ho_handoff_id persist_handoff hs (l_handoffs l)\<rparr>"
  "fold save_task ts l = l\<lparr>l_tasks := fold (\<lambda>t. dir_put (tk_id t) (persist_task t)) ts (l_tasks l)\<rparr>"
  "fold save_introduction xs l
    = l\<lparr>l_intros := fold (\<lambda>i. dir_put (in_id i) (i\<lparr>in_body := rstrip (in_body i)\<rparr>)) xs (l_intros l)\<rparr>"
  "fold (\<lambda>r. put_release (rl_version r) r) zs l
    = l\<lparr>l_releases := fold (\<lambda>r. dir_put (rl_version r) r) zs (l_releases l)\<rparr>"
  by (induction ps arbitrary: l, simp_all add: put_all_def overwrite_plan_def)
    (induction qs arbitrary: l, simp_all add: put_all_def save_question_def,
     induction rs arbitrary: l, simp_all add: put_all_def save_run_def,
     induction cs arbitrary: l, simp_all add: put_all_def save_change_def,
     induction ks arbitrary: l, simp_all add: put_all_def save_check_def,
     induction vs arbitrary: l, simp_all add: put_all_def save_code_review_def,
     induction hs arbitrary: l, simp_all add: put_all_def save_handoff_def,
     induction ts arbitrary: l, simp_all add: save_task_def,
     induction xs arbitrary: l, simp_all add: save_introduction_def,
     induction zs arbitrary: l, simp_all add: put_release_def)

text \<open>A single directory is restored like a family with one owner.\<close>

lemma put_all_const:
  "put_all (\<lambda>_. t) key persist rs D t = fold (\<lambda>r. dir_put (key r) (persist r)) rs (D t)"
  by (induction rs arbitrary: D) (simp_all add: put_all_def)

lemma dir_restored:
  assumes "dir_ok key d" "\<forall>(k, r) \<in> set d. persist r = r" "set rs = snd ` set d"
  shows "dir_get (fold (\<lambda>r. dir_put (key r) (persist r)) rs []) = dir_get d"
proof -
  let ?F = "\<lambda>t :: string. if t = [] then d else []"
  have "family_ok [] (\<lambda>_. []) key persist (\<lambda>_. True) {[]} ?F"
    using assms(1,2) by (auto simp: family_ok_def dir_ok_def)
  moreover have "set rs = {r. \<exists>t k. (k, r) \<in> set (?F t)}"
    using assms(3) by force
  ultimately have "dir_get (put_all (\<lambda>_. []) key persist rs (\<lambda>_. []) []) = dir_get (?F [])"
    by (rule family_restored)
  then show ?thesis by (simp add: put_all_const)
qed

section \<open>The grouped collections\<close>

lemma group_item_members:
  "(t, xs) \<in> set (group_item tid x gs) \<Longrightarrow> set xs \<subseteq> insert x (\<Union> (set ` snd ` set gs))"
  by (induction tid x gs rule: group_item.induct) (auto split: if_splits)

lemma group_items_members: "(t, xs) \<in> set (group_items tid items) \<Longrightarrow> set xs \<subseteq> set items"
proof (induction items arbitrary: t xs rule: rev_induct)
  case (snoc x items)
  then have "set xs \<subseteq> insert x (\<Union> (set ` snd ` set (group_items tid items)))"
    by (intro group_item_members [of t]) (simp add: group_items_def)
  also have "\<dots> \<subseteq> set (items @ [x])" using snoc.IH by fastforce
  finally show ?case .
qed (simp add: group_items_def)

lemma mapR_all: "\<forall>x \<in> set xs. \<exists>r. f x = Inr r \<Longrightarrow> \<exists>rs. mapR f xs = Inr rs"
  by (induction xs) auto

lemma import_groups_runs:
  assumes "\<forall>item \<in> set (dict_list v). \<exists>r. parse item = Inr r"
  shows "\<exists>gs. import_groups tid parse save v = modifyE (on_ledger (fold (\<lambda>(t, rs). save t rs) gs))"
proof -
  have "\<exists>gs. forE xs (\<lambda>(t, items). bindE (liftE (mapR parse items)) (\<lambda>rs. modifyE (on_ledger (save t rs))))
      = modifyE (on_ledger (fold (\<lambda>(t, rs). save t rs) gs))"
    if "\<forall>(t, items) \<in> set xs. \<exists>rs. mapR parse items = Inr rs" for xs
    using that
  proof (induction xs)
    case Nil
    show ?case by (intro exI [of _ "[]"]) (simp add: returnE_def modifyE_def on_ledger_def fun_eq_iff)
  next
    case (Cons x xs)
    obtain t items where x: "x = (t, items)" by (cases x)
    obtain rs where rs: "mapR parse items = Inr rs" using Cons.prems x by auto
    obtain gs where "forE xs (\<lambda>(t, items). bindE (liftE (mapR parse items)) (\<lambda>rs. modifyE (on_ledger (save t rs))))
        = modifyE (on_ledger (fold (\<lambda>(t, rs). save t rs) gs))" using Cons by auto
    then show ?case
      by (intro exI [of _ "(t, rs) # gs"])
        (simp add: x rs fun_eq_iff thenE_def bindE_def liftE_def readE_def modifyE_def on_ledger_def)
  qed
  moreover have "\<forall>(t, items) \<in> set (group_items tid (dict_list v)). \<exists>rs. mapR parse items = Inr rs"
    using assms by (auto intro!: mapR_all dest!: group_items_members)
  ultimately show ?thesis by (simp add: import_groups_def)
qed

text \<open>What all the groups together change: one field, and of todos only the nameless task.\<close>

lemma saved_groups:
  "\<exists>F. fold (\<lambda>(t, rs). save_links E t rs) gs l = l\<lparr>l_links := F\<rparr>"
  "\<exists>F. fold (\<lambda>(t, rs). save_requirements t rs) hs l = l\<lparr>l_requirements := F\<rparr>"
proof -
  show "\<exists>F. fold (\<lambda>(t, rs). save_links E t rs) gs l = l\<lparr>l_links := F\<rparr>"
  proof (induction gs arbitrary: l)
    case Nil
    show ?case by (intro exI [of _ "l_links l"]) simp
  next
    case (Cons g gs)
    from Cons [of "(\<lambda>(t, rs). save_links E t rs) g l"] show ?case
      by (auto simp: save_links_def split: prod.splits)
  qed
  show "\<exists>F. fold (\<lambda>(t, rs). save_requirements t rs) hs l = l\<lparr>l_requirements := F\<rparr>"
  proof (induction hs arbitrary: l)
    case Nil
    show ?case by (intro exI [of _ "l_requirements l"]) simp
  next
    case (Cons g gs)
    from Cons [of "(\<lambda>(t, rs). save_requirements t rs) g l"] show ?case
      by (auto simp: save_requirements_def split: prod.splits)
  qed
qed

lemma exported_todo_nameless: "item_task_id (untuple_dict (TaskTodo_to_dict td)) = []"
  by (simp add: item_task_id_def dget_untuple_dict TaskTodo_to_dict_def str_of_or_def opt_entry_def)

lemma group_items_constant:
  assumes "\<forall>item \<in> set items. tid item = t"
  shows "group_items tid items = (if items = [] then [] else [(t, items)])"
  using assms by (induction items rule: rev_induct) (auto simp: group_items_def)

lemma import_todos:
  assumes "list_all wf_TaskTodo ts"
  shows "import_groups item_task_id (\<lambda>d. TaskTodo_from_dict now (PDict d)) save_todos
      (untuple (json_records TaskTodo_to_dict ts))
    = modifyE (on_ledger (if ts = [] then id else save_todos [] ts))"
proof -
  have "group_items item_task_id (map (\<lambda>t. untuple_dict (TaskTodo_to_dict t)) ts)
      = (if ts = [] then [] else [([], map (\<lambda>t. untuple_dict (TaskTodo_to_dict t)) ts)])"
    by (subst group_items_constant) (auto simp: exported_todo_nameless)
  moreover have "mapR (\<lambda>d. TaskTodo_from_dict now (PDict d)) (map (\<lambda>t. untuple_dict (TaskTodo_to_dict t)) ts) = Inr ts"
    using td_codec.list_round_trip [OF assms] by (simp add: comp_def)
  ultimately show ?thesis
    by (auto simp: import_groups_def dict_list_json_records fun_eq_iff thenE_def bindE_def liftE_def readE_def
      modifyE_def on_ledger_def returnE_def)
qed

section \<open>The other collections\<close>

lemma import_active:
  assumes "dget raw ''active_task'' = untuple (opt_rec (\<lambda>s. PDict (ActiveTaskState_to_dict s)) active)"
    and "pred_option wf_ActiveTaskState active"
    and "\<And>s. active = Some s \<Longrightarrow> as_task_id s \<in> tk_id ` set (list_tasks (pj_ledger p))"
  shows "import_active_task E raw p
    = (Inr (), on_ledger (\<lambda>l. if active = None then l else l\<lparr>l_active := active\<rparr>) p)"
proof (cases active)
  case None
  then show ?thesis using assms(1) by (simp add: import_active_task_def opt_rec_def returnE_def on_ledger_def)
next
  case (Some s)
  have "list_ex (\<lambda>t. tk_id t = as_task_id s) (list_tasks (pj_ledger p))"
    using assms(3) [OF Some] by (auto simp: list_ex_iff)
  moreover have "ActiveTaskState_from_dict (e_now E) (PDict (untuple_dict (ActiveTaskState_to_dict s))) = Inr s"
    using assms(2) Some by (intro as_codec.round_trip) simp
  ultimately show ?thesis
    using assms(1) Some
    by (simp add: import_active_task_def opt_rec_def untuple_dict_def bindE_def thenE_def liftE_def readE_def getsE_def
        guardE_def returnE_def modifyE_def on_ledger_def save_active_task_state_def)
qed

lemma saved_releases:
  assumes "\<forall>r \<in> set rs. release_filename (rl_version r) = Inr (rl_version r)" "distinct (map rl_version rs)"
    and "\<forall>r \<in> set rs. dir_get (l_releases (pj_ledger p)) (rl_version r) = None"
  shows "forE rs (\<lambda>r. run_on_ledger (save_release r)) p
    = (Inr (), on_ledger (fold (\<lambda>r. put_release (rl_version r) r) rs) p)"
  using assms
proof (induction rs arbitrary: p)
  case Nil
  show ?case by (simp add: returnE_def on_ledger_def)
next
  case (Cons r rs)
  have "run_on_ledger (save_release r) p = (Inr (), on_ledger (put_release (rl_version r) r) p)"
    using Cons.prems by (simp add: run_on_ledger_def save_release_def bindE_def thenE_def liftE_def readE_def getsE_def
        guardE_def returnE_def modifyE_def on_ledger_def)
  moreover have "forE rs (\<lambda>r. run_on_ledger (save_release r)) (on_ledger (put_release (rl_version r) r) p)
      = (Inr (), on_ledger (fold (\<lambda>r. put_release (rl_version r) r) rs) (on_ledger (put_release (rl_version r) r) p))"
    using Cons.prems by (intro Cons.IH) (auto simp: put_release_def dir_get_put image_iff)
  ultimately show ?case by (simp add: thenE_def bindE_def on_ledger_def)
qed

lemma import_exported_releases:
  assumes "dget raw ''releases'' = untuple (json_records ReleaseRecord_to_dict rs)"
    and "list_all wf_ReleaseRecord rs"
    and "\<forall>r \<in> set rs. release_filename (rl_version r) = Inr (rl_version r)" "distinct (map rl_version rs)"
    and "rl_boundary_task_id ` set rs \<subseteq> tk_id ` set (list_tasks (pj_ledger p))"
    and "l_releases (pj_ledger p) = []"
  shows "import_releases E raw p = (Inr (), on_ledger (fold (\<lambda>r. put_release (rl_version r) r) rs) p)"
proof -
  have "str_of_or (dget (untuple_dict (ReleaseRecord_to_dict r)) ''boundary_task_id'') [] = rl_boundary_task_id r" for r
    by (simp add: dget_untuple_dict ReleaseRecord_to_dict_def str_of_or_def py_str_def)
  then have guard: "list_all (\<lambda>item. str_of_or (dget item ''boundary_task_id'') [] \<in> set (map tk_id (list_tasks (pj_ledger p))))
      (dict_list (dget raw ''releases''))"
    using assms(5) by (auto simp: assms(1) dict_list_json_records list_all_iff)
  have "import_each (ReleaseRecord_from_dict (e_now E)) (\<lambda>r. run_on_ledger (save_release r)) (dget raw ''releases'')
      = forE rs (\<lambda>r. run_on_ledger (save_release r))"
    unfolding assms(1)
    using assms(2) by (intro import_each_records) (simp add: list_all_iff rl_codec.round_trip)
  moreover have "forE rs (\<lambda>r. run_on_ledger (save_release r)) p
      = (Inr (), on_ledger (fold (\<lambda>r. put_release (rl_version r) r) rs) p)"
    using assms(3,4,6) by (intro saved_releases) (auto simp: dir_get_def)
  ultimately show ?thesis
    using guard by (simp add: import_releases_def bindE_def thenE_def getsE_def guardE_def returnE_def)
qed

lemma quarantined: "\<exists>G. \<forall>l. fold quarantine_lock ks l = l\<lparr>l_audit := G (l_audit l)\<rparr>"
proof (induction ks)
  case Nil
  show ?case by (intro exI [of _ id]) simp
next
  case (Cons k ks)
  from Cons obtain G where "\<forall>l. fold quarantine_lock ks l = l\<lparr>l_audit := G (l_audit l)\<rparr>" by blast
  moreover have "\<exists>H. \<forall>l. quarantine_lock k l = l\<lparr>l_audit := H (l_audit l)\<rparr>"
    by (intro exI [of _ "\<lambda>a. l_audit (quarantine_lock k (empty_ledger\<lparr>l_audit := a\<rparr>))"])
      (simp add: quarantine_lock_def Let_def)
  then obtain H where "\<forall>l. quarantine_lock k l = l\<lparr>l_audit := H (l_audit l)\<rparr>" by blast
  ultimately show ?case by (intro exI [of _ "G \<circ> H"]) simp
qed

lemma import_exported_locks:
  assumes "dget raw ''locks'' = untuple (json_records TaskLock_to_dict ks)" "list_all wf_TaskLock ks" "pol \<noteq> LI_keep"
  shows "\<exists>G. \<forall>p. import_locks E pol raw p = (Inr (), on_ledger (\<lambda>l. l\<lparr>l_audit := G (l_audit l)\<rparr>) p)"
proof -
  have parse: "mapR (TaskLock_from_dict (e_now E)) (map (\<lambda>r. untuple_dict (TaskLock_to_dict r)) ks) = Inr ks"
    using lk_codec.list_round_trip [OF assms(2)] by (simp add: comp_def)
  obtain G where G: "\<forall>l. fold quarantine_lock ks l = l\<lparr>l_audit := G (l_audit l)\<rparr>"
    using quarantined by blast
  note run = import_locks_def assms(1) dict_list_json_records parse bindE_def liftE_def readE_def
  show ?thesis
  proof (cases pol)
    case LI_drop
    then show ?thesis by (intro exI [of _ id]) (simp add: run returnE_def on_ledger_def)
  next
    case LI_quarantine
    then show ?thesis
      by (intro exI [of _ G]) (simp add: run forE_modify fold_on_ledger, simp add: on_ledger_def G)
  qed (use assms(3) in simp)
qed

lemma fold_append_events:
  "fold (\<lambda>e. on_ledger (\<lambda>l. l\<lparr>l_events := l_events l @ [e]\<rparr>)) es p = on_ledger (\<lambda>l. l\<lparr>l_events := l_events l @ es\<rparr>) p"
  by (induction es arbitrary: p) (simp_all add: on_ledger_def)

lemma import_exported_events:
  assumes "dget raw ''events'' = untuple (json_records TaskEvent_to_dict es)" "list_all wf_TaskEvent es"
    and "l_events (pj_ledger p) = []"
  shows "import_events E False raw p = (Inr (), on_ledger (\<lambda>l. l\<lparr>l_events := es\<rparr>) p)"
proof -
  have "import_each (TaskEvent_from_dict (e_now E)) save (dget raw ''events'') = forE es save" for save
    unfolding assms(1)
    using assms(2) by (intro import_each_records) (simp add: list_all_iff ev_codec.round_trip)
  moreover have "load_events (pj_ledger p) = Inr []"
    by (simp add: load_events_def assms(3))
  ultimately show ?thesis
    by (simp add: import_events_def bindE_def readE_def bindR_def whenE_def forE_modify fold_append_events)
      (simp add: on_ledger_def assms(3))
qed

lemma import_exported_logs:
  assumes "dget raw ''agent_command_logs'' = untuple (json_records AgentCommandLogRecord_to_dict rs)"
    and "list_all wf_AgentCommandLogRecord rs" "pj_logs p = []"
  shows "import_logs E False raw p = (Inr (), p\<lparr>pj_logs := rs\<rparr>)"
proof -
  have "import_each (AgentCommandLogRecord_from_dict (e_now E)) save (dget raw ''agent_command_logs'') = forE rs save"
    for save
    unfolding assms(1)
    using assms(2) by (intro import_each_records) (simp add: list_all_iff al_codec.round_trip)
  moreover have "fold (\<lambda>r p. p\<lparr>pj_logs := pj_logs p @ [r]\<rparr>) rs q = q\<lparr>pj_logs := pj_logs q @ rs\<rparr>"
    for q :: project
    by (induction rs arbitrary: q) simp_all
  moreover have "load_agent_command_logs p = []"
    by (simp add: load_agent_command_logs_def assms(3))
  ultimately show ?thesis
    by (simp add: import_logs_def bindE_def getsE_def whenE_def forE_modify assms(3))
qed


section \<open>A full export imported into an empty project\<close>

text \<open>
  What is asked of the exported project: every file is named by the record in it and is one that the
  listing of its directory looks for, every record is well formed and as the store writes it, and
  records name tasks that exist.
\<close>

definition empty_project :: project where
  "empty_project = \<lparr>pj_ledger = empty_ledger, pj_logs = []\<rparr>"

definition families_ok :: "string set \<Rightarrow> ledger \<Rightarrow> bool" where
  "families_ok ids l \<longleftrightarrow>
     family_ok ''plan-v'' pl_task_id (plan_id \<circ> pl_plan_version) persist_plan wf_PlanRecord ids (l_plans l)
   \<and> family_ok ''q-'' qn_task_id qn_id id wf_QuestionRecord ids (l_questions l)
   \<and> family_ok [] rn_task_id rn_run_id persist_run wf_TaskRunRecord ids (l_runs l)
   \<and> family_ok ''change-'' ch_task_id ch_change_id id wf_CodeChangeRecord ids (l_changes l)
   \<and> family_ok ''check-'' ic_task_id ic_check_id id wf_ImplementationCheckRecord ids (l_checks l)
   \<and> family_ok ''review-'' cv_task_id cv_review_id persist_review wf_CodeReviewRecord ids (l_reviews l)"

definition directory_ok ::
  "string \<Rightarrow> ('r \<Rightarrow> string) \<Rightarrow> ('r \<Rightarrow> 'r) \<Rightarrow> ('r \<Rightarrow> bool) \<Rightarrow> 'r dir \<Rightarrow> bool" where
  "directory_ok prefix key persist good d \<longleftrightarrow>
     dir_ok key d \<and> (\<forall>(k, r) \<in> set d. good r \<and> persist r = r \<and> startswith k prefix)"

definition directories_ok :: "string set \<Rightarrow> ledger \<Rightarrow> bool" where
  "directories_ok ids l \<longleftrightarrow>
     directory_ok ''task-'' tk_id persist_task wf_TaskRecord (l_tasks l)
   \<and> directory_ok ''intro-'' in_id (\<lambda>i. i\<lparr>in_body := rstrip (in_body i)\<rparr>) wf_IntroductionRecord (l_intros l)
   \<and> directory_ok [] rl_version id
       (\<lambda>r. wf_ReleaseRecord r \<and> release_filename (rl_version r) = Inr (rl_version r)
          \<and> rl_boundary_task_id r \<in> ids) (l_releases l)"

definition exportable :: "project \<Rightarrow> bool" where
  "exportable p \<longleftrightarrow>
     (let l = pj_ledger p; ids = tk_id ` set (list_tasks l)
      in families_ok ids l \<and> directories_ok ids l
       \<and> (\<forall>t \<in> ids. list_all wf_TaskTodo (load_todos t l) \<and> list_all wf_FileLink (load_links t l)
            \<and> list_all wf_DependencyRequirement (load_requirements t l)
            \<and> list_all wf_TaskHandoffRecord (list_handoffs t l))
       \<and> pred_option (\<lambda>s. wf_ActiveTaskState s \<and> as_task_id s \<in> ids) (l_active l)
       \<and> list_all wf_TaskLock (load_active_locks l)
       \<and> list_all wf_TaskEvent (l_events l)
       \<and> list_all wf_AgentCommandLogRecord (pj_logs p))"

lemma directory_listed:
  assumes "directory_ok prefix key persist good d"
  shows "set (sort_key f (dir_glob prefix d)) = snd ` set d"
    and "list_all good (sort_key f (dir_glob prefix d))"
    and "distinct (map key (sort_key f (dir_glob prefix d)))"
    and "dir_get (fold (\<lambda>r. dir_put (key r) (persist r)) (sort_key f (dir_glob prefix d)) []) = dir_get d"
proof -
  show listed: "set (sort_key f (dir_glob prefix d)) = snd ` set d"
    using assms by (force simp: directory_ok_def dir_glob_mem)
  then show "list_all good (sort_key f (dir_glob prefix d))"
    using assms by (auto simp: list_all_iff directory_ok_def)
  have "filter (\<lambda>(k, _). startswith k prefix) d = d"
    using assms by (intro filter_True) (auto simp: directory_ok_def)
  then have glob: "dir_glob prefix d = map snd d" by (simp add: dir_glob_def)
  have names: "map (key \<circ> snd) d = map fst d"
    using assms by (auto simp: directory_ok_def dir_ok_def)
  have "distinct (map key (dir_glob prefix d))"
    unfolding glob map_map names using assms by (simp add: directory_ok_def dir_ok_def)
  then show "distinct (map key (sort_key f (dir_glob prefix d)))"
    by (metis mset_map mset_sort mset_eq_imp_distinct_iff)
  show "dir_get (fold (\<lambda>r. dir_put (key r) (persist r)) (sort_key f (dir_glob prefix d)) []) = dir_get d"
    using assms listed by (intro dir_restored) (auto simp: directory_ok_def)
qed

lemma family_listed_good:
  assumes "family_ok prefix owner key persist good ids F" "\<And>t. f t l = sort_key g (dir_glob prefix (F t))"
    and "ids = tk_id ` set ts"
  shows "list_all good (per_task ts (\<lambda>t. f t l))"
    and "dir_get (put_all owner key persist (per_task ts (\<lambda>t. f t l)) (\<lambda>_. []) t) = dir_get (F t)"
proof -
  have per: "per_task ts (\<lambda>t. f t l) = concat (map (\<lambda>t. sort_key g (dir_glob prefix (F t))) (map tk_id ts))"
    by (simp add: per_task_def assms(2) comp_def)
  have listed: "set (per_task ts (\<lambda>t. f t l)) = {r. \<exists>t k. (k, r) \<in> set (F t)}"
    unfolding per by (intro family_listed [OF assms(1)]) (simp add: assms(3))
  show "list_all good (per_task ts (\<lambda>t. f t l))"
    using family_record(3) [OF assms(1)] by (auto simp: list_all_iff listed)
  show "dir_get (put_all owner key persist (per_task ts (\<lambda>t. f t l)) (\<lambda>_. []) t) = dir_get (F t)"
    by (rule family_restored [OF assms(1) listed])
qed

lemma loaded_events:
  assumes "load_events l = Inr es"
  shows "mset es = mset (l_events l)"
proof -
  have "mset (sort_key (\<lambda>e. (ev_ts e, ev_event_id e)) (sort_key (\<lambda>e. take 10 (ev_ts e)) (l_events l))) = mset (l_events l)"
    by simp
  then show ?thesis using assms by (auto simp: load_events_def Let_def split: if_splits)
qed

lemma first_logs_subset: "set (first_logs seen rs) \<subseteq> set rs"
  by (induction seen rs rule: first_logs.induct) auto

lemma loaded_logs: "set (load_agent_command_logs p) \<subseteq> set (pj_logs p)"
  using first_logs_subset [of "[]" "sort_key (\<lambda>r. take 10 (al_started_at r)) (pj_logs p)"]
  by (simp add: load_agent_command_logs_def)

lemma list_all_per_task: "list_all P (per_task ts f) \<longleftrightarrow> (\<forall>t \<in> tk_id ` set ts. list_all P (f t))"
  by (auto simp: per_task_def list_all_iff)


lemma import_standalone:
  assumes "dget raw ''todos'' = untuple (json_records TaskTodo_to_dict ts)" "list_all wf_TaskTodo ts"
    and "dget raw ''links'' = untuple (json_records FileLink_to_dict ks)" "list_all wf_FileLink ks"
    and "dget raw ''requirements'' = untuple (json_records DependencyRequirement_to_dict rs)"
      "list_all wf_DependencyRequirement rs"
  shows "\<exists>T K R. import_standalone_collections E raw p
      = (Inr (), on_ledger (\<lambda>l. l\<lparr>l_todos := T, l_links := K, l_requirements := R\<rparr>) p)
    \<and> (\<forall>c t. T (c # t) = l_todos (pj_ledger p) (c # t))"
proof -
  have "\<forall>item \<in> set (dict_list (dget raw ''links'')). \<exists>r. FileLink_from_dict (e_now E) (PDict item) = Inr r"
    using assms(4) fl_codec.round_trip by (auto simp: assms(3) dict_list_json_records list_all_iff)
  from import_groups_runs [OF this, of item_task_id "save_links E"] obtain gs where links:
    "import_groups item_task_id (\<lambda>d. FileLink_from_dict (e_now E) (PDict d)) (save_links E) (dget raw ''links'')
      = modifyE (on_ledger (fold (\<lambda>(t, rs). save_links E t rs) gs))"
    by blast
  have "\<forall>item \<in> set (dict_list (dget raw ''requirements'')).
      \<exists>r. DependencyRequirement_from_dict (e_now E) (PDict item) = Inr r"
    using assms(6) dr_codec.round_trip by (auto simp: assms(5) dict_list_json_records list_all_iff)
  from import_groups_runs [OF this, of requirement_task_id save_requirements] obtain hs where requirements:
    "import_groups requirement_task_id (\<lambda>d. DependencyRequirement_from_dict (e_now E) (PDict d)) save_requirements
        (dget raw ''requirements'')
      = modifyE (on_ledger (fold (\<lambda>(t, rs). save_requirements t rs) hs))"
    by blast
  define todo where "todo = (if ts = [] then id else save_todos [] ts)"
  have todos: "import_groups item_task_id (\<lambda>d. TaskTodo_from_dict (e_now E) (PDict d)) save_todos (dget raw ''todos'')
      = modifyE (on_ledger todo)"
    by (simp only: assms(1) import_todos [OF assms(2)] todo_def)
  have "\<exists>T. todo (pj_ledger p) = (pj_ledger p)\<lparr>l_todos := T\<rparr>
      \<and> (\<forall>c t. T (c # t) = l_todos (pj_ledger p) (c # t))"
  proof (cases "ts = []")
    case True
    then show ?thesis by (intro exI [of _ "l_todos (pj_ledger p)"]) (simp add: todo_def)
  qed (auto simp: save_todos_def todo_def)
  then obtain T where T: "todo (pj_ledger p) = (pj_ledger p)\<lparr>l_todos := T\<rparr>"
    "\<forall>c t. T (c # t) = l_todos (pj_ledger p) (c # t)" by blast
  obtain K where K: "fold (\<lambda>(t, rs). save_links E t rs) gs ((pj_ledger p)\<lparr>l_todos := T\<rparr>)
      = (pj_ledger p)\<lparr>l_todos := T, l_links := K\<rparr>"
    using saved_groups(1) by blast
  obtain R where R: "fold (\<lambda>(t, rs). save_requirements t rs) hs ((pj_ledger p)\<lparr>l_todos := T, l_links := K\<rparr>)
      = (pj_ledger p)\<lparr>l_todos := T, l_links := K, l_requirements := R\<rparr>"
    using saved_groups(2) by blast
  have "import_standalone_collections E raw p
      = (Inr (), on_ledger (\<lambda>l. l\<lparr>l_todos := T, l_links := K, l_requirements := R\<rparr>) p)"
    unfolding import_standalone_collections_def todos links requirements
    by (simp add: thenE_modifyE) (simp add: modifyE_def on_ledger_def T K R)
  then show ?thesis using T(2) by blast
qed

lemma import_stored_tasks:
  "\<forall>t \<in> set ts. persist_task t = t \<Longrightarrow> fold (import_task E) ts l = fold save_task ts l"
proof (induction ts arbitrary: l)
  case (Cons t ts)
  have "tk_todos (persist_task t) = [] \<and> tk_file_links (persist_task t) = [] \<and> tk_requirements (persist_task t) = []"
    by (simp add: persist_task_def)
  then have "tk_todos t = [] \<and> tk_file_links t = [] \<and> tk_requirements t = []"
    using Cons.prems by simp
  then show ?case using Cons by (simp add: import_task_def)
qed simp


definition runs_to :: "('s, 'e, unit) cmd \<Rightarrow> 's \<Rightarrow> 's \<Rightarrow> bool" where
  "runs_to c s s' \<longleftrightarrow> c s = (Inr (), s')"

lemma thenE_run: "runs_to c s s' \<Longrightarrow> thenE c d s = d s'"
  by (simp add: runs_to_def thenE_def bindE_def)

lemma tasks_kept:
  assumes "dir_get (l_tasks l') = dir_get (l_tasks l)" "dir_ok tk_id (l_tasks l)"
  shows "tk_id ` set (list_tasks l) \<subseteq> tk_id ` set (list_tasks l')"
proof -
  have "t \<in> set (list_tasks l')" if t: "t \<in> set (list_tasks l)" for t
  proof -
    obtain k where k: "(k, t) \<in> set (l_tasks l)" "startswith k ''task-''"
      using t by (auto simp: list_tasks_def dir_glob_mem)
    have "dir_get (l_tasks l') k = Some t"
      using dir_mem_get [OF assms(2) k(1)] assms(1) by simp
    then show ?thesis
      using dir_get_mem [of "l_tasks l'"] k(2) by (auto simp: list_tasks_def dir_glob_mem)
  qed
  then show ?thesis by blast
qed

text \<open>The ledger after the import; the sidecars and the audit files are what they may be.\<close>

definition imported_ledger ::
  "env \<Rightarrow> ledger \<Rightarrow> (string \<Rightarrow> TaskTodo dir) \<Rightarrow> (string \<Rightarrow> FileLink dir) \<Rightarrow>
    (string \<Rightarrow> DependencyRequirement dir) \<Rightarrow> ((string \<times> string) \<times> TaskLock) list \<Rightarrow> TaskEvent list \<Rightarrow> ledger" where
  "imported_ledger E l T K R F es =
     empty_ledger\<lparr>l_tasks := fold (\<lambda>t. dir_put (tk_id t) (persist_task t)) (list_tasks l) [],
       l_todos := T, l_links := K, l_requirements := R, l_active := l_active l,
       l_intros := fold (\<lambda>i. dir_put (in_id i) (i\<lparr>in_body := rstrip (in_body i)\<rparr>)) (list_introductions l) [],
       l_releases := fold (\<lambda>r. dir_put (rl_version r) (id r)) (list_releases E l) [],
       l_plans := put_all pl_task_id (plan_id \<circ> pl_plan_version) persist_plan
         (per_task (list_tasks l) (\<lambda>t. list_plans t l)) (\<lambda>_. []),
       l_questions := put_all qn_task_id qn_id id (per_task (list_tasks l) (\<lambda>t. list_questions t l)) (\<lambda>_. []),
       l_runs := put_all rn_task_id rn_run_id persist_run (per_task (list_tasks l) (\<lambda>t. list_runs t l)) (\<lambda>_. []),
       l_changes := put_all ch_task_id ch_change_id id (per_task (list_tasks l) (\<lambda>t. list_changes t l)) (\<lambda>_. []),
       l_checks := put_all ic_task_id ic_check_id id (per_task (list_tasks l) (\<lambda>t. list_checks t l)) (\<lambda>_. []),
       l_reviews := put_all cv_task_id cv_review_id persist_review
         (per_task (list_tasks l) (\<lambda>t. list_code_reviews t l)) (\<lambda>_. []),
       l_handoffs := put_all ho_task_id ho_handoff_id persist_handoff
         (per_task (list_tasks l) (\<lambda>t. list_handoffs t l)) (\<lambda>_. []),
       l_audit := F, l_events := es\<rparr>"

lemma exportable_parts:
  assumes "exportable p"
  defines "l \<equiv> pj_ledger p"
  defines "ids \<equiv> tk_id ` set (list_tasks l)"
  shows "families_ok ids l" "directories_ok ids l"
    "\<forall>t \<in> ids. list_all wf_TaskTodo (load_todos t l)" "\<forall>t \<in> ids. list_all wf_FileLink (load_links t l)"
    "\<forall>t \<in> ids. list_all wf_DependencyRequirement (load_requirements t l)"
    "\<forall>t \<in> ids. list_all wf_TaskHandoffRecord (list_handoffs t l)"
    "pred_option (\<lambda>s. wf_ActiveTaskState s \<and> as_task_id s \<in> ids) (l_active l)"
    "list_all wf_TaskLock (load_active_locks l)" "list_all wf_TaskEvent (l_events l)"
    "list_all wf_AgentCommandLogRecord (pj_logs p)"
  using assms(1) by (simp_all add: exportable_def Let_def l_def ids_def)

context record_codec
begin

lemma import_records:
  "list_all wf rs \<Longrightarrow> import_each (from_dict now) (put_record save) (untuple (json_records to_dict rs))
    = modifyE (on_ledger (fold save rs))"
  by (rule import_put_records [of wf]) (auto simp: round_trip)

end

text \<open>The seven collections of records that are saved one by one.\<close>

lemma import_task_records:
  assumes "dget raw ''plans'' = untuple (json_records PlanRecord_to_dict ps)" "list_all wf_PlanRecord ps"
    and "dget raw ''questions'' = untuple (json_records QuestionRecord_to_dict qs)" "list_all wf_QuestionRecord qs"
    and "dget raw ''runs'' = untuple (json_records TaskRunRecord_to_dict rs)" "list_all wf_TaskRunRecord rs"
    and "dget raw ''changes'' = untuple (json_records CodeChangeRecord_to_dict cs)" "list_all wf_CodeChangeRecord cs"
    and "dget raw ''checks'' = untuple (json_records ImplementationCheckRecord_to_dict ks)"
      "list_all wf_ImplementationCheckRecord ks"
    and "dget raw ''code_reviews'' = untuple (json_records CodeReviewRecord_to_dict vs)" "list_all wf_CodeReviewRecord vs"
    and "dget raw ''handoffs'' = untuple (json_records TaskHandoffRecord_to_dict hs)" "list_all wf_TaskHandoffRecord hs"
  shows "thenE (import_each (PlanRecord_from_dict now) import_plan (dget raw ''plans''))
      (thenE (import_each (QuestionRecord_from_dict now) (put_record save_question) (dget raw ''questions''))
      (thenE (import_each (TaskRunRecord_from_dict now) (put_record save_run) (dget raw ''runs''))
      (thenE (import_each (CodeChangeRecord_from_dict now) (put_record save_change) (dget raw ''changes''))
      (thenE (import_each (ImplementationCheckRecord_from_dict now) (put_record save_check) (dget raw ''checks''))
      (thenE (import_each (CodeReviewRecord_from_dict now) (put_record save_code_review) (dget raw ''code_reviews''))
      (thenE (import_each (\<lambda>d. TaskHandoffRecord_from_dict now (PDict d)) (put_record save_handoff)
                (dget raw ''handoffs'')) c)))))) p
    = c (on_ledger (\<lambda>l. l\<lparr>
        l_plans := put_all pl_task_id (plan_id \<circ> pl_plan_version) persist_plan ps (l_plans l),
        l_questions := put_all qn_task_id qn_id id qs (l_questions l),
        l_runs := put_all rn_task_id rn_run_id persist_run rs (l_runs l),
        l_changes := put_all ch_task_id ch_change_id id cs (l_changes l),
        l_checks := put_all ic_task_id ic_check_id id ks (l_checks l),
        l_reviews := put_all cv_task_id cv_review_id persist_review vs (l_reviews l),
        l_handoffs := put_all ho_task_id ho_handoff_id persist_handoff hs (l_handoffs l)\<rparr>) p)"
  unfolding assms(1,3,5,7,9,11,13) import_plan_overwrites pl_codec.import_records [OF assms(2)]
    qn_codec.import_records [OF assms(4)] rn_codec.import_records [OF assms(6)] ch_codec.import_records [OF assms(8)]
    ic_codec.import_records [OF assms(10)] cv_codec.import_records [OF assms(12)] ho_codec.import_records [OF assms(14)]
    thenE_modifyE
  by (simp add: on_ledger_def save_folds)

text \<open>What the families of an exportable ledger list is well formed.\<close>

lemma listed_records_good:
  assumes "families_ok (tk_id ` set (list_tasks l)) l"
  shows "list_all wf_PlanRecord (per_task (list_tasks l) (\<lambda>t. list_plans t l))"
    and "list_all wf_QuestionRecord (per_task (list_tasks l) (\<lambda>t. list_questions t l))"
    and "list_all wf_TaskRunRecord (per_task (list_tasks l) (\<lambda>t. list_runs t l))"
    and "list_all wf_CodeChangeRecord (per_task (list_tasks l) (\<lambda>t. list_changes t l))"
    and "list_all wf_ImplementationCheckRecord (per_task (list_tasks l) (\<lambda>t. list_checks t l))"
    and "list_all wf_CodeReviewRecord (per_task (list_tasks l) (\<lambda>t. list_code_reviews t l))"
  using assms [unfolded families_ok_def]
  by (auto intro: family_listed_good(1) [OF _ _ refl, where l = l] list_plans_def list_questions_def list_runs_def
      list_changes_def list_checks_def list_code_reviews_def)

lemma full_export_imported:
  assumes ok: "exportable p" and d: "export_v2_payload E True None p = Inr d" and pol: "pol \<noteq> LI_keep"
  shows "\<exists>es T K R F. load_events (pj_ledger p) = Inr es \<and> (\<forall>c t. T (c # t) = []) \<and>
    import_v2_payload E False pol (untuple_dict d) empty_project
      = (Inr (), \<lparr>pj_ledger = imported_ledger E (pj_ledger p) T K R F es, pj_logs = load_agent_command_logs p\<rparr>)"
proof -
  define l where "l = pj_ledger p"
  define raw where "raw = untuple_dict d"
  let ?ts = "list_tasks l" and ?now = "e_now E"
  let ?ids = "tk_id ` set ?ts"
  have get: "dget raw k = untuple (dget d k)" for k by (simp add: raw_def dget_untuple_dict)
  note d1 = exported_collections [OF d, folded l_def] and d2 = exported_task_collections [OF d, folded l_def]
  note parts = exportable_parts [OF ok, folded l_def]
  note families = parts(1) [unfolded families_ok_def] and directories = parts(2) [unfolded directories_ok_def]
  note tasks = directory_listed [OF conjunct1 [OF directories], of tk_id, folded list_tasks_def]
  note intros = directory_listed [OF conjunct1 [OF conjunct2 [OF directories]], of in_id, folded list_introductions_def]
  note releases = directory_listed [OF conjunct2 [OF conjunct2 [OF directories]],
    of "\<lambda>r. (numeric_id_sort_key E (rl_boundary_task_id r) ''task'', rl_version r)", folded list_releases_def]
  obtain es where es: "load_events l = Inr es" "dget d ''events'' = json_records TaskEvent_to_dict es"
    using d1(1) by blast
  define p1 where "p1 = on_ledger (fold save_task ?ts) empty_project"
  have persist: "\<forall>t \<in> set ?ts. persist_task t = t"
    using conjunct1 [OF directories] by (auto simp: tasks(1) directory_ok_def)
  have s1: "runs_to (import_each (TaskRecord_from_dict ?now) (put_record (import_task E)) (dget raw ''tasks''))
      empty_project p1"
    by (simp add: runs_to_def get d1(2) tk_codec.import_records [OF tasks(2)] modifyE_def p1_def
        import_stored_tasks [OF persist] on_ledger_def)
  have todos: "list_all wf_TaskTodo (per_task ?ts (\<lambda>t. load_todos t l))"
    and links: "list_all wf_FileLink (per_task ?ts (\<lambda>t. load_links t l))"
    and reqs: "list_all wf_DependencyRequirement (per_task ?ts (\<lambda>t. load_requirements t l))"
    and handoffs: "list_all wf_TaskHandoffRecord (per_task ?ts (\<lambda>t. list_handoffs t l))"
    using parts(3-6) by (simp_all add: list_all_per_task)
  have "\<exists>T K R. import_standalone_collections E raw p1
      = (Inr (), on_ledger (\<lambda>l. l\<lparr>l_todos := T, l_links := K, l_requirements := R\<rparr>) p1)
    \<and> (\<forall>c t. T (c # t) = l_todos (pj_ledger p1) (c # t))"
    by (rule import_standalone [OF _ todos _ links _ reqs]) (simp_all add: get d2)
  then obtain T K R where s2: "runs_to (import_standalone_collections E raw) p1
      (on_ledger (\<lambda>l. l\<lparr>l_todos := T, l_links := K, l_requirements := R\<rparr>) p1)"
    and T: "\<forall>c t. T (c # t) = l_todos (pj_ledger p1) (c # t)"
    unfolding runs_to_def by blast
  define p2 where "p2 = on_ledger (\<lambda>l. l\<lparr>l_todos := T, l_links := K, l_requirements := R\<rparr>) p1"
  note start = p1_def p2_def on_ledger_def save_folds empty_project_def
  have "dir_get (l_tasks (pj_ledger p2)) = dir_get (l_tasks l)"
    using tasks(4) by (simp add: start empty_ledger_def)
  then have kept: "?ids \<subseteq> tk_id ` set (list_tasks (pj_ledger p2))"
    using directories by (intro tasks_kept) (auto simp: directory_ok_def)
  define p3 where "p3 = on_ledger (\<lambda>k. if l_active l = None then k else k\<lparr>l_active := l_active l\<rparr>) p2"
  have s3: "runs_to (import_active_task E raw) p2 p3"
    unfolding p3_def runs_to_def using parts(7) kept
    by (intro import_active) (auto simp: get d1 pred_option_def)
  define p4 where "p4 = on_ledger (fold save_introduction (list_introductions l)) p3"
  have s4: "runs_to (import_each (IntroductionRecord_from_dict ?now) (put_record save_introduction)
      (dget raw ''introductions'')) p3 p4"
    by (simp add: runs_to_def get d1 in_codec.import_records [OF intros(2)] modifyE_def p4_def)
  define p5 where "p5 = on_ledger (fold (\<lambda>r. put_release (rl_version r) r) (list_releases E l)) p4"
  have "list_tasks (pj_ledger p4) = list_tasks (pj_ledger p2)"
    by (simp add: p4_def p3_def on_ledger_def save_folds list_tasks_def)
  then have s5: "runs_to (import_releases E raw) p4 p5"
    unfolding p5_def runs_to_def using releases(2,3) kept
    by (intro import_exported_releases)
      (auto simp: get d1 list_all_iff p4_def p3_def start empty_ledger_def)
  note records = import_task_records [OF get [of "''plans''", unfolded d2] listed_records_good(1) [OF parts(1)]
      get [of "''questions''", unfolded d2] listed_records_good(2) [OF parts(1)]
      get [of "''runs''", unfolded d2] listed_records_good(3) [OF parts(1)]
      get [of "''changes''", unfolded d2] listed_records_good(4) [OF parts(1)]
      get [of "''checks''", unfolded d2] listed_records_good(5) [OF parts(1)]
      get [of "''code_reviews''", unfolded d2] listed_records_good(6) [OF parts(1)]
      get [of "''handoffs''", unfolded d2] handoffs]
  from import_exported_locks [OF get [of "''locks''", unfolded d1(6)] parts(8) pol]
  obtain G where locks: "runs_to (import_locks E pol raw) q (on_ledger (\<lambda>l. l\<lparr>l_audit := G (l_audit l)\<rparr>) q)" for q
    unfolding runs_to_def by blast
  have events: "list_all wf_TaskEvent es"
    using parts(9) mset_eq_setD [OF loaded_events [OF es(1)]] by (simp add: list_all_iff)
  have logs: "list_all wf_AgentCommandLogRecord (load_agent_command_logs p)"
    using parts(10) loaded_logs [of p] by (auto simp: list_all_iff)
  have s14: "runs_to (import_events E False raw) q (on_ledger (\<lambda>k. k\<lparr>l_events := es\<rparr>) q)"
    if "l_events (pj_ledger q) = []" for q
    unfolding runs_to_def by (rule import_exported_events [OF get [of "''events''", unfolded es(2)] events that])
  have s15: "import_logs E False raw q = (Inr (), q\<lparr>pj_logs := load_agent_command_logs p\<rparr>)"
    if "pj_logs q = []" for q
    by (rule import_exported_logs [OF get [of "''agent_command_logs''", unfolded d1(7)] logs that])
  have nothing [simp]: "l_events (pj_ledger p5) = []" "pj_logs p5 = []"
    by (simp_all add: p5_def p4_def p3_def start empty_ledger_def)
  have "import_v2_payload E False pol raw empty_project
      = (Inr (), \<lparr>pj_ledger = imported_ledger E l T K R (G []) es, pj_logs = load_agent_command_logs p\<rparr>)"
    unfolding import_v2_payload_def Let_def thenE_run [OF s1] thenE_run [OF s2, folded p2_def]
      thenE_run [OF s3] thenE_run [OF s4] thenE_run [OF s5] records thenE_run [OF locks]
    by (subst thenE_run [OF s14]; (simp add: nothing)?; subst s15; simp add: nothing;
      simp add: p5_def p4_def p3_def start empty_ledger_def imported_ledger_def)
  moreover have "\<forall>c t. T (c # t) = []" using T by (simp add: start empty_ledger_def)
  ultimately show ?thesis using es(1) unfolding l_def raw_def by blast
qed

text \<open>The families that the imported ledger holds are those that were exported.\<close>

lemma restored_families:
  assumes "families_ok (tk_id ` set (list_tasks l)) l"
    and l': "l' = imported_ledger E l T K R F es"
  shows "dir_get (l_plans l' t) = dir_get (l_plans l t)"
    and "dir_get (l_questions l' t) = dir_get (l_questions l t)"
    and "dir_get (l_runs l' t) = dir_get (l_runs l t)"
    and "dir_get (l_changes l' t) = dir_get (l_changes l t)"
    and "dir_get (l_checks l' t) = dir_get (l_checks l t)"
    and "dir_get (l_reviews l' t) = dir_get (l_reviews l t)"
  using assms(1) [unfolded families_ok_def]
  by (auto simp: l' imported_ledger_def intro!: family_listed_good(2) [OF _ _ refl, where l = l] list_plans_def
      list_questions_def list_runs_def list_changes_def list_checks_def list_code_reviews_def)

lemma restored_directories:
  assumes "directories_ok ids l"
    and l': "l' = imported_ledger E l T K R F es"
  shows "dir_get (l_tasks l') = dir_get (l_tasks l)" "dir_get (l_intros l') = dir_get (l_intros l)"
    "dir_get (l_releases l') = dir_get (l_releases l)"
  using assms(1) [unfolded directories_ok_def]
    directory_listed(4) [OF conjunct2 [OF conjunct2 [OF assms(1) [unfolded directories_ok_def]]],
      of "\<lambda>r. (numeric_id_sort_key E (rl_boundary_task_id r) ''task'', rl_version r)"]
  by (simp_all add: l' imported_ledger_def list_tasks_def list_introductions_def list_releases_def
      directory_listed(4) [OF conjunct1] directory_listed(4) [OF conjunct1 [OF conjunct2]])

text \<open>The text of a handoff is not exported; what arrives is an empty text.\<close>

lemma put_all_records:
  "(k, r) \<in> set (put_all owner key persist rs D t) \<Longrightarrow> r \<in> persist ` set rs \<or> (k, r) \<in> set (D t)"
proof (induction rs arbitrary: k r rule: rev_induct)
  case (snoc x rs)
  have "(k, r) \<in> set (dir_put (key x) (persist x) d) \<Longrightarrow> r = persist x \<or> (k, r) \<in> set d" for d
    by (induction "key x" "persist x" d rule: dir_put.induct) (auto split: if_splits)
  then show ?case using snoc by (auto simp: put_all_def split: if_splits)
qed (simp add: put_all_def)

lemma imported_handoff_bodies:
  assumes "(k, h) \<in> set (l_handoffs (imported_ledger E l T K R F es) t)"
  shows "ho_context_body h = [CHR 0x0A]"
proof -
  have "h \<in> persist_handoff ` set (per_task (list_tasks l) (\<lambda>t. list_handoffs t l))"
    using assms by (auto simp: imported_ledger_def dest: put_all_records)
  then show ?thesis
    by (auto simp: per_task_def list_handoffs_def persist_handoff_def rstrip_def)
qed

text \<open>The map of ids that an import reports.\<close>

lemma reported_id_map:
  assumes "import_project_payload E uuid local_uuid payload replace dry_run lock_policy id_policy tasks_scope p = (Inr r, p')"
  shows "\<exists>incoming. build_import_task_id_map E (im_id_policy r) incoming (pj_ledger p) = Inr (im_task_id_map r)
    \<and> im_imported_task_ids r = map (\<lambda>i. the (map_of (im_task_id_map r) i)) incoming"
  using assms
  by (auto simp: import_project_payload_def bindE_def thenE_def liftE_def readE_def raiseE_def returnE_def getsE_def
    modifyE_def guardE_def Let_def split: sum.splits pyval.splits prod.splits if_splits)

lemma reported_ids_fresh:
  assumes "ids_ok E"
    and "import_project_payload E uuid local_uuid payload replace dry_run lock_policy id_policy tasks_scope p = (Inr r, p')"
  shows "distinct (map fst (im_task_id_map r)) \<and> distinct (map snd (im_task_id_map r))
    \<and> snd ` set (im_task_id_map r) \<inter> tk_id ` set (list_tasks (pj_ledger p)) = {}
    \<and> set (im_imported_task_ids r) = snd ` set (im_task_id_map r)
    \<and> (im_id_policy r = II_renumber_on_conflict \<or> set (im_task_id_map r) \<subseteq> Id)"
proof -
  let ?m = "im_task_id_map r"
  obtain incoming where m: "build_import_task_id_map E (im_id_policy r) incoming (pj_ledger p) = Inr ?m"
    and ids: "im_imported_task_ids r = map (\<lambda>i. the (map_of ?m i)) incoming"
    using reported_id_map [OF assms(2)] by blast
  note built = built_id_map [OF assms(1) m]
  have "the (map_of ?m i) = t" if "(i, t) \<in> set ?m" for i t
    using built that by simp
  then have "(\<lambda>i. the (map_of ?m i)) ` fst ` set ?m = snd ` set ?m"
    by (force simp: image_iff)
  then show ?thesis using built by (simp add: ids)
qed

text \<open>What comes back, put together.\<close>

definition same_records :: "ledger \<Rightarrow> ledger \<Rightarrow> bool" where
  "same_records l' l \<longleftrightarrow>
     dir_get (l_tasks l') = dir_get (l_tasks l) \<and> dir_get (l_intros l') = dir_get (l_intros l)
   \<and> dir_get (l_releases l') = dir_get (l_releases l) \<and> l_active l' = l_active l
   \<and> mset (l_events l') = mset (l_events l)
   \<and> (\<forall>t. dir_get (l_plans l' t) = dir_get (l_plans l t) \<and> dir_get (l_questions l' t) = dir_get (l_questions l t)
        \<and> dir_get (l_runs l' t) = dir_get (l_runs l t) \<and> dir_get (l_changes l' t) = dir_get (l_changes l t)
        \<and> dir_get (l_checks l' t) = dir_get (l_checks l t) \<and> dir_get (l_reviews l' t) = dir_get (l_reviews l t))"

lemma full_export_restored:
  assumes "exportable p" "export_v2_payload E True None p = Inr d" "pol \<noteq> LI_keep"
  shows "\<exists>p'. import_v2_payload E False pol (untuple_dict d) empty_project = (Inr (), p')
    \<and> same_records (pj_ledger p') (pj_ledger p)
    \<and> (\<forall>c t. l_todos (pj_ledger p') (c # t) = [])
    \<and> (\<forall>t. ho_context_body ` snd ` set (l_handoffs (pj_ledger p') t) \<subseteq> {[CHR 0x0A]})"
proof -
  obtain es T K R F where es: "load_events (pj_ledger p) = Inr es" and T: "\<forall>c t. T (c # t) = []"
    and run: "import_v2_payload E False pol (untuple_dict d) empty_project
      = (Inr (), \<lparr>pj_ledger = imported_ledger E (pj_ledger p) T K R F es, pj_logs = load_agent_command_logs p\<rparr>)"
    using full_export_imported [OF assms] by blast
  let ?l' = "imported_ledger E (pj_ledger p) T K R F es"
  have "same_records ?l' (pj_ledger p)"
    unfolding same_records_def
    using restored_families [OF exportable_parts(1) [OF assms(1)] refl]
      restored_directories [OF exportable_parts(2) [OF assms(1)] refl] loaded_events [OF es]
    by (simp add: imported_ledger_def)
  moreover have "l_todos ?l' (c # t) = []" for c t
    by (simp add: imported_ledger_def T)
  ultimately show ?thesis
    using run imported_handoff_bodies by fastforce
qed

end
