(* ===== verification/Examples.thy ===== *)
theory Examples
  imports Outcomes Capabilities Health TaskTree Ledgers Recording Proposals ExchangeRestore
begin

text \<open>
  A concrete environment and concrete records, the inputs at which the properties of the root
  theory are instantiated. The identifier scheme is the documented one of the identifier
  package: a prefix, a dash and a number padded to four digits.
\<close>

definition ex_clock :: datetime where
  "ex_clock = \<lparr>dt_year = 2024, dt_month = 2, dt_day = 28, dt_hour = 23, dt_minute = 30,
     dt_second = 0, dt_micro = 0, dt_offset = Some 0\<rparr>"

definition ex_parse_id :: "string \<Rightarrow> string \<Rightarrow> nat option" where
  "ex_parse_id prefix ref =
     (let digits = removeprefix ref (prefix @ ''-'')
      in if startswith ref (prefix @ ''-'') \<and> isdigit digits then Some (digits_nat digits) else None)"

definition ex_format_id :: "string \<Rightarrow> nat \<Rightarrow> string" where
  "ex_format_id prefix n = prefix @ ''-'' @ zpad 4 (nat_str n)"

definition ex_next_id :: "string \<Rightarrow> string list \<Rightarrow> string" where
  "ex_next_id prefix existing =
     ex_format_id prefix (Suc (fold max (map (\<lambda>i. case ex_parse_id prefix i of
        None \<Rightarrow> 0 | Some n \<Rightarrow> n) existing) 0))"

definition ex_env :: env where
  "ex_env = \<lparr>e_now = ''2024-02-28T23:30:00+00:00'', e_clock = ex_clock, e_user = ''dev'',
     e_host = ''host'', e_pid = 7, e_cwd = ''/work'', e_root = ''/work'',
     e_getenv = (\<lambda>_. None),
     e_isatty = False, e_fqdn = ''host'', e_node = ''host'', e_pid_check = (\<lambda>_. PK_unknown),
     e_event_logging = True, e_uuid = (\<lambda>n. nat_str n), e_next_id = ex_next_id,
     e_parse_id = ex_parse_id, e_format_id = ex_format_id, e_local_id = (\<lambda>k r. None),
     e_slugify = (\<lambda>s fallback. if s = [] then fallback else lower s),
     e_content_hash = (\<lambda>s. ''h'' @ nat_str (length s)), e_json_hash = (\<lambda>v. ''sha256:0''),
     e_yaml_load = (\<lambda>s. None),
     e_yaml_dump = (\<lambda>v. []), e_tasks_dir = ''tasks'', e_pipeline = None,
     e_planning_profile = False,
     e_snapshot = \<lparr>ss_git_commit = None, ss_dirty = None, ss_diff_hash = None,
       ss_status_hash = None, ss_captured_at = None\<rparr>,
     e_git_workspace = False\<rparr>"

definition ex_actor :: ActorRef where
  "ex_actor = ActorRef_default\<lparr>ar_actor_name := ''dev''\<rparr>"

definition ex_task :: TaskRecord where
  "ex_task = \<lparr>tk_id = ''task-0001'', tk_slug = ''demo'', tk_title = ''Demo'', tk_body = ''Text'',
     tk_status_stage = S_draft, tk_created_at = ''t0'', tk_updated_at = ''t0'',
     tk_description_summary = None, tk_priority = None, tk_labels = [''core''], tk_owner = None,
     tk_introduction_ref = None, tk_requirements = [], tk_file_links = [], tk_todos = [],
     tk_latest_plan_version = None, tk_accepted_plan_version = None,
     tk_latest_planning_run = None, tk_latest_implementation_run = None,
     tk_latest_validation_run = None, tk_code_change_log_refs = [], tk_notes = [],
     tk_parent_task_id = None, tk_parent_relation = None, tk_closed_at = None,
     tk_closed_by = None, tk_closure_note = None, tk_archived_at = None, tk_archived_by = None,
     tk_archive_reason = None, tk_file_version = TASKLEDGER_V2_FILE_VERSION,
     tk_schema_version = TASKLEDGER_SCHEMA_VERSION, tk_object_type = ''task'',
     tk_task_type = TT_managed, tk_recorded_at = None, tk_recorded_by = None\<rparr>"

definition ex_ledger :: ledger where
  "ex_ledger = save_task ex_task empty_ledger"

definition ex_plan :: PlanRecord where
  "ex_plan = \<lparr>pl_task_id = ''task-0001'', pl_plan_version = 1, pl_body = ''Do it'', pl_status = PS_accepted,
     pl_created_at = ''t1'', pl_created_by = ex_actor, pl_supersedes = None, pl_question_refs = [],
     pl_file_version = TASKLEDGER_V2_FILE_VERSION,
     pl_criteria = [\<lparr>ac_id = ''ac-0001'', ac_text = ''works'', ac_mandatory = True\<rparr>], pl_todos = [],
     pl_generation_reason = Some ''initial'', pl_based_on_question_ids = [],
     pl_based_on_answer_hash = None, pl_approved_at = None, pl_approved_by = None,
     pl_approval_note = None, pl_approval_source = None, pl_approved_plan_hash = None,
     pl_goal = Some ''goal'', pl_files = [], pl_test_commands = [], pl_expected_outputs = [],
     pl_todos_waived_reason = None, pl_schema_version = TASKLEDGER_SCHEMA_VERSION,
     pl_object_type = ''plan''\<rparr>"

definition ex_run :: TaskRunRecord where
  "ex_run = \<lparr>rn_run_id = ''run-0001'', rn_task_id = ''task-0001'', rn_run_type = RT_implementation,
     rn_status = RS_finished, rn_started_at = ''t2'', rn_finished_at = Some ''t3'',
     rn_actor = ex_actor, rn_harness = None, rn_based_on_plan_version = None,
     rn_based_on_implementation_run = None, rn_resumes_run_id = None, rn_summary = None,
     rn_worklog = [''did it''], rn_deviations_from_plan = [], rn_change_refs = [],
     rn_check_refs = [], rn_todo_updates = [], rn_artifact_refs = [], rn_checks = [],
     rn_evidence = [], rn_recommendation = None, rn_result = None, rn_handoff_refs = [],
     rn_actor_history = [], rn_file_version = TASKLEDGER_V2_FILE_VERSION,
     rn_based_on_plan = None, rn_schema_version = TASKLEDGER_SCHEMA_VERSION,
     rn_object_type = ''run'', rn_workspace_git_commit = None, rn_workspace_dirty = None,
     rn_workspace_diff_hash = None, rn_workspace_status_hash = None,
     rn_workspace_snapshot_at = None\<rparr>"

definition ex_lock :: TaskLock where
  "ex_lock = \<lparr>lk_lock_id = ''lock-1'', lk_task_id = ''task-0001'', lk_stage = LS_validating,
     lk_run_id = ''run-0002'', lk_created_at = ''t4'', lk_expires_at = None,
     lk_reason = ''validate task'', lk_holder = ex_actor, lk_lease_seconds = 7200,
     lk_last_heartbeat_at = None, lk_broken_at = None, lk_broken_by = None,
     lk_broken_reason = None, lk_actor = Some ex_actor, lk_harness = None,
     lk_transfer_history = [], lk_transfer_date = None,
     lk_file_version = TASKLEDGER_V2_FILE_VERSION,
     lk_schema_version = TASKLEDGER_SCHEMA_VERSION, lk_object_type = ''lock''\<rparr>"

definition ex_approve :: approve_args where
  "ex_approve = \<lparr>aa_version = 1, aa_actor_type = ''user'', aa_actor_name = None, aa_note = None,
     aa_allow_agent_approval = False, aa_reason = None, aa_allow_empty_criteria = False,
     aa_materialize_todos = True, aa_allow_open_questions = False, aa_allow_empty_todos = False,
     aa_allow_lint_errors = False, aa_approval_source = None\<rparr>"

definition ex_planned :: ledger where
  "ex_planned =
     snd (start_planning ex_env ''task-0001'' None None (snd (create_task ex_env
       \<lparr>nt_title = ''Demo'', nt_description = ''Text'', nt_slug = None, nt_priority = None,
        nt_labels = [], nt_owner = None\<rparr> empty_ledger)))"

definition ex_created :: ledger where
  "ex_created = snd (create_task ex_env
     \<lparr>nt_title = ''Demo'', nt_description = ''Text'', nt_slug = None, nt_priority = None,
      nt_labels = [], nt_owner = None\<rparr> empty_ledger)"

definition ex_vtask :: TaskRecord where
  "ex_vtask = ex_task\<lparr>tk_status_stage := S_implemented, tk_accepted_plan_version := Some 1,
     tk_latest_implementation_run := Some ''run-0001'', tk_latest_validation_run := Some ''run-0002''\<rparr>"

definition ex_vrun :: TaskRunRecord where
  "ex_vrun = ex_run\<lparr>rn_run_id := ''run-0002'', rn_run_type := RT_validation, rn_status := RS_running,
     rn_checks := [\<lparr>vc_name = ''works'', vc_id = Some ''check-0001'', vc_criterion_id = Some ''ac-0001'',
       vc_status = CS_pass, vc_details = None, vc_evidence = [], vc_waiver = None\<rparr>]\<rparr>"

definition ex_validating :: ledger where
  "ex_validating = update_lock ''task-0001'' ex_lock
     (save_run ex_vrun (save_run ex_run (overwrite_plan ex_plan (save_task ex_vtask empty_ledger))))"

definition ex_approved_task :: TaskRecord where
  "ex_approved_task = ex_task\<lparr>tk_status_stage := S_approved, tk_accepted_plan_version := Some 1\<rparr>"

definition ex_approved :: ledger where
  "ex_approved = overwrite_plan ex_plan (save_task ex_approved_task empty_ledger)"

text \<open>A machine on which no other process runs, and a lock taken there by process 7\<close>

definition ex_dead_env :: env where
  "ex_dead_env = ex_env\<lparr>e_pid_check := (\<lambda>_. PK_dead)\<rparr>"

definition ex_owned_lock :: TaskLock where
  "ex_owned_lock = ex_lock\<lparr>lk_holder := auto_actor ex_env no_actor_args\<rparr>"

definition ex_todo :: "string \<Rightarrow> TaskTodo" where
  "ex_todo i = new_todo ex_env None i ''write the parser'' ''user'' True"

lemma ex_days_before: "days_before_month 2024 2 = 31"
  by (simp add: numeral_2_eq_2 days_in_month_def)

lemmas ex_defs = ex_env_def ex_clock_def ex_actor_def ex_task_def ex_ledger_def


section \<open>The identifier scheme\<close>

lemma ex_parse_format: "ex_parse_id prefix (ex_format_id prefix n) = Some n"
proof -
  have "isdigit (zpad 4 (nat_str n))"
    using nat_str_digits [of n]
    by (auto simp: isdigit_def zpad_def list_all_iff digit_char_props)
  then show ?thesis
    unfolding ex_parse_id_def ex_format_id_def Let_def append_assoc [symmetric]
    by (simp del: append_assoc)
qed

lemma ex_next_fresh: "ex_next_id prefix existing \<notin> set existing"
proof
  let ?n = "\<lambda>i. case ex_parse_id prefix i of None \<Rightarrow> 0 | Some n \<Rightarrow> n"
  let ?m = "fold max (map ?n existing) 0"
  assume "ex_next_id prefix existing \<in> set existing"
  then have "?n (ex_format_id prefix (Suc ?m)) \<in> set (map ?n existing)"
    unfolding ex_next_id_def by (metis (no_types) image_eqI list.set_map)
  then have "Suc ?m \<in> set (map ?n existing)"
    by (simp only: ex_parse_format option.case)
  moreover have "\<forall>x \<in> set (map ?n existing). x \<le> ?m"
    by (metis Max.set_eq_fold List.finite_set Max_ge insertCI list.set(2) fold_simps(2) max.commute max_0L)
  ultimately show False by auto
qed

lemma ex_ids_ok: "ids_ok ex_env"
  by (simp add: ids_ok_def ex_env_def ex_parse_format ex_next_fresh)

section \<open>The example ledgers\<close>

lemma ex_run_wf: "wf_TaskRunRecord ex_run"
  by (simp add: wf_TaskRunRecord_def ex_run_def ex_actor_def wf_ActorRef_def plan_link_ok_def)

lemma ex_lock_wf: "wf_TaskLock ex_lock"
  by (simp add: wf_TaskLock_def ex_lock_def ex_actor_def wf_ActorRef_def)

lemma ex_plan_wf: "wf_PlanRecord ex_plan"
  by (simp add: wf_PlanRecord_def ex_plan_def ex_actor_def wf_ActorRef_def wf_AcceptanceCriterion_def)



lemma ex_planned_reachable: "reachable ex_planned"
  unfolding ex_planned_def
  by (intro reachable.run [OF _ ex_ids_ok s_plan_start] reachable.run [OF _ ex_ids_ok s_create]
      reachable.init)

lemma ex_created_reachable: "reachable ex_created"
  unfolding ex_created_def by (intro reachable.run [OF _ ex_ids_ok s_create] reachable.init)

lemma ex_created_runs: "l_runs ex_created t = []"
  by code_simp

lemma ex_created_ids: "canonical_run_ids ex_env ex_created"
  by (simp add: canonical_run_ids_def runs_of_def ex_created_runs)

lemma ex_created_inspect:
  "map_sum id (\<lambda>r. (dc_tasks (dr_counts r), dr_errors r)) (inspect_v2_project ex_env ex_created) =
     Inr (1, [])"
  by code_simp

lemma ex_approved_can:
  "case can_perform ex_env ''task-0001'' ''implement'' ex_approved of Inl _ \<Rightarrow> False | Inr c \<Rightarrow> cp_ok c"
  by code_simp

lemma ex_validating_resolve: "resolve_task ex_env False ''task-0001'' ex_validating = Inr (persist_task ex_vtask)"
  by code_simp

lemma ex_validating_run:
  "require_running_run ex_env (persist_task ex_vtask) (tk_latest_validation_run ex_vtask) RT_validation ex_validating
     = Inr (persist_run ex_vrun)"
  by code_simp

lemma ex_validating_plan: "resolve_plan ''task-0001'' (Some 1) ex_validating = Inr (persist_plan ex_plan)"
  by code_simp

lemma ex_validating_impl: "optional_run ex_env (persist_task ex_vtask) (Some ''run-0001'') ex_validating = Some (persist_run ex_run)"
  by code_simp

lemma ex_validating_deps: "dependency_blockers ex_env (persist_task ex_vtask) ex_validating = Inr []"
  by code_simp

lemma ex_validating_todos: "load_todos ''task-0001'' ex_validating = []"
  by code_simp

lemma ex_validating_gate: "validation_gate ex_env (persist_task ex_vtask) (persist_run ex_vrun) ex_validating"
proof -
  have "tk_accepted_plan_version (persist_task ex_vtask) = Some 1" "tk_id (persist_task ex_vtask) = ''task-0001''"
    "tk_latest_implementation_run (persist_task ex_vtask) = Some ''run-0001''"
    by code_simp+
  moreover have "pl_status (persist_plan ex_plan) = PS_accepted" "rn_status (persist_run ex_run) = RS_finished"
    "list_all (\<lambda>c. criterion_passed (rn_checks (persist_run ex_vrun)) c) (pl_criteria (persist_plan ex_plan))"
    by code_simp+
  ultimately show ?thesis
    by (simp add: validation_gate_def ex_validating_plan ex_validating_impl ex_validating_deps ex_validating_todos list_all_iff)
qed

text \<open>A second task below the first one, and a ledger configuration with a foreign line.\<close>

definition ex_child :: TaskRecord where
  "ex_child = ex_task\<lparr>tk_id := ''task-0002'', tk_slug := ''part'', tk_parent_task_id := Some ''task-0001''\<rparr>"

definition ex_tree_options :: tree_options where
  "ex_tree_options =
     \<lparr>to_all_ledgers = False, to_task_ref = None, to_details = False, to_include_archived = False\<rparr>"

lemma ex_tree_acyclic: "acyclic (child_rel (listed_tasks ex_tree_options [ex_child, ex_task]))"
proof -
  have "child_rel (listed_tasks ex_tree_options [ex_child, ex_task]) \<subseteq> {(''task-0001'', ''task-0002'')}"
    by (auto simp: child_rel_def children_of_def parent_of_def listed_tasks_def ex_tree_options_def ex_child_def
        ex_task_def split: if_splits)
  moreover have "acyclic {(''task-0001'', ''task-0002'')}"
    by (rule acyclic_insert [THEN iffD2]) (auto simp: acyclic_def)
  ultimately show ?thesis by (rule acyclic_subset [rotated])
qed

definition ex_config_text :: string where
  "ex_config_text = ''code = x'' @ [CHR 0x0A] @ ''ledger_next_task_number = 4'' @ [CHR 0x0A]"

definition ex_config_reader :: "string \<Rightarrow> pydict option" where
  "ex_config_reader t = Some [(''ledger_next_task_number'', PInt 4)]"

section \<open>A project to export and a document to import\<close>

definition ex_project :: project where
  "ex_project = \<lparr>pj_ledger = empty_ledger\<lparr>l_tasks := [(''task-0001'', ex_task)],
       l_plans := (\<lambda>t. if t = ''task-0001'' then [(''plan-v1'', ex_plan)] else []),
       l_runs := (\<lambda>t. if t = ''task-0001'' then [(''run-0001'', ex_run)] else []),
       l_todos := (\<lambda>t. if t = ''task-0001'' then [(''todo-0001'', ex_todo ''todo-0001'')] else [])\<rparr>,
     pj_logs = []\<rparr>"

definition ex_payload :: pydict where
  "ex_payload = [(''kind'', PStr ''taskledger_export''), (''v2'', PDict
     [(''tasks'', PList [PDict [(''id'', PStr ''task-0001'')], PDict [(''id'', PStr ''task-0007'')]])])]"

lemma ex_project_tasks: "list_tasks (pj_ledger ex_project) = [ex_task]"
  by (simp add: ex_project_def list_tasks_def dir_glob_def)

lemma ex_project_exportable: "exportable ex_project"
proof -
  have stripped: "rstrip ''Do it'' = ''Do it''" "rstrip ''Text'' = ''Text''" "plan_id 1 = ''plan-v1''"
    "strip ''write the parser'' = ''write the parser''"
    by code_simp+
  have "TaskRunRecord_plan_ref ex_run = None"
    by (simp add: TaskRunRecord_plan_ref_def ex_run_def)
  then have "persist_plan ex_plan = ex_plan" "persist_run ex_run = ex_run"
    by (simp_all add: persist_plan_def persist_run_def) (simp_all add: ex_plan_def ex_run_def stripped list_or_def opt_str_or_def)
  moreover have "pl_task_id ex_plan = ''task-0001''" "plan_id (pl_plan_version ex_plan) = ''plan-v1''"
    "rn_task_id ex_run = ''task-0001''" "rn_run_id ex_run = ''run-0001''"
    by (simp_all add: ex_plan_def ex_run_def stripped)
  ultimately have fam: "families_ok {''task-0001''} (pj_ledger ex_project)"
    using ex_run_wf ex_plan_wf
    by (simp add: families_ok_def family_ok_def ex_project_def empty_ledger_def dir_ok_def)
  have "wf_TaskRecord ex_task" "persist_task ex_task = ex_task"
    by (simp_all add: wf_TaskRecord_def persist_task_def) (simp_all add: ex_task_def stripped)
  then have "directories_ok {''task-0001''} (pj_ledger ex_project)"
    by (simp add: directories_ok_def directory_ok_def ex_project_def empty_ledger_def dir_ok_def)
      (simp add: ex_task_def)
  moreover have "list_all wf_TaskTodo (load_todos ''task-0001'' (pj_ledger ex_project))"
    by (simp add: ex_project_def load_todos_def dir_glob_def ex_todo_def new_todo_def wf_TaskTodo_def ex_env_def stripped)
  ultimately show ?thesis
    using fam by (simp add: exportable_def ex_project_tasks ex_task_def, simp add: ex_project_def empty_ledger_def
      load_links_def load_requirements_def dir_glob_def list_handoffs_def load_active_locks_def)
qed

end
