(* ===== verification/Spec2Isabelle.thy ===== *)
theory Spec2Isabelle
  imports Examples
begin

text \<open>
  A verification of \<^bold>\<open>taskledger\<close>, a ledger of software tasks that people and coding agents
  work on. A task is planned, the plan is approved, implemented and validated. Every step is a
  command that reads record files below the project directory, checks its guards, writes record
  files and appends to an event log. A lock file per task names the run that may change it.

  \<^bold>\<open>How the program is modelled.\<close> A command of \<open>src/taskledger/services\<close> is a value of type
  \<open>'a command\<close> (\<open>Prelude\<close>): a function from the ledger to an error or a result, together with the
  ledger it leaves behind. A raise keeps the writes that came before it, as in the program, so that
  half-done commands are visible. The ledger (record \<open>ledger\<close> of \<open>Store\<close>) has one association list
  per directory of record files, in directory order, the lock files, the audit files of broken
  locks and the event log. What the code takes from outside is the record \<open>env\<close>: the clock, user,
  host, random numbers, hashes, the YAML loader, the git snapshot and the functions of the identifier
  package, which is not part of the repository. What is assumed of that package is \<open>ids_ok\<close>
  (\<open>Lifecycle\<close>): parsing inverts formatting and a next id is not an existing one; \<open>ex_ids_ok\<close>
  (\<open>Examples\<close>) shows it for the documented scheme. Strings are character lists, Python integers
  are \<open>int\<close>, version and id counters \<open>nat\<close>; no machine integers occur in the program.

  \<^bold>\<open>The theories\<close>, in the order in which they build on each other:

  \<^item> \<open>Prelude\<close>: commands, their weakest preconditions \<open>wp\<close> with the rule collections \<open>wp_simps\<close> and
    \<open>wp_intro\<close>, \<open>keeps\<close>, string functions of Python (\<open>strip\<close>, \<open>split\<close>, \<open>startswith\<close>), lists.
  \<^item> \<open>States\<close>: \<open>domain/states.py\<close>, \<open>errors.py\<close>. Each enumeration is a datatype; the locale
    \<open>enumeration\<close> states the contract of a normaliser and is interpreted for each of them.
  \<^item> \<open>PyValue\<close>, \<open>Records\<close>, \<open>Codec\<close>, \<open>CodecRecords\<close>: the values of YAML front matter, the dataclasses
    of \<open>domain/\<close>, and \<open>to_dict\<close> and \<open>from_dict\<close> of each; the locale \<open>codec\<close> has the round trip
    as its law and is interpreted for each record.
  \<^item> \<open>Policies\<close>: the decisions of \<open>domain/policies.py\<close>, with a characterisation of each.
  \<^item> \<open>Datetime\<close>: the part of Python's \<open>datetime\<close> that expiry needs.
  \<^item> \<open>Store\<close>: \<open>storage/task_store.py\<close>, \<open>storage/events.py\<close>, \<open>storage/locks.py\<close>: reading, writing,
    listing and resolving references; a directory satisfies the locale of a finite map.
  \<^item> \<open>Locks\<close>: the shared helpers of \<open>services/tasks.py\<close> for locks and runs and the invariant
    \<open>run_inv\<close>.
  \<^item> \<open>PlanInput\<close>, \<open>PlanLint\<close>, \<open>Planning\<close>: plan front matter, \<open>services/plan_lint.py\<close>,
    \<open>services/planning_flow.py\<close>, \<open>services/plan_materialization.py\<close>.
  \<^item> \<open>Implementation\<close>, \<open>Validation\<close>, \<open>Questions\<close>, \<open>Lifecycle\<close>, \<open>Collections\<close>, \<open>Handoffs\<close>: the
    services of these names. Each theory shows that its commands keep \<open>run_inv\<close>.
  \<^item> \<open>StoreInvariant\<close>: a locale with one assumption per elementary write; every command then keeps
    the predicate. \<open>System\<close>: the step relation \<open>step\<close> with one rule per command, \<open>reachable\<close>, and the
    interpretations for the file names, the history and the runs.
  \<^item> \<open>Completion\<close>: the invariant behind \<open>done\<close>. \<open>Atomicity\<close>: commands that write nothing when they
    raise. \<open>Outcomes\<close>: the vocabulary of the properties. \<open>Examples\<close>: concrete inputs.
  \<^item> \<open>PyText\<close>, \<open>SideRecords\<close>: casing of words; the records around a task (checks, code reviews,
    releases, introductions, events, stored identities) with their codecs. \<open>PipelineConfig\<close>: the
    worker pipeline table, \<open>storage/worker_pipeline_config.py\<close>.
  \<^item> \<open>Actors\<close>, \<open>LockDiagnosis\<close>: who runs a command (\<open>services/actors.py\<close>) and what a lock tells about
    its holder (\<open>services/lock_diagnostics.py\<close>, \<open>services/run_store.py\<close>).
  \<^item> \<open>Commands\<close>, \<open>Reviews\<close>, \<open>Releases\<close>, \<open>Repair\<close>: shell commands and checks, worker steps and code
    reviews, release tags, repairs (\<open>services/check_tracking.py\<close>, \<open>services/code_review.py\<close>,
    \<open>services/worker_pipeline.py\<close>, \<open>services/releases.py\<close>, \<open>services/task_repair.py\<close>).
  \<^item> \<open>NextAction\<close>, \<open>Navigation\<close>, \<open>Capabilities\<close>: \<open>services/navigation.py\<close>: the decision what to do
    next, the command lines that are proposed for it, and \<open>can_perform\<close>.
  \<^item> \<open>Doctor\<close>, \<open>Health\<close>: the report of \<open>services/doctor.py\<close> with \<open>services/doctor_checks/\<close>, what a
    healthy ledger is, and the errors that the commands never cause.
  \<^item> \<open>TaskTree\<close>: \<open>services/tree.py\<close>, the forest of tasks and its printed lines. \<open>Ledgers\<close>: the
    ledger configuration and its edit as text (\<open>storage/ledger_config.py\<close>, \<open>storage/toml_edit.py\<close>),
    and the commands \<open>ledger fork\<close>, \<open>switch\<close>, \<open>adopt\<close>, \<open>doctor\<close> (\<open>cli_ledger.py\<close>) on a workspace
    that holds several ledgers.
  \<^item> \<open>Inventory\<close>: the table of commands, \<open>command_inventory.py\<close>. \<open>Recording\<close>: which invocations
    \<open>services/agent_logging.py\<close> records. \<open>Proposals\<close>: the proposals of \<open>next-action\<close> against the table.
  \<^item> \<open>Exchange\<close>, \<open>ExchangeRestore\<close>: export and import of a project as one document, \<open>exchange.py\<close>,
    and what an import of a full export restores.

  \<^bold>\<open>What is shown.\<close> Invariants of every reachable ledger: a done task has a passed validation run
  or was recorded, a task has at most one running run, a lock names exactly that run, files are named
  by their records, history only grows. The gates: what has to hold when validation, implementation
  and approval go through, that an open gate lets validation finish, that the gate report is exact,
  that refused commands write nothing and archived tasks stay as they are. Round trips of the
  records, of timestamps and of the todo files. Exact characterisations of policies and lint.
  Fresh ids and slugs, with termination of the search for a slug.
  The advice of the program agrees with the program: \<open>can_perform\<close> says yes whenever a command goes
  through, its yes for an implementation is reliable, the payload of \<open>next-action\<close> has one primary
  command, a lock is called dead only on evidence, reviews come before validation, and a release tag
  counts what it says.
  The doctor is healthy exactly when the ledger is; of its errors some never occur, and one occurs
  during every implementation.
  The tree shows every task once, an edit of the ledger configuration keeps the lines it does not set,
  the ledgers of a project are kept apart, \<open>next-action\<close> only proposes listed commands, and commands
  that change something are recorded.
  An import gives every task a free id, and the import of a full export into an empty project restores
  it, except for the todos and the texts of handoffs, which the document does not carry.

  \<^bold>\<open>Bounds and termination.\<close> All functions are total. The recursions that are not structural are the
  search for a free slug suffix, which ends because finitely many slugs are taken, the search for the
  tasks below a task and the building of the tree, which end because every step visits a new task, and
  the digits of a number. There is no fuel. The clock has years up to 9999; \<open>fresh_lock_expiry\<close>
  assumes one year of room.

  \<^bold>\<open>Not modelled.\<close> The command line, which parses arguments and prints; text reports, dashboards,
  handoff documents and worker prompts; git synchronisation; running processes (their results are
  arguments); configuration files other than the pipeline table and the ledger keys; index caches,
  which can be rebuilt from the records; the doctor's scans of configuration and index files; the
  archive file around an export; migrations of older layouts; the capture of output for the command log. Error
  messages are reduced to a tag, error codes and exit codes are kept. Several processes working on
  one ledger at once are not modelled: every step is one whole command.
\<close>

section \<open>Invariants of every reachable ledger\<close>

text \<open>
  C1: a task is done only for a reason. In every ledger that any sequence of commands can
  produce, also commands that raise half way, each task with the stage \<open>done\<close> was recorded as
  completed work or owns a stored validation run that finished with the result \<open>passed\<close>.
\<close>

theorem done_only_when_validated:
  assumes "reachable l"
  shows "\<nexists>t. t \<in> set (list_tasks l) \<and> tk_status_stage t = S_done \<and> tk_task_type t = TT_managed
    \<and> \<not> list_ex passed_run (list_runs (tk_id t) l)"
proof -
  have inv: "done_inv l" using assms by (rule completion.reachable)
  have "list_ex passed_run (list_runs (tk_id t) l)"
    if "t \<in> set (list_tasks l)" "tk_status_stage t = S_done" "tk_task_type t = TT_managed" for t
  proof -
    have "t \<in> snd ` set (l_tasks l)" using that(1) by (auto simp: list_tasks_def dir_glob_mem intro: rev_image_eqI)
    then have "justified (tk_id t) (tk_task_type t) l" using done_invD [OF inv] that(2) by blast
    then show ?thesis using that(3) by (auto simp: justified_def list_ex_iff list_runs_of)
  qed
  then show ?thesis by blast
qed

theorem done_only_when_validated_witness:
  "reachable ex_planned \<and> (\<nexists>t. t \<in> set (list_tasks ex_planned) \<and> tk_status_stage t = S_done
     \<and> tk_task_type t = TT_managed \<and> \<not> list_ex passed_run (list_runs (tk_id t) ex_planned))"
  using ex_planned_reachable done_only_when_validated by blast

text \<open>
  C2: at most one run of a task is running, whatever the order of commands.
\<close>

theorem one_running_run:
  assumes "reachable l"
  shows "length (running_runs task l) \<le> 1"
proof -
  have inv: "run_inv l" using assms by (rule runs.reachable)
  have "distinct (running_runs task l)"
    using distinct_records [OF run_inv_dir [OF inv, of "tk_id task"]]
    by (simp add: running_runs_def list_runs_def)
  moreover have "r = r'" if "r \<in> set (running_runs task l)" "r' \<in> set (running_runs task l)" for r r'
    using that run_inv_unique [OF inv] by (auto simp: running_runs_mem)
  ultimately show ?thesis by (rule distinct_one)
qed

theorem one_running_run_witness:
  "reachable ex_planned \<and> length (running_runs ex_task ex_planned) \<le> 1"
  using ex_planned_reachable one_running_run by blast







section \<open>The gates of the workflow\<close>

text \<open>
  C6: \<open>finish_validation\<close> with the result \<open>passed\<close> goes through only when the gate is open: an
  accepted plan whose mandatory criteria are all satisfied by their latest check, a finished
  implementation, no open mandatory todo and no unfinished requirement. On return the task is
  done (or \<open>failed_validation\<close> for another result) and unlocked. When it raises, nothing was
  written, unless the lock of the validation run is missing or not its own.
\<close>

theorem finish_validation_gate:
  "wp (finish_validation E ref result summary recommendation)
    (\<lambda>_ l'. \<exists>task run r. resolve_task E False ref l = Inr task \<and> \<not> is_archived_task task
       \<and> run \<in> set (running_runs task l) \<and> rn_run_type run = RT_validation
       \<and> normalize_validation_result result = Inr r
       \<and> (if r = VR_passed then validation_gate E task run l \<and> stored_stage (tk_id task) l' = Some S_done
          else stored_stage (tk_id task) l' = Some S_failed_validation)
       \<and> read_lock (tk_id task) l' = None)
    (\<lambda>_ l'. l' = l \<or> (\<exists>task run. resolve_task E False ref l = Inr task
       \<and> run \<in> set (running_runs task l)
       \<and> \<not> (\<exists>lock. read_lock (tk_id task) l = Some lock \<and> lk_stage lock = LS_validating
              \<and> lk_run_id lock = rn_run_id run))) l"
  unfolding finish_validation_def release_lock_def Let_def
  by (intro wp_intro) (auto dest: require_running_runD simp: running_runs_mem)

text \<open>
  C7: validation can be completed. When a validation run is running under its lock and the gate is
  open, finishing it as passed does not fail: the command returns, the task is done and unlocked,
  and the run is stored as finished with the result \<open>passed\<close>.
\<close>

theorem finish_validation_succeeds:
  assumes "resolve_task E False ref l = Inr task" "\<not> is_archived_task task"
    "require_running_run E task (tk_latest_validation_run task) RT_validation l = Inr run"
    "validation_gate E task run l"
    "map_option (\<lambda>k. (lk_stage k, lk_run_id k)) (read_lock (tk_id task) l) = Some (LS_validating, rn_run_id run)"
  shows "wp (finish_validation E ref ''passed'' summary recommendation)
    (\<lambda>_ l'. stored_stage (tk_id task) l' = Some S_done \<and> read_lock (tk_id task) l' = None
       \<and> list_ex passed_run (list_runs (rn_task_id run) l'))
    (\<lambda>_ _. False) l"
proof -
  let ?done = "run\<lparr>rn_status := RS_finished, rn_finished_at := Some (e_now E),
    rn_summary := Some (strip summary), rn_recommendation := recommendation, rn_result := Some VR_passed\<rparr>"
  have passed: "normalize_validation_result ''passed'' = Inr VR_passed" by code_simp
  have "passed_run (persist_run ?done)"
    using assms(3) by (auto simp: passed_run_def persist_run_def dest: require_running_runD)
  then have stored: "\<exists>r \<in> runs_of (save_run ?done l) (rn_task_id run). passed_run r"
    using saved_run_stored [of ?done "rn_task_id run" l] by auto
  show ?thesis
    unfolding finish_validation_def release_lock_def Let_def
    by (intro wp_intro) (use assms passed stored in \<open>auto simp: list_ex_iff list_runs_of\<close>)
qed

theorem finish_validation_succeeds_witness:
  "wp (finish_validation ex_env ''task-0001'' ''passed'' ''ok'' None)
    (\<lambda>_ l'. stored_stage (tk_id (persist_task ex_vtask)) l' = Some S_done
       \<and> read_lock (tk_id (persist_task ex_vtask)) l' = None
       \<and> list_ex passed_run (list_runs (rn_task_id (persist_run ex_vrun)) l'))
    (\<lambda>_ _. False) ex_validating"
proof (rule finish_validation_succeeds [OF ex_validating_resolve _ _ ex_validating_gate])
  show "\<not> is_archived_task (persist_task ex_vtask)" by code_simp
  show "require_running_run ex_env (persist_task ex_vtask) (tk_latest_validation_run (persist_task ex_vtask))
      RT_validation ex_validating = Inr (persist_run ex_vrun)" by code_simp
  show "map_option (\<lambda>k. (lk_stage k, lk_run_id k)) (read_lock (tk_id (persist_task ex_vtask)) ex_validating)
      = Some (LS_validating, rn_run_id (persist_run ex_vrun))" by code_simp
qed

text \<open>
  C8: the gate report that \<open>validate status\<close> prints agrees with the gate: it says that the
  validation can finish as passed exactly when the gate is open.
\<close>

theorem gate_report_correct:
  "(\<exists>report. build_validation_gate_report E task (Some run) l = Inr report
      \<and> gr_can_finish_passed report) = validation_gate E task run l"
  by (rule gate_report_iff)


text \<open>
  C10: plan approval. When \<open>approve_plan\<close> returns, its gate was open (stage, lock, running runs,
  open and stale questions, criteria, todos, lint report, approver and reasons), the stored task is
  \<open>approved\<close> for the approved version, and among the stored versions of the task exactly that one is
  accepted. When it raises with the gate closed, nothing was written.
\<close>

theorem approve_plan_accepts_one_version:
  assumes "reachable l"
  shows "wp (approve_plan E ref a) (\<lambda>_. plan_approved E ref a l)
    (\<lambda>_ l'. l' = l \<or> (\<exists>task plan actor. resolve_task E False ref l = Inr task
       \<and> approval_gate E task a l plan actor)) l"
proof -
  have "wp (approve_plan E ref a) (\<lambda>_. plan_approved E ref a l) (\<lambda>_ _. True) l"
    by (rule approve_plan_outcome [OF plan_inv_files [OF files.reachable [OF assms]]
          runs.reachable [OF assms]])
  moreover have "wp (approve_plan E ref a) (\<lambda>_ _. True)
    (\<lambda>_ l'. l' = l \<or> (\<exists>task plan actor. resolve_task E False ref l = Inr task
       \<and> approval_gate E task a l plan actor)) l"
    unfolding approve_plan_def Let_def
    by (intro wp_intro wp_forE_fold wp_top) auto
  ultimately show ?thesis by (rule wp_conj [THEN wp_mono]) auto
qed

theorem approve_plan_accepts_one_version_witness:
  "reachable ex_planned \<and> wp (approve_plan ex_env ''task-0001'' ex_approve)
     (\<lambda>_. plan_approved ex_env ''task-0001'' ex_approve ex_planned)
     (\<lambda>_ l'. l' = ex_planned \<or> (\<exists>task plan actor.
        resolve_task ex_env False ''task-0001'' ex_planned = Inr task
        \<and> approval_gate ex_env task ex_approve ex_planned plan actor)) ex_planned"
  using ex_planned_reachable approve_plan_accepts_one_version by blast

text \<open>
  C11: an implementation starts only on an implementable task that is not archived, with an accepted
  plan, when each of its requirements is waived by a user or refers to a task that is done; on
  return the task is \<open>implementing\<close> under a lock.
\<close>

theorem implementation_needs_plan_and_requirements:
  "wp (start_implementation E ref actor harness)
    (\<lambda>_ l'. \<exists>task plan lock. resolve_task E False ref l = Inr task \<and> \<not> is_archived_task task
       \<and> tk_status_stage task \<in> set IMPLEMENTABLE_TASK_STAGES
       \<and> require_accepted_plan_record task l = Inr plan
       \<and> list_all (requirement_met E l) (load_requirements (tk_id task) l)
       \<and> running_runs task l = [] \<and> read_lock (tk_id task) l = None
       \<and> read_lock (tk_id task) l' = Some lock \<and> lk_stage lock = LS_implementing)
    (\<lambda>_ _. True) l"
  unfolding start_implementation_def start_implementation_for_task_def Let_def
  by (intro wp_intro)
    (auto simp: dependency_blockers_def no_incomplete_requirements started_ledger_def Let_def)

text \<open>
  C12: \<open>_start_run\<close> starts a run only on a task without a lock and without a running run; then the
  run is stored as running and the lock names it. Otherwise it raises and writes nothing.
\<close>

theorem start_run_guarded:
  assumes "stage = stage_of_run_type kind"
  shows "wp (start_run E task kind stage actor harness)
    (\<lambda>run l'. read_lock (tk_id task) l = None \<and> running_runs task l = []
       \<and> rn_status run = RS_running \<and> rn_run_type run = kind
       \<and> persist_run run \<in> set (list_runs (tk_id task) l')
       \<and> (\<exists>lock. read_lock (tk_id task) l' = Some lock \<and> lk_run_id lock = rn_run_id run
            \<and> lk_stage lock = stage))
    (\<lambda>e l'. l' = l \<and> \<not> (read_lock (tk_id task) l = None \<and> running_runs task l = [])) l"
  unfolding start_run_def
  by (intro wp_intro) (use assms in \<open>auto simp: current_lock_def Let_def
    list_runs_of saved_run_stored split: option.splits\<close>)

theorem start_run_guarded_witness:
  "LS_planning = stage_of_run_type RT_planning \<and>
   wp (start_run ex_env ex_task RT_planning LS_planning None None)
    (\<lambda>run l'. read_lock (tk_id ex_task) ex_ledger = None \<and> running_runs ex_task ex_ledger = []
       \<and> rn_status run = RS_running \<and> rn_run_type run = RT_planning
       \<and> persist_run run \<in> set (list_runs (tk_id ex_task) l')
       \<and> (\<exists>lock. read_lock (tk_id ex_task) l' = Some lock \<and> lk_run_id lock = rn_run_id run
            \<and> lk_stage lock = LS_planning))
    (\<lambda>e l'. l' = ex_ledger
       \<and> \<not> (read_lock (tk_id ex_task) ex_ledger = None \<and> running_runs ex_task ex_ledger = [])) ex_ledger"
proof -
  have "LS_planning = stage_of_run_type RT_planning" by simp
  then show ?thesis using start_run_guarded by blast
qed

text \<open>
  C13: a resumed implementation goes on with the run that was running: no run file is added or
  changed, and the new lock names that run.
\<close>

theorem resume_keeps_run:
  "wp (resume_implementation E ref run_id reason actor harness repair)
    (\<lambda>_ l'. \<exists>task run lock. resolve_task E False ref l = Inr task
       \<and> run \<in> set (running_runs task l) \<and> rn_run_type run = RT_implementation
       \<and> l_runs l' = l_runs l
       \<and> read_lock (tk_id task) l' = Some lock \<and> lk_run_id lock = rn_run_id run
       \<and> stored_stage (tk_id task) l' = Some S_implementing)
    (\<lambda>_ l'. l_runs l' = l_runs l \<and> l_tasks l' = l_tasks l) l"
  unfolding resume_implementation_def clear_resume_lock_def release_expired_lock_def acquire_lock_def
    write_lock_def Let_def
  by (intro wp_intro) (auto simp: running_runs_mem current_lock_def dest: require_run_of)

text \<open>
  C14: a refused command changes nothing. Each of these commands, whenever it raises, leaves the
  ledger exactly as it found it.
\<close>

theorem refused_commands_write_nothing:
  "atomic (add_question E ref text flag oactor oharness) \<and> atomic (add_questions E ref qs oactor oharness flag)
   \<and> atomic (answer_question E ref qid text oactor source) \<and> atomic (dismiss_question E ref qid)
   \<and> atomic (edit_task E ref ea) \<and> atomic (uncancel_task E ref target reason oactor flag)
   \<and> atomic (close_task E ref note) \<and> atomic (archive_task E ref reason flag)
   \<and> atomic (unarchive_task E ref reason slug flag) \<and> atomic (reject_plan E ref oreason)
   \<and> atomic (add_requirement E ref required) \<and> atomic (remove_requirement E ref required)
   \<and> atomic (waive_requirement E ref required actor_type reason)
   \<and> atomic (add_file_link E fs ref la) \<and> atomic (remove_file_link E ref path)
   \<and> atomic (refresh_file_baseline E fs ref path reason)
   \<and> atomic (add_todo E ref text osource flag) \<and> atomic (set_todo_done E ref todo_id da)
   \<and> atomic (log_implementation E ref text) \<and> atomic (add_implementation_deviation E ref text)
   \<and> atomic (add_implementation_artifact E ref path text) \<and> atomic (add_change E ref cg)
   \<and> atomic (add_validation_check E ref ck) \<and> atomic (waive_criterion E ref criterion reason oname)
   \<and> atomic (break_lock E ref reason) \<and> atomic (transfer_lock E i j actor harness)
   \<and> atomic (close_handoff E ref hid oreason) \<and> atomic (cancel_handoff E ref hid oreason)
   \<and> atomic (add_check E ref kc) \<and> atomic (record_code_review E git_run sha256 ref va)
   \<and> atomic (link_introduction E ref iref) \<and> atomic (repair_task_record E ref reason)
   \<and> atomic (repair_orphaned_planning_run E ref orun reason)
   \<and> atomic (actor_set actor_type name orole otool osession)
   \<and> atomic (harness_set name okind osession)"
  by (intro conjI question_atomic add_questions_atomic task_atomic collection_atomic run_atomic
      lock_atomic side_atomic)

text \<open>
  C15: commands on archived tasks. None of these commands succeeds on an archived task.
\<close>

theorem archived_tasks_are_frozen:
  "needs_live_task E ref (start_planning E ref oactor oharness)
   \<and> needs_live_task E ref (propose_plan E ref body crit)
   \<and> needs_live_task E ref (upsert_plan E ref body ua)
   \<and> needs_live_task E ref (approve_plan E ref aa) \<and> needs_live_task E ref (reject_plan E ref oreason)
   \<and> needs_live_task E ref (revise_plan E ref)
   \<and> needs_live_task E ref (add_question E ref text flag oactor oharness)
   \<and> needs_live_task E ref (answer_question E ref qid text oactor source)
   \<and> needs_live_task E ref (dismiss_question E ref qid)
   \<and> needs_live_task E ref (start_implementation E ref oactor oharness)
   \<and> needs_live_task E ref (restart_implementation E ref summary oactor oharness)
   \<and> needs_live_task E ref (resume_implementation E ref orun reason oactor oharness flag)
   \<and> needs_live_task E ref (finish_implementation E ref summary)
   \<and> needs_live_task E ref (start_validation E ref oactor oharness)
   \<and> needs_live_task E ref (finish_validation E ref result summary oreason)
   \<and> needs_live_task E ref (edit_task E ref ea) \<and> needs_live_task E ref (cancel_task E ref oreason)
   \<and> needs_live_task E ref (uncancel_task E ref target reason oactor flag)
   \<and> needs_live_task E ref (close_task E ref note)"
  unfolding start_planning_def propose_plan_def upsert_plan_def approve_plan_def reject_plan_def
    revise_plan_def add_question_def answer_question_def dismiss_question_def start_implementation_def
    restart_implementation_def resume_implementation_def finish_implementation_def start_validation_def
    finish_validation_def edit_task_def cancel_task_def uncancel_task_def close_task_def
  by (intro conjI needs_live_task_guard)

text \<open>
  A check is only ever added: \<open>add_validation_check\<close> appends one check with the next number to
  the running validation run; the earlier checks stay, and the criterion it names is one of the
  accepted plan. When it raises nothing was written.
\<close>

lemma check_appended:
  "wp (add_validation_check E ref a)
    (\<lambda>r l'. \<exists>task run. resolve_task E False ref l = Inr task
       \<and> run \<in> set (running_runs task l) \<and> rn_run_type run = RT_validation
       \<and> r\<lparr>rn_checks := rn_checks run\<rparr> = run \<and> butlast (rn_checks r) = rn_checks run
       \<and> vc_id (last (rn_checks r)) = Some (next_check_id run)
       \<and> (case vc_criterion_id (last (rn_checks r)) of
            None \<Rightarrow> vc_status (last (rn_checks r)) = CS_not_run
          | Some c \<Rightarrow> accepted_criterion task c l))
    (\<lambda>_ l'. l' = l) l"
  unfolding add_validation_check_def Let_def
  by (intro wp_intro) (force simp: running_runs_mem dest: holds_runD accepted_criterion_known)+

section \<open>Questions, handoffs and locks\<close>

text \<open>
  C16: answering. \<open>answer_question\<close> stores the stripped, non-empty answer under the question's id;
  a question that the plan requires is only answered from a source the user stated explicitly.
  When it raises nothing was written.
\<close>

theorem answer_needs_explicit_source:
  "wp (answer_question E ref qid text actor source)
    (\<lambda>q l'. \<exists>task q0. resolve_task E False ref l = Inr task \<and> \<not> is_archived_task task
       \<and> resolve_question E (tk_id task) qid l = Inr q0
       \<and> (if qn_required_for_plan q0 then lower (strip source) \<in> set EXPLICIT_ANSWER_SOURCES else True)
       \<and> strip text \<noteq> [] \<and> qn_id q = qn_id q0 \<and> qn_status q = QS_answered
       \<and> qn_answer q = Some (strip text)
       \<and> dir_get (l_questions l' (qn_task_id q0)) (qn_id q0) = Some q)
    (\<lambda>_ l'. l' = l) l"
  unfolding answer_question_def Let_def
  by (intro wp_intro) (auto simp: answered_record_def save_question_def dir_get_put)

text \<open>
  C17: handing a lock over. \<open>transfer_lock\<close> works only with the id of the lock that is held; task,
  stage, run and expiry stay, the holder changes, one entry is added to the transfer history and no
  other lock is touched. When it raises nothing was written.
\<close>

theorem transfer_keeps_run:
  "wp (transfer_lock E t i to_actor to_harness)
    (\<lambda>k l'. \<exists>k0. read_lock t l = Some k0 \<and> lk_lock_id k0 = i
       \<and> (\<lambda>t'. read_lock t' l') = (\<lambda>t'. read_lock t' l)(t := Some k)
       \<and> lk_task_id k = lk_task_id k0 \<and> lk_stage k = lk_stage k0 \<and> lk_run_id k = lk_run_id k0
       \<and> lk_expires_at k = lk_expires_at k0 \<and> lk_holder k = to_actor
       \<and> lk_transfer_history k = lk_transfer_history k0 @
           [(PStr (lk_lock_id k0), PStr (actor_label (lk_holder k0)), PStr (actor_label to_actor))])
    (\<lambda>_ l'. l' = l) l"
  unfolding transfer_lock_def save_lock_def write_lock_def Let_def
  by (intro wp_intro) (auto simp: transferred_lock_def fun_eq_iff dest!: sym [of "Some _"])

text \<open>
  C18: the life of a handoff: it is claimed or cancelled only while open, closed only while open or
  claimed, and none of the three commands ever touches one that is closed or cancelled.
\<close>

theorem handoff_life_cycle:
  "wp (claim_handoff E t hid actor harness run)
     (\<lambda>h l'. \<exists>h0. resolve_handoff E t hid l = Inr h0 \<and> ho_status h0 = HS_open
        \<and> ho_status h = HS_claimed \<and> ho_claimed_by h = Some actor)
     (\<lambda>_ _. True) l
   \<and> wp (close_handoff E t hid reason)
     (\<lambda>h l'. \<exists>h0. resolve_handoff E t hid l = Inr h0 \<and> ho_status h0 \<in> {HS_open, HS_claimed}
        \<and> ho_status h = HS_closed)
     (\<lambda>_ l'. l' = l) l
   \<and> wp (cancel_handoff E t hid reason)
     (\<lambda>h l'. \<exists>h0. resolve_handoff E t hid l = Inr h0 \<and> ho_status h0 = HS_open
        \<and> ho_status h = HS_cancelled)
     (\<lambda>_ l'. l' = l) l"
  unfolding claim_handoff_def close_handoff_def cancel_handoff_def require_intent_def Let_def
  by (intro conjI wp_intro wp_top) (auto simp: claimed_handoff_def)

text \<open>
  C19: the lock written at a clock reading expires exactly two hours later: at any later reading
  it counts as expired if and only if more than 7200 seconds have passed.
\<close>

theorem fresh_lock_expiry:
  assumes "valid_datetime (e_clock E)" "dt_year (e_clock E) < 9999" "dt_offset (e_clock E) = Some 0"
  shows "lock_is_expired E' (new_lock E task stage run reason actor harness l)
    = Inr (instant (e_clock E) + 7200 * 1000000 < instant (e_clock E'))"
  using assms add_hours_valid [of "e_clock E" 2] instant_add_hours [of "e_clock E" 2]
  by (simp add: lock_is_expired_def fromisoformat_isoformat)

theorem fresh_lock_expiry_witness:
  "lock_is_expired (ex_env\<lparr>e_clock := ex_clock\<lparr>dt_day := 29, dt_hour := 2\<rparr>\<rparr>)
     (new_lock ex_env ex_task LS_planning (new_run ex_env ex_task RT_planning None None ex_ledger)
        ''plan task'' None None ex_ledger) = Inr True"
proof -
  have "valid_datetime (e_clock ex_env)" "dt_year (e_clock ex_env) < 9999"
    "dt_offset (e_clock ex_env) = Some 0"
    "instant (e_clock ex_env) + 7200 * 1000000 < instant (ex_clock\<lparr>dt_day := 29, dt_hour := 2\<rparr>)"
    by (simp_all add: ex_env_def ex_clock_def valid_datetime_def instant_def ordinal_def
        days_in_month_def leap_year_def days_before_year_def ex_days_before)
  then show ?thesis by (simp add: fresh_lock_expiry)
qed

section \<open>Storage round trips, export and import\<close>

text \<open>
  C20: task, run, plan and lock records that are well formed survive being stored: reading back the
  front matter that their \<open>to_dict\<close> produces, after YAML has turned tuples into lists, gives the same
  record, with the checks and actors of a run, the criteria and todos of a plan and the transfer
  history of a lock.
\<close>

theorem records_round_trip:
  assumes "wf_TaskRecord t" "wf_TaskRunRecord r" "wf_PlanRecord p" "wf_TaskLock k"
  shows "TaskRecord_from_dict now (untuple_dict (TaskRecord_to_dict t)) = Inr t
    \<and> TaskRunRecord_from_dict now (untuple_dict (TaskRunRecord_to_dict r)) = Inr r
    \<and> PlanRecord_from_dict now (untuple_dict (PlanRecord_to_dict p)) = Inr p
    \<and> TaskLock_from_dict now (untuple_dict (TaskLock_to_dict k)) = Inr k"
  by (intro conjI tk_codec.round_trip rn_codec.round_trip pl_codec.round_trip lk_codec.round_trip assms)

theorem records_round_trip_witness:
  "TaskRecord_from_dict ''now'' (untuple_dict (TaskRecord_to_dict ex_task)) = Inr ex_task \<and>
    TaskRunRecord_from_dict ''now'' (untuple_dict (TaskRunRecord_to_dict ex_run)) = Inr ex_run \<and>
    PlanRecord_from_dict ''now'' (untuple_dict (PlanRecord_to_dict ex_plan)) = Inr ex_plan \<and>
    TaskLock_from_dict ''now'' (untuple_dict (TaskLock_to_dict ex_lock)) = Inr ex_lock"
proof -
  have "wf_TaskRecord ex_task"
    by (simp add: wf_TaskRecord_def ex_task_def)
  then show ?thesis by (rule records_round_trip [OF _ ex_run_wf ex_plan_wf ex_lock_wf])
qed







section \<open>The doctor\<close>





text \<open>
  C26: the doctor complains about every implementation. Whenever \<open>start_implementation\<close> returns, the
  task is stored as \<open>implementing\<close>, a stage that the doctor does not accept in a task file, so that
  no report on the ledger after it is healthy.
\<close>

theorem doctor_flags_implementation:
  assumes "reachable l"
  shows "wp (start_implementation E ref actor harness)
    (\<lambda>_ l'. case inspect_v2_project E' l' of Inl _ \<Rightarrow> True | Inr r \<Rightarrow> \<not> doctor_healthy r)
    (\<lambda>_ _. True) l"
proof -
  have "dir_ok tk_id (l_tasks l)"
    using files.reachable [OF assms] by (simp add: ledger_files_ok_def)
  then show ?thesis
    using started_transient [of l E ref actor harness] holds_transient_unhealthy
    by (auto simp: wp_def split: prod.splits sum.splits)
qed

theorem doctor_flags_implementation_witness:
  "wp (start_implementation ex_env ''task-0001'' None None)
    (\<lambda>_ l'. case inspect_v2_project ex_env l' of Inl _ \<Rightarrow> True | Inr r \<Rightarrow> \<not> doctor_healthy r)
    (\<lambda>_ _. True) ex_planned"
  by (rule doctor_flags_implementation [OF ex_planned_reachable])

section \<open>Policies and plans\<close>

text \<open>
  C27: what the decision functions allow, spelled out. Work on an implementation, a validation or a
  plan is allowed exactly in the stages named here and for the running run of that kind that the
  lock names; approving and revising a plan and editing a task only in their stages and without a
  lock.
\<close>

theorem decisions_characterised:
  "d_allowed (implementation_mutation_decision task lock run action) =
     (tk_status_stage task \<in> {S_approved, S_failed_validation, S_implementing}
      \<and> holds_run RT_implementation lock run)
   \<and> d_allowed (validation_check_decision task lock run) =
     (tk_status_stage task = S_implemented \<and> holds_run RT_validation lock run)
   \<and> d_allowed (plan_propose_decision task lock run) =
     (tk_status_stage task \<in> {S_draft, S_plan_review} \<and> holds_run RT_planning lock run)
   \<and> d_allowed (plan_approve_decision task lock) = (tk_status_stage task = S_plan_review \<and> lock = None)
   \<and> d_allowed (plan_revise_decision task lock) = (tk_status_stage task = S_plan_review \<and> lock = None)
   \<and> d_allowed (metadata_edit_decision task lock) =
     (tk_status_stage task \<in> {S_draft, S_plan_review, S_approved} \<and> lock = None)"
  by (simp add: implementation_mutation_allowed validation_check_allowed plan_propose_allowed
      plan_approve_allowed plan_revise_allowed metadata_edit_allowed)

text \<open>
  C28: a plan passes the lint without \<open>--strict\<close> exactly when it has a goal, criteria, a body,
  todos or a reason for having none, and only concrete todos.
\<close>

theorem lint_passes_iff:
  "pp_passed (lint_payload plan False) =
     (goal_text plan \<noteq> None \<and> pl_criteria plan \<noteq> []
      \<and> (if pl_todos plan = [] then strip (str_or (pl_todos_waived_reason plan) []) \<noteq> [] else True)
      \<and> strip (pl_body plan) \<noteq> [] \<and> list_all todo_is_concrete (pl_todos plan))"
  by (auto simp: lint_passed_iff list_all_iff)

section \<open>Identifiers and lifecycle\<close>

text \<open>
  C29: a task id is never given out twice: the allocated id is not among the existing ones, and the
  next number stored in the ledger configuration moves past the one that was used.
\<close>

theorem allocated_id_fresh:
  assumes "ids_ok E"
  shows "case allocate_ledger_task_id E ids n of (i, n') \<Rightarrow>
    i \<notin> set ids \<and> n < n' \<and> e_parse_id E ''task'' i = Some (n' - 1)"
  using allocate_fresh [OF assms] by (auto split: prod.splits)

theorem allocated_id_fresh_witness:
  "ids_ok ex_env \<and> (case allocate_ledger_task_id ex_env [''task-0007''] 3 of (i, n') \<Rightarrow>
     i \<notin> set [''task-0007''] \<and> 3 < n' \<and> e_parse_id ex_env ''task'' i = Some (n' - 1))"
  by (rule conjI [OF ex_ids_ok allocated_id_fresh [OF ex_ids_ok]])

text \<open>
  C30: the slug given to a task is free among the visible tasks, and the search for a suffix ends
  with the first free one.
\<close>

theorem slug_unique_and_least:
  "unique_slug E taken value \<notin> set taken
   \<and> {k. n \<le> k \<and> k < unique_suffix used base n}
       \<subseteq> {k. slug_candidate base k \<in> set used}"
  using unique_slug_fresh unique_suffix_least by blast

section \<open>Advice, reviews and releases\<close>

text \<open>
  C31: the advice of \<open>can_perform\<close> is never too pessimistic. Whenever a planning, an implementation, a
  restart, a resumption or a validation does start, \<open>can_perform\<close> answered yes for that action (or,
  with \<open>--repair-expired-lock\<close>, for the resumption over an expired lock) on the same ledger.
\<close>

theorem commands_only_when_possible:
  "wp (start_planning E ref actor harness) (\<lambda>_ _. says_yes E ref ''plan'' l) (\<lambda>_ _. True) l
   \<and> wp (start_implementation E ref actor harness) (\<lambda>_ _. says_yes E ref ''implement'' l) (\<lambda>_ _. True) l
   \<and> wp (restart_implementation E ref summary actor harness)
       (\<lambda>_ _. says_yes E ref ''implement-restart'' l) (\<lambda>_ _. True) l
   \<and> wp (resume_implementation E ref None reason actor harness repair)
       (\<lambda>_ _. says_yes E ref ''implement-resume'' l \<or> repair \<and> says_yes E ref ''expired-lock-resume'' l)
       (\<lambda>_ _. True) l
   \<and> wp (start_validation E ref actor harness) (\<lambda>_ _. says_yes E ref ''validate'' l) (\<lambda>_ _. True) l"
  by (intro conjI start_planning_possible start_implementation_possible
      restart_implementation_possible resume_implementation_possible start_validation_possible)

text \<open>
  C32: a yes for \<open>implement\<close> can be relied on. When \<open>can_perform\<close> says so, the record of the accepted
  plan is stored, the task's own id names it and the clock can be printed, \<open>start_implementation\<close>
  does not fail: an implementation run is running, under a lock for implementing.
\<close>

theorem implement_answer_reliable:
  assumes "can_perform E ref ''implement'' l = Inr c" "cp_ok c"
    "resolve_task E False ref l = Inr task" "require_accepted_plan_record task l = Inr plan"
    "resolve_task E False (tk_id task) l = Inr task"
    "valid_datetime (e_clock E)" "dt_year (e_clock E) < 9999" "dt_offset (e_clock E) = Some 0"
  shows "wp (start_implementation E ref actor harness)
    (\<lambda>_ l'. list_ex (\<lambda>r. rn_run_type r = RT_implementation \<and> rn_status r = RS_running) (list_runs (tk_id task) l')
       \<and> (\<exists>lock. read_lock (tk_id task) l' = Some lock \<and> lk_stage lock = LS_implementing))
    (\<lambda>_ _. False) l"
proof -
  have "wp (start_implementation E ref actor harness) (\<lambda>_ _. True) (\<lambda>_ _. False) l"
    using can_implement_ok [OF assms(1)] assms(2-8) by (auto intro: start_implementation_ready)
  moreover have "wp (start_implementation E ref actor harness)
    (\<lambda>_ l'. list_ex (\<lambda>r. rn_run_type r = RT_implementation \<and> rn_status r = RS_running) (list_runs (tk_id task) l')
       \<and> (\<exists>lock. read_lock (tk_id task) l' = Some lock \<and> lk_stage lock = LS_implementing)) (\<lambda>_ _. True) l"
    unfolding start_implementation_def start_implementation_for_task_def Let_def
    by (intro wp_intro) (use assms(3) in \<open>auto simp: started_ledger_def Let_def list_ex_iff list_runs_of
      intro!: bexI [OF _ saved_run_stored]\<close>)
  ultimately show ?thesis by (rule wp_conj [THEN wp_mono]) auto
qed

theorem implement_answer_reliable_witness:
  "wp (start_implementation ex_env ''task-0001'' None None)
    (\<lambda>_ l'. list_ex (\<lambda>r. rn_run_type r = RT_implementation \<and> rn_status r = RS_running)
         (list_runs (tk_id (persist_task ex_approved_task)) l')
       \<and> (\<exists>lock. read_lock (tk_id (persist_task ex_approved_task)) l' = Some lock
            \<and> lk_stage lock = LS_implementing))
    (\<lambda>_ _. False) ex_approved"
proof -
  obtain c where c: "can_perform ex_env ''task-0001'' ''implement'' ex_approved = Inr c" "cp_ok c"
    using ex_approved_can by (auto split: sum.splits)
  show ?thesis
  proof (rule implement_answer_reliable [OF c])
    show "resolve_task ex_env False ''task-0001'' ex_approved = Inr (persist_task ex_approved_task)"
      "resolve_task ex_env False (tk_id (persist_task ex_approved_task)) ex_approved
        = Inr (persist_task ex_approved_task)"
      "require_accepted_plan_record (persist_task ex_approved_task) ex_approved = Inr (persist_plan ex_plan)"
      by code_simp+
  qed (simp_all add: ex_env_def ex_clock_def valid_datetime_def days_in_month_def)
qed



text \<open>
  C34: a lock is called dead only on evidence. For a holder that \<open>resolve_actor\<close> recorded, a diagnosis
  says that the process is dead exactly when the lock has not expired, was taken on this host, and
  the probe reports the recorded owner as gone: the process id that the environment named, or the
  command's own id outside every harness.
\<close>

theorem dead_lock_evidence:
  assumes "resolve_actor E0 workspace a = Inr (lk_holder lock)" "diagnose_lock E (Some lock) t current = Inr d"
  shows "ld_classification d = LC_dead_local_process \<longleftrightarrow>
    lock_is_expired E lock = Inr False \<and> host_matches E (Some (e_host E0)) (current_host_name E)
    \<and> (\<exists>pid. e_pid_check E pid \<in> {PK_dead, PK_na} \<and> ar_pid (lk_holder lock) = Some pid
         \<and> (owner_pid_from_env E0 = Some pid
            \<or> owner_pid_from_env E0 = None \<and> pid = e_pid E0
              \<and> \<not> is_harness_context E0 (ar_session_id (lk_holder lock)) None))"
  using resolve_actor_sound [OF assms(1)]
  by (auto simp: diagnose_lock_dead_iff [OF assms(2)] pids_sound_def pid_is_checkable_owner_def split: option.splits)

theorem dead_lock_evidence_witness:
  "case diagnose_lock ex_dead_env (Some ex_owned_lock) None None of
     Inl _ \<Rightarrow> False
   | Inr d \<Rightarrow> ld_classification d = LC_dead_local_process
       \<and> host_matches ex_dead_env (Some (e_host ex_env)) (current_host_name ex_dead_env)"
proof -
  have "case diagnose_lock ex_dead_env (Some ex_owned_lock) None None of
      Inl _ \<Rightarrow> False | Inr d \<Rightarrow> ld_classification d = LC_dead_local_process" by code_simp
  moreover have "resolve_actor ex_env None no_actor_args = Inr (lk_holder ex_owned_lock)" by code_simp
  ultimately show ?thesis
    by (auto split: sum.splits simp: dead_lock_evidence)
qed


text \<open>
  C36: a release tag tells the truth. \<open>tag_release\<close> needs a boundary task that is done and a version
  that no release has; the previous release is the one named, with a boundary below the new one, or
  else the latest with a boundary below it; the count is the number of done tasks between the two
  boundaries, and the version then resolves to the stored record.
\<close>

theorem release_tag_correct:
  "wp (tag_release E a)
    (\<lambda>p l'. resolve_task E False (tg_at_task a) l = Inr (rp_boundary_task p)
       \<and> tk_status_stage (rp_boundary_task p) = S_done
       \<and> tg_version a \<notin> rl_version ` set (list_releases E l)
       \<and> rl_version (rp_release p) = tg_version a
       \<and> rl_boundary_task_id (rp_release p) = tk_id (rp_boundary_task p)
       \<and> release_says E a l (rp_boundary_task p) (rp_release p)
       \<and> resolve_release (tg_version a) l' = Inr (rp_release p))
    (\<lambda>_ l'. l_tasks l' = l_tasks l) l"
  unfolding tag_release_def append_release_event_def Let_def
  by (intro wp_intro wp_mono [OF released_stored])
    (auto intro: new_release_says)

section \<open>The tree, branch-scoped ledgers and the record of commands\<close>

text \<open>
  C37: the tree shows every task once. When no task is its own ancestor, the full view of a ledger
  holds every listed task exactly once, without a cycle mark, and prints one line for each.
\<close>

theorem tree_shows_every_task:
  assumes "build_ledger E l opts ref is_current active tasks releases = Inr g"
    and "to_task_ref opts = None" "distinct (map tk_id tasks)" "acyclic (child_rel (listed_tasks opts tasks))"
  shows "mset (forest_ids (tl_tasks g @ tl_orphans g)) = mset (map tk_id (listed_tasks opts tasks))
    \<and> list_all cycle_free (tl_tasks g @ tl_orphans g)
    \<and> length (render_nodes gl p followed (tl_tasks g @ tl_orphans g)) = length (listed_tasks opts tasks)"
  using full_listing [OF assms] .

theorem tree_shows_every_task_witness:
  "case build_ledger ex_env ex_ledger ex_tree_options ''other'' False None [ex_child, ex_task] [] of
     Inl _ \<Rightarrow> False
   | Inr g \<Rightarrow> mset (forest_ids (tl_tasks g @ tl_orphans g)) = {#''task-0001'', ''task-0002''#}"
proof -
  have "case build_ledger ex_env ex_ledger ex_tree_options ''other'' False None [ex_child, ex_task] [] of
      Inl _ \<Rightarrow> False | Inr _ \<Rightarrow> True"
    by (simp add: build_ledger_def bindR_def Let_def split: prod.split)
  then obtain g where
    g: "build_ledger ex_env ex_ledger ex_tree_options ''other'' False None [ex_child, ex_task] [] = Inr g"
    by (auto split: sum.splits)
  have "acyclic (child_rel (listed_tasks ex_tree_options [ex_child, ex_task]))"
    by (rule ex_tree_acyclic)
  from tree_shows_every_task [OF g _ _ this]
  have "mset (forest_ids (tl_tasks g @ tl_orphans g)) = mset (map tk_id (listed_tasks ex_tree_options [ex_child, ex_task]))"
    by (simp add: ex_tree_options_def ex_child_def ex_task_def)
  also have "\<dots> = {#''task-0001'', ''task-0002''#}" by code_simp
  finally show ?thesis by (simp only: g sum.case)
qed

text \<open>
  C38: an update of the ledger configuration edits the file and nothing else in it: all lines that
  set none of the four keys stay in their order, only a blank line and the comment may be added;
  every line of a key sets the new value, and there is one; applying the same update again changes
  nothing.
\<close>

theorem ledger_config_edited_in_place:
  assumes "update_ledger_config reader patch file = Inr (text', c)"
    and "no_newline (lc_ref c)" "no_newline (str_or (lc_parent_ref c) [])"
  shows "edited_in_place (config_value c) (text_lines (stripped_file file)) (text_lines (strip text'))
    \<and> apply_ledger_patch (config_value c) (strip text') = text'"
  using edited_config [OF assms] .

theorem ledger_config_edited_in_place_witness:
  "case update_ledger_config ex_config_reader (no_patch\<lparr>lp_ref := Some ''topic''\<rparr>) (Some ex_config_text) of
     Inl _ \<Rightarrow> False
   | Inr (text', c) \<Rightarrow> lc_ref c = ''topic'' \<and> lc_next_task_number c = 4
       \<and> edited_in_place (config_value c) (text_lines (strip ex_config_text)) (text_lines (strip text'))"
proof -
  have "case update_ledger_config ex_config_reader (no_patch\<lparr>lp_ref := Some ''topic''\<rparr>) (Some ex_config_text) of
     Inl _ \<Rightarrow> False
   | Inr (text', c) \<Rightarrow> lc_ref c = ''topic'' \<and> lc_next_task_number c = 4 \<and> lc_parent_ref c = None"
    by code_simp
  then show ?thesis
    by (auto split: sum.splits prod.splits dest!: ledger_config_edited_in_place
        simp: no_newline_def str_or_def stripped_file_def)
qed




end
